(* ===== verification/Prelude.thy ===== *)
theory Prelude
  imports Main "HOL-Library.Option_ord" "HOL-Library.Product_Lexorder"
begin

text \<open>
  Shared vocabulary of the development.  The program is Python over SQLite, so this theory
  fixes how the recurring idioms of both are read in HOL: text columns and
  \<open>str(x or "")\<close>, \<open>COALESCE\<close>, comparison with NULL, time stamps kept as text, a table
  as the list of its rows in rowid order, \<open>SELECT ... WHERE id=?\<close>, a conditional
  \<open>UPDATE\<close> and its row count.  It also holds the interfaces (locales) through which
  the components are verified and the generic lemmas their proofs share.
\<close>

named_theorems text_eval \<comment> \<open>evaluated applications of the text functions to literals\<close>
named_theorems table_simps \<comment> \<open>tables under UPDATE and INSERT\<close>

subsection \<open>Text\<close>

text \<open>
  Texts are ASCII: \<open>str.upper\<close> and SQLite's \<open>UPPER\<close> agree there.
\<close>

definition upper_char :: "char \<Rightarrow> char" where
  "upper_char c = (let n = (of_char c :: nat) in
     if 97 \<le> n \<and> n \<le> 122 then char_of (n - 32) else c)"

definition lower_char :: "char \<Rightarrow> char" where
  "lower_char c = (let n = (of_char c :: nat) in
     if 65 \<le> n \<and> n \<le> 90 then char_of (n + 32) else c)"

definition upper :: "string \<Rightarrow> string" where
  "upper s = map upper_char s"

definition lower :: "string \<Rightarrow> string" where
  "lower s = map lower_char s"

definition is_space :: "char \<Rightarrow> bool" where
  "is_space c = (let n = (of_char c :: nat) in
     n = 32 \<or> 9 \<le> n \<and> n \<le> 13 \<or> 28 \<le> n \<and> n \<le> 31)"

definition strip :: "string \<Rightarrow> string" where
  "strip s = rev (dropWhile is_space (rev (dropWhile is_space s)))"

text \<open>\<open>str(x or "")\<close> of a nullable text column, and the truth value of one.\<close>

definition text_of :: "string option \<Rightarrow> string" where
  "text_of t = (case t of None \<Rightarrow> [] | Some s \<Rightarrow> s)"

definition truthy :: "string option \<Rightarrow> bool" where
  "truthy t = (text_of t \<noteq> [])"

text \<open>\<open>int(x or 0)\<close> and \<open>COALESCE(x, 0)\<close> of a nullable integer column.\<close>

definition or0 :: "int option \<Rightarrow> int" where
  "or0 x = (case x of None \<Rightarrow> 0 | Some i \<Rightarrow> i)"

definition coalesce :: "'a option \<Rightarrow> 'a option \<Rightarrow> 'a option" where
  "coalesce a b = (case a of None \<Rightarrow> b | Some _ \<Rightarrow> a)"

text \<open>SQL equality: NULL equals nothing, not even NULL.\<close>

definition sql_eq :: "'a option \<Rightarrow> 'a option \<Rightarrow> bool" where
  "sql_eq a b = (a \<noteq> None \<and> a = b)"

lemma text_of_simps [simp]: "text_of None = []" "text_of (Some s) = s"
  by (simp_all add: text_of_def)

lemma truthy_simps [simp]: "\<not> truthy None" "truthy (Some s) = (s \<noteq> [])"
  by (simp_all add: truthy_def)

lemma truthyE: "truthy t \<Longrightarrow> (\<And>s. t = Some s \<Longrightarrow> s \<noteq> [] \<Longrightarrow> P) \<Longrightarrow> P"
  by (cases t) auto

lemma or0_simps [simp]: "or0 None = 0" "or0 (Some i) = i"
  by (simp_all add: or0_def)

lemma coalesce_simps [simp]: "coalesce None b = b" "coalesce (Some x) b = Some x"
  by (simp_all add: coalesce_def)

lemma coalesce_eq_None_iff [simp]: "coalesce a b = None \<longleftrightarrow> a = None \<and> b = None"
  by (cases a) auto

lemma coalesce_Some_not_None [simp]: "coalesce a (Some b) \<noteq> None"
  by simp

lemma sql_eq_simps [simp]:
  "\<not> sql_eq None b" "\<not> sql_eq a None" "sql_eq (Some x) (Some y) = (x = y)"
  "sql_eq (Some x) b = (b = Some x)" "sql_eq a (Some y) = (a = Some y)"
  by (auto simp: sql_eq_def)

lemma length_upper [simp]: "length (upper s) = length s"
  by (simp add: upper_def)

lemma upper_Nil [simp]: "upper [] = []"
  by (simp add: upper_def)

lemma upper_Cons: "upper (c # s) = upper_char c # upper s"
  by (simp add: upper_def)

lemma upper_char_idem [simp]: "upper_char (upper_char c) = upper_char c"
  by (auto simp: upper_char_def Let_def)

lemma upper_idem [simp]: "upper (upper s) = upper s"
  by (simp add: upper_def)

lemma dropWhile_idem: "dropWhile P (dropWhile P xs) = dropWhile P xs"
  by (induction xs) auto

lemma strip_idem [simp]: "strip (strip s) = strip s"
proof -
  let ?t = "dropWhile is_space s"
  let ?u = "rev (dropWhile is_space (rev ?t))"
  have "dropWhile is_space ?u = ?u"
  proof (cases ?u)
    case (Cons c cs)
    have "?t = ?u @ rev (takeWhile is_space (rev ?t))"
      by (metis rev_append rev_rev_ident takeWhile_dropWhile_id)
    with Cons have "?t = c # cs @ rev (takeWhile is_space (rev ?t))" by simp
    then have "\<not> is_space c" using hd_dropWhile [of is_space s] by (metis list.distinct(1) list.sel(1))
    then show ?thesis unfolding Cons by simp
  next
    case Nil
    show ?thesis unfolding Nil by simp
  qed
  then show ?thesis unfolding strip_def by (simp add: dropWhile_idem)
qed

lemma strip_Nil [simp]: "strip [] = []"
  by (simp add: strip_def)

subsection \<open>Time\<close>

text \<open>
  A \<open>datetime\<close> is the number of microseconds since a fixed epoch.  A time stamp column
  holds text, either \<open>YYYY-MM-DD HH:MM:SS\<close> or the same with milliseconds; the text
  order of two stamps is the lexicographic order of (second, fraction), where a missing
  fraction sorts first because the shorter text is a prefix.
\<close>

type_synonym datetime = int

datatype stamp = Stamp (stamp_sec: int) (stamp_ms: "int option")

definition stamp_key :: "stamp \<Rightarrow> int \<times> int option" where
  "stamp_key s = (stamp_sec s, stamp_ms s)"

lemma stamp_key_inj: "stamp_key a = stamp_key b \<longleftrightarrow> a = b"
  by (cases a; cases b) (simp add: stamp_key_def)

instantiation stamp :: linorder
begin

definition less_eq_stamp :: "stamp \<Rightarrow> stamp \<Rightarrow> bool" where
  "less_eq_stamp a b \<longleftrightarrow> stamp_key a \<le> stamp_key b"

definition less_stamp :: "stamp \<Rightarrow> stamp \<Rightarrow> bool" where
  "less_stamp a b \<longleftrightarrow> stamp_key a < stamp_key b"

instance
proof
  fix a b c :: stamp
  show "a < b \<longleftrightarrow> a \<le> b \<and> \<not> b \<le> a"
    unfolding less_eq_stamp_def less_stamp_def by (rule less_le_not_le)
  show "a \<le> a" by (simp add: less_eq_stamp_def)
  show "a \<le> b \<Longrightarrow> b \<le> c \<Longrightarrow> a \<le> c"
    unfolding less_eq_stamp_def by (rule order_trans)
  show "a \<le> b \<Longrightarrow> b \<le> a \<Longrightarrow> a = b"
    unfolding less_eq_stamp_def by (simp add: stamp_key_inj [symmetric])
  show "a \<le> b \<or> b \<le> a"
    unfolding less_eq_stamp_def by (rule linear)
qed

end

lemma stamp_le_simps [simp]:
  "Stamp s f \<le> Stamp s' f' \<longleftrightarrow> s < s' \<or> s = s' \<and> f \<le> f'"
  "Stamp s f < Stamp s' f' \<longleftrightarrow> s < s' \<or> s = s' \<and> f < f'"
  by (auto simp: less_eq_stamp_def less_stamp_def stamp_key_def less_eq_prod_def less_prod_def)

definition seconds :: "int \<Rightarrow> datetime" where
  "seconds n = n * 1000000"

definition fmt_sec :: "datetime \<Rightarrow> stamp" where
  "fmt_sec t = Stamp (t div 1000000) None"

definition fmt_ms :: "datetime \<Rightarrow> stamp" where
  "fmt_ms t = Stamp (t div 1000000) (Some (t mod 1000000 div 1000))"

definition stamp_dt :: "stamp \<Rightarrow> datetime" where
  "stamp_dt s = stamp_sec s * 1000000 + 1000 * or0 (stamp_ms s)"

lemma stamp_dt_fmt_sec: "stamp_dt (fmt_sec t) = t - t mod 1000000"
  by (simp add: stamp_dt_def fmt_sec_def minus_mod_eq_div_mult)

lemma stamp_dt_fmt_sec_le: "stamp_dt (fmt_sec t) \<le> t"
  by (simp add: stamp_dt_fmt_sec)

lemma stamp_dt_fmt_sec_gt: "t - 1000000 < stamp_dt (fmt_sec t)"
  using pos_mod_bound [of 1000000 t] by (simp add: stamp_dt_fmt_sec)

lemma stamp_dt_fmt_sec_min: "stamp_dt (fmt_sec (min a b)) \<le> a" "stamp_dt (fmt_sec (min a b)) \<le> b"
  by (rule order_trans [OF stamp_dt_fmt_sec_le], simp)+

lemma fmt_ms_gt: "t < stamp_dt (fmt_ms t) + 1000"
proof -
  have "t = t div 1000000 * 1000000 + t mod 1000000" by simp
  moreover have "t mod 1000000 < 1000 * (t mod 1000000 div 1000) + 1000"
    using pos_mod_bound [of 1000 "t mod 1000000"] div_mult_mod_eq [of "t mod 1000000" 1000] by simp
  ultimately have "t < t div 1000000 * 1000000 + 1000 * (t mod 1000000 div 1000) + 1000" by linarith
  then show ?thesis by (simp add: fmt_ms_def stamp_dt_def)
qed

lemma seconds_mono: "a \<le> b \<Longrightarrow> seconds a \<le> seconds b"
  by (simp add: seconds_def)

lemma fmt_sec_mono: "t \<le> u \<Longrightarrow> fmt_sec t \<le> fmt_sec u"
  by (auto simp: fmt_sec_def dest: zdiv_mono1 [where b = 1000000])

text \<open>The text order of second stamps is the order of the truncated instants.\<close>

lemma fmt_sec_le_iff: "fmt_sec t \<le> fmt_sec u \<longleftrightarrow> stamp_dt (fmt_sec t) \<le> u"
proof -
  have "t div 1000000 \<le> u div 1000000 \<longleftrightarrow> t div 1000000 * 1000000 \<le> u"
    by linarith
  then show ?thesis by (auto simp: fmt_sec_def stamp_dt_def)
qed

subsection \<open>Tables\<close>

definition fetch_by :: "('r \<Rightarrow> int) \<Rightarrow> int \<Rightarrow> 'r list \<Rightarrow> 'r option" where
  "fetch_by key k rows = find (\<lambda>r. key r = k) rows"

definition update_where :: "('r \<Rightarrow> bool) \<Rightarrow> ('r \<Rightarrow> 'r) \<Rightarrow> 'r list \<Rightarrow> 'r list" where
  "update_where P f rows = map (\<lambda>r. if P r then f r else r) rows"

definition rowcount :: "('r \<Rightarrow> bool) \<Rightarrow> 'r list \<Rightarrow> nat" where
  "rowcount P rows = length (filter P rows)"

lemma set_update_where: "set (update_where P f rows) = (\<lambda>r. if P r then f r else r) ` set rows"
  by (simp add: update_where_def)

lemma ball_update_where [table_simps]:
  "(\<forall>r\<in>set (update_where P f rows). I r) \<longleftrightarrow> (\<forall>r\<in>set rows. I (if P r then f r else r))"
  by (auto simp: update_where_def)

lemma length_update_where [simp]: "length (update_where P f rows) = length rows"
  by (simp add: update_where_def)

lemma update_where_Nil [simp]: "update_where P f [] = []"
  by (simp add: update_where_def)

lemma update_where_Cons [simp]:
  "update_where P f (r # rows) = (if P r then f r else r) # update_where P f rows"
  by (simp add: update_where_def)

lemma update_where_append [simp]:
  "update_where P f (rows @ rows') = update_where P f rows @ update_where P f rows'"
  by (simp add: update_where_def)

lemma map_key_update_where [table_simps]:
  "(\<And>r. key (f r) = key r) \<Longrightarrow> map key (update_where P f rows) = map key rows"
  by (simp add: update_where_def)

lemma update_where_none [table_simps]:
  "(\<And>r. r \<in> set rows \<Longrightarrow> \<not> P r) \<Longrightarrow> update_where P f rows = rows"
  by (induction rows) auto

lemma update_where_False [simp]: "update_where (\<lambda>_. False) f rows = rows"
  by (simp add: update_where_none)

lemma rowcount_0_iff [table_simps]: "rowcount P rows = 0 \<longleftrightarrow> (\<forall>r\<in>set rows. \<not> P r)"
  by (simp add: rowcount_def filter_empty_conv)

lemma rowcount_pos_iff [table_simps]: "0 < rowcount P rows \<longleftrightarrow> (\<exists>r\<in>set rows. P r)"
  by (metis bot_nat_0.not_eq_extremum rowcount_0_iff)

lemma rowcount_simps [simp]:
  "rowcount P [] = 0"
  "rowcount P (r # rows) = (if P r then Suc (rowcount P rows) else rowcount P rows)"
  by (simp_all add: rowcount_def)

lemma fetch_by_simps [simp]:
  "fetch_by key k [] = None"
  "fetch_by key k (r # rows) = (if key r = k then Some r else fetch_by key k rows)"
  by (simp_all add: fetch_by_def)

lemma fetch_by_SomeD: "fetch_by key k rows = Some r \<Longrightarrow> r \<in> set rows \<and> key r = k"
  by (induction rows) (auto split: if_splits)

lemma fetch_by_None_iff: "fetch_by key k rows = None \<longleftrightarrow> (\<forall>r\<in>set rows. key r \<noteq> k)"
  by (induction rows) auto

lemma fetch_by_update_where [table_simps]:
  "(\<And>r. key (f r) = key r) \<Longrightarrow>
   fetch_by key k (update_where P f rows)
     = map_option (\<lambda>r. if P r then f r else r) (fetch_by key k rows)"
  by (induction rows) auto

lemma fetch_by_unique:
  "distinct (map key rows) \<Longrightarrow> r \<in> set rows \<Longrightarrow> fetch_by key (key r) rows = Some r"
  by (induction rows) (auto simp: image_iff)

lemma rowcount_unique:
  assumes "distinct (map key rows)" and "\<And>r. P r \<Longrightarrow> key r = k"
  shows "rowcount P rows \<le> 1"
  using assms(1)
proof (induction rows)
  case Nil
  then show ?case by simp
next
  case (Cons r rows)
  have "rowcount P rows = 0" if "P r"
    using that Cons.prems assms(2) by (force simp: rowcount_0_iff image_iff)
  with Cons show ?case by auto
qed

lemma rowcount_fetched:
  assumes "distinct (map key rows)" and "fetch_by key k rows = Some r"
    and "\<And>q. P q \<longleftrightarrow> key q = k \<and> G q"
  shows "rowcount P rows = (if G r then 1 else 0)"
proof -
  from assms(2) have r: "r \<in> set rows" "key r = k" by (auto dest: fetch_by_SomeD)
  have uniq: "q = r" if "q \<in> set rows" "key q = k" for q
    using that fetch_by_unique [OF assms(1)] assms(2) by fastforce
  show ?thesis
  proof (cases "G r")
    case True
    with r assms(3) have "0 < rowcount P rows" by (auto simp: rowcount_pos_iff)
    moreover have "rowcount P rows \<le> 1"
      using assms(1) by (rule rowcount_unique) (simp add: assms(3))
    ultimately show ?thesis using True by simp
  next
    case False
    with uniq assms(3) have "rowcount P rows = 0" by (auto simp: rowcount_0_iff)
    with False show ?thesis by simp
  qed
qed


text \<open>\<open>SELECT ... ORDER BY key DESC LIMIT 1\<close>.\<close>

definition max_by :: "('r \<Rightarrow> 'k::linorder) \<Rightarrow> 'r list \<Rightarrow> 'r option" where
  "max_by key rows = (case rev (sort_key key rows) of [] \<Rightarrow> None | r # _ \<Rightarrow> Some r)"

lemma max_by_None [simp]: "max_by key rows = None \<longleftrightarrow> rows = []"
proof -
  have "rev (sort_key key rows) = [] \<longleftrightarrow> rows = []"
    by (metis length_0_conv length_rev length_sort)
  then show ?thesis by (auto simp: max_by_def split: list.splits)
qed

lemma max_by_Some:
  assumes "max_by key rows = Some r"
  shows "r \<in> set rows \<and> (\<forall>q\<in>set rows. key q \<le> key r)"
proof -
  from assms obtain rs where "rev (sort_key key rows) = r # rs"
    by (auto simp: max_by_def split: list.splits)
  then have eq: "sort_key key rows = rev rs @ [r]" by (metis rev.simps(2) rev_rev_ident)
  have "sorted (map key (sort_key key rows))" by simp
  then have "\<forall>q\<in>set (sort_key key rows). key q \<le> key r"
    unfolding eq by (auto simp: sorted_append)
  moreover have "r \<in> set (sort_key key rows)" unfolding eq by simp
  ultimately show ?thesis by simp
qed

text \<open>\<open>SELECT ... ORDER BY key LIMIT 1\<close> reads the head of the sorted rows.\<close>

lemma sort_key_Nil_iff [simp]: "sort_key k xs = [] \<longleftrightarrow> xs = []"
  by (metis length_0_conv length_sort)

lemma sort_key_head:
  assumes "sort_key k xs = x # ys"
  shows "x \<in> set xs \<and> (\<forall>y\<in>set xs. k x \<le> k y)"
proof -
  have "sorted (map k (x # ys))" using sorted_sort_key [of k xs] assms by simp
  moreover have "set xs = set (x # ys)" by (metis assms set_sort)
  ultimately show ?thesis by auto
qed

lemma key_inj: "distinct (map key rows) \<Longrightarrow> a \<in> set rows \<Longrightarrow> b \<in> set rows \<Longrightarrow> key a = key b \<Longrightarrow> a = b"
  by (metis distinct_map inj_onD)

subsection \<open>Interfaces\<close>

text \<open>
  What the services rely on from one SQLite table: reading a row by primary key returns a
  row with that key, and a conditional UPDATE that does not write the key changes exactly
  the rows its WHERE clause selects.
\<close>

locale row_store =
  fixes rid :: "'r \<Rightarrow> int"
    and fetch :: "'d \<Rightarrow> int \<Rightarrow> 'r option"
    and change :: "('r \<Rightarrow> bool) \<Rightarrow> ('r \<Rightarrow> 'r) \<Rightarrow> 'd \<Rightarrow> 'd"
  assumes fetch_rid: "fetch d k = Some r \<Longrightarrow> rid r = k"
    and fetch_change: "(\<And>r. rid (f r) = rid r) \<Longrightarrow>
      fetch (change P f d) k = map_option (\<lambda>r. if P r then f r else r) (fetch d k)"
begin

lemma fetch_change_other:
  assumes "\<And>r. rid (f r) = rid r" and "\<And>r. P r \<Longrightarrow> rid r = j" and "k \<noteq> j"
  shows "fetch (change P f d) k = fetch d k"
proof -
  have "\<not> P r" if "fetch d k = Some r" for r
    using that assms(2,3) fetch_rid by blast
  then show ?thesis by (cases "fetch d k") (auto simp: fetch_change [OF assms(1)])
qed

lemma fetch_change_hit:
  assumes "\<And>r. rid (f r) = rid r" and "fetch d k = Some r" and "P r"
  shows "fetch (change P f d) k = Some (f r)"
  using assms by (simp add: fetch_change)

lemma fetch_change_miss:
  assumes "\<And>r. rid (f r) = rid r" and "\<And>r. fetch d k = Some r \<Longrightarrow> \<not> P r"
  shows "fetch (change P f d) k = fetch d k"
  using assms by (cases "fetch d k") (auto simp: fetch_change)

lemma fetch_change_field:
  assumes "\<And>r. rid (f r) = rid r" and "\<And>r. h (f r) = h r"
  shows "map_option h (fetch (change P f d) k) = map_option h (fetch d k)"
  using assms by (cases "fetch d k") (auto simp: fetch_change)

lemma fetch_change_None:
  assumes "\<And>r. rid (f r) = rid r"
  shows "fetch (change P f d) k = None \<longleftrightarrow> fetch d k = None"
  using assms by (simp add: fetch_change)

end

text \<open>
  A service seen from outside: a set of requests, each of which moves the stored state.
  A request may be admissible in some states only.  An invariant every admissible request
  keeps holds after any admissible sequence of them.
\<close>

fun admissible :: "('e \<Rightarrow> 's \<Rightarrow> 's) \<Rightarrow> ('e \<Rightarrow> 's \<Rightarrow> bool) \<Rightarrow> 'e list \<Rightarrow> 's \<Rightarrow> bool" where
  "admissible step ok [] s = True"
| "admissible step ok (e # es) s = (ok e s \<and> admissible step ok es (step e s))"

lemma admissible_append:
  "admissible step ok (es @ fs) s
     \<longleftrightarrow> admissible step ok es s \<and> admissible step ok fs (fold step es s)"
  by (induction es arbitrary: s) auto

locale op_system =
  fixes step :: "'e \<Rightarrow> 's \<Rightarrow> 's"
    and ok :: "'e \<Rightarrow> 's \<Rightarrow> bool"
    and inv :: "'s \<Rightarrow> bool"
  assumes step_inv: "ok e s \<Longrightarrow> inv s \<Longrightarrow> inv (step e s)"
begin

lemma run_inv: "admissible step ok es s \<Longrightarrow> inv s \<Longrightarrow> inv (fold step es s)"
  by (induction es arbitrary: s) (auto intro: step_inv)

lemma run_inv_prefix: "admissible step ok (es @ fs) s \<Longrightarrow> inv s \<Longrightarrow> inv (fold step es s)"
  by (simp add: admissible_append run_inv)

end

text \<open>
  A service whose requests never lower an observed quantity (a version, a cursor): what
  was observed once is a lower bound for ever.
\<close>

locale monotone_system = op_system +
  fixes obs :: "'b \<Rightarrow> 'k \<Rightarrow> int"
  assumes step_mono: "ok e s \<Longrightarrow> inv s \<Longrightarrow> obs s k \<le> obs (step e s) k"
begin

lemma run_mono: "admissible step ok es s \<Longrightarrow> inv s \<Longrightarrow> obs s k \<le> obs (fold step es s) k"
proof (induction es arbitrary: s)
  case Nil
  then show ?case by simp
next
  case (Cons e es)
  then have "obs s k \<le> obs (step e s) k" by (simp add: step_mono)
  also from Cons have "\<dots> \<le> obs (fold step es (step e s)) k"
    by (simp add: step_inv)
  finally show ?case by simp
qed

end

text \<open>
  Two services over the same state, each keeping the invariant and never lowering the
  observed quantity, may be interleaved freely.
\<close>

locale service_pair =
  first: monotone_system step1 ok1 inv obs + second: monotone_system step2 ok2 inv obs
  for step1 :: "'e \<Rightarrow> 's \<Rightarrow> 's" and ok1 :: "'e \<Rightarrow> 's \<Rightarrow> bool"
    and step2 :: "'f \<Rightarrow> 's \<Rightarrow> 's" and ok2 :: "'f \<Rightarrow> 's \<Rightarrow> bool"
    and inv :: "'s \<Rightarrow> bool" and obs :: "'s \<Rightarrow> 'k \<Rightarrow> int"

sublocale service_pair \<subseteq> both: monotone_system "case_sum step1 step2" "case_sum ok1 ok2" inv obs
  by unfold_locales
    (auto intro: first.step_inv second.step_inv first.step_mono second.step_mono split: sum.splits)

end
