(* ===== verification/Python_Values.thy ===== *)
theory Python_Values
  imports Complex_Main Prelude
begin

text \<open>
  The Python values the services receive from \<open>json.loads\<close> and the built-in conversions
  they apply to them: truth value, \<open>int()\<close>, \<open>float()\<close>, \<open>str()\<close>, \<open>dict.get\<close>.  A finite
  float is its exact value; the decoder also lets \<open>NaN\<close> and infinities through.  A dict is
  its list of items, keys distinct.
\<close>

datatype pyfloat = Fin rat | NaN | Inf bool

datatype json =
    JNull
  | JBool bool
  | JInt int
  | JFloat pyfloat
  | JStr string
  | JList "json list"
  | JObj "(string \<times> json) list"

text \<open>\<open>bool(x)\<close>.\<close>

definition jtruthy :: "json \<Rightarrow> bool" where
  "jtruthy j = (case j of JNull \<Rightarrow> False | JBool b \<Rightarrow> b | JInt i \<Rightarrow> i \<noteq> 0 | JFloat x \<Rightarrow> x \<noteq> Fin 0
     | JStr s \<Rightarrow> s \<noteq> [] | JList xs \<Rightarrow> xs \<noteq> [] | JObj xs \<Rightarrow> xs \<noteq> [])"

definition jor :: "json \<Rightarrow> json \<Rightarrow> json" where
  "jor a b = (if jtruthy a then a else b)"

type_synonym dict = "(string \<times> json) list"

definition dget :: "dict \<Rightarrow> string \<Rightarrow> json" where
  "dget d k = (case map_of d k of None \<Rightarrow> JNull | Some v \<Rightarrow> v)"

definition dget_or :: "dict \<Rightarrow> string \<Rightarrow> json \<Rightarrow> json" where
  "dget_or d k dflt = (case map_of d k of None \<Rightarrow> dflt | Some v \<Rightarrow> v)"

subsection \<open>Numbers in texts\<close>

definition is_digit :: "char \<Rightarrow> bool" where
  "is_digit c = (let n = (of_char c :: nat) in 48 \<le> n \<and> n \<le> 57)"

definition digit :: "char \<Rightarrow> int" where
  "digit c = int (of_char c) - 48"

text \<open>Digits with single underscores between them, as \<open>int\<close> and \<open>float\<close> read them.\<close>

fun digits_value :: "int \<Rightarrow> bool \<Rightarrow> string \<Rightarrow> int option" where
  "digits_value acc ok [] = (if ok then Some acc else None)"
| "digits_value acc ok (c # cs) =
     (if is_digit c then digits_value (10 * acc + digit c) True cs
      else if c = CHR ''_'' \<and> ok then digits_value acc False cs
      else None)"

definition signed :: "(string \<Rightarrow> 'a option) \<Rightarrow> ('a \<Rightarrow> 'a) \<Rightarrow> string \<Rightarrow> 'a option" where
  "signed read neg s =
     (case s of
        [] \<Rightarrow> None
      | c # cs \<Rightarrow> if c = CHR ''-'' then map_option neg (read cs)
                  else if c = CHR ''+'' then read cs else read s)"

definition int_of_text :: "string \<Rightarrow> int option" where
  "int_of_text s = signed (digits_value 0 False) uminus (strip s)"

definition split_at :: "(char \<Rightarrow> bool) \<Rightarrow> string \<Rightarrow> string \<times> string option" where
  "split_at P s = (takeWhile (\<lambda>c. \<not> P c) s,
     case dropWhile (\<lambda>c. \<not> P c) s of [] \<Rightarrow> None | _ # rest \<Rightarrow> Some rest)"

text \<open>\<open>digits[.digits]\<close>, one of the two groups possibly empty.\<close>

definition decimal_value :: "string \<Rightarrow> rat option" where
  "decimal_value s =
     (let (whole, frac) = split_at (\<lambda>c. c = CHR ''.'') s;
          places = (case frac of None \<Rightarrow> 0 | Some f \<Rightarrow> length (filter is_digit f))
      in case (if whole = [] then Some 0 else digits_value 0 False whole,
               case frac of None \<Rightarrow> (if whole = [] then None else Some 0)
                 | Some f \<Rightarrow> if f = [] then (if whole = [] then None else Some 0)
                             else digits_value 0 False f) of
           (Some w, Some f) \<Rightarrow> Some (of_int w + of_int f / 10 ^ places)
         | _ \<Rightarrow> None)"

definition scaled :: "rat \<Rightarrow> int \<Rightarrow> rat" where
  "scaled m e = (if 0 \<le> e then m * 10 ^ nat e else m / 10 ^ nat (- e))"

definition neg_float :: "pyfloat \<Rightarrow> pyfloat" where
  "neg_float x = (case x of Fin r \<Rightarrow> Fin (- r) | NaN \<Rightarrow> NaN | Inf b \<Rightarrow> Inf (\<not> b))"

definition unsigned_float :: "string \<Rightarrow> pyfloat option" where
  "unsigned_float s =
     (if lower s = ''nan'' then Some NaN
      else if lower s \<in> {''inf'', ''infinity''} then Some (Inf True)
      else
        (let (mant, expo) = split_at (\<lambda>c. c = CHR ''e'' \<or> c = CHR ''E'') s
         in case (decimal_value mant,
                  case expo of None \<Rightarrow> Some 0 | Some e \<Rightarrow> signed (digits_value 0 False) uminus e) of
              (Some m, Some e) \<Rightarrow> Some (Fin (scaled m e))
            | _ \<Rightarrow> None))"

definition float_of_text :: "string \<Rightarrow> pyfloat option" where
  "float_of_text s = signed unsigned_float neg_float (strip s)"

subsection \<open>Conversions\<close>

text \<open>\<open>_as_int(value, field)\<close>; an infinite float escapes as \<open>OverflowError\<close>.\<close>

definition as_int :: "string \<Rightarrow> json \<Rightarrow> string + int" where
  "as_int field j =
     (let invalid = Inl (''invalid_'' @ field) in
      case j of
        JInt i \<Rightarrow> Inr i
      | JFloat (Fin r) \<Rightarrow> Inr (if 0 \<le> r then \<lfloor>r\<rfloor> else \<lceil>r\<rceil>)
      | JFloat (Inf _) \<Rightarrow> Inl ''OverflowError''
      | JStr s \<Rightarrow> (case int_of_text s of None \<Rightarrow> invalid | Some i \<Rightarrow> Inr i)
      | _ \<Rightarrow> invalid)"

text \<open>\<open>float(value)\<close> of a value that is not a bool; \<open>None\<close> is the caught exception.\<close>

definition as_float :: "json \<Rightarrow> pyfloat option" where
  "as_float j =
     (case j of
        JInt i \<Rightarrow> Some (Fin (of_int i))
      | JFloat x \<Rightarrow> Some x
      | JStr s \<Rightarrow> float_of_text s
      | _ \<Rightarrow> None)"

text \<open>
  \<open>str(value).strip()\<close> looked up in a table of codes: only a text can be found there.
\<close>

definition code_text :: "json \<Rightarrow> string" where
  "code_text j = (case j of JStr s \<Rightarrow> strip s | _ \<Rightarrow> ''<value>'')"

text \<open>\<open>str(n)\<close> of an integer; of other values that are not texts, \<open>render\<close> is \<open>str\<close>.\<close>

fun nat_digits :: "nat \<Rightarrow> string" where
  "nat_digits n = (if n < 10 then [char_of (48 + n)] else nat_digits (n div 10) @ [char_of (48 + n mod 10)])"

definition int_text :: "int \<Rightarrow> string" where
  "int_text i = (if i < 0 then CHR ''-'' # nat_digits (nat (- i)) else nat_digits (nat i))"

definition py_str :: "(json \<Rightarrow> string) \<Rightarrow> json \<Rightarrow> string" where
  "py_str render j = (case j of JStr s \<Rightarrow> s | JInt i \<Rightarrow> int_text i
     | JBool b \<Rightarrow> (if b then ''True'' else ''False'') | _ \<Rightarrow> render j)"

text \<open>The value SQLite keeps for a float: NaN becomes NULL.\<close>

definition float_column :: "pyfloat \<Rightarrow> rat option" where
  "float_column x = (case x of Fin r \<Rightarrow> Some r | _ \<Rightarrow> None)"

text \<open>
  The value sqlite3 binds to a parameter: containers and integers over 64 bits are refused.
\<close>

definition bound_value :: "json \<Rightarrow> string + json option" where
  "bound_value j =
     (case j of
        JNull \<Rightarrow> Inr None
      | JInt i \<Rightarrow> if - (2 ^ 63) \<le> i \<and> i < 2 ^ 63 then Inr (Some j) else Inl ''OverflowError''
      | JFloat NaN \<Rightarrow> Inr None
      | JList _ \<Rightarrow> Inl ''ProgrammingError''
      | JObj _ \<Rightarrow> Inl ''ProgrammingError''
      | _ \<Rightarrow> Inr (Some j))"

text \<open>\<open>d[k] = v\<close>: in place when the key is there, at the end otherwise.\<close>

fun dput :: "string \<Rightarrow> json \<Rightarrow> dict \<Rightarrow> dict" where
  "dput k v [] = [(k, v)]"
| "dput k v ((k', w) # d) = (if k' = k then (k, v) # d else (k', w) # dput k v d)"

text \<open>Sequencing of fallible steps: the first error ends the computation.\<close>

definition andthen :: "'e + 'a \<Rightarrow> ('a \<Rightarrow> 'e + 'b) \<Rightarrow> 'e + 'b" where
  "andthen r f = (case r of Inl e \<Rightarrow> Inl e | Inr x \<Rightarrow> f x)"

definition require :: "bool \<Rightarrow> 'e \<Rightarrow> 'e + unit" where
  "require ok e = (if ok then Inr () else Inl e)"

lemma andthen_simps [simp]: "andthen (Inl e) f = Inl e" "andthen (Inr x) f = f x"
  by (simp_all add: andthen_def)

lemma andthen_Inr_iff: "andthen r f = Inr y \<longleftrightarrow> (\<exists>x. r = Inr x \<and> f x = Inr y)"
  by (cases r) auto

lemma dget_dput [simp]: "dget (dput k v d) k' = (if k' = k then v else dget d k')"
  by (induction d) (auto simp: dget_def)

lemma require_Inr_iff [simp]: "require ok e = Inr u \<longleftrightarrow> ok"
  by (simp add: require_def)

text \<open>Keep the first occurrence of each value.\<close>

fun dedupe :: "'a list \<Rightarrow> 'a list \<Rightarrow> 'a list" where
  "dedupe seen [] = []"
| "dedupe seen (x # xs) = (if x \<in> set seen then dedupe seen xs else x # dedupe (x # seen) xs)"

lemma set_dedupe: "set (dedupe seen xs) = set xs - set seen"
  by (induction xs arbitrary: seen) auto

lemma distinct_dedupe: "distinct (dedupe seen xs)"
  by (induction xs arbitrary: seen) (auto simp: set_dedupe)

end
