(* ===== verification/Platform_State.thy ===== *)
theory Platform_State
  imports Python_Values
begin

text \<open>
  The persistent state of the platform as the modelled services see it: one record per
  table, holding the columns those services read or write (column names as in
  \<open>db.py\<close> and \<open>migrations.py\<close>, prefixed by the table's initials), and the record
  \<open>platform\<close> of all tables.  A nullable column is an option, a NOT NULL column is not.
  Every service function takes the platform and returns the new one; a transaction that is
  rolled back returns the platform it started from.  The two outboxes
  (\<open>latency_events\<close>, \<open>expiry_tasks\<close>) collect what the services hand to the telemetry
  table and to the task queue.
\<close>

subsection \<open>Rooms, sessions and discussions\<close>

record group_row =
  g_id :: int
  g_state :: string
  g_version :: int
  g_lock_token :: "string option"
  g_lock_expires_at :: "stamp option"
  g_active_intervention_run_id :: "int option"
  g_auto_intervention_enabled :: "int option"
  g_last_message_sequence :: "int option"
  g_last_intervention_at :: "stamp option"

record session_row =
  es_id :: int
  es_status :: "string option"
  es_agent_mode :: "string option"
  es_strategy_agent_enabled :: "int option"
  es_emotion_agent_enabled :: "int option"
  es_research_state_monitoring_enabled :: "int option"
  es_session_no :: "int option"
  es_task_id :: "int option"
  es_time_limit_minutes :: "int option"
  es_end_time :: "stamp option"
  es_updated_at :: "stamp option"

text \<open>The two lists of student ids are stored as JSON text, sorted and without repetitions.\<close>

record discussion_row =
  d_id :: int
  d_session_id :: int
  d_group_id :: int
  d_status :: string
  d_started_at :: "stamp option"
  d_created_at :: "stamp option"
  d_expected_student_ids :: "int list"
  d_ready_student_ids :: "int list"
  d_expected_student_count :: int
  d_ready_student_count :: int
  d_deadline :: "stamp option"
  d_submitted_at :: "stamp option"
  d_auto_submitted_at :: "stamp option"
  d_updated_at :: "stamp option"

record entry_row =
  en_discussion_id :: int
  en_student_id :: int
  en_entered_at :: stamp
  en_ready_at :: "stamp option"
  en_last_seen_at :: "stamp option"
  en_created_at :: stamp
  en_updated_at :: stamp

record task_row =
  t_id :: int
  t_agent_intervention_enabled :: "int option"
  t_time_limit_minutes :: "int option"

record control_row =
  gc_group_id :: int
  gc_session_id :: int
  gc_agent_paused :: "int option"

record user_row =
  u_id :: int
  u_role :: "string option"
  u_username :: string

record member_row =
  gm_group_id :: int
  gm_user_id :: int

record message_row =
  m_id :: int
  m_group_id :: int
  m_user_id :: int
  m_session_id :: "int option"
  m_discussion_id :: "int option"
  m_sequence :: "int option"
  m_role :: "string option"
  m_sender_type :: "string option"
  m_session_no :: "int option"
  m_task_id :: "int option"
  m_content :: "string option"
  m_created_at :: "stamp option"
  m_client_message_id :: "string option"
  m_intervention_run_id :: "int option"
  m_strategy_id :: "string option"
  m_agent_type :: "string option"
  m_trigger_source :: "string option"
  m_linked_log_id :: "int option"

subsection \<open>Pipeline and intervention runs\<close>

text \<open>
  The columns of a run in which the second stage records what it found and decided; JSON
  columns hold the value that was serialized, a raw response either the text of the model
  or the serialized answer.
\<close>

record stage2_facts =
  sf_raw_sub_state_code :: "json option"
  sf_sub_category :: "string option"
  sf_secondary_tags :: json
  sf_confidence :: "rat option"
  sf_reason :: "json option"
  sf_start_sequence :: "int option"
  sf_end_sequence :: "int option"
  sf_evidence_message_ids :: "int list"
  sf_segments :: "json list"
  sf_detected_self_regulation :: "int option"
  sf_fresh_detected_self_regulation :: "int option"
  sf_inhibition_reason :: "json option"
  sf_suppression_type :: "string option"
  sf_suppression_strategy_id :: "string option"
  sf_suppression_evidence_message_ids :: "int list"
  sf_suppression_source_batch_id :: "int option"
  sf_suppression_source_segment_id :: "int option"
  sf_suppression_decision_reason :: "string option"
  sf_suppression_decision_at :: "stamp option"
  sf_model_name :: "string option"
  sf_model_version :: "string option"
  sf_prompt_version :: "string option"
  sf_raw_response :: "(string + json) option"
  sf_strategy_candidate_ids :: "string list"
  sf_strategy_pool :: "string list"
  sf_strategy_source :: "string option"
  sf_strategy_library_version :: "string option"
  sf_strategy_library_hash :: "string option"

text \<open>The unique key of a run, structured as the format string it is built from.\<close>

datatype run_key =
    Stage2_Key int int int int int string
      \<comment> \<open>\<open>stage2:g={group}:sid={session}:did={discussion}:range={start}-{end}:trigger={trigger}\<close>\<close>
  | Other_Key string

text \<open>
  The observation columns of \<open>strategy_pipeline_runs\<close>; \<open>observation_details_json\<close> always
  holds an object, kept decoded, and the seconds are REAL.
\<close>

record observation =
  ob_status :: "string option"
  ob_started_at :: "stamp option"
  ob_first_response_sequence :: "int option"
  ob_first_response_seconds :: "rat option"
  ob_window_start_sequence :: "int option"
  ob_window_end_sequence :: "int option"
  ob_completed_at :: "stamp option"
  ob_result :: "string option"
  ob_assessment_run_id :: "int option"
  ob_assessment_batch_id :: "int option"
  ob_reintervention_run_id :: "int option"
  ob_previous_sub_state_code :: "string option"
  ob_current_sub_state_code :: "string option"
  ob_details :: dict

definition no_observation :: observation where
  "no_observation = \<lparr>ob_status = None, ob_started_at = None, ob_first_response_sequence = None,
     ob_first_response_seconds = None, ob_window_start_sequence = None, ob_window_end_sequence = None,
     ob_completed_at = None, ob_result = None, ob_assessment_run_id = None, ob_assessment_batch_id = None,
     ob_reintervention_run_id = None, ob_previous_sub_state_code = None, ob_current_sub_state_code = None,
     ob_details = []\<rparr>"

record pipeline_row =
  p_id :: int
  p_group_id :: int
  p_session_id :: "int option"
  p_discussion_id :: "int option"
  p_task_id :: "int option"
  p_trigger_source :: "string option"
  p_trigger_message_id :: "int option"
  p_trigger_priority :: "int option"
  p_input_start_sequence :: "int option"
  p_input_cutoff_student_sequence :: "int option"
  p_assessment_batch_id :: "int option"
  p_assessment_owner_pipeline_run_id :: "int option"
  p_coarse_state_code :: "string option"
  p_coarse_should_escalate :: "int option"
  p_canonical_sub_state_code :: "string option"
  p_should_intervene :: "int option"
  p_latest_state :: "string option"
  p_latest_should_intervene :: "int option"
  p_latest_state_pipeline_run_id :: "int option"
  p_stage1_status :: "string option"
  p_stage2_status :: "string option"
  p_stage2_started_at :: "stamp option"
  p_stage2_completed_at :: "stamp option"
  p_stage3_status :: "string option"
  p_publish_status :: "string option"
  p_final_status :: "string option"
  p_skip_reason :: "string option"
  p_failure_code :: "string option"
  p_failure_detail :: "string option"
  p_room_lock_token :: "string option"
  p_room_lock_acquired_at :: "stamp option"
  p_room_lock_released_at :: "stamp option"
  p_parent_run_id :: "int option"
  p_superseded_by_run_id :: "int option"
  p_replaced_by_pipeline_run_id :: "int option"
  p_replacement_reason :: "string option"
  p_replacement_trigger_message_id :: "int option"
  p_replacement_cutoff_sequence :: "int option"
  p_updated_at :: "stamp option"
  p_session_no :: "int option"
  p_pipeline_mode :: string
  p_input_end_sequence :: "int option"
  p_trigger_level_state :: "string option"
  p_inhibition_strategy_id :: "string option"
  p_selected_strategy_id :: "string option"
  p_generated_intervention_text :: "string option"
  p_validated_intervention_text :: "string option"
  p_published_message_id :: "int option"
  p_idempotency_key :: "run_key option"
  p_facts :: stage2_facts
  p_published_at :: "stamp option"
  p_observation :: observation
  p_created_at :: "stamp option"
  p_stage3_started_at :: "stamp option"
  p_stage3_completed_at :: "stamp option"
  p_latest_sequence_at_publish :: "int option"

record intervention_row =
  ir_id :: int
  ir_group_id :: int
  ir_session_id :: "int option"
  ir_strategy_pipeline_run_id :: "int option"
  ir_agent_type :: "string option"
  ir_trigger_type :: "string option"
  ir_status :: "string option"
  ir_decision :: "string option"
  ir_publish_status :: "string option"
  ir_skip_reason :: "string option"
  ir_failure_reason :: "string option"
  ir_completed_at :: "stamp option"
  ir_lock_acquired :: "int option"
  ir_assessment_batch_id :: "int option"
  ir_target_segment_id :: "int option"
  ir_reason_code :: "string option"
  ir_discussion_id :: "int option"
  ir_session_no :: "int option"
  ir_task_id :: "int option"
  ir_cutoff_sequence :: "int option"
  ir_strategy_id :: "string option"
  ir_generated_message :: "string option"
  ir_message_id :: "int option"
  ir_lock_token :: "string option"
  ir_started_at :: "stamp option"
  ir_published_at :: "stamp option"

record help_row =
  hr_id :: int
  hr_group_id :: int
  hr_session_id :: "int option"
  hr_discussion_id :: "int option"
  hr_status :: "string option"
  hr_handling_status :: "string option"
  hr_failure_reason :: "string option"
  hr_handled_at :: "stamp option"
  hr_completed_at :: "stamp option"
  hr_source_message_id :: "int option"
  hr_help_request_message_sequence :: "int option"

subsection \<open>Incremental state assessment\<close>

text \<open>The four replacement columns, which a batch carries twice.\<close>

record replacement =
  rp_of_pipeline_run_id :: "int option"
  rp_reason :: "string option"
  rp_trigger_message_id :: "int option"
  rp_cutoff_sequence :: "int option"

record continuation =
  ct_trigger_type :: "string option"
  ct_trigger_sequence :: "int option"
  ct_request_priority :: int
  ct_candidate_start_sequence :: "int option"
  ct_candidate_end_sequence :: "int option"
  ct_replacement :: replacement

record batch_row =
  b_id :: int
  b_group_id :: int
  b_session_id :: int
  b_discussion_id :: int
  b_session_no :: "int option"
  b_task_id :: "int option"
  b_candidate_start_sequence :: int
  b_candidate_end_sequence :: int
  b_context_start_sequence :: "int option"
  b_context_end_sequence :: "int option"
  b_trigger_type :: string
  b_trigger_sequence :: "int option"
  b_window_key :: string
  b_status :: string
  b_rerun_requested :: bool
  b_request_priority :: int
  b_last_trigger_sequence :: "int option"
  b_continuation :: continuation
  b_replacement :: replacement
  b_attempt_count :: int
  b_max_attempts :: int
  b_next_retry_at :: "stamp option"
  b_enqueued_at :: "stamp option"
  b_model :: "string option"
  b_prompt_version :: "string option"
  b_raw_response :: "string option"
  b_parsed_response :: "json option"
  b_error_code :: "string option"
  b_error_detail :: "string option"
  b_student_sequences :: "int list option"
  b_terminal_status :: "string option"
  b_terminal_at :: "stamp option"
  b_fallback_action :: "string option"
  b_fallback_segment_count :: int
  b_started_at :: "stamp option"
  b_completed_at :: "stamp option"
  b_created_at :: stamp
  b_updated_at :: "stamp option"

record cursor_row =
  c_group_id :: int
  c_session_id :: int
  c_discussion_id :: int
  c_session_no :: "int option"
  c_task_id :: "int option"
  c_last_finalized_student_sequence :: int
  c_last_scheduled_student_sequence :: int
  c_last_assessment_requested_at :: "stamp option"
  c_last_assessment_completed_at :: "stamp option"
  c_last_scheduling_completed_at :: "stamp option"
  c_last_intervention_sequence :: "int option"
  c_observation_started_sequence :: "int option"
  c_observation_status :: string
  c_updated_at :: stamp

text \<open>
  A row of \<open>collaboration_state_segments\<close> of kind \<open>message_range\<close>.  JSON columns hold the
  value that was serialized; \<open>sg_dedupe_key\<close> is the unique key the inserts use, structured
  as the format string it is built from.
\<close>

datatype dedupe_key =
    Segment_Key int int         \<comment> \<open>\<open>assessment_batch:{id}:segment:{order}\<close>\<close>
  | Rule_Key int int            \<comment> \<open>\<open>assessment_batch:{id}:degraded_rule:{assessment}\<close>\<close>
  | Unclassified_Key int int int \<comment> \<open>\<open>assessment_batch:{id}:batch_unclassified:{start}-{end}\<close>\<close>

record segment_row =
  sg_id :: int
  sg_group_id :: int
  sg_session_id :: int
  sg_session_no :: "int option"
  sg_task_id :: "int option"
  sg_discussion_id :: int
  sg_state_code :: string
  sg_raw_sub_state_code :: "json option"
  sg_canonical_sub_state_code :: "string option"
  sg_secondary_tags :: "json option"
  sg_should_intervene :: "int option"
  sg_selected_strategy_id :: "string option"
  sg_source_stage :: "string option"
  sg_assessment_batch_id :: int
  sg_start_sequence :: int
  sg_end_sequence :: int
  sg_evidence_sequences :: "int list"
  sg_sub_state_confidence :: "rat option"
  sg_confidence :: "rat option"
  sg_fallback_reason :: "string option"
  sg_source :: string
  sg_assessment_status :: string
  sg_segment_order :: int
  sg_is_active_at_batch_end :: int
  sg_trigger_type :: string
  sg_assessment_id :: "int option"
  sg_analysis_anchor :: int
  sg_analysis_window_start :: int
  sg_analysis_window_end :: int
  sg_prompt_version :: "string option"
  sg_is_finalized :: int
  sg_dedupe_key :: dedupe_key
  sg_created_at :: stamp
  sg_updated_at :: stamp
  sg_strategy_pipeline_run_id :: "int option"
  sg_coarse_state_code :: "string option"
  sg_strategy_library_version :: "string option"
  sg_intervention_run_id :: "int option"
  sg_intervention_published_at :: "stamp option"
  sg_intervention_disposition :: "string option"

text \<open>
  A rule assessment (\<open>state_assessments\<close>).  The two JSON columns hold the decoded value,
  \<open>JNull\<close> when the column is NULL or does not decode.
\<close>

record rule_assessment_row =
  ra_id :: int
  ra_group_id :: int
  ra_session_id :: int
  ra_discussion_id :: int
  ra_rule_state_code :: "string option"
  ra_assessment_status :: "string option"
  ra_confidence :: "rat option"
  ra_state_score :: "rat option"
  ra_rule_assessment :: json
  ra_context :: json

subsection \<open>Documents and submissions\<close>

text \<open>
  The columns of a document the collaboration server writes are kept together in its body;
  \<open>y_state\<close> is a BLOB.  A submission row is read by no modelled code; the columns that are
  always NULL or 0 here are left out.
\<close>

record content =
  ct_json :: "string option"
  ct_html :: "string option"
  ct_text :: "string option"

record document_body =
  db_content :: content
  db_y_state :: "string option"
  db_state_revision :: int

record document_row =
  doc_id :: int
  doc_session_id :: "int option"
  doc_group_id :: int
  doc_task_id :: int
  doc_session_no :: int
  doc_body :: document_body
  doc_status :: string
  doc_created_by :: int
  doc_updated_at :: stamp
  doc_submitted_at :: "stamp option"

record prepare_row =
  sp_document_id :: int
  sp_freeze_id :: string
  sp_state_revision :: int
  sp_committed :: int
  sp_created_by :: int
  sp_created_at :: stamp

record checkpoint_row =
  cp_document_id :: int
  cp_state_revision :: int
  cp_reason :: string
  cp_y_state :: "string option"
  cp_content :: content
  cp_created_by :: int
  cp_created_at :: stamp

record submission_row =
  su_id :: int
  su_group_id :: int
  su_user_id :: int
  su_task_id :: "int option"
  su_session_no :: "int option"
  su_content :: "string option"
  su_submission_source :: string
  su_submit_reason :: string
  su_timeout_at :: "stamp option"
  su_submitted_at :: stamp

text \<open>A row of \<open>intervention_logs\<close>, less the columns that only describe the strategy.\<close>

record log_row =
  il_id :: int
  il_group_id :: int
  il_intervention_run_id :: "int option"
  il_push_mode :: string
  il_message :: "string option"
  il_strategy_id :: "string option"
  il_session_id :: "int option"
  il_discussion_id :: "int option"
  il_intervention_index :: int
  il_message_id :: int
  il_created_at :: stamp

subsection \<open>Outboxes and the whole state\<close>

record latency_event =
  le_stage :: string
  le_event :: string
  le_pipeline_run_id :: "int option"
  le_assessment_batch_id :: "int option"
  le_lock_owner :: "int option"
  le_lock_token :: "string option"
  le_reason :: "string option"
  le_occurred_at :: stamp

record expiry_task =
  et_group_id :: int
  et_lock_token :: string
  et_delay_seconds :: int

record platform =
  groups :: "group_row list"
  sessions :: "session_row list"
  discussions :: "discussion_row list"
  tasks :: "task_row list"
  controls :: "control_row list"
  users :: "user_row list"
  messages :: "message_row list"
  pipelines :: "pipeline_row list"
  interventions :: "intervention_row list"
  help_requests :: "help_row list"
  batches :: "batch_row list"
  cursors :: "cursor_row list"
  segments :: "segment_row list"
  rule_assessments :: "rule_assessment_row list"
  entries :: "entry_row list"
  members :: "member_row list"
  documents :: "document_row list"
  prepares :: "prepare_row list"
  checkpoints :: "checkpoint_row list"
  submissions :: "submission_row list"
  intervention_logs :: "log_row list"
  current_session_setting :: "int option"
  next_discussion_id :: int
  next_submission_id :: int
  next_batch_id :: int
  next_segment_id :: int
  next_pipeline_id :: int
  next_message_id :: int
  next_intervention_id :: int
  next_log_id :: int
  latency_events :: "latency_event list"
  expiry_tasks :: "expiry_task list"

subsection \<open>Access\<close>

text \<open>The state after a transaction: an exception rolls it back.\<close>

definition committed :: "platform \<Rightarrow> 'e + ('a \<times> platform) \<Rightarrow> platform" where
  "committed d r = (case r of Inl _ \<Rightarrow> d | Inr q \<Rightarrow> snd q)"

definition fetch_group :: "platform \<Rightarrow> int \<Rightarrow> group_row option" where
  "fetch_group d k = fetch_by g_id k (groups d)"

definition fetch_pipeline :: "platform \<Rightarrow> int \<Rightarrow> pipeline_row option" where
  "fetch_pipeline d k = fetch_by p_id k (pipelines d)"

definition fetch_intervention :: "platform \<Rightarrow> int \<Rightarrow> intervention_row option" where
  "fetch_intervention d k = fetch_by ir_id k (interventions d)"

definition fetch_help :: "platform \<Rightarrow> int \<Rightarrow> help_row option" where
  "fetch_help d k = fetch_by hr_id k (help_requests d)"

definition fetch_batch :: "platform \<Rightarrow> int \<Rightarrow> batch_row option" where
  "fetch_batch d k = fetch_by b_id k (batches d)"

definition fetch_session :: "platform \<Rightarrow> int \<Rightarrow> session_row option" where
  "fetch_session d k = fetch_by es_id k (sessions d)"

definition change_groups ::
    "(group_row \<Rightarrow> bool) \<Rightarrow> (group_row \<Rightarrow> group_row) \<Rightarrow> platform \<Rightarrow> platform" where
  "change_groups P f d = d\<lparr>groups := update_where P f (groups d)\<rparr>"

definition change_pipelines ::
    "(pipeline_row \<Rightarrow> bool) \<Rightarrow> (pipeline_row \<Rightarrow> pipeline_row) \<Rightarrow> platform \<Rightarrow> platform" where
  "change_pipelines P f d = d\<lparr>pipelines := update_where P f (pipelines d)\<rparr>"

definition change_interventions ::
    "(intervention_row \<Rightarrow> bool) \<Rightarrow> (intervention_row \<Rightarrow> intervention_row) \<Rightarrow> platform \<Rightarrow> platform" where
  "change_interventions P f d = d\<lparr>interventions := update_where P f (interventions d)\<rparr>"

definition change_help ::
    "(help_row \<Rightarrow> bool) \<Rightarrow> (help_row \<Rightarrow> help_row) \<Rightarrow> platform \<Rightarrow> platform" where
  "change_help P f d = d\<lparr>help_requests := update_where P f (help_requests d)\<rparr>"

definition change_batches ::
    "(batch_row \<Rightarrow> bool) \<Rightarrow> (batch_row \<Rightarrow> batch_row) \<Rightarrow> platform \<Rightarrow> platform" where
  "change_batches P f d = d\<lparr>batches := update_where P f (batches d)\<rparr>"

definition change_cursors ::
    "(cursor_row \<Rightarrow> bool) \<Rightarrow> (cursor_row \<Rightarrow> cursor_row) \<Rightarrow> platform \<Rightarrow> platform" where
  "change_cursors P f d = d\<lparr>cursors := update_where P f (cursors d)\<rparr>"

definition log_event :: "latency_event \<Rightarrow> platform \<Rightarrow> platform" where
  "log_event e d = d\<lparr>latency_events := latency_events d @ [e]\<rparr>"

definition schedule_expiry :: "expiry_task \<Rightarrow> platform \<Rightarrow> platform" where
  "schedule_expiry t d = d\<lparr>expiry_tasks := expiry_tasks d @ [t]\<rparr>"

text \<open>Primary keys are unique.\<close>

definition keys_ok :: "platform \<Rightarrow> bool" where
  "keys_ok d \<longleftrightarrow> distinct (map g_id (groups d)) \<and> distinct (map p_id (pipelines d))
     \<and> distinct (map b_id (batches d))"

subsection \<open>Framing: what an UPDATE of one table leaves alone\<close>

lemma change_groups_frame [simp]:
  "sessions (change_groups G gf d) = sessions d"
  "discussions (change_groups G gf d) = discussions d"
  "tasks (change_groups G gf d) = tasks d"
  "controls (change_groups G gf d) = controls d"
  "users (change_groups G gf d) = users d"
  "messages (change_groups G gf d) = messages d"
  "pipelines (change_groups G gf d) = pipelines d"
  "interventions (change_groups G gf d) = interventions d"
  "help_requests (change_groups G gf d) = help_requests d"
  "batches (change_groups G gf d) = batches d"
  "cursors (change_groups G gf d) = cursors d"
  "segments (change_groups G gf d) = segments d"
  "rule_assessments (change_groups G gf d) = rule_assessments d"
  "next_batch_id (change_groups G gf d) = next_batch_id d"
  "next_segment_id (change_groups G gf d) = next_segment_id d"
  "next_pipeline_id (change_groups G gf d) = next_pipeline_id d"
  "latency_events (change_groups G gf d) = latency_events d"
  "expiry_tasks (change_groups G gf d) = expiry_tasks d"
  by (simp_all add: change_groups_def)

lemma change_pipelines_frame [simp]:
  "groups (change_pipelines P pf d) = groups d"
  "sessions (change_pipelines P pf d) = sessions d"
  "discussions (change_pipelines P pf d) = discussions d"
  "tasks (change_pipelines P pf d) = tasks d"
  "controls (change_pipelines P pf d) = controls d"
  "users (change_pipelines P pf d) = users d"
  "messages (change_pipelines P pf d) = messages d"
  "interventions (change_pipelines P pf d) = interventions d"
  "help_requests (change_pipelines P pf d) = help_requests d"
  "batches (change_pipelines P pf d) = batches d"
  "cursors (change_pipelines P pf d) = cursors d"
  "segments (change_pipelines P pf d) = segments d"
  "rule_assessments (change_pipelines P pf d) = rule_assessments d"
  "next_batch_id (change_pipelines P pf d) = next_batch_id d"
  "next_segment_id (change_pipelines P pf d) = next_segment_id d"
  "next_pipeline_id (change_pipelines P pf d) = next_pipeline_id d"
  "latency_events (change_pipelines P pf d) = latency_events d"
  "expiry_tasks (change_pipelines P pf d) = expiry_tasks d"
  by (simp_all add: change_pipelines_def)

lemma change_interventions_frame [simp]:
  "groups (change_interventions J jf d) = groups d"
  "sessions (change_interventions J jf d) = sessions d"
  "discussions (change_interventions J jf d) = discussions d"
  "tasks (change_interventions J jf d) = tasks d"
  "controls (change_interventions J jf d) = controls d"
  "users (change_interventions J jf d) = users d"
  "messages (change_interventions J jf d) = messages d"
  "pipelines (change_interventions J jf d) = pipelines d"
  "help_requests (change_interventions J jf d) = help_requests d"
  "batches (change_interventions J jf d) = batches d"
  "cursors (change_interventions J jf d) = cursors d"
  "segments (change_interventions J jf d) = segments d"
  "rule_assessments (change_interventions J jf d) = rule_assessments d"
  "next_batch_id (change_interventions J jf d) = next_batch_id d"
  "next_segment_id (change_interventions J jf d) = next_segment_id d"
  "next_pipeline_id (change_interventions J jf d) = next_pipeline_id d"
  "latency_events (change_interventions J jf d) = latency_events d"
  "expiry_tasks (change_interventions J jf d) = expiry_tasks d"
  by (simp_all add: change_interventions_def)

lemma change_help_frame [simp]:
  "groups (change_help H hf d) = groups d"
  "sessions (change_help H hf d) = sessions d"
  "discussions (change_help H hf d) = discussions d"
  "tasks (change_help H hf d) = tasks d"
  "controls (change_help H hf d) = controls d"
  "users (change_help H hf d) = users d"
  "messages (change_help H hf d) = messages d"
  "pipelines (change_help H hf d) = pipelines d"
  "interventions (change_help H hf d) = interventions d"
  "batches (change_help H hf d) = batches d"
  "cursors (change_help H hf d) = cursors d"
  "segments (change_help H hf d) = segments d"
  "rule_assessments (change_help H hf d) = rule_assessments d"
  "next_batch_id (change_help H hf d) = next_batch_id d"
  "next_segment_id (change_help H hf d) = next_segment_id d"
  "next_pipeline_id (change_help H hf d) = next_pipeline_id d"
  "latency_events (change_help H hf d) = latency_events d"
  "expiry_tasks (change_help H hf d) = expiry_tasks d"
  by (simp_all add: change_help_def)

lemma change_batches_frame [simp]:
  "groups (change_batches B bf d) = groups d"
  "sessions (change_batches B bf d) = sessions d"
  "discussions (change_batches B bf d) = discussions d"
  "tasks (change_batches B bf d) = tasks d"
  "controls (change_batches B bf d) = controls d"
  "users (change_batches B bf d) = users d"
  "messages (change_batches B bf d) = messages d"
  "pipelines (change_batches B bf d) = pipelines d"
  "interventions (change_batches B bf d) = interventions d"
  "help_requests (change_batches B bf d) = help_requests d"
  "cursors (change_batches B bf d) = cursors d"
  "segments (change_batches B bf d) = segments d"
  "rule_assessments (change_batches B bf d) = rule_assessments d"
  "next_batch_id (change_batches B bf d) = next_batch_id d"
  "next_segment_id (change_batches B bf d) = next_segment_id d"
  "next_pipeline_id (change_batches B bf d) = next_pipeline_id d"
  "latency_events (change_batches B bf d) = latency_events d"
  "expiry_tasks (change_batches B bf d) = expiry_tasks d"
  by (simp_all add: change_batches_def)

lemma change_cursors_frame [simp]:
  "groups (change_cursors C cf d) = groups d"
  "sessions (change_cursors C cf d) = sessions d"
  "discussions (change_cursors C cf d) = discussions d"
  "tasks (change_cursors C cf d) = tasks d"
  "controls (change_cursors C cf d) = controls d"
  "users (change_cursors C cf d) = users d"
  "messages (change_cursors C cf d) = messages d"
  "pipelines (change_cursors C cf d) = pipelines d"
  "interventions (change_cursors C cf d) = interventions d"
  "help_requests (change_cursors C cf d) = help_requests d"
  "batches (change_cursors C cf d) = batches d"
  "segments (change_cursors C cf d) = segments d"
  "rule_assessments (change_cursors C cf d) = rule_assessments d"
  "next_batch_id (change_cursors C cf d) = next_batch_id d"
  "next_segment_id (change_cursors C cf d) = next_segment_id d"
  "next_pipeline_id (change_cursors C cf d) = next_pipeline_id d"
  "latency_events (change_cursors C cf d) = latency_events d"
  "expiry_tasks (change_cursors C cf d) = expiry_tasks d"
  by (simp_all add: change_cursors_def)

lemma log_event_frame [simp]:
  "groups (log_event e d) = groups d"
  "sessions (log_event e d) = sessions d"
  "discussions (log_event e d) = discussions d"
  "tasks (log_event e d) = tasks d"
  "controls (log_event e d) = controls d"
  "users (log_event e d) = users d"
  "messages (log_event e d) = messages d"
  "pipelines (log_event e d) = pipelines d"
  "interventions (log_event e d) = interventions d"
  "help_requests (log_event e d) = help_requests d"
  "batches (log_event e d) = batches d"
  "cursors (log_event e d) = cursors d"
  "segments (log_event e d) = segments d"
  "rule_assessments (log_event e d) = rule_assessments d"
  "next_batch_id (log_event e d) = next_batch_id d"
  "next_segment_id (log_event e d) = next_segment_id d"
  "next_pipeline_id (log_event e d) = next_pipeline_id d"
  "expiry_tasks (log_event e d) = expiry_tasks d"
  by (simp_all add: log_event_def)

lemma schedule_expiry_frame [simp]:
  "groups (schedule_expiry t d) = groups d"
  "sessions (schedule_expiry t d) = sessions d"
  "discussions (schedule_expiry t d) = discussions d"
  "tasks (schedule_expiry t d) = tasks d"
  "controls (schedule_expiry t d) = controls d"
  "users (schedule_expiry t d) = users d"
  "messages (schedule_expiry t d) = messages d"
  "pipelines (schedule_expiry t d) = pipelines d"
  "interventions (schedule_expiry t d) = interventions d"
  "help_requests (schedule_expiry t d) = help_requests d"
  "batches (schedule_expiry t d) = batches d"
  "cursors (schedule_expiry t d) = cursors d"
  "segments (schedule_expiry t d) = segments d"
  "rule_assessments (schedule_expiry t d) = rule_assessments d"
  "next_batch_id (schedule_expiry t d) = next_batch_id d"
  "next_segment_id (schedule_expiry t d) = next_segment_id d"
  "next_pipeline_id (schedule_expiry t d) = next_pipeline_id d"
  "latency_events (schedule_expiry t d) = latency_events d"
  by (simp_all add: schedule_expiry_def)

lemma change_groups_self [simp]: "groups (change_groups G gf d) = update_where G gf (groups d)"
  by (simp add: change_groups_def)

lemma change_pipelines_self [simp]: "pipelines (change_pipelines P pf d) = update_where P pf (pipelines d)"
  by (simp add: change_pipelines_def)

lemma change_interventions_self [simp]: "interventions (change_interventions J jf d) = update_where J jf (interventions d)"
  by (simp add: change_interventions_def)

lemma change_help_self [simp]: "help_requests (change_help H hf d) = update_where H hf (help_requests d)"
  by (simp add: change_help_def)

lemma change_batches_self [simp]: "batches (change_batches B bf d) = update_where B bf (batches d)"
  by (simp add: change_batches_def)

lemma change_cursors_self [simp]: "cursors (change_cursors C cf d) = update_where C cf (cursors d)"
  by (simp add: change_cursors_def)

lemma fetch_group_frame [simp]:
  "fetch_group (change_pipelines P pf d) i = fetch_group d i"
  "fetch_group (change_interventions J jf d) i = fetch_group d i"
  "fetch_group (change_help H hf d) i = fetch_group d i"
  "fetch_group (change_batches B bf d) i = fetch_group d i"
  "fetch_group (change_cursors C cf d) i = fetch_group d i"
  "fetch_group (log_event e d) i = fetch_group d i"
  "fetch_group (schedule_expiry t d) i = fetch_group d i"
  by (simp_all add: fetch_group_def)

lemma fetch_pipeline_frame [simp]:
  "fetch_pipeline (change_groups G gf d) i = fetch_pipeline d i"
  "fetch_pipeline (change_interventions J jf d) i = fetch_pipeline d i"
  "fetch_pipeline (change_help H hf d) i = fetch_pipeline d i"
  "fetch_pipeline (change_batches B bf d) i = fetch_pipeline d i"
  "fetch_pipeline (change_cursors C cf d) i = fetch_pipeline d i"
  "fetch_pipeline (log_event e d) i = fetch_pipeline d i"
  "fetch_pipeline (schedule_expiry t d) i = fetch_pipeline d i"
  by (simp_all add: fetch_pipeline_def)

lemma fetch_intervention_frame [simp]:
  "fetch_intervention (change_groups G gf d) i = fetch_intervention d i"
  "fetch_intervention (change_pipelines P pf d) i = fetch_intervention d i"
  "fetch_intervention (change_help H hf d) i = fetch_intervention d i"
  "fetch_intervention (change_batches B bf d) i = fetch_intervention d i"
  "fetch_intervention (change_cursors C cf d) i = fetch_intervention d i"
  "fetch_intervention (log_event e d) i = fetch_intervention d i"
  "fetch_intervention (schedule_expiry t d) i = fetch_intervention d i"
  by (simp_all add: fetch_intervention_def)

lemma fetch_help_frame [simp]:
  "fetch_help (change_groups G gf d) i = fetch_help d i"
  "fetch_help (change_pipelines P pf d) i = fetch_help d i"
  "fetch_help (change_interventions J jf d) i = fetch_help d i"
  "fetch_help (change_batches B bf d) i = fetch_help d i"
  "fetch_help (change_cursors C cf d) i = fetch_help d i"
  "fetch_help (log_event e d) i = fetch_help d i"
  "fetch_help (schedule_expiry t d) i = fetch_help d i"
  by (simp_all add: fetch_help_def)

lemma fetch_batch_frame [simp]:
  "fetch_batch (change_groups G gf d) i = fetch_batch d i"
  "fetch_batch (change_pipelines P pf d) i = fetch_batch d i"
  "fetch_batch (change_interventions J jf d) i = fetch_batch d i"
  "fetch_batch (change_help H hf d) i = fetch_batch d i"
  "fetch_batch (change_cursors C cf d) i = fetch_batch d i"
  "fetch_batch (log_event e d) i = fetch_batch d i"
  "fetch_batch (schedule_expiry t d) i = fetch_batch d i"
  by (simp_all add: fetch_batch_def)

interpretation rooms: row_store g_id fetch_group change_groups
  by unfold_locales
    (auto simp: fetch_group_def change_groups_def table_simps dest: fetch_by_SomeD)

interpretation runs: row_store p_id fetch_pipeline change_pipelines
  by unfold_locales
    (auto simp: fetch_pipeline_def change_pipelines_def table_simps dest: fetch_by_SomeD)

interpretation jobs: row_store ir_id fetch_intervention change_interventions
  by unfold_locales
    (auto simp: fetch_intervention_def change_interventions_def table_simps dest: fetch_by_SomeD)

interpretation helps: row_store hr_id fetch_help change_help
  by unfold_locales
    (auto simp: fetch_help_def change_help_def table_simps dest: fetch_by_SomeD)

interpretation windows: row_store b_id fetch_batch change_batches
  by unfold_locales
    (auto simp: fetch_batch_def change_batches_def table_simps dest: fetch_by_SomeD)

end
