(* ===== verification/Coordination.thy ===== *)
theory Coordination
  imports Platform_State
begin

text \<open>
  \<open>services/three_stage_coordination.py\<close>: which of several overlapping strategy runs
  survives.  Lower priority numbers win; a losing run is marked terminal in its audit row,
  its own room lease is freed, its intervention runs are closed, and it is linked to the
  run that replaces it.  Each public function is one transaction; \<open>now\<close> is its clock
  reading (all stamps written by one call agree).
\<close>

subsection \<open>Priorities\<close>

definition ACTIVE_FINAL_STATUSES :: "string list" where
  "ACTIVE_FINAL_STATUSES =
     [''PENDING'', ''ASSESSING'', ''WAITING_FOR_LOCK'', ''LOCKED'', ''PENDING_STAGE2'',
      ''PENDING_STAGE3'', ''GENERATING'', ''VALIDATING'', ''PENDING_DECISION_GATE'',
      ''READY_TO_PUBLISH'']"

definition TERMINAL_FINAL_STATUSES :: "string list" where
  "TERMINAL_FINAL_STATUSES =
     [''PUBLISHED'', ''SUPPRESSED'', ''STALE'', ''FAILED'', ''CANCELLED'', ''SUPERSEDED'', ''SKIPPED'']"

definition HELP_TRIGGER_SOURCES :: "string list" where
  "HELP_TRIGGER_SOURCES = [''student_help'', ''student_help_request'', ''help_request'']"

definition SESSION_END_TRIGGER_SOURCES :: "string list" where
  "SESSION_END_TRIGGER_SOURCES =
     [''session_end'', ''session_timeout'', ''discussion_timeout'', ''teacher_freeze'', ''submission'']"

definition PRIORITY_BY_TRIGGER :: "(string \<times> int) list" where
  "PRIORITY_BY_TRIGGER =
     [(''session_end'', 0), (''session_timeout'', 0), (''discussion_timeout'', 0),
      (''teacher_freeze'', 0), (''submission'', 0), (''student_help'', 1),
      (''student_help_request'', 1), (''help_request'', 1), (''rule_high_risk'', 2),
      (''silence_check'', 3), (''post_intervention_observation'', 5),
      (''message_count_periodic'', 6), (''time_periodic'', 6), (''student_message'', 6),
      (''new_message'', 6)]"

definition PRIORITY_BY_SUB_STATE :: "(string \<times> int) list" where
  "PRIORITY_BY_SUB_STATE =
     [(''interpersonal_conflict'', 2), (''psychological_safety_risk'', 2), (''frustration'', 3),
      (''burnout'', 3), (''confusion'', 3), (''high_intensity_overload'', 3),
      (''off_topic_unregulated'', 4), (''perfunctory_detachment'', 4),
      (''individual_marginalization'', 4), (''off_topic_self_regulated'', 7),
      (''constructive_conflict'', 7), (''standard'', 7), (''deep_thinking'', 7),
      (''execution_progress'', 7), (''stage_achievement'', 7), (''unknown_sub_state'', 7)]"

definition PRIORITY_BY_COARSE_STATE :: "(string \<times> int) list" where
  "PRIORITY_BY_COARSE_STATE =
     [(''EXPLICIT_HELP'', 1), (''POSSIBLE_CONFLICT'', 2), (''POSSIBLE_SILENCE'', 3),
      (''POSSIBLE_BLOCKED'', 3), (''POSSIBLE_DETACHMENT'', 4),
      (''POSSIBLE_PARTICIPATION_PROBLEM'', 4), (''NO_RISK'', 7), (''POSSIBLE_POSITIVE'', 7),
      (''UNKNOWN_COARSE'', 7)]"

definition option_list :: "'a option \<Rightarrow> 'a list" where
  "option_list x = (case x of None \<Rightarrow> [] | Some a \<Rightarrow> [a])"

definition priority_candidates ::
    "string option \<Rightarrow> string option \<Rightarrow> string option \<Rightarrow> int option \<Rightarrow> int list" where
  "priority_candidates trigger_source canonical_sub_state coarse_state_code stored_priority =
     option_list (map_of PRIORITY_BY_TRIGGER (strip (text_of trigger_source)))
     @ option_list (map_of PRIORITY_BY_SUB_STATE (strip (text_of canonical_sub_state)))
     @ option_list (map_of PRIORITY_BY_COARSE_STATE (strip (text_of coarse_state_code)))
     @ option_list stored_priority"

definition priority_for ::
    "string option \<Rightarrow> string option \<Rightarrow> string option \<Rightarrow> int option \<Rightarrow> int \<Rightarrow> int" where
  "priority_for trigger_source canonical_sub_state coarse_state_code stored_priority dflt =
     (case priority_candidates trigger_source canonical_sub_state coarse_state_code stored_priority of
        [] \<Rightarrow> dflt
      | p # ps \<Rightarrow> fold min ps p)"

definition priority_for_pipeline_row :: "pipeline_row \<Rightarrow> int" where
  "priority_for_pipeline_row row =
     priority_for (p_trigger_source row) (p_canonical_sub_state_code row) (p_coarse_state_code row)
       (p_trigger_priority row) 6"

definition can_bypass_emotion_interval :: "pipeline_row \<Rightarrow> bool" where
  "can_bypass_emotion_interval row =
     (text_of (p_trigger_source row) \<in> set HELP_TRIGGER_SOURCES \<or> priority_for_pipeline_row row \<le> 2)"

subsection \<open>Replacement links\<close>

text \<open>SQLite's \<open>TRIM\<close> removes blanks only.\<close>

definition trim_blanks :: "string \<Rightarrow> string" where
  "trim_blanks s = rev (dropWhile (\<lambda>c. c = CHR '' '') (rev (dropWhile (\<lambda>c. c = CHR '' '') s)))"

text \<open>\<open>COALESCE(NULLIF(TRIM(m.role), ''), m.sender_type, u.role)\<close> after the LEFT JOIN.\<close>

definition message_author :: "platform \<Rightarrow> message_row \<Rightarrow> string option" where
  "message_author d m =
     (let role = (case m_role m of None \<Rightarrow> None
                  | Some r \<Rightarrow> if trim_blanks r = [] then None else Some (trim_blanks r));
          joined = (case fetch_by u_id (m_user_id m) (users d) of None \<Rightarrow> None | Some u \<Rightarrow> u_role u)
      in coalesce role (coalesce (m_sender_type m) joined))"

definition in_scope :: "int \<Rightarrow> int option \<Rightarrow> int option \<Rightarrow> pipeline_row \<Rightarrow> bool" where
  "in_scope gid session discussion p \<longleftrightarrow>
     p_group_id p = gid \<and> or0 (p_session_id p) = or0 session \<and> or0 (p_discussion_id p) = or0 discussion"

definition replacement_trigger_message ::
    "platform \<Rightarrow> pipeline_row \<Rightarrow> int option \<Rightarrow> int option" where
  "replacement_trigger_message d row cutoff_sequence =
     (case p_trigger_message_id row of
        Some i \<Rightarrow> Some i
      | None \<Rightarrow>
          (case coalesce cutoff_sequence (p_input_cutoff_student_sequence row) of
             None \<Rightarrow> None
           | Some cutoff \<Rightarrow>
               map_option m_id (max_by (\<lambda>m. (or0 (m_sequence m), m_id m))
                 (filter (\<lambda>m. m_group_id m = p_group_id row
                     \<and> or0 (m_session_id m) = or0 (p_session_id row)
                     \<and> or0 (m_discussion_id m) = or0 (p_discussion_id row)
                     \<and> message_author d m = Some ''student''
                     \<and> (case m_sequence m of None \<Rightarrow> False | Some s \<Rightarrow> s \<le> cutoff))
                   (messages d)))))"

text \<open>\<open>record_replacement_request\<close>; \<open>None\<close> is "pipeline not found".\<close>

definition record_replacement_request ::
    "datetime \<Rightarrow> int \<Rightarrow> string \<Rightarrow> int option \<Rightarrow> int option \<Rightarrow> platform
       \<Rightarrow> (string \<times> int option \<times> int option \<times> int option) option \<times> platform" where
  "record_replacement_request now pid reason trigger_message_id cutoff_sequence d =
     (case fetch_pipeline d pid of
        None \<Rightarrow> (None, d)
      | Some row \<Rightarrow>
          (let cutoff = coalesce cutoff_sequence (p_input_cutoff_student_sequence row);
               trigger = coalesce trigger_message_id (replacement_trigger_message d row cutoff);
               why = (if reason = [] then ''replacement_requested'' else reason)
           in (Some (why, trigger, cutoff, p_replaced_by_pipeline_run_id row),
               change_pipelines (\<lambda>p. p_id p = pid)
                 (\<lambda>p. p\<lparr>p_replacement_reason := coalesce (Some why) (p_replacement_reason p),
                    p_replacement_trigger_message_id := coalesce trigger (p_replacement_trigger_message_id p),
                    p_replacement_cutoff_sequence := coalesce cutoff (p_replacement_cutoff_sequence p),
                    p_updated_at := Some (fmt_sec now)\<rparr>) d)))"

definition nonempty :: "string \<Rightarrow> string option" where
  "nonempty s = (if s = [] then None else Some s)"

definition sync_latest_state_from_replacement ::
    "datetime \<Rightarrow> int \<Rightarrow> int \<Rightarrow> platform \<Rightarrow> bool \<times> platform" where
  "sync_latest_state_from_replacement now original replacement d =
     (case fetch_pipeline d replacement of
        None \<Rightarrow> (False, d)
      | Some r \<Rightarrow>
          (let succeeded = (upper (text_of (p_stage2_status r)) = ''SUCCEEDED'');
               state = (if succeeded then nonempty (strip (text_of (p_canonical_sub_state_code r))) else None);
               intervene = (if succeeded then p_should_intervene r else None)
           in (True,
               change_pipelines (\<lambda>p. p_id p = original)
                 (\<lambda>p. p\<lparr>p_latest_state := state, p_latest_should_intervene := intervene,
                    p_latest_state_pipeline_run_id := Some replacement,
                    p_updated_at := Some (fmt_sec now)\<rparr>) d)))"

definition linked_original ::
    "stamp \<Rightarrow> int \<Rightarrow> string \<Rightarrow> int option \<Rightarrow> int option \<Rightarrow> pipeline_row \<Rightarrow> pipeline_row" where
  "linked_original ts replacement why trigger cutoff p = p\<lparr>
     p_replaced_by_pipeline_run_id := coalesce (p_replaced_by_pipeline_run_id p) (Some replacement),
     p_replacement_reason := coalesce (p_replacement_reason p) (Some why),
     p_replacement_trigger_message_id := coalesce (p_replacement_trigger_message_id p) trigger,
     p_replacement_cutoff_sequence := coalesce (p_replacement_cutoff_sequence p) cutoff,
     p_updated_at := Some ts\<rparr>"

definition linked_replacement :: "stamp \<Rightarrow> int \<Rightarrow> int option \<Rightarrow> pipeline_row \<Rightarrow> pipeline_row" where
  "linked_replacement ts original trigger p = p\<lparr>
     p_parent_run_id := coalesce (p_parent_run_id p) (Some original),
     p_trigger_message_id := coalesce (p_trigger_message_id p) trigger,
     p_updated_at := Some ts\<rparr>"

text \<open>\<open>a or b\<close> of two nullable texts.\<close>

definition or_text :: "string option \<Rightarrow> string option \<Rightarrow> string option" where
  "or_text a b = (if truthy a then a else b)"

definition link_pipeline_replacement ::
    "datetime \<Rightarrow> int \<Rightarrow> int \<Rightarrow> string option \<Rightarrow> int option \<Rightarrow> int option \<Rightarrow> platform \<Rightarrow> bool \<times> platform" where
  "link_pipeline_replacement now original replacement reason trigger_message_id cutoff_sequence d =
     (if original = replacement then (False, d)
      else
        case (fetch_pipeline d original, fetch_pipeline d replacement) of
          (Some old, Some new) \<Rightarrow>
            (let why = text_of (or_text reason (or_text (p_replacement_reason new)
                         (or_text (p_replacement_reason old) (Some ''replacement_pipeline_created''))));
                 cutoff = coalesce cutoff_sequence (coalesce (p_replacement_cutoff_sequence new)
                            (p_input_cutoff_student_sequence new));
                 trigger = coalesce trigger_message_id (coalesce (p_replacement_trigger_message_id new)
                             (replacement_trigger_message d new cutoff));
                 d1 = change_pipelines (\<lambda>p. p_id p = original)
                        (linked_original (fmt_sec now) replacement why trigger cutoff) d;
                 d2 = change_pipelines (\<lambda>p. p_id p = replacement)
                        (linked_replacement (fmt_sec now) original trigger) d1
             in (True, snd (sync_latest_state_from_replacement now original replacement d2)))
        | _ \<Rightarrow> (False, d))"

subsection \<open>Ending one run\<close>

text \<open>The keyword arguments of \<open>_mark_pipeline_terminal\<close>.\<close>

record terminal_mark =
  tm_final_status :: string
  tm_publish_status :: string
  tm_reason :: string
  tm_superseded_by :: "int option"
  tm_assessment_batch :: "int option"
  tm_assessment_owner :: "int option"
  tm_stage2_status :: "string option"
  tm_failure_code :: "string option"
  tm_failure_detail :: "string option"
  tm_replacement_trigger :: "int option"
  tm_replacement_cutoff :: "int option"

definition simple_mark :: "string \<Rightarrow> string \<Rightarrow> string \<Rightarrow> int option \<Rightarrow> terminal_mark" where
  "simple_mark final publish reason superseded_by = \<lparr>tm_final_status = final,
     tm_publish_status = publish, tm_reason = reason, tm_superseded_by = superseded_by,
     tm_assessment_batch = None, tm_assessment_owner = None, tm_stage2_status = None,
     tm_failure_code = None, tm_failure_detail = None, tm_replacement_trigger = None,
     tm_replacement_cutoff = None\<rparr>"

text \<open>\<open>_release_pipeline_lock\<close>: only a lease of this run, under its recorded token.\<close>

definition release_pipeline_lock :: "stamp \<Rightarrow> pipeline_row \<Rightarrow> platform \<Rightarrow> bool \<times> platform" where
  "release_pipeline_lock ts row d =
     (if \<not> truthy (p_room_lock_token row) then (False, d)
      else
        (let hit = (\<lambda>g. g_id g = p_group_id row \<and> g_lock_token g = p_room_lock_token row
                     \<and> g_active_intervention_run_id g = Some (- p_id row));
             released = (rowcount hit (groups d) = 1);
             d1 = change_groups hit (\<lambda>g. g\<lparr>g_state := ''OPEN'', g_version := g_version g + 1,
                    g_lock_token := None, g_lock_expires_at := None,
                    g_active_intervention_run_id := None\<rparr>) d
         in (released,
             if released then log_event \<lparr>le_stage = ''lock'', le_event = ''room_lock_released'',
                 le_pipeline_run_id = Some (p_id row), le_assessment_batch_id = p_assessment_batch_id row,
                 le_lock_owner = None, le_lock_token = p_room_lock_token row,
                 le_reason = Some ''coordination_terminal'', le_occurred_at = ts\<rparr> d1
             else d1)))"

definition terminal_row ::
    "terminal_mark \<Rightarrow> stamp \<Rightarrow> int option \<Rightarrow> int option \<Rightarrow> bool \<Rightarrow> pipeline_row \<Rightarrow> pipeline_row" where
  "terminal_row mk ts trigger cutoff released p =
     (let stage2_done = (upper (text_of (p_stage2_status p)) = ''SUCCEEDED'') in
      p\<lparr>p_publish_status := Some (tm_publish_status mk),
        p_final_status := Some (tm_final_status mk),
        p_skip_reason := Some (tm_reason mk),
        p_assessment_batch_id := coalesce (p_assessment_batch_id p) (tm_assessment_batch mk),
        p_assessment_owner_pipeline_run_id :=
          coalesce (p_assessment_owner_pipeline_run_id p) (tm_assessment_owner mk),
        p_stage2_status := coalesce (tm_stage2_status mk) (p_stage2_status p),
        p_stage2_completed_at := (if tm_stage2_status mk = None then p_stage2_completed_at p
                                  else coalesce (p_stage2_completed_at p) (Some ts)),
        p_failure_code := coalesce (tm_failure_code mk) (p_failure_code p),
        p_failure_detail := coalesce (tm_failure_detail mk) (p_failure_detail p),
        p_should_intervene := (if stage2_done then p_should_intervene p else None),
        p_latest_should_intervene := (if stage2_done then p_latest_should_intervene p else None),
        p_superseded_by_run_id := coalesce (tm_superseded_by mk) (p_superseded_by_run_id p),
        p_replaced_by_pipeline_run_id := coalesce (tm_superseded_by mk) (p_replaced_by_pipeline_run_id p),
        p_replacement_reason := (if tm_superseded_by mk = None then p_replacement_reason p
                                 else coalesce (p_replacement_reason p) (Some (tm_reason mk))),
        p_replacement_trigger_message_id := coalesce trigger (p_replacement_trigger_message_id p),
        p_replacement_cutoff_sequence := coalesce cutoff (p_replacement_cutoff_sequence p),
        p_room_lock_released_at :=
          coalesce (p_room_lock_released_at p) (if released then Some ts else None),
        p_updated_at := Some ts\<rparr>)"

definition run_closed :: "terminal_mark \<Rightarrow> stamp \<Rightarrow> intervention_row \<Rightarrow> intervention_row" where
  "run_closed mk ts r = r\<lparr>ir_status := Some (tm_final_status mk), ir_decision := Some ''SKIPPED'',
     ir_publish_status := Some (tm_publish_status mk), ir_skip_reason := Some (tm_reason mk),
     ir_failure_reason := coalesce (ir_failure_reason r) (Some (tm_reason mk)),
     ir_completed_at := Some ts, ir_lock_acquired := Some 0\<rparr>"

definition markable :: "pipeline_row \<Rightarrow> bool" where
  "markable row \<longleftrightarrow> p_publish_status row \<noteq> Some ''PUBLISHED''
     \<and> p_final_status row \<notin> Some ` set TERMINAL_FINAL_STATUSES"

definition mark_pipeline_terminal ::
    "terminal_mark \<Rightarrow> datetime \<Rightarrow> pipeline_row \<Rightarrow> platform \<Rightarrow> bool \<times> platform" where
  "mark_pipeline_terminal mk now row d =
     (if \<not> markable row then (False, d)
      else
        (let ts = fmt_sec now;
             replacement = (case tm_superseded_by mk of None \<Rightarrow> None | Some i \<Rightarrow> fetch_pipeline d i);
             cutoff = coalesce (tm_replacement_cutoff mk)
                        (case replacement of None \<Rightarrow> None | Some r \<Rightarrow> p_input_cutoff_student_sequence r);
             trigger = coalesce (tm_replacement_trigger mk)
                         (case replacement of None \<Rightarrow> None | Some r \<Rightarrow> replacement_trigger_message d r cutoff);
             (released, d1) = release_pipeline_lock ts row d;
             d2 = change_pipelines (\<lambda>p. p_id p = p_id row) (terminal_row mk ts trigger cutoff released) d1;
             d3 = (case tm_superseded_by mk of
                     None \<Rightarrow> d2
                   | Some i \<Rightarrow> snd (link_pipeline_replacement now (p_id row) i (Some (tm_reason mk)) trigger cutoff d2));
             d4 = change_interventions
                    (\<lambda>r. ir_strategy_pipeline_run_id r = Some (p_id row)
                       \<and> text_of (ir_publish_status r) \<noteq> ''PUBLISHED'')
                    (run_closed mk ts) d3
         in (True, d4)))"

text \<open>The loop the services share: mark every candidate, collect the ids that were marked.\<close>

fun mark_each ::
    "terminal_mark \<Rightarrow> datetime \<Rightarrow> pipeline_row list \<Rightarrow> platform \<Rightarrow> int list \<times> platform" where
  "mark_each mk now [] d = ([], d)"
| "mark_each mk now (row # rows) d =
     (let (ok, d1) = mark_pipeline_terminal mk now row d;
          (ids, d2) = mark_each mk now rows d1
      in (if ok then p_id row # ids else ids, d2))"

subsection \<open>Ending many runs\<close>

definition active_unpublished :: "pipeline_row \<Rightarrow> bool" where
  "active_unpublished p \<longleftrightarrow> text_of (p_publish_status p) \<noteq> ''PUBLISHED''
     \<and> text_of (coalesce (p_final_status p) (Some ''PENDING'')) \<in> set ACTIVE_FINAL_STATUSES"

text \<open>\<open>ORDER BY COALESCE(trigger_priority,999), COALESCE(cutoff,0) DESC, id DESC\<close>.\<close>

definition urgency :: "pipeline_row \<Rightarrow> int \<times> int \<times> int" where
  "urgency p = (case p_trigger_priority p of None \<Rightarrow> 999 | Some i \<Rightarrow> i,
     - or0 (p_input_cutoff_student_sequence p), - p_id p)"

definition active_runs_in_scope ::
    "platform \<Rightarrow> int \<Rightarrow> int option \<Rightarrow> int option \<Rightarrow> pipeline_row list" where
  "active_runs_in_scope d gid session discussion =
     sort_key urgency (filter (\<lambda>p. in_scope gid session discussion p \<and> active_unpublished p) (pipelines d))"

definition supersede_lower_priority_runs_for_row ::
    "datetime \<Rightarrow> pipeline_row \<Rightarrow> string \<Rightarrow> platform \<Rightarrow> int list \<times> platform" where
  "supersede_lower_priority_runs_for_row now row reason d =
     (let candidates = sort_key urgency
            (filter (\<lambda>p. in_scope (p_group_id row) (p_session_id row) (p_discussion_id row) p
               \<and> p_id p \<noteq> p_id row \<and> active_unpublished p) (pipelines d));
          losers = filter (\<lambda>p. \<not> priority_for_pipeline_row p \<le> priority_for_pipeline_row row) candidates
      in mark_each (simple_mark ''SUPERSEDED'' ''SKIPPED'' reason (Some (p_id row))) now losers d)"

definition supersede_lower_priority_runs_for_pipeline ::
    "datetime \<Rightarrow> int \<Rightarrow> platform \<Rightarrow> int list \<times> platform" where
  "supersede_lower_priority_runs_for_pipeline now pid d =
     (case fetch_pipeline d pid of
        None \<Rightarrow> ([], d)
      | Some row \<Rightarrow> supersede_lower_priority_runs_for_row now row ''SUPERSEDED_BY_HIGHER_PRIORITY'' d)"

text \<open>A preliminary sibling another unfinished batch still covers is left to that batch.\<close>

definition covered_by_other_batch :: "platform \<Rightarrow> int \<Rightarrow> pipeline_row \<Rightarrow> bool" where
  "covered_by_other_batch d batch p \<longleftrightarrow>
     (\<exists>b\<in>set (batches d). b_group_id b = p_group_id p \<and> b_session_id b = or0 (p_session_id p)
        \<and> b_discussion_id b = or0 (p_discussion_id p) \<and> b_id b \<noteq> batch
        \<and> b_status b \<in> {''pending'', ''running''}
        \<and> b_candidate_start_sequence b \<le> or0 (p_input_cutoff_student_sequence p)
        \<and> or0 (p_input_cutoff_student_sequence p) \<le> b_candidate_end_sequence b)"

definition preliminary_sibling ::
    "platform \<Rightarrow> pipeline_row \<Rightarrow> int \<Rightarrow> int \<Rightarrow> int option \<Rightarrow> pipeline_row \<Rightarrow> bool" where
  "preliminary_sibling d row start_seq end_seq batch p \<longleftrightarrow>
     in_scope (p_group_id row) (p_session_id row) (p_discussion_id row) p
     \<and> p_id p \<noteq> p_id row
     \<and> start_seq \<le> or0 (p_input_cutoff_student_sequence p)
     \<and> or0 (p_input_cutoff_student_sequence p) \<le> end_seq
     \<and> upper (text_of (p_stage2_status p)) \<noteq> ''SUCCEEDED''
     \<and> upper (text_of (p_publish_status p)) \<noteq> ''PUBLISHED''
     \<and> upper (text_of (coalesce (p_final_status p) (Some ''PENDING''))) \<in> set ACTIVE_FINAL_STATUSES
     \<and> (case batch of
          None \<Rightarrow> True
        | Some i \<Rightarrow> p_assessment_batch_id p = Some i
            \<or> p_assessment_batch_id p = None \<and> \<not> covered_by_other_batch d i p)"

definition batch_mark ::
    "pipeline_row \<Rightarrow> int option \<Rightarrow> bool \<Rightarrow> string option \<Rightarrow> string option \<Rightarrow> terminal_mark" where
  "batch_mark row batch successful failure_code failure_detail =
     \<lparr>tm_final_status = (if successful then ''SUPERSEDED'' else ''FAILED''),
      tm_publish_status = ''SKIPPED'',
      tm_reason = (if successful then ''SUPERSEDED_BY_STATE_BATCH'' else ''COVERED_ASSESSMENT_BATCH_FAILED''),
      tm_superseded_by = (if successful then Some (p_id row) else None),
      tm_assessment_batch = batch, tm_assessment_owner = Some (p_id row),
      tm_stage2_status = (if successful then None else Some ''SKIPPED''),
      tm_failure_code = (if successful then None
                         else or_text failure_code (Some ''assessment_batch_failed'')),
      tm_failure_detail = (if successful then None else failure_detail),
      tm_replacement_trigger = None, tm_replacement_cutoff = None\<rparr>"

text \<open>\<open>Inl\<close> is the \<open>ValueError\<close>.\<close>

definition finalize_preliminary_runs_for_batch_row ::
    "datetime \<Rightarrow> pipeline_row \<Rightarrow> int \<Rightarrow> int \<Rightarrow> int option \<Rightarrow> string option \<Rightarrow> string option
       \<Rightarrow> string option \<Rightarrow> platform \<Rightarrow> string + (int list \<times> platform)" where
  "finalize_preliminary_runs_for_batch_row now row start_seq end_seq batch outcome failure_code failure_detail d =
     (let outcome' = lower (strip (text_of outcome)) in
      if outcome' \<notin> {''succeeded'', ''failed''} then Inl ''unsupported_batch_pipeline_outcome''
      else Inr (mark_each (batch_mark row batch (outcome' = ''succeeded'') failure_code failure_detail) now
             (sort_key p_id (filter (preliminary_sibling d row start_seq end_seq batch) (pipelines d))) d))"

definition supersede_preliminary_runs_for_batch_row ::
    "datetime \<Rightarrow> pipeline_row \<Rightarrow> int \<Rightarrow> int \<Rightarrow> platform \<Rightarrow> string + (int list \<times> platform)" where
  "supersede_preliminary_runs_for_batch_row now row start_seq end_seq d =
     finalize_preliminary_runs_for_batch_row now row start_seq end_seq (p_assessment_batch_id row)
       (Some ''succeeded'') None None d"

definition supersede_preliminary_runs_for_batch ::
    "datetime \<Rightarrow> int \<Rightarrow> int \<Rightarrow> int \<Rightarrow> platform \<Rightarrow> string + (int list \<times> platform)" where
  "supersede_preliminary_runs_for_batch now pid start_seq end_seq d =
     (case fetch_pipeline d pid of
        None \<Rightarrow> Inr ([], d)
      | Some row \<Rightarrow> supersede_preliminary_runs_for_batch_row now row start_seq end_seq d)"

definition preempt_for_student_help :: "datetime \<Rightarrow> int \<Rightarrow> platform \<Rightarrow> int list \<times> platform" where
  "preempt_for_student_help now hid d =
     (case fetch_help d hid of
        None \<Rightarrow> ([], d)
      | Some h \<Rightarrow>
          mark_each
            ((simple_mark ''SUPERSEDED'' ''SKIPPED'' ''SUPERSEDED_BY_STUDENT_HELP'' None)
               \<lparr>tm_replacement_trigger := hr_source_message_id h,
                tm_replacement_cutoff := hr_help_request_message_sequence h\<rparr>) now
            (filter (\<lambda>p. \<not> priority_for_pipeline_row p \<le> 1)
               (active_runs_in_scope d (hr_group_id h) (hr_session_id h) (hr_discussion_id h))) d)"

definition cancel_active_runs_for_session_end ::
    "datetime \<Rightarrow> int \<Rightarrow> string \<Rightarrow> platform \<Rightarrow> int list \<times> platform" where
  "cancel_active_runs_for_session_end now sid reason d =
     mark_each (simple_mark ''CANCELLED'' ''SKIPPED'' reason None) now
       (sort_key p_id (filter (\<lambda>p. sql_eq (p_session_id p) (Some sid) \<and> active_unpublished p) (pipelines d))) d"

end
