(* ===== verification/State_Schema.thy ===== *)
theory State_Schema
  imports Python_Values Coordination
begin

text \<open>
  The state ontology and its routing: \<open>services/three_stage_schema.py\<close>,
  \<open>services/three_stage_route_manifest.py\<close> with its data file
  \<open>strategy_route_manifest.json\<close>, \<open>route_for_sub_state\<close> of
  \<open>services/three_stage_strategy_library.py\<close> and \<open>services/state_strategy_router.py\<close>.
  The ids defined in the Markdown strategy library are a parameter (\<open>library\<close>); the
  Chinese aliases of the router are not modelled.
\<close>

subsection \<open>Codes\<close>

definition PRIMARY_SUB_STATE_CODES :: "string list" where
  "PRIMARY_SUB_STATE_CODES =
     [''standard'', ''deep_thinking'', ''execution_progress'', ''constructive_conflict'',
      ''interpersonal_conflict'', ''confusion'', ''frustration'', ''burnout'',
      ''off_topic_self_regulated'', ''off_topic_unregulated'', ''perfunctory_detachment'',
      ''individual_marginalization'']"

definition STATE_OVERLAY_CODES :: "string list" where
  "STATE_OVERLAY_CODES =
     [''psychological_safety_risk'', ''high_intensity_overload'', ''stage_achievement'']"

definition PROCESS_STATE_CODES :: "string list" where
  "PROCESS_STATE_CODES = [''unknown_sub_state'', ''unclassified'', ''observing'']"

definition LEGACY_STATE_CODES :: "string list" where
  "LEGACY_STATE_CODES =
     [''positive_collaboration'', ''negative_silence'', ''conflict_tension'',
      ''blocked_frustration'', ''task_detached'', ''unknown'']"

definition CANONICAL_SUB_STATE_CODES :: "string list" where
  "CANONICAL_SUB_STATE_CODES =
     PRIMARY_SUB_STATE_CODES @ STATE_OVERLAY_CODES @ [''unknown_sub_state'']"

definition OVERLAY_COMPATIBLE_PRIMARY_STATES :: "(string \<times> string list) list" where
  "OVERLAY_COMPATIBLE_PRIMARY_STATES =
     [(''psychological_safety_risk'', [''interpersonal_conflict'']),
      (''high_intensity_overload'', [''interpersonal_conflict'', ''standard'', ''frustration'']),
      (''stage_achievement'', [''execution_progress''])]"

definition OVERLAY_COMPATIBLE_PRIMARY_STATE :: "(string \<times> string) list" where
  "OVERLAY_COMPATIBLE_PRIMARY_STATE =
     map (\<lambda>(tag, primaries). (tag, hd primaries)) OVERLAY_COMPATIBLE_PRIMARY_STATES"

definition CANONICAL_TO_LEGACY_STATE_CODE :: "(string \<times> string) list" where
  "CANONICAL_TO_LEGACY_STATE_CODE =
     [(''standard'', ''positive_collaboration''), (''deep_thinking'', ''positive_collaboration''),
      (''execution_progress'', ''positive_collaboration''),
      (''constructive_conflict'', ''positive_collaboration''),
      (''interpersonal_conflict'', ''conflict_tension''), (''confusion'', ''blocked_frustration''),
      (''frustration'', ''blocked_frustration''), (''burnout'', ''blocked_frustration''),
      (''off_topic_self_regulated'', ''task_detached''), (''off_topic_unregulated'', ''task_detached''),
      (''perfunctory_detachment'', ''task_detached''), (''individual_marginalization'', ''task_detached''),
      (''psychological_safety_risk'', ''conflict_tension''),
      (''high_intensity_overload'', ''blocked_frustration''),
      (''stage_achievement'', ''positive_collaboration''), (''unknown_sub_state'', ''unknown'')]"

definition OI_STRATEGY_IDS :: "string list" where
  "OI_STRATEGY_IDS = [''OI-001'', ''OI-002'', ''OI-003'', ''OI-004'']"

definition normalize_canonical_sub_state :: "string option \<Rightarrow> string" where
  "normalize_canonical_sub_state value =
     (let s = strip (text_of value) in
      if s \<in> set CANONICAL_SUB_STATE_CODES then s else ''unknown_sub_state'')"

definition normalize_final_sub_state :: "string option \<Rightarrow> string option" where
  "normalize_final_sub_state value =
     (let s = strip (text_of value) in
      if s \<in> set PRIMARY_SUB_STATE_CODES then Some s
      else if s \<in> set STATE_OVERLAY_CODES then map_of OVERLAY_COMPATIBLE_PRIMARY_STATE s
      else None)"

definition legacy_state_for_sub_state :: "string option \<Rightarrow> string" where
  "legacy_state_for_sub_state value =
     the (map_of CANONICAL_TO_LEGACY_STATE_CODE (normalize_canonical_sub_state value))"

definition is_state_overlay :: "string option \<Rightarrow> bool" where
  "is_state_overlay value \<longleftrightarrow> strip (text_of value) \<in> set STATE_OVERLAY_CODES"

definition is_process_state :: "string option \<Rightarrow> bool" where
  "is_process_state value \<longleftrightarrow> strip (text_of value) \<in> set PROCESS_STATE_CODES"

definition is_legacy_state :: "string option \<Rightarrow> bool" where
  "is_legacy_state value \<longleftrightarrow> strip (text_of value) \<in> set LEGACY_STATE_CODES"

subsection \<open>Overlays\<close>

text \<open>
  A tag argument is absent, a list (or a text holding a JSON list), or another text.
\<close>

datatype tag_source = No_Tags | Tag_List "json list" | Tag_Text string

definition tag_codes :: "tag_source \<Rightarrow> string list" where
  "tag_codes src =
     (case src of
        No_Tags \<Rightarrow> []
      | Tag_List items \<Rightarrow> map (\<lambda>i. if jtruthy i then code_text i else []) items
      | Tag_Text t \<Rightarrow> [strip t])"

definition state_overlays_from :: "tag_source list \<Rightarrow> string list" where
  "state_overlays_from sources =
     dedupe [] (filter (\<lambda>c. is_state_overlay (Some c)) (concat (map tag_codes sources)))"

subsection \<open>The public state of a message\<close>

record resolved_state =
  rs_final :: "string option"
  rs_coarse :: "string option"
  rs_legacy :: "string option"
  rs_assessment_status :: string
  rs_assignment_source :: string
  rs_inferred :: bool
  rs_overlays :: "string list"

text \<open>\<open>FinalMessageStateResolver.resolve\<close>, less the fields it only passes through.\<close>

definition resolve ::
    "string option \<Rightarrow> string option \<Rightarrow> tag_source \<Rightarrow> tag_source \<Rightarrow> string option \<Rightarrow> string option
       \<Rightarrow> string option \<Rightarrow> string option \<Rightarrow> bool \<Rightarrow> resolved_state" where
  "resolve canonical raw tags sub_tags coarse_state_code state_code assessment_status source inferred =
     (let raw_code = strip (text_of (or_text canonical raw));
          found = state_overlays_from [tags, sub_tags];
          final = normalize_final_sub_state (Some raw_code);
          overlay = is_state_overlay (Some raw_code);
          overlays = (if overlay \<and> raw_code \<notin> set found then raw_code # found else found);
          source' = (if overlay then or_text source (Some ''legacy_overlay_projection'')
                     else if is_process_state (Some raw_code) then or_text source (Some raw_code)
                     else if final = None \<and> is_legacy_state state_code
                     then or_text source (Some ''legacy_coarse_only'')
                     else source);
          state_if_legacy = (if is_legacy_state state_code then strip (text_of state_code) else []);
          coarse = text_of (or_text (Some (strip (text_of coarse_state_code)))
                     (or_text (if raw_code \<in> set CANONICAL_SUB_STATE_CODES
                               then Some (legacy_state_for_sub_state (Some raw_code)) else None)
                        (Some state_if_legacy)));
          legacy = (if is_legacy_state (Some coarse) then coarse
                    else if final \<noteq> None then legacy_state_for_sub_state final
                    else state_if_legacy);
          status = strip (text_of assessment_status)
      in \<lparr>rs_final = final, rs_coarse = nonempty coarse, rs_legacy = nonempty legacy,
          rs_assessment_status = (if status \<noteq> [] then status
             else if final \<noteq> None then ''confirmed'' else ''unclassified''),
          rs_assignment_source = text_of (or_text source' (Some ''model_segment'')),
          rs_inferred = (inferred \<or> overlay), rs_overlays = overlays\<rparr>)"

subsection \<open>The route manifest\<close>

record manifest_route =
  rt_mode :: string
  rt_intervention_mode :: string
  rt_primary :: "string list"
  rt_backup :: "string list"
  rt_inhibition :: "string option"

definition ROUTE_MANIFEST :: "(string \<times> manifest_route) list" where
  "ROUTE_MANIFEST =
     [(''standard'', \<lparr>rt_mode = ''OPTIONAL_SUPPORT'', rt_intervention_mode = ''optional_support'',
        rt_primary = [''SS-001''], rt_backup = [''EA-006''],
        rt_inhibition = None\<rparr>),
      (''deep_thinking'', \<lparr>rt_mode = ''SUPPRESS'', rt_intervention_mode = ''observation_inhibition'',
        rt_primary = [''OI-002''], rt_backup = [],
        rt_inhibition = Some ''OI-002''\<rparr>),
      (''execution_progress'', \<lparr>rt_mode = ''SUPPRESS'', rt_intervention_mode = ''observation_inhibition'',
        rt_primary = [''OI-004''], rt_backup = [],
        rt_inhibition = Some ''OI-004''\<rparr>),
      (''constructive_conflict'', \<lparr>rt_mode = ''SUPPRESS'', rt_intervention_mode = ''observation_inhibition'',
        rt_primary = [''OI-001''], rt_backup = [],
        rt_inhibition = Some ''OI-001''\<rparr>),
      (''interpersonal_conflict'', \<lparr>rt_mode = ''REQUIRED_INTERVENTION'', rt_intervention_mode = ''risk_intervention'',
        rt_primary = [''ER-001''], rt_backup = [''EE-001'', ''SS-004'', ''ER-007''],
        rt_inhibition = None\<rparr>),
      (''confusion'', \<lparr>rt_mode = ''REQUIRED_INTERVENTION'', rt_intervention_mode = ''risk_intervention'',
        rt_primary = [''EA-001''], rt_backup = [''ER-005'', ''EE-006'', ''SS-003''],
        rt_inhibition = None\<rparr>),
      (''frustration'', \<lparr>rt_mode = ''REQUIRED_INTERVENTION'', rt_intervention_mode = ''risk_intervention'',
        rt_primary = [''ER-002''], rt_backup = [''EE-003'', ''SS-006'', ''EA-007''],
        rt_inhibition = None\<rparr>),
      (''burnout'', \<lparr>rt_mode = ''REQUIRED_INTERVENTION'', rt_intervention_mode = ''risk_intervention'',
        rt_primary = [''ER-008''], rt_backup = [],
        rt_inhibition = None\<rparr>),
      (''off_topic_self_regulated'', \<lparr>rt_mode = ''SUPPRESS'', rt_intervention_mode = ''observation_inhibition'',
        rt_primary = [''OI-003''], rt_backup = [],
        rt_inhibition = Some ''OI-003''\<rparr>),
      (''off_topic_unregulated'', \<lparr>rt_mode = ''REQUIRED_INTERVENTION'', rt_intervention_mode = ''risk_intervention'',
        rt_primary = [''ER-003''], rt_backup = [],
        rt_inhibition = None\<rparr>),
      (''perfunctory_detachment'', \<lparr>rt_mode = ''REQUIRED_INTERVENTION'', rt_intervention_mode = ''risk_intervention'',
        rt_primary = [''ER-006''], rt_backup = [''SS-005''],
        rt_inhibition = None\<rparr>),
      (''individual_marginalization'', \<lparr>rt_mode = ''REQUIRED_INTERVENTION'', rt_intervention_mode = ''risk_intervention'',
        rt_primary = [''EA-003''], rt_backup = [''EE-005'', ''SS-002''],
        rt_inhibition = None\<rparr>),
      (''psychological_safety_risk'', \<lparr>rt_mode = ''REQUIRED_INTERVENTION'', rt_intervention_mode = ''risk_intervention_overlay'',
        rt_primary = [''SS-004''], rt_backup = [''EE-001''],
        rt_inhibition = None\<rparr>),
      (''high_intensity_overload'', \<lparr>rt_mode = ''REQUIRED_INTERVENTION'', rt_intervention_mode = ''risk_intervention_overlay'',
        rt_primary = [''EA-005''], rt_backup = [''ER-004''],
        rt_inhibition = None\<rparr>),
      (''stage_achievement'', \<lparr>rt_mode = ''OPTIONAL_SUPPORT'', rt_intervention_mode = ''optional_support_overlay'',
        rt_primary = [''SS-007''], rt_backup = [],
        rt_inhibition = None\<rparr>),
      (''unknown_sub_state'', \<lparr>rt_mode = ''SUPPRESS'', rt_intervention_mode = ''record_only'',
        rt_primary = [], rt_backup = [],
        rt_inhibition = None\<rparr>)]"

text \<open>\<open>route_for_canonical_state\<close>; \<open>None\<close> is the \<open>KeyError\<close>.\<close>

definition route_for_canonical_state :: "string \<Rightarrow> manifest_route option" where
  "route_for_canonical_state code = map_of ROUTE_MANIFEST (strip code)"

record route_payload =
  pl_canonical :: string
  pl_primary :: "string list"
  pl_backup :: "string list"
  pl_candidates :: "string list"
  pl_mode :: string
  pl_intervention_mode :: string
  pl_should_intervene :: bool
  pl_optional_support :: bool
  pl_inhibition :: "string option"
  pl_overlay :: "string option"

definition dedupe_ids :: "string list \<Rightarrow> string list" where
  "dedupe_ids ids = dedupe [] (filter (\<lambda>s. s \<noteq> []) (map strip ids))"

text \<open>\<open>route_for_sub_state\<close> of the strategy library; the errors are its exceptions.\<close>

definition route_for_sub_state :: "string set \<Rightarrow> string option \<Rightarrow> string + route_payload" where
  "route_for_sub_state library value =
     (let canonical = normalize_canonical_sub_state value in
      case route_for_canonical_state canonical of
        None \<Rightarrow> Inl ''missing_sub_state_route''
      | Some r \<Rightarrow>
          (let candidates = dedupe_ids (rt_primary r @ rt_backup r) in
           if filter (\<lambda>i. i \<notin> library) candidates \<noteq> [] then Inl ''strategy_route_missing_definition''
           else if truthy (rt_inhibition r) \<and> text_of (rt_inhibition r) \<notin> set OI_STRATEGY_IDS
           then Inl ''invalid_inhibition_strategy_id''
           else Inr \<lparr>pl_canonical = canonical, pl_primary = rt_primary r, pl_backup = rt_backup r,
                  pl_candidates = candidates, pl_mode = rt_mode r,
                  pl_intervention_mode = rt_intervention_mode r,
                  pl_should_intervene = (rt_mode r = ''REQUIRED_INTERVENTION''),
                  pl_optional_support = (rt_mode r = ''OPTIONAL_SUPPORT''),
                  pl_inhibition = rt_inhibition r, pl_overlay = None\<rparr>))"

text \<open>The overlay that takes over the route, in the fixed priority order.\<close>

definition effective_overlay :: "string \<Rightarrow> string list \<Rightarrow> string option" where
  "effective_overlay canonical tags =
     find (\<lambda>overlay. overlay \<in> set tags
         \<and> canonical \<in> set (case map_of OVERLAY_COMPATIBLE_PRIMARY_STATES overlay of
                               None \<Rightarrow> [] | Some ps \<Rightarrow> ps))
       [''psychological_safety_risk'', ''high_intensity_overload'', ''stage_achievement'']"

definition route_for_state_with_overlays ::
    "string set \<Rightarrow> string option \<Rightarrow> tag_source \<Rightarrow> string + route_payload" where
  "route_for_state_with_overlays library value secondary_tags =
     (let canonical = normalize_canonical_sub_state value in
      case effective_overlay canonical (state_overlays_from [secondary_tags]) of
        Some overlay \<Rightarrow>
          map_sum id (\<lambda>r. r\<lparr>pl_canonical := canonical, pl_overlay := Some overlay\<rparr>)
            (route_for_sub_state library (Some overlay))
      | None \<Rightarrow> map_sum id (\<lambda>r. r\<lparr>pl_overlay := None\<rparr>) (route_for_sub_state library (Some canonical)))"

text \<open>\<open>StateStrategyRoute.terminal_decision\<close>.\<close>

definition terminal_decision :: "route_payload \<Rightarrow> string" where
  "terminal_decision r =
     (if pl_mode r = ''REQUIRED_INTERVENTION'' then ''STAGE3''
      else if pl_mode r = ''SUPPRESS'' \<and> text_of (pl_inhibition r) \<in> set OI_STRATEGY_IDS
              \<and> pl_inhibition r \<noteq> None
      then ''OI''
      else if pl_mode r = ''OPTIONAL_SUPPORT'' then ''OPTIONAL_SUPPORT''
      else ''SUPPRESS'')"

subsection \<open>Facts about the tables\<close>

definition table_ids :: "string list" where
  "table_ids = dedupe [] (concat (map (\<lambda>(c, r). rt_primary r @ rt_backup r) ROUTE_MANIFEST))"

lemma canonical_codes_strip: "c \<in> set CANONICAL_SUB_STATE_CODES \<Longrightarrow> strip c = c"
proof -
  have "\<forall>c\<in>set CANONICAL_SUB_STATE_CODES. strip c = c" by code_simp
  then show "c \<in> set CANONICAL_SUB_STATE_CODES \<Longrightarrow> strip c = c" by blast
qed

lemma normalize_canonical_mem: "normalize_canonical_sub_state v \<in> set CANONICAL_SUB_STATE_CODES"
proof -
  have "''unknown_sub_state'' \<in> set CANONICAL_SUB_STATE_CODES" by code_simp
  then show ?thesis by (simp add: normalize_canonical_sub_state_def Let_def)
qed

lemma normalize_canonical_idem [simp]:
  "normalize_canonical_sub_state (Some (normalize_canonical_sub_state v)) = normalize_canonical_sub_state v"
  using normalize_canonical_mem [of v] canonical_codes_strip [OF normalize_canonical_mem, of v]
  by (simp add: normalize_canonical_sub_state_def [of "Some _"] Let_def)

end
