(* ===== verification/Segment_Normalization.thy ===== *)
theory Segment_Normalization
  imports State_Schema Platform_State
begin

text \<open>
  The segments of one assessment window (\<open>services/state_assessment_batch_service.py\<close>):
  the validation of what the model returned (\<open>_normalize_segments\<close>), and the helpers that
  build fallback segments when a window could not be assessed.  \<open>library\<close> is the set of
  strategy ids of the Markdown library, \<open>render\<close> is Python's \<open>str\<close> on values that are
  neither texts, integers nor booleans.
\<close>

definition SEGMENT_SOURCES :: "string list" where
  "SEGMENT_SOURCES = [''rule'', ''llm'', ''legacy'']"

definition SEGMENT_ASSESSMENT_STATUSES :: "string list" where
  "SEGMENT_ASSESSMENT_STATUSES = [''candidate'', ''confirmed'', ''superseded'']"

definition SEGMENT_STATE_CODES :: "string list" where
  "SEGMENT_STATE_CODES =
     [''positive_collaboration'', ''conflict_tension'', ''negative_silence'', ''frustration_stuck'',
      ''blocked_frustration'', ''task_detached'', ''off_task'', ''unknown'']"

subsection \<open>One segment of the model's answer\<close>

record normal_segment =
  ns_state_code :: string
  ns_raw_sub_state :: json
  ns_canonical :: "string option"
  ns_secondary_tags :: json
  ns_sub_state_confidence :: "pyfloat option"
  ns_should_intervene :: "int option"
  ns_source_stage :: "string option"
  ns_start :: int
  ns_end :: int
  ns_order :: int
  ns_evidence :: "int list"
  ns_confidence :: "pyfloat option"
  ns_source :: string
  ns_assessment_status :: string
  ns_active :: int
  ns_trigger_type :: string

definition truthy_code :: "json \<Rightarrow> string" where
  "truthy_code j = (if jtruthy j then code_text j else [])"

definition segment_canonical :: "dict \<Rightarrow> string + string option" where
  "segment_canonical item =
     (let payload = jor (dget item ''canonical_sub_state_code'') (dget item ''canonical_sub_state'') in
      if payload = JNull then Inr None
      else if truthy_code payload \<notin> set CANONICAL_SUB_STATE_CODES then Inl ''invalid_canonical_sub_state''
      else Inr (Some (normalize_canonical_sub_state (Some (truthy_code payload)))))"

definition segment_state :: "dict \<Rightarrow> string option \<Rightarrow> string + string" where
  "segment_state item canonical =
     (let given = truthy_code (jor (dget item ''state_code'') (dget item ''state''));
          state = (if canonical \<noteq> None \<and> given \<notin> set SEGMENT_STATE_CODES
                   then legacy_state_for_sub_state canonical else given)
      in if state \<notin> set SEGMENT_STATE_CODES then Inl ''invalid_segment_state'' else Inr state)"

definition among :: "int set option \<Rightarrow> int \<Rightarrow> bool" where
  "among students q = (case students of None \<Rightarrow> True | Some qs \<Rightarrow> q \<in> qs)"

definition segment_range :: "batch_row \<Rightarrow> int set option \<Rightarrow> dict \<Rightarrow> string + (int \<times> int)" where
  "segment_range b students item =
     andthen (as_int ''start_sequence'' (dget_or item ''start_sequence'' (dget item ''start_message_id''))) (\<lambda>s.
     andthen (as_int ''end_sequence'' (dget_or item ''end_sequence'' (dget item ''end_message_id''))) (\<lambda>e.
       if s > e then Inl ''invalid_segment_range''
       else if s < b_candidate_start_sequence b \<or> e > b_candidate_end_sequence b
       then Inl ''segment_outside_candidate_window''
       else if \<not> among students s \<or> \<not> among students e
       then Inl ''segment_boundary_not_candidate_student_message''
       else Inr (s, e)))"

definition segment_order :: "int \<Rightarrow> int list \<Rightarrow> dict \<Rightarrow> string + int" where
  "segment_order index seen item =
     andthen (as_int ''segment_order'' (dget_or item ''segment_order'' (JInt index))) (\<lambda>k.
       if k < 0 \<or> k \<in> set seen then Inl ''duplicate_or_invalid_segment_order'' else Inr k)"

fun evidence_loop :: "int \<Rightarrow> int \<Rightarrow> int set option \<Rightarrow> int list \<Rightarrow> json list \<Rightarrow> string + int list" where
  "evidence_loop s e students acc [] = Inr acc"
| "evidence_loop s e students acc (v # vs) =
     andthen (as_int ''evidence_sequence'' v) (\<lambda>q.
       if q < s \<or> q > e then Inl ''evidence_outside_segment''
       else if \<not> among students q then Inl ''evidence_not_candidate_student_message''
       else evidence_loop s e students (if q \<in> set acc then acc else acc @ [q]) vs)"

definition segment_evidence :: "int \<Rightarrow> int \<Rightarrow> int set option \<Rightarrow> dict \<Rightarrow> string + int list" where
  "segment_evidence s e students item =
     (case dget_or item ''evidence_sequences'' (dget_or item ''evidence_message_ids'' (JList [])) of
        JNull \<Rightarrow> Inr []
      | JList vs \<Rightarrow>
          andthen (evidence_loop s e students [] vs) (\<lambda>qs.
            if length qs > 3 then Inl ''too_many_evidence_sequences'' else Inr qs)
      | _ \<Rightarrow> Inl ''invalid_evidence_sequences'')"

text \<open>Both range comparisons are false of \<open>NaN\<close>, so it passes.\<close>

definition segment_confidence :: "dict \<Rightarrow> string + pyfloat option" where
  "segment_confidence item =
     (let c = dget item ''confidence''; invalid = Inl ''invalid_confidence'' in
      case c of
        JNull \<Rightarrow> Inr None
      | JBool _ \<Rightarrow> invalid
      | _ \<Rightarrow>
          (case as_float c of
             None \<Rightarrow> invalid
           | Some (Fin r) \<Rightarrow> if r < 0 \<or> r > 1 then invalid else Inr (Some (Fin r))
           | Some (Inf _) \<Rightarrow> invalid
           | Some NaN \<Rightarrow> Inr (Some NaN)))"

definition segment_choice :: "dict \<Rightarrow> string \<Rightarrow> string \<Rightarrow> string list \<Rightarrow> string \<Rightarrow> string + string" where
  "segment_choice item key dflt allowed err =
     (let v = (if jtruthy (dget item key) then code_text (dget item key) else dflt) in
      if v \<notin> set allowed then Inl err else Inr v)"

definition segment_active :: "dict \<Rightarrow> string + int" where
  "segment_active item =
     (case dget_or item ''is_active_at_batch_end'' (JBool False) of
        JBool b \<Rightarrow> Inr (if b then 1 else 0)
      | JInt i \<Rightarrow> if i \<in> {0, 1} then Inr i else Inl ''invalid_active_segment_flag''
      | _ \<Rightarrow> Inl ''invalid_active_segment_flag'')"

definition segment_intervention :: "string set \<Rightarrow> string option \<Rightarrow> string + int option" where
  "segment_intervention library canonical =
     (case canonical of
        None \<Rightarrow> Inr None
      | Some _ \<Rightarrow> andthen (route_for_sub_state library canonical) (\<lambda>r.
          Inr (Some (if pl_should_intervene r then 1 else 0))))"

definition normalize_item ::
    "string set \<Rightarrow> (json \<Rightarrow> string) \<Rightarrow> batch_row \<Rightarrow> int set option \<Rightarrow> int \<Rightarrow> int list \<Rightarrow> json
       \<Rightarrow> string + normal_segment" where
  "normalize_item library render b students index seen j =
     (case j of
        JObj item \<Rightarrow>
          andthen (segment_canonical item) (\<lambda>canonical.
          andthen (segment_state item canonical) (\<lambda>state.
          andthen (segment_range b students item) (\<lambda>(s, e).
          andthen (segment_order index seen item) (\<lambda>k.
          andthen (segment_evidence s e students item) (\<lambda>evidence.
          andthen (segment_confidence item) (\<lambda>confidence.
          andthen (segment_choice item ''source'' ''llm'' SEGMENT_SOURCES ''invalid_segment_source'') (\<lambda>source.
          andthen (segment_choice item ''assessment_status'' ''confirmed'' SEGMENT_ASSESSMENT_STATUSES
                     ''invalid_segment_assessment_status'') (\<lambda>status.
          andthen (segment_active item) (\<lambda>active.
          andthen (segment_intervention library canonical) (\<lambda>intervene.
          Inr \<lparr>ns_state_code = state,
               ns_raw_sub_state = jor (dget item ''raw_sub_state_code'') (dget item ''raw_sub_state''),
               ns_canonical = canonical,
               ns_secondary_tags = jor (dget item ''secondary_tags'') (JList []),
               ns_sub_state_confidence = (if canonical \<noteq> None then confidence else None),
               ns_should_intervene = intervene,
               ns_source_stage = (if canonical \<noteq> None then Some ''stage2'' else None),
               ns_start = s, ns_end = e, ns_order = k, ns_evidence = evidence,
               ns_confidence = confidence, ns_source = source, ns_assessment_status = status,
               ns_active = active,
               ns_trigger_type = (if jtruthy (dget item ''trigger_type'')
                                  then py_str render (dget item ''trigger_type'')
                                  else b_trigger_type b)\<rparr>))))))))))
      | _ \<Rightarrow> Inl ''invalid_segment'')"

fun normalize_items ::
    "string set \<Rightarrow> (json \<Rightarrow> string) \<Rightarrow> batch_row \<Rightarrow> int set option \<Rightarrow> int \<Rightarrow> int list \<Rightarrow> json list
       \<Rightarrow> string + normal_segment list" where
  "normalize_items library render b students index seen [] = Inr []"
| "normalize_items library render b students index seen (j # js) =
     andthen (normalize_item library render b students index seen j) (\<lambda>n.
     andthen (normalize_items library render b students (index + 1) (ns_order n # seen) js) (\<lambda>ns.
       Inr (n # ns)))"

definition normalize_segments ::
    "string set \<Rightarrow> (json \<Rightarrow> string) \<Rightarrow> batch_row \<Rightarrow> int set option \<Rightarrow> json
       \<Rightarrow> string + normal_segment list" where
  "normalize_segments library render b students j =
     (case j of
        JList js \<Rightarrow>
          andthen (normalize_items library render b students 0 [] js) (\<lambda>ns.
            (let sorted_ns = sort_key ns_order ns in
             if list_ex (\<lambda>(p, c). ns_start c \<le> ns_end p) (zip sorted_ns (tl sorted_ns))
             then Inl ''overlapping_segments'' else Inr sorted_ns))
      | _ \<Rightarrow> Inl ''segments_must_be_list'')"

subsection \<open>The student messages of a window\<close>

text \<open>\<open>COALESCE(NULLIF(TRIM(m.role), ''), u.role)\<close> after an inner join.\<close>

definition joined_role :: "platform \<Rightarrow> message_row \<Rightarrow> string option" where
  "joined_role d m =
     (case fetch_by u_id (m_user_id m) (users d) of
        None \<Rightarrow> None
      | Some u \<Rightarrow>
          coalesce (case m_role m of None \<Rightarrow> None
                    | Some r \<Rightarrow> if trim_blanks r = [] then None else Some (trim_blanks r)) (u_role u))"

definition candidate_student_rows :: "platform \<Rightarrow> int \<Rightarrow> int \<Rightarrow> int \<Rightarrow> int \<Rightarrow> int \<Rightarrow> message_row list" where
  "candidate_student_rows d gid sid did a b =
     sort_key (\<lambda>m. (or0 (m_sequence m), m_id m))
       (filter (\<lambda>m. m_group_id m = gid \<and> m_session_id m = Some sid \<and> m_discussion_id m = Some did
           \<and> joined_role d m = Some ''student''
           \<and> (case m_sequence m of None \<Rightarrow> False | Some s \<Rightarrow> a \<le> s \<and> s \<le> b))
         (messages d))"

definition sequences :: "message_row list \<Rightarrow> int list" where
  "sequences rows = map (\<lambda>m. or0 (m_sequence m)) rows"

subsection \<open>Evidence in rule assessments\<close>

text \<open>
  \<open>_explicit_evidence_values\<close>: the list items found under the evidence keys, depth first
  with the last child first.
\<close>

definition is_list :: "json \<Rightarrow> bool" where
  "is_list j = (case j of JList _ \<Rightarrow> True | _ \<Rightarrow> False)"

definition own_evidence :: "string list \<Rightarrow> dict \<Rightarrow> json list" where
  "own_evidence keys items =
     concat (map (\<lambda>(k, v). if k \<in> set keys then (case v of JList xs \<Rightarrow> xs | _ \<Rightarrow> []) else []) items)"

fun found :: "string list \<Rightarrow> json \<Rightarrow> json list"
  and found_items :: "string list \<Rightarrow> dict \<Rightarrow> json list"
  and found_list :: "string list \<Rightarrow> json list \<Rightarrow> json list" where
  "found keys (JObj items) = own_evidence keys items @ found_items keys items"
| "found keys (JList xs) = found_list keys xs"
| "found keys _ = []"
| "found_items keys [] = []"
| "found_items keys ((k, v) # items) =
     found_items keys items @ (if k \<in> set keys \<and> is_list v then [] else found keys v)"
| "found_list keys [] = []"
| "found_list keys (x # xs) = found_list keys xs @ found keys x"

text \<open>Values \<open>int()\<close> refuses are skipped; an infinity escapes.\<close>

fun evidence_ints :: "json list \<Rightarrow> string + int list" where
  "evidence_ints [] = Inr []"
| "evidence_ints (j # js) =
     (case j of
        JFloat (Inf _) \<Rightarrow> Inl ''OverflowError''
      | JBool _ \<Rightarrow> evidence_ints js
      | _ \<Rightarrow> (case as_int [] j of
               Inl _ \<Rightarrow> evidence_ints js
             | Inr i \<Rightarrow> map_sum id (Cons i) (evidence_ints js)))"

definition explicit_evidence_values :: "json \<Rightarrow> string list \<Rightarrow> string + int list" where
  "explicit_evidence_values payload keys =
     (case payload of
        JObj items \<Rightarrow> map_sum id (dedupe []) (evidence_ints (found keys (JObj items)))
      | _ \<Rightarrow> Inr [])"

subsection \<open>Fallback segments\<close>

record rule_fallback =
  fb_assessment_id :: int
  fb_state_code :: string
  fb_start :: int
  fb_end :: int
  fb_evidence :: "int list"
  fb_confidence :: rat
  fb_session_no :: "int option"
  fb_task_id :: "int option"

definition row_of_sequence :: "message_row list \<Rightarrow> int \<Rightarrow> message_row option" where
  "row_of_sequence rows q = find (\<lambda>m. or0 (m_sequence m) = q) (rev rows)"

definition sequence_of_id :: "message_row list \<Rightarrow> int \<Rightarrow> int option" where
  "sequence_of_id rows i = map_option (\<lambda>m. or0 (m_sequence m)) (find (\<lambda>m. m_id m = i) (rev rows))"

text \<open>The sequences of the window a rule assessment gives as evidence, ascending.\<close>

definition rule_evidence :: "message_row list \<Rightarrow> rule_assessment_row \<Rightarrow> string + int list" where
  "rule_evidence rows a =
     andthen (explicit_evidence_values (ra_rule_assessment a) [''evidence_sequences'', ''matched_sequences'']) (\<lambda>s1.
     andthen (explicit_evidence_values (ra_context a) [''evidence_sequences'', ''matched_sequences'']) (\<lambda>s2.
     andthen (explicit_evidence_values (ra_rule_assessment a) [''evidence_message_ids'', ''matched_message_ids'']) (\<lambda>i1.
     andthen (explicit_evidence_values (ra_context a) [''evidence_message_ids'', ''matched_message_ids'']) (\<lambda>i2.
       Inr (sorted_list_of_set
         (set (filter (\<lambda>q. q \<in> set (sequences rows)) (s1 @ s2))
          \<union> set (concat (map (\<lambda>i. option_list (sequence_of_id rows i)) (i1 @ i2)))))))))"

definition clamp01 :: "rat \<Rightarrow> rat" where
  "clamp01 r = min 1 (max 0 r)"

definition rule_fallback_of ::
    "message_row list \<Rightarrow> rule_assessment_row \<Rightarrow> string + rule_fallback option" where
  "rule_fallback_of rows a =
     (let state = strip (text_of (ra_rule_state_code a)) in
      if state \<notin> set SEGMENT_STATE_CODES then Inr None
      else andthen (rule_evidence rows a) (\<lambda>qs.
        if qs = [] then Inr None
        else
          (let first = row_of_sequence rows (hd qs);
               confidence = coalesce (ra_confidence a) (ra_state_score a)
           in Inr (Some \<lparr>fb_assessment_id = ra_id a, fb_state_code = state,
                fb_start = hd qs, fb_end = last qs, fb_evidence = take 3 qs,
                fb_confidence = clamp01 (case confidence of None \<Rightarrow> 0 | Some r \<Rightarrow> r),
                fb_session_no = (case first of None \<Rightarrow> None | Some m \<Rightarrow> m_session_no m),
                fb_task_id = (case first of None \<Rightarrow> None | Some m \<Rightarrow> m_task_id m)\<rparr>))))"

fun fallback_list ::
    "message_row list \<Rightarrow> rule_assessment_row list \<Rightarrow> string + rule_fallback list" where
  "fallback_list rows [] = Inr []"
| "fallback_list rows (a # as) =
     andthen (rule_fallback_of rows a) (\<lambda>f. andthen (fallback_list rows as) (\<lambda>fs. Inr (option_list f @ fs)))"

definition confirmed_rule_fallbacks ::
    "platform \<Rightarrow> batch_row \<Rightarrow> message_row list \<Rightarrow> string + rule_fallback list" where
  "confirmed_rule_fallbacks d b rows =
     fallback_list rows
       (sort_key ra_id (filter (\<lambda>a. ra_group_id a = b_group_id b \<and> ra_session_id a = b_session_id b
            \<and> ra_discussion_id a = b_discussion_id b \<and> ra_assessment_status a = Some ''confirmed''
            \<and> ra_rule_state_code a \<noteq> None \<and> ra_rule_state_code a \<noteq> Some ''unknown'')
          (rule_assessments d)))"

definition segment_covered_sequences :: "int list \<Rightarrow> (int \<times> int) list \<Rightarrow> int set" where
  "segment_covered_sequences qs ranges =
     set (filter (\<lambda>q. list_ex (\<lambda>(s, e). s \<le> q \<and> q \<le> e) ranges) qs)"

text \<open>\<open>_contiguous_ranges\<close>: the loop keeps the open range and its last member.\<close>

fun range_loop :: "int \<Rightarrow> int \<Rightarrow> int list \<Rightarrow> (int \<times> int) list" where
  "range_loop start previous [] = [(start, previous)]"
| "range_loop start previous (q # qs) =
     (if q = previous + 1 then range_loop start q qs else (start, previous) # range_loop q q qs)"

definition contiguous_ranges :: "int list \<Rightarrow> (int \<times> int) list" where
  "contiguous_ranges qs =
     (case sorted_list_of_set (set qs) of [] \<Rightarrow> [] | q # rest \<Rightarrow> range_loop q q rest)"

end
