(* ===== verification/Assessment_Batch.thy ===== *)
theory Assessment_Batch
  imports Segment_Normalization
begin

text \<open>
  \<open>services/state_assessment_batch_service.py\<close>: the assessment windows of a discussion and
  its cursor.  Every operation is one transaction: \<open>Inl\<close> is the exception it raises (and
  then nothing is written), \<open>Inr\<close> its result and the new platform.  The unique index
  \<open>idx_state_assessment_batches_one_active\<close> of \<open>migrations.py\<close> is the check \<open>single_flight\<close>
  at the two operations that make a batch active.  \<open>digest\<close> is the hash of the window key.
\<close>

definition FALLBACK_REASON_RETRY_EXHAUSTED :: string where
  "FALLBACK_REASON_RETRY_EXHAUSTED = ''batch_retry_exhausted''"

definition FALLBACK_REASON_BATCH_UNCLASSIFIED :: string where
  "FALLBACK_REASON_BATCH_UNCLASSIFIED = ''batch_unclassified''"

definition TERMINAL_BATCH_STATUSES :: "string list" where
  "TERMINAL_BATCH_STATUSES = [''degraded'', ''quarantined'']"

definition OBSERVATION_STATUSES :: "string list" where
  "OBSERVATION_STATUSES = [''inactive'', ''observing'']"

type_synonym scope = "int \<times> int \<times> int"

definition batch_scope :: "batch_row \<Rightarrow> scope" where
  "batch_scope b = (b_group_id b, b_session_id b, b_discussion_id b)"

definition cursor_scope :: "cursor_row \<Rightarrow> scope" where
  "cursor_scope c = (c_group_id c, c_session_id c, c_discussion_id c)"

definition active_batch :: "batch_row \<Rightarrow> bool" where
  "active_batch b \<longleftrightarrow> b_status b \<in> {''pending'', ''running''}"

text \<open>The partial unique index: at most one active batch in a scope.\<close>

definition single_flight :: "platform \<Rightarrow> bool" where
  "single_flight d \<longleftrightarrow> distinct (map batch_scope (filter active_batch (batches d)))"

definition indexed :: "'a \<times> platform \<Rightarrow> string + ('a \<times> platform)" where
  "indexed r = (if single_flight (snd r) then Inr r else Inl ''IntegrityError'')"

definition scope_row :: "platform \<Rightarrow> scope \<Rightarrow> string + session_row" where
  "scope_row d sc =
     (case sc of (gid, sid, did) \<Rightarrow>
        (case find (\<lambda>x. d_id x = did \<and> d_group_id x = gid \<and> d_session_id x = sid) (discussions d) of
           None \<Rightarrow> Inl ''discussion_scope_mismatch''
         | Some _ \<Rightarrow>
             (case fetch_session d sid of
                None \<Rightarrow> Inl ''discussion_scope_mismatch''
              | Some es \<Rightarrow> Inr es)))"

definition cursor_of :: "platform \<Rightarrow> scope \<Rightarrow> cursor_row option" where
  "cursor_of d sc = find (\<lambda>c. cursor_scope c = sc) (cursors d)"

definition new_cursor :: "scope \<Rightarrow> session_row \<Rightarrow> stamp \<Rightarrow> cursor_row" where
  "new_cursor sc es ts = (case sc of (gid, sid, did) \<Rightarrow>
     \<lparr>c_group_id = gid, c_session_id = sid, c_discussion_id = did, c_session_no = es_session_no es,
      c_task_id = es_task_id es, c_last_finalized_student_sequence = 0,
      c_last_scheduled_student_sequence = 0, c_last_assessment_requested_at = None,
      c_last_assessment_completed_at = None, c_last_scheduling_completed_at = None,
      c_last_intervention_sequence = None, c_observation_started_sequence = None,
      c_observation_status = ''inactive'', c_updated_at = ts\<rparr>)"

definition ensure_cursor :: "stamp \<Rightarrow> scope \<Rightarrow> platform \<Rightarrow> string + platform" where
  "ensure_cursor ts sc d =
     andthen (scope_row d sc) (\<lambda>es.
       Inr (if cursor_of d sc = None then d\<lparr>cursors := cursors d @ [new_cursor sc es ts]\<rparr> else d))"

definition change_cursor :: "scope \<Rightarrow> (cursor_row \<Rightarrow> cursor_row) \<Rightarrow> platform \<Rightarrow> platform" where
  "change_cursor sc f d = change_cursors (\<lambda>c. cursor_scope c = sc) f d"

definition change_batch :: "int \<Rightarrow> (batch_row \<Rightarrow> bool) \<Rightarrow> (batch_row \<Rightarrow> batch_row) \<Rightarrow> platform \<Rightarrow> platform" where
  "change_batch bid P f d = change_batches (\<lambda>b. b_id b = bid \<and> P b) f d"

definition batch_with_scope :: "platform \<Rightarrow> int \<Rightarrow> string + batch_row" where
  "batch_with_scope d bid =
     (case fetch_batch d bid of
        None \<Rightarrow> Inl ''batch_not_found''
      | Some b \<Rightarrow> andthen (scope_row d (batch_scope b)) (\<lambda>_. Inr b))"

subsection \<open>Reading\<close>

definition get_or_create_cursor :: "datetime \<Rightarrow> scope \<Rightarrow> platform \<Rightarrow> string + (cursor_row \<times> platform)" where
  "get_or_create_cursor now sc d =
     andthen (ensure_cursor (fmt_sec now) sc d) (\<lambda>d1. Inr (the (cursor_of d1 sc), d1))"

definition get_last_finalized_student_sequence ::
    "datetime \<Rightarrow> scope \<Rightarrow> platform \<Rightarrow> string + (int \<times> platform)" where
  "get_last_finalized_student_sequence now sc d =
     andthen (get_or_create_cursor now sc d) (\<lambda>(c, d1). Inr (c_last_finalized_student_sequence c, d1))"

definition scheduled_through :: "cursor_row \<Rightarrow> int" where
  "scheduled_through c = max (c_last_finalized_student_sequence c) (c_last_scheduled_student_sequence c)"

definition get_last_scheduled_student_sequence ::
    "datetime \<Rightarrow> scope \<Rightarrow> platform \<Rightarrow> string + (int \<times> platform)" where
  "get_last_scheduled_student_sequence now sc d =
     andthen (get_or_create_cursor now sc d) (\<lambda>(c, d1). Inr (scheduled_through c, d1))"

definition get_active_batch :: "scope \<Rightarrow> platform \<Rightarrow> batch_row option" where
  "get_active_batch sc d =
     (case sort_key (\<lambda>b. (if b_status b = ''running'' then 0 else 1 :: int, b_id b))
             (filter (\<lambda>b. batch_scope b = sc \<and> active_batch b) (batches d)) of
        [] \<Rightarrow> None | b # _ \<Rightarrow> Some b)"

subsection \<open>Creating a window\<close>

record batch_spec =
  bs_start :: int
  bs_end :: int
  bs_trigger_type :: "string option"
  bs_context_start :: "int option"
  bs_context_end :: "int option"
  bs_trigger_sequence :: "int option"
  bs_window_key :: "string option"
  bs_model :: "string option"
  bs_prompt_version :: "string option"
  bs_request_priority :: int
  bs_max_attempts :: int
  bs_rerun_requested :: bool

definition window_key :: "(string \<Rightarrow> string) \<Rightarrow> scope \<Rightarrow> int \<Rightarrow> int \<Rightarrow> string" where
  "window_key digest sc a b = (case sc of (gid, sid, did) \<Rightarrow>
     ''state-window:'' @ digest (''g='' @ int_text gid @ ''|s='' @ int_text sid @ ''|d='' @ int_text did
       @ ''|candidate='' @ int_text a @ ''-'' @ int_text b))"

definition spec_refusal :: "batch_spec \<Rightarrow> string option" where
  "spec_refusal sp =
     (if bs_start sp < 0 \<or> bs_start sp > bs_end sp then Some ''invalid_candidate_window''
      else if (bs_context_start sp = None) \<noteq> (bs_context_end sp = None) then Some ''incomplete_context_window''
      else if bs_context_start sp \<noteq> None \<and> or0 (bs_context_start sp) > or0 (bs_context_end sp)
      then Some ''invalid_context_window''
      else if strip (text_of (bs_trigger_type sp)) = [] then Some ''missing_trigger_type''
      else if bs_request_priority sp < 0 \<or> bs_max_attempts sp < 1 then Some ''invalid_batch_retry_policy''
      else None)"

definition empty_replacement :: replacement where
  "empty_replacement = \<lparr>rp_of_pipeline_run_id = None, rp_reason = None,
     rp_trigger_message_id = None, rp_cutoff_sequence = None\<rparr>"

definition empty_continuation :: continuation where
  "empty_continuation = \<lparr>ct_trigger_type = None, ct_trigger_sequence = None, ct_request_priority = 0,
     ct_candidate_start_sequence = None, ct_candidate_end_sequence = None,
     ct_replacement = empty_replacement\<rparr>"

definition new_batch ::
    "(string \<Rightarrow> string) \<Rightarrow> stamp \<Rightarrow> scope \<Rightarrow> session_row \<Rightarrow> batch_spec \<Rightarrow> int list \<Rightarrow> int \<Rightarrow> batch_row" where
  "new_batch digest ts sc es sp students bid = (case sc of (gid, sid, did) \<Rightarrow>
     \<lparr>b_id = bid, b_group_id = gid, b_session_id = sid, b_discussion_id = did,
      b_session_no = es_session_no es, b_task_id = es_task_id es,
      b_candidate_start_sequence = bs_start sp, b_candidate_end_sequence = bs_end sp,
      b_context_start_sequence = bs_context_start sp, b_context_end_sequence = bs_context_end sp,
      b_trigger_type = strip (text_of (bs_trigger_type sp)), b_trigger_sequence = bs_trigger_sequence sp,
      b_window_key = (if strip (text_of (bs_window_key sp)) \<noteq> [] then strip (text_of (bs_window_key sp))
                      else window_key digest sc (bs_start sp) (bs_end sp)),
      b_status = ''pending'', b_rerun_requested = bs_rerun_requested sp,
      b_request_priority = bs_request_priority sp, b_last_trigger_sequence = bs_trigger_sequence sp,
      b_continuation = empty_continuation, b_replacement = empty_replacement,
      b_attempt_count = 0, b_max_attempts = bs_max_attempts sp, b_next_retry_at = None,
      b_enqueued_at = None, b_model = bs_model sp, b_prompt_version = bs_prompt_version sp,
      b_raw_response = None, b_parsed_response = None, b_error_code = None, b_error_detail = None,
      b_student_sequences = Some students, b_terminal_status = None, b_terminal_at = None,
      b_fallback_action = None, b_fallback_segment_count = 0, b_started_at = None,
      b_completed_at = None, b_created_at = ts, b_updated_at = Some ts\<rparr>)"

definition same_window :: "scope \<Rightarrow> int \<Rightarrow> int \<Rightarrow> batch_row \<Rightarrow> bool" where
  "same_window sc a e b \<longleftrightarrow> batch_scope b = sc \<and> b_candidate_start_sequence b = a
     \<and> b_candidate_end_sequence b = e"

definition insert_batch :: "batch_row \<Rightarrow> platform \<Rightarrow> platform" where
  "insert_batch b d = d\<lparr>batches := batches d @ [b], next_batch_id := next_batch_id d + 1\<rparr>"

definition create_batch ::
    "(string \<Rightarrow> string) \<Rightarrow> datetime \<Rightarrow> scope \<Rightarrow> batch_spec \<Rightarrow> platform
       \<Rightarrow> string + ((bool \<times> batch_row) \<times> platform)" where
  "create_batch digest now sc sp d =
     (case spec_refusal sp of
        Some e \<Rightarrow> Inl e
      | None \<Rightarrow>
          (let ts = fmt_sec now in
           andthen (scope_row d sc) (\<lambda>es.
           andthen (ensure_cursor ts sc d) (\<lambda>d1.
             (let students = (case sc of (gid, sid, did) \<Rightarrow>
                    sequences (candidate_student_rows d1 gid sid did (bs_start sp) (bs_end sp)));
                  touch = change_cursor sc (\<lambda>c. c\<lparr>c_last_assessment_requested_at := Some ts, c_updated_at := ts\<rparr>)
              in case find (same_window sc (bs_start sp) (bs_end sp)) (batches d1) of
                   Some b \<Rightarrow> Inr ((False, b), touch d1)
                 | None \<Rightarrow>
                     (let b = new_batch digest ts sc es sp students (next_batch_id d1)
                      in indexed ((True, b), touch (insert_batch b d1))))))))"

subsection \<open>Moving a batch along\<close>

definition batch_event :: "string \<Rightarrow> int \<Rightarrow> stamp \<Rightarrow> latency_event" where
  "batch_event name bid ts = \<lparr>le_stage = ''queue'', le_event = name, le_pipeline_run_id = None,
     le_assessment_batch_id = Some bid, le_lock_owner = None, le_lock_token = None,
     le_reason = None, le_occurred_at = ts\<rparr>"

definition claimable :: "stamp \<Rightarrow> batch_row \<Rightarrow> bool" where
  "claimable ts b \<longleftrightarrow> b_status b = ''pending''
     \<and> (case b_next_retry_at b of None \<Rightarrow> True | Some t \<Rightarrow> t \<le> ts)"

definition claimed_row :: "stamp \<Rightarrow> batch_row \<Rightarrow> batch_row" where
  "claimed_row ts b = b\<lparr>b_status := ''running'', b_started_at := coalesce (b_started_at b) (Some ts),
     b_attempt_count := b_attempt_count b + 1, b_next_retry_at := None, b_updated_at := Some ts\<rparr>"

definition claim_batch :: "datetime \<Rightarrow> int \<Rightarrow> platform \<Rightarrow> string + (bool \<times> platform)" where
  "claim_batch now bid d =
     andthen (batch_with_scope d bid) (\<lambda>b.
       (let ts = fmt_ms now;
            won = (rowcount (\<lambda>r. b_id r = bid \<and> claimable ts r) (batches d) = 1);
            d1 = change_batch bid (claimable ts) (claimed_row ts) d
        in Inr (won, if won then log_event (batch_event ''task_started'' bid ts) d1 else d1)))"

definition set_rerun_requested :: "datetime \<Rightarrow> int \<Rightarrow> bool \<Rightarrow> platform \<Rightarrow> string + (unit \<times> platform)" where
  "set_rerun_requested now bid requested d =
     andthen (batch_with_scope d bid) (\<lambda>_.
       Inr ((), change_batch bid (\<lambda>_. True)
         (\<lambda>b. b\<lparr>b_rerun_requested := requested, b_updated_at := Some (fmt_sec now)\<rparr>) d))"

definition failed_row :: "stamp \<Rightarrow> string \<Rightarrow> string option \<Rightarrow> stamp option \<Rightarrow> batch_row \<Rightarrow> batch_row" where
  "failed_row ts code detail retry b = b\<lparr>b_status := ''failed'', b_error_code := Some code,
     b_error_detail := detail, b_completed_at := Some ts, b_next_retry_at := retry,
     b_updated_at := Some ts\<rparr>"

definition mark_batch_failed ::
    "datetime \<Rightarrow> int \<Rightarrow> string option \<Rightarrow> string option \<Rightarrow> stamp option \<Rightarrow> platform
       \<Rightarrow> string + (unit \<times> platform)" where
  "mark_batch_failed now bid code detail retry d =
     andthen (batch_with_scope d bid) (\<lambda>_.
       Inr ((), change_batch bid active_batch
         (failed_row (fmt_sec now) (text_of (or_text code (Some ''assessment_failed''))) detail retry) d))"

definition retryable :: "batch_row \<Rightarrow> bool" where
  "retryable b \<longleftrightarrow> b_status b = ''failed'' \<and> b_attempt_count b < b_max_attempts b"

definition prepare_retry :: "datetime \<Rightarrow> int \<Rightarrow> stamp option \<Rightarrow> platform \<Rightarrow> string + (bool \<times> platform)" where
  "prepare_retry now bid retry_at d =
     andthen (batch_with_scope d bid) (\<lambda>_.
       indexed (rowcount (\<lambda>r. b_id r = bid \<and> retryable r) (batches d) = 1,
         change_batch bid retryable
           (\<lambda>b. b\<lparr>b_status := ''pending'', b_next_retry_at := retry_at, b_completed_at := None,
              b_error_code := None, b_error_detail := None, b_updated_at := Some (fmt_sec now)\<rparr>) d))"

definition mark_enqueued :: "datetime \<Rightarrow> int \<Rightarrow> platform \<Rightarrow> string + (unit \<times> platform)" where
  "mark_enqueued now bid d =
     andthen (batch_with_scope d bid) (\<lambda>_.
       Inr ((), log_event (batch_event ''task_enqueued'' bid (fmt_ms now))
         (change_batch bid (\<lambda>_. True)
           (\<lambda>b. b\<lparr>b_enqueued_at := Some (fmt_ms now), b_updated_at := Some (fmt_ms now)\<rparr>) d)))"

subsection \<open>Giving a window up\<close>

text \<open>
  Two unique indexes bear on a new segment: its dedupe key, and its order within its window.
  A fallback segment whose key is taken is left out (\<open>ON CONFLICT(dedupe_key) DO NOTHING\<close>,
  which SQLite tests first); a taken order raises.
\<close>

definition order_taken :: "segment_row \<Rightarrow> platform \<Rightarrow> bool" where
  "order_taken s d \<longleftrightarrow> (\<exists>q\<in>set (segments d). sg_assessment_batch_id q = sg_assessment_batch_id s
     \<and> sg_segment_order q = sg_segment_order s)"

definition append_segment :: "segment_row \<Rightarrow> platform \<Rightarrow> platform" where
  "append_segment s d = d\<lparr>segments := segments d @ [s\<lparr>sg_id := next_segment_id d\<rparr>],
     next_segment_id := next_segment_id d + 1\<rparr>"

definition insert_segment :: "segment_row \<Rightarrow> platform \<Rightarrow> string + platform" where
  "insert_segment s d =
     (if \<exists>q\<in>set (segments d). sg_dedupe_key q = sg_dedupe_key s then Inr d
      else if order_taken s d then Inl ''IntegrityError''
      else Inr (append_segment s d))"

definition silence_segment :: "stamp \<Rightarrow> dedupe_key \<Rightarrow> platform \<Rightarrow> platform" where
  "silence_segment ts k d = d\<lparr>segments := update_where (\<lambda>s. sg_dedupe_key s = k)
     (\<lambda>s. s\<lparr>sg_should_intervene := Some 0, sg_selected_strategy_id := None, sg_updated_at := ts\<rparr>)
     (segments d)\<rparr>"

definition segment_id_of :: "dedupe_key \<Rightarrow> platform \<Rightarrow> int list" where
  "segment_id_of k d = option_list (map_option sg_id (find (\<lambda>s. sg_dedupe_key s = k) (segments d)))"

definition window_start :: "batch_row \<Rightarrow> int" where
  "window_start b = (case b_context_start_sequence b of None \<Rightarrow> b_candidate_start_sequence b | Some s \<Rightarrow> s)"

definition rule_segment :: "batch_row \<Rightarrow> stamp \<Rightarrow> int \<Rightarrow> rule_fallback \<Rightarrow> segment_row" where
  "rule_segment b ts order f =
     \<lparr>sg_id = 0, sg_group_id = b_group_id b, sg_session_id = b_session_id b,
      sg_session_no = fb_session_no f, sg_task_id = fb_task_id f, sg_discussion_id = b_discussion_id b,
      sg_state_code = fb_state_code f, sg_raw_sub_state_code = None, sg_canonical_sub_state_code = None,
      sg_secondary_tags = None, sg_should_intervene = None, sg_selected_strategy_id = None,
      sg_source_stage = None, sg_assessment_batch_id = b_id b, sg_start_sequence = fb_start f,
      sg_end_sequence = fb_end f, sg_evidence_sequences = fb_evidence f,
      sg_sub_state_confidence = None, sg_confidence = Some (fb_confidence f),
      sg_fallback_reason = Some FALLBACK_REASON_RETRY_EXHAUSTED, sg_source = ''rule'',
      sg_assessment_status = ''confirmed'', sg_segment_order = order,
      sg_is_active_at_batch_end = (if fb_end f = b_candidate_end_sequence b then 1 else 0),
      sg_trigger_type = b_trigger_type b, sg_assessment_id = Some (fb_assessment_id f),
      sg_analysis_anchor = b_candidate_start_sequence b, sg_analysis_window_start = window_start b,
      sg_analysis_window_end = b_candidate_end_sequence b, sg_prompt_version = None,
      sg_is_finalized = 1, sg_dedupe_key = Rule_Key (b_id b) (fb_assessment_id f),
      sg_created_at = ts, sg_updated_at = ts,
      sg_strategy_pipeline_run_id = None, sg_coarse_state_code = None, sg_strategy_library_version = None,
      sg_intervention_run_id = None, sg_intervention_published_at = None, sg_intervention_disposition = None\<rparr>"

fun insert_rule_fallback_segments ::
    "batch_row \<Rightarrow> stamp \<Rightarrow> int \<Rightarrow> rule_fallback list \<Rightarrow> platform \<Rightarrow> string + (int list \<times> platform)" where
  "insert_rule_fallback_segments b ts order [] d = Inr ([], d)"
| "insert_rule_fallback_segments b ts order (f # fs) d =
     (let k = Rule_Key (b_id b) (fb_assessment_id f) in
      andthen (insert_segment (rule_segment b ts order f) d) (\<lambda>d0.
      (let d1 = silence_segment ts k d0 in
       andthen (insert_rule_fallback_segments b ts (order + 1) fs d1) (\<lambda>(ids, d2).
         Inr (segment_id_of k d1 @ ids, d2)))))"

definition unclassified_segment ::
    "batch_row \<Rightarrow> stamp \<Rightarrow> int \<Rightarrow> message_row option \<Rightarrow> int \<Rightarrow> int \<Rightarrow> segment_row" where
  "unclassified_segment b ts order first s e =
     \<lparr>sg_id = 0, sg_group_id = b_group_id b, sg_session_id = b_session_id b,
      sg_session_no = (case first of None \<Rightarrow> None | Some m \<Rightarrow> m_session_no m),
      sg_task_id = (case first of None \<Rightarrow> None | Some m \<Rightarrow> m_task_id m),
      sg_discussion_id = b_discussion_id b, sg_state_code = ''unknown'',
      sg_raw_sub_state_code = None, sg_canonical_sub_state_code = None, sg_secondary_tags = None,
      sg_should_intervene = None, sg_selected_strategy_id = None, sg_source_stage = None,
      sg_assessment_batch_id = b_id b, sg_start_sequence = s, sg_end_sequence = e,
      sg_evidence_sequences = [], sg_sub_state_confidence = None, sg_confidence = None,
      sg_fallback_reason = Some FALLBACK_REASON_BATCH_UNCLASSIFIED, sg_source = ''llm'',
      sg_assessment_status = ''unclassified'', sg_segment_order = order,
      sg_is_active_at_batch_end = (if e = b_candidate_end_sequence b then 1 else 0),
      sg_trigger_type = b_trigger_type b, sg_assessment_id = None,
      sg_analysis_anchor = b_candidate_start_sequence b, sg_analysis_window_start = window_start b,
      sg_analysis_window_end = b_candidate_end_sequence b, sg_prompt_version = b_prompt_version b,
      sg_is_finalized = 1, sg_dedupe_key = Unclassified_Key (b_id b) s e,
      sg_created_at = ts, sg_updated_at = ts,
      sg_strategy_pipeline_run_id = None, sg_coarse_state_code = None, sg_strategy_library_version = None,
      sg_intervention_run_id = None, sg_intervention_published_at = None, sg_intervention_disposition = None\<rparr>"

fun insert_unclassified ::
    "batch_row \<Rightarrow> stamp \<Rightarrow> message_row list \<Rightarrow> int \<Rightarrow> (int \<times> int) list \<Rightarrow> platform
       \<Rightarrow> string + (int list \<times> platform)" where
  "insert_unclassified b ts rows order [] d = Inr ([], d)"
| "insert_unclassified b ts rows order ((s, e) # ranges) d =
     (let k = Unclassified_Key (b_id b) s e in
      andthen (insert_segment (unclassified_segment b ts order (row_of_sequence rows s) s e) d) (\<lambda>d0.
      (let d1 = silence_segment ts k d0 in
       andthen (insert_unclassified b ts rows (order + 1) ranges d1) (\<lambda>(ids, d2).
         Inr (segment_id_of k d1 @ ids, d2)))))"

definition confirmed_ranges :: "platform \<Rightarrow> batch_row \<Rightarrow> (int \<times> int) list" where
  "confirmed_ranges d b = map (\<lambda>s. (sg_start_sequence s, sg_end_sequence s))
     (filter (\<lambda>s. sg_assessment_batch_id s = b_id b \<and> sg_assessment_status s = ''confirmed'') (segments d))"

definition insert_unclassified_fallback_segments ::
    "batch_row \<Rightarrow> stamp \<Rightarrow> message_row list \<Rightarrow> int \<Rightarrow> platform \<Rightarrow> string + (int list \<times> platform)" where
  "insert_unclassified_fallback_segments b ts rows start_order d =
     (let qs = sequences rows;
          known = segment_covered_sequences qs (confirmed_ranges d b)
      in insert_unclassified b ts rows start_order
           (contiguous_ranges (filter (\<lambda>q. q \<notin> known) qs)) d)"

record terminalize_result =
  tz_terminalized :: bool
  tz_reason :: string
  tz_segment_ids :: "int list"
  tz_cursor_before :: "int option"
  tz_cursor_after :: "int option"

definition not_terminalized :: "string \<Rightarrow> int list \<Rightarrow> terminalize_result" where
  "not_terminalized reason ids = \<lparr>tz_terminalized = False, tz_reason = reason, tz_segment_ids = ids,
     tz_cursor_before = None, tz_cursor_after = None\<rparr>"

definition is_fallback_of :: "int list \<Rightarrow> segment_row \<Rightarrow> bool" where
  "is_fallback_of bids s \<longleftrightarrow> sg_assessment_batch_id s \<in> set bids
     \<and> sg_fallback_reason s \<in> {Some FALLBACK_REASON_RETRY_EXHAUSTED, Some FALLBACK_REASON_BATCH_UNCLASSIFIED}"

text \<open>The early returns of \<open>terminalize_exhausted_batch\<close>; \<open>None\<close> lets it go on.\<close>

definition terminalize_refusal :: "bool \<Rightarrow> batch_row \<Rightarrow> platform \<Rightarrow> terminalize_result option" where
  "terminalize_refusal force b d =
     (if b_terminal_status b \<in> Some ` set TERMINAL_BATCH_STATUSES
      then Some (not_terminalized ''already_terminal''
        (sort_key id (map sg_id (filter (is_fallback_of [b_id b]) (segments d)))))
      else if b_status b = ''succeeded'' then Some (not_terminalized ''batch_already_succeeded'' [])
      else if \<not> force \<and> \<not> b_attempt_count b \<ge> (if b_max_attempts b = 0 then 1 else b_max_attempts b)
      then Some (not_terminalized ''retry_limit_not_reached'' [])
      else if b_status b \<notin> {''pending'', ''running'', ''failed''}
      then Some (not_terminalized ''batch_not_terminalizable'' [])
      else None)"

definition terminal_batch_row ::
    "stamp \<Rightarrow> bool \<Rightarrow> nat \<Rightarrow> int list \<Rightarrow> string \<Rightarrow> string option \<Rightarrow> batch_row \<Rightarrow> batch_row" where
  "terminal_batch_row ts degraded count students code detail b = b\<lparr>b_status := ''failed'',
     b_terminal_status := Some (if degraded then ''degraded'' else ''quarantined''),
     b_terminal_at := Some ts,
     b_fallback_action := Some (if degraded then ''degraded_rule_segments'' else ''unclassified''),
     b_fallback_segment_count := int count,
     b_student_sequences := coalesce (b_student_sequences b) (Some students),
     b_error_code := Some code, b_error_detail := detail, b_next_retry_at := None,
     b_completed_at := coalesce (b_completed_at b) (Some ts), b_rerun_requested := False,
     b_updated_at := Some ts\<rparr>"

definition terminable :: "batch_row \<Rightarrow> bool" where
  "terminable b \<longleftrightarrow> b_terminal_status b = None \<and> b_status b \<in> {''pending'', ''running'', ''failed''}"

definition scheduled_to :: "stamp \<Rightarrow> int \<Rightarrow> cursor_row \<Rightarrow> cursor_row" where
  "scheduled_to ts e c = c\<lparr>
     c_last_scheduled_student_sequence := (if c_last_scheduled_student_sequence c < e then e
                                           else c_last_scheduled_student_sequence c),
     c_last_assessment_completed_at := Some ts, c_last_scheduling_completed_at := Some ts,
     c_updated_at := ts\<rparr>"

text \<open>The end of the transaction: the compare-and-set of the batch and the cursor.\<close>

definition terminalize_commit ::
    "datetime \<Rightarrow> batch_row \<Rightarrow> string option \<Rightarrow> string option \<Rightarrow> int list \<Rightarrow> int list \<Rightarrow> int list \<Rightarrow> platform
       \<Rightarrow> string + (terminalize_result \<times> platform)" where
  "terminalize_commit now b code detail rule_ids other_ids students d =
     (let ts = fmt_sec now; ids = rule_ids @ other_ids;
          code' = text_of (or_text code (or_text (b_error_code b) (Some ''application_error'')));
          detail' = coalesce detail (b_error_detail b)
      in if rowcount (\<lambda>r. b_id r = b_id b \<and> terminable r) (batches d) \<noteq> 1
         then Inr (not_terminalized ''terminal_compare_and_set_lost'' ids, d)
         else andthen (ensure_cursor ts (batch_scope b)
                (change_batch (b_id b) terminable
                  (terminal_batch_row ts (rule_ids \<noteq> []) (length ids) students code' detail') d)) (\<lambda>d1.
           Inr (\<lparr>tz_terminalized = True, tz_reason = ''retry_exhausted'', tz_segment_ids = ids,
                  tz_cursor_before = map_option scheduled_through (cursor_of d1 (batch_scope b)),
                  tz_cursor_after = Some (b_candidate_end_sequence b)\<rparr>,
                change_cursor (batch_scope b) (scheduled_to ts (b_candidate_end_sequence b)) d1)))"

definition terminalize_exhausted_batch ::
    "datetime \<Rightarrow> int \<Rightarrow> string option \<Rightarrow> string option \<Rightarrow> bool \<Rightarrow> platform
       \<Rightarrow> string + (terminalize_result \<times> platform)" where
  "terminalize_exhausted_batch now bid code detail force d =
     andthen (batch_with_scope d bid) (\<lambda>b.
       case terminalize_refusal force b d of
         Some r \<Rightarrow> Inr (r, d)
       | None \<Rightarrow>
           (let ts = fmt_sec now;
                rows = candidate_student_rows d (b_group_id b) (b_session_id b) (b_discussion_id b)
                         (b_candidate_start_sequence b) (b_candidate_end_sequence b)
            in andthen (confirmed_rule_fallbacks d b rows) (\<lambda>fallbacks.
              andthen (insert_rule_fallback_segments b ts 0 fallbacks d) (\<lambda>(rule_ids, d1).
              andthen (insert_unclassified_fallback_segments b ts rows (int (length fallbacks)) d1) (\<lambda>(other_ids, d2).
                terminalize_commit now b code detail rule_ids other_ids (sequences rows) d2)))))"

text \<open>
  \<open>recover_exhausted_batches\<close>: one transaction per batch, so an exception keeps what the
  earlier ones committed.
\<close>

fun terminalize_each :: "datetime \<Rightarrow> int list \<Rightarrow> platform \<Rightarrow> (string + terminalize_result list) \<times> platform" where
  "terminalize_each now [] d = (Inr [], d)"
| "terminalize_each now (bid # bids) d =
     (case terminalize_exhausted_batch now bid None None False d of
        Inl e \<Rightarrow> (Inl e, d)
      | Inr (r, d1) \<Rightarrow>
          (case terminalize_each now bids d1 of
             (Inl e, d2) \<Rightarrow> (Inl e, d2)
           | (Inr rs, d2) \<Rightarrow> (Inr (r # rs), d2)))"

definition recover_exhausted_batches ::
    "datetime \<Rightarrow> scope \<Rightarrow> platform \<Rightarrow> (string + terminalize_result list) \<times> platform" where
  "recover_exhausted_batches now sc d =
     terminalize_each now
       (map b_id (sort_key (\<lambda>b. (b_candidate_end_sequence b, b_id b))
          (filter (\<lambda>b. batch_scope b = sc \<and> b_status b = ''failed'' \<and> b_terminal_status b = None
             \<and> b_student_sequences b \<noteq> None \<and> b_attempt_count b \<ge> b_max_attempts b) (batches d)))) d"

end
