(* ===== verification/Stage2_Pipeline.thy ===== *)
theory Stage2_Pipeline
  imports Assessment_Batch Coordination
begin

text \<open>
  \<open>services/three_stage_stage2.py\<close>: the second stage of a strategy run.  A run is prepared
  for the window it assesses, started, and then either records what the model found
  (\<open>persist_success\<close>, \<open>persist_state_only_success\<close>) or is marked failed.  Each service
  function is one transaction (\<open>Inl\<close> is an exception, which rolls it back); what it reads
  on other connections before the transaction is read from the same state.  The rows of
  \<open>strategy_definitions\<close>, which a success refreshes from the strategy library, are not
  modelled.
\<close>

subsection \<open>Conversions\<close>

text \<open>\<open>_int_or_none\<close>, \<open>_float_or_none\<close>, \<open>_int_list\<close>; \<open>int\<close> of an infinity escapes.\<close>

definition int_or_none :: "json \<Rightarrow> string + int option" where
  "int_or_none j =
     (case j of
        JNull \<Rightarrow> Inr None
      | JBool _ \<Rightarrow> Inr None
      | JFloat (Inf _) \<Rightarrow> Inl ''OverflowError''
      | _ \<Rightarrow> (case as_int [] j of Inl _ \<Rightarrow> Inr None | Inr i \<Rightarrow> Inr (Some i)))"

definition float_or_none :: "json \<Rightarrow> pyfloat option" where
  "float_or_none j = (case j of JNull \<Rightarrow> None | JBool _ \<Rightarrow> None | _ \<Rightarrow> as_float j)"

text \<open>What \<open>for value in values or []\<close> runs over, and \<open>dict(value or {})\<close>.\<close>

definition iterated :: "json \<Rightarrow> string + json list" where
  "iterated j =
     (if \<not> jtruthy j then Inr []
      else case j of
             JList xs \<Rightarrow> Inr xs
           | JStr s \<Rightarrow> Inr (map (\<lambda>c. JStr [c]) s)
           | JObj items \<Rightarrow> Inr (map (\<lambda>(k, v). JStr k) items)
           | _ \<Rightarrow> Inl ''TypeError'')"

definition dict_of :: "json \<Rightarrow> string + dict" where
  "dict_of j =
     (if \<not> jtruthy j then Inr []
      else case j of JObj items \<Rightarrow> Inr items | _ \<Rightarrow> Inl ''TypeError'')"

fun int_list_from :: "int list \<Rightarrow> json list \<Rightarrow> string + int list" where
  "int_list_from acc [] = Inr acc"
| "int_list_from acc (j # js) =
     andthen (int_or_none j) (\<lambda>i. int_list_from
       (case i of None \<Rightarrow> acc | Some q \<Rightarrow> if q \<in> set acc then acc else acc @ [q]) js)"

definition int_list :: "json \<Rightarrow> string + int list" where
  "int_list j = andthen (iterated j) (int_list_from [])"

definition STAGE2_SCHEMA_VERSION :: string where
  "STAGE2_SCHEMA_VERSION = ''stage2.v1''"

definition is_stage2_result :: "json \<Rightarrow> bool" where
  "is_stage2_result payload =
     (case payload of JObj items \<Rightarrow> dget items ''schema_version'' = JStr STAGE2_SCHEMA_VERSION | _ \<Rightarrow> False)"

text \<open>
  The tags of a state as the router reads them: a list, or a text taken as one tag (the
  detector hands over lists only).
\<close>

definition tags_of :: "json \<Rightarrow> tag_source" where
  "tags_of j = (case j of JList xs \<Rightarrow> Tag_List xs | JStr s \<Rightarrow> Tag_Text s | _ \<Rightarrow> No_Tags)"

definition canonical_of :: "json \<Rightarrow> string" where
  "canonical_of j = normalize_canonical_sub_state (Some (truthy_code j))"

subsection \<open>The table of runs\<close>

text \<open>
  The CHECK clauses of \<open>strategy_pipeline_runs\<close> over the columns the second stage writes.
  SQLite's \<open>LIKE\<close> ignores case.
\<close>

definition blank :: "string option \<Rightarrow> bool" where
  "blank t = (trim_blanks (text_of t) = [])"

definition observes_only :: "pipeline_row \<Rightarrow> bool" where
  "observes_only p =
     (take 3 (upper (text_of (coalesce (p_inhibition_strategy_id p) (p_selected_strategy_id p)))) = ''OI-'')"

definition run_checks :: "pipeline_row \<Rightarrow> bool" where
  "run_checks p \<longleftrightarrow>
     p_pipeline_mode p \<in> {''strategy'', ''state_only''}
     \<and> (case (p_input_start_sequence p, p_input_end_sequence p) of (Some a, Some e) \<Rightarrow> a \<le> e | _ \<Rightarrow> True)
     \<and> (case (sf_start_sequence (p_facts p), sf_end_sequence (p_facts p)) of
          (Some a, Some e) \<Rightarrow> a \<le> e | _ \<Rightarrow> True)
     \<and> (case sf_confidence (p_facts p) of None \<Rightarrow> True | Some c \<Rightarrow> 0 \<le> c \<and> c \<le> 1)
     \<and> (upper (text_of (p_stage2_status p)) = ''SUCCEEDED'' \<longrightarrow> \<not> blank (p_canonical_sub_state_code p))
     \<and> (p_should_intervene p = Some 1 \<longrightarrow> sf_evidence_message_ids (p_facts p) \<noteq> [])
     \<and> (upper (text_of (p_stage3_status p)) = ''SUCCEEDED'' \<longrightarrow> \<not> blank (p_selected_strategy_id p))
     \<and> (upper (text_of (p_publish_status p)) = ''PUBLISHED'' \<longrightarrow>
          \<not> blank (p_canonical_sub_state_code p) \<and> \<not> blank (p_selected_strategy_id p)
          \<and> \<not> blank (p_validated_intervention_text p) \<and> p_published_message_id p \<noteq> None)
     \<and> (observes_only p \<longrightarrow>
          or0 (p_should_intervene p) = 0 \<and> upper (text_of (p_publish_status p)) \<noteq> ''PUBLISHED'')
     \<and> (p_should_intervene p = Some 0 \<longrightarrow>
          blank (p_generated_intervention_text p) \<and> blank (p_validated_intervention_text p)
          \<and> p_published_message_id p = None \<and> upper (text_of (p_publish_status p)) \<noteq> ''PUBLISHED'')"

text \<open>\<open>UPDATE strategy_pipeline_runs ... WHERE id=?\<close> under those checks.\<close>

definition checked_update :: "int \<Rightarrow> (pipeline_row \<Rightarrow> pipeline_row) \<Rightarrow> platform \<Rightarrow> string + platform" where
  "checked_update pid f d =
     (if \<exists>p\<in>set (pipelines d). p_id p = pid \<and> \<not> run_checks (f p) then Inl ''IntegrityError''
      else Inr (change_pipelines (\<lambda>p. p_id p = pid) f d))"

definition stage2_event :: "string \<Rightarrow> string \<Rightarrow> int \<Rightarrow> int \<Rightarrow> stamp \<Rightarrow> latency_event" where
  "stage2_event stage name pid bid ts = \<lparr>le_stage = stage, le_event = name, le_pipeline_run_id = Some pid,
     le_assessment_batch_id = Some bid, le_lock_owner = None, le_lock_token = None, le_reason = None,
     le_occurred_at = ts\<rparr>"

subsection \<open>The run of a window\<close>

definition is_owner_candidate :: "batch_row \<Rightarrow> pipeline_row \<Rightarrow> bool" where
  "is_owner_candidate b p \<longleftrightarrow>
     p_group_id p = b_group_id b
     \<and> or0 (p_session_id p) = b_session_id b \<and> or0 (p_discussion_id p) = b_discussion_id b
     \<and> p_input_cutoff_student_sequence p = Some (b_candidate_end_sequence b)
     \<and> (p_assessment_batch_id p = Some (b_id b) \<or> p_assessment_batch_id p = None)
     \<and> upper (text_of (p_publish_status p)) \<noteq> ''PUBLISHED''"

definition candidate_rank :: "batch_row \<Rightarrow> pipeline_row \<Rightarrow> int \<times> int \<times> int" where
  "candidate_rank b p =
     (if p_assessment_batch_id p = Some (b_id b) then 0 else 1,
      if p_stage1_status p = Some ''SUCCEEDED'' then 0 else 1, - p_id p)"

definition find_pipeline_row :: "batch_row \<Rightarrow> platform \<Rightarrow> pipeline_row option" where
  "find_pipeline_row b d =
     (case sort_key (candidate_rank b) (filter (is_owner_candidate b) (pipelines d)) of
        [] \<Rightarrow> None | p # _ \<Rightarrow> Some p)"

text \<open>\<open>parent_run_id REFERENCES strategy_pipeline_runs(id)\<close>.\<close>

definition parent_known :: "int option \<Rightarrow> platform \<Rightarrow> bool" where
  "parent_known parent d = (case parent of None \<Rightarrow> True | Some i \<Rightarrow> fetch_pipeline d i \<noteq> None)"

text \<open>The link to the run a window replaces, when it replaces one.\<close>

definition link_replaced :: "datetime \<Rightarrow> batch_row \<Rightarrow> int \<Rightarrow> platform \<Rightarrow> platform" where
  "link_replaced now b pid d =
     (let rp = b_replacement b in
      if or0 (rp_of_pipeline_run_id rp) = 0 then d
      else snd (link_pipeline_replacement now (or0 (rp_of_pipeline_run_id rp)) pid (rp_reason rp)
             (rp_trigger_message_id rp) (rp_cutoff_sequence rp) d))"

definition adopted_row :: "string \<Rightarrow> batch_row \<Rightarrow> pipeline_row \<Rightarrow> pipeline_row" where
  "adopted_row mode b p = p\<lparr>p_pipeline_mode := mode,
     p_assessment_batch_id := coalesce (p_assessment_batch_id p) (Some (b_id b)),
     p_parent_run_id := coalesce (p_parent_run_id p) (rp_of_pipeline_run_id (b_replacement b)),
     p_trigger_message_id := coalesce (p_trigger_message_id p) (rp_trigger_message_id (b_replacement b))\<rparr>"

definition window_trigger :: "batch_row \<Rightarrow> string" where
  "window_trigger b = (if b_trigger_type b = [] then ''state_assessment'' else b_trigger_type b)"

definition window_run_key :: "batch_row \<Rightarrow> run_key" where
  "window_run_key b = Stage2_Key (b_group_id b) (b_session_id b) (b_discussion_id b)
     (b_candidate_start_sequence b) (b_candidate_end_sequence b) (window_trigger b)"

definition no_stage2_facts :: stage2_facts where
  "no_stage2_facts = \<lparr>sf_raw_sub_state_code = None, sf_sub_category = None, sf_secondary_tags = JList [],
     sf_confidence = None, sf_reason = None, sf_start_sequence = None, sf_end_sequence = None,
     sf_evidence_message_ids = [], sf_segments = [], sf_detected_self_regulation = None,
     sf_fresh_detected_self_regulation = None, sf_inhibition_reason = None,
     sf_suppression_type = None, sf_suppression_strategy_id = None,
     sf_suppression_evidence_message_ids = [], sf_suppression_source_batch_id = None,
     sf_suppression_source_segment_id = None, sf_suppression_decision_reason = None,
     sf_suppression_decision_at = None, sf_model_name = None, sf_model_version = None,
     sf_prompt_version = None, sf_raw_response = None, sf_strategy_candidate_ids = [],
     sf_strategy_pool = [], sf_strategy_source = None, sf_strategy_library_version = None,
     sf_strategy_library_hash = None\<rparr>"

definition new_run :: "stamp \<Rightarrow> string \<Rightarrow> batch_row \<Rightarrow> int \<Rightarrow> pipeline_row" where
  "new_run ts mode b pid =
     \<lparr>p_id = pid, p_group_id = b_group_id b, p_session_id = Some (b_session_id b),
      p_discussion_id = Some (b_discussion_id b), p_task_id = b_task_id b,
      p_trigger_source = Some (window_trigger b),
      p_trigger_message_id = rp_trigger_message_id (b_replacement b),
      p_trigger_priority = Some (b_request_priority b),
      p_input_start_sequence = Some (b_candidate_start_sequence b),
      p_input_cutoff_student_sequence = Some (b_candidate_end_sequence b),
      p_assessment_batch_id = Some (b_id b), p_assessment_owner_pipeline_run_id = None,
      p_coarse_state_code = None, p_coarse_should_escalate = None,
      p_canonical_sub_state_code = None, p_should_intervene = None, p_latest_state = None,
      p_latest_should_intervene = None, p_latest_state_pipeline_run_id = None,
      p_stage1_status = Some ''NOT_RUN'', p_stage2_status = Some ''PENDING'',
      p_stage2_started_at = None, p_stage2_completed_at = None, p_stage3_status = None,
      p_publish_status = Some ''NOT_READY'', p_final_status = Some ''PENDING_STAGE2'',
      p_skip_reason = None, p_failure_code = None, p_failure_detail = None,
      p_room_lock_token = None, p_room_lock_acquired_at = None, p_room_lock_released_at = None,
      p_parent_run_id = rp_of_pipeline_run_id (b_replacement b), p_superseded_by_run_id = None,
      p_replaced_by_pipeline_run_id = None, p_replacement_reason = None,
      p_replacement_trigger_message_id = None, p_replacement_cutoff_sequence = None,
      p_updated_at = Some ts, p_session_no = b_session_no b, p_pipeline_mode = mode,
      p_input_end_sequence = Some (b_candidate_end_sequence b), p_trigger_level_state = None,
      p_inhibition_strategy_id = None, p_selected_strategy_id = None,
      p_generated_intervention_text = None, p_validated_intervention_text = None,
      p_published_message_id = None, p_idempotency_key = Some (window_run_key b),
      p_facts = no_stage2_facts, p_published_at = None,
      p_observation = no_observation, p_created_at = Some ts,
      p_stage3_started_at = None, p_stage3_completed_at = None, p_latest_sequence_at_publish = None\<rparr>"

text \<open>
  \<open>_get_or_create_pipeline_row\<close>: the run that already stands for the window, or a new one
  under the window's key, which must not be taken (a unique index).
\<close>

definition adopt_run :: "datetime \<Rightarrow> string \<Rightarrow> batch_row \<Rightarrow> pipeline_row \<Rightarrow> platform
    \<Rightarrow> string + (pipeline_row \<times> platform)" where
  "adopt_run now mode b p d =
     (if p_parent_run_id p = None \<and> \<not> parent_known (rp_of_pipeline_run_id (b_replacement b)) d
      then Inl ''IntegrityError''
      else Inr (adopted_row mode b p,
        link_replaced now b (p_id p)
          (change_pipelines (\<lambda>q. p_id q = p_id p) (adopted_row mode b) d)))"

definition insert_run :: "datetime \<Rightarrow> string \<Rightarrow> batch_row \<Rightarrow> platform
    \<Rightarrow> string + (pipeline_row \<times> platform)" where
  "insert_run now mode b d =
     (let p = new_run (fmt_ms now) mode b (next_pipeline_id d) in
      if (\<exists>q\<in>set (pipelines d). p_idempotency_key q = Some (window_run_key b))
         \<or> \<not> parent_known (p_parent_run_id p) d \<or> \<not> run_checks p
      then Inl ''IntegrityError''
      else Inr (p, link_replaced now b (p_id p)
        (log_event (stage2_event ''pipeline'' ''pipeline_created'' (p_id p) (b_id b) (fmt_ms now))
          (d\<lparr>pipelines := pipelines d @ [p], next_pipeline_id := next_pipeline_id d + 1\<rparr>))))"

definition get_or_create_pipeline_row ::
    "datetime \<Rightarrow> string option \<Rightarrow> batch_row \<Rightarrow> platform \<Rightarrow> string + (pipeline_row \<times> platform)" where
  "get_or_create_pipeline_row now mode b d =
     (let mode' = text_of (or_text mode (Some ''strategy'')) in
      if mode' \<notin> {''strategy'', ''state_only''} then Inl ''invalid_pipeline_mode''
      else case find_pipeline_row b d of
             Some p \<Rightarrow> adopt_run now mode' b p d
           | None \<Rightarrow> insert_run now mode' b d)"

subsection \<open>Preparing, starting and waiting\<close>

record preparation =
  pr_pipeline_run_id :: int
  pr_pipeline_mode :: string
  pr_coarse_should_escalate :: bool
  pr_room_lock_token :: "string option"

definition prepared_row :: "stamp \<Rightarrow> string \<Rightarrow> batch_row \<Rightarrow> pipeline_row \<Rightarrow> pipeline_row" where
  "prepared_row ts mode b p =
     (let owned = p\<lparr>p_pipeline_mode := mode,
            p_assessment_batch_id := coalesce (p_assessment_batch_id p) (Some (b_id b)),
            p_assessment_owner_pipeline_run_id := coalesce (p_assessment_owner_pipeline_run_id p) (Some (p_id p)),
            p_updated_at := Some ts\<rparr>
      in if upper (text_of (p_stage2_status p)) = ''SUCCEEDED'' then owned
         else owned\<lparr>p_stage2_status := Some ''PENDING'', p_stage2_started_at := None,
                p_stage2_completed_at := None, p_publish_status := Some ''NOT_READY'',
                p_final_status := Some ''PENDING_STAGE2'', p_skip_reason := None,
                p_failure_code := None, p_failure_detail := None\<rparr>)"

definition prepare_for_batch ::
    "datetime \<Rightarrow> string \<Rightarrow> batch_row \<Rightarrow> platform \<Rightarrow> string + (preparation \<times> platform)" where
  "prepare_for_batch now mode b d =
     (if mode \<notin> {''strategy'', ''state_only''} then Inl ''invalid_pipeline_mode''
      else andthen (get_or_create_pipeline_row now (Some mode) b d) (\<lambda>(p, d1).
        (let d2 = change_pipelines (\<lambda>q. p_id q = p_id p) (prepared_row (fmt_ms now) mode b) d1;
             r = (case fetch_pipeline d2 (p_id p) of None \<Rightarrow> p | Some q \<Rightarrow> q)
         in Inr (\<lparr>pr_pipeline_run_id = p_id r, pr_pipeline_mode = p_pipeline_mode r,
                   pr_coarse_should_escalate = (or0 (p_coarse_should_escalate r) \<noteq> 0),
                   pr_room_lock_token = p_room_lock_token r\<rparr>, d2))))"

text \<open>\<open>COALESCE(stage2_status, 'PENDING')\<close> is \<open>PENDING\<close>: the second stage has not begun.\<close>

definition awaits_stage2 :: "int \<Rightarrow> int \<Rightarrow> pipeline_row \<Rightarrow> bool" where
  "awaits_stage2 pid bid p \<longleftrightarrow> p_id p = pid \<and> p_assessment_batch_id p = Some bid
     \<and> upper (text_of (coalesce (p_stage2_status p) (Some ''PENDING''))) = ''PENDING''"

definition startable :: "int \<Rightarrow> int \<Rightarrow> pipeline_row \<Rightarrow> bool" where
  "startable pid bid p \<longleftrightarrow> awaits_stage2 pid bid p
     \<and> upper (text_of (coalesce (p_final_status p) (Some ''PENDING_STAGE2'')))
         \<in> {''PENDING_STAGE2'', ''WAITING_FOR_LOCK'', ''LOCKED''}"

definition started_row :: "stamp \<Rightarrow> pipeline_row \<Rightarrow> pipeline_row" where
  "started_row ts p = p\<lparr>p_stage2_status := Some ''RUNNING'', p_stage2_started_at := Some ts,
     p_stage2_completed_at := None, p_final_status := Some ''ASSESSING'', p_skip_reason := None,
     p_failure_code := None, p_failure_detail := None, p_updated_at := Some ts\<rparr>"

definition mark_started :: "datetime \<Rightarrow> batch_row \<Rightarrow> int \<Rightarrow> platform \<Rightarrow> bool \<times> platform" where
  "mark_started now b pid d =
     (if rowcount (startable pid (b_id b)) (pipelines d) \<noteq> 1 then (False, d)
      else (True, log_event (stage2_event ''stage2'' ''stage2_started'' pid (b_id b) (fmt_ms now))
             (change_pipelines (startable pid (b_id b)) (started_row (fmt_ms now)) d)))"

definition waiting_row :: "stamp \<Rightarrow> string \<Rightarrow> pipeline_row \<Rightarrow> pipeline_row" where
  "waiting_row ts reason p = p\<lparr>p_stage2_status := Some ''PENDING'',
     p_final_status := Some ''WAITING_FOR_LOCK'',
     p_skip_reason := Some (if reason = [] then ''ROOM_LOCK_UNAVAILABLE'' else reason),
     p_updated_at := Some ts\<rparr>"

definition mark_waiting_for_lock ::
    "datetime \<Rightarrow> batch_row \<Rightarrow> int \<Rightarrow> string \<Rightarrow> platform \<Rightarrow> bool \<times> platform" where
  "mark_waiting_for_lock now b pid reason d =
     (rowcount (awaits_stage2 pid (b_id b)) (pipelines d) = 1,
      change_pipelines (awaits_stage2 pid (b_id b)) (waiting_row (fmt_ms now) reason) d)"

subsection \<open>Giving the room back\<close>

definition lease_returned :: "stamp \<Rightarrow> pipeline_row \<Rightarrow> pipeline_row" where
  "lease_returned ts p = p\<lparr>p_room_lock_released_at := Some ts, p_updated_at := Some ts\<rparr>"

definition release_stage2_lock :: "stamp \<Rightarrow> pipeline_row \<Rightarrow> platform \<Rightarrow> bool \<times> platform" where
  "release_stage2_lock ts row d =
     (if \<not> truthy (p_room_lock_token row) then (False, d)
      else
        (let hit = (\<lambda>g. g_id g = p_group_id row \<and> g_lock_token g = p_room_lock_token row
                     \<and> g_active_intervention_run_id g = Some (- p_id row));
             released = (rowcount hit (groups d) = 1);
             d1 = change_groups hit (\<lambda>g. g\<lparr>g_state := ''OPEN'', g_version := g_version g + 1,
                    g_lock_token := None, g_lock_expires_at := None,
                    g_active_intervention_run_id := None\<rparr>) d
         in (released,
             if released
             then log_event \<lparr>le_stage = ''lock'', le_event = ''room_lock_released'',
                 le_pipeline_run_id = Some (p_id row), le_assessment_batch_id = p_assessment_batch_id row,
                 le_lock_owner = None, le_lock_token = p_room_lock_token row,
                 le_reason = Some ''stage2_terminal'', le_occurred_at = ts\<rparr>
               (change_pipelines (\<lambda>p. p_id p = p_id row) (lease_returned ts) d1)
             else d1)))"

subsection \<open>Failure\<close>

record llm_meta =
  lm_model_name :: "string option"
  lm_model_version :: "string option"
  lm_prompt_version :: "string option"
  lm_raw_response :: "string option"

definition no_meta :: llm_meta where
  "no_meta = \<lparr>lm_model_name = None, lm_model_version = None, lm_prompt_version = None, lm_raw_response = None\<rparr>"

definition failed_run ::
    "stamp \<Rightarrow> batch_row \<Rightarrow> string option \<Rightarrow> string option \<Rightarrow> llm_meta \<Rightarrow> bool \<Rightarrow> pipeline_row \<Rightarrow> pipeline_row" where
  "failed_run ts b code detail meta started p = p\<lparr>p_stage2_status := Some ''FAILED'',
     p_stage2_started_at := (if started
        then coalesce (p_stage2_started_at p) (coalesce (b_started_at b) (Some ts)) else p_stage2_started_at p),
     p_stage2_completed_at := Some ts, p_stage3_status := Some ''SKIPPED'',
     p_publish_status := Some ''NOT_READY'', p_final_status := Some ''FAILED'',
     p_skip_reason := Some ''STAGE2_FAILED'', p_failure_code := or_text code (Some ''stage2_failed''),
     p_failure_detail := detail, p_should_intervene := Some 0,
     p_facts := (p_facts p)\<lparr>sf_model_name := lm_model_name meta, sf_model_version := lm_model_version meta,
        sf_prompt_version := lm_prompt_version meta,
        sf_raw_response := coalesce (map_option Inl (lm_raw_response meta)) (sf_raw_response (p_facts p))\<rparr>,
     p_updated_at := Some ts\<rparr>"

text \<open>\<open>mark_failed\<close> returns the run and whether its lease was given back.\<close>

definition mark_failed ::
    "datetime \<Rightarrow> string option \<Rightarrow> batch_row \<Rightarrow> string option \<Rightarrow> string option \<Rightarrow> llm_meta \<Rightarrow> bool \<Rightarrow> platform
       \<Rightarrow> string + ((int \<times> bool) \<times> platform)" where
  "mark_failed now mode b code detail meta started d =
     (let ts = fmt_ms now in
      andthen (get_or_create_pipeline_row now mode b d) (\<lambda>(p, d1).
      andthen (checked_update (p_id p) (failed_run ts b code detail meta started) d1) (\<lambda>d2.
        (let (released, d3) = release_stage2_lock ts p d2
         in Inr ((p_id p, released),
              if started \<or> p_stage2_started_at p \<noteq> None
              then log_event (stage2_event ''stage2'' ''stage2_finished'' (p_id p) (b_id b) ts) d3
              else d3)))))"

subsection \<open>Reading the answer\<close>

text \<open>The strategy library and the route manifest, as far as a run records them.\<close>

record stage2_env =
  sx_library :: "string set"
  sx_manifest_version :: "string option"
  sx_library_version :: "string option"
  sx_library_hash :: "string option"

definition strategy_source :: "stage2_env \<Rightarrow> string" where
  "strategy_source env =
     text_of (or_text (sx_manifest_version env) (Some ''route_manifest'')) @ ''|''
     @ text_of (or_text (sx_library_version env) (Some ''strategy_library''))
     @ (if truthy (sx_library_hash env) then ''|'' @ take 12 (text_of (sx_library_hash env)) else [])"

definition latest_student_message :: "platform \<Rightarrow> batch_row \<Rightarrow> message_row option" where
  "latest_student_message d b =
     max_by (\<lambda>m. (or0 (m_sequence m), m_id m))
       (filter (\<lambda>m. m_group_id m = b_group_id b \<and> m_session_id m = Some (b_session_id b)
           \<and> m_discussion_id m = Some (b_discussion_id b) \<and> joined_role d m = Some ''student''
           \<and> m_sequence m \<noteq> None) (messages d))"

definition in_discussion :: "batch_row \<Rightarrow> message_row \<Rightarrow> bool" where
  "in_discussion b m \<longleftrightarrow> m_group_id m = b_group_id b \<and> or0 (m_session_id m) = b_session_id b
     \<and> or0 (m_discussion_id m) = b_discussion_id b"

record evidence_audit =
  ea_valid :: bool
  ea_reason :: string
  ea_message_ids :: "int list"

definition unaudited :: "string \<Rightarrow> evidence_audit" where
  "unaudited reason = \<lparr>ea_valid = False, ea_reason = reason, ea_message_ids = []\<rparr>"

definition evidence_rows :: "platform \<Rightarrow> batch_row \<Rightarrow> int list \<Rightarrow> message_row list" where
  "evidence_rows d b qs =
     sort_key (\<lambda>m. or0 (m_sequence m))
       (filter (\<lambda>m. in_discussion b m \<and> (case m_sequence m of None \<Rightarrow> False | Some q \<Rightarrow> q \<in> set qs)
           \<and> joined_role d m = Some ''student'') (messages d))"

definition audit_active_evidence ::
    "platform \<Rightarrow> batch_row \<Rightarrow> dict \<Rightarrow> string \<Rightarrow> int list \<Rightarrow> string + evidence_audit" where
  "audit_active_evidence d b active canonical qs =
     (if qs = [] then Inr (unaudited ''empty_evidence'')
      else
        andthen (int_or_none (dget active ''start_sequence'')) (\<lambda>first.
        andthen (int_or_none (dget active ''end_sequence'')) (\<lambda>final.
          Inr (case (first, final) of
                 (Some s, Some e) \<Rightarrow>
                   if canonical_of (dget active ''canonical_sub_state'') \<noteq> canonical
                      \<or> e \<noteq> b_candidate_end_sequence b
                   then unaudited ''evidence_not_related_to_active_sub_state''
                   else if \<exists>q\<in>set qs. q < b_candidate_start_sequence b \<or> q > b_candidate_end_sequence b
                             \<or> q < s \<or> q > e
                   then unaudited ''evidence_outside_current_candidate_window''
                   else if set (sequences (evidence_rows d b qs)) \<noteq> set qs
                   then unaudited ''evidence_missing_or_not_student_message''
                   else \<lparr>ea_valid = True, ea_reason = ''fresh_student_evidence'',
                          ea_message_ids = map m_id (evidence_rows d b qs)\<rparr>
               | _ \<Rightarrow> unaudited ''missing_evidence_window''))))"

text \<open>\<open>_optional_support_gate\<close>, less the numbers it only reports.\<close>

record support_gate =
  og_allowed :: bool
  og_reason :: string

definition is_support :: "string \<Rightarrow> bool" where
  "is_support i \<longleftrightarrow> take 3 i \<in> {''SS-'', ''EA-''}"

definition supports_published :: "platform \<Rightarrow> batch_row \<Rightarrow> string list \<Rightarrow> int" where
  "supports_published d b ids =
     int (length (filter (\<lambda>p. p_group_id p = b_group_id b \<and> or0 (p_session_id p) = b_session_id b
         \<and> p_publish_status p = Some ''PUBLISHED'' \<and> p_selected_strategy_id p \<in> Some ` set (filter is_support ids))
       (pipelines d)))"

definition last_agent_message :: "platform \<Rightarrow> batch_row \<Rightarrow> message_row option" where
  "last_agent_message d b =
     max_by (\<lambda>m. (m_sequence m, m_id m))
       (filter (\<lambda>m. in_discussion b m
           \<and> coalesce (case m_role m of None \<Rightarrow> None
                        | Some r \<Rightarrow> if trim_blanks r = [] then None else Some (trim_blanks r))
               (m_sender_type m) = Some ''agent'') (messages d))"

definition latest_student_sequence :: "platform \<Rightarrow> batch_row \<Rightarrow> int option" where
  "latest_student_sequence d b =
     map_option (\<lambda>m. or0 (m_sequence m))
       (max_by (\<lambda>m. or0 (m_sequence m))
         (filter (\<lambda>m. in_discussion b m \<and> message_author d m = Some ''student'' \<and> m_sequence m \<noteq> None)
           (messages d)))"

definition seconds_since :: "datetime \<Rightarrow> message_row option \<Rightarrow> int option" where
  "seconds_since now m =
     map_option (\<lambda>t. max 0 ((stamp_dt (fmt_ms now) - stamp_dt t) div 1000000)) (Option.bind m m_created_at)"

definition optional_support_gate :: "datetime \<Rightarrow> platform \<Rightarrow> batch_row \<Rightarrow> string list \<Rightarrow> support_gate" where
  "optional_support_gate now d b ids =
     (let agent = last_agent_message d b;
          latest = latest_student_sequence d b;
          closed = (\<lambda>reason. \<lparr>og_allowed = False, og_reason = reason\<rparr>)
      in if (case seconds_since now agent of None \<Rightarrow> False | Some n \<Rightarrow> n < 300) then closed ''agent_spacing_lt_300s''
         else if supports_published d b ids \<ge> 2 then closed ''positive_support_cap_reached''
         else case latest of
                None \<Rightarrow> closed ''no_recent_student_feedback''
              | Some q \<Rightarrow>
                  if (case Option.bind agent m_sequence of None \<Rightarrow> False | Some k \<Rightarrow> q \<le> k)
                  then closed ''no_student_feedback_after_agent''
                  else \<lparr>og_allowed = True, og_reason = ''allowed''\<rparr>)"

text \<open>The saved segments: which one is active, and what the run records of all of them.\<close>

definition active_segment_id :: "dict \<Rightarrow> segment_row list \<Rightarrow> string + int option" where
  "active_segment_id active rows =
     andthen (int_or_none (dget active ''end_sequence'')) (\<lambda>active_end.
       Inr (case find (\<lambda>r. sg_is_active_at_batch_end r \<noteq> 0) rows of
              Some r \<Rightarrow> Some (sg_id r)
            | None \<Rightarrow> map_option sg_id (find (\<lambda>r. Some (sg_end_sequence r) = active_end
                  \<and> normalize_canonical_sub_state (sg_canonical_sub_state_code r)
                      = canonical_of (dget active ''canonical_sub_state'')) rows)))"

definition SEGMENT_KEYS :: "string list" where
  "SEGMENT_KEYS = [''raw_sub_state'', ''canonical_sub_state'', ''secondary_tags'', ''start_sequence'',
     ''end_sequence'', ''confidence'', ''evidence_message_ids'', ''reason'', ''is_active_at_window_end'',
     ''detected_self_regulation'']"

fun segment_payloads :: "segment_row list \<Rightarrow> int \<Rightarrow> json list \<Rightarrow> string + json list" where
  "segment_payloads rows index [] = Inr []"
| "segment_payloads rows index (j # js) =
     (case j of
        JObj item \<Rightarrow>
          andthen (segment_payloads rows (index + 1) js) (\<lambda>rest.
            Inr (JObj (map (\<lambda>k. (k, dget item k)) SEGMENT_KEYS
                   @ (case find (\<lambda>r. sg_segment_order r = index) (rev rows) of
                        None \<Rightarrow> [] | Some r \<Rightarrow> [(''segment_id'', JInt (sg_id r))])) # rest))
      | _ \<Rightarrow> Inl ''AttributeError'')"

definition segments_with_db_ids :: "dict \<Rightarrow> segment_row list \<Rightarrow> string + json list" where
  "segments_with_db_ids answer rows = andthen (iterated (dget answer ''segments'')) (segment_payloads rows 0)"

record stage2_reading =
  rd_active :: dict
  rd_canonical :: string
  rd_route :: route_payload
  rd_evidence :: "int list"
  rd_segments :: "json list"
  rd_latest :: "message_row option"
  rd_stale :: bool
  rd_active_segment :: "int option"
  rd_audit :: evidence_audit
  rd_fresh_self_regulation :: bool
  rd_oi_strategy :: "string option"
  rd_invalid_suppression :: bool
  rd_gate :: "support_gate option"
  rd_should_intervene :: bool

definition wants_support :: "route_payload \<Rightarrow> dict \<Rightarrow> bool" where
  "wants_support route answer \<longleftrightarrow> pl_optional_support route \<and> jtruthy (dget answer ''should_intervene'')"

definition read_answer ::
    "stage2_env \<Rightarrow> datetime \<Rightarrow> platform \<Rightarrow> batch_row \<Rightarrow> dict \<Rightarrow> segment_row list \<Rightarrow> string + stage2_reading" where
  "read_answer env now d b answer saved =
     andthen (dict_of (dget answer ''active_sub_state'')) (\<lambda>active.
     (let canonical = canonical_of (dget active ''canonical_sub_state'') in
     andthen (route_for_state_with_overlays (sx_library env) (Some canonical)
        (tags_of (jor (dget active ''secondary_tags'') (JList [])))) (\<lambda>route.
     andthen (int_list (dget active ''evidence_message_ids'')) (\<lambda>evidence.
     andthen (segments_with_db_ids answer saved) (\<lambda>payloads.
     andthen (active_segment_id active saved) (\<lambda>active_segment.
     andthen (audit_active_evidence d b active canonical evidence) (\<lambda>audit.
       (let latest = latest_student_message d b;
            oi = pl_inhibition route;
            observed = (oi \<noteq> None \<and> text_of oi \<in> set OI_STRATEGY_IDS);
            self = jtruthy (dget active ''detected_self_regulation'');
            gate = (if wants_support route answer
                    then Some (optional_support_gate now d b (pl_candidates route)) else None)
        in Inr \<lparr>rd_active = active, rd_canonical = canonical, rd_route = route, rd_evidence = evidence,
             rd_segments = payloads, rd_latest = latest,
             rd_stale = (case latest of None \<Rightarrow> False
                         | Some m \<Rightarrow> or0 (m_sequence m) > b_candidate_end_sequence b),
             rd_active_segment = active_segment, rd_audit = audit,
             rd_fresh_self_regulation = (self \<and> ea_valid audit),
             rd_oi_strategy = (if observed \<and> ea_valid audit then oi else None),
             rd_invalid_suppression = (\<not> ea_valid audit \<and> (self \<or> observed)),
             rd_gate = gate,
             rd_should_intervene = (if pl_optional_support route
               then (case gate of None \<Rightarrow> False | Some g \<Rightarrow> og_allowed g)
               else pl_should_intervene route)\<rparr>))))))))"

subsection \<open>The decision\<close>

record stage2_decision =
  dc_final_status :: string
  dc_publish_status :: string
  dc_stage3_status :: string
  dc_skip_reason :: "string option"
  dc_failure_code :: "string option"
  dc_failure_detail :: "string option"
  dc_should_intervene :: bool
  dc_enter_stage3 :: bool
  dc_suppression_type :: "string option"
  dc_suppression_strategy_id :: "string option"
  dc_suppression_reason :: "string option"
  dc_candidates :: "string list"

text \<open>The lease is given back by every decision but the one that enters Stage 3.\<close>

definition suppressed_as :: "string \<Rightarrow> stage2_decision \<Rightarrow> stage2_decision" where
  "suppressed_as reason dc = dc\<lparr>dc_final_status := ''SUPPRESSED'', dc_publish_status := ''SUPPRESSED'',
     dc_stage3_status := ''SKIPPED'', dc_skip_reason := Some reason\<rparr>"

definition decide :: "bool \<Rightarrow> stage2_reading \<Rightarrow> stage2_decision" where
  "decide replay rd =
     (let base = \<lparr>dc_final_status = [], dc_publish_status = ''NOT_READY'', dc_stage3_status = ''SKIPPED'',
            dc_skip_reason = None, dc_failure_code = None, dc_failure_detail = None,
            dc_should_intervene = rd_should_intervene rd, dc_enter_stage3 = False,
            dc_suppression_type = None, dc_suppression_strategy_id = None, dc_suppression_reason = None,
            dc_candidates = pl_candidates (rd_route rd)\<rparr>;
          quiet = base\<lparr>dc_should_intervene := False\<rparr>
      in if rd_stale rd
         then base\<lparr>dc_final_status := ''STALE'', dc_skip_reason := Some ''STALE_NEW_STUDENT_MESSAGE''\<rparr>
         else if rd_invalid_suppression rd
         then quiet\<lparr>dc_final_status := ''FAILED'', dc_skip_reason := Some ''INVALID_SUPPRESSION_EVIDENCE'',
                dc_failure_code := Some ''INVALID_SUPPRESSION_EVIDENCE'',
                dc_failure_detail := Some (ea_reason (rd_audit rd))\<rparr>
         else case rd_oi_strategy rd of
                Some oi \<Rightarrow>
                  (let why = ''OI_SUPPRESSED:'' @ oi in
                   (suppressed_as why quiet)\<lparr>dc_suppression_type := Some ''OI'',
                      dc_suppression_strategy_id := Some oi, dc_suppression_reason := Some why,
                      dc_candidates := []\<rparr>)
              | None \<Rightarrow>
                  if rd_fresh_self_regulation rd
                  then (let why = ''SELF_REGULATION_SUPPRESSED'' in
                        (suppressed_as why quiet)\<lparr>dc_suppression_type := Some ''SELF_REGULATION'',
                           dc_suppression_reason := Some why, dc_candidates := []\<rparr>)
                  else if replay then suppressed_as ''STATE_ONLY_REPLAY'' base
                  else if rd_should_intervene rd
                  then base\<lparr>dc_final_status := ''PENDING_STAGE3'', dc_stage3_status := ''PENDING'',
                         dc_enter_stage3 := True\<rparr>
                  else (case rd_gate rd of
                          Some g \<Rightarrow> suppressed_as (''OPTIONAL_SUPPORT_GATE_CLOSED:''
                              @ (if og_reason g = [] then ''not_allowed'' else og_reason g)) base
                        | None \<Rightarrow> suppressed_as ''STAGE2_NO_INTERVENTION'' base))"

subsection \<open>Recording a success\<close>

definition column_int :: "json \<Rightarrow> string + int option" where
  "column_int j =
     andthen (int_or_none j) (\<lambda>i. case i of
         None \<Rightarrow> Inr None
       | Some n \<Rightarrow> if - (2 ^ 63) \<le> n \<and> n < 2 ^ 63 then Inr (Some n) else Inl ''OverflowError'')"

definition flag :: "bool \<Rightarrow> int" where
  "flag b = (if b then 1 else 0)"

text \<open>The columns both successes write; SQLite keeps an infinite confidence, which the CHECK refuses.\<close>

definition recorded_facts ::
    "dict \<Rightarrow> dict \<Rightarrow> int list \<Rightarrow> json list \<Rightarrow> llm_meta \<Rightarrow> string + stage2_facts" where
  "recorded_facts answer active evidence payloads meta =
     andthen (bound_value (dget active ''raw_sub_state'')) (\<lambda>raw.
     andthen (bound_value (jor (dget answer ''decision_reason'') (dget active ''reason''))) (\<lambda>reason.
     andthen (column_int (dget active ''start_sequence'')) (\<lambda>first.
     andthen (column_int (dget active ''end_sequence'')) (\<lambda>final.
       if (case float_or_none (dget active ''confidence'') of Some (Inf _) \<Rightarrow> True | _ \<Rightarrow> False)
       then Inl ''IntegrityError''
       else Inr (no_stage2_facts\<lparr>sf_raw_sub_state_code := raw,
              sf_secondary_tags := jor (dget active ''secondary_tags'') (JList []),
              sf_confidence := Option.bind (float_or_none (dget active ''confidence'')) float_column,
              sf_reason := reason, sf_start_sequence := first, sf_end_sequence := final,
              sf_evidence_message_ids := evidence, sf_segments := payloads,
              sf_model_name := lm_model_name meta, sf_model_version := lm_model_version meta,
              sf_prompt_version := lm_prompt_version meta,
              sf_raw_response := Some (if truthy (lm_raw_response meta)
                then Inl (text_of (lm_raw_response meta)) else Inr (JObj answer))\<rparr>)))))"

definition decided_facts ::
    "stage2_env \<Rightarrow> stamp \<Rightarrow> batch_row \<Rightarrow> dict \<Rightarrow> llm_meta \<Rightarrow> stage2_reading \<Rightarrow> stage2_decision
       \<Rightarrow> string + stage2_facts" where
  "decided_facts env ts b answer meta rd dc =
     andthen (dict_of (dget answer ''inhibition'')) (\<lambda>inhibition.
     andthen (recorded_facts answer (rd_active rd) (rd_evidence rd) (rd_segments rd) meta) (\<lambda>facts.
     andthen (bound_value (jor (dget inhibition ''reason'')
        (case dc_suppression_reason dc of None \<Rightarrow> JNull | Some why \<Rightarrow> JStr why))) (\<lambda>why.
       (let suppressed = (dc_suppression_type dc \<noteq> None) in
        Inr (facts\<lparr>sf_sub_category := Some (rd_canonical rd),
          sf_detected_self_regulation := Some (flag (rd_fresh_self_regulation rd)),
          sf_fresh_detected_self_regulation := Some (flag (rd_fresh_self_regulation rd)),
          sf_inhibition_reason := why, sf_suppression_type := dc_suppression_type dc,
          sf_suppression_strategy_id := dc_suppression_strategy_id dc,
          sf_suppression_evidence_message_ids := (if suppressed then ea_message_ids (rd_audit rd) else []),
          sf_suppression_source_batch_id := (if suppressed then Some (b_id b) else None),
          sf_suppression_source_segment_id := (if suppressed then rd_active_segment rd else None),
          sf_suppression_decision_reason := dc_suppression_reason dc,
          sf_suppression_decision_at := (if suppressed then Some ts else None),
          sf_strategy_candidate_ids := dc_candidates dc,
          sf_strategy_pool := pl_candidates (rd_route rd),
          sf_strategy_source := Some (strategy_source env),
          sf_strategy_library_version := sx_library_version env,
          sf_strategy_library_hash := sx_library_hash env\<rparr>)))))"

definition decided_run ::
    "stamp \<Rightarrow> batch_row \<Rightarrow> stage2_reading \<Rightarrow> stage2_decision \<Rightarrow> stage2_facts \<Rightarrow> pipeline_row \<Rightarrow> pipeline_row" where
  "decided_run ts b rd dc facts p = p\<lparr>p_stage2_status := Some ''SUCCEEDED'',
     p_stage2_started_at := coalesce (p_stage2_started_at p) (coalesce (b_started_at b) (Some ts)),
     p_stage2_completed_at := Some ts, p_canonical_sub_state_code := Some (rd_canonical rd),
     p_trigger_level_state := Some (rd_canonical rd),
     p_latest_state := (if rd_stale rd then None else Some (rd_canonical rd)),
     p_latest_should_intervene := (if rd_stale rd then None else Some (flag (dc_should_intervene dc))),
     p_latest_state_pipeline_run_id := (if rd_stale rd then None else Some (p_id p)),
     p_should_intervene := Some (flag (dc_should_intervene dc)),
     p_inhibition_strategy_id := pl_inhibition (rd_route rd),
     p_stage3_status := Some (dc_stage3_status dc), p_publish_status := Some (dc_publish_status dc),
     p_final_status := Some (dc_final_status dc), p_skip_reason := dc_skip_reason dc,
     p_failure_code := dc_failure_code dc, p_failure_detail := dc_failure_detail dc,
     p_facts := facts, p_updated_at := Some ts\<rparr>"

text \<open>\<open>_update_segment_three_stage_fields\<close>: the run is written into the segments of its window.\<close>

fun link_segments ::
    "stage2_env \<Rightarrow> stamp \<Rightarrow> pipeline_row \<Rightarrow> int option \<Rightarrow> bool \<Rightarrow> segment_row list \<Rightarrow> platform \<Rightarrow> string + platform" where
  "link_segments env ts p active intervene [] d = Inr d"
| "link_segments env ts p active intervene (r # rs) d =
     andthen (route_for_state_with_overlays (sx_library env)
         (Some (normalize_canonical_sub_state (sg_canonical_sub_state_code r)))
         (tags_of (jor (case sg_secondary_tags r of None \<Rightarrow> JNull | Some j \<Rightarrow> j) (JList [])))) (\<lambda>route.
       link_segments env ts p active intervene rs
         (d\<lparr>segments := update_where (\<lambda>s. sg_id s = sg_id r)
            (\<lambda>s. s\<lparr>sg_strategy_pipeline_run_id := Some (p_id p),
               sg_coarse_state_code := coalesce (sg_coarse_state_code s) (p_coarse_state_code p),
               sg_should_intervene := Some (flag (if sg_is_active_at_batch_end r \<noteq> 0 \<or> active = Some (sg_id r)
                 then intervene else pl_should_intervene route)),
               sg_selected_strategy_id := None, sg_strategy_library_version := sx_library_version env,
               sg_source_stage := Some ''stage2'', sg_updated_at := ts\<rparr>) (segments d)\<rparr>))"

record stage2_outcome =
  so_pipeline_run_id :: int
  so_should_intervene :: bool
  so_enter_stage3 :: bool
  so_final_status :: string
  so_skip_reason :: "string option"
  so_stale :: bool
  so_latest_student :: "message_row option"
  so_lock_released :: bool
  so_superseded :: "int list"

definition sync_each :: "datetime \<Rightarrow> int \<Rightarrow> int list \<Rightarrow> platform \<Rightarrow> platform" where
  "sync_each now pid ids d = fold (\<lambda>i d. snd (sync_latest_state_from_replacement now i pid d)) ids d"

definition sync_replaced :: "datetime \<Rightarrow> batch_row \<Rightarrow> int \<Rightarrow> platform \<Rightarrow> platform" where
  "sync_replaced now b pid d =
     (let original = or0 (rp_of_pipeline_run_id (b_replacement b)) in
      if original = 0 then d
      else snd (sync_latest_state_from_replacement now original pid (link_replaced now b pid d)))"

text \<open>
  What both successes do once the run's row is written: end the preliminary runs of the
  window, pass the state on to the runs this one stands for.
\<close>

definition close_preliminary ::
    "datetime \<Rightarrow> batch_row \<Rightarrow> int \<Rightarrow> pipeline_row \<Rightarrow> platform \<Rightarrow> string + (int list \<times> platform)" where
  "close_preliminary now b first p d =
     andthen (supersede_preliminary_runs_for_batch_row now p first (b_candidate_end_sequence b) d) (\<lambda>(ids, d1).
       Inr (ids, sync_replaced now b (p_id p) (sync_each now (p_id p) ids d1)))"

definition request_replacement_if ::
    "datetime \<Rightarrow> bool \<Rightarrow> int \<Rightarrow> message_row option \<Rightarrow> platform \<Rightarrow> platform" where
  "request_replacement_if now stale pid latest d =
     (if stale then snd (record_replacement_request now pid ''STALE_NEW_STUDENT_MESSAGE''
         (map_option m_id latest) (Option.bind latest m_sequence) d) else d)"

definition release_if :: "bool \<Rightarrow> stamp \<Rightarrow> pipeline_row \<Rightarrow> platform \<Rightarrow> bool \<times> platform" where
  "release_if yes ts p d = (if yes then release_stage2_lock ts p d else (False, d))"

text \<open>
  \<open>persist_success\<close>; \<open>None\<close> when the payload is not an answer of this stage.  \<open>replay\<close> is
  \<open>suppress_intervention\<close>.
\<close>

definition persist_success ::
    "stage2_env \<Rightarrow> datetime \<Rightarrow> string option \<Rightarrow> batch_row \<Rightarrow> json \<Rightarrow> llm_meta \<Rightarrow> segment_row list \<Rightarrow> bool
       \<Rightarrow> platform \<Rightarrow> string + (stage2_outcome option \<times> platform)" where
  "persist_success env now mode b payload meta saved replay d =
     (case payload of
        JObj answer \<Rightarrow>
          if \<not> is_stage2_result payload then Inr (None, d)
          else
            (let ts = fmt_ms now in
             andthen (read_answer env now d b answer saved) (\<lambda>rd.
             (let dc = decide replay rd in
             andthen (get_or_create_pipeline_row now mode b d) (\<lambda>(p, d1).
             andthen (decided_facts env ts b answer meta rd dc) (\<lambda>facts.
             andthen (checked_update (p_id p) (decided_run ts b rd dc facts) d1) (\<lambda>d2.
             andthen (link_segments env (fmt_sec now) p (rd_active_segment rd) (dc_should_intervene dc) saved d2) (\<lambda>d3.
             andthen (close_preliminary now b (if b_candidate_start_sequence b = 0
                then b_candidate_end_sequence b else b_candidate_start_sequence b) p d3) (\<lambda>(ids, d4).
               (let d5 = request_replacement_if now (rd_stale rd) (p_id p) (rd_latest rd) d4;
                    (released, d6) = release_if (\<not> dc_enter_stage3 dc) ts p d5
                in Inr (Some \<lparr>so_pipeline_run_id = p_id p, so_should_intervene = dc_should_intervene dc,
                     so_enter_stage3 = dc_enter_stage3 dc, so_final_status = dc_final_status dc,
                     so_skip_reason = dc_skip_reason dc, so_stale = rd_stale rd,
                     so_latest_student = rd_latest rd, so_lock_released = released,
                     so_superseded = ids\<rparr>,
                   log_event (stage2_event ''stage2'' ''stage2_finished'' (p_id p) (b_id b) ts) d6))))))))))
      | _ \<Rightarrow> Inr (None, d))"

subsection \<open>State-only sessions\<close>

definition observed_facts ::
    "dict \<Rightarrow> dict \<Rightarrow> string \<Rightarrow> int list \<Rightarrow> json list \<Rightarrow> llm_meta \<Rightarrow> string + stage2_facts" where
  "observed_facts answer active canonical evidence payloads meta =
     andthen (recorded_facts answer active evidence payloads meta) (\<lambda>facts.
       (let self = flag (jtruthy (dget active ''detected_self_regulation'')) in
        Inr (facts\<lparr>sf_sub_category := Some canonical, sf_detected_self_regulation := Some self,
          sf_fresh_detected_self_regulation := Some self\<rparr>)))"

definition observed_run ::
    "stamp \<Rightarrow> batch_row \<Rightarrow> string \<Rightarrow> stage2_facts \<Rightarrow> pipeline_row \<Rightarrow> pipeline_row" where
  "observed_run ts b canonical facts p = p\<lparr>p_pipeline_mode := ''state_only'',
     p_stage2_status := Some ''SUCCEEDED'',
     p_stage2_started_at := coalesce (p_stage2_started_at p) (coalesce (b_started_at b) (Some ts)),
     p_stage2_completed_at := Some ts, p_canonical_sub_state_code := Some canonical,
     p_trigger_level_state := Some canonical, p_latest_state := Some canonical,
     p_latest_should_intervene := None, p_latest_state_pipeline_run_id := Some (p_id p),
     p_should_intervene := None, p_inhibition_strategy_id := None, p_selected_strategy_id := None,
     p_stage3_status := Some ''SKIPPED'', p_publish_status := Some ''SKIPPED'',
     p_final_status := Some ''STATE_ONLY_COMPLETED'', p_skip_reason := Some ''STATE_ONLY_COMPLETE'',
     p_failure_code := None, p_failure_detail := None, p_facts := facts, p_updated_at := Some ts\<rparr>"

definition adopted_segment :: "stamp \<Rightarrow> int \<Rightarrow> segment_row \<Rightarrow> segment_row" where
  "adopted_segment ts pid s = s\<lparr>sg_strategy_pipeline_run_id := Some pid, sg_source_stage := Some ''stage2'',
     sg_should_intervene := None, sg_selected_strategy_id := None, sg_strategy_library_version := None,
     sg_updated_at := ts\<rparr>"

definition persist_state_only_success ::
    "datetime \<Rightarrow> batch_row \<Rightarrow> json \<Rightarrow> llm_meta \<Rightarrow> segment_row list \<Rightarrow> platform
       \<Rightarrow> string + (stage2_outcome option \<times> platform)" where
  "persist_state_only_success now b payload meta saved d =
     (case payload of
        JObj answer \<Rightarrow>
          if \<not> is_stage2_result payload then Inr (None, d)
          else
            (let ts = fmt_ms now in
             andthen (dict_of (dget answer ''active_sub_state'')) (\<lambda>active.
             (let canonical = canonical_of (dget active ''canonical_sub_state'') in
             andthen (int_list (dget active ''evidence_message_ids'')) (\<lambda>evidence.
             andthen (segments_with_db_ids answer saved) (\<lambda>payloads.
             andthen (active_segment_id active saved) (\<lambda>_.
             andthen (get_or_create_pipeline_row now (Some ''state_only'') b d) (\<lambda>(p, d1).
             andthen (observed_facts answer active canonical evidence payloads meta) (\<lambda>facts.
             andthen (checked_update (p_id p) (observed_run ts b canonical facts) d1) (\<lambda>d2.
             andthen (close_preliminary now b (b_candidate_start_sequence b) p
                (d2\<lparr>segments := update_where (\<lambda>s. sg_assessment_batch_id s = b_id b)
                   (adopted_segment ts (p_id p)) (segments d2)\<rparr>)) (\<lambda>(ids, d3).
               (let (released, d4) = release_stage2_lock ts p d3
                in Inr (Some \<lparr>so_pipeline_run_id = p_id p, so_should_intervene = False,
                     so_enter_stage3 = False, so_final_status = ''STATE_ONLY_COMPLETED'',
                     so_skip_reason = Some ''STATE_ONLY_COMPLETE'', so_stale = False,
                     so_latest_student = None, so_lock_released = released, so_superseded = ids\<rparr>,
                   log_event (stage2_event ''stage2'' ''stage2_finished'' (p_id p) (b_id b) ts) d4))))))))))))
      | _ \<Rightarrow> Inr (None, d))"

end
