(* ===== verification/Room_Lease.thy ===== *)
theory Room_Lease
  imports Platform_State
begin

text \<open>
  \<open>services/intervention_pipeline_v2/room_lease_service.py\<close>: the lease a run takes on a
  room before it may speak there.  A lease is the columns \<open>state\<close>, \<open>lock_token\<close>,
  \<open>lock_expires_at\<close>, \<open>active_intervention_run_id\<close> and \<open>version\<close> of the room; a
  positive owner is an intervention run, a negative one a strategy pipeline run or a help
  request.  Each service function is one definition over the platform (a long one is split
  along its phases); a rejected transaction returns the platform unchanged.  Clock
  readings and the fresh UUID are arguments.  The lemmas give each operation's effect on a
  room as a step of an abstract lease automaton, and from that the invariants.
\<close>

subsection \<open>Configuration (\<open>config.py\<close>) and constants\<close>

record lease_config =
  cf_lock_seconds :: int
  cf_initial_ttl_seconds :: int
  cf_heartbeat_seconds :: int
  cf_max_total_seconds :: int
  cf_huey_immediate :: bool

definition mk_lease_config :: "int \<Rightarrow> int \<Rightarrow> int \<Rightarrow> int \<Rightarrow> bool \<Rightarrow> lease_config" where
  "mk_lease_config lock_env ttl_env heartbeat_env max_env immediate =
     (let ttl = max 1 ttl_env;
          requested = max 1 heartbeat_env
      in \<lparr>cf_lock_seconds = lock_env,
          cf_initial_ttl_seconds = ttl,
          cf_heartbeat_seconds = min requested (max 1 ((ttl - 1) div 3)),
          cf_max_total_seconds = max ttl max_env,
          cf_huey_immediate = immediate\<rparr>)"

definition LOCK_STATE :: string where "LOCK_STATE = ''AI_INTERVENING''"

definition OPEN_STATE :: string where "OPEN_STATE = ''OPEN''"

definition ACTIVE_RUN_STATUSES :: "string list" where
  "ACTIVE_RUN_STATUSES =
     [''PENDING'', ''RUNNING'', ''REVALIDATING'', ''LOCKED'', ''GENERATING'', ''VALIDATING'']"

definition TERMINAL_PIPELINE_STATUSES :: "string list" where
  "TERMINAL_PIPELINE_STATUSES =
     [''PUBLISHED'', ''SUPPRESSED'', ''STALE'', ''FAILED'', ''CANCELLED'', ''SUPERSEDED'']"

definition ACTIVE_PIPELINE_STATUSES :: "string list" where
  "ACTIVE_PIPELINE_STATUSES =
     [''PENDING'', ''ASSESSING'', ''WAITING_FOR_LOCK'', ''LOCKED'', ''PENDING_STAGE2'',
      ''PENDING_STAGE3'', ''GENERATING'', ''VALIDATING'', ''PENDING_DECISION_GATE'',
      ''READY_TO_PUBLISH'']"

text \<open>\<open>int(x or default)\<close>.\<close>

definition or_default :: "int option \<Rightarrow> int \<Rightarrow> int" where
  "or_default x dflt = (case x of None \<Rightarrow> dflt | Some v \<Rightarrow> if v = 0 then dflt else v)"

definition upper_or :: "string \<Rightarrow> string option \<Rightarrow> string" where
  "upper_or dflt t = upper (if truthy t then text_of t else dflt)"

definition lease_event ::
    "string \<Rightarrow> int \<Rightarrow> int option \<Rightarrow> string option \<Rightarrow> string \<Rightarrow> stamp \<Rightarrow> latency_event" where
  "lease_event name pid owner token reason ts =
     \<lparr>le_stage = ''lock'', le_event = name, le_pipeline_run_id = Some pid,
      le_assessment_batch_id = None, le_lock_owner = owner, le_lock_token = token,
      le_reason = Some reason, le_occurred_at = ts\<rparr>"

subsection \<open>Release and recovery\<close>

definition opened :: "group_row \<Rightarrow> group_row" where
  "opened g = g\<lparr>g_state := OPEN_STATE, g_version := g_version g + 1, g_lock_token := None,
     g_lock_expires_at := None, g_active_intervention_run_id := None\<rparr>"

definition release :: "datetime \<Rightarrow> int \<Rightarrow> string \<Rightarrow> platform \<Rightarrow> bool \<times> platform" where
  "release now gid token d =
     (let owner = find (\<lambda>g. g_id g = gid \<and> g_lock_token g = Some token) (groups d);
          hit = (\<lambda>g. g_id g = gid \<and> g_state g = LOCK_STATE \<and> g_lock_token g = Some token);
          affected = rowcount hit (groups d);
          d1 = change_groups hit opened d;
          d2 = (case owner of
                  None \<Rightarrow> d1
                | Some g \<Rightarrow>
                    (case g_active_intervention_run_id g of
                       Some run \<Rightarrow>
                         if affected > 0 \<and> run < 0
                         then log_event (lease_event ''room_lock_released'' \<bar>run\<bar> None (Some token)
                                ''explicit_release'' (fmt_ms now)) d1
                         else d1
                     | None \<Rightarrow> d1))
      in (affected > 0, d2))"

text \<open>The UPDATE of \<open>intervention_runs\<close> both owner kinds share.\<close>

definition run_expired :: "stamp \<Rightarrow> intervention_row \<Rightarrow> intervention_row" where
  "run_expired ts r = r\<lparr>ir_status := Some ''EXPIRED'',
     ir_decision := coalesce (ir_decision r) (Some ''EXPIRED''),
     ir_failure_reason := coalesce (ir_failure_reason r) (Some ''room_lease_expired''),
     ir_skip_reason := coalesce (ir_skip_reason r) (Some ''room_lease_expired''),
     ir_completed_at := coalesce (ir_completed_at r) (Some ts)\<rparr>"

definition run_active :: "intervention_row \<Rightarrow> bool" where
  "run_active r \<longleftrightarrow> upper (text_of (ir_status r)) \<in> set ACTIVE_RUN_STATUSES"

definition pipeline_lease_failed :: "stamp \<Rightarrow> pipeline_row \<Rightarrow> pipeline_row" where
  "pipeline_lease_failed ts p = p\<lparr>p_final_status := Some ''FAILED'',
     p_publish_status := (if p_publish_status p = Some ''PUBLISHED'' then p_publish_status p
                          else Some ''FAILED''),
     p_skip_reason := coalesce (p_skip_reason p) (Some ''ROOM_LEASE_EXPIRED''),
     p_failure_code := coalesce (p_failure_code p) (Some ''ROOM_LEASE_EXPIRED''),
     p_failure_detail := coalesce (p_failure_detail p)
       (Some ''room lease expired before pipeline completion''),
     p_room_lock_released_at := coalesce (p_room_lock_released_at p) (Some ts),
     p_updated_at := Some ts\<rparr>"

definition pipeline_lease_released :: "stamp \<Rightarrow> pipeline_row \<Rightarrow> pipeline_row" where
  "pipeline_lease_released ts p = p\<lparr>
     p_room_lock_released_at := coalesce (p_room_lock_released_at p) (Some ts),
     p_updated_at := Some ts\<rparr>"

definition help_lease_failed :: "stamp \<Rightarrow> help_row \<Rightarrow> help_row" where
  "help_lease_failed ts h = h\<lparr>hr_status := Some ''FAILED'', hr_handling_status := Some ''failed'',
     hr_failure_reason := coalesce (hr_failure_reason h) (Some ''room_lease_expired''),
     hr_handled_at := coalesce (hr_handled_at h) (Some ts),
     hr_completed_at := coalesce (hr_completed_at h) (Some ts)\<rparr>"

text \<open>The owner of a reclaimed lease is terminalized (lines 1064 to 1190).\<close>

definition terminalize_owner :: "stamp \<Rightarrow> string \<Rightarrow> int option \<Rightarrow> platform \<Rightarrow> platform" where
  "terminalize_owner ts token owner d =
     (case owner of
        None \<Rightarrow> d
      | Some run \<Rightarrow>
          if run > 0 then
            change_interventions (\<lambda>r. ir_id r = run \<and> run_active r) (run_expired ts) d
          else if run < 0 then
            (case find (\<lambda>p. p_id p = \<bar>run\<bar> \<and> p_room_lock_token p = Some token) (pipelines d) of
               Some p \<Rightarrow>
                 (let mine = (\<lambda>q. p_id q = \<bar>run\<bar> \<and> p_room_lock_token q = Some token);
                      d1 = (if upper (text_of (p_final_status p)) \<notin> set TERMINAL_PIPELINE_STATUSES
                            then change_pipelines mine (pipeline_lease_failed ts) d
                            else change_pipelines mine (pipeline_lease_released ts) d)
                  in change_interventions
                       (\<lambda>r. ir_strategy_pipeline_run_id r = Some \<bar>run\<bar> \<and> run_active r)
                       (run_expired ts) d1)
             | None \<Rightarrow>
                 change_help
                   (\<lambda>h. hr_id h = \<bar>run\<bar> \<and> upper (text_of (hr_status h)) \<in>
                      {''QUEUED'', ''PENDING'', ''RUNNING''})
                   (help_lease_failed ts) d)
          else d)"

definition expire_events :: "datetime \<Rightarrow> string \<Rightarrow> int option \<Rightarrow> platform \<Rightarrow> platform" where
  "expire_events now token owner d =
     (case owner of
        Some run \<Rightarrow>
          if run < 0 then
            log_event (lease_event ''room_lock_released'' \<bar>run\<bar> None (Some token) ''ttl_recovery'' (fmt_ms now))
             (log_event (lease_event ''room_lock_expired'' \<bar>run\<bar> None (Some token) ''ttl_recovery'' (fmt_ms now)) d)
          else d
      | None \<Rightarrow> d)"

definition expired_lease :: "int \<Rightarrow> string \<Rightarrow> stamp \<Rightarrow> group_row \<Rightarrow> bool" where
  "expired_lease gid token ts g \<longleftrightarrow>
     g_id g = gid \<and> g_state g = LOCK_STATE \<and> g_lock_token g = Some token
       \<and> (case g_lock_expires_at g of None \<Rightarrow> False | Some e \<Rightarrow> e \<le> ts)"

definition expire_locked_room ::
    "datetime \<Rightarrow> int \<Rightarrow> string option \<Rightarrow> platform \<Rightarrow> bool \<times> platform" where
  "expire_locked_room now gid want d =
     (let ts = fmt_sec now in
      case fetch_group d gid of
        None \<Rightarrow> (False, d)
      | Some row \<Rightarrow>
          (case (g_lock_token row, g_lock_expires_at row) of
             (Some token, Some expires) \<Rightarrow>
               if g_state row \<noteq> LOCK_STATE \<or> token = [] \<or> expires > ts
                  \<or> (case want of None \<Rightarrow> False | Some w \<Rightarrow> token \<noteq> w)
               then (False, d)
               else if rowcount (expired_lease gid token ts) (groups d) \<noteq> 1 then (False, d)
               else (True, expire_events now token (g_active_intervention_run_id row)
                       (terminalize_owner ts token (g_active_intervention_run_id row)
                         (change_groups (expired_lease gid token ts) opened d)))
           | _ \<Rightarrow> (False, d)))"

definition recover_expired :: "datetime \<Rightarrow> int \<Rightarrow> platform \<Rightarrow> bool \<times> platform" where
  "recover_expired now gid d = expire_locked_room now gid None d"

definition release_expired :: "datetime \<Rightarrow> int \<Rightarrow> string \<Rightarrow> platform \<Rightarrow> bool \<times> platform" where
  "release_expired now gid token d = expire_locked_room now gid (Some token) d"

definition verify_lock :: "int \<Rightarrow> string \<Rightarrow> platform \<Rightarrow> bool" where
  "verify_lock gid token d =
     (case fetch_group d gid of
        None \<Rightarrow> False
      | Some g \<Rightarrow> g_state g = LOCK_STATE \<and> g_lock_token g = Some token)"

subsection \<open>Optimistic acquisition\<close>

text \<open>
  \<open>acquire\<close> first reads the room (its version) and then runs the conditional UPDATE in
  a transaction of its own: other writers may come between, so the two are separate.
\<close>

definition acquire_read :: "int \<Rightarrow> platform \<Rightarrow> int option" where
  "acquire_read gid d =
     (case fetch_group d gid of
        None \<Rightarrow> None
      | Some room \<Rightarrow> if g_state room \<noteq> OPEN_STATE then None else Some (g_version room))"

definition locked_by :: "string \<Rightarrow> stamp \<Rightarrow> int \<Rightarrow> group_row \<Rightarrow> group_row" where
  "locked_by token expires owner g = g\<lparr>g_state := LOCK_STATE, g_version := g_version g + 1,
     g_lock_token := Some token, g_lock_expires_at := Some expires,
     g_active_intervention_run_id := Some owner\<rparr>"

definition acquire_cas ::
    "datetime \<Rightarrow> string \<Rightarrow> int \<Rightarrow> int \<Rightarrow> int \<Rightarrow> int \<Rightarrow> platform \<Rightarrow> string option \<times> platform" where
  "acquire_cas now token gid run lock_seconds version d =
     (let hit = (\<lambda>g. g_id g = gid \<and> g_state g = OPEN_STATE \<and> g_version g = version);
          affected = rowcount hit (groups d);
          d1 = change_groups hit (locked_by token (fmt_sec (now + seconds lock_seconds)) run) d;
          d2 = (if affected > 0 \<and> run < 0
                then log_event (lease_event ''room_lock_acquired'' \<bar>run\<bar> (Some run) (Some token)
                       ''stage1_preliminary_acquire'' (fmt_ms now)) d1
                else d1)
      in (if affected > 0 then Some token else None, d2))"

definition acquire ::
    "lease_config \<Rightarrow> datetime \<Rightarrow> datetime \<Rightarrow> string \<Rightarrow> int \<Rightarrow> int \<Rightarrow> int option \<Rightarrow> platform
       \<Rightarrow> string option \<times> platform" where
  "acquire cfg t_recover now token gid run lock_seconds d =
     (let lease = (case lock_seconds of None \<Rightarrow> cf_lock_seconds cfg | Some n \<Rightarrow> n);
          d1 = snd (recover_expired t_recover gid d)
      in case acquire_read gid d1 of
           None \<Rightarrow> (None, d1)
         | Some version \<Rightarrow> acquire_cas now token gid run lease version d1)"

subsection \<open>Who may hold a strategy lease\<close>

text \<open>
  The join of discussion, session and room that both renewal and the authoritative guard
  read: discussion status, session status, strategy switch, room switch.
\<close>

record pipeline_scope =
  sc_discussion_status :: string
  sc_session_status :: "string option"
  sc_strategy_enabled :: bool
  sc_group_enabled :: bool

definition scope_of_pipeline :: "platform \<Rightarrow> pipeline_row \<Rightarrow> pipeline_scope option" where
  "scope_of_pipeline d p =
     (case find (\<lambda>x. sql_eq (p_discussion_id p) (Some (d_id x)) \<and> d_group_id x = p_group_id p
                   \<and> sql_eq (p_session_id p) (Some (d_session_id x))) (discussions d) of
        None \<Rightarrow> None
      | Some x \<Rightarrow>
          (case (fetch_session d (d_session_id x), fetch_group d (d_group_id x)) of
             (Some es, Some g) \<Rightarrow>
               Some \<lparr>sc_discussion_status = d_status x, sc_session_status = es_status es,
                     sc_strategy_enabled = (es_agent_mode es = Some ''strategy''),
                     sc_group_enabled = (case g_auto_intervention_enabled g of
                                           None \<Rightarrow> True | Some n \<Rightarrow> n \<noteq> 0)\<rparr>
           | _ \<Rightarrow> None))"

text \<open>The four scope checks, in the order of the code; \<open>None\<close> lets the run pass.\<close>

definition scope_refusal :: "pipeline_scope option \<Rightarrow> string option" where
  "scope_refusal sc =
     (case sc of
        None \<Rightarrow> Some ''discussion_not_running''
      | Some x \<Rightarrow>
          if lower (sc_discussion_status x) \<noteq> ''running'' then Some ''discussion_not_running''
          else if lower (text_of (sc_session_status x)) \<noteq> ''running'' then Some ''session_not_running''
          else if \<not> sc_strategy_enabled x then Some ''strategy_agent_disabled''
          else if \<not> sc_group_enabled x then Some ''group_auto_intervention_disabled''
          else None)"

text \<open>The assessment batch an authoritative run must belong to (lines 868 to 900).\<close>

definition batch_refusal :: "platform \<Rightarrow> pipeline_row \<Rightarrow> bool \<Rightarrow> string option" where
  "batch_refusal d p stage2_ready =
     (if or0 (p_assessment_batch_id p) = 0
      then (if \<not> stage2_ready then Some ''authoritative_batch_missing'' else None)
      else
        case fetch_batch d (or0 (p_assessment_batch_id p)) of
          None \<Rightarrow> Some ''authoritative_batch_missing''
        | Some b \<Rightarrow>
            if b_group_id b \<noteq> p_group_id p \<or> b_session_id b \<noteq> or0 (p_session_id p)
               \<or> b_discussion_id b \<noteq> or0 (p_discussion_id p)
            then Some ''authoritative_batch_scope_mismatch''
            else if lower (b_status b) \<notin> (if stage2_ready then {''running'', ''succeeded''} else {''running''})
            then Some ''authoritative_batch_not_active''
            else if truthy (b_terminal_status b) then Some ''authoritative_batch_terminal''
            else None)"

text \<open>The task switch and the teacher's pause (lines 930 to 950).\<close>

definition control_refusal :: "platform \<Rightarrow> pipeline_row \<Rightarrow> string option" where
  "control_refusal d p =
     (let task_off = (or0 (p_task_id p) \<noteq> 0
            \<and> (case fetch_by t_id (or0 (p_task_id p)) (tasks d) of
                 None \<Rightarrow> False | Some t \<Rightarrow> or0 (t_agent_intervention_enabled t) = 0));
          paused = (case find (\<lambda>c. gc_group_id c = p_group_id p
                                 \<and> sql_eq (p_session_id p) (Some (gc_session_id c))) (controls d) of
                      None \<Rightarrow> False | Some c \<Rightarrow> or0 (gc_agent_paused c) \<noteq> 0)
      in if task_off then Some ''task_agent_intervention_disabled''
         else if paused then Some ''group_agent_paused''
         else None)"

definition first_refusal :: "string option list \<Rightarrow> string option" where
  "first_refusal rs = foldr coalesce rs None"

text \<open>\<open>_authoritative_pipeline_guard\<close>: \<open>None\<close> is "allowed".\<close>

definition authoritative_pipeline_guard ::
    "platform \<Rightarrow> pipeline_row \<Rightarrow> bool \<Rightarrow> bool \<Rightarrow> string option" where
  "authoritative_pipeline_guard d p stage2_ready coarse_ready =
     (let final_status = upper_or ''PENDING'' (p_final_status p);
          stage2_status = upper_or ''PENDING'' (p_stage2_status p)
      in if final_status \<in> set TERMINAL_PIPELINE_STATUSES then Some ''pipeline_terminal''
         else if coarse_ready \<and> \<not> stage2_ready
                 \<and> (stage2_status \<noteq> ''PENDING''
                    \<or> final_status \<notin> {''PENDING_STAGE2'', ''WAITING_FOR_LOCK'', ''LOCKED''})
         then Some ''pipeline_not_stage2_startable''
         else if \<not> (coarse_ready \<and> \<not> stage2_ready) \<and> stage2_ready
                 \<and> final_status \<notin> {''PENDING_STAGE3'', ''LOCKED'', ''GENERATING'', ''VALIDATING'',
                                    ''PENDING_DECISION_GATE'', ''READY_TO_PUBLISH''}
         then Some ''pipeline_not_stage3_startable''
         else first_refusal
           [batch_refusal d p stage2_ready, scope_refusal (scope_of_pipeline d p),
            control_refusal d p])"

text \<open>\<open>_can_transfer_stage1_pipeline_lease\<close>.\<close>

definition can_transfer_stage1_pipeline_lease :: "pipeline_row option \<Rightarrow> pipeline_row \<Rightarrow> bool" where
  "can_transfer_stage1_pipeline_lease owner target =
     (case owner of
        None \<Rightarrow> False
      | Some own \<Rightarrow>
          if p_assessment_batch_id own \<noteq> None then False
          else if p_group_id own \<noteq> p_group_id target
                  \<or> or0 (p_session_id own) \<noteq> or0 (p_session_id target)
                  \<or> or0 (p_discussion_id own) \<noteq> or0 (p_discussion_id target) then False
          else if upper (text_of (p_publish_status own)) = ''PUBLISHED'' then False
          else if upper (text_of (p_stage2_status own)) = ''SUCCEEDED'' then False
          else if upper_or ''PENDING'' (p_final_status own) \<notin> set ACTIVE_PIPELINE_STATUSES then False
          else or0 (p_input_start_sequence target) \<le> or0 (p_input_cutoff_student_sequence own)
             \<and> or0 (p_input_cutoff_student_sequence own) \<le> or0 (p_input_cutoff_student_sequence target))"

subsection \<open>Renewal\<close>

record lease_result =
  lr_acquired :: bool
  lr_renewed :: bool
  lr_reason :: string
  lr_pipeline_run_id :: int
  lr_lock_token :: "string option"
  lr_lock_expires_at :: "stamp option"
  lr_lock_owner_run_id :: "int option"
  lr_transferred_from :: "int option"

definition rejected :: "int \<Rightarrow> string \<Rightarrow> lease_result" where
  "rejected pid reason = \<lparr>lr_acquired = False, lr_renewed = False, lr_reason = reason,
     lr_pipeline_run_id = pid, lr_lock_token = None, lr_lock_expires_at = None,
     lr_lock_owner_run_id = None, lr_transferred_from = None\<rparr>"

definition expiry_delay_seconds :: "stamp \<Rightarrow> datetime \<Rightarrow> int" where
  "expiry_delay_seconds expires now = max 1 (- ((now - stamp_dt expires) div 1000000))"

definition schedule_strategy_pipeline_expiry ::
    "lease_config \<Rightarrow> int \<Rightarrow> string \<Rightarrow> int \<Rightarrow> platform \<Rightarrow> platform" where
  "schedule_strategy_pipeline_expiry cfg gid token delay d =
     (if cf_huey_immediate cfg then d
      else schedule_expiry \<lparr>et_group_id = gid, et_lock_token = token, et_delay_seconds = delay\<rparr> d)"

text \<open>
  The deadline of a lease: \<open>max_deadline\<close> counts from \<open>room_lock_acquired_at\<close> (from now
  when that is NULL).
\<close>

definition max_deadline :: "int \<Rightarrow> datetime \<Rightarrow> pipeline_row \<Rightarrow> datetime" where
  "max_deadline max_seconds now p =
     (case p_room_lock_acquired_at p of None \<Rightarrow> now | Some a \<Rightarrow> stamp_dt a) + seconds max_seconds"

definition lease_expired :: "datetime \<Rightarrow> group_row \<Rightarrow> bool" where
  "lease_expired now g =
     (case g_lock_expires_at g of None \<Rightarrow> True | Some e \<Rightarrow> stamp_dt e \<le> now)"

text \<open>The checks of \<open>renew_strategy_pipeline\<close> in its transaction, in order.\<close>

definition renew_check ::
    "datetime \<Rightarrow> int \<Rightarrow> int \<Rightarrow> string \<Rightarrow> platform \<Rightarrow> string + (pipeline_row \<times> group_row)" where
  "renew_check now max_seconds pid token d =
     (case fetch_pipeline d pid of
        None \<Rightarrow> Inl ''pipeline_not_found''
      | Some p \<Rightarrow>
          if upper_or ''PENDING'' (p_final_status p) \<notin> set ACTIVE_PIPELINE_STATUSES
             \<or> upper (text_of (p_publish_status p)) = ''PUBLISHED''
          then Inl ''pipeline_terminal''
          else if text_of (p_room_lock_token p) \<noteq> token then Inl ''room_lease_token_mismatch''
          else
            case fetch_group d (p_group_id p) of
              None \<Rightarrow> Inl ''group_not_found''
            | Some g \<Rightarrow>
                if upper (g_state g) \<noteq> LOCK_STATE then Inl ''room_lease_not_active''
                else if text_of (g_lock_token g) \<noteq> token then Inl ''room_lease_token_mismatch''
                else if or0 (g_active_intervention_run_id g) \<noteq> - pid then Inl ''room_lease_owner_mismatch''
                else if max_deadline max_seconds now p - now < 1000000
                then Inl ''room_lease_max_total_exceeded''
                else if lease_expired now g then Inl ''room_lease_expired''
                else (case scope_refusal (scope_of_pipeline d p) of
                        Some reason \<Rightarrow> Inl reason
                      | None \<Rightarrow> Inr (p, g)))"

definition owned_lease :: "int \<Rightarrow> string \<Rightarrow> int \<Rightarrow> stamp option \<Rightarrow> group_row \<Rightarrow> bool" where
  "owned_lease gid token owner expires g \<longleftrightarrow>
     g_id g = gid \<and> g_state g = LOCK_STATE \<and> g_lock_token g = Some token
       \<and> g_active_intervention_run_id g = Some owner \<and> sql_eq (g_lock_expires_at g) expires"

definition extended :: "stamp \<Rightarrow> group_row \<Rightarrow> group_row" where
  "extended expires g = g\<lparr>g_version := g_version g + 1, g_lock_expires_at := Some expires\<rparr>"

text \<open>The end of the transaction: the conditional UPDATE, the audit row, the expiry task.\<close>

definition renew_commit ::
    "lease_config \<Rightarrow> datetime \<Rightarrow> string \<Rightarrow> stamp \<Rightarrow> pipeline_row \<Rightarrow> group_row \<Rightarrow> platform
       \<Rightarrow> lease_result \<times> platform" where
  "renew_commit cfg now token expires p g d =
     (let pid = p_id p;
          d1 = change_groups (owned_lease (p_group_id p) token (- pid) (g_lock_expires_at g))
                 (extended expires) d;
          d2 = change_pipelines (\<lambda>q. p_id q = pid \<and> p_room_lock_token q = Some token)
                 (\<lambda>q. q\<lparr>p_updated_at := Some (fmt_ms now)\<rparr>) d1;
          d3 = log_event (lease_event ''room_lock_renewed'' pid (Some (- pid)) (Some token)
                 ''room_lease_heartbeat'' (fmt_ms now)) d2;
          d4 = schedule_strategy_pipeline_expiry cfg (p_group_id p) token
                 (expiry_delay_seconds expires now) d3
      in (\<lparr>lr_acquired = True, lr_renewed = True, lr_reason = ''room_lease_renewed'',
           lr_pipeline_run_id = pid, lr_lock_token = Some token,
           lr_lock_expires_at = Some expires, lr_lock_owner_run_id = Some (- pid),
           lr_transferred_from = None\<rparr>, d4))"

definition renew_strategy_pipeline ::
    "lease_config \<Rightarrow> datetime \<Rightarrow> int \<Rightarrow> string \<Rightarrow> int option \<Rightarrow> int option \<Rightarrow> platform
       \<Rightarrow> lease_result \<times> platform" where
  "renew_strategy_pipeline cfg now pid token lock_seconds max_total_seconds d =
     (let lease_seconds = or_default lock_seconds (cf_initial_ttl_seconds cfg);
          max_seconds = or_default max_total_seconds (cf_max_total_seconds cfg)
      in if token = [] then (rejected pid ''room_lease_token_missing'', d)
         else
           case renew_check now max_seconds pid token d of
             Inl reason \<Rightarrow> (rejected pid reason, d)
           | Inr (p, g) \<Rightarrow>
               if rowcount (owned_lease (p_group_id p) token (- pid) (g_lock_expires_at g)) (groups d) \<noteq> 1
               then (rejected pid ''room_lease_renew_race'', d)
               else renew_commit cfg now token
                 (fmt_sec (min (now + seconds lease_seconds) (max_deadline max_seconds now p))) p g d)"

subsection \<open>Claiming a room for a pipeline\<close>

text \<open>\<open>claim_strategy_pipeline\<close>, the checks up to the read of the room (lines 283 to 330).\<close>

definition claim_admit :: "int \<Rightarrow> platform \<Rightarrow> string + (pipeline_row \<times> group_row)" where
  "claim_admit pid d =
     (case fetch_pipeline d pid of
        None \<Rightarrow> Inl ''pipeline_not_found''
      | Some p \<Rightarrow>
          if upper (text_of (p_publish_status p)) = ''PUBLISHED'' then Inl ''pipeline_already_published''
          else
            (let stage2_ready = (upper (text_of (p_stage2_status p)) = ''SUCCEEDED''
                                 \<and> or0 (p_should_intervene p) = 1);
                 coarse_ready = (or0 (p_coarse_should_escalate p) = 1)
             in if \<not> (stage2_ready \<or> coarse_ready) then Inl ''pipeline_does_not_require_room_lock''
                else
                  case authoritative_pipeline_guard d p stage2_ready coarse_ready of
                    Some reason \<Rightarrow> Inl reason
                  | None \<Rightarrow>
                      (case fetch_group d (p_group_id p) of
                         None \<Rightarrow> Inl ''group_not_found''
                       | Some g \<Rightarrow> Inr (p, g))))"

text \<open>What a branch of the claim has decided: the token, its expiry, and how it was got.\<close>

record lease_grant =
  gr_token :: string
  gr_expires :: stamp
  gr_renewed :: bool
  gr_transferred_from :: "int option"

text \<open>
  The three ways to get the room (lines 332 to 438): extend the lease the pipeline already
  has, take an open room, or take over a preliminary lease.  Each is a conditional UPDATE;
  if it does not hit exactly one row the claim fails.
\<close>

definition claim_extend ::
    "lease_config \<Rightarrow> datetime \<Rightarrow> int \<Rightarrow> pipeline_row \<Rightarrow> group_row \<Rightarrow> platform
       \<Rightarrow> string + (lease_grant \<times> platform)" where
  "claim_extend cfg now lease p g d =
     (let token = text_of (g_lock_token g);
          deadline = max_deadline (cf_max_total_seconds cfg) now p;
          expires = fmt_sec (min (now + seconds lease) deadline);
          hit = owned_lease (p_group_id p) token (- p_id p) (g_lock_expires_at g)
      in if deadline - now < 1000000 then Inl ''room_lease_max_total_exceeded''
         else if lease_expired now g then Inl ''room_lease_expired''
         else if rowcount hit (groups d) \<noteq> 1 then Inl ''room_lease_claim_race''
         else Inr (\<lparr>gr_token = token, gr_expires = expires, gr_renewed = True,
                    gr_transferred_from = None\<rparr>, change_groups hit (extended expires) d))"

definition claim_open ::
    "datetime \<Rightarrow> string \<Rightarrow> int \<Rightarrow> pipeline_row \<Rightarrow> group_row \<Rightarrow> platform
       \<Rightarrow> string + (lease_grant \<times> platform)" where
  "claim_open now fresh lease p g d =
     (let expires = fmt_sec (now + seconds lease);
          hit = (\<lambda>h. g_id h = p_group_id p \<and> g_state h = OPEN_STATE \<and> g_version h = g_version g)
      in if rowcount hit (groups d) \<noteq> 1 then Inl ''room_lease_claim_race''
         else Inr (\<lparr>gr_token = fresh, gr_expires = expires, gr_renewed = False,
                    gr_transferred_from = None\<rparr>,
                   change_groups hit (locked_by fresh expires (- p_id p)) d))"

definition handed_over :: "string \<Rightarrow> stamp \<Rightarrow> int \<Rightarrow> group_row \<Rightarrow> group_row" where
  "handed_over token expires owner g = g\<lparr>g_version := g_version g + 1, g_lock_token := Some token,
     g_lock_expires_at := Some expires, g_active_intervention_run_id := Some owner\<rparr>"

definition claim_transfer ::
    "datetime \<Rightarrow> string \<Rightarrow> int \<Rightarrow> pipeline_row \<Rightarrow> group_row \<Rightarrow> int \<Rightarrow> platform
       \<Rightarrow> string + (lease_grant \<times> platform)" where
  "claim_transfer now fresh lease p g owner d =
     (let expires = fmt_sec (now + seconds lease);
          token = text_of (g_lock_token g);
          hit = (\<lambda>h. g_id h = p_group_id p \<and> g_state h = LOCK_STATE \<and> g_lock_token h = Some token
                   \<and> g_active_intervention_run_id h = Some owner)
      in if \<not> can_transfer_stage1_pipeline_lease (fetch_pipeline d \<bar>owner\<bar>) p
         then Inl ''room_locked_by_other_pipeline''
         else if rowcount hit (groups d) \<noteq> 1 then Inl ''room_lease_claim_race''
         else Inr (\<lparr>gr_token = fresh, gr_expires = expires, gr_renewed = False,
                    gr_transferred_from = Some \<bar>owner\<bar>\<rparr>,
                   change_groups hit (handed_over fresh expires (- p_id p)) d))"

definition claim_room ::
    "lease_config \<Rightarrow> datetime \<Rightarrow> string \<Rightarrow> int \<Rightarrow> pipeline_row \<Rightarrow> group_row \<Rightarrow> platform
       \<Rightarrow> string + (lease_grant \<times> platform)" where
  "claim_room cfg now fresh lease p g d =
     (let state = upper (g_state g); owner = g_active_intervention_run_id g;
          has_token = truthy (g_lock_token g)
      in if state = LOCK_STATE \<and> owner = Some (- p_id p) \<and> has_token
         then claim_extend cfg now lease p g d
         else if state = OPEN_STATE then claim_open now fresh lease p g d
         else case owner of
                Some run \<Rightarrow>
                  if state = LOCK_STATE \<and> run < 0 \<and> has_token
                  then claim_transfer now fresh lease p g run d
                  else Inl ''room_lock_unavailable''
              | None \<Rightarrow> Inl ''room_lock_unavailable'')"

text \<open>
  After a transfer, the unfinished preliminary runs the new owner covers are superseded
  (lines 444 to 489).
\<close>

definition covered_preliminary :: "pipeline_row \<Rightarrow> pipeline_row \<Rightarrow> bool" where
  "covered_preliminary p q \<longleftrightarrow>
     p_group_id q = p_group_id p
     \<and> or0 (p_session_id q) = or0 (p_session_id p)
     \<and> or0 (p_discussion_id q) = or0 (p_discussion_id p)
     \<and> p_id q \<noteq> p_id p
     \<and> or0 (p_input_start_sequence p) \<le> or0 (p_input_cutoff_student_sequence q)
     \<and> or0 (p_input_cutoff_student_sequence q) \<le> or0 (p_input_cutoff_student_sequence p)
     \<and> upper (text_of (p_stage2_status q)) \<noteq> ''SUCCEEDED''
     \<and> upper (text_of (p_publish_status q)) \<noteq> ''PUBLISHED''
     \<and> upper (text_of (coalesce (p_final_status q) (Some ''PENDING''))) \<in> set ACTIVE_PIPELINE_STATUSES"

definition superseded_by_transfer ::
    "stamp \<Rightarrow> int \<Rightarrow> int \<Rightarrow> pipeline_row \<Rightarrow> pipeline_row" where
  "superseded_by_transfer ts pid from q = q\<lparr>p_publish_status := Some ''SKIPPED'',
     p_final_status := Some ''SUPERSEDED'', p_skip_reason := Some ''SUPERSEDED_BY_STATE_BATCH'',
     p_superseded_by_run_id := Some pid,
     p_room_lock_released_at := (if p_id q = from then coalesce (p_room_lock_released_at q) (Some ts)
                                 else p_room_lock_released_at q),
     p_updated_at := Some ts\<rparr>"

definition claim_supersede ::
    "datetime \<Rightarrow> pipeline_row \<Rightarrow> int option \<Rightarrow> platform \<Rightarrow> platform" where
  "claim_supersede now p transferred_from d =
     (case transferred_from of
        None \<Rightarrow> d
      | Some from \<Rightarrow>
          change_pipelines (covered_preliminary p) (superseded_by_transfer (fmt_ms now) (p_id p) from) d)"

text \<open>The claimed lease is written to the pipeline row (lines 491 to 521).\<close>

definition lease_recorded :: "stamp \<Rightarrow> lease_grant \<Rightarrow> pipeline_row \<Rightarrow> pipeline_row" where
  "lease_recorded ts gr q = q\<lparr>p_room_lock_token := Some (gr_token gr),
     p_room_lock_acquired_at := (if gr_renewed gr then coalesce (p_room_lock_acquired_at q) (Some ts)
                                 else Some ts),
     p_room_lock_released_at := None,
     p_final_status := (if upper (text_of (p_stage2_status q)) = ''SUCCEEDED'' then p_final_status q
                        else Some ''LOCKED''),
     p_skip_reason := None, p_failure_code := None, p_failure_detail := None,
     p_updated_at := Some ts\<rparr>"

definition grant_reason :: "lease_grant \<Rightarrow> string" where
  "grant_reason gr =
     (if gr_transferred_from gr \<noteq> None then ''room_lease_transferred''
      else if gr_renewed gr then ''room_lease_renewed'' else ''room_lease_acquired'')"

definition claim_events ::
    "datetime \<Rightarrow> pipeline_row \<Rightarrow> group_row \<Rightarrow> lease_grant \<Rightarrow> platform \<Rightarrow> platform" where
  "claim_events now p g gr d =
     (let d1 = (case gr_transferred_from gr of
                  None \<Rightarrow> d
                | Some from \<Rightarrow>
                    log_event (lease_event ''room_lock_released'' from None (g_lock_token g)
                      ''room_lease_transferred'' (fmt_ms now)) d)
      in log_event (lease_event (if gr_renewed gr then ''room_lock_renewed'' else ''room_lock_acquired'')
           (p_id p) (Some (- p_id p)) (Some (gr_token gr)) (grant_reason gr) (fmt_ms now)) d1)"

definition claim_commit ::
    "lease_config \<Rightarrow> datetime \<Rightarrow> pipeline_row \<Rightarrow> group_row \<Rightarrow> lease_grant \<Rightarrow> platform
       \<Rightarrow> lease_result \<times> platform" where
  "claim_commit cfg now p g gr d =
     (let pid = p_id p;
          d1 = claim_supersede now p (gr_transferred_from gr) d;
          d2 = change_pipelines (\<lambda>q. p_id q = pid) (lease_recorded (fmt_ms now) gr) d1;
          d3 = claim_events now p g gr d2;
          d4 = schedule_strategy_pipeline_expiry cfg (p_group_id p) (gr_token gr)
                 (expiry_delay_seconds (gr_expires gr) now) d3
      in (\<lparr>lr_acquired = True, lr_renewed = gr_renewed gr, lr_reason = grant_reason gr,
           lr_pipeline_run_id = pid, lr_lock_token = Some (gr_token gr),
           lr_lock_expires_at = Some (gr_expires gr), lr_lock_owner_run_id = Some (- pid),
           lr_transferred_from = gr_transferred_from gr\<rparr>, d4))"

definition claim_failed :: "datetime \<Rightarrow> int \<Rightarrow> string \<Rightarrow> platform \<Rightarrow> lease_result \<times> platform" where
  "claim_failed now pid reason d =
     (rejected pid reason,
      log_event (lease_event ''room_lock_acquire_failed'' pid None None reason (fmt_ms now)) d)"

definition claim_transaction ::
    "lease_config \<Rightarrow> datetime \<Rightarrow> string \<Rightarrow> int \<Rightarrow> int \<Rightarrow> platform \<Rightarrow> lease_result \<times> platform" where
  "claim_transaction cfg now fresh pid lease d =
     (case claim_admit pid d of
        Inl reason \<Rightarrow> claim_failed now pid reason d
      | Inr (p, g) \<Rightarrow>
          (case claim_room cfg now fresh lease p g d of
             Inl reason \<Rightarrow> claim_failed now pid reason d
           | Inr (gr, d1) \<Rightarrow> claim_commit cfg now p g gr d1))"

text \<open>The shortcut before the transaction: a room already owned is only renewed.\<close>

definition already_owned :: "int \<Rightarrow> platform \<Rightarrow> string option" where
  "already_owned pid d =
     (case fetch_pipeline d pid of
        None \<Rightarrow> None
      | Some p \<Rightarrow>
          (case fetch_group d (p_group_id p) of
             None \<Rightarrow> None
           | Some g \<Rightarrow>
               if g_state g = LOCK_STATE \<and> truthy (g_lock_token g)
                  \<and> g_lock_token g = p_room_lock_token p
                  \<and> or0 (g_active_intervention_run_id g) = - pid
               then g_lock_token g else None))"

definition claim_recover :: "datetime \<Rightarrow> int \<Rightarrow> platform \<Rightarrow> platform" where
  "claim_recover t_recover pid d =
     (case fetch_pipeline d pid of
        None \<Rightarrow> d
      | Some p \<Rightarrow> snd (recover_expired t_recover (p_group_id p) d))"

definition claim_strategy_pipeline ::
    "lease_config \<Rightarrow> datetime \<Rightarrow> datetime \<Rightarrow> string \<Rightarrow> int \<Rightarrow> int option \<Rightarrow> platform
       \<Rightarrow> lease_result \<times> platform" where
  "claim_strategy_pipeline cfg now t_recover fresh pid lock_seconds d =
     (let lease = or_default lock_seconds (cf_initial_ttl_seconds cfg);
          d1 = claim_recover t_recover pid d
      in case already_owned pid d1 of
           Some token \<Rightarrow> renew_strategy_pipeline cfg now pid token (Some lease) None d1
         | None \<Rightarrow> claim_transaction cfg now fresh pid lease d1)"

subsection \<open>Heartbeat\<close>

text \<open>
  \<open>StrategyPipelineLeaseHeartbeat\<close>: the thread wakes every interval until it is stopped.
  A tick is either a pulse at a clock reading or a pulse that raised (\<open>None\<close>), which the
  loop logs and survives.
\<close>

record heartbeat =
  hb_pipeline_run_id :: int
  hb_lock_token :: string
  hb_last_result :: "lease_result option"
  hb_stopped :: bool

definition pulse ::
    "lease_config \<Rightarrow> datetime \<Rightarrow> heartbeat \<Rightarrow> platform \<Rightarrow> heartbeat \<times> platform" where
  "pulse cfg now hb d =
     (let (result, d') = renew_strategy_pipeline cfg now (hb_pipeline_run_id hb) (hb_lock_token hb)
            None None d
      in (hb\<lparr>hb_last_result := Some result, hb_stopped := hb_stopped hb \<or> \<not> lr_renewed result\<rparr>, d'))"

fun heartbeat_run ::
    "lease_config \<Rightarrow> datetime option list \<Rightarrow> heartbeat \<Rightarrow> platform \<Rightarrow> heartbeat \<times> platform" where
  "heartbeat_run cfg [] hb d = (hb, d)"
| "heartbeat_run cfg (tick # ticks) hb d =
     (if hb_stopped hb then (hb, d)
      else case tick of
             None \<Rightarrow> heartbeat_run cfg ticks hb d
           | Some now \<Rightarrow>
               (let (hb', d') = pulse cfg now hb d
                in if \<not> lr_renewed (the (hb_last_result hb')) then (hb', d')
                   else heartbeat_run cfg ticks hb' d'))"

subsection \<open>Monitoring\<close>

record lock_info =
  li_state :: string
  li_version :: int
  li_lock_token :: "string option"
  li_lock_expires_at :: "stamp option"
  li_owner_type :: "string option"
  li_owner_run_id :: "int option"
  li_owner_status :: "string option"
  li_lock_reason :: "string option"
  li_is_locked :: bool
  li_is_expired :: bool

definition text_or :: "string \<Rightarrow> string option \<Rightarrow> string" where
  "text_or dflt t = (if truthy t then text_of t else dflt)"

text \<open>
  \<open>get_lock_info\<close>; \<open>None\<close> is \<open>{"exists": False}\<close>.  The trigger source of the pipeline
  is its \<open>lock_reason\<close>.
\<close>

definition lock_owner_info ::
    "platform \<Rightarrow> group_row \<Rightarrow> string option \<times> int option \<times> string option \<times> string option" where
  "lock_owner_info d g =
     (case g_active_intervention_run_id g of
        None \<Rightarrow> (None, None, None, None)
      | Some run \<Rightarrow>
          if run < 0 then
            (case find (\<lambda>p. p_id p = \<bar>run\<bar> \<and> sql_eq (p_room_lock_token p) (g_lock_token g)) (pipelines d) of
               Some p \<Rightarrow> (Some ''strategy_pipeline'', Some \<bar>run\<bar>,
                          Some (text_or ''unknown'' (p_final_status p)),
                          Some (text_or ''strategy_intervention'' (p_trigger_source p)))
             | None \<Rightarrow>
                 (Some ''student_help'', Some \<bar>run\<bar>,
                  (case fetch_help d \<bar>run\<bar> of None \<Rightarrow> Some ''orphaned'' | Some h \<Rightarrow> hr_status h),
                  Some ''student_help_request''))
          else if run > 0 then
            (case fetch_intervention d run of
               None \<Rightarrow> (Some ''strategy'', Some run, Some ''orphaned'', Some ''strategy_intervention'')
             | Some r \<Rightarrow> (Some (text_or ''strategy'' (ir_agent_type r)), Some run, ir_status r,
                          Some (text_or ''strategy_intervention'' (ir_trigger_type r))))
          else (None, None, None, None))"

definition get_lock_info :: "datetime \<Rightarrow> int \<Rightarrow> platform \<Rightarrow> lock_info option" where
  "get_lock_info now gid d =
     (case fetch_group d gid of
        None \<Rightarrow> None
      | Some g \<Rightarrow>
          (let (otype, orun, ostatus, reason) = lock_owner_info d g in
           Some \<lparr>li_state = g_state g, li_version = g_version g, li_lock_token = g_lock_token g,
                 li_lock_expires_at = g_lock_expires_at g, li_owner_type = otype,
                 li_owner_run_id = orun, li_owner_status = ostatus, li_lock_reason = reason,
                 li_is_locked = (g_state g = LOCK_STATE),
                 li_is_expired = (case g_lock_expires_at g of
                                    None \<Rightarrow> False | Some e \<Rightarrow> stamp_dt e \<le> now)\<rparr>))"

end
