(* ===== verification/Lease_Automaton.thy ===== *)
theory Lease_Automaton
  imports Room_Lease
begin

text \<open>
  What the room lease promises: an abstract automaton with the phases free and leased, the
  proof that every operation of \<open>Room_Lease\<close> moves every room by steps of it (each step
  raising the room's version by one), and the facts that follow.
\<close>

subsection \<open>The abstract automaton\<close>

datatype lease_phase = Free | Leased string int stamp

inductive lease_step :: "lease_phase \<Rightarrow> lease_phase \<Rightarrow> bool" where
  grant: "t \<noteq> [] \<Longrightarrow> lease_step Free (Leased t own e)"
| extend: "lease_step (Leased t own e) (Leased t own e')"
| hand_over: "own < 0 \<Longrightarrow> own' < 0 \<Longrightarrow> t' \<noteq> [] \<Longrightarrow> lease_step (Leased t own e) (Leased t' own' e')"
| drop: "lease_step (Leased t own e) Free"

inductive_cases free_stepE: "lease_step Free ph"
inductive_cases leased_stepE: "lease_step (Leased t own e) ph"
inductive_simps lease_step_simps [simp]:
  "lease_step Free Free"
  "lease_step Free (Leased t own e)"
  "lease_step (Leased t own e) Free"
  "lease_step (Leased t own e) (Leased t' own' e')"

text \<open>
  A free room cannot be dropped.  A lease only passes from owner to owner between strategy
  runs, whose owner numbers are negative: an intervention is never replaced without its room
  being free in between, and never replaces another owner.
\<close>

lemma lease_step_owner:
  "lease_step (Leased t own e) (Leased t' own' e') \<Longrightarrow> t' \<noteq> t \<or> own' \<noteq> own \<Longrightarrow> own < 0 \<and> own' < 0"
  by auto

text \<open>
  Any two phases are joined by some number of steps; what a room obeys is the exact number,
  since each step raises its version by one: \<open>lease_path\<close> compares two versions of a room.  With the
  same version the phase is the same, and one version apart there is exactly one step.
\<close>

definition lease_path :: "int \<times> lease_phase \<Rightarrow> int \<times> lease_phase \<Rightarrow> bool" where
  "lease_path x y \<longleftrightarrow> fst x \<le> fst y \<and> (lease_step ^^ nat (fst y - fst x)) (snd x) (snd y)"

lemma lease_path_same: "lease_path (v, ph) (v, ph') \<longleftrightarrow> ph' = ph"
  by (auto simp: lease_path_def)

lemma lease_path_next: "lease_path (v, ph) (v + 1, ph') \<longleftrightarrow> lease_step ph ph'"
  by (simp add: lease_path_def eq_OO)

subsection \<open>From rows to phases\<close>

definition phase_of :: "group_row \<Rightarrow> lease_phase" where
  "phase_of g =
     (case (g_lock_token g, g_active_intervention_run_id g, g_lock_expires_at g) of
        (Some t, Some own, Some e) \<Rightarrow> if g_state g = LOCK_STATE then Leased t own e else Free
      | _ \<Rightarrow> Free)"

text \<open>The lease columns of a room agree: all set while it is locked, all NULL otherwise.\<close>

definition room_ok :: "group_row \<Rightarrow> bool" where
  "room_ok g \<longleftrightarrow>
     (if g_state g = LOCK_STATE
      then truthy (g_lock_token g) \<and> g_lock_expires_at g \<noteq> None
           \<and> g_active_intervention_run_id g \<noteq> None
      else g_lock_token g = None \<and> g_lock_expires_at g = None
           \<and> g_active_intervention_run_id g = None)"

definition rooms_ok :: "group_row list \<Rightarrow> bool" where
  "rooms_ok gs \<longleftrightarrow> (\<forall>g\<in>set gs. room_ok g)"

text \<open>
  A row moves by a step of its lease, which raises its version, or only its notes change: the
  last message sequence and the time of the last intervention.
\<close>

definition room_noted :: "group_row \<Rightarrow> group_row \<Rightarrow> bool" where
  "room_noted g g' \<longleftrightarrow>
     g' = g\<lparr>g_last_message_sequence := g_last_message_sequence g', g_last_intervention_at := g_last_intervention_at g'\<rparr>"

definition room_step :: "group_row \<Rightarrow> group_row \<Rightarrow> bool" where
  "room_step g g' \<longleftrightarrow>
     g_id g' = g_id g \<and> g_version g' = g_version g + 1
       \<and> g_auto_intervention_enabled g' = g_auto_intervention_enabled g
       \<and> room_ok g' \<and> lease_step (phase_of g) (phase_of g')
     \<or> room_noted g g'"

definition rooms_evolve :: "group_row list \<Rightarrow> group_row list \<Rightarrow> bool" where
  "rooms_evolve = list_all2 (room_step\<^sup>*\<^sup>*)"

lemma LOCK_not_OPEN [simp]: "LOCK_STATE \<noteq> OPEN_STATE" "OPEN_STATE \<noteq> LOCK_STATE"
  by (simp_all add: LOCK_STATE_def OPEN_STATE_def)

lemma room_ok_lockedE:
  assumes "room_ok g" and "g_state g = LOCK_STATE"
  obtains t own e where "g_lock_token g = Some t" "t \<noteq> []" "g_lock_expires_at g = Some e"
    "g_active_intervention_run_id g = Some own" "phase_of g = Leased t own e"
  using assms by (cases "g_lock_token g") (auto simp: room_ok_def phase_of_def)

lemma room_ok_token: "room_ok g \<Longrightarrow> g_lock_token g = Some t \<Longrightarrow> g_state g = LOCK_STATE"
  by (auto simp: room_ok_def split: if_splits)

lemma room_ok_free: "room_ok g \<Longrightarrow> g_state g \<noteq> LOCK_STATE \<Longrightarrow> phase_of g = Free"
  by (simp add: room_ok_def phase_of_def)

lemma room_notedE:
  assumes "room_noted g g'"
  obtains q t where "g' = g\<lparr>g_last_message_sequence := q, g_last_intervention_at := t\<rparr>"
  by (rule that [OF assms [unfolded room_noted_def]])

lemma room_noted_same:
  assumes "room_noted g g'"
  shows "g_id g' = g_id g" "g_version g' = g_version g" "phase_of g' = phase_of g" "room_ok g' = room_ok g"
proof -
  obtain q t where eq: "g' = g\<lparr>g_last_message_sequence := q, g_last_intervention_at := t\<rparr>"
    by (rule room_notedE [OF assms])
  show "g_id g' = g_id g" "g_version g' = g_version g" unfolding eq by simp_all
  show "room_ok g' = room_ok g" unfolding eq room_ok_def by simp
  have "g_lock_token g' = g_lock_token g" "g_active_intervention_run_id g' = g_active_intervention_run_id g"
    "g_lock_expires_at g' = g_lock_expires_at g" "g_state g' = g_state g"
    unfolding eq by simp_all
  then show "phase_of g' = phase_of g" by (simp only: phase_of_def)
qed

subsection \<open>The four row updates are steps\<close>

lemma room_step_opened:
  assumes "room_ok g" and "g_state g = LOCK_STATE"
  shows "room_step g (opened g)"
proof -
  from assms obtain t own e where "phase_of g = Leased t own e" by (rule room_ok_lockedE)
  then show ?thesis by (simp add: room_step_def opened_def room_ok_def phase_of_def)
qed

lemma room_step_locked_by:
  assumes "room_ok g" and "g_state g \<noteq> LOCK_STATE" and "t \<noteq> []"
  shows "room_step g (locked_by t e own g)"
  using assms room_ok_free [OF assms(1,2)]
  by (simp add: room_step_def locked_by_def room_ok_def phase_of_def)

lemma room_step_extended:
  assumes "room_ok g" and "g_state g = LOCK_STATE"
  shows "room_step g (extended e g)"
proof -
  from assms obtain t own e0 where
    "g_lock_token g = Some t" "t \<noteq> []" "g_active_intervention_run_id g = Some own"
    "phase_of g = Leased t own e0" by (rule room_ok_lockedE)
  with assms show ?thesis by (simp add: room_step_def extended_def room_ok_def phase_of_def)
qed

lemma room_step_handed_over:
  assumes "room_ok g" and "g_state g = LOCK_STATE"
    and "g_active_intervention_run_id g = Some run" and "run < 0" and "own < 0" and "t \<noteq> []"
  shows "room_step g (handed_over t e own g)"
proof -
  from assms(1,2) obtain t0 own0 e0 where
    "g_active_intervention_run_id g = Some own0" "phase_of g = Leased t0 own0 e0"
    by (rule room_ok_lockedE)
  with assms show ?thesis by (simp add: room_step_def handed_over_def room_ok_def phase_of_def)
qed

subsection \<open>Evolution of all rooms\<close>

lemma evolve_refl [simp]: "rooms_evolve gs gs"
  by (simp add: rooms_evolve_def list.rel_refl)

lemma evolve_trans [trans]: "rooms_evolve gs hs \<Longrightarrow> rooms_evolve hs is \<Longrightarrow> rooms_evolve gs is"
  unfolding rooms_evolve_def by (rule list_all2_trans [OF rtranclp_trans])

lemma evolve_change:
  assumes "\<And>g. g \<in> set gs \<Longrightarrow> P g \<Longrightarrow> room_step g (f g)"
  shows "rooms_evolve gs (update_where P f gs)"
  unfolding rooms_evolve_def update_where_def
  using assms by (auto simp: list_all2_map2 intro!: list.rel_refl_strong)

lemma evolve_noted:
  assumes "\<And>g. room_noted g (f g)"
  shows "rooms_evolve gs (update_where P f gs)"
  by (rule evolve_change) (simp add: room_step_def assms)

lemma room_steps_ok: "room_step\<^sup>*\<^sup>* g g' \<Longrightarrow> room_ok g \<Longrightarrow> room_ok g'"
  by (induction rule: rtranclp_induct) (auto simp: room_step_def room_noted_same)

lemma room_steps_version_le: "room_step\<^sup>*\<^sup>* g g' \<Longrightarrow> g_version g \<le> g_version g'"
  by (induction rule: rtranclp_induct) (auto simp: room_step_def room_noted_same)

lemma room_steps_id: "room_step\<^sup>*\<^sup>* g g' \<Longrightarrow> g_id g' = g_id g"
  by (induction rule: rtranclp_induct) (auto simp: room_step_def room_noted_same)

lemma evolve_rooms_ok: "rooms_evolve gs hs \<Longrightarrow> rooms_ok gs \<Longrightarrow> rooms_ok hs"
  unfolding rooms_evolve_def rooms_ok_def
  by (metis in_set_conv_nth list_all2_conv_all_nth room_steps_ok)

lemma evolve_fetch:
  "rooms_evolve gs hs \<Longrightarrow> rel_option (room_step\<^sup>*\<^sup>*) (fetch_by g_id k gs) (fetch_by g_id k hs)"
  unfolding rooms_evolve_def by (induction rule: list_all2_induct) (auto dest: room_steps_id)

lemma evolve_ids: "rooms_evolve gs hs \<Longrightarrow> map g_id hs = map g_id gs"
  unfolding rooms_evolve_def by (induction rule: list_all2_induct) (auto dest: room_steps_id)

subsection \<open>Every operation is such an evolution\<close>

lemma terminalize_owner_groups [simp]: "groups (terminalize_owner ts token own d) = groups d"
  by (simp add: terminalize_owner_def Let_def split: option.splits)

lemma expire_events_frame [simp]:
  "groups (expire_events now token own d) = groups d"
  "pipelines (expire_events now token own d) = pipelines d"
  by (simp_all add: expire_events_def split: option.splits)

lemma schedule_strategy_pipeline_expiry_frame [simp]:
  "groups (schedule_strategy_pipeline_expiry cfg gid token delay d) = groups d"
  "pipelines (schedule_strategy_pipeline_expiry cfg gid token delay d) = pipelines d"
  by (simp_all add: schedule_strategy_pipeline_expiry_def)

lemma release_groups:
  "groups (snd (release now gid token d)) = update_where
     (\<lambda>g. g_id g = gid \<and> g_state g = LOCK_STATE \<and> g_lock_token g = Some token) opened (groups d)"
  by (auto simp: release_def Let_def split: option.splits)

lemma release_evolves:
  "rooms_ok (groups d) \<Longrightarrow> rooms_evolve (groups d) (groups (snd (release now gid token d)))"
  unfolding release_groups
  by (rule evolve_change) (auto simp: rooms_ok_def intro: room_step_opened)

lemma expire_locked_room_cases:
  "expire_locked_room now gid want d = (False, d)
   \<or> (\<exists>g token e. fetch_group d gid = Some g \<and> g_lock_token g = Some token
        \<and> g_lock_expires_at g = Some e \<and> g_state g = LOCK_STATE \<and> token \<noteq> [] \<and> e \<le> fmt_sec now
        \<and> (want = None \<or> want = Some token)
        \<and> expire_locked_room now gid want d =
            (True, expire_events now token (g_active_intervention_run_id g)
               (terminalize_owner (fmt_sec now) token (g_active_intervention_run_id g)
                 (change_groups (expired_lease gid token (fmt_sec now)) opened d))))"
  by (auto simp: expire_locked_room_def Let_def not_less split: option.splits)

lemma open_expired_evolves:
  "rooms_ok gs \<Longrightarrow> rooms_evolve gs (update_where (expired_lease gid token ts) opened gs)"
  by (rule evolve_change) (auto simp: rooms_ok_def expired_lease_def intro: room_step_opened)

lemma expire_locked_room_evolves:
  "rooms_ok (groups d) \<Longrightarrow>
   rooms_evolve (groups d) (groups (snd (expire_locked_room now gid want d)))"
  using expire_locked_room_cases [of now gid want d] by (auto simp: open_expired_evolves)

lemma recover_expired_evolves:
  "rooms_ok (groups d) \<Longrightarrow> rooms_evolve (groups d) (groups (snd (recover_expired now gid d)))"
  by (simp add: recover_expired_def expire_locked_room_evolves)

lemma take_open_evolves:
  "rooms_ok gs \<Longrightarrow> token \<noteq> [] \<Longrightarrow> rooms_evolve gs (update_where
     (\<lambda>g. g_id g = gid \<and> g_state g = OPEN_STATE \<and> g_version g = v) (locked_by token e own) gs)"
  by (rule evolve_change) (auto simp: rooms_ok_def intro!: room_step_locked_by)

lemma acquire_cas_groups:
  "groups (snd (acquire_cas now token gid run lease v d)) = update_where
     (\<lambda>g. g_id g = gid \<and> g_state g = OPEN_STATE \<and> g_version g = v)
     (locked_by token (fmt_sec (now + seconds lease)) run) (groups d)"
  by (simp add: acquire_cas_def Let_def)

lemma acquire_cas_evolves:
  "rooms_ok (groups d) \<Longrightarrow> token \<noteq> [] \<Longrightarrow>
   rooms_evolve (groups d) (groups (snd (acquire_cas now token gid run lease v d)))"
  by (simp add: acquire_cas_groups take_open_evolves)

lemma acquire_evolves:
  assumes "rooms_ok (groups d)" and "token \<noteq> []"
  shows "rooms_evolve (groups d) (groups (snd (acquire cfg t0 now token gid run lease d)))"
proof -
  let ?d1 = "snd (recover_expired t0 gid d)"
  have 1: "rooms_evolve (groups d) (groups ?d1)"
    using assms(1) by (rule recover_expired_evolves)
  then have "rooms_ok (groups ?d1)" using assms(1) by (rule evolve_rooms_ok)
  then have "rooms_evolve (groups ?d1) (groups (snd (acquire_cas now token gid run l v ?d1)))" for l v
    using assms(2) by (rule acquire_cas_evolves)
  with 1 show ?thesis
    by (auto simp: acquire_def Let_def split: option.splits intro: evolve_trans)
qed

lemma extend_owned_evolves:
  "rooms_ok gs \<Longrightarrow> rooms_evolve gs (update_where (owned_lease gid token own e0) (extended e) gs)"
  by (rule evolve_change) (auto simp: rooms_ok_def owned_lease_def intro: room_step_extended)

lemma hand_over_evolves:
  "rooms_ok gs \<Longrightarrow> token \<noteq> [] \<Longrightarrow> run < 0 \<Longrightarrow> own < 0 \<Longrightarrow> rooms_evolve gs (update_where
     (\<lambda>h. g_id h = gid \<and> g_state h = LOCK_STATE \<and> g_lock_token h = Some t0
        \<and> g_active_intervention_run_id h = Some run) (handed_over token e own) gs)"
  by (rule evolve_change) (auto simp: rooms_ok_def intro: room_step_handed_over)

text \<open>A renewal is refused and changes nothing, or commits after its checks passed.\<close>

definition renewed_expiry :: "lease_config \<Rightarrow> datetime \<Rightarrow> int option \<Rightarrow> int option \<Rightarrow> pipeline_row \<Rightarrow> stamp" where
  "renewed_expiry cfg now ls ms p =
     fmt_sec (min (now + seconds (or_default ls (cf_initial_ttl_seconds cfg)))
                  (max_deadline (or_default ms (cf_max_total_seconds cfg)) now p))"

lemma renew_cases:
  "(\<exists>reason. renew_strategy_pipeline cfg now pid token ls ms d = (rejected pid reason, d))
   \<or> (\<exists>p g. token \<noteq> []
        \<and> renew_check now (or_default ms (cf_max_total_seconds cfg)) pid token d = Inr (p, g)
        \<and> rowcount (owned_lease (p_group_id p) token (- pid) (g_lock_expires_at g)) (groups d) = 1
        \<and> renew_strategy_pipeline cfg now pid token ls ms d =
            renew_commit cfg now token (renewed_expiry cfg now ls ms p) p g d)"
  by (auto simp: renew_strategy_pipeline_def renewed_expiry_def Let_def split: sum.splits)

lemma renew_commit_simps:
  "groups (snd (renew_commit cfg now token e p g d)) =
     update_where (owned_lease (p_group_id p) token (- p_id p) (g_lock_expires_at g)) (extended e) (groups d)"
  "pipelines (snd (renew_commit cfg now token e p g d)) =
     update_where (\<lambda>q. p_id q = p_id p \<and> p_room_lock_token q = Some token)
       (\<lambda>q. q\<lparr>p_updated_at := Some (fmt_ms now)\<rparr>) (pipelines d)"
  "lr_renewed (fst (renew_commit cfg now token e p g d))"
  "lr_acquired (fst (renew_commit cfg now token e p g d))"
  "lr_lock_expires_at (fst (renew_commit cfg now token e p g d)) = Some e"
  "lr_lock_token (fst (renew_commit cfg now token e p g d)) = Some token"
  by (simp_all add: renew_commit_def Let_def)

lemma renew_evolves:
  assumes "rooms_ok (groups d)"
  shows "rooms_evolve (groups d) (groups (snd (renew_strategy_pipeline cfg now pid token ls ms d)))"
  using renew_cases [of cfg now pid token ls ms d] extend_owned_evolves [OF assms]
  by (auto simp: renew_commit_simps)

lemma claim_room_cases:
  assumes "claim_room cfg now fresh lease p g d = Inr (gr, d1)"
  obtains (extend) "upper (g_state g) = LOCK_STATE" "g_active_intervention_run_id g = Some (- p_id p)"
      "gr_token gr = text_of (g_lock_token g)" "truthy (g_lock_token g)" "gr_renewed gr"
      "gr_transferred_from gr = None" "\<not> lease_expired now g"
      "gr_expires gr = fmt_sec (min (now + seconds lease) (max_deadline (cf_max_total_seconds cfg) now p))"
      "d1 = change_groups (owned_lease (p_group_id p) (gr_token gr) (- p_id p) (g_lock_expires_at g))
              (extended (gr_expires gr)) d"
      "rowcount (owned_lease (p_group_id p) (gr_token gr) (- p_id p) (g_lock_expires_at g)) (groups d) = 1"
  | (take_open) "upper (g_state g) = OPEN_STATE" "gr_token gr = fresh" "\<not> gr_renewed gr"
      "gr_transferred_from gr = None" "gr_expires gr = fmt_sec (now + seconds lease)"
      "d1 = change_groups (\<lambda>h. g_id h = p_group_id p \<and> g_state h = OPEN_STATE \<and> g_version h = g_version g)
              (locked_by fresh (gr_expires gr) (- p_id p)) d"
      "rowcount (\<lambda>h. g_id h = p_group_id p \<and> g_state h = OPEN_STATE \<and> g_version h = g_version g)
         (groups d) = 1"
  | (transfer) run where "upper (g_state g) = LOCK_STATE" "g_active_intervention_run_id g = Some run"
      "run < 0" "can_transfer_stage1_pipeline_lease (fetch_pipeline d \<bar>run\<bar>) p"
      "gr_token gr = fresh" "\<not> gr_renewed gr"
      "gr_transferred_from gr = Some \<bar>run\<bar>" "gr_expires gr = fmt_sec (now + seconds lease)"
      "d1 = change_groups (\<lambda>h. g_id h = p_group_id p \<and> g_state h = LOCK_STATE
              \<and> g_lock_token h = Some (text_of (g_lock_token g)) \<and> g_active_intervention_run_id h = Some run)
              (handed_over fresh (gr_expires gr) (- p_id p)) d"
      "rowcount (\<lambda>h. g_id h = p_group_id p \<and> g_state h = LOCK_STATE
         \<and> g_lock_token h = Some (text_of (g_lock_token g)) \<and> g_active_intervention_run_id h = Some run)
         (groups d) = 1"
proof -
  consider "upper (g_state g) = LOCK_STATE \<and> g_active_intervention_run_id g = Some (- p_id p)
              \<and> truthy (g_lock_token g)"
    | "upper (g_state g) = OPEN_STATE"
    | run where "upper (g_state g) = LOCK_STATE" "g_active_intervention_run_id g = Some run"
        "run < 0" "truthy (g_lock_token g)" "run \<noteq> - p_id p"
    using assms by (auto simp: claim_room_def Let_def split: if_splits option.splits)
  then show ?thesis
  proof cases
    case 1
    with assms show ?thesis
      by (intro extend) (auto simp: claim_room_def claim_extend_def Let_def split: if_splits)
  next
    case 2
    with assms show ?thesis
      by (intro take_open) (auto simp: claim_room_def claim_open_def Let_def split: if_splits)
  next
    case (3 run)
    with assms show ?thesis
      by (intro transfer) (auto simp: claim_room_def claim_transfer_def Let_def split: if_splits)
  qed
qed

lemma claim_room_evolves:
  assumes "claim_room cfg now fresh lease p g d = Inr (gr, d1)"
    and "rooms_ok (groups d)" and "fresh \<noteq> []" and "0 < p_id p"
  shows "rooms_evolve (groups d) (groups d1)"
  using assms(1)
  by (cases rule: claim_room_cases)
    (simp_all add: extend_owned_evolves take_open_evolves hand_over_evolves assms)

lemma claim_room_frame:
  assumes "claim_room cfg now fresh lease p g d = Inr (gr, d1)"
  shows "pipelines d1 = pipelines d"
  using assms by (rule claim_room_cases) simp_all

lemma claim_supersede_frame [simp]: "groups (claim_supersede now p from d) = groups d"
  by (simp add: claim_supersede_def split: option.splits)

lemma claim_events_frame [simp]:
  "groups (claim_events now p g gr d) = groups d"
  "pipelines (claim_events now p g gr d) = pipelines d"
  by (simp_all add: claim_events_def Let_def split: option.splits)

lemma claim_commit_simps:
  "groups (snd (claim_commit cfg now p g gr d)) = groups d"
  "pipelines (snd (claim_commit cfg now p g gr d)) =
     update_where (\<lambda>q. p_id q = p_id p) (lease_recorded (fmt_ms now) gr)
       (pipelines (claim_supersede now p (gr_transferred_from gr) d))"
  "lr_acquired (fst (claim_commit cfg now p g gr d))"
  by (simp_all add: claim_commit_def Let_def)

lemma claim_failed_simps [simp]:
  "groups (snd (claim_failed now pid reason d)) = groups d"
  "pipelines (snd (claim_failed now pid reason d)) = pipelines d"
  "\<not> lr_acquired (fst (claim_failed now pid reason d))"
  by (simp_all add: claim_failed_def rejected_def)

text \<open>The transaction of a claim fails with the tables unchanged, or commits a grant.\<close>

lemma claim_transaction_cases:
  "(\<exists>reason. claim_transaction cfg now fresh pid lease d = claim_failed now pid reason d)
   \<or> (\<exists>p g gr d1. claim_admit pid d = Inr (p, g)
        \<and> claim_room cfg now fresh lease p g d = Inr (gr, d1)
        \<and> claim_transaction cfg now fresh pid lease d = claim_commit cfg now p g gr d1)"
  by (auto simp: claim_transaction_def split: sum.splits)

lemma claim_transaction_evolves:
  assumes "rooms_ok (groups d)" and "fresh \<noteq> []" and pos: "\<forall>p\<in>set (pipelines d). 0 < p_id p"
  shows "rooms_evolve (groups d) (groups (snd (claim_transaction cfg now fresh pid lease d)))"
  using claim_transaction_cases [of cfg now fresh pid lease d]
proof (elim disjE exE conjE)
  fix p g gr d1
  assume "claim_admit pid d = Inr (p, g)" and room: "claim_room cfg now fresh lease p g d = Inr (gr, d1)"
    and eq: "claim_transaction cfg now fresh pid lease d = claim_commit cfg now p g gr d1"
  then have "p \<in> set (pipelines d)"
    by (auto simp: claim_admit_def fetch_pipeline_def Let_def split: option.splits if_splits dest: fetch_by_SomeD)
  with claim_room_evolves [OF room assms(1,2)] pos show ?thesis by (simp add: eq claim_commit_simps)
qed simp

lemma claim_recover_evolves:
  "rooms_ok (groups d) \<Longrightarrow> rooms_evolve (groups d) (groups (claim_recover t pid d))"
  by (simp add: claim_recover_def recover_expired_evolves split: option.splits)

end
