(* ===== verification/Lease_Safety.thy ===== *)
theory Lease_Safety
  imports Lease_Automaton
begin

text \<open>
  The lease service as a system of requests, its invariant (the lease columns agree, keys
  are unique, no pipeline lease outlives its hard cap) and the properties of leases that
  hold over any sequence of requests.
\<close>

subsection \<open>Keys and the columns the lease lives in\<close>

lemma row_updates_g_id [simp]:
  "g_id (opened g) = g_id g" "g_id (locked_by t e own g) = g_id g"
  "g_id (extended e g) = g_id g" "g_id (handed_over t e own g) = g_id g"
  by (simp_all add: opened_def locked_by_def extended_def handed_over_def)

lemma row_updates_p_id [simp]:
  "p_id (pipeline_lease_failed ts p) = p_id p" "p_id (pipeline_lease_released ts p) = p_id p"
  "p_id (lease_recorded ts gr p) = p_id p" "p_id (superseded_by_transfer ts pid from p) = p_id p"
  by (simp_all add: pipeline_lease_failed_def pipeline_lease_released_def lease_recorded_def
      superseded_by_transfer_def)

text \<open>The columns that tie a pipeline to its lease.\<close>

definition lease_view :: "pipeline_row \<Rightarrow> int \<times> int \<times> string option \<times> stamp option" where
  "lease_view p = (p_id p, p_group_id p, p_room_lock_token p, p_room_lock_acquired_at p)"

lemma row_updates_lease_view [simp]:
  "lease_view (pipeline_lease_failed ts p) = lease_view p"
  "lease_view (pipeline_lease_released ts p) = lease_view p"
  "lease_view (superseded_by_transfer ts pid from p) = lease_view p"
  "lease_view (p\<lparr>p_updated_at := u\<rparr>) = lease_view p"
  by (simp_all add: lease_view_def pipeline_lease_failed_def pipeline_lease_released_def
      superseded_by_transfer_def)

lemma views_update_where:
  "(\<And>p. lease_view (f p) = lease_view p) \<Longrightarrow>
   map lease_view (update_where P f ps) = map lease_view ps"
  by (simp add: update_where_def)

lemma terminalize_owner_views [simp]:
  "map lease_view (pipelines (terminalize_owner ts token own d)) = map lease_view (pipelines d)"
  by (simp add: terminalize_owner_def Let_def views_update_where split: option.splits)

lemma claim_supersede_views [simp]:
  "map lease_view (pipelines (claim_supersede now p from d)) = map lease_view (pipelines d)"
  by (simp add: claim_supersede_def views_update_where split: option.splits)

lemma views_ids: "map lease_view ps = map lease_view qs \<Longrightarrow> map p_id ps = map p_id qs"
  by (drule arg_cong [where f = "map fst"]) (simp add: lease_view_def comp_def)

subsection \<open>The hard cap\<close>

text \<open>
  The room's lease belongs to the pipeline when owner and token agree; then it ends at most
  \<open>cap\<close> seconds (plus the millisecond the acquisition stamp is rounded down by) after
  \<open>room_lock_acquired_at\<close>.
\<close>

definition within_cap :: "int \<Rightarrow> group_row \<Rightarrow> int \<times> int \<times> string option \<times> stamp option \<Rightarrow> bool" where
  "within_cap cap g v \<longleftrightarrow>
     (case v of (pid, gid, token, acquired) \<Rightarrow>
        g_id g = gid \<and> g_active_intervention_run_id g = Some (- pid)
          \<and> g_lock_token g = token \<and> token \<noteq> None
        \<longrightarrow> (\<exists>a e. acquired = Some a \<and> g_lock_expires_at g = Some e
              \<and> stamp_dt e < stamp_dt a + seconds cap + 1000))"

definition capped :: "int \<Rightarrow> platform \<Rightarrow> bool" where
  "capped cap d \<longleftrightarrow>
     (\<forall>g\<in>set (groups d). \<forall>v\<in>set (map lease_view (pipelines d)). within_cap cap g v)"

definition ids_distinct :: "platform \<Rightarrow> bool" where
  "ids_distinct d \<longleftrightarrow> distinct (map g_id (groups d)) \<and> distinct (map p_id (pipelines d))"

text \<open>
  A strategy run owns a room under minus its id, so the ids of runs have to be positive, as
  the ones SQLite draws are.
\<close>

definition runs_positive :: "platform \<Rightarrow> bool" where
  "runs_positive d \<longleftrightarrow> (\<forall>i\<in>set (map p_id (pipelines d)). 0 < i)"

lemma runs_positive_ids: "map p_id (pipelines d') = map p_id (pipelines d) \<Longrightarrow> runs_positive d' \<longleftrightarrow> runs_positive d"
  by (simp add: runs_positive_def del: set_map)

definition lease_inv :: "lease_config \<Rightarrow> platform \<Rightarrow> bool" where
  "lease_inv cfg d \<longleftrightarrow>
     rooms_ok (groups d) \<and> ids_distinct d \<and> runs_positive d \<and> capped (cf_max_total_seconds cfg) d"

lemma lease_inv_cong:
  "groups d' = groups d \<Longrightarrow> map lease_view (pipelines d') = map lease_view (pipelines d)
   \<Longrightarrow> lease_inv cfg d' \<longleftrightarrow> lease_inv cfg d"
  using views_ids [of "pipelines d'" "pipelines d"] runs_positive_ids [of d' d]
  by (simp add: lease_inv_def ids_distinct_def capped_def)

text \<open>
  An update of the rooms that is an evolution keeps the invariant when every changed row
  still respects the cap.
\<close>

lemma lease_inv_change:
  assumes inv: "lease_inv cfg d"
    and ev: "rooms_evolve (groups d) (update_where P f (groups d))"
    and groups: "groups d' = update_where P f (groups d)"
    and views: "map lease_view (pipelines d') = map lease_view (pipelines d)"
    and cap: "\<And>g v. g \<in> set (groups d) \<Longrightarrow> P g \<Longrightarrow> v \<in> set (map lease_view (pipelines d)) \<Longrightarrow>
      within_cap (cf_max_total_seconds cfg) g v \<Longrightarrow> within_cap (cf_max_total_seconds cfg) (f g) v"
  shows "lease_inv cfg d'"
  unfolding lease_inv_def
proof (intro conjI)
  show "rooms_ok (groups d')"
    using inv ev groups by (simp add: lease_inv_def evolve_rooms_ok)
  show "ids_distinct d'"
    using inv evolve_ids [OF ev] views_ids [OF views]
    by (simp add: lease_inv_def ids_distinct_def groups)
  show "runs_positive d'" using inv runs_positive_ids [OF views_ids [OF views]] by (simp add: lease_inv_def)
  show "capped (cf_max_total_seconds cfg) d'"
    using inv cap unfolding lease_inv_def capped_def groups views ball_update_where by auto
qed

lemma within_cap_opened: "within_cap cap (opened g) v"
  by (cases v) (simp add: within_cap_def opened_def)

lemma release_inv: "lease_inv cfg d \<Longrightarrow> lease_inv cfg (snd (release now gid token d))"
proof -
  assume inv: "lease_inv cfg d"
  have "pipelines (snd (release now gid token d)) = pipelines d"
    by (simp add: release_def Let_def split: option.splits)
  with inv release_evolves [of d now gid token] show ?thesis
    by (intro lease_inv_change [OF inv _ release_groups])
      (auto simp: within_cap_opened release_groups lease_inv_def)
qed

lemma expire_locked_room_inv:
  assumes inv: "lease_inv cfg d"
  shows "lease_inv cfg (snd (expire_locked_room now gid want d))"
proof -
  have "lease_inv cfg (expire_events now token own (terminalize_owner ts token own
      (change_groups (expired_lease gid token ts) opened d)))" for token own ts
    by (rule lease_inv_change [OF inv, where P = "expired_lease gid token ts" and f = opened])
      (use inv in \<open>simp_all add: within_cap_opened open_expired_evolves lease_inv_def\<close>)
  then show ?thesis using expire_locked_room_cases [of now gid want d] inv by auto
qed

lemma acquire_cas_inv:
  assumes inv: "lease_inv cfg d" and "token \<noteq> []"
    and fresh: "\<And>p. p \<in> set (pipelines d) \<Longrightarrow> p_room_lock_token p \<noteq> Some token"
  shows "lease_inv cfg (snd (acquire_cas now token gid run lease v d))"
proof (rule lease_inv_change [OF inv _ acquire_cas_groups])
  show "rooms_evolve (groups d) (update_where
      (\<lambda>g. g_id g = gid \<and> g_state g = OPEN_STATE \<and> g_version g = v)
      (locked_by token (fmt_sec (now + seconds lease)) run) (groups d))"
    using inv assms(2) by (simp add: take_open_evolves lease_inv_def)
  show "map lease_view (pipelines (snd (acquire_cas now token gid run lease v d)))
      = map lease_view (pipelines d)"
    by (simp add: acquire_cas_def Let_def)
next
  fix g w
  assume "w \<in> set (map lease_view (pipelines d))"
  with fresh show "within_cap (cf_max_total_seconds cfg)
      (locked_by token (fmt_sec (now + seconds lease)) run g) w"
    by (auto simp: within_cap_def locked_by_def lease_view_def)
qed

lemma terminalize_owner_tokens:
  "p \<in> set (pipelines (terminalize_owner ts token own d)) \<Longrightarrow>
   \<exists>q\<in>set (pipelines d). lease_view q = lease_view p"
  using terminalize_owner_views [of ts token own d]
  by (metis (no_types, lifting) image_iff image_set)

lemma recover_expired_views [simp]:
  "map lease_view (pipelines (snd (recover_expired now gid d))) = map lease_view (pipelines d)"
  using expire_locked_room_cases [of now gid None d] by (auto simp: recover_expired_def)

lemma tokens_of_views:
  assumes "map lease_view ps = map lease_view qs"
    and "\<And>p. p \<in> set qs \<Longrightarrow> p_room_lock_token p \<noteq> Some t"
  shows "p \<in> set ps \<Longrightarrow> p_room_lock_token p \<noteq> Some t"
proof
  assume "p \<in> set ps" and tok: "p_room_lock_token p = Some t"
  then have "lease_view p \<in> set (map lease_view qs)" by (simp flip: assms(1))
  then obtain q where "q \<in> set qs" "lease_view q = lease_view p" by auto
  with tok assms(2) show False by (auto simp: lease_view_def)
qed

lemma acquire_inv:
  assumes inv: "lease_inv cfg d" and "token \<noteq> []"
    and fresh: "\<And>p. p \<in> set (pipelines d) \<Longrightarrow> p_room_lock_token p \<noteq> Some token"
  shows "lease_inv cfg (snd (acquire cfg' t0 now token gid run lease d))"
proof -
  let ?d1 = "snd (recover_expired t0 gid d)"
  have 1: "lease_inv cfg ?d1"
    using inv by (simp add: recover_expired_def expire_locked_room_inv)
  have "\<And>p. p \<in> set (pipelines ?d1) \<Longrightarrow> p_room_lock_token p \<noteq> Some token"
    using fresh by (rule tokens_of_views [OF recover_expired_views])
  with 1 assms(2) have "lease_inv cfg (snd (acquire_cas now token gid run l v ?d1))" for l v
    by (intro acquire_cas_inv) auto
  with 1 show ?thesis by (simp add: acquire_def Let_def split: option.splits)
qed

lemma renew_check_Inr:
  assumes "renew_check now ms pid token d = Inr (p, g)"
  shows "fetch_pipeline d pid = Some p" "p_id p = pid" "text_of (p_room_lock_token p) = token"
    "fetch_group d (p_group_id p) = Some g" "text_of (g_lock_token g) = token"
    "or0 (g_active_intervention_run_id g) = - pid" "\<not> lease_expired now g"
    "1000000 \<le> max_deadline ms now p - now"
    "scope_refusal (scope_of_pipeline d p) = None"
    "upper_or ''PENDING'' (p_final_status p) \<in> set ACTIVE_PIPELINE_STATUSES"
    "upper (text_of (p_publish_status p)) \<noteq> ''PUBLISHED''"
  using assms runs.fetch_rid
  by (auto simp: renew_check_def split: option.splits if_splits)

text \<open>The pipeline a view belongs to is determined by its id.\<close>

lemma view_of_fetched:
  assumes "distinct (map p_id (pipelines d))" and "fetch_pipeline d pid = Some p"
    and "(pid, gid, token, acquired) \<in> set (map lease_view (pipelines d))"
  shows "gid = p_group_id p \<and> token = p_room_lock_token p \<and> acquired = p_room_lock_acquired_at p"
proof -
  from assms(3) obtain q where q: "q \<in> set (pipelines d)" "lease_view q = (pid, gid, token, acquired)"
    by (auto simp flip: image_set)
  then have "p_id q = pid" by (simp add: lease_view_def)
  with assms(1,2) q(1) have "q = p"
    using fetch_by_unique [of p_id "pipelines d" q] by (simp add: fetch_pipeline_def)
  with q(2) show ?thesis by (simp add: lease_view_def)
qed

lemma renew_inv:
  assumes inv: "lease_inv cfg d"
    and cap: "or_default ms (cf_max_total_seconds cfg) \<le> cf_max_total_seconds cfg"
  shows "lease_inv cfg (snd (renew_strategy_pipeline cfg now pid token ls ms d))"
  using renew_cases [of cfg now pid token ls ms d]
proof (elim disjE exE conjE)
  fix p g
  let ?ms = "or_default ms (cf_max_total_seconds cfg)" and ?e = "renewed_expiry cfg now ls ms p"
  assume chk: "renew_check now ?ms pid token d = Inr (p, g)"
    and eq: "renew_strategy_pipeline cfg now pid token ls ms d = renew_commit cfg now token ?e p g d"
  note p = renew_check_Inr [OF chk]
  have ids: "distinct (map p_id (pipelines d))" using inv by (simp add: lease_inv_def ids_distinct_def)
  show ?thesis
  proof (rule lease_inv_change [OF inv])
    show "groups (snd (renew_strategy_pipeline cfg now pid token ls ms d)) =
        update_where (owned_lease (p_group_id p) token (- p_id p) (g_lock_expires_at g))
          (extended ?e) (groups d)"
      by (simp add: eq renew_commit_simps)
    show "map lease_view (pipelines (snd (renew_strategy_pipeline cfg now pid token ls ms d)))
        = map lease_view (pipelines d)"
      by (simp add: eq renew_commit_simps views_update_where)
  next
    fix h v
    assume hit: "owned_lease (p_group_id p) token (- p_id p) (g_lock_expires_at g) h"
      and v: "v \<in> set (map lease_view (pipelines d))"
      and old: "within_cap (cf_max_total_seconds cfg) h v"
    obtain vid gid tok acq where v_eq: "v = (vid, gid, tok, acq)" by (cases v) auto
    show "within_cap (cf_max_total_seconds cfg) (extended ?e h) v"
    proof (cases "vid = pid")
      case False
      with hit p(2) show ?thesis
        by (auto simp: within_cap_def v_eq extended_def owned_lease_def)
    next
      case True
      with view_of_fetched [OF ids p(1)] v v_eq
      have acq: "acq = p_room_lock_acquired_at p" by simp
      have "stamp_dt ?e < stamp_dt a + seconds (cf_max_total_seconds cfg) + 1000"
        if "acq = Some a" for a
      proof -
        have "stamp_dt ?e \<le> max_deadline ?ms now p"
          by (simp add: renewed_expiry_def stamp_dt_fmt_sec_min)
        also have "\<dots> = stamp_dt a + seconds ?ms" using that acq by (simp add: max_deadline_def)
        finally show ?thesis using seconds_mono [OF cap] by simp
      qed
      with old show ?thesis by (auto simp: within_cap_def v_eq extended_def)
    qed
  qed (use inv in \<open>simp add: extend_owned_evolves lease_inv_def\<close>)
qed (simp add: inv)

text \<open>What a claim that got past its checks knows about pipeline and room.\<close>

lemma claim_admit_Inr:
  assumes "claim_admit pid d = Inr (p, g)"
  shows "fetch_pipeline d pid = Some p" "p_id p = pid" "fetch_group d (p_group_id p) = Some g"
    "g_id g = p_group_id p" "upper (text_of (p_publish_status p)) \<noteq> ''PUBLISHED''"
    "authoritative_pipeline_guard d p
       (upper (text_of (p_stage2_status p)) = ''SUCCEEDED'' \<and> or0 (p_should_intervene p) = 1)
       (or0 (p_coarse_should_escalate p) = 1) = None"
  using assms runs.fetch_rid rooms.fetch_rid
  by (auto simp: claim_admit_def Let_def split: option.splits if_splits)

lemma recorded_acquired:
  "p_room_lock_acquired_at (lease_recorded ts gr q) =
     (if gr_renewed gr then coalesce (p_room_lock_acquired_at q) (Some ts) else Some ts)"
  "p_room_lock_token (lease_recorded ts gr q) = Some (gr_token gr)"
  "p_group_id (lease_recorded ts gr q) = p_group_id q"
  by (simp_all add: lease_recorded_def)

text \<open>The expiry a grant carries respects the cap of the acquisition it is recorded with.\<close>

lemma grant_within_cap:
  assumes room: "claim_room cfg now fresh lease p g d = Inr (gr, d1)"
    and lease: "lease \<le> cf_max_total_seconds cfg"
  shows "stamp_dt (gr_expires gr) < stamp_dt
    (the (p_room_lock_acquired_at (lease_recorded (fmt_ms now) gr p)))
      + seconds (cf_max_total_seconds cfg) + 1000"
  using room
proof (cases rule: claim_room_cases)
  case extend
  have "stamp_dt (gr_expires gr) \<le> max_deadline (cf_max_total_seconds cfg) now p"
    by (simp add: extend stamp_dt_fmt_sec_min)
  then show ?thesis using fmt_ms_gt [of now] extend(5)
    by (cases "p_room_lock_acquired_at p") (auto simp: recorded_acquired max_deadline_def)
next
  case take_open
  then show ?thesis
    using stamp_dt_fmt_sec_le [of "now + seconds lease"] seconds_mono [OF lease] fmt_ms_gt [of now]
    by (simp add: recorded_acquired)
next
  case (transfer run)
  then show ?thesis
    using stamp_dt_fmt_sec_le [of "now + seconds lease"] seconds_mono [OF lease] fmt_ms_gt [of now]
    by (simp add: recorded_acquired)
qed

text \<open>In every branch the UPDATE hits the room and writes the grant for the claiming pipeline.\<close>

lemma rowcount_one_ex: "rowcount P rows = 1 \<Longrightarrow> \<exists>r\<in>set rows. P r"
  by (simp flip: rowcount_pos_iff)

lemma claim_room_writes:
  assumes "claim_room cfg now fresh lease p g d = Inr (gr, d1)"
  obtains P f where "groups d1 = update_where P f (groups d)"
    "\<exists>h\<in>set (groups d). P h"
    "\<And>h. P h \<Longrightarrow> g_id h = p_group_id p"
    "\<And>h. P h \<Longrightarrow> g_id (f h) = g_id h"
    "\<And>h. P h \<Longrightarrow> g_state (f h) = LOCK_STATE"
    "\<And>h. P h \<Longrightarrow> g_lock_token (f h) = Some (gr_token gr)"
    "\<And>h. P h \<Longrightarrow> g_lock_expires_at (f h) = Some (gr_expires gr)"
    "\<And>h. P h \<Longrightarrow> g_active_intervention_run_id (f h) = Some (- p_id p)"
  using assms
proof (cases rule: claim_room_cases)
  case extend
  show ?thesis
    by (rule that [OF extend(9) [THEN arg_cong [where f = groups], simplified]
          rowcount_one_ex [OF extend(10)]])
      (auto simp: owned_lease_def extended_def)
next
  case take_open
  show ?thesis
    by (rule that [OF take_open(6) [THEN arg_cong [where f = groups], simplified]
          rowcount_one_ex [OF take_open(7)]])
      (auto simp: locked_by_def take_open)
next
  case (transfer run)
  show ?thesis
    by (rule that [OF transfer(9) [THEN arg_cong [where f = groups], simplified]
          rowcount_one_ex [OF transfer(10)]])
      (auto simp: handed_over_def transfer)
qed

text \<open>The cap of one room against one pipeline row, after a grant to the pipeline.\<close>

lemma within_cap_recorded:
  assumes "p_room_lock_acquired_at q = p_room_lock_acquired_at p"
    and "g_lock_expires_at h = Some (gr_expires gr)"
    and "stamp_dt (gr_expires gr) < stamp_dt (the (p_room_lock_acquired_at (lease_recorded ts gr p)))
      + seconds cap + 1000"
  shows "within_cap cap h (lease_view (lease_recorded ts gr q))"
  using assms
  by (cases "p_room_lock_acquired_at p"; cases "gr_renewed gr")
    (simp_all add: within_cap_def lease_view_def recorded_acquired)

lemma within_cap_other:
  "g_id h \<noteq> p_group_id q \<Longrightarrow> within_cap cap h (lease_view q)"
  "g_active_intervention_run_id h \<noteq> Some (- p_id q) \<Longrightarrow> within_cap cap h (lease_view q)"
  by (auto simp: within_cap_def lease_view_def)

lemma positive_run: "lease_inv cfg d \<Longrightarrow> fetch_pipeline d pid = Some p \<Longrightarrow> 0 < p_id p"
  by (auto simp: lease_inv_def runs_positive_def fetch_pipeline_def dest: fetch_by_SomeD)

lemma claim_commit_inv:
  assumes inv: "lease_inv cfg d"
    and adm: "claim_admit pid d = Inr (p, g)"
    and room: "claim_room cfg now fresh lease p g d = Inr (gr, d1)"
    and fresh: "fresh \<noteq> []" and lease: "lease \<le> cf_max_total_seconds cfg"
  shows "lease_inv cfg (snd (claim_commit cfg now p g gr d1))"
proof -
  note p = claim_admit_Inr [OF adm]
  let ?rec = "lease_recorded (fmt_ms now) gr" and ?cap = "cf_max_total_seconds cfg"
  let ?d2 = "claim_supersede now p (gr_transferred_from gr) d1"
  let ?d' = "snd (claim_commit cfg now p g gr d1)"
  obtain P f where gs: "groups d1 = update_where P f (groups d)"
    and hit: "\<exists>h\<in>set (groups d). P h" and P: "\<And>h. P h \<Longrightarrow> g_id h = p_group_id p"
    and f: "\<And>h. P h \<Longrightarrow> g_lock_expires_at (f h) = Some (gr_expires gr)"
      "\<And>h. P h \<Longrightarrow> g_active_intervention_run_id (f h) = Some (- p_id p)"
    using room by (rule claim_room_writes) blast
  have views: "map lease_view (pipelines ?d2) = map lease_view (pipelines d)"
    by (simp add: claim_room_frame [OF room])
  have ids: "distinct (map g_id (groups d))" "distinct (map p_id (pipelines d))"
    using inv by (simp_all add: lease_inv_def ids_distinct_def)
  have ps': "pipelines ?d' = update_where (\<lambda>q. p_id q = pid) ?rec (pipelines ?d2)"
    by (simp add: claim_commit_simps p)
  have gs': "groups ?d' = update_where P f (groups d)"
    by (simp add: claim_commit_simps gs)
  have ev: "rooms_evolve (groups d) (groups ?d')"
    using claim_room_evolves [OF room _ fresh positive_run [OF inv p(1)]] inv by (simp add: claim_commit_simps lease_inv_def)
  have target: "P h" if h: "h \<in> set (groups d)" "g_id h = p_group_id p" for h
  proof -
    from hit obtain k where k: "k \<in> set (groups d)" "P k" by blast
    from P [OF k(2)] h(2) have "g_id h = g_id k" by simp
    from fetch_by_unique [OF ids(1) h(1), unfolded this] fetch_by_unique [OF ids(1) k(1)] k(2)
    show ?thesis by simp
  qed
  have cap: "within_cap ?cap (if P h then f h else h) (lease_view (if p_id q = pid then ?rec q else q))"
    if h: "h \<in> set (groups d)" and q: "q \<in> set (pipelines ?d2)" for h q
  proof -
    from q have "lease_view q \<in> set (map lease_view (pipelines ?d2))" unfolding set_map by (rule imageI)
    then have vq: "lease_view q \<in> set (map lease_view (pipelines d))" unfolding views .
    show ?thesis
    proof (cases "p_id q = pid")
      case True
      with vq have "(pid, p_group_id q, p_room_lock_token q, p_room_lock_acquired_at q)
          \<in> set (map lease_view (pipelines d))" by (simp add: lease_view_def)
      from view_of_fetched [OF ids(2) p(1) this]
      have rq: "p_group_id q = p_group_id p" "p_room_lock_acquired_at q = p_room_lock_acquired_at p"
        by simp_all
      show ?thesis
      proof (cases "P h")
        case hit: True
        from within_cap_recorded [OF rq(2) f(1) [OF hit] grant_within_cap [OF room lease]]
        show ?thesis using True hit by simp
      next
        case miss: False
        then have "g_id h \<noteq> p_group_id (?rec q)" using target [OF h] rq by (auto simp: recorded_acquired)
        then show ?thesis using True miss by (simp add: within_cap_other)
      qed
    next
      case False
      show ?thesis
      proof (cases "P h")
        case True
        then have "g_active_intervention_run_id (f h) \<noteq> Some (- p_id q)" using f(2) False p(2) by simp
        then show ?thesis using False True by (simp add: within_cap_other)
      next
        case unhit: False
        have "within_cap ?cap h (lease_view q)"
          using inv h vq unfolding lease_inv_def capped_def by blast
        with False unhit show ?thesis by simp
      qed
    qed
  qed
  have "capped ?cap ?d'"
    unfolding capped_def ps' gs' ball_update_where set_map ball_simps using cap by blast
  moreover have rids: "map p_id (pipelines ?d') = map p_id (pipelines d)"
    using views_ids [OF views] by (simp add: ps' map_key_update_where)
  moreover have "runs_positive ?d'" using inv runs_positive_ids [OF rids] by (simp add: lease_inv_def)
  moreover have "map g_id (groups ?d') = map g_id (groups d)" using ev by (rule evolve_ids)
  moreover have "rooms_ok (groups ?d')" using ev inv by (auto simp: lease_inv_def evolve_rooms_ok)
  ultimately show ?thesis using ids by (simp add: lease_inv_def ids_distinct_def)
qed

lemma claim_transaction_inv:
  assumes inv: "lease_inv cfg d" and "fresh \<noteq> []" and "lease \<le> cf_max_total_seconds cfg"
  shows "lease_inv cfg (snd (claim_transaction cfg now fresh pid lease d))"
  using claim_transaction_cases [of cfg now fresh pid lease d]
proof (elim disjE exE conjE)
  fix reason
  assume eq: "claim_transaction cfg now fresh pid lease d = claim_failed now pid reason d"
  show ?thesis unfolding eq using inv by (rule lease_inv_cong [THEN iffD2, rotated 2]) simp_all
next
  fix p g gr d1
  assume "claim_admit pid d = Inr (p, g)" "claim_room cfg now fresh lease p g d = Inr (gr, d1)"
    and eq: "claim_transaction cfg now fresh pid lease d = claim_commit cfg now p g gr d1"
  with assms show ?thesis unfolding eq by (intro claim_commit_inv)
qed

lemma claim_recover_inv: "lease_inv cfg d \<Longrightarrow> lease_inv cfg (claim_recover t pid d)"
  by (simp add: claim_recover_def recover_expired_def expire_locked_room_inv split: option.splits)

lemma claim_inv:
  assumes inv: "lease_inv cfg d" and "fresh \<noteq> []"
    and "or_default ls (cf_initial_ttl_seconds cfg) \<le> cf_max_total_seconds cfg"
  shows "lease_inv cfg (snd (claim_strategy_pipeline cfg now t fresh pid ls d))"
proof -
  have "lease_inv cfg (claim_recover t pid d)"
    using inv by (rule claim_recover_inv)
  moreover have "or_default None (cf_max_total_seconds cfg) \<le> cf_max_total_seconds cfg"
    by (simp add: or_default_def)
  ultimately show ?thesis using assms(2,3)
    by (simp add: claim_strategy_pipeline_def Let_def renew_inv claim_transaction_inv
        split: option.splits)
qed

lemma lease_inv_rooms: "lease_inv cfg d \<Longrightarrow> rooms_ok (groups d)"
  by (simp add: lease_inv_def)

lemma claim_evolves:
  assumes inv: "lease_inv cfg d" and "fresh \<noteq> []"
  shows "rooms_evolve (groups d)
    (groups (snd (claim_strategy_pipeline cfg now t fresh pid ls d)))"
proof -
  let ?d1 = "claim_recover t pid d"
  have 1: "rooms_evolve (groups d) (groups ?d1)"
    using lease_inv_rooms [OF inv] by (rule claim_recover_evolves)
  have inv1: "lease_inv cfg ?d1" using inv by (rule claim_recover_inv)
  then have ok: "rooms_ok (groups ?d1)" and pos: "\<forall>p\<in>set (pipelines ?d1). 0 < p_id p"
    by (simp_all add: lease_inv_def runs_positive_def)
  show ?thesis
    using 1 renew_evolves [OF ok] claim_transaction_evolves [OF ok assms(2) pos]
    by (auto simp: claim_strategy_pipeline_def Let_def split: option.splits intro: evolve_trans)
qed

subsection \<open>The lease service as a system\<close>

text \<open>
  Every call that changes a lease, with its arguments (clock readings and fresh UUIDs among
  them).  \<open>Expire\<close> without a token is \<open>recover_expired\<close>, with one \<open>release_expired\<close>.
\<close>

datatype lease_request =
    Acquire datetime datetime string int int "int option"
  | Claim datetime datetime string int "int option"
  | Renew datetime int string "int option" "int option"
  | Release datetime int string
  | Expire datetime int "string option"

fun lease_do :: "lease_config \<Rightarrow> lease_request \<Rightarrow> platform \<Rightarrow> platform" where
  "lease_do cfg (Acquire t now fresh gid run ls) d = snd (acquire cfg t now fresh gid run ls d)"
| "lease_do cfg (Claim now t fresh pid ls) d = snd (claim_strategy_pipeline cfg now t fresh pid ls d)"
| "lease_do cfg (Renew now pid token ls ms) d = snd (renew_strategy_pipeline cfg now pid token ls ms d)"
| "lease_do cfg (Release now gid token) d = snd (release now gid token d)"
| "lease_do cfg (Expire now gid want) d = snd (expire_locked_room now gid want d)"

text \<open>
  A fresh token is a UUID: not empty, and in \<open>acquire\<close> not one a pipeline row already
  carries.  Callers pass no lease longer than the configured maximum.
\<close>

fun lease_ok :: "lease_config \<Rightarrow> lease_request \<Rightarrow> platform \<Rightarrow> bool" where
  "lease_ok cfg (Acquire t now fresh gid run ls) d =
     (fresh \<noteq> [] \<and> (\<forall>p\<in>set (pipelines d). p_room_lock_token p \<noteq> Some fresh))"
| "lease_ok cfg (Claim now t fresh pid ls) d =
     (fresh \<noteq> [] \<and> or_default ls (cf_initial_ttl_seconds cfg) \<le> cf_max_total_seconds cfg)"
| "lease_ok cfg (Renew now pid token ls ms) d =
     (or_default ms (cf_max_total_seconds cfg) \<le> cf_max_total_seconds cfg)"
| "lease_ok cfg (Release now gid token) d = True"
| "lease_ok cfg (Expire now gid want) d = True"

definition room_version :: "platform \<Rightarrow> int \<Rightarrow> int" where
  "room_version d gid = (case fetch_group d gid of None \<Rightarrow> 0 | Some g \<Rightarrow> g_version g)"

lemma evolve_version:
  "rooms_evolve (groups d) (groups d') \<Longrightarrow> room_version d gid \<le> room_version d' gid"
  by (drule evolve_fetch [where k = gid])
    (auto simp: room_version_def fetch_group_def option_rel_Some1 dest: room_steps_version_le
      split: option.splits)

lemma lease_do_evolves:
  "lease_ok cfg r d \<Longrightarrow> lease_inv cfg d \<Longrightarrow> rooms_evolve (groups d) (groups (lease_do cfg r d))"
  by (cases r) (auto simp: claim_evolves lease_inv_rooms acquire_evolves renew_evolves release_evolves
      expire_locked_room_evolves)

lemma lease_do_inv:
  "lease_ok cfg r d \<Longrightarrow> lease_inv cfg d \<Longrightarrow> lease_inv cfg (lease_do cfg r d)"
  by (cases r) (simp_all add: acquire_inv claim_inv renew_inv release_inv expire_locked_room_inv)

interpretation lease: monotone_system "lease_do cfg" "lease_ok cfg" "lease_inv cfg" room_version for cfg
  by unfold_locales
    (erule (1) lease_do_inv, simp add: evolve_version lease_do_evolves)

text \<open>A room that evolves takes as many steps of the lease automaton as its version rises.\<close>

lemma room_steps_abstract:
  "room_step\<^sup>*\<^sup>* g g' \<Longrightarrow> lease_path (g_version g, phase_of g) (g_version g', phase_of g')"
proof (induction rule: rtranclp_induct)
  case (step h k)
  from step.hyps(2) consider "g_version k = g_version h + 1" "lease_step (phase_of h) (phase_of k)"
    | "g_version k = g_version h" "phase_of k = phase_of h"
    by (auto simp: room_step_def room_noted_same)
  then show ?case
  proof cases
    case 1
    with step.IH have "nat (g_version k - g_version g) = Suc (nat (g_version h - g_version g))"
      by (auto simp: lease_path_def)
    with 1 step.IH show ?thesis by (auto simp: lease_path_def relcomppI)
  qed (use step.IH in simp)
qed (simp add: lease_path_def)

text \<open>The rooms of two states of a run: the same rooms, each moved along the automaton.\<close>

definition rooms_follow :: "platform \<Rightarrow> platform \<Rightarrow> bool" where
  "rooms_follow d d' \<longleftrightarrow> list_all2 (\<lambda>g g'. g_id g' = g_id g
     \<and> lease_path (g_version g, phase_of g) (g_version g', phase_of g')) (groups d) (groups d')"

lemma evolving_rooms_follow: "rooms_evolve (groups d) (groups d') \<Longrightarrow> rooms_follow d d'"
  unfolding rooms_evolve_def rooms_follow_def
  by (erule list_all2_mono) (simp add: room_steps_id room_steps_abstract)

end
