(* ===== verification/Coordination_Lemmas.thy ===== *)
theory Coordination_Lemmas
  imports Coordination Lease_Safety
begin

text \<open>
  How the coordination services act on the tables: which rows an operation writes, what it
  writes there, and that it moves the rooms along the lease automaton, so that coordination
  and lease requests can be interleaved (a combined system at the end).
\<close>

subsection \<open>Views of a pipeline row\<close>

text \<open>What decides scope and priority; what a run ended with.\<close>

definition standing where
  "standing p = (p_id p, p_group_id p, p_session_id p, p_discussion_id p, p_trigger_source p,
     p_canonical_sub_state_code p, p_coarse_state_code p, p_trigger_priority p,
     p_input_cutoff_student_sequence p)"

definition verdict where
  "verdict p = (p_final_status p, p_publish_status p, p_skip_reason p, p_superseded_by_run_id p,
     p_stage2_status p, p_should_intervene p, p_failure_code p, p_assessment_batch_id p)"

lemma linked_views [simp]:
  "standing (linked_original ts r why tr cu p) = standing p"
  "verdict (linked_original ts r why tr cu p) = verdict p"
  "lease_view (linked_original ts r why tr cu p) = lease_view p"
  "p_id (linked_original ts r why tr cu p) = p_id p"
  "standing (linked_replacement ts i tr p) = standing p"
  "verdict (linked_replacement ts i tr p) = verdict p"
  "lease_view (linked_replacement ts i tr p) = lease_view p"
  "p_id (linked_replacement ts i tr p) = p_id p"
  by (simp_all add: standing_def verdict_def lease_view_def linked_original_def linked_replacement_def)

lemma latest_views [simp]:
  "standing (p\<lparr>p_latest_state := a, p_latest_should_intervene := b, p_latest_state_pipeline_run_id := c,
     p_updated_at := u\<rparr>) = standing p"
  "verdict (p\<lparr>p_latest_state := a, p_latest_should_intervene := b, p_latest_state_pipeline_run_id := c,
     p_updated_at := u\<rparr>) = verdict p"
  "lease_view (p\<lparr>p_latest_state := a, p_latest_should_intervene := b,
     p_latest_state_pipeline_run_id := c\<rparr>) = lease_view p"
  by (simp_all add: standing_def verdict_def lease_view_def)

lemma terminal_row_views [simp]:
  "standing (terminal_row mk ts tr cu rel p) = standing p"
  "lease_view (terminal_row mk ts tr cu rel p) = lease_view p"
  "p_id (terminal_row mk ts tr cu rel p) = p_id p"
  by (simp_all add: standing_def lease_view_def terminal_row_def Let_def)

subsection \<open>Linking\<close>

lemma sync_frame [simp]:
  "groups (snd (sync_latest_state_from_replacement now i j d)) = groups d"
  "interventions (snd (sync_latest_state_from_replacement now i j d)) = interventions d"
  "map standing (pipelines (snd (sync_latest_state_from_replacement now i j d))) = map standing (pipelines d)"
  "map lease_view (pipelines (snd (sync_latest_state_from_replacement now i j d))) = map lease_view (pipelines d)"
  by (simp_all add: sync_latest_state_from_replacement_def Let_def table_simps split: option.splits)

lemma link_frame [simp]:
  "groups (snd (link_pipeline_replacement now i j r t c d)) = groups d"
  "interventions (snd (link_pipeline_replacement now i j r t c d)) = interventions d"
  "map standing (pipelines (snd (link_pipeline_replacement now i j r t c d))) = map standing (pipelines d)"
  "map lease_view (pipelines (snd (link_pipeline_replacement now i j r t c d))) = map lease_view (pipelines d)"
  by (simp_all add: link_pipeline_replacement_def Let_def table_simps split: option.splits)

lemma sync_fetch:
  "map_option verdict (fetch_pipeline (snd (sync_latest_state_from_replacement now i j d)) k)
     = map_option verdict (fetch_pipeline d k)"
  "k \<noteq> i \<Longrightarrow> fetch_pipeline (snd (sync_latest_state_from_replacement now i j d)) k = fetch_pipeline d k"
  by (auto simp: sync_latest_state_from_replacement_def Let_def runs.fetch_change_field
      intro!: runs.fetch_change_other [where j = i] split: option.splits)

lemma link_fetch_verdict:
  "map_option verdict (fetch_pipeline (snd (link_pipeline_replacement now i j r t c d)) k)
     = map_option verdict (fetch_pipeline d k)"
  by (simp add: link_pipeline_replacement_def Let_def sync_fetch runs.fetch_change_field split: option.splits)

lemma link_fetch_other:
  assumes "k \<noteq> i" and "k \<noteq> j"
  shows "fetch_pipeline (snd (link_pipeline_replacement now i j r t c d)) k = fetch_pipeline d k"
proof -
  have "fetch_pipeline (change_pipelines (\<lambda>p. p_id p = m) f d') k = fetch_pipeline d' k"
    if "m \<noteq> k" "\<And>p. p_id (f p) = p_id p" for m f d'
    using that by (intro runs.fetch_change_other [where j = m]) auto
  with assms show ?thesis
    by (simp add: link_pipeline_replacement_def Let_def sync_fetch(2) split: option.splits)
qed

subsection \<open>Ending one run\<close>

lemma release_pipeline_lock_eq:
  "groups (snd (release_pipeline_lock ts row d)) =
     (if truthy (p_room_lock_token row)
      then update_where (\<lambda>g. g_id g = p_group_id row \<and> g_lock_token g = p_room_lock_token row
             \<and> g_active_intervention_run_id g = Some (- p_id row)) opened (groups d)
      else groups d)"
  "pipelines (snd (release_pipeline_lock ts row d)) = pipelines d"
  "interventions (snd (release_pipeline_lock ts row d)) = interventions d"
  "fetch_pipeline (snd (release_pipeline_lock ts row d)) k = fetch_pipeline d k"
  by (simp_all add: release_pipeline_lock_def Let_def opened_def [abs_def] OPEN_STATE_def)

lemma mark_unmarkable: "\<not> markable row \<Longrightarrow> mark_pipeline_terminal mk now row d = (False, d)"
  by (simp add: mark_pipeline_terminal_def)

lemma mark_fst [simp]: "fst (mark_pipeline_terminal mk now row d) = markable row"
  by (simp add: mark_pipeline_terminal_def Let_def split: prod.splits)

lemma mark_groups:
  "groups (snd (mark_pipeline_terminal mk now row d)) =
     (if markable row then groups (snd (release_pipeline_lock (fmt_sec now) row d)) else groups d)"
  by (simp add: mark_pipeline_terminal_def Let_def split: prod.splits option.splits)

lemma mark_interventions:
  "interventions (snd (mark_pipeline_terminal mk now row d)) =
     (if markable row
      then update_where (\<lambda>r. ir_strategy_pipeline_run_id r = Some (p_id row)
             \<and> text_of (ir_publish_status r) \<noteq> ''PUBLISHED'') (run_closed mk (fmt_sec now)) (interventions d)
      else interventions d)"
  using release_pipeline_lock_eq(3) [of "fmt_sec now" row d]
  by (auto simp: mark_pipeline_terminal_def Let_def split: prod.splits option.splits)

text \<open>The pipelines after a mark: the row is written, then possibly linked.\<close>

lemma mark_pipelines:
  assumes "markable row"
  obtains tr cu rel d2 where
    "pipelines d2 = update_where (\<lambda>p. p_id p = p_id row)
       (terminal_row mk (fmt_sec now) tr cu rel) (pipelines d)"
    "pipelines (snd (mark_pipeline_terminal mk now row d)) =
       pipelines (case tm_superseded_by mk of None \<Rightarrow> d2
         | Some i \<Rightarrow> snd (link_pipeline_replacement now (p_id row) i (Some (tm_reason mk)) tr cu d2))"
proof -
  obtain rel d1 where rel: "release_pipeline_lock (fmt_sec now) row d = (rel, d1)" by fastforce
  then have "pipelines d1 = pipelines d"
    using release_pipeline_lock_eq(2) [of "fmt_sec now" row d] by simp
  with assms rel show ?thesis
    by (auto simp: mark_pipeline_terminal_def Let_def
        intro!: that [of "change_pipelines (\<lambda>p. p_id p = p_id row) _ d1"] split: option.splits)
qed

lemma mark_views:
  "map standing (pipelines (snd (mark_pipeline_terminal mk now row d))) = map standing (pipelines d)"
  "map lease_view (pipelines (snd (mark_pipeline_terminal mk now row d))) = map lease_view (pipelines d)"
proof -
  have "map standing (pipelines (snd (mark_pipeline_terminal mk now row d))) = map standing (pipelines d)
      \<and> map lease_view (pipelines (snd (mark_pipeline_terminal mk now row d))) = map lease_view (pipelines d)"
  proof (cases "markable row")
    case True
    show ?thesis
      by (rule mark_pipelines [OF True, of mk now d]) (simp add: table_simps split: option.splits)
  qed (simp add: mark_unmarkable)
  then show "map standing (pipelines (snd (mark_pipeline_terminal mk now row d))) = map standing (pipelines d)"
    "map lease_view (pipelines (snd (mark_pipeline_terminal mk now row d))) = map lease_view (pipelines d)"
    by simp_all
qed

text \<open>What a marked row records, given the row it was.\<close>

definition settled :: "terminal_mark \<Rightarrow> pipeline_row \<Rightarrow> pipeline_row \<Rightarrow> bool" where
  "settled mk old p \<longleftrightarrow> p_final_status p = Some (tm_final_status mk)
     \<and> p_publish_status p = Some (tm_publish_status mk) \<and> p_skip_reason p = Some (tm_reason mk)
     \<and> (tm_superseded_by mk \<noteq> None \<longrightarrow> p_superseded_by_run_id p = tm_superseded_by mk)
     \<and> (tm_stage2_status mk \<noteq> None \<longrightarrow> p_stage2_status p = tm_stage2_status mk)
     \<and> (tm_failure_code mk \<noteq> None \<longrightarrow> p_failure_code p = tm_failure_code mk)
     \<and> (upper (text_of (p_stage2_status old)) \<noteq> ''SUCCEEDED'' \<longrightarrow> p_should_intervene p = None)"

lemma settled_verdict: "verdict p = verdict q \<Longrightarrow> settled mk old p = settled mk old q"
  "verdict p = verdict q \<Longrightarrow> settled mk p new = settled mk q new"
  by (simp_all add: settled_def verdict_def)

lemma settled_terminal_row: "settled mk p (terminal_row mk ts tr cu rel p)"
  by (cases "tm_superseded_by mk"; cases "tm_stage2_status mk"; cases "tm_failure_code mk")
    (simp_all add: settled_def terminal_row_def Let_def)

lemma settled_transfer:
  "map_option verdict x = map_option verdict y \<Longrightarrow> y = Some p \<Longrightarrow> settled mk old p \<Longrightarrow>
   \<exists>q. x = Some q \<and> settled mk old q"
  by (cases x) (auto dest: settled_verdict(1) [where mk = mk and old = old])

lemma mark_settles:
  assumes "markable row" and "fetch_pipeline d (p_id row) = Some p"
  shows "\<exists>q. fetch_pipeline (snd (mark_pipeline_terminal mk now row d)) (p_id row) = Some q \<and> settled mk p q"
proof (rule mark_pipelines [OF assms(1), of mk now d])
  fix tr cu rel d2
  let ?f = "terminal_row mk (fmt_sec now) tr cu rel"
  assume d2: "pipelines d2 = update_where (\<lambda>p. p_id p = p_id row) ?f (pipelines d)"
    and eq: "pipelines (snd (mark_pipeline_terminal mk now row d)) =
       pipelines (case tm_superseded_by mk of None \<Rightarrow> d2
         | Some i \<Rightarrow> snd (link_pipeline_replacement now (p_id row) i (Some (tm_reason mk)) tr cu d2))"
  have "fetch_pipeline d2 (p_id row) = Some (?f p)"
    using assms(2) runs.fetch_rid [OF assms(2)] by (simp add: fetch_pipeline_def d2 fetch_by_update_where)
  moreover have "map_option verdict (fetch_pipeline (snd (mark_pipeline_terminal mk now row d)) (p_id row))
      = map_option verdict (fetch_pipeline d2 (p_id row))"
    by (simp add: fetch_pipeline_def eq link_fetch_verdict [unfolded fetch_pipeline_def] split: option.splits)
  ultimately show ?thesis using settled_transfer settled_terminal_row by blast
qed

lemma mark_verdict_other:
  assumes "k \<noteq> p_id row"
  shows "map_option verdict (fetch_pipeline (snd (mark_pipeline_terminal mk now row d)) k)
    = map_option verdict (fetch_pipeline d k)"
proof (cases "markable row")
  case True
  show ?thesis
  proof (rule mark_pipelines [OF True, of mk now d])
    fix tr cu rel d2
    let ?f = "terminal_row mk (fmt_sec now) tr cu rel"
    assume d2: "pipelines d2 = update_where (\<lambda>p. p_id p = p_id row) ?f (pipelines d)"
      and eq: "pipelines (snd (mark_pipeline_terminal mk now row d)) =
         pipelines (case tm_superseded_by mk of None \<Rightarrow> d2
           | Some i \<Rightarrow> snd (link_pipeline_replacement now (p_id row) i (Some (tm_reason mk)) tr cu d2))"
    have "fetch_pipeline d2 k = fetch_pipeline (change_pipelines (\<lambda>p. p_id p = p_id row) ?f d) k"
      by (simp add: fetch_pipeline_def d2)
    also have "\<dots> = fetch_pipeline d k"
      using assms by (intro runs.fetch_change_other [where j = "p_id row"]) auto
    finally show ?thesis
      by (simp add: fetch_pipeline_def eq link_fetch_verdict [unfolded fetch_pipeline_def] split: option.splits)
  qed
qed (simp add: mark_unmarkable)

lemma mark_other:
  assumes "k \<noteq> p_id row" and "tm_superseded_by mk \<noteq> Some k"
  shows "fetch_pipeline (snd (mark_pipeline_terminal mk now row d)) k = fetch_pipeline d k"
proof (cases "markable row")
  case True
  show ?thesis
  proof (rule mark_pipelines [OF True, of mk now d])
    fix tr cu rel d2
    let ?f = "terminal_row mk (fmt_sec now) tr cu rel"
    assume d2: "pipelines d2 = update_where (\<lambda>p. p_id p = p_id row) ?f (pipelines d)"
      and eq: "pipelines (snd (mark_pipeline_terminal mk now row d)) =
         pipelines (case tm_superseded_by mk of None \<Rightarrow> d2
           | Some i \<Rightarrow> snd (link_pipeline_replacement now (p_id row) i (Some (tm_reason mk)) tr cu d2))"
    have "fetch_pipeline d2 k = fetch_pipeline (change_pipelines (\<lambda>p. p_id p = p_id row) ?f d) k"
      by (simp add: fetch_pipeline_def d2)
    also have "\<dots> = fetch_pipeline d k"
      using assms by (intro runs.fetch_change_other [where j = "p_id row"]) auto
    finally show ?thesis
      using assms
      by (auto simp: fetch_pipeline_def eq link_fetch_other [unfolded fetch_pipeline_def] split: option.splits)
  qed
qed (simp add: mark_unmarkable)

subsection \<open>Ending many runs\<close>

lemma mark_each_ids [simp]: "fst (mark_each mk now rows d) = map p_id (filter markable rows)"
proof (induction rows arbitrary: d)
  case (Cons row rows)
  obtain ok d1 where ok: "mark_pipeline_terminal mk now row d = (ok, d1)" by fastforce
  obtain ids d2 where ids: "mark_each mk now rows d1 = (ids, d2)" by fastforce
  from ok have "ok = markable row" using mark_fst [of mk now row d] by simp
  moreover from ids have "ids = map p_id (filter markable rows)" using Cons.IH [of d1] by simp
  ultimately show ?case by (simp add: ok ids)
qed simp

lemma mark_each_snd:
  "snd (mark_each mk now (row # rows) d) =
     snd (mark_each mk now rows (snd (mark_pipeline_terminal mk now row d)))"
  by (simp split: prod.splits)

lemma mark_each_views:
  "map standing (pipelines (snd (mark_each mk now rows d))) = map standing (pipelines d)"
  "map lease_view (pipelines (snd (mark_each mk now rows d))) = map lease_view (pipelines d)"
  by (induction rows arbitrary: d) (simp_all add: mark_each_snd mark_views del: mark_each.simps(2))

lemma mark_each_other:
  assumes "k \<notin> p_id ` set (filter markable rows)" and "tm_superseded_by mk \<noteq> Some k"
  shows "fetch_pipeline (snd (mark_each mk now rows d)) k = fetch_pipeline d k"
  using assms(1)
proof (induction rows arbitrary: d)
  case (Cons row rows)
  have "fetch_pipeline (snd (mark_pipeline_terminal mk now row d)) k = fetch_pipeline d k"
    using Cons.prems assms(2) by (cases "markable row") (auto simp: mark_other mark_unmarkable)
  with Cons show ?case by (simp add: mark_each_snd del: mark_each.simps(2) split: if_splits)
qed simp

lemma mark_each_verdict:
  "k \<notin> p_id ` set rows \<Longrightarrow>
   map_option verdict (fetch_pipeline (snd (mark_each mk now rows d)) k) = map_option verdict (fetch_pipeline d k)"
  by (induction rows arbitrary: d) (simp_all add: mark_each_snd mark_verdict_other del: mark_each.simps(2))

lemma fetch_pipeline_standing:
  "map standing (pipelines d') = map standing (pipelines d) \<Longrightarrow>
   map_option standing (fetch_pipeline d' k) = map_option standing (fetch_pipeline d k)"
proof -
  have "map_option standing (fetch_by p_id k ps) = fetch_by fst k (map standing ps)" for ps :: "pipeline_row list"
    by (induction ps) (simp_all add: standing_def)
  then show "map standing (pipelines d') = map standing (pipelines d) \<Longrightarrow> ?thesis"
    by (simp add: fetch_pipeline_def)
qed

lemma mark_each_settles:
  assumes "distinct (map p_id rows)" and "row \<in> set rows" and "markable row"
    and "fetch_pipeline d (p_id row) = Some p"
  shows "\<exists>q. fetch_pipeline (snd (mark_each mk now rows d)) (p_id row) = Some q \<and> settled mk p q"
  using assms
proof (induction rows arbitrary: d p)
  case (Cons r rows)
  let ?d1 = "snd (mark_pipeline_terminal mk now r d)"
  show ?case
  proof (cases "row = r")
    case True
    from mark_settles [OF Cons.prems(3,4), of mk now] True obtain q where
      q: "fetch_pipeline ?d1 (p_id r) = Some q" "settled mk p q" by auto
    have "p_id r \<notin> p_id ` set rows" using Cons.prems(1) by simp
    from settled_transfer [OF mark_each_verdict [OF this, of mk now ?d1] q] show ?thesis
      unfolding True mark_each_snd .
  next
    case False
    then have mem: "row \<in> set rows" using Cons.prems(2) by simp
    with Cons.prems(1) have "p_id row \<noteq> p_id r" by (auto simp: image_iff)
    from mark_verdict_other [OF this, of mk now d] Cons.prems(4)
    have "map_option verdict (fetch_pipeline ?d1 (p_id row)) = Some (verdict p)" by simp
    then obtain p1 where p1: "fetch_pipeline ?d1 (p_id row) = Some p1" "verdict p1 = verdict p" by auto
    from Cons.IH [OF _ mem Cons.prems(3) p1(1)] Cons.prems(1)
    have "\<exists>q. fetch_pipeline (snd (mark_each mk now rows ?d1)) (p_id row) = Some q \<and> settled mk p1 q"
      by simp
    then show ?thesis unfolding mark_each_snd settled_verdict(2) [OF p1(2)] .
  qed
qed simp

subsection \<open>Rooms under coordination\<close>

lemma release_pipeline_lock_evolves:
  "rooms_ok (groups d) \<Longrightarrow> rooms_evolve (groups d) (groups (snd (release_pipeline_lock ts row d)))"
  unfolding release_pipeline_lock_eq(1)
  by (auto intro!: evolve_change room_step_opened simp: rooms_ok_def elim!: truthyE intro: room_ok_token)

lemma mark_inv:
  assumes inv: "lease_inv cfg d"
  shows "lease_inv cfg (snd (mark_pipeline_terminal mk now row d))
    \<and> rooms_evolve (groups d) (groups (snd (mark_pipeline_terminal mk now row d)))"
proof (cases "markable row \<and> truthy (p_room_lock_token row)")
  case True
  let ?P = "\<lambda>g. g_id g = p_group_id row \<and> g_lock_token g = p_room_lock_token row
    \<and> g_active_intervention_run_id g = Some (- p_id row)"
  have gs: "groups (snd (mark_pipeline_terminal mk now row d)) = update_where ?P opened (groups d)"
    using True by (simp add: mark_groups release_pipeline_lock_eq(1))
  have ev: "rooms_evolve (groups d) (update_where ?P opened (groups d))"
    using release_pipeline_lock_evolves [of d "fmt_sec now" row] True inv
    by (simp add: release_pipeline_lock_eq(1) lease_inv_def)
  have "lease_inv cfg (snd (mark_pipeline_terminal mk now row d))"
    by (rule lease_inv_change [OF inv ev gs mark_views(2)]) (simp add: within_cap_opened)
  with ev gs show ?thesis by simp
next
  case False
  then have gs: "groups (snd (mark_pipeline_terminal mk now row d)) = groups d"
    by (auto simp: mark_groups release_pipeline_lock_eq(1))
  have "lease_inv cfg (snd (mark_pipeline_terminal mk now row d)) = lease_inv cfg d"
    using gs mark_views(2) by (rule lease_inv_cong)
  with inv gs show ?thesis by simp
qed

lemma mark_each_inv:
  "lease_inv cfg d \<Longrightarrow> lease_inv cfg (snd (mark_each mk now rows d))
     \<and> rooms_evolve (groups d) (groups (snd (mark_each mk now rows d)))"
proof (induction rows arbitrary: d)
  case (Cons row rows)
  with mark_inv [OF Cons.prems, of mk now row] show ?case
    by (auto simp: mark_each_snd simp del: mark_each.simps(2) intro: evolve_trans)
qed simp

text \<open>No room is left under the recorded lease of a run that was ended.\<close>

definition leased_to :: "pipeline_row \<Rightarrow> group_row \<Rightarrow> bool" where
  "leased_to row g \<longleftrightarrow> g_id g = p_group_id row \<and> truthy (g_lock_token g)
     \<and> g_lock_token g = p_room_lock_token row \<and> g_active_intervention_run_id g = Some (- p_id row)"

lemma opened_not_leased [simp]: "\<not> leased_to row (opened g)"
  by (simp add: leased_to_def opened_def)

lemma mark_frees:
  "markable row \<Longrightarrow> g \<in> set (groups (snd (mark_pipeline_terminal mk now row d))) \<Longrightarrow> \<not> leased_to row g"
  by (auto simp: mark_groups release_pipeline_lock_eq(1) set_update_where leased_to_def split: if_splits)
    (auto simp: opened_def)

lemma mark_keeps_free:
  "\<forall>g\<in>set (groups d). \<not> leased_to r g \<Longrightarrow>
   \<forall>g\<in>set (groups (snd (mark_pipeline_terminal mk now row d))). \<not> leased_to r g"
  by (auto simp: mark_groups release_pipeline_lock_eq(1) set_update_where split: if_splits)

lemma mark_each_keeps_free:
  "\<forall>g\<in>set (groups d). \<not> leased_to r g \<Longrightarrow>
   \<forall>g\<in>set (groups (snd (mark_each mk now rows d))). \<not> leased_to r g"
proof (induction rows arbitrary: d)
  case (Cons row rows)
  from Cons.IH [OF mark_keeps_free [OF Cons.prems]] show ?case unfolding mark_each_snd .
qed simp

lemma mark_each_frees:
  "row \<in> set rows \<Longrightarrow> markable row \<Longrightarrow>
   \<forall>g\<in>set (groups (snd (mark_each mk now rows d))). \<not> leased_to row g"
proof (induction rows arbitrary: d)
  case (Cons r rows)
  show ?case
  proof (cases "row = r")
    case True
    then have "\<forall>g\<in>set (groups (snd (mark_pipeline_terminal mk now r d))). \<not> leased_to row g"
      using mark_frees [OF Cons.prems(2)] by blast
    then show ?thesis unfolding mark_each_snd by (rule mark_each_keeps_free)
  next
    case False
    with Cons show ?thesis by (simp add: mark_each_snd del: mark_each.simps(2))
  qed
qed simp

subsection \<open>Candidates\<close>

lemma statuses_disjoint: "set ACTIVE_FINAL_STATUSES \<inter> set TERMINAL_FINAL_STATUSES = {}"
  by code_simp

lemma upper_terminal: "s \<in> set TERMINAL_FINAL_STATUSES \<Longrightarrow> upper s = s"
proof -
  have "\<forall>s\<in>set TERMINAL_FINAL_STATUSES. upper s = s" by code_simp
  then show "s \<in> set TERMINAL_FINAL_STATUSES \<Longrightarrow> upper s = s" by blast
qed

lemma upper_published: "upper ''PUBLISHED'' = ''PUBLISHED''"
  by code_simp

lemma active_markable: "active_unpublished p \<Longrightarrow> markable p"
  using statuses_disjoint
  by (cases "p_final_status p") (auto simp: active_unpublished_def markable_def)

lemma sibling_markable: "preliminary_sibling d row a b batch p \<Longrightarrow> markable p"
  using statuses_disjoint upper_terminal upper_published
  by (cases "p_final_status p") (fastforce simp: preliminary_sibling_def markable_def)+

lemma settled_inactive:
  "settled mk old p \<Longrightarrow> tm_final_status mk \<in> set TERMINAL_FINAL_STATUSES \<Longrightarrow> \<not> active_unpublished p"
  using statuses_disjoint by (auto simp: settled_def active_unpublished_def)

lemma priority_standing: "standing p = standing q \<Longrightarrow> priority_for_pipeline_row p = priority_for_pipeline_row q"
  by (simp add: standing_def priority_for_pipeline_row_def)

lemma scope_standing: "standing p = standing q \<Longrightarrow> in_scope g s x p = in_scope g s x q"
  by (simp add: standing_def in_scope_def)

lemma pipeline_member:
  "distinct (map p_id (pipelines d)) \<Longrightarrow> p \<in> set (pipelines d) \<Longrightarrow> fetch_pipeline d (p_id p) = Some p"
  by (simp add: fetch_pipeline_def fetch_by_unique)

text \<open>
  The common shape: the selected rows (all markable) are marked.  A row of the final table
  is either settled and was selected, or has the verdict it had.
\<close>

lemma mark_selection:
  assumes dist: "distinct (map p_id (pipelines d))"
    and rows: "set rows = {p \<in> set (pipelines d). S p}" "distinct (map p_id rows)"
    and markable: "\<And>p. p \<in> set (pipelines d) \<Longrightarrow> S p \<Longrightarrow> markable p"
    and q: "q \<in> set (pipelines (snd (mark_each mk now rows d)))"
  obtains p where "p \<in> set (pipelines d)" "p_id p = p_id q" "standing p = standing q"
    "if S p then settled mk p q else verdict p = verdict q"
proof -
  let ?d' = "snd (mark_each mk now rows d)"
  have std: "map standing (pipelines ?d') = map standing (pipelines d)" by (rule mark_each_views)
  then have "map p_id (pipelines ?d') = map p_id (pipelines d)"
    by (drule_tac arg_cong [where f = "map fst"]) (simp add: standing_def comp_def)
  with dist have "distinct (map p_id (pipelines ?d'))" by simp
  then have fq: "fetch_pipeline ?d' (p_id q) = Some q" using q by (rule pipeline_member)
  with fetch_pipeline_standing [OF std, of "p_id q"]
  have "map_option standing (fetch_pipeline d (p_id q)) = Some (standing q)" by simp
  then obtain p where p: "fetch_pipeline d (p_id q) = Some p" "standing p = standing q" by auto
  then have mem: "p \<in> set (pipelines d)" "p_id p = p_id q"
    by (auto simp: fetch_pipeline_def dest: fetch_by_SomeD)
  have "if S p then settled mk p q else verdict p = verdict q"
  proof (cases "S p")
    case True
    then have "p \<in> set rows" using rows(1) mem(1) by simp
    from mark_each_settles [OF rows(2) this markable [OF mem(1) True], of d p mk now] p(1) mem(2) fq True
    show ?thesis by auto
  next
    case False
    have "p_id q \<notin> p_id ` set rows"
    proof
      assume "p_id q \<in> p_id ` set rows"
      then obtain r where "r \<in> set (pipelines d)" "S r" "p_id r = p_id q" using rows(1) by auto
      with pipeline_member [OF dist] p(1) False show False by fastforce
    qed
    from mark_each_verdict [OF this, of mk now d] fq p(1) False show ?thesis by simp
  qed
  with mem p(2) show ?thesis by (rule that)
qed

lemma same_id_same_row:
  "distinct (map p_id ps) \<Longrightarrow> p \<in> set ps \<Longrightarrow> q \<in> set ps \<Longrightarrow> p_id p = p_id q \<Longrightarrow> p = q"
  by (simp add: distinct_map inj_on_def)

lemma selected_rows:
  assumes "distinct (map p_id (pipelines d))"
  shows "set (sort_key k (filter S (pipelines d))) = {p \<in> set (pipelines d). S p}"
    "distinct (map p_id (sort_key k (filter S (pipelines d))))"
  using assms by (simp_all add: distinct_map distinct_filter inj_on_def)

text \<open>The report every such service makes is right.\<close>

lemma mark_report:
  assumes dist: "distinct (map p_id (pipelines d))"
    and all_markable: "\<forall>p. S p \<longrightarrow> markable p"
    and eq: "mark_each mk now (sort_key key (filter S (pipelines d))) d = (ended, d')"
  shows "set ended = {p_id p |p. p \<in> set (pipelines d) \<and> S p}"
    and "q \<in> set (pipelines d') \<Longrightarrow> \<exists>p\<in>set (pipelines d). p_id p = p_id q \<and> standing p = standing q
      \<and> (p_id q \<in> set ended \<longleftrightarrow> S p) \<and> (if S p then settled mk p q else verdict p = verdict q)"
    and "k \<notin> set ended \<Longrightarrow> tm_superseded_by mk \<noteq> Some k \<Longrightarrow> fetch_pipeline d' k = fetch_pipeline d k"
    and "k \<notin> set ended \<Longrightarrow> map_option verdict (fetch_pipeline d' k) = map_option verdict (fetch_pipeline d k)"
proof -
  let ?rows = "sort_key key (filter S (pipelines d))"
  note sel = selected_rows [OF dist, of key S]
  have markable: "\<And>p. p \<in> set (pipelines d) \<Longrightarrow> S p \<Longrightarrow> markable p" using all_markable by blast
  have "ended = map p_id (filter markable ?rows)" using arg_cong [OF eq, of fst] by simp
  moreover have "filter markable ?rows = ?rows" using markable by simp
  ultimately have ids: "ended = map p_id ?rows" by simp
  have d': "d' = snd (mark_each mk now ?rows d)" by (simp add: eq)
  show set_ended: "set ended = {p_id p |p. p \<in> set (pipelines d) \<and> S p}" by (auto simp: ids)
  show "\<exists>p\<in>set (pipelines d). p_id p = p_id q \<and> standing p = standing q
      \<and> (p_id q \<in> set ended \<longleftrightarrow> S p) \<and> (if S p then settled mk p q else verdict p = verdict q)"
    if q: "q \<in> set (pipelines d')"
  proof -
    from mark_selection [OF dist sel markable] q obtain p where
      p: "p \<in> set (pipelines d)" "p_id p = p_id q" "standing p = standing q"
        "if S p then settled mk p q else verdict p = verdict q"
      unfolding d' by blast
    moreover have "p_id q \<in> set ended \<longleftrightarrow> S p"
    proof
      assume "p_id q \<in> set ended"
      then obtain r where r: "r \<in> set (pipelines d)" "S r" "p_id q = p_id r" by (auto simp: set_ended)
      with same_id_same_row [OF dist p(1) r(1)] p(2) show "S p" by simp
    next
      assume "S p"
      with p(1) show "p_id q \<in> set ended" unfolding set_ended p(2) [symmetric] by blast
    qed
    ultimately show ?thesis by blast
  qed
  show "fetch_pipeline d' k = fetch_pipeline d k" if "k \<notin> set ended" "tm_superseded_by mk \<noteq> Some k"
    unfolding d' using that by (intro mark_each_other) (auto simp: ids)
  show "map_option verdict (fetch_pipeline d' k) = map_option verdict (fetch_pipeline d k)"
    if "k \<notin> set ended"
    unfolding d' using that by (intro mark_each_verdict) (auto simp: ids)
qed

end
