(* ===== verification/Stage2_Services.thy ===== *)
theory Stage2_Services
  imports Stage2_Pipeline Coordination_Lemmas
begin

text \<open>
  The second stage as a system of requests: each of its transactions keeps the lease
  invariant and moves the rooms along the lease automaton.
\<close>

subsection \<open>Steps that keep the lease invariant\<close>

definition lease_safe :: "lease_config \<Rightarrow> platform \<Rightarrow> platform \<Rightarrow> bool" where
  "lease_safe cfg d d' \<longleftrightarrow> (lease_inv cfg d \<longrightarrow> lease_inv cfg d' \<and> rooms_evolve (groups d) (groups d'))"

lemma lease_safe_refl [simp]: "lease_safe cfg d d"
  by (simp add: lease_safe_def)

lemma lease_safe_trans [trans]: "lease_safe cfg d d1 \<Longrightarrow> lease_safe cfg d1 d2 \<Longrightarrow> lease_safe cfg d d2"
  by (auto simp: lease_safe_def intro: evolve_trans)

lemma lease_safe_frame:
  "groups d' = groups d \<Longrightarrow> map lease_view (pipelines d') = map lease_view (pipelines d) \<Longrightarrow> lease_safe cfg d d'"
  using lease_inv_cong [of d' d cfg] by (simp add: lease_safe_def)

text \<open>The counter of runs is ahead of every run, and positive as SQLite's is.\<close>

definition fresh_runs :: "platform \<Rightarrow> bool" where
  "fresh_runs d \<longleftrightarrow> 0 < next_pipeline_id d \<and> (\<forall>p\<in>set (pipelines d). p_id p < next_pipeline_id d)"

lemma lease_safe_insert:
  assumes "groups d' = groups d"
    and "map lease_view (pipelines d') = map lease_view (pipelines d) @ [(next_pipeline_id d, gid, None, None)]"
    and fresh: "fresh_runs d"
  shows "lease_safe cfg d d'"
proof -
  have ids: "map p_id (pipelines d') = map p_id (pipelines d) @ [next_pipeline_id d]"
    using arg_cong [OF assms(2), of "map fst"] by (simp add: lease_view_def comp_def)
  have "within_cap cap g (n, gid, None, None)" for cap g n by (simp add: within_cap_def)
  with assms ids show ?thesis
    by (auto simp: lease_safe_def lease_inv_def ids_distinct_def runs_positive_def fresh_runs_def capped_def)
qed

lemma lease_safe_marks: "lease_safe cfg d (snd (mark_each mk now rows d))"
  using mark_each_inv [of cfg d mk now rows] by (simp add: lease_safe_def)

subsection \<open>The columns the second stage writes\<close>

lemma stage2_rows [simp]:
  "lease_view (adopted_row mode b p) = lease_view p" "lease_view (prepared_row ts mode b p) = lease_view p"
  "lease_view (started_row ts p) = lease_view p" "lease_view (waiting_row ts why p) = lease_view p"
  "lease_view (lease_returned ts p) = lease_view p"
  "lease_view (failed_run ts b code detail meta started p) = lease_view p"
  "lease_view (decided_run ts b rd dc facts p) = lease_view p"
  "lease_view (observed_run ts b c facts p) = lease_view p"
  by (simp_all add: lease_view_def adopted_row_def prepared_row_def Let_def started_row_def waiting_row_def
      lease_returned_def failed_run_def decided_run_def observed_run_def)

lemma stage2_row_ids [simp]: "p_id (adopted_row mode b p) = p_id p" "p_id (prepared_row ts mode b p) = p_id p"
  "p_id (failed_run ts b code detail meta started p) = p_id p"
  "p_id (decided_run ts b rd dc facts p) = p_id p" "p_id (observed_run ts b c facts p) = p_id p"
  "p_id (lease_returned ts p) = p_id p" "p_id (new_run ts mode b n) = n"
  "p_id (started_row ts p) = p_id p" "p_id (waiting_row ts why p) = p_id p"
  by (simp_all add: adopted_row_def prepared_row_def failed_run_def decided_run_def observed_run_def
      lease_returned_def new_run_def Let_def started_row_def waiting_row_def)

lemma new_run_view: "lease_view (new_run ts mode b n) = (n, b_group_id b, None, None)"
  by (simp add: lease_view_def new_run_def)

lemma link_replaced_frame [simp]:
  "groups (link_replaced now b pid d) = groups d"
  "map lease_view (pipelines (link_replaced now b pid d)) = map lease_view (pipelines d)"
  by (simp_all add: link_replaced_def Let_def)

lemma get_or_create_safe:
  assumes run: "get_or_create_pipeline_row now mode b d = Inr (p, d1)"
    and fresh: "fresh_runs d"
  shows "lease_safe cfg d d1"
proof -
  from run consider q m where "adopt_run now m b q d = Inr (p, d1)"
    | m where "insert_run now m b d = Inr (p, d1)"
    by (auto simp: get_or_create_pipeline_row_def Let_def split: if_splits option.splits)
  then show ?thesis
  proof cases
    case 1
    then show ?thesis
      by (intro lease_safe_frame) (auto simp: adopt_run_def views_update_where split: if_splits)
  next
    case 2
    then show ?thesis
      by (intro lease_safe_insert [where gid = "b_group_id b"] fresh)
        (auto simp: insert_run_def Let_def new_run_view split: if_splits)
  qed
qed

lemma checked_update_Inr:
  "checked_update pid f d = Inr d' \<longleftrightarrow>
     d' = change_pipelines (\<lambda>p. p_id p = pid) f d \<and> (\<forall>p\<in>set (pipelines d). p_id p = pid \<longrightarrow> run_checks (f p))"
  by (auto simp: checked_update_def)

lemma change_pipelines_safe:
  "(\<And>p. lease_view (f p) = lease_view p) \<Longrightarrow> lease_safe cfg d (change_pipelines P f d)"
  by (rule lease_safe_frame) (simp_all add: views_update_where)

lemma checked_update_safe:
  "checked_update pid f d = Inr d' \<Longrightarrow> (\<And>p. lease_view (f p) = lease_view p) \<Longrightarrow> lease_safe cfg d d'"
  by (simp add: checked_update_Inr change_pipelines_safe)

lemma log_event_safe: "lease_safe cfg d (log_event e d)"
  by (rule lease_safe_frame) simp_all

subsection \<open>Giving the room back\<close>

lemma release_stage2_lock_eq:
  "groups (snd (release_stage2_lock ts row d)) =
     (if truthy (p_room_lock_token row)
      then update_where (\<lambda>g. g_id g = p_group_id row \<and> g_lock_token g = p_room_lock_token row
             \<and> g_active_intervention_run_id g = Some (- p_id row)) opened (groups d)
      else groups d)"
  "map lease_view (pipelines (snd (release_stage2_lock ts row d))) = map lease_view (pipelines d)"
  by (auto simp: release_stage2_lock_def Let_def opened_def [abs_def] OPEN_STATE_def views_update_where)

lemma release_stage2_lock_safe: "lease_safe cfg d (snd (release_stage2_lock ts row d))"
  unfolding lease_safe_def
proof (intro impI conjI)
  assume inv: "lease_inv cfg d"
  show ev: "rooms_evolve (groups d) (groups (snd (release_stage2_lock ts row d)))"
    using release_pipeline_lock_evolves [of d ts row] inv
    by (simp add: release_stage2_lock_eq(1) release_pipeline_lock_eq(1) lease_inv_def split: if_splits)
  show "lease_inv cfg (snd (release_stage2_lock ts row d))"
  proof (cases "truthy (p_room_lock_token row)")
    case True
    have gs: "groups (snd (release_stage2_lock ts row d)) =
      update_where (\<lambda>g. g_id g = p_group_id row \<and> g_lock_token g = p_room_lock_token row
        \<and> g_active_intervention_run_id g = Some (- p_id row)) opened (groups d)"
      using True by (simp add: release_stage2_lock_eq(1))
    show ?thesis
      by (rule lease_inv_change [OF inv ev [unfolded gs] gs release_stage2_lock_eq(2)]) (rule within_cap_opened)
  next
    case False
    then show ?thesis using inv by (simp add: release_stage2_lock_def)
  qed
qed

lemma release_if_safe: "lease_safe cfg d (snd (release_if yes ts p d))"
  by (simp add: release_if_def release_stage2_lock_safe)

subsection \<open>The transactions\<close>

lemma sync_each_frame [simp]:
  "groups (sync_each now pid ids d) = groups d"
  "map lease_view (pipelines (sync_each now pid ids d)) = map lease_view (pipelines d)"
  by (induction ids arbitrary: d) (simp_all add: sync_each_def)

lemma sync_replaced_frame [simp]:
  "groups (sync_replaced now b pid d) = groups d"
  "map lease_view (pipelines (sync_replaced now b pid d)) = map lease_view (pipelines d)"
  by (simp_all add: sync_replaced_def Let_def)

lemma supersede_preliminary_marks:
  assumes "supersede_preliminary_runs_for_batch_row now p a e d = Inr (ids, d')"
  obtains mk rows where "d' = snd (mark_each mk now rows d)" "p_id p \<notin> p_id ` set rows"
proof -
  let ?rows = "sort_key p_id (filter (preliminary_sibling d p a e (p_assessment_batch_id p)) (pipelines d))"
  from assms have "\<exists>mk. mark_each mk now ?rows d = (ids, d')"
    by (auto simp: supersede_preliminary_runs_for_batch_row_def finalize_preliminary_runs_for_batch_row_def Let_def
        split: if_splits)
  then obtain mk where "d' = snd (mark_each mk now ?rows d)" by (auto simp: eq_snd_iff)
  moreover have "p_id p \<notin> p_id ` set ?rows" by (auto simp: preliminary_sibling_def)
  ultimately show thesis by (rule that)
qed

lemma supersede_preliminary_safe:
  assumes "supersede_preliminary_runs_for_batch_row now p a e d = Inr (ids, d')"
  shows "lease_safe cfg d d'"
  using supersede_preliminary_marks [OF assms] lease_safe_marks by metis

lemma close_preliminary_safe:
  assumes "close_preliminary now b a p d = Inr (ids, d')"
  shows "lease_safe cfg d d'"
proof -
  from assms obtain d1 where "supersede_preliminary_runs_for_batch_row now p a (b_candidate_end_sequence b) d = Inr (ids, d1)"
    and d': "d' = sync_replaced now b (p_id p) (sync_each now (p_id p) ids d1)"
    by (auto simp: close_preliminary_def andthen_Inr_iff)
  then have "lease_safe cfg d d1" by (blast intro: supersede_preliminary_safe)
  also have "lease_safe cfg \<dots> d'" unfolding d' by (rule lease_safe_frame) simp_all
  finally show ?thesis .
qed

lemma link_segments_frame:
  "link_segments env ts p active intervene rs d = Inr d' \<Longrightarrow> groups d' = groups d \<and> pipelines d' = pipelines d"
  by (induction rs arbitrary: d) (fastforce simp: andthen_Inr_iff)+

lemma request_replacement_if_frame:
  "groups (request_replacement_if now stale pid latest d) = groups d"
  "map lease_view (pipelines (request_replacement_if now stale pid latest d)) = map lease_view (pipelines d)"
  by (auto simp: request_replacement_if_def record_replacement_request_def Let_def views_update_where lease_view_def
      split: option.splits)

lemma prepare_safe:
  assumes run: "prepare_for_batch now mode b d = Inr (r, d')"
    and fresh: "fresh_runs d"
  shows "lease_safe cfg d d'"
proof -
  from run obtain p d1 where "get_or_create_pipeline_row now (Some mode) b d = Inr (p, d1)"
    and d': "d' = change_pipelines (\<lambda>q. p_id q = p_id p) (prepared_row (fmt_ms now) mode b) d1"
    by (auto simp: prepare_for_batch_def andthen_Inr_iff Let_def split: if_splits)
  then have "lease_safe cfg d d1" using fresh by (blast intro: get_or_create_safe)
  also have "lease_safe cfg d1 d'" unfolding d' by (rule change_pipelines_safe) simp
  finally show ?thesis .
qed

lemma mark_failed_safe:
  assumes run: "mark_failed now mode b code detail meta started d = Inr (r, d')"
    and fresh: "fresh_runs d"
  shows "lease_safe cfg d d'"
proof -
  let ?ts = "fmt_ms now"
  from run obtain p d1 d2 where 1: "get_or_create_pipeline_row now mode b d = Inr (p, d1)"
    and 2: "checked_update (p_id p) (failed_run ?ts b code detail meta started) d1 = Inr d2"
    and d': "d' = snd (release_stage2_lock ?ts p d2)
      \<or> (\<exists>e. d' = log_event e (snd (release_stage2_lock ?ts p d2)))"
    by (auto simp: mark_failed_def andthen_Inr_iff Let_def split_beta split: if_splits)
  have "lease_safe cfg d d1" using 1 fresh by (rule get_or_create_safe)
  also have "lease_safe cfg d1 d2" using 2 by (rule checked_update_safe) simp
  also have "lease_safe cfg d2 (snd (release_stage2_lock ?ts p d2))" by (rule release_stage2_lock_safe)
  also have "lease_safe cfg \<dots> d'" using d' log_event_safe by auto
  finally show ?thesis .
qed

lemma mark_started_safe: "lease_safe cfg d (snd (mark_started now b pid d))"
  by (rule lease_safe_frame) (simp_all add: mark_started_def views_update_where)

lemma mark_waiting_safe: "lease_safe cfg d (snd (mark_waiting_for_lock now b pid reason d))"
  by (simp add: mark_waiting_for_lock_def change_pipelines_safe)

text \<open>A success in its four parts: the row, the segments, the other runs, the room.\<close>

lemma persist_success_Inr:
  assumes "persist_success env now mode b payload meta saved replay d = Inr (r, d')"
  shows "r = None \<and> d' = d \<or> (\<exists>answer rd p d1 facts d2 d3 ids d4 d5 e out.
      payload = JObj answer \<and> is_stage2_result payload \<and> read_answer env now d b answer saved = Inr rd
      \<and> get_or_create_pipeline_row now mode b d = Inr (p, d1)
      \<and> decided_facts env (fmt_ms now) b answer meta rd (decide replay rd) = Inr facts
      \<and> checked_update (p_id p) (decided_run (fmt_ms now) b rd (decide replay rd) facts) d1 = Inr d2
      \<and> link_segments env (fmt_sec now) p (rd_active_segment rd) (dc_should_intervene (decide replay rd)) saved d2 = Inr d3
      \<and> close_preliminary now b (if b_candidate_start_sequence b = 0 then b_candidate_end_sequence b
            else b_candidate_start_sequence b) p d3 = Inr (ids, d4)
      \<and> d5 = request_replacement_if now (rd_stale rd) (p_id p) (rd_latest rd) d4
      \<and> d' = log_event e (snd (release_if (\<not> dc_enter_stage3 (decide replay rd)) (fmt_ms now) p d5))
      \<and> r = Some out \<and> so_pipeline_run_id out = p_id p \<and> so_final_status out = dc_final_status (decide replay rd)
      \<and> so_enter_stage3 out = dc_enter_stage3 (decide replay rd)
      \<and> so_should_intervene out = dc_should_intervene (decide replay rd)
      \<and> so_skip_reason out = dc_skip_reason (decide replay rd)
      \<and> so_stale out = rd_stale rd \<and> so_latest_student out = rd_latest rd \<and> so_superseded out = ids)"
proof (cases payload)
  case (JObj answer)
  show ?thesis
  proof (cases "is_stage2_result payload")
    case True
    with assms JObj show ?thesis
      by (simp add: persist_success_def andthen_Inr_iff Let_def split_beta) (elim exE conjE, force)
  next
    case False
    with assms JObj show ?thesis by (simp add: persist_success_def)
  qed
qed (use assms in \<open>simp_all add: persist_success_def\<close>)

lemma persist_success_safe:
  assumes run: "persist_success env now mode b payload meta saved replay d = Inr (r, d')"
    and fresh: "fresh_runs d"
  shows "lease_safe cfg d d'"
proof -
  from persist_success_Inr [OF run] show ?thesis
  proof (elim disjE exE conjE)
    fix answer rd p d1 facts d2 d3 ids d4 d5 e out
    let ?ts = "fmt_ms now" and ?dc = "decide replay rd"
    assume 1: "get_or_create_pipeline_row now mode b d = Inr (p, d1)"
      and 2: "checked_update (p_id p) (decided_run ?ts b rd ?dc facts) d1 = Inr d2"
      and 3: "link_segments env (fmt_sec now) p (rd_active_segment rd) (dc_should_intervene ?dc) saved d2 = Inr d3"
      and 4: "close_preliminary now b (if b_candidate_start_sequence b = 0 then b_candidate_end_sequence b
            else b_candidate_start_sequence b) p d3 = Inr (ids, d4)"
      and 5: "d5 = request_replacement_if now (rd_stale rd) (p_id p) (rd_latest rd) d4"
      and d': "d' = log_event e (snd (release_if (\<not> dc_enter_stage3 ?dc) ?ts p d5))"
    have "lease_safe cfg d d1" using 1 fresh by (rule get_or_create_safe)
    also have "lease_safe cfg d1 d2" using 2 by (rule checked_update_safe) simp
    also have "lease_safe cfg d2 d3" using link_segments_frame [OF 3] by (simp add: lease_safe_frame)
    also have "lease_safe cfg d3 d4" using 4 by (rule close_preliminary_safe)
    also have "lease_safe cfg d4 d5"
      unfolding 5 by (rule lease_safe_frame) (simp_all add: request_replacement_if_frame)
    also have "lease_safe cfg d5 (snd (release_if (\<not> dc_enter_stage3 ?dc) ?ts p d5))" by (rule release_if_safe)
    also have "lease_safe cfg \<dots> d'" unfolding d' by (rule log_event_safe)
    finally show ?thesis .
  qed simp
qed

lemma persist_state_only_Inr:
  assumes "persist_state_only_success now b payload meta saved d = Inr (r, d')"
  shows "r = None \<and> d' = d \<or> (\<exists>answer active p d1 facts d2 ids d3 e out.
      payload = JObj answer \<and> is_stage2_result payload
      \<and> dict_of (dget answer ''active_sub_state'') = Inr active
      \<and> get_or_create_pipeline_row now (Some ''state_only'') b d = Inr (p, d1)
      \<and> checked_update (p_id p) (observed_run (fmt_ms now) b
            (canonical_of (dget active ''canonical_sub_state'')) facts) d1 = Inr d2
      \<and> close_preliminary now b (b_candidate_start_sequence b) p
            (d2\<lparr>segments := update_where (\<lambda>s. sg_assessment_batch_id s = b_id b)
               (adopted_segment (fmt_ms now) (p_id p)) (segments d2)\<rparr>) = Inr (ids, d3)
      \<and> d' = log_event e (snd (release_stage2_lock (fmt_ms now) p d3))
      \<and> r = Some out \<and> so_pipeline_run_id out = p_id p \<and> so_final_status out = ''STATE_ONLY_COMPLETED''
      \<and> \<not> so_enter_stage3 out \<and> so_superseded out = ids)"
proof (cases payload)
  case (JObj answer)
  show ?thesis
  proof (cases "is_stage2_result payload")
    case True
    with assms JObj show ?thesis
      by (simp add: persist_state_only_success_def andthen_Inr_iff Let_def split_beta) (elim exE conjE, force)
  next
    case False
    with assms JObj show ?thesis by (simp add: persist_state_only_success_def)
  qed
qed (use assms in \<open>simp_all add: persist_state_only_success_def\<close>)

lemma persist_state_only_safe:
  assumes run: "persist_state_only_success now b payload meta saved d = Inr (r, d')"
    and fresh: "fresh_runs d"
  shows "lease_safe cfg d d'"
proof -
  from persist_state_only_Inr [OF run] show ?thesis
  proof (elim disjE exE conjE)
    fix answer active and p :: pipeline_row and d1 d2 d3 :: platform and facts ids e out
    let ?ts = "fmt_ms now"
    let ?d2 = "d2\<lparr>segments := update_where (\<lambda>s. sg_assessment_batch_id s = b_id b)
               (adopted_segment ?ts (p_id p)) (segments d2)\<rparr>"
    assume 1: "get_or_create_pipeline_row now (Some ''state_only'') b d = Inr (p, d1)"
      and 2: "checked_update (p_id p) (observed_run ?ts b
            (canonical_of (dget active ''canonical_sub_state'')) facts) d1 = Inr d2"
      and 4: "close_preliminary now b (b_candidate_start_sequence b) p ?d2 = Inr (ids, d3)"
      and d': "d' = log_event e (snd (release_stage2_lock ?ts p d3))"
    have "lease_safe cfg d d1" using 1 fresh by (rule get_or_create_safe)
    also have "lease_safe cfg d1 d2" using 2 by (rule checked_update_safe) simp
    also have "lease_safe cfg d2 ?d2" by (rule lease_safe_frame) simp_all
    also have "lease_safe cfg ?d2 d3" using 4 by (rule close_preliminary_safe)
    also have "lease_safe cfg d3 (snd (release_stage2_lock ?ts p d3))" by (rule release_stage2_lock_safe)
    also have "lease_safe cfg \<dots> d'" unfolding d' by (rule log_event_safe)
    finally show ?thesis .
  qed simp
qed

subsection \<open>The second stage as a system\<close>

text \<open>
  Every transaction of the second stage with its arguments.  The ids the table of runs hands
  out are not in use (AUTOINCREMENT).
\<close>

datatype stage2_request =
    Prepare datetime string batch_row
  | Start datetime batch_row int
  | Wait_For_Lock datetime batch_row int string
  | Fail datetime "string option" batch_row "string option" "string option" llm_meta bool
  | Persist stage2_env datetime "string option" batch_row json llm_meta "segment_row list" bool
  | Persist_State_Only datetime batch_row json llm_meta "segment_row list"

fun stage2_do :: "stage2_request \<Rightarrow> platform \<Rightarrow> platform" where
  "stage2_do (Prepare now mode b) d = committed d (prepare_for_batch now mode b d)"
| "stage2_do (Start now b pid) d = snd (mark_started now b pid d)"
| "stage2_do (Wait_For_Lock now b pid reason) d = snd (mark_waiting_for_lock now b pid reason d)"
| "stage2_do (Fail now mode b code detail meta started) d =
     committed d (mark_failed now mode b code detail meta started d)"
| "stage2_do (Persist env now mode b payload meta saved replay) d =
     committed d (persist_success env now mode b payload meta saved replay d)"
| "stage2_do (Persist_State_Only now b payload meta saved) d =
     committed d (persist_state_only_success now b payload meta saved d)"

definition stage2_ok :: "stage2_request \<Rightarrow> platform \<Rightarrow> bool" where
  "stage2_ok r d \<longleftrightarrow> fresh_runs d"

lemma stage2_do_safe: "stage2_ok r d \<Longrightarrow> lease_safe cfg d (stage2_do r d)"
  by (cases r)
    (auto simp: committed_def stage2_ok_def mark_started_safe mark_waiting_safe
      intro: prepare_safe mark_failed_safe persist_success_safe persist_state_only_safe split: sum.splits)

lemma stage2_inv:
  "stage2_ok r d \<Longrightarrow> lease_inv cfg d \<Longrightarrow>
   lease_inv cfg (stage2_do r d) \<and> rooms_evolve (groups d) (groups (stage2_do r d))"
  using stage2_do_safe [of r d cfg] by (simp add: lease_safe_def)

end
