(* ===== verification/Room_Services.thy ===== *)
theory Room_Services
  imports Stage2_Services
begin

text \<open>
  The three services that write rooms, side by side: coordination as a system of requests
  that keeps the lease invariant, and the interleaving of lease, coordination and
  second-stage requests over the same platform.
\<close>

datatype coordination_request =
    Supersede_Lower datetime int
  | Supersede_Preliminary datetime int int int
  | Finalize_Batch datetime int int int "int option" "string option" "string option" "string option"
  | Preempt_For_Help datetime int
  | Cancel_Session datetime int string
  | Record_Replacement datetime int string "int option" "int option"
  | Link_Replacement datetime int int "string option" "int option" "int option"

fun coordination_do :: "coordination_request \<Rightarrow> platform \<Rightarrow> platform" where
  "coordination_do (Supersede_Lower now pid) d = snd (supersede_lower_priority_runs_for_pipeline now pid d)"
| "coordination_do (Supersede_Preliminary now pid a b) d =
     committed d (supersede_preliminary_runs_for_batch now pid a b d)"
| "coordination_do (Finalize_Batch now pid a b batch outcome code detail) d =
     (case fetch_pipeline d pid of
        None \<Rightarrow> d
      | Some row \<Rightarrow>
          committed d (finalize_preliminary_runs_for_batch_row now row a b batch outcome code detail d))"
| "coordination_do (Preempt_For_Help now hid) d = snd (preempt_for_student_help now hid d)"
| "coordination_do (Cancel_Session now sid reason) d =
     snd (cancel_active_runs_for_session_end now sid reason d)"
| "coordination_do (Record_Replacement now pid reason trigger cutoff) d =
     snd (record_replacement_request now pid reason trigger cutoff d)"
| "coordination_do (Link_Replacement now i j reason trigger cutoff) d =
     snd (link_pipeline_replacement now i j reason trigger cutoff d)"

text \<open>A coordination request marks some rows, or writes columns no lease depends on.\<close>

lemma record_replacement_frame:
  "groups (snd (record_replacement_request now pid reason t c d)) = groups d"
  "map lease_view (pipelines (snd (record_replacement_request now pid reason t c d))) = map lease_view (pipelines d)"
  by (simp_all add: record_replacement_request_def Let_def table_simps lease_view_def split: option.splits)

lemma coordination_cases:
  "(\<exists>mk now rows. coordination_do r d = snd (mark_each mk now rows d))
   \<or> (groups (coordination_do r d) = groups d
      \<and> map lease_view (pipelines (coordination_do r d)) = map lease_view (pipelines d))"
  by (cases r)
    (auto simp: committed_def supersede_lower_priority_runs_for_pipeline_def
      supersede_lower_priority_runs_for_row_def Let_def supersede_preliminary_runs_for_batch_def
      supersede_preliminary_runs_for_batch_row_def finalize_preliminary_runs_for_batch_row_def
      preempt_for_student_help_def cancel_active_runs_for_session_end_def record_replacement_frame
      split: option.splits)

lemma coordination_inv:
  assumes inv: "lease_inv cfg d"
  shows "lease_inv cfg (coordination_do r d) \<and> rooms_evolve (groups d) (groups (coordination_do r d))"
  using coordination_cases [of r d]
proof (elim disjE exE conjE)
  fix mk now rows
  assume "coordination_do r d = snd (mark_each mk now rows d)"
  then show ?thesis using mark_each_inv [OF inv] by simp
next
  assume same: "groups (coordination_do r d) = groups d"
    "map lease_view (pipelines (coordination_do r d)) = map lease_view (pipelines d)"
  then show ?thesis using lease_inv_cong [OF same, of cfg] inv by simp
qed

interpretation upkeep: service_pair coordination_do "\<lambda>_ _. True" stage2_do stage2_ok
    "lease_inv cfg" room_version for cfg
  by unfold_locales (simp_all add: coordination_inv stage2_inv evolve_version)

interpretation services: service_pair "lease_do cfg" "lease_ok cfg"
    "case_sum coordination_do stage2_do" "case_sum (\<lambda>_ _. True) stage2_ok" "lease_inv cfg" room_version for cfg
  by unfold_locales

text \<open>A request to any of the services.\<close>

type_synonym service_request = "lease_request + coordination_request + stage2_request"

abbreviation services_do :: "lease_config \<Rightarrow> service_request \<Rightarrow> platform \<Rightarrow> platform" where
  "services_do cfg \<equiv> case_sum (lease_do cfg) (case_sum coordination_do stage2_do)"

abbreviation services_ok :: "lease_config \<Rightarrow> service_request \<Rightarrow> platform \<Rightarrow> bool" where
  "services_ok cfg \<equiv> case_sum (lease_ok cfg) (case_sum (\<lambda>_ _. True) stage2_ok)"

lemma services_step_evolves:
  "services_ok cfg r d \<Longrightarrow> lease_inv cfg d \<Longrightarrow> rooms_evolve (groups d) (groups (services_do cfg r d))"
  by (cases r) (auto simp: lease_do_evolves coordination_inv stage2_inv split: sum.splits)

lemma services_run_evolves:
  "admissible (services_do cfg) (services_ok cfg) rs d \<Longrightarrow> lease_inv cfg d \<Longrightarrow>
   rooms_evolve (groups d) (groups (fold (services_do cfg) rs d))"
proof (induction rs arbitrary: d)
  case Nil
  then show ?case by simp
next
  case (Cons r rs)
  then have inv: "lease_inv cfg (services_do cfg r d)"
    using services.both.step_inv [where cfg = cfg and e = r] by simp
  have "rooms_evolve (groups d) (groups (services_do cfg r d))"
    using Cons.prems by (intro services_step_evolves) simp_all
  with Cons inv show ?case by (auto intro: evolve_trans)
qed

end
