(* ===== verification/Samples.thy ===== *)
theory Samples
  imports Platform_State
begin

text \<open>
  Blank rows and a small platform: one room (7) in a running strategy session (1) with one
  running discussion (3).  The witnesses of the other theories evaluate the operations on
  variants of it.
\<close>

definition blank_group :: group_row where
  "blank_group = \<lparr>g_id = 7, g_state = ''OPEN'', g_version = 0, g_lock_token = None,
     g_lock_expires_at = None, g_active_intervention_run_id = None,
     g_auto_intervention_enabled = Some 1,
     g_last_message_sequence = None, g_last_intervention_at = None\<rparr>"

definition blank_session :: session_row where
  "blank_session = \<lparr>es_id = 1, es_status = Some ''running'', es_agent_mode = Some ''strategy'',
     es_strategy_agent_enabled = Some 1, es_emotion_agent_enabled = Some 0,
     es_research_state_monitoring_enabled = Some 1, es_session_no = Some 1, es_task_id = None, es_time_limit_minutes = None,
     es_end_time = None, es_updated_at = None\<rparr>"

definition blank_discussion :: discussion_row where
  "blank_discussion = \<lparr>d_id = 3, d_session_id = 1, d_group_id = 7, d_status = ''running'',
     d_started_at = None, d_created_at = None, d_expected_student_ids = [],
     d_ready_student_ids = [], d_expected_student_count = 0, d_ready_student_count = 0,
     d_deadline = None, d_submitted_at = None, d_auto_submitted_at = None, d_updated_at = None\<rparr>"

definition no_facts :: stage2_facts where
  "no_facts = \<lparr>sf_raw_sub_state_code = None, sf_sub_category = None, sf_secondary_tags = JList [],
     sf_confidence = None, sf_reason = None, sf_start_sequence = None, sf_end_sequence = None,
     sf_evidence_message_ids = [], sf_segments = [], sf_detected_self_regulation = None,
     sf_fresh_detected_self_regulation = None, sf_inhibition_reason = None,
     sf_suppression_type = None, sf_suppression_strategy_id = None,
     sf_suppression_evidence_message_ids = [], sf_suppression_source_batch_id = None,
     sf_suppression_source_segment_id = None, sf_suppression_decision_reason = None,
     sf_suppression_decision_at = None, sf_model_name = None, sf_model_version = None,
     sf_prompt_version = None, sf_raw_response = None, sf_strategy_candidate_ids = [],
     sf_strategy_pool = [], sf_strategy_source = None, sf_strategy_library_version = None,
     sf_strategy_library_hash = None\<rparr>"

definition blank_pipeline :: pipeline_row where
  "blank_pipeline = \<lparr>p_id = 11, p_group_id = 7, p_session_id = Some 1, p_discussion_id = Some 3,
     p_task_id = None, p_trigger_source = None, p_trigger_message_id = None,
     p_trigger_priority = None, p_input_start_sequence = Some 1,
     p_input_cutoff_student_sequence = Some 5, p_assessment_batch_id = None,
     p_assessment_owner_pipeline_run_id = None, p_coarse_state_code = None,
     p_coarse_should_escalate = None, p_canonical_sub_state_code = None,
     p_should_intervene = None, p_latest_state = None, p_latest_should_intervene = None,
     p_latest_state_pipeline_run_id = None, p_stage1_status = None, p_stage2_status = None,
     p_stage2_started_at = None, p_stage2_completed_at = None, p_stage3_status = None,
     p_publish_status = None, p_final_status = None, p_skip_reason = None,
     p_failure_code = None, p_failure_detail = None, p_room_lock_token = None,
     p_room_lock_acquired_at = None, p_room_lock_released_at = None, p_parent_run_id = None,
     p_superseded_by_run_id = None, p_replaced_by_pipeline_run_id = None,
     p_replacement_reason = None, p_replacement_trigger_message_id = None,
     p_replacement_cutoff_sequence = None, p_updated_at = None, p_session_no = Some 1,
     p_pipeline_mode = ''strategy'', p_input_end_sequence = Some 5, p_trigger_level_state = None,
     p_inhibition_strategy_id = None, p_selected_strategy_id = None,
     p_generated_intervention_text = None, p_validated_intervention_text = None,
     p_published_message_id = None, p_idempotency_key = None, p_facts = no_facts,
     p_published_at = None, p_observation = no_observation, p_created_at = None,
     p_stage3_started_at = None, p_stage3_completed_at = None, p_latest_sequence_at_publish = None\<rparr>"

definition blank_intervention :: intervention_row where
  "blank_intervention = \<lparr>ir_id = 21, ir_group_id = 7, ir_session_id = Some 1,
     ir_strategy_pipeline_run_id = None, ir_agent_type = None, ir_trigger_type = None,
     ir_status = None, ir_decision = None, ir_publish_status = None, ir_skip_reason = None,
     ir_failure_reason = None, ir_completed_at = None, ir_lock_acquired = None,
     ir_assessment_batch_id = None, ir_target_segment_id = None, ir_reason_code = None,
     ir_discussion_id = None, ir_session_no = None, ir_task_id = None, ir_cutoff_sequence = None,
     ir_strategy_id = None, ir_generated_message = None, ir_message_id = None, ir_lock_token = None,
     ir_started_at = None, ir_published_at = None\<rparr>"

definition blank_help :: help_row where
  "blank_help = \<lparr>hr_id = 31, hr_group_id = 7, hr_session_id = Some 1, hr_discussion_id = Some 3,
     hr_status = None, hr_handling_status = None, hr_failure_reason = None, hr_handled_at = None,
     hr_completed_at = None, hr_source_message_id = None, hr_help_request_message_sequence = None\<rparr>"

definition blank_message :: message_row where
  "blank_message = \<lparr>m_id = 100, m_group_id = 7, m_user_id = 50, m_session_id = Some 1,
     m_discussion_id = Some 3, m_sequence = Some 1, m_role = Some ''student'',
     m_sender_type = Some ''student'', m_session_no = Some 1, m_task_id = None,
     m_content = None, m_created_at = None,
     m_client_message_id = None, m_intervention_run_id = None, m_strategy_id = None, m_agent_type = None,
     m_trigger_source = None, m_linked_log_id = None\<rparr>"

definition no_replacement :: replacement where
  "no_replacement = \<lparr>rp_of_pipeline_run_id = None, rp_reason = None,
     rp_trigger_message_id = None, rp_cutoff_sequence = None\<rparr>"

definition no_continuation :: continuation where
  "no_continuation = \<lparr>ct_trigger_type = None, ct_trigger_sequence = None, ct_request_priority = 0,
     ct_candidate_start_sequence = None, ct_candidate_end_sequence = None,
     ct_replacement = no_replacement\<rparr>"

definition blank_batch :: batch_row where
  "blank_batch = \<lparr>b_id = 5, b_group_id = 7, b_session_id = 1, b_discussion_id = 3,
     b_session_no = Some 1, b_task_id = None, b_candidate_start_sequence = 1,
     b_candidate_end_sequence = 5, b_context_start_sequence = None, b_context_end_sequence = None,
     b_trigger_type = ''message_volume'', b_trigger_sequence = Some 5, b_window_key = ''k'',
     b_status = ''pending'', b_rerun_requested = False, b_request_priority = 0,
     b_last_trigger_sequence = Some 5, b_continuation = no_continuation,
     b_replacement = no_replacement, b_attempt_count = 0, b_max_attempts = 2,
     b_next_retry_at = None, b_enqueued_at = None, b_model = None, b_prompt_version = None,
     b_raw_response = None, b_parsed_response = None, b_error_code = None,
     b_error_detail = None, b_student_sequences = None, b_terminal_status = None,
     b_terminal_at = None, b_fallback_action = None, b_fallback_segment_count = 0,
     b_started_at = None, b_completed_at = None, b_created_at = Stamp 0 None,
     b_updated_at = None\<rparr>"

definition blank_cursor :: cursor_row where
  "blank_cursor = \<lparr>c_group_id = 7, c_session_id = 1, c_discussion_id = 3, c_session_no = Some 1,
     c_task_id = None, c_last_finalized_student_sequence = 0,
     c_last_scheduled_student_sequence = 0, c_last_assessment_requested_at = None,
     c_last_assessment_completed_at = None, c_last_scheduling_completed_at = None,
     c_last_intervention_sequence = None, c_observation_started_sequence = None,
     c_observation_status = ''inactive'', c_updated_at = Stamp 0 None\<rparr>"

definition sample :: platform where
  "sample = \<lparr>groups = [blank_group], sessions = [blank_session], discussions = [blank_discussion],
     tasks = [], controls = [], users = [], messages = [], pipelines = [], interventions = [],
     help_requests = [], batches = [], cursors = [], segments = [], rule_assessments = [],
     entries = [], members = [], documents = [], prepares = [], checkpoints = [], submissions = [],
     intervention_logs = [], current_session_setting = None, next_discussion_id = 4, next_submission_id = 1,
     next_batch_id = 1, next_segment_id = 1, next_pipeline_id = 100, next_message_id = 1000,
     next_intervention_id = 500, next_log_id = 1, latency_events = [], expiry_tasks = []\<rparr>"

lemma sample_parts [simp]:
  "groups sample = [blank_group]" "pipelines sample = []" "interventions sample = []"
  "help_requests sample = []" "batches sample = []" "cursors sample = []" "messages sample = []"
  by (simp_all add: sample_def)

lemmas blank_defs = no_observation_def no_facts_def blank_group_def blank_session_def blank_discussion_def blank_pipeline_def
  blank_intervention_def blank_help_def blank_message_def no_replacement_def no_continuation_def
  blank_batch_def blank_cursor_def   sample_def

end
