(* ===== verification/Lease_Properties.thy ===== *)
theory Lease_Properties
  imports Room_Services Samples
begin

text \<open>
  The properties of room leases, over single operations and over arbitrary admissible
  interleavings of lease, coordination and second-stage requests, each with a witness on the small platform of \<open>Samples\<close>.
\<close>

subsection \<open>Helper lemmas\<close>

lemma fetched_row:
  "ids_distinct d \<Longrightarrow> g \<in> set (groups d) \<Longrightarrow> fetch_group d (g_id g) = Some g"
  by (simp add: ids_distinct_def fetch_group_def fetch_by_unique)

lemma fetch_group_mem: "fetch_group d k = Some g \<Longrightarrow> g \<in> set (groups d) \<and> g_id g = k"
  by (auto simp: fetch_group_def dest: fetch_by_SomeD)

lemma no_room_hit:
  assumes "ids_distinct d" and "\<And>g. P g \<Longrightarrow> g_id g = gid"
    and "\<And>g. fetch_group d gid = Some g \<Longrightarrow> \<not> P g"
  shows "change_groups P f d = d" "rowcount P (groups d) = 0"
proof -
  have none: "\<not> P g" if "g \<in> set (groups d)" for g
    using that assms fetched_row by blast
  then show "change_groups P f d = d" by (simp add: change_groups_def update_where_none)
  from none show "rowcount P (groups d) = 0" by (simp add: rowcount_0_iff)
qed

lemma one_room_hit:
  assumes "rowcount P (groups d) \<noteq> 0" and "ids_distinct d" and "\<And>g. P g \<Longrightarrow> g_id g = gid"
  obtains g where "fetch_group d gid = Some g" "P g"
  using assms fetched_row by (metis neq0_conv rowcount_pos_iff)

lemma lease_inv_ids: "lease_inv cfg d \<Longrightarrow> ids_distinct d"
  and lease_inv_rooms: "lease_inv cfg d \<Longrightarrow> rooms_ok (groups d)"
  by (simp_all add: lease_inv_def)

lemma inv_room_ok: "lease_inv cfg d \<Longrightarrow> fetch_group d k = Some g \<Longrightarrow> room_ok g"
  using fetch_group_mem by (auto simp: lease_inv_def rooms_ok_def)

lemma sample_inv [simp]: "lease_inv cfg sample"
  by (simp add: lease_inv_def rooms_ok_def room_ok_def ids_distinct_def runs_positive_def capped_def blank_defs
      LOCK_STATE_def)

definition demo_cfg :: lease_config where
  "demo_cfg = mk_lease_config 120 60 20 600 False"

text \<open>A pipeline of a running batch that is ready to start its second stage.\<close>

definition ready_run :: pipeline_row where
  "ready_run = blank_pipeline\<lparr>p_coarse_should_escalate := Some 1,
     p_final_status := Some ''PENDING_STAGE2'', p_assessment_batch_id := Some 5\<rparr>"

definition ready :: platform where
  "ready = sample\<lparr>pipelines := [ready_run], batches := [blank_batch\<lparr>b_status := ''running''\<rparr>]\<rparr>"

lemma ready_inv [simp]: "lease_inv cfg ready"
  by (simp add: lease_inv_def rooms_ok_def room_ok_def ids_distinct_def runs_positive_def capped_def ready_def
      ready_run_def within_cap_def lease_view_def blank_defs LOCK_STATE_def)

subsection \<open>Every run refines the lease automaton\<close>

text \<open>
  Over any admissible interleaving of lease requests (acquisitions, claims, renewals,
  releases, expirations), coordination requests (superseding, preempting, cancelling,
  linking) and transactions of the second stage (preparing, starting, failing, recording
  an answer), every room moves along the lease automaton, by as many steps as its version
  rises: a lease is granted only to a free room, a lease keeps its token and owner while it
  is extended, it changes hands only between strategy runs, and it ends by a drop.
\<close>

theorem lease_runs_refine_automaton:
  assumes "lease_inv cfg d" and "admissible (services_do cfg) (services_ok cfg) rs d"
  shows "rooms_follow d (fold (services_do cfg) rs d)"
  by (rule evolving_rooms_follow [OF services_run_evolves [OF assms(2,1)]])

lemma lease_runs_refine_automaton_witness:
  "rooms_follow ready (fold (services_do demo_cfg)
       [Inl (Claim 0 0 ''t1'' 11 None), Inr (Inr (Start 1 blank_batch 11)),
        Inr (Inr (Fail 2 None blank_batch (Some ''timeout'') None no_meta True)),
        Inr (Inl (Cancel_Session 3 1 ''ended''))] ready)"
proof (rule lease_runs_refine_automaton)
  show "admissible (services_do demo_cfg) (services_ok demo_cfg)
      [Inl (Claim 0 0 ''t1'' 11 None), Inr (Inr (Start 1 blank_batch 11)),
       Inr (Inr (Fail 2 None blank_batch (Some ''timeout'') None no_meta True)),
       Inr (Inl (Cancel_Session 3 1 ''ended''))] ready"
    by code_simp
qed simp

text \<open>
  C11. After any admissible run the lease columns of every room agree (token, expiry and
  owner are all set while the room is locked and all NULL otherwise), and a lease held by a
  pipeline under its recorded token ends before the hard maximum counted from the
  acquisition recorded with the pipeline (up to the millisecond its stamp is rounded to).
\<close>

theorem lease_never_outlives_cap:
  assumes "lease_inv cfg d" and "admissible (services_do cfg) (services_ok cfg) rs d"
    and "d' = fold (services_do cfg) rs d" and "g \<in> set (groups d')" and "p \<in> set (pipelines d')"
  shows "room_ok g \<and>
    (g_id g = p_group_id p \<and> g_active_intervention_run_id g = Some (- p_id p)
      \<and> g_lock_token g = Some token \<and> p_room_lock_token p = Some token
      \<longrightarrow> (\<exists>a e. p_room_lock_acquired_at p = Some a \<and> g_lock_expires_at g = Some e
            \<and> stamp_dt e < stamp_dt a + seconds (cf_max_total_seconds cfg) + 1000))"
proof -
  have inv: "lease_inv cfg d'" using services.both.run_inv [OF assms(2,1)] assms(3) by simp
  then have "room_ok g" using assms(4) by (simp add: lease_inv_def rooms_ok_def)
  moreover have "within_cap (cf_max_total_seconds cfg) g (lease_view p)"
    using inv assms(4,5) by (auto simp: lease_inv_def capped_def)
  ultimately show ?thesis by (simp add: within_cap_def lease_view_def)
qed

text \<open>The first room is leased under the token of the witness to the first run, until second 90.\<close>

definition sole_lease :: "platform \<Rightarrow> bool" where
  "sole_lease d \<longleftrightarrow> (case (groups d, pipelines d) of
       (g # _, p # _) \<Rightarrow> g_id g = p_group_id p \<and> g_active_intervention_run_id g = Some (- p_id p)
         \<and> g_lock_token g = Some ''t1'' \<and> p_room_lock_token p = Some ''t1'' \<and> g_lock_expires_at g = Some (Stamp 90 None)
     | _ \<Rightarrow> False)"

lemma lease_never_outlives_cap_witness:
  "let d' = fold (services_do demo_cfg) [Inl (Claim 0 0 ''t1'' 11 None), Inl (Renew 30000000 11 ''t1'' None None)] ready;
       g = hd (groups d'); p = hd (pipelines d')
   in p_room_lock_token p = Some ''t1'' \<and> g_lock_expires_at g = Some (Stamp 90 None)
      \<and> (\<exists>a e. p_room_lock_acquired_at p = Some a \<and> g_lock_expires_at g = Some e
            \<and> stamp_dt e < stamp_dt a + seconds 600 + 1000)"
proof -
  let ?rs = "[Inl (Claim 0 0 ''t1'' 11 None), Inl (Renew 30000000 11 ''t1'' None None)]"
  let ?d' = "fold (services_do demo_cfg) ?rs ready"
  have adm: "admissible (services_do demo_cfg) (services_ok demo_cfg) ?rs ready" by code_simp
  have "sole_lease ?d'" by code_simp
  then obtain g p where heads: "g \<in> set (groups ?d')" "p \<in> set (pipelines ?d')" "hd (groups ?d') = g" "hd (pipelines ?d') = p"
    and facts: "g_id g = p_group_id p \<and> g_active_intervention_run_id g = Some (- p_id p)
      \<and> g_lock_token g = Some ''t1'' \<and> p_room_lock_token p = Some ''t1''" "g_lock_expires_at g = Some (Stamp 90 None)"
    unfolding sole_lease_def by (cases "groups ?d'"; cases "pipelines ?d'") auto
  have "cf_max_total_seconds demo_cfg = 600" by code_simp
  with lease_never_outlives_cap [OF ready_inv adm refl heads(1,2), where token = "''t1''"] facts
  show ?thesis by (simp only: Let_def heads(3,4))
qed

subsection \<open>Optimistic locking\<close>

text \<open>
  C21. Of all writers that read the same version of a room, at most one acquires it: after
  one conditional UPDATE has won, and whatever requests run afterwards, a second
  writer still carrying that version fails and changes nothing.
\<close>

theorem optimistic_acquire_once:
  assumes "lease_inv cfg d" and "token \<noteq> []"
    and "\<And>p. p \<in> set (pipelines d) \<Longrightarrow> p_room_lock_token p \<noteq> Some token"
    and won: "acquire_cas now token gid run ls v d = (Some t, d1)"
    and "admissible (services_do cfg) (services_ok cfg) rs d1" and "d2 = fold (services_do cfg) rs d1"
  shows "acquire_cas now' token' gid run' ls' v d2 = (None, d2)"
proof -
  have inv1: "lease_inv cfg d1"
    using acquire_cas_inv [OF assms(1,2), of now gid run ls v] assms(3) won by simp
  let ?hit = "\<lambda>g. g_id g = gid \<and> g_state g = OPEN_STATE \<and> g_version g = v"
  from won have "rowcount ?hit (groups d) \<noteq> 0"
    by (auto simp: acquire_cas_def Let_def split: if_splits)
  then obtain g where g: "fetch_group d gid = Some g" "g_version g = v" "?hit g"
    using lease_inv_ids [OF assms(1)] by (rule one_room_hit) auto
  have "groups d1 = update_where ?hit (locked_by token (fmt_sec (now + seconds ls)) run) (groups d)"
    using acquire_cas_groups [of now token gid run ls v d] won by simp
  with g have "room_version d1 gid = v + 1"
    by (simp add: room_version_def fetch_group_def fetch_by_update_where locked_by_def)
  moreover have "room_version d1 gid \<le> room_version d2 gid"
    unfolding assms(6) using assms(5) inv1 by (rule services.both.run_mono)
  ultimately have later: "g_version h \<noteq> v" if "fetch_group d2 gid = Some h" for h
    using that by (simp add: room_version_def)
  have "ids_distinct d2"
    using services.both.run_inv [OF assms(5) inv1] assms(6) by (simp add: lease_inv_ids)
  then have "change_groups ?hit f d2 = d2" "rowcount ?hit (groups d2) = 0" for f
    by (rule no_room_hit [where gid = gid]; simp add: later)+
  then show ?thesis by (simp add: acquire_cas_def Let_def)
qed

lemma optimistic_acquire_once_witness:
  "acquire_cas 1 ''t2'' 7 22 60 0 (snd (acquire_cas 0 ''t1'' 7 21 60 0 sample))
     = (None, snd (acquire_cas 0 ''t1'' 7 21 60 0 sample))"
proof (rule optimistic_acquire_once [where cfg = demo_cfg and d = sample and rs = "[]"
      and now = 0 and token = "''t1''" and run = 21 and ls = 60 and t = "''t1''"])
  show "acquire_cas 0 ''t1'' 7 21 60 0 sample
      = (Some ''t1'', snd (acquire_cas 0 ''t1'' 7 21 60 0 sample))"
    by code_simp
qed simp_all

subsection \<open>Fencing\<close>

lemma fenced_renewal:
  assumes inv: "lease_inv cfg d" and p: "fetch_pipeline d pid = Some p"
    and fenced: "\<not> verify_lock (p_group_id p) token d"
  shows "\<exists>reason. renew_strategy_pipeline cfg' now pid token ls ms d = (rejected pid reason, d)"
  using renew_cases [of cfg' now pid token ls ms d]
proof (elim disjE exE conjE)
  fix q g
  assume "renew_check now (or_default ms (cf_max_total_seconds cfg')) pid token d = Inr (q, g)"
    and one: "rowcount (owned_lease (p_group_id q) token (- pid) (g_lock_expires_at g)) (groups d) = 1"
  then have "q = p" using p renew_check_Inr(1) by fastforce
  moreover from one have "rowcount (owned_lease (p_group_id q) token (- pid) (g_lock_expires_at g)) (groups d) \<noteq> 0"
    by simp
  then obtain h where "fetch_group d (p_group_id q) = Some h"
      "owned_lease (p_group_id q) token (- pid) (g_lock_expires_at g) h"
    using lease_inv_ids [OF inv] by (rule one_room_hit) (simp add: owned_lease_def)
  ultimately have "verify_lock (p_group_id p) token d"
    by (simp add: verify_lock_def owned_lease_def)
  with fenced show ?thesis by simp
qed auto

text \<open>
  C24. A token that is not the one the room is locked with is fenced off: releasing with it,
  the expiry task carrying it and a renewal with it by any pipeline of the room are refused
  and leave the whole state as it was.
\<close>

theorem stale_token_is_fenced:
  assumes inv: "lease_inv cfg d" and fenced: "\<not> verify_lock gid token d"
  shows "release now gid token d = (False, d) \<and> release_expired now gid token d = (False, d)
    \<and> (\<forall>pid p. fetch_pipeline d pid = Some p \<and> p_group_id p = gid \<longrightarrow>
         (\<exists>reason. renew_strategy_pipeline cfg' now pid token ls ms d = (rejected pid reason, d)))"
proof (intro conjI allI impI)
  let ?hit = "\<lambda>g. g_id g = gid \<and> g_state g = LOCK_STATE \<and> g_lock_token g = Some token"
  have "\<not> ?hit g" if "fetch_group d gid = Some g" for g
    using that fenced by (simp add: verify_lock_def)
  then have "change_groups ?hit opened d = d" "rowcount ?hit (groups d) = 0"
    by (intro no_room_hit [OF lease_inv_ids [OF inv], where gid = gid]; blast)+
  then show "release now gid token d = (False, d)"
    by (simp add: release_def Let_def split: option.splits)
next
  show "release_expired now gid token d = (False, d)"
    using expire_locked_room_cases [of now gid "Some token" d] fenced
    by (auto simp: release_expired_def verify_lock_def)
next
  fix pid p
  assume "fetch_pipeline d pid = Some p \<and> p_group_id p = gid"
  with fenced_renewal [OF inv] fenced show
    "\<exists>reason. renew_strategy_pipeline cfg' now pid token ls ms d = (rejected pid reason, d)"
    by blast
qed

lemma stale_token_is_fenced_witness:
  "release 0 7 ''old'' (snd (claim_strategy_pipeline demo_cfg 0 0 ''t1'' 11 None ready))
     = (False, snd (claim_strategy_pipeline demo_cfg 0 0 ''t1'' 11 None ready))"
proof -
  have "lease_inv demo_cfg (snd (claim_strategy_pipeline demo_cfg 0 0 ''t1'' 11 None ready))"
    by (rule claim_inv) (simp, simp, code_simp)
  moreover have "\<not> verify_lock 7 ''old'' (snd (claim_strategy_pipeline demo_cfg 0 0 ''t1'' 11 None ready))"
    by code_simp
  ultimately show ?thesis
    using stale_token_is_fenced [where cfg = demo_cfg and gid = 7 and token = "''old''" and now = 0] by blast
qed

text \<open>
  C35. A heartbeat whose token has been fenced off never touches the state again, whatever
  ticks follow; pulses that raise keep it waiting, and its first completed pulse stops it.
\<close>

theorem heartbeat_stops_when_fenced:
  assumes inv: "lease_inv cfg d" and p: "fetch_pipeline d (hb_pipeline_run_id hb) = Some p"
    and fenced: "\<not> verify_lock (p_group_id p) (hb_lock_token hb) d"
  shows "snd (heartbeat_run cfg ticks hb d) = d
    \<and> (hb_stopped (fst (heartbeat_run cfg ticks hb d))
         \<longleftrightarrow> hb_stopped hb \<or> (\<exists>now. Some now \<in> set ticks))"
proof (induction ticks)
  case Nil
  then show ?case by simp
next
  case (Cons tick ticks)
  show ?case
  proof (cases tick)
    case None
    with Cons show ?thesis by simp
  next
    case (Some now)
    from fenced_renewal [OF inv p fenced] obtain reason where
      "renew_strategy_pipeline cfg now (hb_pipeline_run_id hb) (hb_lock_token hb) None None d
         = (rejected (hb_pipeline_run_id hb) reason, d)" by blast
    then show ?thesis using Some by (auto simp: pulse_def rejected_def)
  qed
qed

lemma heartbeat_stops_when_fenced_witness:
  "let hb = \<lparr>hb_pipeline_run_id = 11, hb_lock_token = ''t1'', hb_last_result = None, hb_stopped = False\<rparr>
   in snd (heartbeat_run demo_cfg [None, Some 0, Some 5] hb ready) = ready
      \<and> hb_stopped (fst (heartbeat_run demo_cfg [None, Some 0, Some 5] hb ready))"
proof -
  let ?hb = "\<lparr>hb_pipeline_run_id = 11, hb_lock_token = ''t1'', hb_last_result = None, hb_stopped = False\<rparr>"
  have "fetch_pipeline ready (hb_pipeline_run_id ?hb) = Some ready_run"
    by (simp add: fetch_pipeline_def ready_def ready_run_def blank_defs)
  moreover have "\<not> verify_lock (p_group_id ready_run) (hb_lock_token ?hb) ready" by code_simp
  ultimately show ?thesis
    using heartbeat_stops_when_fenced [OF ready_inv, where hb = ?hb and ticks = "[None, Some 0, Some 5]"]
    by (simp only: Let_def) auto
qed

subsection \<open>Expiry and recovery\<close>

lemma one_room_rowcount:
  assumes "ids_distinct d" and "fetch_group d gid = Some g" and "P g" and "\<And>h. P h \<Longrightarrow> g_id h = gid"
  shows "rowcount P (groups d) = 1"
proof -
  have "rowcount P (groups d) \<le> 1"
    using assms(1,4) by (intro rowcount_unique [of g_id _ _ gid]) (auto simp: ids_distinct_def)
  moreover have "0 < rowcount P (groups d)"
    using assms(2,3) fetch_group_mem by (auto simp: rowcount_pos_iff)
  ultimately show ?thesis by simp
qed

lemma expire_locked_room_expired:
  assumes "ids_distinct d" and "fetch_group d gid = Some g" and "g_state g = LOCK_STATE"
    and "g_lock_token g = Some token" and "token \<noteq> []" and "g_lock_expires_at g = Some e"
    and "e \<le> fmt_sec now" and "want = None \<or> want = Some token"
  shows "expire_locked_room now gid want d =
    (True, expire_events now token (g_active_intervention_run_id g)
       (terminalize_owner (fmt_sec now) token (g_active_intervention_run_id g)
         (change_groups (expired_lease gid token (fmt_sec now)) opened d)))"
proof -
  have "rowcount (expired_lease gid token (fmt_sec now)) (groups d) = 1"
    using assms fetch_group_mem [OF assms(2)]
    by (intro one_room_rowcount [where gid = gid]) (auto simp: expired_lease_def)
  then show ?thesis using assms by (auto simp: expire_locked_room_def Let_def not_less)
qed

lemma fetch_group_cong: "groups d' = groups d \<Longrightarrow> fetch_group d' k = fetch_group d k"
  by (simp add: fetch_group_def)

lemma recovered_room_open:
  assumes "ids_distinct d" and "fetch_group d gid = Some g" and "g_state g = LOCK_STATE"
    and "g_lock_token g = Some token" and "token \<noteq> []" and "g_lock_expires_at g = Some e"
    and "e \<le> fmt_sec now"
  shows "fetch_group (snd (recover_expired now gid d)) gid = Some (opened g)"
proof -
  let ?d = "change_groups (expired_lease gid token (fmt_sec now)) opened d"
  have "groups (snd (recover_expired now gid d)) = groups ?d"
    using expire_locked_room_expired [OF assms, of None] by (simp add: recover_expired_def)
  then have "fetch_group (snd (recover_expired now gid d)) gid = fetch_group ?d gid"
    by (rule fetch_group_cong)
  also have "\<dots> = Some (opened g)"
    using assms fetch_group_mem [OF assms(2)]
    by (intro rooms.fetch_change_hit) (auto simp: expired_lease_def)
  finally show ?thesis .
qed

text \<open>
  An expired lease never blocks a room: whoever owned it, an acquisition whose clock
  has passed the expiry succeeds, and the room is then locked with the new token, for the
  new owner, until the requested time.
\<close>

theorem expired_lease_can_be_acquired:
  assumes inv: "lease_inv cfg d" and g: "fetch_group d gid = Some g" "g_state g = LOCK_STATE"
    and e: "g_lock_expires_at g = Some e" "e \<le> fmt_sec t"
  shows "fst (acquire cfg' t now fresh gid run (Some ls) d) = Some fresh
    \<and> (\<exists>g'. fetch_group (snd (acquire cfg' t now fresh gid run (Some ls) d)) gid = Some g'
         \<and> g_state g' = LOCK_STATE \<and> g_lock_token g' = Some fresh
         \<and> g_active_intervention_run_id g' = Some run
         \<and> g_lock_expires_at g' = Some (fmt_sec (now + seconds ls)))"
proof -
  from inv_room_ok [OF inv g(1)] g(2) obtain token where
    token: "g_lock_token g = Some token" "token \<noteq> []" by (rule room_ok_lockedE)
  let ?d1 = "snd (recover_expired t gid d)" and ?v = "g_version (opened g)"
  let ?hit = "\<lambda>h. g_id h = gid \<and> g_state h = OPEN_STATE \<and> g_version h = ?v"
  have open1: "fetch_group ?d1 gid = Some (opened g)"
    using recovered_room_open [OF lease_inv_ids [OF inv] g token e] .
  have "lease_inv cfg ?d1" using inv by (simp add: recover_expired_def expire_locked_room_inv)
  then have "rowcount ?hit (groups ?d1) = 1"
    using open1 fetch_group_mem [OF g(1)]
    by (intro one_room_rowcount [where gid = gid]) (auto simp: lease_inv_ids opened_def)
  moreover have "acquire_read gid ?d1 = Some ?v"
    by (simp add: acquire_read_def open1) (simp add: opened_def)
  moreover have "fetch_group (snd (acquire_cas now fresh gid run ls ?v ?d1)) gid
      = Some (locked_by fresh (fmt_sec (now + seconds ls)) run (opened g))"
    using open1 fetch_group_mem [OF g(1)]
    by (simp add: fetch_group_def acquire_cas_groups fetch_by_update_where) (simp add: opened_def)
  ultimately show ?thesis
    by (simp add: acquire_def Let_def acquire_cas_def locked_by_def)
qed

lemma expired_lease_can_be_acquired_witness:
  "fst (acquire demo_cfg 70000000 70000000 ''t2'' 7 21 (Some 60)
     (snd (acquire demo_cfg 0 0 ''t1'' 7 20 (Some 60) sample))) = Some ''t2''"
proof -
  let ?d = "snd (acquire demo_cfg 0 0 ''t1'' 7 20 (Some 60) sample)"
  have "lease_inv demo_cfg ?d" by (rule acquire_inv) simp_all
  moreover have "fetch_group ?d 7 = Some (hd (groups ?d))" "g_state (hd (groups ?d)) = LOCK_STATE"
    "g_lock_expires_at (hd (groups ?d)) = Some (Stamp 60 None)" "Stamp 60 None \<le> fmt_sec 70000000"
    by code_simp+
  ultimately show ?thesis using expired_lease_can_be_acquired by blast
qed

lemma run_expired_inactive: "\<not> run_active (run_expired ts r)"
proof -
  have "upper ''EXPIRED'' \<notin> set ACTIVE_RUN_STATUSES" by code_simp
  then show ?thesis by (simp add: run_active_def run_expired_def)
qed

lemma run_expired_ids [simp]: "ir_id (run_expired ts r) = ir_id r"
  "ir_strategy_pipeline_run_id (run_expired ts r) = ir_strategy_pipeline_run_id r"
  by (simp_all add: run_expired_def)

text \<open>
  Reclaiming the expired lease of a pipeline opens the room and terminalizes that
  pipeline and nothing else: it becomes FAILED with an expiry reason unless it already has
  one, a publication that had happened stays PUBLISHED, no intervention run of it stays
  active, and every other pipeline is untouched.
\<close>

theorem expiry_terminalizes_owner:
  assumes inv: "lease_inv cfg d" and g: "fetch_group d gid = Some g" "g_state g = LOCK_STATE"
    and token: "g_lock_token g = Some token"
    and e: "g_lock_expires_at g = Some e" "e \<le> fmt_sec now"
    and own: "g_active_intervention_run_id g = Some (- k)" "0 < k"
    and p: "fetch_pipeline d k = Some p" "p_room_lock_token p = Some token"
    and live: "upper (text_of (p_final_status p)) \<notin> set TERMINAL_PIPELINE_STATUSES"
    and d': "recover_expired now gid d = (b, d')"
  shows "b \<and> fetch_group d' gid = Some (opened g)
    \<and> (\<exists>p'. fetch_pipeline d' k = Some p' \<and> p_final_status p' = Some ''FAILED''
         \<and> p_publish_status p' \<in> {Some ''PUBLISHED'', Some ''FAILED''}
         \<and> (p_publish_status p' = Some ''PUBLISHED'' \<longleftrightarrow> p_publish_status p = Some ''PUBLISHED'')
         \<and> p_failure_code p' = coalesce (p_failure_code p) (Some ''ROOM_LEASE_EXPIRED'')
         \<and> p_room_lock_released_at p' = coalesce (p_room_lock_released_at p) (Some (fmt_sec now)))
    \<and> (\<forall>j. j \<noteq> k \<longrightarrow> fetch_pipeline d' j = fetch_pipeline d j)
    \<and> (\<forall>r\<in>set (interventions d'). ir_strategy_pipeline_run_id r = Some k \<longrightarrow> \<not> run_active r)"
proof -
  from inv_room_ok [OF inv g(1)] g(2) token have ne: "token \<noteq> []"
    by (auto elim: room_ok_lockedE)
  let ?ts = "fmt_sec now"
  let ?d1 = "change_groups (expired_lease gid token ?ts) opened d"
  let ?mine = "\<lambda>q. p_id q = k \<and> p_room_lock_token q = Some token"
  let ?jobs = "\<lambda>r. ir_strategy_pipeline_run_id r = Some k \<and> run_active r"
  let ?d2 = "change_interventions ?jobs (run_expired ?ts) (change_pipelines ?mine (pipeline_lease_failed ?ts) ?d1)"
  have uniq: "q = p" if "q \<in> set (pipelines d)" "p_id q = k" for q
    using that p(1) inv fetch_by_unique [of p_id "pipelines d" q]
    by (auto simp: lease_inv_def ids_distinct_def fetch_pipeline_def)
  have "find ?mine (pipelines d) = Some p"
  proof -
    have "find ?mine (pipelines d) = fetch_by p_id k (pipelines d)"
      unfolding fetch_by_def using uniq p(2) by (intro find_cong) auto
    with p(1) show ?thesis by (simp add: fetch_pipeline_def)
  qed
  then have "terminalize_owner ?ts token (Some (- k)) ?d1 = ?d2"
    using own(2) live by (simp add: terminalize_owner_def Let_def)
  with expire_locked_room_expired [OF lease_inv_ids [OF inv] g token ne e, of None] own d'
  have eq: "b" "d' = expire_events now token (Some (- k)) ?d2" by (auto simp: recover_expired_def)
  have "fetch_group d' gid = Some (opened g)"
    using recovered_room_open [OF lease_inv_ids [OF inv] g token ne e] d' by simp
  moreover have "fetch_pipeline d' k = Some (pipeline_lease_failed ?ts p)"
  proof -
    have "fetch_pipeline ?d2 k = Some (pipeline_lease_failed ?ts p)"
      using p runs.fetch_rid [OF p(1)] by (simp add: runs.fetch_change_hit)
    then show ?thesis by (simp add: eq(2) fetch_pipeline_def)
  qed
  moreover have "fetch_pipeline d' j = fetch_pipeline d j" if "j \<noteq> k" for j
  proof -
    have "fetch_pipeline (change_pipelines ?mine (pipeline_lease_failed ?ts) ?d1) j = fetch_pipeline ?d1 j"
      using that by (intro runs.fetch_change_other [where j = k]) auto
    then have "fetch_pipeline ?d2 j = fetch_pipeline d j" by simp
    then show ?thesis by (simp add: eq(2) fetch_pipeline_def)
  qed
  moreover have "\<not> run_active r" if "r \<in> set (interventions d')" "ir_strategy_pipeline_run_id r = Some k" for r
  proof -
    have "interventions d' = interventions ?d2"
      by (simp add: eq(2) expire_events_def split: option.splits)
    with that show ?thesis by (auto simp: set_update_where run_expired_inactive split: if_splits)
  qed
  ultimately show ?thesis using eq(1) by (auto simp: pipeline_lease_failed_def)
qed

definition lapsed :: platform where
  "lapsed = snd (claim_strategy_pipeline demo_cfg 0 0 ''t1'' 11 None ready)"

lemma lapsed_inv: "lease_inv demo_cfg lapsed"
  unfolding lapsed_def by (rule claim_inv) (simp, simp, code_simp)

lemma expiry_terminalizes_owner_witness:
  "\<exists>p'. fetch_pipeline (snd (recover_expired 60000000 7 lapsed)) 11 = Some p'
     \<and> p_final_status p' = Some ''FAILED'' \<and> p_failure_code p' = Some ''ROOM_LEASE_EXPIRED''"
proof -
  have 1: "fetch_group lapsed 7 = Some (hd (groups lapsed))" "g_state (hd (groups lapsed)) = LOCK_STATE"
    "g_lock_token (hd (groups lapsed)) = Some ''t1''"
    "g_lock_expires_at (hd (groups lapsed)) = Some (Stamp 60 None)" "Stamp 60 None \<le> fmt_sec 60000000"
    "g_active_intervention_run_id (hd (groups lapsed)) = Some (- 11)" "(0::int) < 11"
    "fetch_pipeline lapsed 11 = Some (hd (pipelines lapsed))"
    "p_room_lock_token (hd (pipelines lapsed)) = Some ''t1''"
    "upper (text_of (p_final_status (hd (pipelines lapsed)))) \<notin> set TERMINAL_PIPELINE_STATUSES"
    by code_simp+
  have 2: "p_failure_code (hd (pipelines lapsed)) = None" by code_simp
  from expiry_terminalizes_owner [OF lapsed_inv 1 prod.collapse [symmetric]] 2
  show ?thesis by auto
qed

subsection \<open>Claims\<close>

lemma rejected_not_acquired [simp]: "\<not> lr_acquired (rejected pid reason)"
  "\<not> lr_renewed (rejected pid reason)"
  by (simp_all add: rejected_def)

text \<open>What the state says about a lease that was handed to a pipeline.\<close>

definition holds_lease :: "int \<Rightarrow> lease_result \<Rightarrow> platform \<Rightarrow> bool" where
  "holds_lease pid r d \<longleftrightarrow>
     (\<exists>p g t. fetch_pipeline d pid = Some p \<and> fetch_group d (p_group_id p) = Some g
        \<and> g_state g = LOCK_STATE \<and> g_active_intervention_run_id g = Some (- pid)
        \<and> lr_lock_token r = Some t \<and> g_lock_token g = Some t \<and> p_room_lock_token p = Some t
        \<and> lr_lock_expires_at r \<noteq> None \<and> g_lock_expires_at g = lr_lock_expires_at r)"

lemma renewal_holds_lease:
  assumes "ids_distinct d"
    and "renew_strategy_pipeline cfg now pid token ls ms d = (r, d')" and "lr_acquired r"
  shows "holds_lease pid r d'"
  using renew_cases [of cfg now pid token ls ms d]
proof (elim disjE exE conjE)
  fix p and g :: group_row
  let ?own = "owned_lease (p_group_id p) token (- pid) (g_lock_expires_at g)"
    and ?e = "renewed_expiry cfg now ls ms p"
  assume "token \<noteq> []"
    and chk: "renew_check now (or_default ms (cf_max_total_seconds cfg)) pid token d = Inr (p, g)"
    and one: "rowcount ?own (groups d) = 1"
    and eq: "renew_strategy_pipeline cfg now pid token ls ms d = renew_commit cfg now token ?e p g d"
  note p = renew_check_Inr [OF chk]
  from one have "rowcount ?own (groups d) \<noteq> 0" by simp
  then obtain h where h: "fetch_group d (p_group_id p) = Some h" "?own h"
    using assms(1) by (rule one_room_hit) (simp add: owned_lease_def)
  have d': "groups d' = update_where ?own (extended ?e) (groups d)"
    "pipelines d' = update_where (\<lambda>q. p_id q = pid \<and> p_room_lock_token q = Some token)
       (\<lambda>q. q\<lparr>p_updated_at := Some (fmt_ms now)\<rparr>) (pipelines d)"
    using assms(2) eq p(2) renew_commit_simps(1,2) [of cfg now token ?e p g d] by simp_all
  have r: "lr_lock_token r = Some token" "lr_lock_expires_at r = Some ?e"
    using assms(2) eq renew_commit_simps(5,6) [of cfg now token ?e p g d] by simp_all
  from p(3) \<open>token \<noteq> []\<close> have tok: "p_room_lock_token p = Some token"
    by (cases "p_room_lock_token p") auto
  have "fetch_group d' (p_group_id p) = Some (extended ?e h)"
    using h by (simp add: fetch_group_def d' fetch_by_update_where)
  moreover have "fetch_pipeline d' pid = Some (p\<lparr>p_updated_at := Some (fmt_ms now)\<rparr>)"
    using p(1,2) tok by (simp add: fetch_pipeline_def d' fetch_by_update_where)
  ultimately show ?thesis using h(2) r tok
    by (simp add: holds_lease_def extended_def owned_lease_def)
qed (use assms in auto)

lemma fetch_pipeline_views:
  assumes "map lease_view (pipelines d') = map lease_view (pipelines d)"
    and "fetch_pipeline d pid = Some p"
  obtains q where "fetch_pipeline d' pid = Some q" "lease_view q = lease_view p"
proof -
  have "map_option lease_view (fetch_by p_id pid ps) = fetch_by fst pid (map lease_view ps)" for ps
    by (induction ps) (simp_all add: lease_view_def)
  from this [of "pipelines d'"] this [of "pipelines d"] assms
  have "map_option lease_view (fetch_pipeline d' pid) = Some (lease_view p)"
    by (simp add: fetch_pipeline_def)
  then show ?thesis by (cases "fetch_pipeline d' pid") (auto intro: that)
qed

lemma claim_commit_holds_lease:
  assumes ids: "ids_distinct d" and adm: "claim_admit pid d = Inr (p, g)"
    and room: "claim_room cfg now fresh lease p g d = Inr (gr, d1)"
  shows "holds_lease pid (fst (claim_commit cfg now p g gr d1)) (snd (claim_commit cfg now p g gr d1))"
proof -
  note p = claim_admit_Inr [OF adm]
  let ?rec = "lease_recorded (fmt_ms now) gr" and ?d2 = "claim_supersede now p (gr_transferred_from gr) d1"
  let ?d' = "snd (claim_commit cfg now p g gr d1)"
  obtain P f where gs: "groups d1 = update_where P f (groups d)"
    and hit: "\<exists>h\<in>set (groups d). P h" and P: "\<And>h. P h \<Longrightarrow> g_id h = p_group_id p"
    and f: "\<And>h. P h \<Longrightarrow> g_state (f h) = LOCK_STATE" "\<And>h. P h \<Longrightarrow> g_id (f h) = g_id h"
      "\<And>h. P h \<Longrightarrow> g_lock_token (f h) = Some (gr_token gr)"
      "\<And>h. P h \<Longrightarrow> g_lock_expires_at (f h) = Some (gr_expires gr)"
      "\<And>h. P h \<Longrightarrow> g_active_intervention_run_id (f h) = Some (- p_id p)"
    using room by (rule claim_room_writes) blast
  from hit obtain h where h: "h \<in> set (groups d)" "P h" by blast
  have ev: "map g_id (groups d1) = map g_id (groups d)"
    using P f(2) by (simp add: gs update_where_def)
  have mem: "f h \<in> set (groups d1)" using h by (force simp: gs set_update_where)
  have "fetch_by g_id (g_id (f h)) (groups d1) = Some (f h)"
    using ids mem by (intro fetch_by_unique) (simp_all add: ids_distinct_def ev)
  then have room': "fetch_group ?d' (p_group_id p) = Some (f h)"
    by (simp add: fetch_group_def claim_commit_simps f(2) P h(2))
  have "map lease_view (pipelines ?d2) = map lease_view (pipelines d)"
    by (simp add: claim_room_frame [OF room])
  then obtain q where q: "fetch_pipeline ?d2 pid = Some q" "lease_view q = lease_view p"
    using p(1) by (rule fetch_pipeline_views)
  have "fetch_pipeline ?d' pid = Some (?rec q)"
    using q(1) p(2) runs.fetch_rid [OF q(1)]
    by (simp add: fetch_pipeline_def claim_commit_simps fetch_by_update_where)
  with room' q(2) f(1,3-5) [OF h(2)] p(2) show ?thesis
    by (simp add: holds_lease_def lease_view_def recorded_acquired claim_commit_def Let_def)
qed

lemma claim_holds:
  assumes inv: "lease_inv cfg d" and claim: "claim_strategy_pipeline cfg now t fresh pid ls d = (r, d')"
    and acq: "lr_acquired r"
  shows "holds_lease pid r d'"
proof -
  let ?d1 = "claim_recover t pid d" and ?ls = "or_default ls (cf_initial_ttl_seconds cfg)"
  have ids: "ids_distinct ?d1"
    using inv claim_recover_inv lease_inv_ids by blast
  show ?thesis
  proof (cases "already_owned pid ?d1")
    case (Some token)
    then have "renew_strategy_pipeline cfg now pid token (Some ?ls) None ?d1 = (r, d')"
      using claim by (simp add: claim_strategy_pipeline_def Let_def)
    with ids show ?thesis using acq by (rule renewal_holds_lease)
  next
    case None
    then have tr: "claim_transaction cfg now fresh pid ?ls ?d1 = (r, d')"
      using claim by (simp add: claim_strategy_pipeline_def Let_def)
    show ?thesis
      using claim_transaction_cases [of cfg now fresh pid ?ls ?d1]
    proof (elim disjE exE conjE)
      fix reason
      assume "claim_transaction cfg now fresh pid ?ls ?d1 = claim_failed now pid reason ?d1"
      with tr acq claim_failed_simps(3) [of now pid reason ?d1] show ?thesis by simp
    next
      fix p g gr d1
      assume "claim_admit pid ?d1 = Inr (p, g)" "claim_room cfg now fresh ?ls p g ?d1 = Inr (gr, d1)"
        and "claim_transaction cfg now fresh pid ?ls ?d1 = claim_commit cfg now p g gr d1"
      with claim_commit_holds_lease [OF ids, of pid p g cfg now fresh ?ls gr d1] tr show ?thesis by simp
    qed
  qed
qed

text \<open>
  A claim that reports success has the lease: the room is locked under the returned
  token and owned by the pipeline, the pipeline row carries the same token, and the room
  expires when the result says.
\<close>

theorem successful_claim_holds_lease:
  assumes "lease_inv cfg d" and "claim_strategy_pipeline cfg now t fresh pid ls d = (r, d')"
    and "lr_acquired r"
  shows "\<exists>p g token. fetch_pipeline d' pid = Some p \<and> fetch_group d' (p_group_id p) = Some g
    \<and> g_state g = LOCK_STATE \<and> g_active_intervention_run_id g = Some (- pid)
    \<and> lr_lock_token r = Some token \<and> g_lock_token g = Some token \<and> p_room_lock_token p = Some token
    \<and> lr_lock_expires_at r \<noteq> None \<and> g_lock_expires_at g = lr_lock_expires_at r"
  using claim_holds [OF assms] by (simp add: holds_lease_def)

lemma successful_claim_holds_lease_witness:
  "let d' = snd (claim_strategy_pipeline demo_cfg 0 0 ''t1'' 11 None ready) in
   \<exists>p g token. fetch_pipeline d' 11 = Some p \<and> fetch_group d' (p_group_id p) = Some g
     \<and> g_lock_token g = Some token \<and> p_room_lock_token p = Some token"
proof -
  have "lr_acquired (fst (claim_strategy_pipeline demo_cfg 0 0 ''t1'' 11 None ready))" by code_simp
  from successful_claim_holds_lease [OF ready_inv prod.collapse [symmetric] this]
  show ?thesis unfolding Let_def by (elim exE conjE) (intro exI conjI)
qed

end
