(* ===== verification/Lease_Guarantees.thy ===== *)
theory Lease_Guarantees
  imports Lease_Properties
begin

text \<open>
  Properties of claims, renewals and expiry tasks: who may take a room from whom, in which
  session, what the task queue does with a lease nobody renews, and how often a heartbeat
  must beat.
\<close>

subsection \<open>Authoritative leases\<close>

lemma live_lease_not_recovered:
  assumes "fetch_group d gid = Some g" and "g_lock_expires_at g = Some e" and "fmt_sec t < e"
  shows "expire_locked_room t gid want d = (False, d)"
  using expire_locked_room_cases [of t gid want d] assms by auto

lemma claim_recover_live:
  assumes "fetch_pipeline d pid = Some p" and "fetch_group d (p_group_id p) = Some g"
    and "g_lock_expires_at g = Some e" and "fmt_sec t < e"
  shows "claim_recover t pid d = d"
  using assms live_lease_not_recovered [OF assms(2-4), of None]
  by (simp add: claim_recover_def recover_expired_def)

lemma upper_LOCK [simp]: "upper LOCK_STATE = LOCK_STATE" "upper OPEN_STATE = OPEN_STATE"
  unfolding LOCK_STATE_def OPEN_STATE_def by code_simp+

text \<open>The owner of a room does not let another pipeline take it.\<close>

definition keeps_room :: "platform \<Rightarrow> int \<Rightarrow> bool" where
  "keeps_room d own \<longleftrightarrow>
     (own < 0 \<longrightarrow>
       (case fetch_pipeline d (- own) of
          None \<Rightarrow> True
        | Some q \<Rightarrow> p_assessment_batch_id q \<noteq> None \<or> upper (text_of (p_stage2_status q)) = ''SUCCEEDED''))"

text \<open>
  C30. A live lease is not taken away from its owner by the claim of a pipeline with another
  owner number when the owner number is one of an intervention run (not negative), of a run
  of an assessment batch, of a run whose second stage succeeded, or of no run at all, as a help
  request's is while no run has its number: the claim is refused, and rooms and pipelines stay
  as they were.  What may be taken over is the lease of a run of the first stage alone.
\<close>

theorem authoritative_lease_not_preempted:
  assumes p: "fetch_pipeline d pid = Some p" and g: "fetch_group d (p_group_id p) = Some g"
    and locked: "g_state g = LOCK_STATE" and own: "g_active_intervention_run_id g = Some own"
    and live: "g_lock_expires_at g = Some e" "fmt_sec t < e"
    and other: "own \<noteq> - pid" and keeps: "keeps_room d own"
  shows "\<exists>reason. claim_strategy_pipeline cfg now t fresh pid ls d = claim_failed now pid reason d"
proof -
  let ?ls = "or_default ls (cf_initial_ttl_seconds cfg)"
  have rec: "claim_recover t pid d = d" using p g live by (rule claim_recover_live)
  have "already_owned pid d = None"
    using p g own other by (simp add: already_owned_def)
  then have eq: "claim_strategy_pipeline cfg now t fresh pid ls d = claim_transaction cfg now fresh pid ?ls d"
    by (simp add: claim_strategy_pipeline_def Let_def rec)
  show ?thesis
    using claim_transaction_cases [of cfg now fresh pid ?ls d]
  proof (elim disjE exE conjE)
    fix q h gr d1
    assume adm: "claim_admit pid d = Inr (q, h)"
      and room: "claim_room cfg now fresh ?ls q h d = Inr (gr, d1)"
    from claim_admit_Inr [OF adm] p g have same: "q = p" "h = g" "p_id p = pid" by auto
    from room have False
    proof (cases rule: claim_room_cases)
      case (transfer run)
      then show False using keeps own same
        by (auto simp: keeps_room_def can_transfer_stage1_pipeline_lease_def
            split: option.splits if_splits)
    qed (use same locked own other in auto)
    then show ?thesis ..
  qed (use eq in auto)
qed

definition rival :: pipeline_row where
  "rival = ready_run\<lparr>p_id := 12\<rparr>"

lemma authoritative_lease_not_preempted_witness:
  "let d = lapsed\<lparr>pipelines := pipelines lapsed @ [rival]\<rparr>
   in \<exists>reason. claim_strategy_pipeline demo_cfg 5000000 5000000 ''t2'' 12 None d
        = claim_failed 5000000 12 reason d"
proof -
  let ?d = "lapsed\<lparr>pipelines := pipelines lapsed @ [rival]\<rparr>"
  have 1: "fetch_pipeline ?d 12 = Some rival" "fetch_group ?d (p_group_id rival) = Some (hd (groups lapsed))"
    "g_state (hd (groups lapsed)) = LOCK_STATE"
    "g_active_intervention_run_id (hd (groups lapsed)) = Some (- 11)"
    "g_lock_expires_at (hd (groups lapsed)) = Some (Stamp 60 None)" "fmt_sec 5000000 < Stamp 60 None"
    "(- 11 :: int) \<noteq> - 12"
    by code_simp+
  have "keeps_room ?d (- 11)" by code_simp
  from authoritative_lease_not_preempted [OF 1 this] show ?thesis by (simp only: Let_def)
qed

subsection \<open>One owner number, two kinds of owner\<close>

text \<open>
  C38. A negative owner number stands for a strategy pipeline or for a help request, and the
  claim compares numbers only: when a help request whose id is the id of an admissible
  pipeline holds the room, that pipeline's claim reports the help request's lease as its
  own renewed lease, under the help request's token, although the pipeline row had never
  recorded that token.
\<close>

theorem claim_adopts_lease_of_same_number:
  assumes ids: "ids_distinct d" and adm: "claim_admit pid d = Inr (p, g)"
    and locked: "g_state g = LOCK_STATE" "g_lock_token g = Some token" "token \<noteq> []"
      "g_active_intervention_run_id g = Some (- pid)"
    and foreign: "p_room_lock_token p \<noteq> Some token" "p_room_lock_acquired_at p = None"
    and live: "g_lock_expires_at g = Some e" "fmt_sec t < e" "now < stamp_dt e"
    and cap: "1 \<le> cf_max_total_seconds cfg"
  shows "\<exists>r d'. claim_strategy_pipeline cfg now t fresh pid ls d = (r, d') \<and> lr_acquired r
    \<and> lr_renewed r \<and> lr_lock_token r = Some token \<and> holds_lease pid r d'"
proof -
  note p = claim_admit_Inr [OF adm]
  let ?ls = "or_default ls (cf_initial_ttl_seconds cfg)"
  let ?e = "fmt_sec (min (now + seconds ?ls) (max_deadline (cf_max_total_seconds cfg) now p))"
  let ?own = "owned_lease (p_group_id p) token (- p_id p) (Some e)"
  let ?gr = "\<lparr>gr_token = token, gr_expires = ?e, gr_renewed = True, gr_transferred_from = None\<rparr>"
  have rec: "claim_recover t pid d = d" using p(1,3) live(1,2) by (rule claim_recover_live)
  have "already_owned pid d = None"
    using p(1,3) foreign(1) locked(2) by (auto simp: already_owned_def)
  moreover have "rowcount ?own (groups d) = 1"
    using locked live(1) p(2,4)
    by (intro one_room_rowcount [OF ids p(3)]) (auto simp: owned_lease_def)
  moreover have "\<not> max_deadline (cf_max_total_seconds cfg) now p - now < 1000000"
    using cap foreign(2) by (simp add: max_deadline_def seconds_def)
  ultimately have room: "claim_room cfg now fresh ?ls p g d
      = Inr (?gr, change_groups ?own (extended ?e) d)"
    using locked live p(2) by (simp add: claim_room_def claim_extend_def Let_def lease_expired_def)
  let ?c = "claim_commit cfg now p g ?gr (change_groups ?own (extended ?e) d)"
  have eq: "claim_strategy_pipeline cfg now t fresh pid ls d = ?c"
    using \<open>already_owned pid d = None\<close> adm room
    by (simp add: claim_strategy_pipeline_def Let_def rec claim_transaction_def)
  have "lr_acquired (fst ?c)" "lr_renewed (fst ?c)" "lr_lock_token (fst ?c) = Some token"
    by (simp_all add: claim_commit_def Let_def)
  with claim_commit_holds_lease [OF ids adm room] eq show ?thesis by (metis prod.collapse)
qed

lemma claim_adopts_lease_of_same_number_witness:
  "let d = snd (acquire demo_cfg 0 0 ''help'' 7 (- 11) (Some 60) (ready\<lparr>help_requests := [blank_help\<lparr>hr_id := 11\<rparr>]\<rparr>))
   in \<exists>r d'. claim_strategy_pipeline demo_cfg 5000000 5000000 ''t1'' 11 None d = (r, d')
        \<and> lr_acquired r \<and> lr_renewed r \<and> lr_lock_token r = Some ''help'' \<and> holds_lease 11 r d'"
proof -
  let ?d = "snd (acquire demo_cfg 0 0 ''help'' 7 (- 11) (Some 60) (ready\<lparr>help_requests := [blank_help\<lparr>hr_id := 11\<rparr>]\<rparr>))"
  let ?g = "hd (groups ?d)"
  have 1: "ids_distinct ?d" "claim_admit 11 ?d = Inr (ready_run, ?g)"
    "g_state ?g = LOCK_STATE" "g_lock_token ?g = Some ''help''" "''help'' \<noteq> []"
    "g_active_intervention_run_id ?g = Some (- 11)" "p_room_lock_token ready_run \<noteq> Some ''help''"
    "p_room_lock_acquired_at ready_run = None" "g_lock_expires_at ?g = Some (Stamp 60 None)"
    "fmt_sec 5000000 < Stamp 60 None" "5000000 < stamp_dt (Stamp 60 None)"
    "1 \<le> cf_max_total_seconds demo_cfg"
    by code_simp+
  from claim_adopts_lease_of_same_number [OF 1] show ?thesis by (simp only: Let_def)
qed

subsection \<open>The session a lease may be granted in\<close>

text \<open>The columns that place a pipeline, which recovery leaves alone.\<close>

definition place :: "pipeline_row \<Rightarrow> int \<times> int \<times> int option \<times> int option" where
  "place p = (p_id p, p_group_id p, p_session_id p, p_discussion_id p)"

lemma update_place:
  "(\<And>p. place (f p) = place p) \<Longrightarrow>
   map_option place (fetch_by p_id k (update_where P f ps)) = map_option place (fetch_by p_id k ps)"
  by (induction ps) (auto simp: place_def)

lemma row_updates_place [simp]:
  "place (pipeline_lease_failed ts p) = place p" "place (pipeline_lease_released ts p) = place p"
  by (simp_all add: place_def pipeline_lease_failed_def pipeline_lease_released_def)

lemma claim_recover_place:
  "discussions (claim_recover t pid d) = discussions d \<and> sessions (claim_recover t pid d) = sessions d
   \<and> map_option place (fetch_pipeline (claim_recover t pid d) k) = map_option place (fetch_pipeline d k)"
proof -
  have "discussions (terminalize_owner ts token own d) = discussions d \<and>
      sessions (terminalize_owner ts token own d) = sessions d \<and>
      map_option place (fetch_pipeline (terminalize_owner ts token own d) k) = map_option place (fetch_pipeline d k)"
    for ts token own and d :: platform
    by (simp add: terminalize_owner_def Let_def fetch_pipeline_def update_place split: option.splits)
  then have "discussions (snd (expire_locked_room t gid None d)) = discussions d \<and>
      sessions (snd (expire_locked_room t gid None d)) = sessions d \<and>
      map_option place (fetch_pipeline (snd (expire_locked_room t gid None d)) k) = map_option place (fetch_pipeline d k)"
    for gid
    using expire_locked_room_cases [of t gid None d]
    by (auto simp: expire_events_def fetch_pipeline_def split: option.splits)
  then show ?thesis by (simp add: claim_recover_def recover_expired_def split: option.splits)
qed

lemma first_refusal_None: "first_refusal rs = None \<Longrightarrow> r \<in> set rs \<Longrightarrow> r = None"
  by (induction rs) (auto simp: first_refusal_def)

lemma claim_admit_scope:
  "claim_admit pid d = Inr (p, g) \<Longrightarrow> scope_refusal (scope_of_pipeline d p) = None"
  by (drule claim_admit_Inr(6))
    (auto simp: authoritative_pipeline_guard_def Let_def split: if_splits dest!: first_refusal_None)

lemma scope_passed:
  assumes "scope_refusal (scope_of_pipeline d p) = None"
  shows "\<exists>x es. x \<in> set (discussions d) \<and> p_discussion_id p = Some (d_id x)
    \<and> d_group_id x = p_group_id p \<and> p_session_id p = Some (d_session_id x)
    \<and> lower (d_status x) = ''running'' \<and> fetch_session d (d_session_id x) = Some es
    \<and> lower (text_of (es_status es)) = ''running'' \<and> es_agent_mode es = Some ''strategy''"
  using assms
  by (auto simp: scope_refusal_def scope_of_pipeline_def find_Some_iff in_set_conv_nth
      split: option.splits if_splits)

lemma claim_success_scope:
  assumes claim: "claim_strategy_pipeline cfg now t fresh pid ls d = (r, d')" and acq: "lr_acquired r"
  obtains p where "fetch_pipeline (claim_recover t pid d) pid = Some p"
    "scope_refusal (scope_of_pipeline (claim_recover t pid d) p) = None"
proof (cases "already_owned pid (claim_recover t pid d)")
  case (Some token)
  then have "renew_strategy_pipeline cfg now pid token (Some (or_default ls (cf_initial_ttl_seconds cfg)))
      None (claim_recover t pid d) = (r, d')"
    using claim by (simp add: claim_strategy_pipeline_def Let_def)
  with renew_cases [of cfg now pid token] acq that renew_check_Inr(1,9) show ?thesis
    by (metis fst_conv rejected_not_acquired(1))
next
  case None
  then have "claim_transaction cfg now fresh pid (or_default ls (cf_initial_ttl_seconds cfg))
      (claim_recover t pid d) = (r, d')"
    using claim by (simp add: claim_strategy_pipeline_def Let_def)
  with claim_transaction_cases [of cfg now fresh pid] acq that claim_admit_Inr(1) claim_admit_scope
  show ?thesis by (metis fst_conv claim_failed_simps(3))
qed

text \<open>
  A claim succeeds only while the discussion and the session of the pipeline are
  running and the session is in strategy mode.
\<close>

theorem claim_requires_running_strategy_session:
  assumes "claim_strategy_pipeline cfg now t fresh pid ls d = (r, d')" and "lr_acquired r"
  shows "\<exists>p x es. fetch_pipeline d pid = Some p \<and> x \<in> set (discussions d)
    \<and> p_discussion_id p = Some (d_id x) \<and> d_group_id x = p_group_id p
    \<and> p_session_id p = Some (d_session_id x) \<and> lower (d_status x) = ''running''
    \<and> fetch_session d (d_session_id x) = Some es \<and> lower (text_of (es_status es)) = ''running''
    \<and> es_agent_mode es = Some ''strategy''"
proof -
  let ?d1 = "claim_recover t pid d"
  from assms obtain q where q: "fetch_pipeline ?d1 pid = Some q"
      "scope_refusal (scope_of_pipeline ?d1 q) = None" by (rule claim_success_scope)
  have "map_option place (fetch_pipeline d pid) = Some (place q)"
    using claim_recover_place [of t pid d pid] q(1) by simp
  then obtain p where "fetch_pipeline d pid = Some p" "place p = place q" by auto
  with scope_passed [OF q(2)] claim_recover_place [of t pid d pid] show ?thesis
    by (auto simp: place_def fetch_session_def)
qed

lemma claim_requires_running_strategy_session_witness:
  "\<exists>p x es. fetch_pipeline ready 11 = Some p \<and> x \<in> set (discussions ready)
    \<and> p_discussion_id p = Some (d_id x) \<and> d_group_id x = p_group_id p
    \<and> p_session_id p = Some (d_session_id x) \<and> lower (d_status x) = ''running''
    \<and> fetch_session ready (d_session_id x) = Some es \<and> lower (text_of (es_status es)) = ''running''
    \<and> es_agent_mode es = Some ''strategy''"
proof -
  have "lr_acquired (fst (claim_strategy_pipeline demo_cfg 0 0 ''t1'' 11 None ready))" by code_simp
  with claim_requires_running_strategy_session [OF prod.collapse [symmetric]] show ?thesis by blast
qed

subsection \<open>The expiry task\<close>

lemma ceil_delay: "stamp_dt e \<le> now + seconds (expiry_delay_seconds e now)"
proof -
  let ?q = "(now - stamp_dt e) div 1000000"
  have "?q * 1000000 \<le> now - stamp_dt e" by linarith
  moreover have "- ?q \<le> expiry_delay_seconds e now"
    unfolding expiry_delay_seconds_def by (rule max.cobounded2)
  ultimately show ?thesis unfolding seconds_def by linarith
qed

text \<open>A lease handed out ends on a full second and has its expiry task in the queue.\<close>

definition expiry_queued :: "datetime \<Rightarrow> lease_result \<Rightarrow> int \<Rightarrow> platform \<Rightarrow> bool" where
  "expiry_queued now r gid d \<longleftrightarrow>
     (\<exists>e token. lr_lock_expires_at r = Some e \<and> stamp_ms e = None \<and> lr_lock_token r = Some token
        \<and> \<lparr>et_group_id = gid, et_lock_token = token, et_delay_seconds = expiry_delay_seconds e now\<rparr>
            \<in> set (expiry_tasks d))"

lemma fmt_sec_no_ms [simp]: "stamp_ms (fmt_sec t) = None"
  by (simp add: fmt_sec_def)

lemma renewal_queues_expiry:
  assumes "renew_strategy_pipeline cfg now pid token ls ms d = (r, d')" and "lr_acquired r"
    and "\<not> cf_huey_immediate cfg" and "fetch_pipeline d pid = Some p"
  shows "expiry_queued now r (p_group_id p) d'"
  using renew_cases [of cfg now pid token ls ms d]
proof (elim disjE exE conjE)
  fix q and g :: group_row
  assume "renew_check now (or_default ms (cf_max_total_seconds cfg)) pid token d = Inr (q, g)"
    and "renew_strategy_pipeline cfg now pid token ls ms d =
      renew_commit cfg now token (renewed_expiry cfg now ls ms q) q g d"
  moreover from this assms(4) have "q = p" by (auto dest: renew_check_Inr(1))
  ultimately show ?thesis using assms(1,3)
    by (auto simp: expiry_queued_def renew_commit_def Let_def schedule_strategy_pipeline_expiry_def
        schedule_expiry_def renewed_expiry_def)
qed (use assms in auto)

lemma claim_room_expiry:
  assumes "claim_room cfg now fresh lease p g d = Inr (gr, d1)"
  shows "stamp_ms (gr_expires gr) = None"
  using assms by (cases rule: claim_room_cases) simp_all

lemma claim_queues_expiry:
  assumes claim: "claim_strategy_pipeline cfg now t fresh pid ls d = (r, d')" and acq: "lr_acquired r"
    and "\<not> cf_huey_immediate cfg" and p: "fetch_pipeline d pid = Some p"
  shows "expiry_queued now r (p_group_id p) d'"
proof -
  let ?d1 = "claim_recover t pid d" and ?ls = "or_default ls (cf_initial_ttl_seconds cfg)"
  have "map_option place (fetch_pipeline ?d1 pid) = Some (place p)"
    using claim_recover_place [of t pid d pid] p by simp
  then obtain q where q: "fetch_pipeline ?d1 pid = Some q" "place q = place p" by auto
  then have gid: "p_group_id q = p_group_id p" by (simp add: place_def)
  show ?thesis
  proof (cases "already_owned pid ?d1")
    case (Some token)
    then have "renew_strategy_pipeline cfg now pid token (Some ?ls) None ?d1 = (r, d')"
      using claim by (simp add: claim_strategy_pipeline_def Let_def)
    from renewal_queues_expiry [OF this acq assms(3) q(1)] gid show ?thesis by simp
  next
    case None
    then have tr: "claim_transaction cfg now fresh pid ?ls ?d1 = (r, d')"
      using claim by (simp add: claim_strategy_pipeline_def Let_def)
    show ?thesis
      using claim_transaction_cases [of cfg now fresh pid ?ls ?d1]
    proof (elim disjE exE conjE)
      fix reason
      assume "claim_transaction cfg now fresh pid ?ls ?d1 = claim_failed now pid reason ?d1"
      with tr acq claim_failed_simps(3) [of now pid reason ?d1] show ?thesis by simp
    next
      fix p' and g :: group_row and gr d2
      assume adm: "claim_admit pid ?d1 = Inr (p', g)"
        and room: "claim_room cfg now fresh ?ls p' g ?d1 = Inr (gr, d2)"
        and eq: "claim_transaction cfg now fresh pid ?ls ?d1 = claim_commit cfg now p' g gr d2"
      have "p' = q" using claim_admit_Inr(1) [OF adm] q(1) by simp
      with tr eq gid assms(3) claim_room_expiry [OF room] show ?thesis
        by (auto simp: expiry_queued_def claim_commit_def Let_def schedule_strategy_pipeline_expiry_def
            schedule_expiry_def)
    qed
  qed
qed

lemma more_updates_place [simp]:
  "place (lease_recorded ts gr p) = place p" "place (superseded_by_transfer ts pid from p) = place p"
  "place (p\<lparr>p_updated_at := u\<rparr>) = place p"
  by (simp_all add: place_def lease_recorded_def superseded_by_transfer_def)

lemma renew_places:
  "map_option place (fetch_pipeline (snd (renew_strategy_pipeline cfg now pid token ls ms d)) k)
     = map_option place (fetch_pipeline d k)"
  using renew_cases [of cfg now pid token ls ms d]
  by (auto simp: fetch_pipeline_def renew_commit_simps update_place)

lemma claim_places:
  "map_option place (fetch_pipeline (snd (claim_strategy_pipeline cfg now t fresh pid ls d)) k)
     = map_option place (fetch_pipeline d k)"
proof -
  have com: "map_option place (fetch_pipeline (snd (claim_commit cfg now p g gr d1)) k)
      = map_option place (fetch_pipeline d1 k)" for p g gr d1
    by (simp add: fetch_pipeline_def claim_commit_simps claim_supersede_def update_place split: option.splits)
  have tra: "map_option place (fetch_pipeline (snd (claim_transaction cfg now fresh pid lease d)) k)
      = map_option place (fetch_pipeline d k)" for lease and d :: platform
    using claim_transaction_cases [of cfg now fresh pid lease d]
    by (auto simp: fetch_pipeline_def claim_room_frame com [unfolded fetch_pipeline_def])
  show ?thesis
    using claim_recover_place [of t pid d k]
    by (simp add: claim_strategy_pipeline_def Let_def renew_places tra split: option.splits)
qed

lemma claim_group_id:
  assumes "claim_strategy_pipeline cfg now t fresh pid ls d = (r, d')"
    and "fetch_pipeline d pid = Some p" and "fetch_pipeline d' pid = Some q"
  shows "p_group_id q = p_group_id p"
  using claim_places [of cfg now t fresh pid ls d pid] assms by (simp add: place_def)

text \<open>
  Every claimed lease is covered by a task in the queue that ends it: the task carries
  the room and the granted token, and if nothing renews the lease, running that task once
  its delay is over frees the room.
\<close>

theorem unrenewed_claim_is_freed_by_its_task:
  assumes inv: "lease_inv cfg d" and fresh: "fresh \<noteq> []"
    and ls: "or_default ls (cf_initial_ttl_seconds cfg) \<le> cf_max_total_seconds cfg"
    and claim: "claim_strategy_pipeline cfg now t fresh pid ls d = (r, d')" and acq: "lr_acquired r"
    and queue: "\<not> cf_huey_immediate cfg" and p: "fetch_pipeline d pid = Some p"
  shows "\<exists>task\<in>set (expiry_tasks d'). et_group_id task = p_group_id p
    \<and> lr_lock_token r = Some (et_lock_token task)
    \<and> (\<forall>later \<ge> now + seconds (et_delay_seconds task).
         fst (release_expired later (et_group_id task) (et_lock_token task) d')
         \<and> \<not> verify_lock (p_group_id p) (et_lock_token task)
              (snd (release_expired later (et_group_id task) (et_lock_token task) d')))"
proof -
  have inv': "lease_inv cfg d'" using claim_inv [OF inv fresh ls, of now t pid] claim by simp
  have "holds_lease pid r d'"
    using inv claim acq claim_holds by blast
  then obtain q g token where g: "fetch_pipeline d' pid = Some q" "fetch_group d' (p_group_id q) = Some g"
      "g_state g = LOCK_STATE" "lr_lock_token r = Some token" "g_lock_token g = Some token"
      "g_lock_expires_at g = lr_lock_expires_at r"
    by (auto simp: holds_lease_def)
  have gid: "p_group_id q = p_group_id p"
    using claim_group_id [OF claim p g(1)] .
  from claim_queues_expiry [OF claim acq queue p] g(4,6) obtain e where
    e: "g_lock_expires_at g = Some e" "stamp_ms e = None" and
    task: "\<lparr>et_group_id = p_group_id p, et_lock_token = token,
      et_delay_seconds = expiry_delay_seconds e now\<rparr> \<in> set (expiry_tasks d')"
    by (auto simp: expiry_queued_def)
  from inv_room_ok [OF inv' g(2)] g(3,5) have ne: "token \<noteq> []" by (auto elim: room_ok_lockedE)
  have freed: "fst (release_expired later (p_group_id p) token d')
      \<and> \<not> verify_lock (p_group_id p) token (snd (release_expired later (p_group_id p) token d'))"
    if later: "now + seconds (expiry_delay_seconds e now) \<le> later" for later
  proof -
    have "e = fmt_sec (stamp_dt e)" using e(2) by (cases e) (simp add: fmt_sec_def stamp_dt_def)
    moreover have "stamp_dt e \<le> later" using ceil_delay [of e now] later by simp
    ultimately have "e \<le> fmt_sec later" using fmt_sec_mono by metis
    note rel = expire_locked_room_expired [OF lease_inv_ids [OF inv'] g(2,3,5) ne e(1) this]
    have "fetch_group (change_groups (expired_lease (p_group_id q) token (fmt_sec later)) opened d') (p_group_id q)
        = Some (opened g)"
      using g(2,3,5) e(1) \<open>e \<le> fmt_sec later\<close> fetch_group_mem [OF g(2)]
      by (intro rooms.fetch_change_hit) (auto simp: expired_lease_def)
    then have "fetch_group (snd (expire_locked_room later (p_group_id q) (Some token) d')) (p_group_id q)
        = Some (opened g)"
      using rel [of "Some token"] by (simp add: fetch_group_def)
    with rel [of "Some token"] show ?thesis
      by (simp add: release_expired_def verify_lock_def gid opened_def)
  qed
  show ?thesis by (rule bexI [OF _ task]) (use g(4) freed in auto)
qed

lemma unrenewed_claim_is_freed_by_its_task_witness:
  "\<exists>task\<in>set (expiry_tasks lapsed). et_lock_token task = ''t1''
     \<and> (\<forall>later \<ge> seconds (et_delay_seconds task). fst (release_expired later 7 ''t1'' lapsed))"
proof -
  have 1: "or_default None (cf_initial_ttl_seconds demo_cfg) \<le> cf_max_total_seconds demo_cfg"
    "lr_acquired (fst (claim_strategy_pipeline demo_cfg 0 0 ''t1'' 11 None ready))"
    "\<not> cf_huey_immediate demo_cfg" "fetch_pipeline ready 11 = Some ready_run"
    "p_group_id ready_run = 7"
    "lr_lock_token (fst (claim_strategy_pipeline demo_cfg 0 0 ''t1'' 11 None ready)) = Some ''t1''"
    by code_simp+
  have "''t1'' \<noteq> []" by simp
  from unrenewed_claim_is_freed_by_its_task
    [OF ready_inv this 1(1) prod.collapse [symmetric] 1(2-4)] 1(5,6)
  show ?thesis unfolding lapsed_def by fastforce
qed

subsection \<open>How often a heartbeat must beat\<close>

lemma renewed_acquired:
  "lr_renewed (fst (renew_strategy_pipeline cfg now pid token ls ms d)) \<Longrightarrow>
   lr_acquired (fst (renew_strategy_pipeline cfg now pid token ls ms d))"
  using renew_cases [of cfg now pid token ls ms d] by (auto simp: renew_commit_simps)

text \<open>
  The configured heartbeat interval is short enough: with a lease time of at least four
  seconds, a renewal leaves the lease running for more than three further intervals, unless
  the hard maximum of the lease cuts it off.
\<close>

theorem renewal_outlasts_three_heartbeats:
  assumes inv: "lease_inv cfg d" and cfg: "cfg = mk_lease_config lock_env ttl_env beat_env max_env imm"
    and ttl: "4 \<le> ttl_env"
    and renew: "renew_strategy_pipeline cfg now pid token None None d = (r, d')" "lr_renewed r"
    and p: "fetch_pipeline d pid = Some p"
    and room: "now + seconds ttl_env \<le> max_deadline (cf_max_total_seconds cfg) now p"
  shows "1 \<le> cf_heartbeat_seconds cfg \<and>
    (\<exists>g e. fetch_group d' (p_group_id p) = Some g \<and> g_lock_expires_at g = Some e
       \<and> now + 3 * seconds (cf_heartbeat_seconds cfg) < stamp_dt e)"
proof -
  have beat: "1 \<le> cf_heartbeat_seconds cfg" "3 * cf_heartbeat_seconds cfg \<le> ttl_env - 1"
    "cf_initial_ttl_seconds cfg = ttl_env"
    using ttl by (simp_all add: cfg mk_lease_config_def Let_def)
  have acq: "lr_acquired r"
    using renewed_acquired [of cfg now pid token None None d] renew by simp
  from renewal_holds_lease [OF lease_inv_ids [OF inv] renew(1) acq] obtain q g where
    q: "fetch_pipeline d' pid = Some q" "fetch_group d' (p_group_id q) = Some g"
      "g_lock_expires_at g = lr_lock_expires_at r" by (auto simp: holds_lease_def)
  have "map_option place (fetch_pipeline d' pid) = map_option place (fetch_pipeline d pid)"
    using renew_places [of cfg now pid token None None d pid] renew(1) by simp
  then have gid: "p_group_id q = p_group_id p" using q(1) p by (simp add: place_def)
  have "lr_lock_expires_at r = Some (renewed_expiry cfg now None None p)"
    using renew_cases [of cfg now pid token None None d]
  proof (elim disjE exE conjE)
    fix p' and g' :: group_row
    assume chk: "renew_check now (or_default None (cf_max_total_seconds cfg)) pid token d = Inr (p', g')"
      and "renew_strategy_pipeline cfg now pid token None None d =
        renew_commit cfg now token (renewed_expiry cfg now None None p') p' g' d"
    with renew(1) p renew_check_Inr(1) [OF chk]
      renew_commit_simps(5) [of cfg now token "renewed_expiry cfg now None None p'" p' g' d]
    show ?thesis by simp
  qed (use renew in auto)
  moreover have "renewed_expiry cfg now None None p = fmt_sec (now + seconds ttl_env)"
    using room by (simp add: renewed_expiry_def or_default_def beat(3) min_absorb1)
  moreover have "now + 3 * seconds (cf_heartbeat_seconds cfg) < stamp_dt (fmt_sec (now + seconds ttl_env))"
    using stamp_dt_fmt_sec_gt [of "now + seconds ttl_env"] beat(2) unfolding seconds_def by linarith
  ultimately show ?thesis using beat(1) q gid by simp
qed

lemma renewal_outlasts_three_heartbeats_witness:
  "1 \<le> cf_heartbeat_seconds demo_cfg \<and>
    (\<exists>g e. fetch_group (snd (renew_strategy_pipeline demo_cfg 5000000 11 ''t1'' None None lapsed)) 7 = Some g
       \<and> g_lock_expires_at g = Some e \<and> 5000000 + 3 * seconds (cf_heartbeat_seconds demo_cfg) < stamp_dt e)"
proof -
  have 1: "lr_renewed (fst (renew_strategy_pipeline demo_cfg 5000000 11 ''t1'' None None lapsed))"
    "fetch_pipeline lapsed 11 = Some (hd (pipelines lapsed))" "p_group_id (hd (pipelines lapsed)) = 7"
    "5000000 + seconds 60 \<le> max_deadline (cf_max_total_seconds demo_cfg) 5000000 (hd (pipelines lapsed))"
    by code_simp+
  have "(4::int) \<le> 60" by simp
  from renewal_outlasts_three_heartbeats
    [OF lapsed_inv demo_cfg_def this prod.collapse [symmetric] 1(1,2,4)] 1(3)
  show ?thesis by simp
qed

end
