(* ===== verification/Coordination_Properties.thy ===== *)
theory Coordination_Properties
  imports Room_Services Samples
begin

text \<open>
  The properties of coordination: how priorities are computed, and for each service exactly
  which runs it ends, what becomes of them, that every other run is untouched, and that
  ended runs leave no lease behind.
\<close>

subsection \<open>Priorities\<close>

lemma fold_min_le: "fold min ps a \<le> (a::int)" "x \<in> set ps \<Longrightarrow> fold min ps a \<le> x"
proof (induction ps arbitrary: a)
  case (Cons p ps)
  { case 1 show ?case using Cons(1) [of "min p a"] by simp }
  { case 2
    show ?case
    proof (cases "x = p")
      case True
      then show ?thesis using Cons(1) [of "min p a"] by simp
    next
      case False
      then show ?thesis using 2 Cons(2) [of "min p a"] by simp
    qed }
qed simp_all

lemma fold_min_mem: "fold min ps a \<in> insert (a::int) (set ps)"
proof (induction ps arbitrary: a)
  case (Cons p ps)
  show ?case using Cons [of "min p a"] by (auto simp: min_def split: if_splits)
qed simp

text \<open>
  The priority of a run is the least number any of its sources gives it (trigger, fine
  state, coarse state, stored value); with no source at all it is the default.
\<close>

theorem priority_is_least_candidate:
  "priority_for t sub coarse stored dflt =
     (let cs = priority_candidates t sub coarse stored in if cs = [] then dflt else Min (set cs))"
proof (cases "priority_candidates t sub coarse stored")
  case (Cons p ps)
  have "fold min ps p = Min (set (p # ps))"
    using fold_min_le(1) [of ps p] fold_min_le(2) [of _ ps p] fold_min_mem [of ps p]
    by (intro Min_eqI [symmetric]) auto
  with Cons show ?thesis by (simp add: priority_for_def)
qed (simp add: priority_for_def)

lemma priority_le_candidate: "x \<in> set (priority_candidates t sub coarse stored) \<Longrightarrow>
  priority_for t sub coarse stored dflt \<le> x"
  using fold_min_le by (cases "priority_candidates t sub coarse stored") (auto simp: priority_for_def)

lemma help_sources: "s \<in> set HELP_TRIGGER_SOURCES \<Longrightarrow> map_of PRIORITY_BY_TRIGGER s = Some 1"
  and end_sources: "s \<in> set SESSION_END_TRIGGER_SOURCES \<Longrightarrow> map_of PRIORITY_BY_TRIGGER s = Some 0"
proof -
  have "\<forall>s\<in>set HELP_TRIGGER_SOURCES. map_of PRIORITY_BY_TRIGGER s = Some 1" by code_simp
  then show "s \<in> set HELP_TRIGGER_SOURCES \<Longrightarrow> map_of PRIORITY_BY_TRIGGER s = Some 1" by blast
  have "\<forall>s\<in>set SESSION_END_TRIGGER_SOURCES. map_of PRIORITY_BY_TRIGGER s = Some 0" by code_simp
  then show "s \<in> set SESSION_END_TRIGGER_SOURCES \<Longrightarrow> map_of PRIORITY_BY_TRIGGER s = Some 0" by blast
qed

lemma trigger_priority:
  "map_of PRIORITY_BY_TRIGGER (strip (text_of t)) = Some i \<Longrightarrow> priority_for t sub coarse stored dflt \<le> i"
  by (rule priority_le_candidate) (simp add: priority_candidates_def option_list_def)

subsection \<open>A higher priority supersedes lower ones\<close>

definition lower_priority_rival :: "pipeline_row \<Rightarrow> pipeline_row \<Rightarrow> bool" where
  "lower_priority_rival row p \<longleftrightarrow>
     in_scope (p_group_id row) (p_session_id row) (p_discussion_id row) p \<and> p_id p \<noteq> p_id row
     \<and> active_unpublished p \<and> priority_for_pipeline_row row < priority_for_pipeline_row p"

lemma supersede_lower_eq:
  "supersede_lower_priority_runs_for_row now row reason d =
     mark_each (simple_mark ''SUPERSEDED'' ''SKIPPED'' reason (Some (p_id row))) now
       (sort_key urgency (filter (lower_priority_rival row) (pipelines d))) d"
proof -
  have "filter (\<lambda>p. \<not> priority_for_pipeline_row p \<le> priority_for_pipeline_row row)
      (sort_key urgency (filter (\<lambda>p. in_scope (p_group_id row) (p_session_id row) (p_discussion_id row) p
         \<and> p_id p \<noteq> p_id row \<and> active_unpublished p) (pipelines d)))
    = sort_key urgency (filter (lower_priority_rival row) (pipelines d))"
    unfolding filter_sort filter_filter
    by (intro arg_cong [where f = "sort_key urgency"] filter_cong)
      (auto simp: lower_priority_rival_def)
  then show ?thesis by (simp only: supersede_lower_priority_runs_for_row_def Let_def)
qed

lemma simple_mark_sel [simp]:
  "tm_final_status (simple_mark f p r s) = f" "tm_publish_status (simple_mark f p r s) = p"
  "tm_reason (simple_mark f p r s) = r" "tm_superseded_by (simple_mark f p r s) = s"
  "tm_stage2_status (simple_mark f p r s) = None" "tm_failure_code (simple_mark f p r s) = None"
  by (simp_all add: simple_mark_def)

text \<open>
  C29. A run supersedes exactly the active, unpublished runs of its scope that have a
  strictly larger priority number: each of them ends SUPERSEDED and SKIPPED by it, no such
  run is left, and every other run is left as it was (the superseding run itself keeps its
  status; only its links are filled).
\<close>

theorem supersedes_exactly_lower_priority:
  assumes ids: "ids_distinct d" and row: "fetch_pipeline d pid = Some row"
    and run: "supersede_lower_priority_runs_for_pipeline now pid d = (ended, d')"
  shows "set ended = {p_id p |p. p \<in> set (pipelines d) \<and> lower_priority_rival row p}
    \<and> (\<forall>q\<in>set (pipelines d').
         (p_id q \<in> set ended \<longrightarrow> p_final_status q = Some ''SUPERSEDED''
            \<and> p_publish_status q = Some ''SKIPPED'' \<and> p_superseded_by_run_id q = Some pid)
         \<and> \<not> lower_priority_rival row q)
    \<and> (\<forall>k. k \<notin> set ended \<and> k \<noteq> pid \<longrightarrow> fetch_pipeline d' k = fetch_pipeline d k)
    \<and> map_option verdict (fetch_pipeline d' pid) = map_option verdict (fetch_pipeline d pid)"
proof -
  let ?S = "lower_priority_rival row"
  let ?mk = "simple_mark ''SUPERSEDED'' ''SKIPPED'' ''SUPERSEDED_BY_HIGHER_PRIORITY'' (Some pid)"
  have dist: "distinct (map p_id (pipelines d))" using ids by (simp add: ids_distinct_def)
  have pid: "p_id row = pid" using row by (rule runs.fetch_rid)
  have eq: "mark_each ?mk now (sort_key urgency (filter ?S (pipelines d))) d = (ended, d')"
    using run row by (simp add: supersede_lower_priority_runs_for_pipeline_def supersede_lower_eq pid)
  have mk: "\<forall>p. ?S p \<longrightarrow> markable p"
    by (simp add: lower_priority_rival_def active_markable)
  note rep = mark_report [OF dist mk eq]
  have each: "(p_id q \<in> set ended \<longrightarrow> p_final_status q = Some ''SUPERSEDED''
      \<and> p_publish_status q = Some ''SKIPPED'' \<and> p_superseded_by_run_id q = Some pid) \<and> \<not> ?S q"
    if q: "q \<in> set (pipelines d')" for q
  proof -
    from rep(2) [OF q] obtain p where
      p: "p_id p = p_id q" "standing p = standing q" "p_id q \<in> set ended \<longleftrightarrow> ?S p"
        "if ?S p then settled ?mk p q else verdict p = verdict q" by blast
    show ?thesis
    proof (cases "?S p")
      case True
      with p(4) have st: "settled ?mk p q" by simp
      then have "\<not> active_unpublished q"
        by (rule settled_inactive) (simp add: TERMINAL_FINAL_STATUSES_def)
      with st show ?thesis by (simp add: settled_def lower_priority_rival_def)
    next
      case False
      with p(4) have "active_unpublished p = active_unpublished q"
        by (simp add: verdict_def active_unpublished_def)
      with False have "\<not> ?S q"
        using p(1) priority_standing [OF p(2)] scope_standing [OF p(2)]
        by (simp add: lower_priority_rival_def)
      with False p(3) show ?thesis by simp
    qed
  qed
  have "pid \<notin> set ended" using pid by (auto simp: rep(1) lower_priority_rival_def)
  with rep(1,3,4) each show ?thesis by auto
qed

text \<open>Two overlapping runs: 11 from new messages, 12 from a session end.\<close>

definition overlap :: platform where
  "overlap = sample\<lparr>pipelines :=
     [blank_pipeline\<lparr>p_trigger_source := Some ''new_message'', p_final_status := Some ''LOCKED'',
        p_room_lock_token := Some ''t1''\<rparr>,
      blank_pipeline\<lparr>p_id := 12, p_trigger_source := Some ''session_end''\<rparr>],
     groups := [blank_group\<lparr>g_state := ''AI_INTERVENING'', g_lock_token := Some ''t1'',
        g_lock_expires_at := Some (Stamp 60 None), g_active_intervention_run_id := Some (- 11)\<rparr>],
     help_requests := [blank_help]\<rparr>"

lemma overlap_ids [simp]: "ids_distinct overlap"
  by (simp add: ids_distinct_def overlap_def blank_defs)

lemma supersedes_exactly_lower_priority_witness:
  "fst (supersede_lower_priority_runs_for_pipeline 0 12 overlap) = [11]
   \<and> (\<exists>q\<in>set (pipelines (snd (supersede_lower_priority_runs_for_pipeline 0 12 overlap))).
        p_id q = 11 \<and> p_final_status q = Some ''SUPERSEDED'' \<and> p_superseded_by_run_id q = Some 12)"
proof -
  have ids: "fst (supersede_lower_priority_runs_for_pipeline 0 12 overlap) = [11]" by code_simp
  have "11 \<in> set (map p_id (pipelines (snd (supersede_lower_priority_runs_for_pipeline 0 12 overlap))))"
    by code_simp
  then obtain q where q: "p_id q = 11"
    "q \<in> set (pipelines (snd (supersede_lower_priority_runs_for_pipeline 0 12 overlap)))" by auto
  have "fetch_pipeline overlap 12 = Some (pipelines overlap ! 1)" by code_simp
  from supersedes_exactly_lower_priority [OF overlap_ids this prod.collapse [symmetric], of 0] ids q
  show ?thesis by (intro conjI bexI [OF _ q(2)]) simp_all
qed

subsection \<open>A help request pre-empts\<close>

lemma preempt_eq:
  assumes "fetch_help d hid = Some h"
  shows "preempt_for_student_help now hid d =
    mark_each ((simple_mark ''SUPERSEDED'' ''SKIPPED'' ''SUPERSEDED_BY_STUDENT_HELP'' None)
         \<lparr>tm_replacement_trigger := hr_source_message_id h,
          tm_replacement_cutoff := hr_help_request_message_sequence h\<rparr>) now
      (sort_key urgency (filter (\<lambda>p. in_scope (hr_group_id h) (hr_session_id h) (hr_discussion_id h) p
         \<and> active_unpublished p \<and> 1 < priority_for_pipeline_row p) (pipelines d))) d"
proof -
  have "filter (\<lambda>p. \<not> priority_for_pipeline_row p \<le> 1)
      (active_runs_in_scope d (hr_group_id h) (hr_session_id h) (hr_discussion_id h))
    = sort_key urgency (filter (\<lambda>p. in_scope (hr_group_id h) (hr_session_id h) (hr_discussion_id h) p
         \<and> active_unpublished p \<and> 1 < priority_for_pipeline_row p) (pipelines d))"
    unfolding active_runs_in_scope_def filter_sort filter_filter
    by (intro arg_cong [where f = "sort_key urgency"] filter_cong) auto
  then show ?thesis using assms by (simp only: preempt_for_student_help_def option.case)
qed

text \<open>
  A student's help request ends exactly the active, unpublished runs of its scope whose
  priority number is above 1: they end SUPERSEDED and no room stays under their lease; a
  run started by a help request or by the end of the session is never pre-empted, and no
  other run changes.
\<close>

theorem help_preempts_ordinary_runs:
  assumes ids: "ids_distinct d" and asked: "fetch_help d hid = Some h"
    and run: "preempt_for_student_help now hid d = (ended, d')"
    and p: "p \<in> set (pipelines d)" "in_scope (hr_group_id h) (hr_session_id h) (hr_discussion_id h) p"
      "active_unpublished p"
  shows "(p_id p \<in> set ended \<longleftrightarrow> 1 < priority_for_pipeline_row p)
    \<and> (p_id p \<in> set ended \<longrightarrow>
         (\<exists>q. fetch_pipeline d' (p_id p) = Some q \<and> p_final_status q = Some ''SUPERSEDED''
            \<and> p_publish_status q = Some ''SKIPPED'')
         \<and> (\<forall>g\<in>set (groups d'). \<not> leased_to p g))
    \<and> (strip (text_of (p_trigger_source p)) \<in> set HELP_TRIGGER_SOURCES \<union> set SESSION_END_TRIGGER_SOURCES
         \<longrightarrow> p_id p \<notin> set ended)
    \<and> (\<forall>k. k \<notin> set ended \<longrightarrow> fetch_pipeline d' k = fetch_pipeline d k)"
proof -
  let ?S = "\<lambda>p. in_scope (hr_group_id h) (hr_session_id h) (hr_discussion_id h) p
    \<and> active_unpublished p \<and> 1 < priority_for_pipeline_row p"
  let ?rows = "sort_key urgency (filter ?S (pipelines d))"
  let ?mk = "(simple_mark ''SUPERSEDED'' ''SKIPPED'' ''SUPERSEDED_BY_STUDENT_HELP'' None)
     \<lparr>tm_replacement_trigger := hr_source_message_id h,
      tm_replacement_cutoff := hr_help_request_message_sequence h\<rparr>"
  have dist: "distinct (map p_id (pipelines d))" using ids by (simp add: ids_distinct_def)
  have eq: "mark_each ?mk now ?rows d = (ended, d')" using run asked by (simp add: preempt_eq)
  have mk: "\<forall>p. ?S p \<longrightarrow> markable p" by (simp add: active_markable)
  note rep = mark_report [OF dist mk eq]
  have iff: "p_id p \<in> set ended \<longleftrightarrow> 1 < priority_for_pipeline_row p"
  proof
    assume "p_id p \<in> set ended"
    then obtain r where r: "r \<in> set (pipelines d)" "?S r" "p_id p = p_id r" by (auto simp: rep(1))
    with same_id_same_row [OF dist p(1) r(1)] show "1 < priority_for_pipeline_row p" by simp
  next
    assume "1 < priority_for_pipeline_row p"
    with p show "p_id p \<in> set ended" unfolding rep(1) by blast
  qed
  have "(\<exists>q. fetch_pipeline d' (p_id p) = Some q \<and> p_final_status q = Some ''SUPERSEDED''
      \<and> p_publish_status q = Some ''SKIPPED'') \<and> (\<forall>g\<in>set (groups d'). \<not> leased_to p g)"
    if "p_id p \<in> set ended"
  proof -
    from that p iff have S: "?S p" by simp
    then have mem: "p \<in> set ?rows" using p(1) by simp
    note row = mark_each_settles [OF selected_rows(2) [OF dist] mem _ pipeline_member [OF dist p(1)],
        where mk = ?mk and now = now]
    from row mark_each_frees [OF mem, where d = d and mk = ?mk and now = now] mk S eq show ?thesis
      by (auto simp: settled_def)
  qed
  moreover have "p_id p \<notin> set ended"
    if "strip (text_of (p_trigger_source p)) \<in> set HELP_TRIGGER_SOURCES \<union> set SESSION_END_TRIGGER_SOURCES"
  proof -
    from that help_sources end_sources obtain i where
      "map_of PRIORITY_BY_TRIGGER (strip (text_of (p_trigger_source p))) = Some i" "i \<le> 1" by fastforce
    then have "priority_for_pipeline_row p \<le> 1"
      using trigger_priority order_trans unfolding priority_for_pipeline_row_def by blast
    with iff show ?thesis by simp
  qed
  moreover have "fetch_pipeline d' k = fetch_pipeline d k" if "k \<notin> set ended" for k
    using rep(3) [OF that] by simp
  ultimately show ?thesis using iff by blast
qed

lemma help_preempts_ordinary_runs_witness:
  "11 \<in> set (fst (preempt_for_student_help 0 31 overlap))
   \<and> (\<exists>q. fetch_pipeline (snd (preempt_for_student_help 0 31 overlap)) 11 = Some q
        \<and> p_final_status q = Some ''SUPERSEDED'')
   \<and> filter (leased_to (hd (pipelines overlap))) (groups (snd (preempt_for_student_help 0 31 overlap))) = []"
proof -
  have 1: "fetch_help overlap 31 = Some blank_help" "hd (pipelines overlap) \<in> set (pipelines overlap)"
    "in_scope (hr_group_id blank_help) (hr_session_id blank_help) (hr_discussion_id blank_help) (hd (pipelines overlap))"
    "active_unpublished (hd (pipelines overlap))"
    by code_simp+
  have "p_id (hd (pipelines overlap)) = 11" "1 < priority_for_pipeline_row (hd (pipelines overlap))"
    by code_simp+
  with help_preempts_ordinary_runs [OF overlap_ids 1(1) prod.collapse [symmetric] 1(2-4), of 0]
  show ?thesis by (auto simp: filter_empty_conv)
qed

subsection \<open>The end of a session\<close>

text \<open>
  Ending a session cancels all its unfinished work: no active, unpublished run of the
  session is left, no room stays under the lease of a run that was cancelled, and runs that
  were published, already terminal, or of another session are untouched.
\<close>

theorem session_end_cancels_all_active:
  assumes ids: "ids_distinct d"
    and run: "cancel_active_runs_for_session_end now sid reason d = (ended, d')"
  shows "(\<forall>q\<in>set (pipelines d'). p_session_id q = Some sid \<longrightarrow> \<not> active_unpublished q)
    \<and> (\<forall>p\<in>set (pipelines d). p_session_id p = Some sid \<and> active_unpublished p \<longrightarrow>
         p_id p \<in> set ended \<and> (\<forall>g\<in>set (groups d'). \<not> leased_to p g))
    \<and> (\<forall>p\<in>set (pipelines d). p_session_id p \<noteq> Some sid \<or> \<not> active_unpublished p \<longrightarrow>
         fetch_pipeline d' (p_id p) = Some p)"
proof -
  let ?S = "\<lambda>p. sql_eq (p_session_id p) (Some sid) \<and> active_unpublished p"
  let ?rows = "sort_key p_id (filter ?S (pipelines d))"
  let ?mk = "simple_mark ''CANCELLED'' ''SKIPPED'' reason None"
  have dist: "distinct (map p_id (pipelines d))" using ids by (simp add: ids_distinct_def)
  have eq: "mark_each ?mk now ?rows d = (ended, d')"
    using run by (simp add: cancel_active_runs_for_session_end_def)
  have mk: "\<forall>p. ?S p \<longrightarrow> markable p" by (simp add: active_markable)
  note rep = mark_report [OF dist mk eq]
  have none: "\<not> active_unpublished q" if q: "q \<in> set (pipelines d')" "p_session_id q = Some sid" for q
  proof -
    from rep(2) [OF q(1)] obtain p where p: "standing p = standing q"
      "if ?S p then settled ?mk p q else verdict p = verdict q" by blast
    from p(1) q(2) have sid: "p_session_id p = Some sid" by (simp add: standing_def)
    show ?thesis
    proof (cases "?S p")
      case True
      with p(2) have "settled ?mk p q" by simp
      then show ?thesis by (rule settled_inactive) (simp add: TERMINAL_FINAL_STATUSES_def)
    next
      case False
      with p(2) have "active_unpublished q = active_unpublished p"
        by (simp only: if_False verdict_def active_unpublished_def prod.inject)
      with False sid show ?thesis by simp
    qed
  qed
  have freed: "p_id p \<in> set ended \<and> (\<forall>g\<in>set (groups d'). \<not> leased_to p g)"
    if p: "p \<in> set (pipelines d)" "p_session_id p = Some sid" "active_unpublished p" for p
  proof -
    from p have mem: "p \<in> set ?rows" by simp
    from mark_each_frees [OF mem, where d = d and mk = ?mk and now = now] mk p eq
    have "\<forall>g\<in>set (groups d'). \<not> leased_to p g" by simp
    moreover have "p_id p \<in> set ended" unfolding rep(1) using p by auto
    ultimately show ?thesis by simp
  qed
  have kept: "fetch_pipeline d' (p_id p) = Some p"
    if p: "p \<in> set (pipelines d)" "p_session_id p \<noteq> Some sid \<or> \<not> active_unpublished p" for p
  proof -
    have "p_id p \<notin> set ended"
    proof
      assume "p_id p \<in> set ended"
      then obtain r where r: "r \<in> set (pipelines d)" "?S r" "p_id p = p_id r" by (auto simp: rep(1))
      with same_id_same_row [OF dist p(1) r(1)] p(2) show False by simp
    qed
    with rep(3) show ?thesis using pipeline_member [OF dist p(1)] by simp
  qed
  show ?thesis using none freed kept by blast
qed

lemma session_end_cancels_all_active_witness:
  "filter (\<lambda>q. p_session_id q = Some 1 \<and> active_unpublished q)
     (pipelines (snd (cancel_active_runs_for_session_end 0 1 ''ended'' overlap))) = []
   \<and> 11 \<in> set (fst (cancel_active_runs_for_session_end 0 1 ''ended'' overlap))"
proof -
  have "hd (pipelines overlap) \<in> set (pipelines overlap)" "p_id (hd (pipelines overlap)) = 11"
    "p_session_id (hd (pipelines overlap)) = Some 1" "active_unpublished (hd (pipelines overlap))"
    by code_simp+
  note run = this and
    ended = session_end_cancels_all_active [OF overlap_ids prod.collapse [symmetric], of 0 1 "''ended''"]
  have "\<not> (p_session_id q = Some 1 \<and> active_unpublished q)"
    if "q \<in> set (pipelines (snd (cancel_active_runs_for_session_end 0 1 ''ended'' overlap)))" for q
    using conjunct1 [OF ended] that by blast
  moreover have "p_id (hd (pipelines overlap)) \<in> set (fst (cancel_active_runs_for_session_end 0 1 ''ended'' overlap))"
    using conjunct1 [OF conjunct2 [OF ended]] run(1,3,4) by blast
  ultimately show ?thesis by (simp add: filter_empty_conv run(2))
qed

subsection \<open>The end of an assessment batch\<close>

text \<open>
  When a batch fails for good, its preliminary siblings are closed as failures and
  never as results: each row reported ends FAILED, its second stage is recorded as SKIPPED
  and it carries no intervention decision; rows of another batch, rows another unfinished
  batch still covers, published rows and rows whose second stage succeeded stay as they
  were.
\<close>

theorem failed_batch_closes_siblings_as_failed:
  assumes ids: "ids_distinct d"
    and run: "finalize_preliminary_runs_for_batch_row now row a b (Some batch) (Some ''failed'') code detail d
      = Inr (ended, d')"
    and p: "p \<in> set (pipelines d)"
  shows "if p_id p \<in> set ended
    then (\<exists>q. fetch_pipeline d' (p_id p) = Some q \<and> p_final_status q = Some ''FAILED''
           \<and> p_stage2_status q = Some ''SKIPPED'' \<and> p_should_intervene q = None
           \<and> p_failure_code q = or_text code (Some ''assessment_batch_failed''))
      \<and> (p_assessment_batch_id p = Some batch
         \<or> p_assessment_batch_id p = None \<and> \<not> covered_by_other_batch d batch p)
      \<and> upper (text_of (p_publish_status p)) \<noteq> ''PUBLISHED''
      \<and> upper (text_of (p_stage2_status p)) \<noteq> ''SUCCEEDED''
    else fetch_pipeline d' (p_id p) = Some p"
proof -
  let ?S = "preliminary_sibling d row a b (Some batch)"
  let ?rows = "sort_key p_id (filter ?S (pipelines d))"
  let ?mk = "batch_mark row (Some batch) False code detail"
  have dist: "distinct (map p_id (pipelines d))" using ids by (simp add: ids_distinct_def)
  have "lower (strip ''failed'') = ''failed''" by code_simp
  then have eq: "mark_each ?mk now ?rows d = (ended, d')"
    using run by (simp add: finalize_preliminary_runs_for_batch_row_def)
  have mk: "\<forall>p. ?S p \<longrightarrow> markable p" using sibling_markable by blast
  note rep = mark_report [OF dist mk eq]
  have iff: "p_id p \<in> set ended \<longleftrightarrow> ?S p"
  proof
    assume "p_id p \<in> set ended"
    then obtain r where r: "r \<in> set (pipelines d)" "?S r" "p_id p = p_id r" by (auto simp: rep(1))
    with same_id_same_row [OF dist p r(1)] show "?S p" by simp
  next
    assume "?S p"
    with p show "p_id p \<in> set ended" unfolding rep(1) by blast
  qed
  show ?thesis
  proof (cases "?S p")
    case True
    then have mem: "p \<in> set ?rows" using p by simp
    have done2: "upper (text_of (p_stage2_status p)) \<noteq> ''SUCCEEDED''"
      using True by (simp add: preliminary_sibling_def)
    have "or_text code (Some ''assessment_batch_failed'') \<noteq> None"
      by (cases code) (auto simp: or_text_def)
    with mark_each_settles [OF selected_rows(2) [OF dist] mem _ pipeline_member [OF dist p],
        where mk = ?mk and now = now] mk True eq done2
    have "\<exists>q. fetch_pipeline d' (p_id p) = Some q \<and> p_final_status q = Some ''FAILED''
        \<and> p_stage2_status q = Some ''SKIPPED'' \<and> p_should_intervene q = None
        \<and> p_failure_code q = or_text code (Some ''assessment_batch_failed'')"
      by (auto simp: settled_def batch_mark_def)
    with True iff show ?thesis by (simp add: preliminary_sibling_def)
  next
    case False
    with iff rep(3) pipeline_member [OF dist p] show ?thesis by (simp add: batch_mark_def)
  qed
qed

lemma failed_batch_closes_siblings_as_failed_witness:
  "\<exists>q. fetch_pipeline (snd (projr (finalize_preliminary_runs_for_batch_row 0 (pipelines overlap ! 1) 1 9
      (Some 5) (Some ''failed'') None None overlap))) 11 = Some q
     \<and> p_final_status q = Some ''FAILED'' \<and> p_stage2_status q = Some ''SKIPPED''"
proof -
  let ?r = "finalize_preliminary_runs_for_batch_row 0 (pipelines overlap ! 1) 1 9
      (Some 5) (Some ''failed'') None None overlap"
  have "?r = Inr (fst (projr ?r), snd (projr ?r))"
    by (simp add: finalize_preliminary_runs_for_batch_row_def) code_simp
  moreover have "hd (pipelines overlap) \<in> set (pipelines overlap)" "p_id (hd (pipelines overlap)) = 11"
    "11 \<in> set (fst (projr ?r))"
    by code_simp+
  ultimately show ?thesis
    using failed_batch_closes_siblings_as_failed [OF overlap_ids, of 0 "pipelines overlap ! 1" 1 9 5 None None]
    by fastforce
qed

end
