(* ===== verification/Schema_Properties.thy ===== *)
theory Schema_Properties
  imports State_Schema
begin

text \<open>
  The properties of the state ontology and of routing: the public state is always one of the
  final codes, every canonical state has a consistent route, overlays only ever escalate,
  and routing agrees with the coordination priorities.
\<close>

subsection \<open>The public state\<close>

lemma primary_codes_strip:
  "c \<in> set PRIMARY_SUB_STATE_CODES \<union> set STATE_OVERLAY_CODES \<Longrightarrow> c \<in> set CANONICAL_SUB_STATE_CODES"
  by (auto simp: CANONICAL_SUB_STATE_CODES_def)

lemma overlay_primary:
  "c \<in> set STATE_OVERLAY_CODES \<Longrightarrow>
   \<exists>p\<in>set PRIMARY_SUB_STATE_CODES. map_of OVERLAY_COMPATIBLE_PRIMARY_STATE c = Some p"
proof -
  have "\<forall>c\<in>set STATE_OVERLAY_CODES. \<exists>p\<in>set PRIMARY_SUB_STATE_CODES.
      map_of OVERLAY_COMPATIBLE_PRIMARY_STATE c = Some p"
    by code_simp
  then show "c \<in> set STATE_OVERLAY_CODES \<Longrightarrow>
   \<exists>p\<in>set PRIMARY_SUB_STATE_CODES. map_of OVERLAY_COMPATIBLE_PRIMARY_STATE c = Some p" by blast
qed

lemma final_primary: "normalize_final_sub_state v = Some c \<Longrightarrow> c \<in> set PRIMARY_SUB_STATE_CODES"
  using overlay_primary by (fastforce simp: normalize_final_sub_state_def Let_def split: if_splits)

lemma final_of_overlay: "is_state_overlay v \<Longrightarrow> normalize_final_sub_state v \<noteq> None"
  using overlay_primary
  by (fastforce simp: normalize_final_sub_state_def is_state_overlay_def Let_def)

lemma legacy_code: "legacy_state_for_sub_state v \<in> set LEGACY_STATE_CODES"
proof -
  have "\<forall>c\<in>set CANONICAL_SUB_STATE_CODES.
      the (map_of CANONICAL_TO_LEGACY_STATE_CODE c) \<in> set LEGACY_STATE_CODES"
    by code_simp
  with normalize_canonical_mem show ?thesis by (auto simp: legacy_state_for_sub_state_def)
qed

lemma legacy_nonempty: "c \<in> set LEGACY_STATE_CODES \<Longrightarrow> c \<noteq> [] \<and> strip c = c"
proof -
  have "\<forall>c\<in>set LEGACY_STATE_CODES. c \<noteq> [] \<and> strip c = c" by code_simp
  then show "c \<in> set LEGACY_STATE_CODES \<Longrightarrow> c \<noteq> [] \<and> strip c = c" by blast
qed

lemma no_empty_legacy [simp]: "[] \<notin> set LEGACY_STATE_CODES"
  using legacy_nonempty by blast

lemma overlays_from_wf:
  "distinct (state_overlays_from ts)" "set (state_overlays_from ts) \<subseteq> {c. is_state_overlay (Some c)}"
  by (auto simp: state_overlays_from_def distinct_dedupe set_dedupe)

lemma overlay_final:
  assumes "c \<in> set STATE_OVERLAY_CODES"
  shows "\<exists>ps. map_of OVERLAY_COMPATIBLE_PRIMARY_STATES c = Some ps
    \<and> normalize_final_sub_state (Some c) \<in> Some ` set ps"
proof -
  have "list_all (\<lambda>c. case (map_of OVERLAY_COMPATIBLE_PRIMARY_STATES c, normalize_final_sub_state (Some c)) of
      (Some ps, Some f) \<Rightarrow> f \<in> set ps | _ \<Rightarrow> False) STATE_OVERLAY_CODES"
    by code_simp
  with assms have "case (map_of OVERLAY_COMPATIBLE_PRIMARY_STATES c, normalize_final_sub_state (Some c)) of
      (Some ps, Some f) \<Rightarrow> f \<in> set ps | _ \<Rightarrow> False"
    unfolding list_all_iff by blast
  then show ?thesis
    by (cases "map_of OVERLAY_COMPATIBLE_PRIMARY_STATES c"; cases "normalize_final_sub_state (Some c)") auto
qed

text \<open>
  Whatever mixture of canonical, raw, coarse and legacy codes a row carries, its public
  state is well formed: the final code, if any, is one of the twelve primary states and then
  a legacy projection exists; the legacy code is a legacy code; the overlays are distinct
  overlay codes; and an overlay in the place of a state is reported among the overlays, as
  inferred, with a compatible primary state as the final one.
\<close>

theorem resolved_state_well_formed:
  assumes r_def: "r = resolve canonical raw tags sub_tags coarse code status source inferred"
    and raw_code_def: "raw_code = strip (text_of (or_text canonical raw))"
  shows "(\<forall>f. rs_final r = Some f \<longrightarrow> f \<in> set PRIMARY_SUB_STATE_CODES \<and> rs_legacy r \<noteq> None)
    \<and> (\<forall>l. rs_legacy r = Some l \<longrightarrow> strip l \<in> set LEGACY_STATE_CODES)
    \<and> distinct (rs_overlays r) \<and> (\<forall>c\<in>set (rs_overlays r). is_state_overlay (Some c))
    \<and> (is_state_overlay (Some raw_code) \<longrightarrow>
         raw_code \<in> set (rs_overlays r) \<and> rs_inferred r
         \<and> (\<exists>ps. map_of OVERLAY_COMPATIBLE_PRIMARY_STATES raw_code = Some ps \<and> rs_final r \<in> Some ` set ps))
    \<and> rs_assessment_status r \<noteq> []"
proof -
  have nonempty_Some: "nonempty s = Some l \<longleftrightarrow> s = l \<and> l \<noteq> []" for s l
    by (auto simp: nonempty_def)
  have "f \<in> set PRIMARY_SUB_STATE_CODES \<and> rs_legacy r \<noteq> None" if "rs_final r = Some f" for f
  proof -
    from that have f: "normalize_final_sub_state (Some raw_code) = Some f"
      by (simp add: r_def raw_code_def resolve_def Let_def)
    then have "f \<in> set PRIMARY_SUB_STATE_CODES" by (rule final_primary)
    moreover have "rs_legacy r \<noteq> None"
      using f legacy_code legacy_nonempty
      by (auto simp: r_def raw_code_def resolve_def Let_def nonempty_def is_legacy_state_def)
    ultimately show ?thesis ..
  qed
  moreover have "strip l \<in> set LEGACY_STATE_CODES" if "rs_legacy r = Some l" for l
    using that legacy_code legacy_nonempty
    by (auto simp: r_def resolve_def Let_def nonempty_Some is_legacy_state_def split: if_splits)
  moreover have "distinct (rs_overlays r) \<and> (\<forall>c\<in>set (rs_overlays r). is_state_overlay (Some c))"
    using overlays_from_wf [of "[tags, sub_tags]"] by (auto simp: r_def resolve_def Let_def)
  moreover have "raw_code \<in> set (rs_overlays r) \<and> rs_inferred r
      \<and> (\<exists>ps. map_of OVERLAY_COMPATIBLE_PRIMARY_STATES raw_code = Some ps \<and> rs_final r \<in> Some ` set ps)"
    if "is_state_overlay (Some raw_code)"
  proof -
    have "strip raw_code = raw_code" by (simp add: raw_code_def)
    then have "raw_code \<in> set STATE_OVERLAY_CODES" using that by (simp add: is_state_overlay_def)
    from overlay_final [OF this] that show ?thesis
      by (auto simp: r_def raw_code_def resolve_def Let_def)
  qed
  moreover have "rs_assessment_status r \<noteq> []" by (simp add: r_def resolve_def Let_def)
  ultimately show ?thesis by blast
qed

lemma resolved_state_well_formed_witness:
  "rs_final (resolve (Some '' stage_achievement '') None No_Tags No_Tags None None None None False) \<noteq> None"
proof -
  have "is_state_overlay (Some (strip (text_of (or_text (Some '' stage_achievement '') None))))" by code_simp
  with resolved_state_well_formed [OF refl refl, of "Some '' stage_achievement ''" None] show ?thesis by fastforce
qed

subsection \<open>Routes\<close>

text \<open>What the route of a code must look like, as a check over the table.\<close>

definition route_wf :: "route_payload \<Rightarrow> bool" where
  "route_wf r \<longleftrightarrow>
     pl_mode r \<in> {''REQUIRED_INTERVENTION'', ''OPTIONAL_SUPPORT'', ''SUPPRESS''}
     \<and> (pl_should_intervene r \<longleftrightarrow> terminal_decision r = ''STAGE3'')
     \<and> (pl_should_intervene r \<longrightarrow> pl_candidates r \<noteq> [] \<and> pl_inhibition r = None)
     \<and> (case pl_inhibition r of None \<Rightarrow> terminal_decision r \<noteq> ''OI''
        | Some i \<Rightarrow> i \<in> set OI_STRATEGY_IDS \<and> pl_candidates r = [i] \<and> terminal_decision r = ''OI'')
     \<and> distinct (pl_candidates r)"

lemma route_of_table:
  assumes "c \<in> set CANONICAL_SUB_STATE_CODES"
  shows "\<exists>r. route_for_sub_state (set table_ids) (Some c) = Inr r
    \<and> route_wf r \<and> pl_canonical r = c \<and> set (pl_candidates r) \<subseteq> set table_ids"
proof -
  have "list_all (\<lambda>c. case route_for_sub_state (set table_ids) (Some c) of Inl _ \<Rightarrow> False
      | Inr r \<Rightarrow> route_wf r \<and> pl_canonical r = c \<and> list_all (\<lambda>i. i \<in> set table_ids) (pl_candidates r))
      CANONICAL_SUB_STATE_CODES"
    by code_simp
  with assms have "case route_for_sub_state (set table_ids) (Some c) of Inl _ \<Rightarrow> False
      | Inr r \<Rightarrow> route_wf r \<and> pl_canonical r = c \<and> list_all (\<lambda>i. i \<in> set table_ids) (pl_candidates r)"
    unfolding list_all_iff by blast
  then show ?thesis
    by (cases "route_for_sub_state (set table_ids) (Some c)") (auto simp: list_all_iff)
qed

text \<open>The route does not depend on the library beyond its ids.\<close>

lemma route_more_ids:
  assumes "route_for_sub_state A v = Inr r" and "A \<subseteq> B"
  shows "route_for_sub_state B v = Inr r"
  using assms by (auto simp: route_for_sub_state_def Let_def filter_empty_conv split: option.splits if_splits)

lemma route_exists:
  assumes "set table_ids \<subseteq> library"
  obtains r where "route_for_sub_state library (Some (normalize_canonical_sub_state v)) = Inr r"
    "route_wf r" "pl_canonical r = normalize_canonical_sub_state v" "set (pl_candidates r) \<subseteq> library"
proof -
  from route_of_table [OF normalize_canonical_mem] obtain r where
    "route_for_sub_state (set table_ids) (Some (normalize_canonical_sub_state v)) = Inr r"
    "route_wf r" "pl_canonical r = normalize_canonical_sub_state v" "set (pl_candidates r) \<subseteq> set table_ids"
    by blast
  with route_more_ids [OF _ assms] assms that show ?thesis by blast
qed

lemma route_normalized:
  "route_for_sub_state library (Some (normalize_canonical_sub_state v)) = route_for_sub_state library v"
  by (simp add: route_for_sub_state_def)

text \<open>
  C40. With a library that defines the manifest's strategies, routing is total and
  consistent: every value has a route to strategies of the library; it intervenes exactly
  when its terminal decision is the third stage, and then there is a strategy to choose;
  an inhibited state has its observation strategy as the only candidate and is decided OI.
\<close>

theorem routing_total_and_consistent:
  assumes "set table_ids \<subseteq> library"
  shows "\<exists>r. route_for_sub_state library v = Inr r \<and> set (pl_candidates r) \<subseteq> library
    \<and> distinct (pl_candidates r)
    \<and> (pl_should_intervene r \<longleftrightarrow> terminal_decision r = ''STAGE3'')
    \<and> (pl_should_intervene r \<longrightarrow> pl_candidates r \<noteq> [] \<and> pl_inhibition r = None)
    \<and> (\<forall>i. pl_inhibition r = Some i \<longrightarrow>
         i \<in> set OI_STRATEGY_IDS \<and> pl_candidates r = [i] \<and> terminal_decision r = ''OI'')"
proof -
  from route_exists [OF assms, of v] obtain r where
    r: "route_for_sub_state library v = Inr r" "route_wf r" "set (pl_candidates r) \<subseteq> library"
    unfolding route_normalized by blast
  then show ?thesis by (intro exI [of _ r]) (auto simp: route_wf_def)
qed

lemma routing_total_and_consistent_witness:
  "\<exists>r. route_for_sub_state (set table_ids) (Some ''burnout'') = Inr r \<and> set (pl_candidates r) \<subseteq> set table_ids"
  using routing_total_and_consistent [OF subset_refl, of "Some ''burnout''"] by blast

subsection \<open>Overlays\<close>

text \<open>
  Overlays only escalate.  A compatible overlay replaces the route but never the state;
  an incompatible one is ignored; the replaced route still intervenes whenever the route of
  the state alone did, and a safety overlay on a hostile conflict always does.
\<close>

theorem overlays_only_escalate:
  assumes "set table_ids \<subseteq> library"
  shows "\<exists>r base. route_for_state_with_overlays library v tags = Inr r
    \<and> route_for_sub_state library v = Inr base
    \<and> pl_canonical r = normalize_canonical_sub_state v
    \<and> pl_overlay r = effective_overlay (normalize_canonical_sub_state v) (state_overlays_from [tags])
    \<and> (pl_overlay r = None \<longrightarrow> r = base)
    \<and> (pl_should_intervene base \<longrightarrow> pl_should_intervene r)
    \<and> (\<forall>overlay. pl_overlay r = Some overlay \<longrightarrow> overlay \<in> set (state_overlays_from [tags]))"
proof -
  let ?c = "normalize_canonical_sub_state v" and ?tags = "state_overlays_from [tags]"
  from route_exists [OF assms, of v] obtain base where
    base: "route_for_sub_state library v = Inr base" "pl_canonical base = ?c"
    unfolding route_normalized by blast
  have no_tag: "pl_overlay base = None"
    using base(1) by (auto simp: route_for_sub_state_def Let_def split: option.splits if_splits)
  show ?thesis
  proof (cases "effective_overlay ?c ?tags")
    case None
    have "route_for_sub_state library (Some ?c) = Inr base" using base(1) by (simp add: route_normalized)
    with None base no_tag show ?thesis
      by (simp add: route_for_state_with_overlays_def Let_def)
  next
    case (Some ov)
    have compat: "ov \<in> set ?tags" "ov \<in> set STATE_OVERLAY_CODES"
      "?c \<in> set (the (map_of OVERLAY_COMPATIBLE_PRIMARY_STATES ov))"
      using Some by (auto simp: effective_overlay_def find_Some_iff STATE_OVERLAY_CODES_def
          nth_Cons OVERLAY_COMPATIBLE_PRIMARY_STATES_def split: nat.splits option.splits if_splits)
    have "list_all (\<lambda>ov. list_all (\<lambda>c. case (route_for_sub_state (set table_ids) (Some c),
          route_for_sub_state (set table_ids) (Some ov)) of
            (Inr b, Inr r) \<Rightarrow> pl_should_intervene b \<longrightarrow> pl_should_intervene r | _ \<Rightarrow> False)
        (the (map_of OVERLAY_COMPATIBLE_PRIMARY_STATES ov))) STATE_OVERLAY_CODES"
      by code_simp
    then have "case (route_for_sub_state (set table_ids) (Some ?c),
          route_for_sub_state (set table_ids) (Some ov)) of
            (Inr b, Inr r) \<Rightarrow> pl_should_intervene b \<longrightarrow> pl_should_intervene r | _ \<Rightarrow> False"
      using compat(2,3) unfolding list_all_iff by blast
    then obtain b r where
      br: "route_for_sub_state (set table_ids) (Some ?c) = Inr b"
        "route_for_sub_state (set table_ids) (Some ov) = Inr r"
        "pl_should_intervene b \<longrightarrow> pl_should_intervene r"
      by (auto split: sum.splits)
    from route_more_ids [OF br(1) assms] base(1) have "b = base" by (simp add: route_normalized)
    with br route_more_ids [OF br(2) assms] Some base compat(1) show ?thesis
      by (auto simp: route_for_state_with_overlays_def Let_def)
  qed
qed

lemma overlays_only_escalate_witness:
  "\<exists>r. route_for_state_with_overlays (set table_ids) (Some ''standard'')
     (Tag_List [JStr ''high_intensity_overload'']) = Inr r \<and> pl_canonical r = ''standard''"
proof -
  have "normalize_canonical_sub_state (Some ''standard'') = ''standard''" by code_simp
  with overlays_only_escalate [OF subset_refl, of "Some ''standard''" "Tag_List [JStr ''high_intensity_overload'']"]
  show ?thesis by auto
qed

subsection \<open>Routing and coordination\<close>

text \<open>
  Routing and coordination agree on what is urgent: a canonical state is routed to an
  intervention exactly when it gives a run a coordination priority of at most 4, and such a
  run always outranks one of a state that needs no intervention.
\<close>

theorem urgency_matches_routing:
  assumes "route_for_sub_state library v = Inr r"
  shows "pl_should_intervene r
    \<longleftrightarrow> priority_for None (Some (normalize_canonical_sub_state v)) None None dflt \<le> 4"
proof -
  let ?c = "normalize_canonical_sub_state v"
  have "list_all (\<lambda>c. case (map_of PRIORITY_BY_SUB_STATE c, map_of ROUTE_MANIFEST c) of
      (Some i, Some m) \<Rightarrow> (rt_mode m = ''REQUIRED_INTERVENTION'') = (i \<le> 4) | _ \<Rightarrow> False)
      CANONICAL_SUB_STATE_CODES"
    by code_simp
  then have "case (map_of PRIORITY_BY_SUB_STATE ?c, map_of ROUTE_MANIFEST ?c) of
      (Some i, Some m) \<Rightarrow> (rt_mode m = ''REQUIRED_INTERVENTION'') = (i \<le> 4) | _ \<Rightarrow> False"
    using normalize_canonical_mem [of v] unfolding list_all_iff by blast
  then obtain i m where
    im: "map_of PRIORITY_BY_SUB_STATE ?c = Some i" "map_of ROUTE_MANIFEST ?c = Some m"
      "(rt_mode m = ''REQUIRED_INTERVENTION'') = (i \<le> 4)"
    by (auto split: option.splits)
  have strip: "strip ?c = ?c" by (rule canonical_codes_strip [OF normalize_canonical_mem])
  have "map_of PRIORITY_BY_TRIGGER [] = None" "map_of PRIORITY_BY_COARSE_STATE [] = None" by code_simp+
  with im(1) strip have "priority_for None (Some ?c) None None dflt = i"
    by (simp add: priority_for_def priority_candidates_def option_list_def)
  moreover have "pl_should_intervene r = (rt_mode m = ''REQUIRED_INTERVENTION'')"
    using assms im(2) strip
    by (auto simp: route_for_sub_state_def route_for_canonical_state_def Let_def split: if_splits)
  ultimately show ?thesis using im(3) by simp
qed

lemma urgency_matches_routing_witness:
  "(4::int) \<ge> priority_for None (Some ''burnout'') None None 6"
proof -
  have 1: "route_for_sub_state (set table_ids) (Some ''burnout'')
      = Inr (projr (route_for_sub_state (set table_ids) (Some ''burnout'')))"
    "pl_should_intervene (projr (route_for_sub_state (set table_ids) (Some ''burnout'')))"
    "normalize_canonical_sub_state (Some ''burnout'') = ''burnout''"
    by code_simp+
  from urgency_matches_routing [OF 1(1), of 6] 1(2,3) show ?thesis by simp
qed

end
