(* ===== verification/Window_Results.thy ===== *)
theory Window_Results
  imports Assessment_Batch
begin

text \<open>
  \<open>services/state_assessment_batch_service.py\<close>, what becomes of a window after the model
  answered: storing the segments and advancing the cursors, preparing failed windows for
  replay, the observation status, the state a student message is shown with, and the link
  from an intervention to its segment.
\<close>

subsection \<open>A successful answer\<close>

definition segment_of ::
    "batch_row \<Rightarrow> stamp \<Rightarrow> string option \<Rightarrow> json option \<Rightarrow> normal_segment \<Rightarrow> segment_row" where
  "segment_of b ts prompt raw n =
     \<lparr>sg_id = 0, sg_group_id = b_group_id b, sg_session_id = b_session_id b,
      sg_session_no = b_session_no b, sg_task_id = b_task_id b, sg_discussion_id = b_discussion_id b,
      sg_state_code = ns_state_code n, sg_raw_sub_state_code = raw,
      sg_canonical_sub_state_code = ns_canonical n, sg_secondary_tags = Some (ns_secondary_tags n),
      sg_should_intervene = ns_should_intervene n, sg_selected_strategy_id = None,
      sg_source_stage = ns_source_stage n, sg_assessment_batch_id = b_id b,
      sg_start_sequence = ns_start n, sg_end_sequence = ns_end n,
      sg_evidence_sequences = ns_evidence n,
      sg_sub_state_confidence = Option.bind (ns_sub_state_confidence n) float_column,
      sg_confidence = Option.bind (ns_confidence n) float_column,
      sg_fallback_reason = None, sg_source = ns_source n,
      sg_assessment_status = ns_assessment_status n, sg_segment_order = ns_order n,
      sg_is_active_at_batch_end = ns_active n, sg_trigger_type = ns_trigger_type n,
      sg_assessment_id = None, sg_analysis_anchor = b_candidate_start_sequence b,
      sg_analysis_window_start = window_start b, sg_analysis_window_end = b_candidate_end_sequence b,
      sg_prompt_version = or_text prompt (b_prompt_version b),
      sg_is_finalized = (if ns_assessment_status n = ''confirmed'' then 1 else 0),
      sg_dedupe_key = Segment_Key (b_id b) (ns_order n), sg_created_at = ts, sg_updated_at = ts,
      sg_strategy_pipeline_run_id = None, sg_coarse_state_code = None, sg_strategy_library_version = None,
      sg_intervention_run_id = None, sg_intervention_published_at = None, sg_intervention_disposition = None\<rparr>"

definition add_segment :: "segment_row \<Rightarrow> platform \<Rightarrow> string + platform" where
  "add_segment s d =
     (if (\<exists>q\<in>set (segments d). sg_dedupe_key q = sg_dedupe_key s) \<or> order_taken s d then Inl ''IntegrityError''
      else Inr (append_segment s d))"

text \<open>The loop over the validated segments; it returns the new ids by segment order.\<close>

fun store_segments ::
    "batch_row \<Rightarrow> stamp \<Rightarrow> string option \<Rightarrow> normal_segment list \<Rightarrow> platform
       \<Rightarrow> string + ((int \<times> int) list \<times> platform)" where
  "store_segments b ts prompt [] d = Inr ([], d)"
| "store_segments b ts prompt (n # ns) d =
     andthen (bound_value (ns_raw_sub_state n)) (\<lambda>raw.
     andthen (bound_value (JInt (ns_order n))) (\<lambda>_.
     andthen (add_segment (segment_of b ts prompt raw n) d) (\<lambda>d1.
     andthen (store_segments b ts prompt ns d1) (\<lambda>(ids, d2).
       Inr ((ns_order n, next_segment_id d) # ids, d2)))))"

text \<open>The stored copy of the answer names the target segment by its row id.\<close>

definition target_segment :: "(int \<times> int) list \<Rightarrow> json \<Rightarrow> json" where
  "target_segment ids t =
     (case t of JInt k \<Rightarrow> (case map_of ids k of None \<Rightarrow> JNull | Some i \<Rightarrow> JInt i) | _ \<Rightarrow> JNull)"

definition stored_answer :: "(int \<times> int) list \<Rightarrow> json \<Rightarrow> json" where
  "stored_answer ids parsed =
     (case parsed of
        JObj p \<Rightarrow>
          (case dget p ''intervention'' of
             JObj i \<Rightarrow> JObj (dput ''intervention''
               (JObj (dput ''target_segment_id'' (target_segment ids (dget i ''target_segment_index'')) i)) p)
           | _ \<Rightarrow> parsed)
      | _ \<Rightarrow> parsed)"

definition observation_reason :: "(json \<Rightarrow> string) \<Rightarrow> json \<Rightarrow> string" where
  "observation_reason render stored =
     (case stored of
        JObj p \<Rightarrow>
          (case dget p ''intervention'' of
             JObj i \<Rightarrow> strip (if jtruthy (dget i ''reason_code'') then py_str render (dget i ''reason_code'') else [])
           | _ \<Rightarrow> [])
      | _ \<Rightarrow> [])"

definition succeeded_row ::
    "stamp \<Rightarrow> string option \<Rightarrow> string option \<Rightarrow> string option \<Rightarrow> json \<Rightarrow> batch_row \<Rightarrow> batch_row" where
  "succeeded_row ts raw model prompt stored b = b\<lparr>b_status := ''succeeded'', b_rerun_requested := False,
     b_model := coalesce model (b_model b), b_prompt_version := coalesce prompt (b_prompt_version b),
     b_raw_response := raw, b_parsed_response := (if stored = JNull then None else Some stored),
     b_error_code := None, b_error_detail := None, b_next_retry_at := None,
     b_completed_at := Some ts, b_updated_at := Some ts\<rparr>"

definition finalized_to :: "stamp \<Rightarrow> int \<Rightarrow> cursor_row \<Rightarrow> cursor_row" where
  "finalized_to ts e c = (scheduled_to ts e c)\<lparr>
     c_last_finalized_student_sequence := (if c_last_finalized_student_sequence c < e then e
                                           else c_last_finalized_student_sequence c)\<rparr>"

definition stop_observing :: "stamp \<Rightarrow> cursor_row \<Rightarrow> cursor_row" where
  "stop_observing ts c = (if c_observation_status c = ''observing''
     then c\<lparr>c_observation_status := ''inactive'', c_updated_at := ts\<rparr> else c)"

record save_result =
  sv_saved :: bool
  sv_segment_ids :: "int list"
  sv_batch :: batch_row
  sv_segments :: "segment_row list"

definition segments_of_batch :: "int \<Rightarrow> platform \<Rightarrow> segment_row list" where
  "segments_of_batch bid d = sort_key (\<lambda>s. (sg_segment_order s, sg_id s))
     (filter (\<lambda>s. sg_assessment_batch_id s = bid) (segments d))"

definition window_students :: "platform \<Rightarrow> batch_row \<Rightarrow> int list" where
  "window_students d b = sequences (candidate_student_rows d (b_group_id b) (b_session_id b)
     (b_discussion_id b) (b_candidate_start_sequence b) (b_candidate_end_sequence b))"

text \<open>The tail of the transaction, after the segments are stored.\<close>

definition save_commit ::
    "(json \<Rightarrow> string) \<Rightarrow> stamp \<Rightarrow> batch_row \<Rightarrow> string option \<Rightarrow> json \<Rightarrow> string option \<Rightarrow> string option
       \<Rightarrow> platform \<Rightarrow> string + platform" where
  "save_commit render ts b raw stored model prompt d =
     andthen (ensure_cursor ts (batch_scope b)
       (change_batch (b_id b) (\<lambda>r. batch_scope r = batch_scope b \<and> b_status r = ''running'')
          (succeeded_row ts raw model prompt stored) d)) (\<lambda>d1.
       (let d2 = change_cursor (batch_scope b) (finalized_to ts (b_candidate_end_sequence b)) d1
        in Inr (if observation_reason render stored \<notin> {[], ''continue_observing'', ''insufficient_evidence''}
                then change_cursor (batch_scope b) (stop_observing ts) d2 else d2)))"

definition save_successful_segments ::
    "string set \<Rightarrow> (json \<Rightarrow> string) \<Rightarrow> datetime \<Rightarrow> int \<Rightarrow> json \<Rightarrow> string option \<Rightarrow> json
       \<Rightarrow> string option \<Rightarrow> string option \<Rightarrow> platform \<Rightarrow> string + (save_result \<times> platform)" where
  "save_successful_segments library render now bid answer raw parsed model prompt d =
     andthen (batch_with_scope d bid) (\<lambda>b.
       if b_status b = ''succeeded''
       then Inr (\<lparr>sv_saved = False, sv_segment_ids = [], sv_batch = b,
                   sv_segments = segments_of_batch bid d\<rparr>, d)
       else if b_status b \<noteq> ''running'' then Inl ''batch_not_running''
       else
         andthen (normalize_segments library render b (Some (set (window_students d b))) answer) (\<lambda>ns.
         andthen (store_segments b (fmt_sec now) prompt ns d) (\<lambda>(ids, d1).
         andthen (save_commit render (fmt_sec now) b raw (stored_answer ids parsed) model prompt d1) (\<lambda>d2.
           Inr (\<lparr>sv_saved = True, sv_segment_ids = map snd ids,
                  sv_batch = the (fetch_batch d2 bid),
                  sv_segments = segments_of_batch bid d2\<rparr>, d2)))))"

subsection \<open>Replaying failed windows\<close>

record replay_result =
  rr_prepared :: bool
  rr_reason :: string
  rr_batches :: "batch_row list"
  rr_replay_from :: "int option"
  rr_fallback_segments :: nat

definition replay_refused :: "string \<Rightarrow> batch_row list \<Rightarrow> int option \<Rightarrow> replay_result" where
  "replay_refused reason rows from_seq = \<lparr>rr_prepared = False, rr_reason = reason, rr_batches = rows,
     rr_replay_from = from_seq, rr_fallback_segments = 0\<rparr>"

definition replayable :: "scope \<Rightarrow> string list \<Rightarrow> batch_row \<Rightarrow> bool" where
  "replayable sc codes b \<longleftrightarrow> batch_scope b = sc \<and> b_status b = ''failed''
     \<and> b_terminal_status b \<in> Some ` set TERMINAL_BATCH_STATUSES
     \<and> b_error_code b \<in> Some ` set codes \<and> b_student_sequences b \<noteq> None"

definition replay_row :: "stamp \<Rightarrow> batch_row \<Rightarrow> batch_row" where
  "replay_row ts b = b\<lparr>b_attempt_count := 0, b_next_retry_at := None, b_enqueued_at := None,
     b_terminal_status := None, b_terminal_at := None, b_fallback_action := Some ''state_only_replay'',
     b_fallback_segment_count := 0, b_started_at := None, b_completed_at := None,
     b_error_code := None, b_error_detail := None, b_rerun_requested := True,
     b_updated_at := Some ts\<rparr>"

definition pipeline_replayed :: "stamp \<Rightarrow> pipeline_row \<Rightarrow> pipeline_row" where
  "pipeline_replayed ts p = p\<lparr>p_stage2_status := Some ''PENDING'', p_stage2_started_at := None,
     p_stage2_completed_at := None, p_stage3_status := None, p_publish_status := Some ''NOT_READY'',
     p_final_status := Some ''PENDING_STAGE2'', p_skip_reason := None, p_failure_code := None,
     p_failure_detail := None, p_updated_at := Some ts\<rparr>"

definition failed_at_window :: "scope \<Rightarrow> int list \<Rightarrow> pipeline_row \<Rightarrow> bool" where
  "failed_at_window sc ends p \<longleftrightarrow> (case sc of (gid, sid, did) \<Rightarrow>
     p_group_id p = gid \<and> or0 (p_session_id p) = sid \<and> or0 (p_discussion_id p) = did
     \<and> p_stage2_status p = Some ''FAILED''
     \<and> p_input_cutoff_student_sequence p \<in> Some ` set ends)"

definition rewound :: "stamp \<Rightarrow> int \<Rightarrow> cursor_row \<Rightarrow> cursor_row" where
  "rewound ts q c = c\<lparr>c_last_scheduled_student_sequence := q, c_last_assessment_completed_at := None,
     c_last_scheduling_completed_at := None, c_updated_at := ts\<rparr>"

definition replay_apply :: "stamp \<Rightarrow> scope \<Rightarrow> batch_row list \<Rightarrow> int \<Rightarrow> platform \<Rightarrow> platform" where
  "replay_apply ts sc rows q d =
     (let ids = map b_id rows;
          d1 = d\<lparr>segments := filter (\<lambda>s. \<not> is_fallback_of ids s) (segments d)\<rparr>;
          d2 = change_batches (\<lambda>b. b_id b \<in> set ids \<and> b_status b = ''failed'') (replay_row ts) d1;
          d3 = change_pipelines
                 (failed_at_window sc (map b_candidate_end_sequence
                    (filter (\<lambda>b. b_id b \<in> set ids) (batches d2)))) (pipeline_replayed ts) d2
      in change_cursor sc (rewound ts q) d3)"

definition normalized_codes :: "string option list \<Rightarrow> string list" where
  "normalized_codes codes = dedupe [] (map (\<lambda>c. strip (text_of c)) (filter truthy codes))"

definition prepare_scope_reprocessing ::
    "datetime \<Rightarrow> scope \<Rightarrow> bool \<Rightarrow> string option list \<Rightarrow> platform \<Rightarrow> string + (replay_result \<times> platform)" where
  "prepare_scope_reprocessing now sc do_apply codes d =
     (let wanted = normalized_codes codes in
      if wanted = [] then Inl ''reprocess_error_codes_required''
      else if \<exists>b\<in>set (batches d). batch_scope b = sc \<and> active_batch b
      then Inr (replay_refused ''active_batch_exists'' [] None, d)
      else
        (let rows = sort_key (\<lambda>b. (b_candidate_start_sequence b, b_id b))
                      (filter (replayable sc wanted) (batches d))
         in case rows of
              [] \<Rightarrow> Inr (replay_refused ''no_matching_terminal_batches'' [] None, d)
            | first # _ \<Rightarrow>
                (let replay_from = b_candidate_start_sequence first - 1;
                     finalized = (case cursor_of d sc of None \<Rightarrow> 0
                                  | Some c \<Rightarrow> c_last_finalized_student_sequence c)
                 in if finalized > replay_from
                    then Inr (replay_refused ''finalized_cursor_overlaps_replay'' rows (Some (replay_from + 1)), d)
                    else
                      Inr (\<lparr>rr_prepared = do_apply,
                             rr_reason = (if do_apply then ''scope_reprocessing_prepared'' else ''dry_run''),
                             rr_batches = rows, rr_replay_from = Some (replay_from + 1),
                             rr_fallback_segments = rowcount (is_fallback_of (map b_id rows)) (segments d)\<rparr>,
                           if do_apply then replay_apply (fmt_sec now) sc rows (max finalized replay_from) d
                           else d))))"

subsection \<open>Observation\<close>

definition set_observation ::
    "datetime \<Rightarrow> scope \<Rightarrow> string option \<Rightarrow> int option \<Rightarrow> int option \<Rightarrow> platform
       \<Rightarrow> string + (cursor_row \<times> platform)" where
  "set_observation now sc status started last_intervention d =
     (let st = strip (text_of status); ts = fmt_sec now in
      if st \<notin> set OBSERVATION_STATUSES then Inl ''invalid_observation_status''
      else andthen (ensure_cursor ts sc d) (\<lambda>d1.
        (let d2 = change_cursor sc (\<lambda>c. c\<lparr>c_observation_status := st,
                    c_observation_started_sequence := started,
                    c_last_intervention_sequence := coalesce last_intervention (c_last_intervention_sequence c),
                    c_updated_at := ts\<rparr>) d1
         in Inr (the (cursor_of d2 sc), d2))))"

subsection \<open>The state of a student message\<close>

record classification =
  cl_semantic_state :: "string option"
  cl_assessment_status :: string
  cl_segment_id :: "int option"
  cl_assessment_batch_id :: "int option"
  cl_confidence :: "rat option"
  cl_evidence_sequences :: "int list"
  cl_fallback_reason :: "string option"
  cl_error_code :: "string option"

definition unsettled :: "string \<Rightarrow> classification" where
  "unsettled status = \<lparr>cl_semantic_state = None, cl_assessment_status = status, cl_segment_id = None,
     cl_assessment_batch_id = None, cl_confidence = None, cl_evidence_sequences = [],
     cl_fallback_reason = None, cl_error_code = None\<rparr>"

definition terminal_batch :: "batch_row \<Rightarrow> bool" where
  "terminal_batch b \<longleftrightarrow> b_terminal_status b \<in> Some ` set TERMINAL_BATCH_STATUSES"

definition covers :: "int \<Rightarrow> segment_row \<Rightarrow> bool" where
  "covers q s \<longleftrightarrow> sg_start_sequence s \<le> q \<and> q \<le> sg_end_sequence s"

text \<open>The join of the segments with the batches of the scope.\<close>

definition scope_segments :: "platform \<Rightarrow> scope \<Rightarrow> (segment_row \<times> batch_row) list" where
  "scope_segments d sc = concat (map (\<lambda>s. map (Pair s)
     (filter (\<lambda>b. b_id b = sg_assessment_batch_id s \<and> batch_scope b = sc) (batches d))) (segments d))"

definition answered :: "segment_row \<times> batch_row \<Rightarrow> bool" where
  "answered p \<longleftrightarrow> b_status (snd p) = ''succeeded'' \<and> sg_source (fst p) = ''llm''"

definition confirmed_segment :: "platform \<Rightarrow> scope \<Rightarrow> int \<Rightarrow> (segment_row \<times> batch_row) option" where
  "confirmed_segment d sc q = max_by
     (\<lambda>(s, b). (answered (s, b), b_completed_at b, sg_confidence s, sg_id s))
     (filter (\<lambda>(s, b). sg_assessment_status s = ''confirmed'' \<and> covers q s
        \<and> (answered (s, b)
           \<or> terminal_batch b \<and> sg_source s = ''rule''
             \<and> sg_fallback_reason s = Some FALLBACK_REASON_RETRY_EXHAUSTED))
       (scope_segments d sc))"

definition unclassified_fallback :: "platform \<Rightarrow> scope \<Rightarrow> int \<Rightarrow> (segment_row \<times> batch_row) option" where
  "unclassified_fallback d sc q = max_by
     (\<lambda>(s, b). (coalesce (b_terminal_at b) (coalesce (b_completed_at b) (b_updated_at b)), sg_id s))
     (filter (\<lambda>(s, b). sg_assessment_status s = ''unclassified''
        \<and> sg_fallback_reason s = Some FALLBACK_REASON_BATCH_UNCLASSIFIED
        \<and> terminal_batch b \<and> covers q s)
       (scope_segments d sc))"

text \<open>An observation lasts for \<open>rounds\<close> (at least 1) successful windows after its start.\<close>

definition observation_start :: "cursor_row \<Rightarrow> int \<Rightarrow> int option" where
  "observation_start c q =
     (case c_observation_started_sequence c of
        Some s \<Rightarrow> Some s
      | None \<Rightarrow> (case c_last_intervention_sequence c of
                   Some i \<Rightarrow> if q > i then Some q else None
                 | None \<Rightarrow> None))"

definition observation_expired_through :: "nat \<Rightarrow> platform \<Rightarrow> scope \<Rightarrow> int \<Rightarrow> int option" where
  "observation_expired_through rounds d sc s =
     (let done_rows = sort_key (\<lambda>b. (b_completed_at b, b_id b))
            (filter (\<lambda>b. batch_scope b = sc \<and> b_status b = ''succeeded''
               \<and> b_candidate_end_sequence b \<ge> s) (batches d))
      in if length done_rows \<ge> rounds then Some (b_candidate_end_sequence (done_rows ! (rounds - 1)))
         else None)"

definition under_observation :: "nat \<Rightarrow> platform \<Rightarrow> scope \<Rightarrow> int \<Rightarrow> bool" where
  "under_observation rounds d sc q =
     (case cursor_of d sc of
        None \<Rightarrow> False
      | Some c \<Rightarrow> c_observation_status c = ''observing'' \<and>
          (case observation_start c q of
             None \<Rightarrow> False
           | Some s \<Rightarrow> q \<ge> s \<and>
               (case observation_expired_through rounds d sc s of None \<Rightarrow> True | Some e \<Rightarrow> q > e)))"

definition classify :: "nat \<Rightarrow> platform \<Rightarrow> scope \<Rightarrow> int \<Rightarrow> classification" where
  "classify rounds d sc q =
     (case confirmed_segment d sc q of
        Some (s, b) \<Rightarrow>
          \<lparr>cl_semantic_state = Some (sg_state_code s), cl_assessment_status = ''confirmed'',
           cl_segment_id = Some (sg_id s), cl_assessment_batch_id = Some (sg_assessment_batch_id s),
           cl_confidence = sg_confidence s, cl_evidence_sequences = sg_evidence_sequences s,
           cl_fallback_reason = sg_fallback_reason s, cl_error_code = None\<rparr>
      | None \<Rightarrow>
          (case unclassified_fallback d sc q of
             Some (s, b) \<Rightarrow>
               \<lparr>cl_semantic_state = None, cl_assessment_status = ''unclassified'',
                cl_segment_id = Some (sg_id s), cl_assessment_batch_id = Some (sg_assessment_batch_id s),
                cl_confidence = sg_confidence s, cl_evidence_sequences = [],
                cl_fallback_reason = sg_fallback_reason s, cl_error_code = b_error_code b\<rparr>
           | None \<Rightarrow> unsettled (if under_observation rounds d sc q then ''observing'' else ''unclassified'')))"

definition get_message_classification ::
    "nat \<Rightarrow> scope \<Rightarrow> int \<Rightarrow> platform \<Rightarrow> string + classification" where
  "get_message_classification rounds sc q d =
     andthen (scope_row d sc) (\<lambda>_.
       case find (\<lambda>m. (case sc of (gid, sid, did) \<Rightarrow> m_group_id m = gid \<and> m_session_id m = Some sid
                   \<and> m_discussion_id m = Some did) \<and> m_sequence m = Some q) (messages d) of
         None \<Rightarrow> Inl ''student_message_not_found''
       | Some m \<Rightarrow>
           if lower (text_of (or_text (m_role m) (m_sender_type m))) \<noteq> ''student''
           then Inl ''message_not_student''
           else Inr (classify rounds d sc q))"

subsection \<open>The intervention of a window\<close>

definition link_intervention_to_segment ::
    "int \<Rightarrow> int \<Rightarrow> int \<Rightarrow> string option \<Rightarrow> string option \<Rightarrow> platform
       \<Rightarrow> string + (intervention_row \<times> platform)" where
  "link_intervention_to_segment run bid sid trigger reason d =
     andthen (batch_with_scope d bid) (\<lambda>b.
       case find (\<lambda>s. sg_id s = sid \<and> sg_assessment_batch_id s = b_id b \<and> sg_group_id s = b_group_id b
              \<and> sg_session_id s = b_session_id b) (segments d) of
         None \<Rightarrow> Inl ''target_segment_scope_mismatch''
       | Some s \<Rightarrow>
           (let mine = (\<lambda>r. ir_id r = run \<and> ir_group_id r = b_group_id b
                  \<and> ir_session_id r = Some (b_session_id b))
            in if find mine (interventions d) = None then Inl ''intervention_scope_mismatch''
               else
                 (let d1 = change_interventions mine (\<lambda>r. r\<lparr>ir_assessment_batch_id := Some (b_id b),
                          ir_target_segment_id := Some (sg_id s),
                          ir_trigger_type := coalesce trigger (ir_trigger_type r),
                          ir_reason_code := reason\<rparr>) d
                  in Inr (the (fetch_intervention d1 run), d1))))"

end
