(* ===== verification/Window_Machine.thy ===== *)
theory Window_Machine
  imports Window_Results
begin

text \<open>
  The state machine of an assessment window, and the invariant of the assessment tables.
  Each table operation of the services is shown to keep the invariant under a condition on
  the row function it applies, so that the services themselves follow by composition.
\<close>

subsection \<open>The life of a window\<close>

datatype stage = Pending | Running | Succeeded | Failed | Superseded

definition stage_of :: "string \<Rightarrow> stage option" where
  "stage_of s = (if s = ''pending'' then Some Pending else if s = ''running'' then Some Running
     else if s = ''succeeded'' then Some Succeeded else if s = ''failed'' then Some Failed
     else if s = ''superseded'' then Some Superseded else None)"

text \<open>
  A window with \<open>n\<close> attempts made of \<open>m\<close> allowed.  \<open>replay\<close> is the only step that forgets
  attempts, and only of a failed window.
\<close>

inductive window_step :: "int \<Rightarrow> stage \<times> int \<Rightarrow> stage \<times> int \<Rightarrow> bool" for m where
  idle: "window_step m (p, n) (p, n)"
| claim: "window_step m (Pending, n) (Running, n + 1)"
| fail: "p \<in> {Pending, Running, Failed} \<Longrightarrow> window_step m (p, n) (Failed, n)"
| retry: "n < m \<Longrightarrow> window_step m (Failed, n) (Pending, n)"
| succeed: "window_step m (Running, n) (Succeeded, n)"
| replay: "window_step m (Failed, n) (Failed, 0)"

inductive_cases window_stepE: "window_step m (p, n) (q, k)"

inductive_simps window_step_simps [simp]:
  "window_step m (Pending, n) (q, k)" "window_step m (Running, n) (q, k)"
  "window_step m (Succeeded, n) (q, k)" "window_step m (Failed, n) (q, k)"
  "window_step m (Superseded, n) (q, k)"

definition attempts_ok :: "int \<Rightarrow> stage \<times> int \<Rightarrow> bool" where
  "attempts_ok m s \<longleftrightarrow> 1 \<le> m \<and> 0 \<le> snd s \<and> snd s \<le> m \<and> (fst s = Pending \<longrightarrow> snd s < m)"

lemma window_step_attempts: "window_step m s t \<Longrightarrow> attempts_ok m s \<Longrightarrow> attempts_ok m t"
  by (induction rule: window_step.induct) (auto simp: attempts_ok_def)

definition machine_of :: "batch_row \<Rightarrow> (stage \<times> int) option" where
  "machine_of b = map_option (\<lambda>p. (p, b_attempt_count b)) (stage_of (b_status b))"

definition frozen_part :: "batch_row \<Rightarrow> int \<times> scope \<times> int \<times> int \<times> int" where
  "frozen_part b = (b_id b, batch_scope b, b_candidate_start_sequence b, b_candidate_end_sequence b, b_max_attempts b)"

text \<open>One operation's effect on one row.\<close>

definition window_move :: "batch_row \<Rightarrow> batch_row \<Rightarrow> bool" where
  "window_move b b' \<longleftrightarrow> frozen_part b' = frozen_part b \<and>
     (case (machine_of b, machine_of b') of
        (Some s, Some t) \<Rightarrow> window_step (b_max_attempts b) s t
      | (None, None) \<Rightarrow> True
      | _ \<Rightarrow> False)"

lemma stage_of_literals [simp]:
  "stage_of ''pending'' = Some Pending" "stage_of ''running'' = Some Running"
  "stage_of ''succeeded'' = Some Succeeded" "stage_of ''failed'' = Some Failed"
  by (simp_all add: stage_of_def)

lemma stage_of_iff:
  "stage_of s = Some Pending \<longleftrightarrow> s = ''pending''" "stage_of s = Some Running \<longleftrightarrow> s = ''running''"
  "stage_of s = Some Succeeded \<longleftrightarrow> s = ''succeeded''" "stage_of s = Some Failed \<longleftrightarrow> s = ''failed''"
  by (auto simp: stage_of_def split: if_splits)

subsection \<open>The invariant\<close>

definition finalized_through :: "platform \<Rightarrow> scope \<Rightarrow> int" where
  "finalized_through d sc = (case cursor_of d sc of None \<Rightarrow> 0 | Some c \<Rightarrow> c_last_finalized_student_sequence c)"

definition cursor_ok :: "cursor_row \<Rightarrow> bool" where
  "cursor_ok c \<longleftrightarrow> 0 \<le> c_last_finalized_student_sequence c
     \<and> c_last_finalized_student_sequence c \<le> c_last_scheduled_student_sequence c"

definition batch_ok :: "batch_row \<Rightarrow> bool" where
  "batch_ok b \<longleftrightarrow> b_candidate_start_sequence b \<le> b_candidate_end_sequence b
     \<and> (\<exists>s. machine_of b = Some s \<and> attempts_ok (b_max_attempts b) s)"

definition key_ok :: "segment_row \<Rightarrow> bool" where
  "key_ok s = (case sg_dedupe_key s of
     Segment_Key b n \<Rightarrow> sg_assessment_batch_id s = b
   | Rule_Key b a \<Rightarrow> sg_assessment_batch_id s = b
   | Unclassified_Key b i j \<Rightarrow> sg_assessment_batch_id s = b \<and> sg_start_sequence s = i
       \<and> sg_end_sequence s = j \<and> sg_assessment_status s = ''unclassified''
       \<and> sg_fallback_reason s = Some FALLBACK_REASON_BATCH_UNCLASSIFIED)"

definition window_of :: "batch_row \<Rightarrow> scope \<times> int \<times> int" where
  "window_of b = (batch_scope b, b_candidate_start_sequence b, b_candidate_end_sequence b)"

definition batches_inv :: "platform \<Rightarrow> bool" where
  "batches_inv d \<longleftrightarrow> distinct (map b_id (batches d)) \<and> (\<forall>b\<in>set (batches d). b_id b < next_batch_id d)
     \<and> distinct (map window_of (batches d)) \<and> single_flight d \<and> (\<forall>b\<in>set (batches d). batch_ok b)"

definition cursors_inv :: "platform \<Rightarrow> bool" where
  "cursors_inv d \<longleftrightarrow> distinct (map cursor_scope (cursors d)) \<and> (\<forall>c\<in>set (cursors d). cursor_ok c)"

definition finalized_inv :: "platform \<Rightarrow> bool" where
  "finalized_inv d \<longleftrightarrow> (\<forall>b\<in>set (batches d). b_status b = ''succeeded''
     \<longrightarrow> b_candidate_end_sequence b \<le> finalized_through d (batch_scope b))"

definition segments_inv :: "platform \<Rightarrow> bool" where
  "segments_inv d \<longleftrightarrow> distinct (map sg_id (segments d)) \<and> (\<forall>s\<in>set (segments d). sg_id s < next_segment_id d)
     \<and> distinct (map sg_dedupe_key (segments d)) \<and> (\<forall>s\<in>set (segments d). key_ok s)"

definition batch_inv :: "platform \<Rightarrow> bool" where
  "batch_inv d \<longleftrightarrow> batches_inv d \<and> cursors_inv d \<and> finalized_inv d \<and> segments_inv d"

lemmas batch_inv_parts = batch_inv_def batches_inv_def cursors_inv_def finalized_inv_def segments_inv_def

text \<open>Only these tables matter.\<close>

lemma batch_inv_cong:
  "batches d' = batches d \<Longrightarrow> cursors d' = cursors d \<Longrightarrow> segments d' = segments d \<Longrightarrow>
   next_batch_id d' = next_batch_id d \<Longrightarrow> next_segment_id d' = next_segment_id d \<Longrightarrow>
   batch_inv d' = batch_inv d"
  by (simp add: batch_inv_parts single_flight_def finalized_through_def cursor_of_def)

lemma batch_inv_frame [simp]:
  "batch_inv (log_event e d) = batch_inv d" "batch_inv (change_pipelines P f d) = batch_inv d"
  "batch_inv (change_interventions J g d) = batch_inv d"
  by (rule batch_inv_cong; simp)+

subsection \<open>Cursors\<close>

lemma find_update_where:
  "(\<And>r. key (f r) = key r) \<Longrightarrow>
   find (\<lambda>r. key r = k) (update_where P f rows) = map_option (\<lambda>r. if P r then f r else r) (find (\<lambda>r. key r = k) rows)"
  by (induction rows) auto

lemma find_unique:
  "distinct (map key rows) \<Longrightarrow> r \<in> set rows \<Longrightarrow> find (\<lambda>x. key x = key r) rows = Some r"
  by (induction rows) (auto simp: image_iff)

lemma cursor_ofD: "cursor_of d sc = Some c \<Longrightarrow> c \<in> set (cursors d) \<and> cursor_scope c = sc"
  by (auto simp: cursor_of_def find_Some_iff)

lemma cursor_of_change:
  assumes "\<And>c. cursor_scope (f c) = cursor_scope c"
  shows "cursor_of (change_cursor sc f d) k = map_option (\<lambda>c. if k = sc then f c else c) (cursor_of d k)"
proof -
  have "cursor_of (change_cursor sc f d) k
      = map_option (\<lambda>c. if cursor_scope c = sc then f c else c) (cursor_of d k)"
    using assms by (simp add: cursor_of_def change_cursor_def find_update_where [of cursor_scope])
  then show ?thesis using cursor_ofD [of d k] by (cases "cursor_of d k") auto
qed

lemma cursor_of_change_batch [simp]: "cursor_of (change_batch bid P f d) sc = cursor_of d sc"
  by (simp add: cursor_of_def change_batch_def)

lemma change_cursor_frame [simp]:
  "batches (change_cursor sc f d) = batches d" "segments (change_cursor sc f d) = segments d"
  "next_batch_id (change_cursor sc f d) = next_batch_id d"
  "next_segment_id (change_cursor sc f d) = next_segment_id d"
  "messages (change_cursor sc f d) = messages d" "users (change_cursor sc f d) = users d"
  by (simp_all add: change_cursor_def)

lemma change_batch_frame [simp]:
  "cursors (change_batch i P f d) = cursors d" "segments (change_batch i P f d) = segments d"
  "next_batch_id (change_batch i P f d) = next_batch_id d"
  "next_segment_id (change_batch i P f d) = next_segment_id d"
  "messages (change_batch i P f d) = messages d" "users (change_batch i P f d) = users d"
  "batches (change_batch i P f d) = update_where (\<lambda>b. b_id b = i \<and> P b) f (batches d)"
  by (simp_all add: change_batch_def)

lemma scope_row_cong: "discussions d' = discussions d \<Longrightarrow> sessions d' = sessions d \<Longrightarrow> scope_row d' = scope_row d"
  by (auto simp: fun_eq_iff scope_row_def fetch_session_def split: option.splits)

lemma scope_row_frame [simp]:
  "scope_row (change_cursor sc f d) = scope_row d" "scope_row (change_batch i P g d) = scope_row d"
  "scope_row (log_event e d) = scope_row d"
  "scope_row (d\<lparr>segments := ss\<rparr>) = scope_row d" "scope_row (d\<lparr>segments := ss, next_segment_id := n\<rparr>) = scope_row d"
  by (rule scope_row_cong; simp add: change_cursor_def change_batch_def)+

definition cursor_forward :: "(cursor_row \<Rightarrow> cursor_row) \<Rightarrow> bool" where
  "cursor_forward f \<longleftrightarrow> (\<forall>c. cursor_scope (f c) = cursor_scope c
     \<and> c_last_finalized_student_sequence c \<le> c_last_finalized_student_sequence (f c)
     \<and> (cursor_ok c \<longrightarrow> cursor_ok (f c)))"

lemma finalized_through_change:
  assumes "\<And>c. cursor_scope (f c) = cursor_scope c"
    and "\<And>c. c_last_finalized_student_sequence c \<le> c_last_finalized_student_sequence (f c)"
  shows "finalized_through d k \<le> finalized_through (change_cursor sc f d) k"
  using assms by (auto simp: finalized_through_def cursor_of_change split: option.splits)

lemma forward_finalized_through:
  "cursor_forward f \<Longrightarrow> finalized_through d k \<le> finalized_through (change_cursor sc f d) k"
  by (intro finalized_through_change) (auto simp: cursor_forward_def)

lemma change_cursor_inv:
  assumes f: "cursor_forward f" and inv: "batch_inv d"
  shows "batch_inv (change_cursor sc f d)"
proof -
  note mono = forward_finalized_through [OF f]
  have "map cursor_scope (cursors (change_cursor sc f d)) = map cursor_scope (cursors d)"
    using f by (simp add: change_cursor_def cursor_forward_def map_key_update_where)
  then have "cursors_inv (change_cursor sc f d)"
    using f inv by (simp add: batch_inv_def cursors_inv_def change_cursor_def ball_update_where cursor_forward_def)
  moreover have "finalized_inv (change_cursor sc f d)"
    using inv order_trans [OF _ mono] by (simp add: batch_inv_def finalized_inv_def)
  ultimately show ?thesis
    using inv by (simp add: batch_inv_def batches_inv_def segments_inv_def single_flight_def)
qed

lemma ensure_cursor_cases:
  assumes "ensure_cursor ts sc d = Inr d1"
  obtains es where "scope_row d sc = Inr es"
    and "d1 = (if cursor_of d sc = None then d\<lparr>cursors := cursors d @ [new_cursor sc es ts]\<rparr> else d)"
  using assms by (auto simp: ensure_cursor_def andthen_Inr_iff)

lemma ensure_cursor_frame:
  assumes "ensure_cursor ts sc d = Inr d1"
  shows "batches d1 = batches d" "segments d1 = segments d" "next_batch_id d1 = next_batch_id d"
    "next_segment_id d1 = next_segment_id d" "messages d1 = messages d" "users d1 = users d"
    "discussions d1 = discussions d" "sessions d1 = sessions d" "interventions d1 = interventions d"
  by (rule ensure_cursor_cases [OF assms], simp)+

lemma new_cursor_scope [simp]: "cursor_scope (new_cursor sc es ts) = sc"
  by (cases sc) (auto simp: new_cursor_def cursor_scope_def)

lemma new_cursor_ok [simp]: "cursor_ok (new_cursor sc es ts)"
  "c_last_finalized_student_sequence (new_cursor sc es ts) = 0"
  by (cases sc; auto simp: new_cursor_def cursor_ok_def)+

lemma find_append: "find P (xs @ ys) = (case find P xs of None \<Rightarrow> find P ys | Some x \<Rightarrow> Some x)"
  by (induction xs) auto

lemma ensure_cursor_finalized:
  assumes "ensure_cursor ts sc d = Inr d1"
  shows "finalized_through d1 k = finalized_through d k" and "cursor_of d1 sc \<noteq> None"
  by (rule ensure_cursor_cases [OF assms];
      auto simp: finalized_through_def cursor_of_def find_append split: option.splits if_splits)+

lemma ensure_cursor_inv:
  assumes e: "ensure_cursor ts sc d = Inr d1" and inv: "batch_inv d"
  shows "batch_inv d1"
proof -
  note frame = ensure_cursor_frame [OF e] and fin = ensure_cursor_finalized [OF e]
  have "cursors_inv d1"
    by (rule ensure_cursor_cases [OF e])
      (use inv in \<open>auto simp: batch_inv_def cursors_inv_def cursor_of_def find_None_iff\<close>)
  with inv show ?thesis
    by (simp add: batch_inv_def batches_inv_def finalized_inv_def segments_inv_def single_flight_def frame fin)
qed

subsection \<open>Batches\<close>

lemma active_iff: "active_batch b \<longleftrightarrow> b_status b = ''pending'' \<or> b_status b = ''running''"
  by (simp add: active_batch_def)

lemma window_move_simps:
  assumes "window_move b b'"
  shows "b_id b' = b_id b" "batch_scope b' = batch_scope b" "window_of b' = window_of b"
    "b_candidate_end_sequence b' = b_candidate_end_sequence b" "b_max_attempts b' = b_max_attempts b"
  using assms by (auto simp: window_move_def frozen_part_def window_of_def)

lemma window_move_ok: "window_move b b' \<Longrightarrow> batch_ok b \<Longrightarrow> batch_ok b'"
  by (auto simp: window_move_def batch_ok_def frozen_part_def split: option.splits
      dest: window_step_attempts)

lemma distinct_map_update:
  assumes "\<And>r. r \<in> set rows \<Longrightarrow> P r \<Longrightarrow> key (f r) = key r"
  shows "map key (update_where P f rows) = map key rows"
  using assms by (auto simp: update_where_def)

lemma single_flight_update:
  assumes f: "\<And>b. b \<in> set bs \<Longrightarrow> P b \<Longrightarrow> batch_scope (f b) = batch_scope b \<and> (active_batch (f b) \<longrightarrow> active_batch b)"
    and sf: "distinct (map batch_scope (filter active_batch bs))"
  shows "distinct (map batch_scope (filter active_batch (update_where P f bs)))"
  using assms
proof (induction bs)
  case (Cons b bs)
  have sub: "batch_scope ` set (filter active_batch (update_where P f bs)) \<subseteq> batch_scope ` set (filter active_batch bs)"
    using Cons.prems(1) by (fastforce simp: set_update_where)
  have "distinct (map batch_scope (filter active_batch (update_where P f bs)))"
    using Cons by (auto split: if_splits)
  with Cons.prems sub show ?case by (auto split: if_splits)
qed simp

text \<open>
  An UPDATE of batches keeps the invariant when it moves the rows along the machine, makes
  none active, and lets a window succeed only when its cursor is past it.
\<close>

definition quiet_move :: "platform \<Rightarrow> batch_row \<Rightarrow> batch_row \<Rightarrow> bool" where
  "quiet_move d b b' \<longleftrightarrow> window_move b b' \<and> (active_batch b' \<longrightarrow> active_batch b)
     \<and> (b_status b' = ''succeeded'' \<longrightarrow> b_status b = ''succeeded''
        \<or> b_candidate_end_sequence b \<le> finalized_through d (batch_scope b))"

lemma change_batches_inv_weak:
  assumes move: "\<And>b. b \<in> set (batches d) \<Longrightarrow> P b \<Longrightarrow> window_move b (f b)
      \<and> (b_status (f b) = ''succeeded'' \<longrightarrow> b_status b = ''succeeded''
        \<or> b_candidate_end_sequence b \<le> finalized_through d (batch_scope b))"
    and sf: "single_flight (change_batches P f d)" and inv: "batch_inv d"
  shows "batch_inv (change_batches P f d)"
proof -
  have keys: "map b_id (update_where P f (batches d)) = map b_id (batches d)"
    "map window_of (update_where P f (batches d)) = map window_of (batches d)"
    by (rule distinct_map_update; simp add: move window_move_simps)+
  have fin: "finalized_through (change_batches P f d) sc = finalized_through d sc" for sc
    by (simp add: finalized_through_def cursor_of_def)
  have row: "b_id (f b) = b_id b \<and> batch_scope (f b) = batch_scope b
      \<and> b_candidate_end_sequence (f b) = b_candidate_end_sequence b \<and> (batch_ok b \<longrightarrow> batch_ok (f b))"
    if "b \<in> set (batches d)" "P b" for b
    using move [OF that] by (metis window_move_ok window_move_simps(1,2,4))
  have "batches_inv (change_batches P f d)"
    using inv sf by (simp add: batch_inv_def batches_inv_def keys ball_update_where row)
  moreover have "b_candidate_end_sequence b \<le> finalized_through d (batch_scope b)"
    if "b \<in> set (batches d)" "P b" "b_status (f b) = ''succeeded''" for b
    using move [OF that(1,2)] that inv by (auto simp: batch_inv_def finalized_inv_def)
  then have "finalized_inv (change_batches P f d)"
    using inv by (simp add: batch_inv_def finalized_inv_def fin ball_update_where row)
  ultimately show ?thesis
    using inv by (simp add: batch_inv_def cursors_inv_def segments_inv_def)
qed

lemma change_batches_inv:
  assumes move: "\<And>b. b \<in> set (batches d) \<Longrightarrow> P b \<Longrightarrow> quiet_move d b (f b)" and inv: "batch_inv d"
  shows "batch_inv (change_batches P f d)"
proof (rule change_batches_inv_weak [OF _ _ inv])
  show "single_flight (change_batches P f d)"
    unfolding single_flight_def change_batches_self
    using inv move
    by (intro single_flight_update) (auto simp: quiet_move_def window_move_simps batch_inv_parts single_flight_def)
qed (use move in \<open>auto simp: quiet_move_def\<close>)

lemma change_batch_inv:
  "(\<And>b. b \<in> set (batches d) \<Longrightarrow> P b \<Longrightarrow> quiet_move d b (f b)) \<Longrightarrow> batch_inv d \<Longrightarrow> batch_inv (change_batch i P f d)"
  unfolding change_batch_def by (rule change_batches_inv) auto

lemma indexed_Inr: "indexed r = Inr r' \<longleftrightarrow> r' = r \<and> single_flight (snd r)"
  by (auto simp: indexed_def)

lemma insert_batch_inv:
  assumes b: "batch_ok b" "b_id b = next_batch_id d" "b_status b \<noteq> ''succeeded''"
      "window_of b \<notin> window_of ` set (batches d)"
    and sf: "single_flight (insert_batch b d)" and inv: "batch_inv d"
  shows "batch_inv (insert_batch b d)"
proof -
  have "batches_inv (insert_batch b d)"
    using assms by (fastforce simp: batch_inv_def batches_inv_def insert_batch_def)
  then show ?thesis
    using inv b(3)
    by (simp add: batch_inv_def cursors_inv_def finalized_inv_def segments_inv_def insert_batch_def
        finalized_through_def cursor_of_def)
qed

end
