(* ===== verification/Window_Services.thy ===== *)
theory Window_Services
  imports Window_Machine
begin

text \<open>
  Every operation of the assessment window service keeps the invariant, moves each window
  along its state machine and never moves a finalized cursor back.  The requests to the
  service form a monotone system, so all of this holds along any sequence of them.
\<close>

subsection \<open>What an operation may do\<close>

definition windows_evolve :: "batch_row list \<Rightarrow> batch_row list \<Rightarrow> bool" where
  "windows_evolve bs bs' \<longleftrightarrow> (\<exists>old new. bs' = old @ new \<and> list_all2 window_move bs old
     \<and> length new \<le> 1 \<and> (\<forall>b\<in>set new. machine_of b = Some (Pending, 0)))"

definition safe_step :: "platform \<Rightarrow> platform \<Rightarrow> bool" where
  "safe_step d d' \<longleftrightarrow> batch_inv d' \<and> windows_evolve\<^sup>*\<^sup>* (batches d) (batches d')
     \<and> (\<forall>sc. finalized_through d sc \<le> finalized_through d' sc)"

lemma window_move_refl [simp]: "window_move b b"
  by (auto simp: window_move_def split: option.splits intro: window_step.idle)

lemma windows_evolve_refl [simp]: "windows_evolve bs bs"
  unfolding windows_evolve_def
  by (rule exI [of _ bs], rule exI [of _ "[]"]) (simp add: list_all2_refl)

lemma windows_evolve_update:
  "(\<And>b. b \<in> set bs \<Longrightarrow> P b \<Longrightarrow> window_move b (f b)) \<Longrightarrow> windows_evolve bs (update_where P f bs)"
  unfolding windows_evolve_def update_where_def
  by (intro exI [of _ "map (\<lambda>r. if P r then f r else r) bs"] exI [of _ "[]"])
    (auto simp: list_all2_conv_all_nth)

lemma safe_trans: "safe_step d d1 \<Longrightarrow> safe_step d1 d2 \<Longrightarrow> safe_step d d2"
  unfolding safe_step_def by (meson order_trans rtranclp_trans)

lemma safe_refl: "batch_inv d \<Longrightarrow> safe_step d d"
  by (simp add: safe_step_def)

lemma finalized_through_batch [simp]:
  "finalized_through (change_batch i P f d) sc = finalized_through d sc"
  "finalized_through (change_batches Q f d) sc = finalized_through d sc"
  by (simp_all add: finalized_through_def cursor_of_def)

lemma finalized_through_frame [simp]:
  "finalized_through (log_event e d) sc = finalized_through d sc"
  "finalized_through (change_pipelines R g d) sc = finalized_through d sc"
  "finalized_through (change_interventions S h d) sc = finalized_through d sc"
  by (simp_all add: finalized_through_def cursor_of_def)

text \<open>The four shapes of the operations.\<close>

lemma safe_change_batch:
  assumes "\<And>b. b \<in> set (batches d) \<Longrightarrow> b_id b = i \<Longrightarrow> P b \<Longrightarrow> quiet_move d b (f b)" and "batch_inv d"
  shows "safe_step d (change_batch i P f d)"
proof -
  have "batch_inv (change_batch i P f d)"
    unfolding change_batch_def using assms by (intro change_batches_inv) auto
  moreover have "windows_evolve (batches d) (batches (change_batch i P f d))"
    unfolding change_batch_frame using assms(1)
    by (intro windows_evolve_update) (auto simp: quiet_move_def)
  then have "windows_evolve\<^sup>*\<^sup>* (batches d) (batches (change_batch i P f d))" by blast
  ultimately show ?thesis by (simp add: safe_step_def)
qed

lemma safe_cursor:
  assumes f: "cursor_forward f" and s: "safe_step d d'"
  shows "safe_step d (change_cursor sc f d')"
proof -
  have "finalized_through d k \<le> finalized_through (change_cursor sc f d') k" for k
    using s forward_finalized_through [OF f] unfolding safe_step_def by (meson order_trans)
  moreover have "batch_inv (change_cursor sc f d')"
    using s by (intro change_cursor_inv [OF f]) (simp add: safe_step_def)
  ultimately show ?thesis using s by (simp add: safe_step_def)
qed

lemma safe_ensure:
  assumes e: "ensure_cursor ts sc d' = Inr d1" and s: "safe_step d d'"
  shows "safe_step d d1"
  using s ensure_cursor_inv [OF e]
  by (simp add: safe_step_def ensure_cursor_finalized(1) [OF e] ensure_cursor_frame(1) [OF e])

lemma safe_log [simp]: "safe_step d (log_event e d') = safe_step d d'"
  "safe_step d (change_pipelines R g d') = safe_step d d'"
  "safe_step d (change_interventions J h d') = safe_step d d'"
  by (simp_all add: safe_step_def)

text \<open>Segment writes touch nothing else.\<close>

definition segments_only :: "platform \<Rightarrow> platform \<Rightarrow> bool" where
  "segments_only d d' \<longleftrightarrow> (\<exists>ss n. d' = d\<lparr>segments := ss, next_segment_id := n\<rparr>) \<and> segments_inv d'"

lemma segments_only_safe:
  assumes "segments_only d d'" and "batch_inv d"
  shows "safe_step d d'"
proof -
  from assms(1) obtain ss n where d': "d' = d\<lparr>segments := ss, next_segment_id := n\<rparr>"
    and inv: "segments_inv d'" by (auto simp: segments_only_def)
  have frame: "batches d' = batches d" "cursors d' = cursors d" "next_batch_id d' = next_batch_id d"
    by (simp_all add: d')
  from assms(2) inv show ?thesis
    by (simp add: safe_step_def batch_inv_def batches_inv_def cursors_inv_def finalized_inv_def
        single_flight_def finalized_through_def cursor_of_def frame)
qed

lemma segments_only_refl: "segments_inv d \<Longrightarrow> segments_only d d"
  unfolding segments_only_def by (rule conjI, rule exI [of _ "segments d"], rule exI [of _ "next_segment_id d"]) auto

lemma segments_only_trans: "segments_only d d1 \<Longrightarrow> segments_only d1 d2 \<Longrightarrow> segments_only d d2"
  by (auto simp: segments_only_def) blast

lemma segments_only_frame:
  assumes "segments_only d d'"
  shows "batches d' = batches d" "cursors d' = cursors d" "scope_row d' = scope_row d"
    "messages d' = messages d" "users d' = users d" "rule_assessments d' = rule_assessments d"
    "interventions d' = interventions d" "groups d' = groups d" "pipelines d' = pipelines d"
  using assms by (auto simp: segments_only_def)

subsection \<open>Cursor and batch rows\<close>

lemma forward_touch: "cursor_forward (\<lambda>c. c\<lparr>c_last_assessment_requested_at := x, c_updated_at := ts\<rparr>)"
  by (auto simp: cursor_forward_def cursor_scope_def cursor_ok_def)

lemma forward_scheduled: "cursor_forward (scheduled_to ts e)"
  by (auto simp: cursor_forward_def cursor_scope_def cursor_ok_def scheduled_to_def)

lemma forward_finalized: "cursor_forward (finalized_to ts e)"
  by (auto simp: cursor_forward_def cursor_scope_def cursor_ok_def scheduled_to_def finalized_to_def)

lemma forward_stop: "cursor_forward (stop_observing ts)"
  by (auto simp: cursor_forward_def cursor_scope_def cursor_ok_def stop_observing_def)

lemma forward_observe:
  "cursor_forward (\<lambda>c. c\<lparr>c_observation_status := st, c_observation_started_sequence := a,
     c_last_intervention_sequence := coalesce b (c_last_intervention_sequence c), c_updated_at := ts\<rparr>)"
  by (auto simp: cursor_forward_def cursor_scope_def cursor_ok_def)

lemmas move_defs = quiet_move_def window_move_def frozen_part_def machine_of_def batch_scope_def active_iff

lemma quiet_idle:
  "frozen_part b' = frozen_part b \<Longrightarrow> b_status b' = b_status b \<Longrightarrow> b_attempt_count b' = b_attempt_count b \<Longrightarrow>
   quiet_move d b b'"
  by (auto simp: quiet_move_def window_move_def machine_of_def active_iff split: option.splits
      intro: window_step.idle)

lemma quiet_claimed: "claimable ts b \<Longrightarrow> quiet_move d b (claimed_row ts' b)"
  by (auto simp: move_defs claimable_def claimed_row_def)

lemma quiet_failed: "active_batch b \<Longrightarrow> quiet_move d b (failed_row ts code detail retry b)"
  by (auto simp: move_defs failed_row_def)

lemma quiet_terminal: "terminable b \<Longrightarrow> quiet_move d b (terminal_batch_row ts dg n qs code detail b)"
  by (auto simp: move_defs terminable_def terminal_batch_row_def)

lemma quiet_replay: "b_status b = ''failed'' \<Longrightarrow> quiet_move d b (replay_row ts b)"
  by (auto simp: move_defs replay_row_def)

lemma quiet_succeeded:
  "b_status b = ''running'' \<Longrightarrow> b_candidate_end_sequence b \<le> finalized_through d (batch_scope b) \<Longrightarrow>
   quiet_move d b (succeeded_row ts raw model prompt stored b)"
  by (auto simp: move_defs succeeded_row_def)

lemma batch_with_scopeD:
  "batch_with_scope d bid = Inr b \<Longrightarrow> fetch_batch d bid = Some b \<and> b \<in> set (batches d) \<and> b_id b = bid"
  by (auto simp: batch_with_scope_def andthen_Inr_iff fetch_batch_def split: option.splits dest: fetch_by_SomeD)

subsection \<open>The operations one by one\<close>

lemma get_or_create_cursor_safe:
  "get_or_create_cursor now sc d = Inr (c, d') \<Longrightarrow> batch_inv d \<Longrightarrow> safe_step d d'"
  by (auto simp: get_or_create_cursor_def andthen_Inr_iff intro: safe_ensure safe_refl)

lemma create_batch_safe:
  assumes c: "create_batch digest now sc sp d = Inr (r, d')" and inv: "batch_inv d"
  shows "safe_step d d'"
proof -
  let ?touch = "\<lambda>c. c\<lparr>c_last_assessment_requested_at := Some (fmt_sec now), c_updated_at := fmt_sec now\<rparr>"
  from c have ok: "spec_refusal sp = None" by (simp add: create_batch_def split: option.splits)
  with c obtain es d1 where e: "ensure_cursor (fmt_sec now) sc d = Inr d1"
    and body: "(let students = (case sc of (gid, sid, did) \<Rightarrow>
          sequences (candidate_student_rows d1 gid sid did (bs_start sp) (bs_end sp)))
        in case find (same_window sc (bs_start sp) (bs_end sp)) (batches d1) of
             Some b \<Rightarrow> Inr ((False, b), change_cursor sc ?touch d1)
           | None \<Rightarrow>
               (let b = new_batch digest (fmt_sec now) sc es sp students (next_batch_id d1)
                in indexed ((True, b), change_cursor sc ?touch (insert_batch b d1)))) = Inr (r, d')"
    by (auto simp: create_batch_def Let_def andthen_Inr_iff)
  from body have alt: "(\<exists>b. find (same_window sc (bs_start sp) (bs_end sp)) (batches d1) = Some b) \<and> d' = change_cursor sc ?touch d1
      \<or> find (same_window sc (bs_start sp) (bs_end sp)) (batches d1) = None \<and>
        (\<exists>students. d' = change_cursor sc ?touch
            (insert_batch (new_batch digest (fmt_sec now) sc es sp students (next_batch_id d1)) d1)
          \<and> single_flight d')"
    by (cases "find (same_window sc (bs_start sp) (bs_end sp)) (batches d1)") (auto simp: Let_def indexed_Inr)
  have s1: "safe_step d d1" by (rule safe_ensure [OF e safe_refl [OF inv]])
  then have inv1: "batch_inv d1" by (simp add: safe_step_def)
  from alt show ?thesis
  proof (elim disjE conjE exE)
    assume "d' = change_cursor sc ?touch d1"
    with s1 show ?thesis by (simp add: safe_cursor [OF forward_touch])
  next
    fix students
    let ?b = "new_batch digest (fmt_sec now) sc es sp students (next_batch_id d1)"
    assume fresh: "find (same_window sc (bs_start sp) (bs_end sp)) (batches d1) = None"
      and d': "d' = change_cursor sc ?touch (insert_batch ?b d1)" and sf: "single_flight d'"
    have shape: "b_status ?b = ''pending''" "b_attempt_count ?b = 0" "b_id ?b = next_batch_id d1"
      "b_max_attempts ?b = bs_max_attempts sp" "window_of ?b = (sc, bs_start sp, bs_end sp)"
      by (cases sc; simp add: new_batch_def window_of_def batch_scope_def)+
    have "1 \<le> bs_max_attempts sp" "bs_start sp \<le> bs_end sp"
      using ok by (auto simp: spec_refusal_def split: if_splits)
    with shape have "batch_ok ?b"
      by (auto simp: batch_ok_def machine_of_def attempts_ok_def window_of_def)
    moreover have "window_of b \<noteq> (sc, bs_start sp, bs_end sp)" if "b \<in> set (batches d1)" for b
      using fresh that by (auto simp: find_None_iff same_window_def window_of_def)
    then have "window_of ?b \<notin> window_of ` set (batches d1)" unfolding shape image_iff by metis
    moreover have "single_flight (insert_batch ?b d1)"
      using sf by (simp add: d' single_flight_def)
    ultimately have "batch_inv (insert_batch ?b d1)"
      using inv1 by (intro insert_batch_inv) (simp_all add: shape)
    moreover have mach: "machine_of ?b = Some (Pending, 0)" by (simp add: machine_of_def shape)
    have "windows_evolve (batches d) (batches (insert_batch ?b d1))"
      unfolding windows_evolve_def
      by (rule exI [of _ "batches d"], rule exI [of _ "[?b]"])
        (simp add: insert_batch_def ensure_cursor_frame(1) [OF e] mach list_all2_refl)
    moreover have "finalized_through (insert_batch ?b d1) k = finalized_through d k" for k
      using ensure_cursor_finalized [OF e] by (simp add: finalized_through_def cursor_of_def insert_batch_def)
    ultimately have "safe_step d (insert_batch ?b d1)" by (simp add: safe_step_def r_into_rtranclp)
    then show ?thesis unfolding d' by (rule safe_cursor [OF forward_touch])
  qed
qed

lemma claim_batch_safe: "claim_batch now bid d = Inr (r, d') \<Longrightarrow> batch_inv d \<Longrightarrow> safe_step d d'"
  by (auto simp: claim_batch_def andthen_Inr_iff Let_def intro!: safe_change_batch quiet_claimed)

lemma set_rerun_requested_safe:
  "set_rerun_requested now bid q d = Inr (r, d') \<Longrightarrow> batch_inv d \<Longrightarrow> safe_step d d'"
  by (auto simp: set_rerun_requested_def andthen_Inr_iff frozen_part_def batch_scope_def
      intro!: safe_change_batch quiet_idle)

lemma mark_batch_failed_safe:
  "mark_batch_failed now bid code detail retry d = Inr (r, d') \<Longrightarrow> batch_inv d \<Longrightarrow> safe_step d d'"
  by (auto simp: mark_batch_failed_def andthen_Inr_iff intro!: safe_change_batch quiet_failed)

lemma mark_enqueued_safe: "mark_enqueued now bid d = Inr (r, d') \<Longrightarrow> batch_inv d \<Longrightarrow> safe_step d d'"
  by (auto simp: mark_enqueued_def andthen_Inr_iff frozen_part_def batch_scope_def
      intro!: safe_change_batch quiet_idle)

lemma prepare_retry_safe:
  assumes p: "prepare_retry now bid retry d = Inr (r, d')" and inv: "batch_inv d"
  shows "safe_step d d'"
proof -
  let ?f = "\<lambda>b. b\<lparr>b_status := ''pending'', b_next_retry_at := retry, b_completed_at := None,
     b_error_code := None, b_error_detail := None, b_updated_at := Some (fmt_sec now)\<rparr>"
  from p have d': "d' = change_batch bid retryable ?f d" and sf: "single_flight d'"
    by (auto simp: prepare_retry_def andthen_Inr_iff indexed_Inr)
  have move: "window_move b (?f b)" if "retryable b" for b
    using that by (auto simp: move_defs retryable_def)
  have "batch_inv d'"
    using sf inv move unfolding d' change_batch_def
    by (intro change_batches_inv_weak) auto
  moreover have "windows_evolve (batches d) (batches d')"
    unfolding d' change_batch_frame by (rule windows_evolve_update) (simp add: move)
  ultimately show ?thesis by (simp add: safe_step_def r_into_rtranclp) (simp add: d')
qed

subsection \<open>Segments\<close>

lemma append_segment_only:
  assumes "segments_inv d" and "key_ok s" and new: "\<not> (\<exists>q\<in>set (segments d). sg_dedupe_key q = sg_dedupe_key s)"
  shows "segments_only d (append_segment s d)"
proof -
  have key: "sg_dedupe_key (s\<lparr>sg_id := next_segment_id d\<rparr>) = sg_dedupe_key s"
    "key_ok (s\<lparr>sg_id := next_segment_id d\<rparr>)"
    using assms(2) by (simp_all add: key_ok_def split: dedupe_key.splits)
  with assms have "segments_inv (append_segment s d)"
    by (fastforce simp: segments_inv_def append_segment_def)
  then show ?thesis unfolding segments_only_def append_segment_def by auto
qed

lemma insert_segment_cases:
  assumes "insert_segment s d = Inr d'"
  obtains (kept) "d' = d" "\<exists>q\<in>set (segments d). sg_dedupe_key q = sg_dedupe_key s"
  | (new) "d' = append_segment s d" "\<not> (\<exists>q\<in>set (segments d). sg_dedupe_key q = sg_dedupe_key s)"
  using assms by (auto simp: insert_segment_def split: if_splits)

lemma insert_segment_only:
  assumes "insert_segment s d = Inr d'" and "segments_inv d" and "key_ok s"
  shows "segments_only d d'"
  using assms(1)
proof (cases rule: insert_segment_cases)
  case new
  then show ?thesis by (simp add: append_segment_only assms(2,3))
qed (simp add: segments_only_refl assms(2))

lemma silence_segment_only:
  assumes "segments_inv d"
  shows "segments_only d (silence_segment ts k d)"
proof -
  let ?f = "\<lambda>s. s\<lparr>sg_should_intervene := Some 0, sg_selected_strategy_id := None, sg_updated_at := ts\<rparr>"
  have keys: "map sg_id (update_where P ?f ss) = map sg_id ss"
    "map sg_dedupe_key (update_where P ?f ss) = map sg_dedupe_key ss" for P ss
    by (rule distinct_map_update; simp)+
  have "key_ok s \<Longrightarrow> key_ok (?f s)" for s by (simp add: key_ok_def split: dedupe_key.splits)
  then have "segments_inv (silence_segment ts k d)"
    using assms by (simp add: segments_inv_def silence_segment_def keys ball_update_where)
  moreover have "silence_segment ts k d = d\<lparr>segments := segments (silence_segment ts k d), next_segment_id := next_segment_id d\<rparr>"
    by (simp add: silence_segment_def)
  ultimately show ?thesis unfolding segments_only_def by blast
qed

lemma written_segment_only:
  "insert_segment s d = Inr d' \<Longrightarrow> segments_inv d \<Longrightarrow> key_ok s \<Longrightarrow> segments_only d (silence_segment ts k d')"
  by (meson insert_segment_only silence_segment_only segments_only_trans segments_only_def)

lemma rule_segment_key [simp]: "key_ok (rule_segment b ts n f)"
  by (simp add: key_ok_def rule_segment_def)

lemma unclassified_segment_key [simp]: "key_ok (unclassified_segment b ts n m s e)"
  by (simp add: key_ok_def unclassified_segment_def)

lemma insert_rule_only:
  "insert_rule_fallback_segments b ts n fs d = Inr (ids, d') \<Longrightarrow> segments_inv d \<Longrightarrow> segments_only d d'"
proof (induction fs arbitrary: n d ids d')
  case Nil
  then show ?case by (simp add: segments_only_refl)
next
  case (Cons f fs)
  from Cons.prems(1) obtain d0 ids' where i: "insert_segment (rule_segment b ts n f) d = Inr d0"
    and rest: "insert_rule_fallback_segments b ts (n + 1) fs
      (silence_segment ts (Rule_Key (b_id b) (fb_assessment_id f)) d0) = Inr (ids', d')"
    by (auto simp: Let_def andthen_Inr_iff)
  let ?d1 = "silence_segment ts (Rule_Key (b_id b) (fb_assessment_id f)) d0"
  have first: "segments_only d ?d1" by (rule written_segment_only [OF i]) (simp_all add: Cons.prems)
  then have "segments_inv ?d1" by (simp add: segments_only_def)
  with rest have "segments_only ?d1 d'" by (rule Cons.IH)
  with first show ?case by (rule segments_only_trans)
qed

lemma insert_unclassified_only:
  "insert_unclassified b ts rows n rs d = Inr (ids, d') \<Longrightarrow> segments_inv d \<Longrightarrow> segments_only d d'"
proof (induction rs arbitrary: n d ids d')
  case Nil
  then show ?case by (simp add: segments_only_refl)
next
  case (Cons r rs)
  obtain s e where r: "r = (s, e)" by force
  from Cons.prems(1) obtain d0 ids' where
    i: "insert_segment (unclassified_segment b ts n (row_of_sequence rows s) s e) d = Inr d0"
    and rest: "insert_unclassified b ts rows (n + 1) rs (silence_segment ts (Unclassified_Key (b_id b) s e) d0) = Inr (ids', d')"
    by (auto simp: Let_def r andthen_Inr_iff)
  let ?d1 = "silence_segment ts (Unclassified_Key (b_id b) s e) d0"
  have first: "segments_only d ?d1" by (rule written_segment_only [OF i]) (simp_all add: Cons.prems)
  then have "segments_inv ?d1" by (simp add: segments_only_def)
  with rest have "segments_only ?d1 d'" by (rule Cons.IH)
  with first show ?case by (rule segments_only_trans)
qed

lemma store_segments_only:
  "store_segments b ts prompt ns d = Inr (ids, d') \<Longrightarrow> segments_inv d \<Longrightarrow> segments_only d d'"
proof (induction ns arbitrary: d ids d')
  case Nil
  then show ?case by (simp add: segments_only_refl)
next
  case (Cons n ns)
  from Cons.prems(1) obtain raw d1 ids' where add: "add_segment (segment_of b ts prompt raw n) d = Inr d1"
    and rest: "store_segments b ts prompt ns d1 = Inr (ids', d')"
    by (auto simp: andthen_Inr_iff)
  have key: "key_ok (segment_of b ts prompt raw n)" by (simp add: key_ok_def segment_of_def)
  from add have "d1 = append_segment (segment_of b ts prompt raw n) d"
      "\<not> (\<exists>q\<in>set (segments d). sg_dedupe_key q = sg_dedupe_key (segment_of b ts prompt raw n))"
    by (auto simp: add_segment_def split: if_splits)
  with append_segment_only [OF Cons.prems(2) key] have first: "segments_only d d1" by simp
  then have "segments_inv d1" by (simp add: segments_only_def)
  with rest have "segments_only d1 d'" by (rule Cons.IH)
  with first show ?case by (rule segments_only_trans)
qed

subsection \<open>Ending a window\<close>

lemma safe_trans_segments:
  "segments_only d d1 \<Longrightarrow> safe_step d1 d' \<Longrightarrow> batch_inv d \<Longrightarrow> safe_step d d'"
  using segments_only_frame [of d d1]
  by (simp add: safe_step_def finalized_through_def cursor_of_def)

lemma terminalize_commit_safe:
  assumes t: "terminalize_commit now b code detail ri oi qs d = Inr (r, d')" and inv: "batch_inv d"
  shows "safe_step d d'"
proof (cases "rowcount (\<lambda>r. b_id r = b_id b \<and> terminable r) (batches d) = 1")
  case True
  let ?f = "terminal_batch_row (fmt_sec now) (ri \<noteq> []) (length (ri @ oi)) qs
    (text_of (or_text code (or_text (b_error_code b) (Some ''application_error'')))) (coalesce detail (b_error_detail b))"
  from t True obtain d1 where e: "ensure_cursor (fmt_sec now) (batch_scope b) (change_batch (b_id b) terminable ?f d) = Inr d1"
    and d': "d' = change_cursor (batch_scope b) (scheduled_to (fmt_sec now) (b_candidate_end_sequence b)) d1"
    by (auto simp: terminalize_commit_def Let_def andthen_Inr_iff)
  have "safe_step d (change_batch (b_id b) terminable ?f d)"
    by (rule safe_change_batch [OF _ inv]) (rule quiet_terminal)
  from safe_ensure [OF e this] show ?thesis unfolding d' by (rule safe_cursor [OF forward_scheduled])
next
  case False
  with t inv show ?thesis by (simp add: terminalize_commit_def Let_def safe_refl)
qed

text \<open>A terminalization that goes past the early returns, in three parts.\<close>

lemma terminalize_parts:
  assumes t: "terminalize_exhausted_batch now bid code detail force d = Inr (r, d')"
    and b: "batch_with_scope d bid = Inr b" and go: "terminalize_refusal force b d = None"
  obtains fallbacks rule_ids other_ids d1 d2 where
    "insert_rule_fallback_segments b (fmt_sec now) 0 fallbacks d = Inr (rule_ids, d1)"
    "insert_unclassified_fallback_segments b (fmt_sec now)
       (candidate_student_rows d (b_group_id b) (b_session_id b) (b_discussion_id b)
          (b_candidate_start_sequence b) (b_candidate_end_sequence b))
       (int (length fallbacks)) d1 = Inr (other_ids, d2)"
    "terminalize_commit now b code detail rule_ids other_ids (window_students d b) d2 = Inr (r, d')"
proof -
  let ?rows = "candidate_student_rows d (b_group_id b) (b_session_id b) (b_discussion_id b)
    (b_candidate_start_sequence b) (b_candidate_end_sequence b)"
  from t b go obtain fs where fs: "confirmed_rule_fallbacks d b ?rows = Inr fs"
    by (auto simp: terminalize_exhausted_batch_def Let_def andthen_Inr_iff)
  with t b go obtain ri d1 oi d2 where ri: "insert_rule_fallback_segments b (fmt_sec now) 0 fs d = Inr (ri, d1)"
    and oi: "insert_unclassified_fallback_segments b (fmt_sec now) ?rows (int (length fs)) d1 = Inr (oi, d2)"
    and "terminalize_commit now b code detail ri oi (window_students d b) d2 = Inr (r, d')"
    by (auto simp: terminalize_exhausted_batch_def Let_def andthen_Inr_iff window_students_def)
  then show thesis by (rule that)
qed

lemma terminalize_safe:
  assumes t: "terminalize_exhausted_batch now bid code detail force d = Inr (r, d')" and inv: "batch_inv d"
  shows "safe_step d d'"
proof -
  from t obtain b where b: "batch_with_scope d bid = Inr b"
    by (auto simp: terminalize_exhausted_batch_def andthen_Inr_iff)
  show ?thesis
  proof (cases "terminalize_refusal force b d")
    case None
    from terminalize_parts [OF t b None] obtain fs ri oi d1 d2 where
      r: "insert_rule_fallback_segments b (fmt_sec now) 0 fs d = Inr (ri, d1)" and
      u: "insert_unclassified_fallback_segments b (fmt_sec now)
       (candidate_student_rows d (b_group_id b) (b_session_id b) (b_discussion_id b)
          (b_candidate_start_sequence b) (b_candidate_end_sequence b)) (int (length fs)) d1 = Inr (oi, d2)" and
      c: "terminalize_commit now b code detail ri oi (window_students d b) d2 = Inr (r, d')" .
    have "segments_inv d" using inv by (simp add: batch_inv_def)
    with r have s1: "segments_only d d1" by (rule insert_rule_only)
    then have "segments_inv d1" by (simp add: segments_only_def)
    with u have "segments_only d1 d2"
      by (auto simp: insert_unclassified_fallback_segments_def Let_def intro: insert_unclassified_only)
    with s1 have s2: "segments_only d d2" by (rule segments_only_trans)
    from segments_only_safe [OF s2 inv] have "batch_inv d2" by (simp add: safe_step_def)
    with c have "safe_step d2 d'" by (rule terminalize_commit_safe)
    from safe_trans_segments [OF s2 this inv] show ?thesis .
  next
    case (Some x)
    with t b inv show ?thesis by (simp add: terminalize_exhausted_batch_def safe_refl)
  qed
qed

lemma terminalize_each_safe:
  "terminalize_each now bids d = (res, d') \<Longrightarrow> batch_inv d \<Longrightarrow> safe_step d d'"
proof (induction bids arbitrary: d res d')
  case Nil
  then show ?case by (simp add: safe_refl)
next
  case (Cons bid bids)
  show ?case
  proof (cases "terminalize_exhausted_batch now bid None None False d")
    case (Inl e)
    with Cons.prems show ?thesis by (simp add: safe_refl)
  next
    case (Inr p)
    obtain r d1 where p: "p = (r, d1)" by force
    with Inr have t: "terminalize_exhausted_batch now bid None None False d = Inr (r, d1)" by simp
    from terminalize_safe [OF t Cons.prems(2)] have s1: "safe_step d d1" .
    obtain res' where "terminalize_each now bids d1 = (res', d')"
      using Cons.prems(1) t by (auto split: prod.splits sum.splits)
    from Cons.IH [OF this] s1 have "safe_step d1 d'" by (simp add: safe_step_def)
    with s1 show ?thesis by (rule safe_trans)
  qed
qed

lemma recover_exhausted_safe:
  "recover_exhausted_batches now sc d = (res, d') \<Longrightarrow> batch_inv d \<Longrightarrow> safe_step d d'"
  unfolding recover_exhausted_batches_def by (rule terminalize_each_safe)

text \<open>The cursor of a successful window moves in the same transaction as its status.\<close>

lemma cursors_change_batch:
  "(change_batch i P f d)\<lparr>cursors := cs\<rparr> = change_batch i P f (d\<lparr>cursors := cs\<rparr>)"
  by (simp add: change_batch_def change_batches_def)

lemma ensure_change_batch:
  "ensure_cursor ts sc (change_batch i P f d) = map_sum id (change_batch i P f) (ensure_cursor ts sc d)"
  by (cases "scope_row d sc") (simp_all add: ensure_cursor_def cursors_change_batch)

lemma change_cursor_batch: "change_cursor sc g (change_batch i P f d) = change_batch i P f (change_cursor sc g d)"
  by (simp add: change_cursor_def change_batch_def change_cursors_def change_batches_def)

lemma save_commit_cases:
  assumes "save_commit render ts b raw stored model prompt d = Inr d'"
  obtains d1 where "ensure_cursor ts (batch_scope b) d = Inr d1"
    and "d' = change_batch (b_id b) (\<lambda>r. batch_scope r = batch_scope b \<and> b_status r = ''running'')
               (succeeded_row ts raw model prompt stored)
               (if observation_reason render stored \<notin> {[], ''continue_observing'', ''insufficient_evidence''}
                then change_cursor (batch_scope b) (stop_observing ts)
                  (change_cursor (batch_scope b) (finalized_to ts (b_candidate_end_sequence b)) d1)
                else change_cursor (batch_scope b) (finalized_to ts (b_candidate_end_sequence b)) d1)"
proof -
  from assms obtain d1 where e: "ensure_cursor ts (batch_scope b) d = Inr d1"
    by (auto simp: save_commit_def ensure_change_batch andthen_Inr_iff map_sum_def split: sum.splits)
  with assms show thesis
    by (intro that [OF e]) (auto simp: save_commit_def ensure_change_batch change_cursor_batch Let_def)
qed

lemma finalized_to_reaches:
  assumes "cursor_of d sc \<noteq> None"
  shows "e \<le> finalized_through (change_cursor sc (finalized_to ts e) d) sc"
proof -
  have "cursor_scope (finalized_to ts e c) = cursor_scope c" for c
    by (simp add: finalized_to_def scheduled_to_def cursor_scope_def)
  with assms show ?thesis
    by (auto simp: finalized_through_def cursor_of_change finalized_to_def)
qed

lemma save_commit_safe:
  assumes c: "save_commit render ts b raw stored model prompt d = Inr d'" and inv: "batch_inv d"
    and b: "fetch_batch d (b_id b) = Some b"
  shows "safe_step d d'" and "b_candidate_end_sequence b \<le> finalized_through d' (batch_scope b)"
proof -
  let ?P = "\<lambda>r. batch_scope r = batch_scope b \<and> b_status r = ''running''"
  let ?f = "succeeded_row ts raw model prompt stored"
  let ?fin = "change_cursor (batch_scope b) (finalized_to ts (b_candidate_end_sequence b))"
  from save_commit_cases [OF c] obtain d1 where e: "ensure_cursor ts (batch_scope b) d = Inr d1"
    and eq: "d' = change_batch (b_id b) ?P ?f
      (if observation_reason render stored \<notin> {[], ''continue_observing'', ''insufficient_evidence''}
       then change_cursor (batch_scope b) (stop_observing ts) (?fin d1) else ?fin d1)" .
  obtain d2 where d2: "d2 = change_cursor (batch_scope b) (stop_observing ts) (?fin d1) \<or> d2 = ?fin d1"
    and d': "d' = change_batch (b_id b) ?P ?f d2"
    by (rule that [OF _ eq]) (cases "observation_reason render stored \<notin> {[], ''continue_observing'', ''insufficient_evidence''}"; simp only: if_True if_False simp_thms)
  have "safe_step d d1" by (rule safe_ensure [OF e safe_refl [OF inv]])
  then have fin: "safe_step d (?fin d1)" by (rule safe_cursor [OF forward_finalized])
  with d2 have s2: "safe_step d d2" by (auto intro: safe_cursor [OF forward_stop])
  have "b_candidate_end_sequence b \<le> finalized_through (?fin d1) (batch_scope b)"
    by (rule finalized_to_reaches) (rule ensure_cursor_finalized(2) [OF e])
  also have "\<dots> \<le> finalized_through d2 (batch_scope b)"
    using d2 forward_finalized_through [OF forward_stop] by (elim disjE) simp_all
  finally have reach: "b_candidate_end_sequence b \<le> finalized_through d2 (batch_scope b)" .
  then show "b_candidate_end_sequence b \<le> finalized_through d' (batch_scope b)" by (simp add: d')
  have same: "batches d2 = batches d" using d2 ensure_cursor_frame(1) [OF e] by auto
  have only: "r = b" if "r \<in> set (batches d)" "b_id r = b_id b" for r
    using that b inv fetch_by_unique [of b_id "batches d" r]
    by (simp add: batch_inv_parts fetch_batch_def)
  have "safe_step d2 d'"
    unfolding d'
  proof (rule safe_change_batch)
    fix r assume r: "r \<in> set (batches d2)" "b_id r = b_id b" "?P r"
    then have "r = b" using only by (simp add: same)
    with r(3) reach show "quiet_move d2 r (?f r)" by (intro quiet_succeeded) simp_all
  qed (use s2 in \<open>simp add: safe_step_def\<close>)
  with s2 show "safe_step d d'" by (rule safe_trans)
qed

lemma save_commit_cursor:
  assumes "save_commit render ts b raw stored model prompt d = Inr d'"
  shows "\<exists>c. cursor_of d' (batch_scope b) = Some c \<and> b_candidate_end_sequence b \<le> c_last_finalized_student_sequence c
     \<and> b_candidate_end_sequence b \<le> c_last_scheduled_student_sequence c"
proof -
  let ?to = "finalized_to ts (b_candidate_end_sequence b)"
  let ?fin = "change_cursor (batch_scope b) ?to"
  from save_commit_cases [OF assms] obtain d1 where e: "ensure_cursor ts (batch_scope b) d = Inr d1"
    and d': "d' = change_batch (b_id b) (\<lambda>r. batch_scope r = batch_scope b \<and> b_status r = ''running'')
      (succeeded_row ts raw model prompt stored)
      (if observation_reason render stored \<notin> {[], ''continue_observing'', ''insufficient_evidence''}
       then change_cursor (batch_scope b) (stop_observing ts) (?fin d1) else ?fin d1)" .
  note eq = trans [OF arg_cong [OF d', of "\<lambda>x. cursor_of x (batch_scope b)"] cursor_of_change_batch]
  have keep: "cursor_scope (?to c) = cursor_scope c" "cursor_scope (stop_observing ts c) = cursor_scope c" for c
    by (simp_all add: finalized_to_def scheduled_to_def stop_observing_def cursor_scope_def)
  obtain c where "cursor_of d1 (batch_scope b) = Some c" using ensure_cursor_finalized(2) [OF e] by blast
  then have "cursor_of d' (batch_scope b) \<in> {Some (?to c), Some (stop_observing ts (?to c))}"
    unfolding eq by (simp add: cursor_of_change keep)
  then show ?thesis by (auto simp: finalized_to_def scheduled_to_def stop_observing_def)
qed

lemma save_parts:
  assumes s: "save_successful_segments library render now bid answer raw parsed model prompt d = Inr (r, d')"
  obtains (stored) b where "batch_with_scope d bid = Inr b" "b_status b = ''succeeded''" "d' = d" "\<not> sv_saved r"
  | (saved) b ns ids d1 where "batch_with_scope d bid = Inr b" "b_status b = ''running''"
      "normalize_segments library render b (Some (set (window_students d b))) answer = Inr ns"
      "store_segments b (fmt_sec now) prompt ns d = Inr (ids, d1)"
      "save_commit render (fmt_sec now) b raw (stored_answer ids parsed) model prompt d1 = Inr d'"
      "sv_saved r" "sv_segment_ids r = map snd ids" "sv_batch r = the (fetch_batch d' bid)"
      "sv_segments r = segments_of_batch bid d'"
proof -
  from s obtain b where b: "batch_with_scope d bid = Inr b"
    by (auto simp: save_successful_segments_def andthen_Inr_iff)
  consider "b_status b = ''succeeded''" | "b_status b = ''running''"
    using s b by (auto simp: save_successful_segments_def split: if_splits)
  then show thesis
  proof cases
    case 1
    with s b have "d' = d" "\<not> sv_saved r" by (auto simp: save_successful_segments_def)
    with b 1 show thesis by (rule stored)
  next
    case 2
    with s b obtain ns where ns: "normalize_segments library render b (Some (set (window_students d b))) answer = Inr ns"
      by (auto simp: save_successful_segments_def andthen_Inr_iff)
    with s b 2 obtain p where p: "store_segments b (fmt_sec now) prompt ns d = Inr p"
      by (auto simp: save_successful_segments_def andthen_Inr_iff)
    obtain ids d1 where "p = (ids, d1)" by force
    with p have p: "store_segments b (fmt_sec now) prompt ns d = Inr (ids, d1)" by simp
    with s b 2 ns obtain d2 where c: "save_commit render (fmt_sec now) b raw (stored_answer ids parsed) model prompt d1 = Inr d2"
      by (auto simp: save_successful_segments_def andthen_Inr_iff)
    from s b 2 ns p c have "d' = d2" "sv_saved r" "sv_segment_ids r = map snd ids"
        "sv_batch r = the (fetch_batch d2 bid)" "sv_segments r = segments_of_batch bid d2"
      by (auto simp: save_successful_segments_def)
    with b 2 ns p c show thesis by (intro saved) simp_all
  qed
qed

lemma save_successful_safe:
  assumes s: "save_successful_segments library render now bid answer raw parsed model prompt d = Inr (r, d')"
    and inv: "batch_inv d"
  shows "safe_step d d'"
  using s
proof (cases rule: save_parts)
  case stored
  with inv show ?thesis by (simp add: safe_refl)
next
  case (saved b ns ids d1)
  have "segments_inv d" using inv by (simp add: batch_inv_def)
  with saved(4) have only: "segments_only d d1" by (rule store_segments_only)
  from segments_only_safe [OF only inv] have inv1: "batch_inv d1" by (simp add: safe_step_def)
  have "fetch_batch d1 (b_id b) = Some b"
    using batch_with_scopeD [OF saved(1)] segments_only_frame [OF only] by (auto simp: fetch_batch_def)
  from save_commit_safe(1) [OF saved(5) inv1 this] have "safe_step d1 d'" .
  with only inv show ?thesis by (simp add: safe_trans_segments)
qed

subsection \<open>Replay, observation, linking\<close>

lemma replay_rows:
  "r \<in> set (sort_key k (filter (replayable sc codes) (batches d))) \<longleftrightarrow> r \<in> set (batches d) \<and> replayable sc codes r"
  by auto

lemma replay_apply_safe:
  assumes inv: "batch_inv d" and q: "finalized_through d sc \<le> q" "0 \<le> q"
  shows "safe_step d (replay_apply ts sc rows q d)"
proof -
  let ?d1 = "d\<lparr>segments := filter (\<lambda>s. \<not> is_fallback_of (map b_id rows) s) (segments d)\<rparr>"
  have "segments_inv ?d1"
    using inv by (auto simp: batch_inv_def segments_inv_def distinct_map_filter)
  moreover have "?d1 = d\<lparr>segments := segments ?d1, next_segment_id := next_segment_id d\<rparr>" by simp
  ultimately have only: "segments_only d ?d1" unfolding segments_only_def by blast
  then have s1: "safe_step d ?d1" using inv by (rule segments_only_safe)
  let ?d2 = "change_batches (\<lambda>b. b_id b \<in> set (map b_id rows) \<and> b_status b = ''failed'') (replay_row ts) ?d1"
  have "batch_inv ?d2"
    using s1 by (intro change_batches_inv) (auto simp: safe_step_def intro: quiet_replay)
  moreover have "windows_evolve (batches ?d1) (batches ?d2)"
    unfolding change_batches_self
    by (rule windows_evolve_update) (use quiet_replay in \<open>auto simp: quiet_move_def\<close>)
  ultimately have "safe_step ?d1 ?d2" by (simp add: safe_step_def r_into_rtranclp)
  with s1 have s2: "safe_step d ?d2" by (rule safe_trans)
  let ?d3 = "change_pipelines (failed_at_window sc (map b_candidate_end_sequence
      (filter (\<lambda>b. b_id b \<in> set (map b_id rows)) (batches ?d2)))) (pipeline_replayed ts) ?d2"
  have s3: "safe_step d ?d3" using s2 by simp
  have fin3: "finalized_through ?d3 k = finalized_through d k" for k
    by (simp add: finalized_through_def cursor_of_def)
  have cur: "cursors ?d3 = cursors d" by simp
  have final: "finalized_through (change_cursor sc (rewound ts q) ?d3) k = finalized_through ?d3 k" for k
    unfolding finalized_through_def
    by (subst cursor_of_change) (auto simp: rewound_def cursor_scope_def split: option.splits)
  have own: "c_last_finalized_student_sequence c \<le> q" if "c \<in> set (cursors d)" "cursor_scope c = sc" for c
  proof -
    have "distinct (map cursor_scope (cursors d))" using inv by (simp add: batch_inv_def cursors_inv_def)
    from find_unique [OF this that(1)] that(2) have "cursor_of d sc = Some c" by (simp add: cursor_of_def)
    with q(1) show ?thesis by (simp add: finalized_through_def)
  qed
  have keys: "map cursor_scope (update_where P (rewound ts q) cs) = map cursor_scope cs" for P cs
    by (rule distinct_map_update) (simp add: rewound_def cursor_scope_def)
  have "cursors_inv (change_cursor sc (rewound ts q) ?d3)"
    using s3 own
    by (auto simp: safe_step_def batch_inv_def cursors_inv_def change_cursor_def keys ball_update_where
        rewound_def cursor_ok_def)
  with s3 have "safe_step d (change_cursor sc (rewound ts q) ?d3)"
    using final by (simp add: safe_step_def batch_inv_def batches_inv_def finalized_inv_def segments_inv_def single_flight_def)
  then show ?thesis by (simp add: replay_apply_def Let_def)
qed

lemma finalized_through_nonneg: "cursors_inv d \<Longrightarrow> 0 \<le> finalized_through d sc"
  by (auto simp: finalized_through_def cursors_inv_def cursor_ok_def dest: cursor_ofD split: option.splits)

lemma prepare_reprocessing_safe:
  assumes p: "prepare_scope_reprocessing now sc do_apply codes d = Inr (r, d')" and inv: "batch_inv d"
  shows "safe_step d d'"
proof -
  have "safe_step d (replay_apply ts sc rows q d)" if "\<not> q < finalized_through d sc" for ts rows q
  proof -
    have "0 \<le> finalized_through d sc" using inv by (simp add: batch_inv_def finalized_through_nonneg)
    with that show ?thesis by (intro replay_apply_safe [OF inv]) linarith+
  qed
  then show ?thesis
    using p safe_refl [OF inv]
    by (auto simp: prepare_scope_reprocessing_def Let_def finalized_through_def [symmetric]
        split: if_splits list.splits)
qed

lemma set_observation_safe:
  "set_observation now sc status a b d = Inr (r, d') \<Longrightarrow> batch_inv d \<Longrightarrow> safe_step d d'"
  by (auto simp: set_observation_def andthen_Inr_iff Let_def split: if_splits
      intro!: safe_cursor [OF forward_observe] elim: safe_ensure intro: safe_refl)

lemma link_intervention_safe:
  "link_intervention_to_segment run bid sid trigger reason d = Inr (r, d') \<Longrightarrow> batch_inv d \<Longrightarrow> safe_step d d'"
  by (auto simp: link_intervention_to_segment_def andthen_Inr_iff Let_def safe_refl split: option.splits if_splits)

subsection \<open>The service as a system of requests\<close>

datatype window_request =
    Open_Cursor datetime scope
  | Create_Window "string \<Rightarrow> string" datetime scope batch_spec
  | Claim_Window datetime int
  | Request_Rerun datetime int bool
  | Fail_Window datetime int "string option" "string option" "stamp option"
  | Retry_Window datetime int "stamp option"
  | Note_Enqueued datetime int
  | Give_Up datetime int "string option" "string option" bool
  | Recover_Scope datetime scope
  | Replay_Scope datetime scope bool "string option list"
  | Save_Answer "string set" "json \<Rightarrow> string" datetime int json "string option" json "string option" "string option"
  | Observe datetime scope "string option" "int option" "int option"
  | Link_Run int int int "string option" "string option"

fun window_do :: "window_request \<Rightarrow> platform \<Rightarrow> platform" where
  "window_do (Open_Cursor now sc) d = committed d (get_or_create_cursor now sc d)"
| "window_do (Create_Window digest now sc sp) d = committed d (create_batch digest now sc sp d)"
| "window_do (Claim_Window now bid) d = committed d (claim_batch now bid d)"
| "window_do (Request_Rerun now bid q) d = committed d (set_rerun_requested now bid q d)"
| "window_do (Fail_Window now bid code detail retry) d = committed d (mark_batch_failed now bid code detail retry d)"
| "window_do (Retry_Window now bid retry) d = committed d (prepare_retry now bid retry d)"
| "window_do (Note_Enqueued now bid) d = committed d (mark_enqueued now bid d)"
| "window_do (Give_Up now bid code detail force) d = committed d (terminalize_exhausted_batch now bid code detail force d)"
| "window_do (Recover_Scope now sc) d = snd (recover_exhausted_batches now sc d)"
| "window_do (Replay_Scope now sc do_apply codes) d = committed d (prepare_scope_reprocessing now sc do_apply codes d)"
| "window_do (Save_Answer library render now bid answer raw parsed model prompt) d =
     committed d (save_successful_segments library render now bid answer raw parsed model prompt d)"
| "window_do (Observe now sc status a b) d = committed d (set_observation now sc status a b d)"
| "window_do (Link_Run run bid sid trigger reason) d =
     committed d (link_intervention_to_segment run bid sid trigger reason d)"

lemma committed_safe:
  "(\<And>r d'. res = Inr (r, d') \<Longrightarrow> safe_step d d') \<Longrightarrow> batch_inv d \<Longrightarrow> safe_step d (committed d res)"
  by (cases res) (auto simp: committed_def safe_refl)

lemmas operations_safe =
  get_or_create_cursor_safe create_batch_safe claim_batch_safe set_rerun_requested_safe
  mark_batch_failed_safe prepare_retry_safe mark_enqueued_safe terminalize_safe
  prepare_reprocessing_safe save_successful_safe set_observation_safe link_intervention_safe

lemma window_do_safe:
  assumes inv: "batch_inv d"
  shows "safe_step d (window_do r d)"
proof (cases r)
  case (Recover_Scope now sc)
  then show ?thesis using inv recover_exhausted_safe [of now sc d] by (simp add: prod_eq_iff)
qed (use inv in \<open>auto intro!: committed_safe dest: operations_safe\<close>)

interpretation assessment: monotone_system window_do "\<lambda>_ _. True" batch_inv finalized_through
  using window_do_safe by unfold_locales (auto simp: safe_step_def)

lemma window_runs_evolve:
  "batch_inv d \<Longrightarrow> windows_evolve\<^sup>*\<^sup>* (batches d) (batches (fold window_do rs d))"
proof (induction rs arbitrary: d)
  case (Cons r rs)
  then have "safe_step d (window_do r d)" by (simp add: window_do_safe)
  with Cons.IH [of "window_do r d"] show ?case
    unfolding safe_step_def fold_Cons comp_apply by (meson rtranclp_trans)
qed simp

end
