(* ===== verification/Agent_Mode.thy ===== *)
theory Agent_Mode
  imports Platform_State
begin

text \<open>
  \<open>services/agent_mode_service.py\<close>: which agent a session runs.  \<open>agent_mode\<close> is the
  authority; the two old switches count only when it is empty.  A value arrives as Python
  holds it, so the functions take \<open>json\<close> values; the columns of a session row are read as
  such values by \<open>session_dict\<close>.
\<close>

definition VALID_AGENT_MODES :: "string list" where
  "VALID_AGENT_MODES = [''none'', ''strategy'', ''emotion'']"

definition VALID_PIPELINE_MODES :: "string list" where
  "VALID_PIPELINE_MODES = [''strategy'', ''state_only'']"

definition INVALID_AGENT_CONFIGURATION :: string where
  "INVALID_AGENT_CONFIGURATION = ''INVALID_AGENT_CONFIGURATION''"

text \<open>\<open>Inl\<close> is \<open>InvalidAgentConfiguration\<close>.\<close>

definition validate_agent_mode :: "json \<Rightarrow> string + string" where
  "validate_agent_mode v =
     (case v of
        JStr s \<Rightarrow> let mode = lower (strip s) in
          if mode \<in> set VALID_AGENT_MODES then Inr mode else Inl INVALID_AGENT_CONFIGURATION
      | _ \<Rightarrow> Inl INVALID_AGENT_CONFIGURATION)"

definition enabled :: "json \<Rightarrow> bool" where
  "enabled v = (case v of JStr s \<Rightarrow> lower (strip s) \<in> {''1'', ''true'', ''yes'', ''on''} | _ \<Rightarrow> jtruthy v)"

record mode_flags =
  mf_strategy_agent_enabled :: bool
  mf_emotion_agent_enabled :: bool
  mf_agent_intervention_enabled :: bool
  mf_research_state_monitoring_enabled :: bool
  mf_state_monitoring_enabled :: bool

definition flags_for_agent_mode :: "json \<Rightarrow> json \<Rightarrow> string + mode_flags" where
  "flags_for_agent_mode m research =
     andthen (validate_agent_mode m) (\<lambda>mode.
       Inr \<lparr>mf_strategy_agent_enabled = (mode = ''strategy''),
            mf_emotion_agent_enabled = (mode = ''emotion''),
            mf_agent_intervention_enabled = (mode = ''strategy''),
            mf_research_state_monitoring_enabled = enabled research,
            mf_state_monitoring_enabled = (mode \<in> {''strategy'', ''emotion''} \<or> enabled research)\<rparr>)"

definition agent_mode_from_legacy_flags :: "json \<Rightarrow> json \<Rightarrow> string + string" where
  "agent_mode_from_legacy_flags strategy emotion =
     (if jtruthy strategy \<and> jtruthy emotion then Inl INVALID_AGENT_CONFIGURATION
      else if jtruthy strategy then Inr ''strategy''
      else if jtruthy emotion then Inr ''emotion''
      else Inr ''none'')"

text \<open>
  A session as a dict.  \<open>agent_mode\<close> is a text column, so \<open>str(raw)\<close> is the text itself.
\<close>

definition text_value :: "string option \<Rightarrow> json" where
  "text_value t = (case t of None \<Rightarrow> JNull | Some s \<Rightarrow> JStr s)"

definition int_value :: "int option \<Rightarrow> json" where
  "int_value t = (case t of None \<Rightarrow> JNull | Some i \<Rightarrow> JInt i)"

definition resolve_session_agent_mode :: "session_row option \<Rightarrow> string + string" where
  "resolve_session_agent_mode session =
     (case session of
        None \<Rightarrow> Inr ''none''
      | Some es \<Rightarrow>
          if strip (text_of (es_agent_mode es)) \<noteq> [] then validate_agent_mode (text_value (es_agent_mode es))
          else agent_mode_from_legacy_flags (int_value (es_strategy_agent_enabled es))
                 (int_value (es_emotion_agent_enabled es)))"

record agent_config =
  ac_agent_mode :: "string option"
  ac_flags :: mode_flags
  ac_configuration_error :: "string option"

definition research_switch :: "session_row option \<Rightarrow> json" where
  "research_switch session = (case session of None \<Rightarrow> JBool False
     | Some es \<Rightarrow> int_value (es_research_state_monitoring_enabled es))"

definition agent_config_from_session :: "session_row option \<Rightarrow> agent_config" where
  "agent_config_from_session session =
     (case resolve_session_agent_mode session of
        Inl _ \<Rightarrow> \<lparr>ac_agent_mode = None, ac_flags = projr (flags_for_agent_mode (JStr ''none'') (JBool False)),
                  ac_configuration_error = Some INVALID_AGENT_CONFIGURATION\<rparr>
      | Inr mode \<Rightarrow> \<lparr>ac_agent_mode = Some mode,
                  ac_flags = projr (flags_for_agent_mode (JStr mode) (research_switch session)),
                  ac_configuration_error = None\<rparr>)"

definition pipeline_mode_from_session :: "session_row option \<Rightarrow> string option" where
  "pipeline_mode_from_session session =
     (let config = agent_config_from_session session in
      if ac_configuration_error config \<noteq> None then None
      else if ac_agent_mode config = Some ''strategy'' then Some ''strategy''
      else if mf_state_monitoring_enabled (ac_flags config) then Some ''state_only''
      else None)"

subsection \<open>Modes are exclusive\<close>

lemma valid_mode_cases:
  "mode \<in> set VALID_AGENT_MODES \<longleftrightarrow> mode = ''none'' \<or> mode = ''strategy'' \<or> mode = ''emotion''"
  by (auto simp: VALID_AGENT_MODES_def)

lemma valid_mode_fixed: "mode \<in> set VALID_AGENT_MODES \<Longrightarrow> lower (strip mode) = mode"
proof -
  have "\<forall>mode\<in>set VALID_AGENT_MODES. lower (strip mode) = mode" by code_simp
  then show "mode \<in> set VALID_AGENT_MODES \<Longrightarrow> lower (strip mode) = mode" by blast
qed

lemma validate_valid: "mode \<in> set VALID_AGENT_MODES \<Longrightarrow> validate_agent_mode (JStr mode) = Inr mode"
  by (simp add: validate_agent_mode_def Let_def valid_mode_fixed)

lemma resolved_valid: "resolve_session_agent_mode s = Inr mode \<Longrightarrow> mode \<in> set VALID_AGENT_MODES"
  by (auto simp: resolve_session_agent_mode_def validate_agent_mode_def agent_mode_from_legacy_flags_def
      valid_mode_cases Let_def split: option.splits if_splits json.splits)

lemma resolved_flags:
  assumes "resolve_session_agent_mode s = Inr mode"
  shows "flags_for_agent_mode (JStr mode) v = Inr \<lparr>mf_strategy_agent_enabled = (mode = ''strategy''),
    mf_emotion_agent_enabled = (mode = ''emotion''), mf_agent_intervention_enabled = (mode = ''strategy''),
    mf_research_state_monitoring_enabled = enabled v,
    mf_state_monitoring_enabled = (mode \<in> {''strategy'', ''emotion''} \<or> enabled v)\<rparr>"
  by (simp add: flags_for_agent_mode_def validate_valid [OF resolved_valid [OF assms]])

lemma none_flags: "flags_for_agent_mode (JStr ''none'') (JBool False) = Inr \<lparr>mf_strategy_agent_enabled = False,
    mf_emotion_agent_enabled = False, mf_agent_intervention_enabled = False,
    mf_research_state_monitoring_enabled = False, mf_state_monitoring_enabled = False\<rparr>"
  by (simp add: flags_for_agent_mode_def validate_valid valid_mode_cases enabled_def jtruthy_def)

text \<open>The rows no mode can be read from.\<close>

definition contradictory :: "session_row \<Rightarrow> bool" where
  "contradictory es \<longleftrightarrow>
     (if strip (text_of (es_agent_mode es)) \<noteq> []
      then lower (strip (text_of (es_agent_mode es))) \<notin> set VALID_AGENT_MODES
      else or0 (es_strategy_agent_enabled es) \<noteq> 0 \<and> or0 (es_emotion_agent_enabled es) \<noteq> 0)"

lemma int_value_truthy: "jtruthy (int_value x) \<longleftrightarrow> or0 x \<noteq> 0"
  by (cases x) (simp_all add: int_value_def jtruthy_def)

lemma resolve_error_iff:
  "(\<exists>e. resolve_session_agent_mode s = Inl e) \<longleftrightarrow> (\<exists>es. s = Some es \<and> contradictory es)"
proof (cases s)
  case (Some es)
  show ?thesis
  proof (cases "strip (text_of (es_agent_mode es)) = []")
    case True
    with Some show ?thesis
      by (simp add: resolve_session_agent_mode_def contradictory_def agent_mode_from_legacy_flags_def int_value_truthy)
  next
    case False
    then obtain t where "es_agent_mode es = Some t" by (cases "es_agent_mode es") auto
    with Some False show ?thesis
      by (simp add: resolve_session_agent_mode_def contradictory_def validate_agent_mode_def text_value_def Let_def)
  qed
qed (simp add: resolve_session_agent_mode_def)

end
