(* ===== verification/Batch_Siblings.thy ===== *)
theory Batch_Siblings
  imports Assessment_Batch Coordination
begin

text \<open>
  \<open>services/three_stage_stage2.py\<close>, the part that closes the preliminary sibling runs of a
  window that is over (\<open>finalize_terminal_batch_siblings\<close>, \<open>recover_terminal_batch_orphans\<close>).
  Each call is one transaction; the recovery runs one per window of the scope.
\<close>

text \<open>The outcome of a window that is over, and the second-stage status of its owner.\<close>

definition batch_outcome :: "batch_row \<Rightarrow> (string \<times> string) option" where
  "batch_outcome b =
     (if b_status b = ''succeeded'' then Some (''succeeded'', ''SUCCEEDED'')
      else if b_terminal_status b \<in> {Some ''degraded'', Some ''quarantined''} then Some (''failed'', ''FAILED'')
      else None)"

text \<open>\<open>ORDER BY CASE WHEN cutoff=end THEN 0 ELSE 1 END, id DESC LIMIT 1\<close>.\<close>

definition owner_rank :: "batch_row \<Rightarrow> pipeline_row \<Rightarrow> int \<times> int" where
  "owner_rank b p = (if p_input_cutoff_student_sequence p = Some (b_candidate_end_sequence b) then 0 else 1, - p_id p)"

definition authoritative_owner :: "platform \<Rightarrow> batch_row \<Rightarrow> string \<Rightarrow> pipeline_row option" where
  "authoritative_owner d b status =
     (case sort_key (owner_rank b) (filter (\<lambda>p. p_assessment_batch_id p = Some (b_id b)
             \<and> upper (text_of (p_stage2_status p)) = status) (pipelines d)) of
        [] \<Rightarrow> None | p # _ \<Rightarrow> Some p)"

record siblings_result =
  sr_finalized :: bool
  sr_reason :: string
  sr_pipeline_run_ids :: "int list"

definition not_finalized :: "string \<Rightarrow> siblings_result" where
  "not_finalized reason = \<lparr>sr_finalized = False, sr_reason = reason, sr_pipeline_run_ids = []\<rparr>"

definition owner_recorded :: "pipeline_row \<Rightarrow> pipeline_row" where
  "owner_recorded p = p\<lparr>p_assessment_owner_pipeline_run_id :=
     coalesce (p_assessment_owner_pipeline_run_id p) (Some (p_id p))\<rparr>"

definition finalize_terminal_batch_siblings ::
    "datetime \<Rightarrow> int \<Rightarrow> platform \<Rightarrow> string + (siblings_result \<times> platform)" where
  "finalize_terminal_batch_siblings now bid d =
     (case fetch_batch d bid of
        None \<Rightarrow> Inr (not_finalized ''assessment_batch_not_found'', d)
      | Some b \<Rightarrow>
          (case batch_outcome b of
             None \<Rightarrow> Inr (not_finalized ''assessment_batch_not_terminal'', d)
           | Some (outcome, owner_status) \<Rightarrow>
               (case authoritative_owner d b owner_status of
                  None \<Rightarrow> Inr (not_finalized ''authoritative_pipeline_not_terminal'', d)
                | Some owner \<Rightarrow>
                    andthen (finalize_preliminary_runs_for_batch_row now owner
                        (b_candidate_start_sequence b) (b_candidate_end_sequence b) (Some (b_id b)) (Some outcome)
                        (b_error_code b)
                        (if truthy (b_error_detail b) then Some (take 500 (text_of (b_error_detail b))) else None)
                        (change_pipelines (\<lambda>p. p_id p = p_id owner) owner_recorded d)) (\<lambda>(ids, d1).
                      Inr (\<lparr>sr_finalized = (ids \<noteq> []),
                             sr_reason = (if ids \<noteq> [] then ''terminal_batch_siblings_finalized''
                                          else ''no_deterministic_orphans''),
                             sr_pipeline_run_ids = ids\<rparr>, d1)))))"

fun finalize_each :: "datetime \<Rightarrow> int list \<Rightarrow> platform \<Rightarrow> (string + siblings_result list) \<times> platform" where
  "finalize_each now [] d = (Inr [], d)"
| "finalize_each now (bid # bids) d =
     (case finalize_terminal_batch_siblings now bid d of
        Inl e \<Rightarrow> (Inl e, d)
      | Inr (r, d1) \<Rightarrow>
          (case finalize_each now bids d1 of
             (Inl e, d2) \<Rightarrow> (Inl e, d2)
           | (Inr rs, d2) \<Rightarrow> (Inr (r # rs), d2)))"

definition recover_terminal_batch_orphans ::
    "datetime \<Rightarrow> scope \<Rightarrow> platform \<Rightarrow> (string + siblings_result list) \<times> platform" where
  "recover_terminal_batch_orphans now sc d =
     finalize_each now
       (map b_id (sort_key (\<lambda>b. (b_candidate_end_sequence b, b_id b))
          (filter (\<lambda>b. batch_scope b = sc \<and> batch_outcome b \<noteq> None) (batches d)))) d"

subsection \<open>The assessment tables are not written\<close>

definition assessment_tables where
  "assessment_tables d = (sessions d, discussions d, users d, messages d, batches d, cursors d, segments d,
     rule_assessments d, next_batch_id d, next_segment_id d)"

lemma assessment_tables_frame [simp]:
  "assessment_tables (change_pipelines P f d) = assessment_tables d"
  "assessment_tables (change_groups Q g d) = assessment_tables d"
  "assessment_tables (change_interventions J h d) = assessment_tables d"
  "assessment_tables (log_event e d) = assessment_tables d"
  by (simp_all add: assessment_tables_def)

lemma link_tables [simp]: "assessment_tables (snd (link_pipeline_replacement now i j r t c d)) = assessment_tables d"
  by (simp add: link_pipeline_replacement_def sync_latest_state_from_replacement_def Let_def split: option.splits)

lemma release_tables [simp]: "assessment_tables (snd (release_pipeline_lock ts row d)) = assessment_tables d"
  by (simp add: release_pipeline_lock_def Let_def)

lemma mark_tables: "assessment_tables (snd (mark_pipeline_terminal mk now row d)) = assessment_tables d"
  using release_tables [of "fmt_sec now" row d]
  by (auto simp: mark_pipeline_terminal_def Let_def simp del: release_tables split: prod.splits option.splits)

lemma mark_each_tables: "mark_each mk now rows d = (ids, d') \<Longrightarrow> assessment_tables d' = assessment_tables d"
proof (induction rows arbitrary: d ids)
  case (Cons row rows)
  obtain ok d1 where m: "mark_pipeline_terminal mk now row d = (ok, d1)" by force
  with Cons.prems obtain ids' where "mark_each mk now rows d1 = (ids', d')"
    by (auto simp: Let_def split: prod.splits)
  from Cons.IH [OF this] mark_tables [of mk now row d] m show ?case by simp
qed simp

lemma finalize_siblings_tables:
  "finalize_terminal_batch_siblings now bid d = Inr (r, d') \<Longrightarrow> assessment_tables d' = assessment_tables d"
  by (auto simp: finalize_terminal_batch_siblings_def finalize_preliminary_runs_for_batch_row_def andthen_Inr_iff
      Let_def split: option.splits if_splits dest!: mark_each_tables)

text \<open>The outcomes are the two the coordination service accepts, so nothing is raised.\<close>

lemma finalize_siblings_total: "\<exists>r d'. finalize_terminal_batch_siblings now bid d = Inr (r, d')"
proof -
  have fixed: "lower (strip ''succeeded'') = ''succeeded''" "lower (strip ''failed'') = ''failed''" by code_simp+
  have ok: "finalize_preliminary_runs_for_batch_row now row a e i (Some outcome) c t d0 \<noteq> Inl x"
    if "batch_outcome b = Some (outcome, s)" for row a e i c t d0 b outcome s x
  proof -
    have "outcome = ''succeeded'' \<or> outcome = ''failed''" using that by (simp add: batch_outcome_def split: if_splits)
    then have "lower (strip outcome) \<in> {''succeeded'', ''failed''}" using fixed by (elim disjE) simp_all
    then show ?thesis by (simp only: finalize_preliminary_runs_for_batch_row_def Let_def) auto
  qed
  have "finalize_terminal_batch_siblings now bid d \<noteq> Inl x" for x
    by (auto simp: finalize_terminal_batch_siblings_def andthen_def split: option.splits sum.splits dest: ok)
  then show ?thesis by (cases "finalize_terminal_batch_siblings now bid d") auto
qed

lemma finalize_each_total: "\<exists>rs d'. finalize_each now bids d = (Inr rs, d') \<and> assessment_tables d' = assessment_tables d"
proof (induction bids arbitrary: d)
  case (Cons bid bids)
  obtain r d1 where f: "finalize_terminal_batch_siblings now bid d = Inr (r, d1)"
    using finalize_siblings_total by blast
  obtain rs d' where "finalize_each now bids d1 = (Inr rs, d')" "assessment_tables d' = assessment_tables d1"
    using Cons.IH by blast
  with f finalize_siblings_tables [OF f] show ?case by auto
qed simp

lemma recover_orphans_total:
  obtains rs d' where "recover_terminal_batch_orphans now sc d = (Inr rs, d')"
    and "assessment_tables d' = assessment_tables d"
  using finalize_each_total unfolding recover_terminal_batch_orphans_def by blast

end
