(* ===== verification/Assessment_Scheduler.thy ===== *)
theory Assessment_Scheduler
  imports Agent_Mode Batch_Siblings
begin

text \<open>
  \<open>services/state_assessment_scheduler.py\<close>: who may open an assessment window, which messages
  it takes, what becomes of a request that meets an active window, and the limited retry of a
  failed one.  A request runs several transactions, so a function returns the platform next
  to its result or exception.  The task queue is a parameter (\<open>se_enqueue\<close>, the error it
  raises if any), like the hash of the window key.  All readings of the clock within one
  call give the same instant \<open>now\<close>; arguments that are to be integers are integers.
\<close>

definition TRIGGER_PRIORITIES :: "(string \<times> int) list" where
  "TRIGGER_PRIORITIES = [(''help_request'', 500), (''rule_high_risk'', 400), (''silence_check'', 350),
     (''post_intervention_observation'', 300), (''message_count_periodic'', 200), (''time_periodic'', 100)]"

definition TRIGGER_ALIASES :: "(string \<times> string) list" where
  "TRIGGER_ALIASES = [(''student_help'', ''help_request''), (''student_help_request'', ''help_request''),
     (''new_message'', ''message_count_periodic''), (''student_message'', ''message_count_periodic'')]"

definition ORDINARY_PERIODIC_TRIGGERS :: "string list" where
  "ORDINARY_PERIODIC_TRIGGERS = [''message_count_periodic'', ''time_periodic'']"

definition TRANSPORT_FAILURES :: "string list" where
  "TRANSPORT_FAILURES = [''authentication_error'', ''rate_limited'', ''network_error'', ''upstream_5xx'',
     ''llm_error'', ''unknown_error'']"

text \<open>The settings the scheduler reads from \<open>config.py\<close>, and its two outside functions.\<close>

record scheduler_env =
  se_context_messages :: int
  se_failure_backoff_seconds :: int
  se_failure_max_attempts :: int
  se_max_candidate_messages :: int
  se_message_threshold :: int
  se_min_interval_seconds :: int
  se_time_threshold_seconds :: int
  se_digest :: "string \<Rightarrow> string"
  se_enqueue :: "int \<Rightarrow> int \<Rightarrow> string option"

definition or_int :: "int \<Rightarrow> int \<Rightarrow> int" where
  "or_int x dflt = (if x = 0 then dflt else x)"

definition normalize_trigger :: "string option \<Rightarrow> string + string" where
  "normalize_trigger trigger_type =
     (let t = strip (text_of trigger_type);
          t' = (case map_of TRIGGER_ALIASES t of None \<Rightarrow> t | Some a \<Rightarrow> a)
      in if t' \<in> fst ` set TRIGGER_PRIORITIES then Inr t' else Inl ''unsupported_state_assessment_trigger'')"

definition trigger_priority_of :: "string \<Rightarrow> int" where
  "trigger_priority_of t = (case map_of TRIGGER_PRIORITIES t of None \<Rightarrow> 0 | Some p \<Rightarrow> p)"

text \<open>The upper bound a trigger or replacement puts on its window; \<open>None\<close> is no bound.\<close>

definition request_cutoff_sequence :: "string \<Rightarrow> int option \<Rightarrow> int option \<Rightarrow> int option" where
  "request_cutoff_sequence trigger trigger_sequence replacement_cutoff =
     (case replacement_cutoff of
        Some c \<Rightarrow> Some c
      | None \<Rightarrow> (case trigger_sequence of
                   Some s \<Rightarrow> if trigger \<notin> set ORDINARY_PERIODIC_TRIGGERS then Some s else None
                 | None \<Rightarrow> None))"

text \<open>The keyword arguments of a request, the scope apart.\<close>

record assessment_request =
  rq_trigger_type :: "string option"
  rq_trigger_sequence :: "int option"
  rq_continuation :: bool
  rq_fixed_start :: "int option"
  rq_fixed_end :: "int option"
  rq_replacement :: replacement

definition continuation_contract :: "batch_row \<Rightarrow> assessment_request" where
  "continuation_contract b =
     (let ct = b_continuation b;
          queued = strip (text_of (ct_trigger_type ct));
          current = (if b_trigger_type b = [] then ''message_count_periodic'' else b_trigger_type b)
      in if queued \<noteq> []
         then \<lparr>rq_trigger_type = Some queued, rq_trigger_sequence = ct_trigger_sequence ct,
                rq_continuation = True, rq_fixed_start = ct_candidate_start_sequence ct,
                rq_fixed_end = ct_candidate_end_sequence ct, rq_replacement = ct_replacement ct\<rparr>
         else
           (case request_cutoff_sequence current (b_trigger_sequence b) (rp_cutoff_sequence (b_replacement b)) of
              Some c \<Rightarrow>
                if c > b_candidate_end_sequence b
                then \<lparr>rq_trigger_type = Some current, rq_trigger_sequence = b_trigger_sequence b,
                       rq_continuation = True, rq_fixed_start = None, rq_fixed_end = None,
                       rq_replacement = b_replacement b\<rparr>
                else \<lparr>rq_trigger_type = Some ''message_count_periodic'', rq_trigger_sequence = None,
                       rq_continuation = True, rq_fixed_start = None, rq_fixed_end = None,
                       rq_replacement = empty_replacement\<rparr>
            | None \<Rightarrow> \<lparr>rq_trigger_type = Some ''message_count_periodic'', rq_trigger_sequence = None,
                       rq_continuation = True, rq_fixed_start = None, rq_fixed_end = None,
                       rq_replacement = empty_replacement\<rparr>))"

definition normalize_batch_error_code :: "string option \<Rightarrow> string" where
  "normalize_batch_error_code v =
     (let code = lower (strip (text_of v)) in
      if code \<in> {''read_timeout'', ''connect_timeout''} then code
      else if code \<in> {''empty_response'', ''no_output''} then ''empty_response''
      else if code \<in> {''json_parse_error'', ''truncated_response'', ''reasoning_budget_exhausted''} then code
      else if code = ''schema_validation_error'' then code
      else if code \<in> set TRANSPORT_FAILURES then ''llm_transport_error''
      else ''application_error'')"

subsection \<open>Reading the discussion\<close>

text \<open>\<open>_scope_row\<close>: the discussion joined with its session and room.\<close>

definition request_scope :: "platform \<Rightarrow> scope \<Rightarrow> (discussion_row \<times> session_row \<times> group_row) option" where
  "request_scope d sc =
     (case sc of (gid, sid, did) \<Rightarrow>
        (case find (\<lambda>x. d_id x = did \<and> d_group_id x = gid \<and> d_session_id x = sid) (discussions d) of
           None \<Rightarrow> None
         | Some x \<Rightarrow>
             (case (fetch_session d sid, fetch_group d gid) of
                (Some es, Some g) \<Rightarrow> Some (x, es, g)
              | _ \<Rightarrow> None)))"

definition scope_running :: "discussion_row \<times> session_row \<times> group_row \<Rightarrow> bool" where
  "scope_running r = (case r of (x, es, g) \<Rightarrow>
     d_status x = ''running'' \<and> es_status es = Some ''running'' \<and> upper (g_state g) \<noteq> ''CLOSED'')"

text \<open>The student messages of a discussion by sequence, those whose sequence satisfies \<open>P\<close>.\<close>

definition student_rows :: "platform \<Rightarrow> scope \<Rightarrow> (int \<Rightarrow> bool) \<Rightarrow> message_row list" where
  "student_rows d sc P =
     (case sc of (gid, sid, did) \<Rightarrow>
        sort_key (\<lambda>m. (or0 (m_sequence m), m_id m))
          (filter (\<lambda>m. m_group_id m = gid \<and> m_session_id m = Some sid \<and> m_discussion_id m = Some did
              \<and> joined_role d m = Some ''student''
              \<and> (case m_sequence m of None \<Rightarrow> False | Some s \<Rightarrow> P s))
            (messages d)))"

definition student_rows_after_cursor :: "platform \<Rightarrow> scope \<Rightarrow> int \<Rightarrow> message_row list" where
  "student_rows_after_cursor d sc after = student_rows d sc (\<lambda>s. s > after)"

definition student_rows_in_window :: "platform \<Rightarrow> scope \<Rightarrow> int \<Rightarrow> int \<Rightarrow> message_row list" where
  "student_rows_in_window d sc a e = student_rows d sc (\<lambda>s. a \<le> s \<and> s \<le> e)"

definition student_message_id_at_or_before :: "platform \<Rightarrow> scope \<Rightarrow> int option \<Rightarrow> int option" where
  "student_message_id_at_or_before d sc cutoff =
     (case cutoff of
        None \<Rightarrow> None
      | Some c \<Rightarrow> (case rev (student_rows d sc (\<lambda>s. s \<le> c)) of [] \<Rightarrow> None | m # _ \<Rightarrow> Some (m_id m)))"

definition context_bounds :: "scheduler_env \<Rightarrow> platform \<Rightarrow> scope \<Rightarrow> int \<Rightarrow> int option \<times> int option" where
  "context_bounds env d sc candidate_start =
     (let limit = max 0 (se_context_messages env);
          qs = sort (sequences (take (nat limit) (rev (student_rows d sc (\<lambda>s. s < candidate_start)))))
      in if limit \<le> 0 \<or> qs = [] then (None, None) else (Some (hd qs), Some (last qs)))"

definition is_due :: "stamp option \<Rightarrow> int \<Rightarrow> datetime \<Rightarrow> bool" where
  "is_due reference threshold current =
     (case reference of
        None \<Rightarrow> True
      | Some t \<Rightarrow> current - stamp_dt t \<ge> seconds (max 0 threshold))"

subsection \<open>A request that meets an active window\<close>

text \<open>Whether the request asks for exactly the active window.\<close>

definition same_request_window :: "assessment_request \<Rightarrow> int option \<Rightarrow> batch_row \<Rightarrow> bool" where
  "same_request_window rq cutoff b \<longleftrightarrow> cutoff = Some (b_candidate_end_sequence b)
     \<and> (rq_fixed_start rq = None \<or> rq_fixed_start rq = Some (b_candidate_start_sequence b))"

definition strengthened :: "string \<Rightarrow> assessment_request \<Rightarrow> replacement \<Rightarrow> batch_row \<Rightarrow> batch_row" where
  "strengthened trigger rq rp b =
     (let b1 = (if trigger_priority_of trigger > b_request_priority b
                then b\<lparr>b_trigger_type := trigger, b_request_priority := trigger_priority_of trigger,
                       b_last_trigger_sequence := rq_trigger_sequence rq\<rparr> else b)
      in if rp_of_pipeline_run_id rp \<noteq> None \<and> rp_of_pipeline_run_id (b_replacement b) = None
         then b1\<lparr>b_replacement := rp\<rparr> else b1)"

text \<open>The window to queue behind the active one; \<open>None\<close> when there is nothing to queue.\<close>

definition incoming_window ::
    "assessment_request \<Rightarrow> int option \<Rightarrow> int \<Rightarrow> batch_row \<Rightarrow> (int \<times> int option \<times> int option) option" where
  "incoming_window rq cutoff last_finalized b =
     (case cutoff of
        None \<Rightarrow> None
      | Some c \<Rightarrow>
          if same_request_window rq cutoff b then None
          else if c < b_candidate_end_sequence b
          then (let a = max (last_finalized + 1) (b_candidate_start_sequence b)
                in if a > c then None else Some (c, Some a, Some c))
          else Some (c, rq_fixed_start rq, rq_fixed_end rq))"

definition queued_cutoff :: "continuation \<Rightarrow> int option" where
  "queued_cutoff ct =
     (if \<not> truthy (ct_trigger_type ct) then None
      else case ct_candidate_end_sequence ct of
        Some e \<Rightarrow> Some e
      | None \<Rightarrow> request_cutoff_sequence (text_of (ct_trigger_type ct)) (ct_trigger_sequence ct)
                  (rp_cutoff_sequence (ct_replacement ct)))"

definition queue_request ::
    "string \<Rightarrow> assessment_request \<Rightarrow> replacement \<Rightarrow> int \<times> int option \<times> int option \<Rightarrow> continuation \<Rightarrow> continuation" where
  "queue_request trigger rq rp incoming ct =
     (case incoming of (c, a, e) \<Rightarrow>
        if (case queued_cutoff ct of
              None \<Rightarrow> True
            | Some q \<Rightarrow> c < q \<or> c = q \<and> trigger_priority_of trigger > ct_request_priority ct)
        then \<lparr>ct_trigger_type = Some trigger, ct_trigger_sequence = rq_trigger_sequence rq,
               ct_request_priority = trigger_priority_of trigger, ct_candidate_start_sequence = a,
               ct_candidate_end_sequence = e, ct_replacement = rp\<rparr>
        else if queued_cutoff ct = Some c \<and> rp_of_pipeline_run_id rp \<noteq> None
                \<and> rp_of_pipeline_run_id (ct_replacement ct) = None
        then ct\<lparr>ct_replacement := rp\<rparr>
        else ct)"

definition rerun_row ::
    "stamp \<Rightarrow> string \<Rightarrow> assessment_request \<Rightarrow> replacement \<Rightarrow> int option \<Rightarrow> int \<Rightarrow> batch_row \<Rightarrow> batch_row" where
  "rerun_row ts trigger rq rp cutoff last_finalized b =
     (let b1 = (if same_request_window rq cutoff b then strengthened trigger rq rp b else b);
          ct = (case incoming_window rq cutoff last_finalized b of
                  None \<Rightarrow> b_continuation b
                | Some w \<Rightarrow> queue_request trigger rq rp w (b_continuation b))
      in b1\<lparr>b_rerun_requested := True, b_continuation := ct, b_updated_at := Some ts\<rparr>)"

subsection \<open>Opening a window\<close>

record request_result =
  rr_skipped :: bool
  rr_reason :: "string option"
  rr_pending_or_running :: bool
  rr_rerun_requested :: bool
  rr_created :: bool
  rr_enqueued :: bool
  rr_assessment_batch_id :: "int option"
  rr_candidate :: "(int \<times> int) option"
  rr_request_cutoff :: "int option"
  rr_new_student_messages :: nat

definition request_result0 :: request_result where
  "request_result0 = \<lparr>rr_skipped = False, rr_reason = None, rr_pending_or_running = False,
     rr_rerun_requested = False, rr_created = False, rr_enqueued = False, rr_assessment_batch_id = None,
     rr_candidate = None, rr_request_cutoff = None, rr_new_student_messages = 0\<rparr>"

definition skipped :: "string \<Rightarrow> request_result \<Rightarrow> request_result" where
  "skipped reason r = r\<lparr>rr_skipped := True, rr_reason := Some reason\<rparr>"

text \<open>Why no window is opened although none is active; \<open>None\<close> lets the request go on.\<close>

definition opening_refusal ::
    "scheduler_env \<Rightarrow> datetime \<Rightarrow> string \<Rightarrow> assessment_request \<Rightarrow> int option \<Rightarrow> discussion_row \<Rightarrow> cursor_row
       \<Rightarrow> message_row list \<Rightarrow> message_row list \<Rightarrow> string option" where
  "opening_refusal env now trigger rq cutoff x c unfinalized students =
     (if students = []
      then Some (if rq_fixed_start rq \<noteq> None then ''no_student_messages_in_fixed_window''
                 else if cutoff \<noteq> None \<and> unfinalized \<noteq> [] then ''no_student_messages_before_trigger_cutoff''
                 else ''no_new_student_messages'')
      else if \<not> rq_continuation rq \<and> trigger = ''message_count_periodic''
              \<and> int (length students) < max 1 (or_int (se_message_threshold env) 4)
      then Some ''message_threshold_not_reached''
      else if \<not> rq_continuation rq \<and> trigger = ''time_periodic''
              \<and> \<not> is_due (coalesce (c_last_assessment_completed_at c) (coalesce (d_started_at x) (d_created_at x)))
                   (se_time_threshold_seconds env) now
      then Some ''time_threshold_not_reached''
      else if \<not> rq_continuation rq \<and> trigger \<in> set ORDINARY_PERIODIC_TRIGGERS
              \<and> c_last_assessment_completed_at c \<noteq> None
              \<and> \<not> is_due (c_last_assessment_completed_at c) (se_min_interval_seconds env) now
      then Some ''minimum_interval_not_reached''
      else None)"

definition claimed_window ::
    "scheduler_env \<Rightarrow> stamp \<Rightarrow> scope \<Rightarrow> session_row \<Rightarrow> string \<Rightarrow> assessment_request \<Rightarrow> replacement
       \<Rightarrow> message_row list \<Rightarrow> int option \<times> int option \<Rightarrow> bool \<Rightarrow> int \<Rightarrow> batch_row" where
  "claimed_window env ts sc es trigger rq rp claimed context rerun bid = (case sc of (gid, sid, did) \<Rightarrow>
     \<lparr>b_id = bid, b_group_id = gid, b_session_id = sid, b_discussion_id = did,
      b_session_no = es_session_no es, b_task_id = es_task_id es,
      b_candidate_start_sequence = or0 (m_sequence (hd claimed)),
      b_candidate_end_sequence = or0 (m_sequence (last claimed)),
      b_context_start_sequence = fst context, b_context_end_sequence = snd context,
      b_trigger_type = trigger, b_trigger_sequence = rq_trigger_sequence rq,
      b_window_key = window_key (se_digest env) sc (or0 (m_sequence (hd claimed))) (or0 (m_sequence (last claimed))),
      b_status = ''pending'', b_rerun_requested = rerun, b_request_priority = trigger_priority_of trigger,
      b_last_trigger_sequence = rq_trigger_sequence rq, b_continuation = empty_continuation,
      b_replacement = rp, b_attempt_count = 0,
      b_max_attempts = max 1 (or_int (se_failure_max_attempts env) 2), b_next_retry_at = None,
      b_enqueued_at = None, b_model = None, b_prompt_version = None, b_raw_response = None,
      b_parsed_response = None, b_error_code = None, b_error_detail = None,
      b_student_sequences = Some (sequences claimed), b_terminal_status = None, b_terminal_at = None,
      b_fallback_action = None, b_fallback_segment_count = 0, b_started_at = None,
      b_completed_at = None, b_created_at = ts, b_updated_at = Some ts\<rparr>)"

text \<open>A failed window is taken up again while it has attempts left and its retry is due.\<close>

definition reopened_row :: "stamp \<Rightarrow> string \<Rightarrow> int option \<Rightarrow> batch_row \<Rightarrow> batch_row" where
  "reopened_row ts trigger trigger_sequence b = b\<lparr>b_status := ''pending'', b_trigger_type := trigger,
     b_request_priority := max (b_request_priority b) (trigger_priority_of trigger),
     b_last_trigger_sequence := coalesce trigger_sequence (b_last_trigger_sequence b),
     b_error_code := None, b_error_detail := None, b_next_retry_at := None, b_completed_at := None,
     b_updated_at := Some ts\<rparr>"

definition take_up_again ::
    "scheduler_env \<Rightarrow> datetime \<Rightarrow> string \<Rightarrow> int option \<Rightarrow> batch_row \<Rightarrow> platform
       \<Rightarrow> string + ((bool \<times> string option) \<times> platform)" where
  "take_up_again env now trigger trigger_sequence b d =
     (if b_status b \<noteq> ''failed'' then Inr ((False, None), d)
      else
        (let due = (case b_next_retry_at b of None \<Rightarrow> True | Some t \<Rightarrow> stamp_dt t \<le> now);
             allowed = or_int (b_max_attempts b) (max 1 (or_int (se_failure_max_attempts env) 2))
         in if b_attempt_count b < allowed \<and> due
            then indexed ((rowcount (\<lambda>r. b_id r = b_id b \<and> retryable r) (batches d) = 1, None),
                   change_batch (b_id b) retryable (reopened_row (fmt_sec now) trigger trigger_sequence) d)
            else Inr ((False, Some (if \<not> due then ''retry_backoff'' else ''retry_limit_reached'')), d)))"

definition open_window ::
    "scheduler_env \<Rightarrow> datetime \<Rightarrow> scope \<Rightarrow> session_row \<Rightarrow> string \<Rightarrow> assessment_request \<Rightarrow> replacement
       \<Rightarrow> message_row list \<Rightarrow> message_row list \<Rightarrow> request_result \<Rightarrow> platform
       \<Rightarrow> string + ((bool \<times> request_result) \<times> platform)" where
  "open_window env now sc es trigger rq rp unfinalized students res d =
     (let ts = fmt_sec now;
          claimed = take (nat (max 1 (or_int (se_max_candidate_messages env) 8))) students;
          a = or0 (m_sequence (hd claimed)); e = or0 (m_sequence (last claimed));
          rerun = (length students > length claimed
                   \<or> rq_fixed_start rq = None \<and> length unfinalized > length claimed);
          touch = change_cursor sc (\<lambda>c. c\<lparr>c_last_assessment_requested_at := Some ts, c_updated_at := ts\<rparr>);
          res' = res\<lparr>rr_candidate := Some (a, e)\<rparr>
      in case find (same_window sc a e) (batches d) of
           None \<Rightarrow>
             (let b = claimed_window env ts sc es trigger rq rp claimed (context_bounds env d sc a) rerun
                        (next_batch_id d)
              in indexed ((True, res'\<lparr>rr_created := True, rr_rerun_requested := rerun,
                     rr_assessment_batch_id := Some (b_id b)\<rparr>), touch (insert_batch b d)))
         | Some b \<Rightarrow>
             andthen (take_up_again env now trigger (rq_trigger_sequence rq) b d) (\<lambda>((won, why), d1).
               (let b' = (case fetch_batch d1 (b_id b) of None \<Rightarrow> b | Some r \<Rightarrow> r);
                    reason = (if b_status b' = ''succeeded'' then Some ''window_already_succeeded''
                              else if active_batch b' \<and> \<not> won
                              then (if why = None then Some ''window_already_claimed'' else why)
                              else why)
                in Inr ((won, res'\<lparr>rr_reason := reason, rr_rerun_requested := b_rerun_requested b',
                     rr_assessment_batch_id := Some (b_id b)\<rparr>), touch d1))))"

subsection \<open>The request\<close>

text \<open>The checks on the arguments, in the order of the code.\<close>

definition request_refusal :: "assessment_request \<Rightarrow> string option" where
  "request_refusal rq =
     (if (rq_fixed_start rq = None) \<noteq> (rq_fixed_end rq = None) then Some ''incomplete_fixed_candidate_window''
      else if rq_fixed_start rq \<noteq> None \<and> or0 (rq_fixed_start rq) > or0 (rq_fixed_end rq)
      then Some ''invalid_fixed_candidate_window''
      else None)"

definition request_reason :: "assessment_request \<Rightarrow> string option" where
  "request_reason rq =
     (if rp_of_pipeline_run_id (rq_replacement rq) \<noteq> None
      then or_text (rp_reason (rq_replacement rq)) (Some ''continuation_request'') else None)"

text \<open>The replacement columns, completed from the request and the stored messages.\<close>

definition request_replacement ::
    "platform \<Rightarrow> scope \<Rightarrow> assessment_request \<Rightarrow> message_row list \<Rightarrow> replacement" where
  "request_replacement d sc rq unfinalized =
     (let rp = (rq_replacement rq)\<lparr>rp_reason := request_reason rq\<rparr>;
          last_open = (if unfinalized = [] then None else Some (or0 (m_sequence (last unfinalized))));
          cutoff = coalesce (rp_cutoff_sequence rp)
                     (coalesce (rq_fixed_end rq) (coalesce (rq_trigger_sequence rq) last_open))
      in if rp_of_pipeline_run_id rp = None then rp
         else rp\<lparr>rp_cutoff_sequence := cutoff,
                 rp_trigger_message_id := coalesce (rp_trigger_message_id rp)
                   (student_message_id_at_or_before d sc cutoff)\<rparr>)"

definition request_cutoff :: "string \<Rightarrow> assessment_request \<Rightarrow> replacement \<Rightarrow> int option" where
  "request_cutoff trigger rq rp =
     coalesce (rq_fixed_end rq) (request_cutoff_sequence trigger (rq_trigger_sequence rq) (rp_cutoff_sequence rp))"

definition candidate_rows ::
    "platform \<Rightarrow> scope \<Rightarrow> assessment_request \<Rightarrow> int option \<Rightarrow> message_row list \<Rightarrow> message_row list" where
  "candidate_rows d sc rq cutoff unfinalized =
     (case rq_fixed_start rq of
        Some a \<Rightarrow> student_rows_in_window d sc a (or0 (rq_fixed_end rq))
      | None \<Rightarrow> filter (\<lambda>m. case cutoff of None \<Rightarrow> True | Some c \<Rightarrow> or0 (m_sequence m) \<le> c) unfinalized)"

definition opened_cursor :: "stamp \<Rightarrow> scope \<Rightarrow> session_row \<Rightarrow> platform \<Rightarrow> platform" where
  "opened_cursor ts sc es d =
     (if cursor_of d sc = None then d\<lparr>cursors := cursors d @ [new_cursor sc es ts]\<rparr> else d)"

text \<open>The transaction of \<open>request_state_assessment\<close>, with whether its window is to be queued.\<close>

definition request_transaction ::
    "scheduler_env \<Rightarrow> datetime \<Rightarrow> scope \<Rightarrow> string \<Rightarrow> assessment_request \<Rightarrow> platform
       \<Rightarrow> string + ((bool \<times> request_result) \<times> platform)" where
  "request_transaction env now sc trigger rq d =
     (case request_scope d sc of
        None \<Rightarrow> Inr ((False, skipped ''discussion_scope_mismatch'' request_result0), d)
      | Some (x, es, g) \<Rightarrow>
          if \<not> scope_running (x, es, g) then Inr ((False, skipped ''discussion_not_running'' request_result0), d)
          else
            (let ts = fmt_sec now;
                 d1 = opened_cursor ts sc es d;
                 c = the (cursor_of d1 sc);
                 unfinalized = student_rows_after_cursor d1 sc (scheduled_through c);
                 rp = request_replacement d1 sc rq unfinalized;
                 cutoff = request_cutoff trigger rq rp;
                 res = request_result0\<lparr>rr_request_cutoff := cutoff, rr_new_student_messages := length unfinalized\<rparr>
             in case get_active_batch sc d1 of
                  Some b \<Rightarrow>
                    Inr ((False, res\<lparr>rr_pending_or_running := True, rr_rerun_requested := True,
                            rr_reason := Some ''assessment_in_progress'', rr_assessment_batch_id := Some (b_id b),
                            rr_candidate := Some (b_candidate_start_sequence b, b_candidate_end_sequence b)\<rparr>),
                         change_batch (b_id b) active_batch
                           (rerun_row ts trigger rq rp cutoff (c_last_finalized_student_sequence c)) d1)
                | None \<Rightarrow>
                    (let students = candidate_rows d1 sc rq cutoff unfinalized in
                     case opening_refusal env now trigger rq cutoff x c unfinalized students of
                       Some reason \<Rightarrow> Inr ((False, skipped reason res), d1)
                     | None \<Rightarrow> open_window env now sc es trigger rq rp unfinalized students res d1)))"

definition enqueue_batch :: "scheduler_env \<Rightarrow> int \<Rightarrow> int \<Rightarrow> string option" where
  "enqueue_batch env bid delay = se_enqueue env bid (max 0 delay)"

definition backoff_seconds :: "scheduler_env \<Rightarrow> int" where
  "backoff_seconds env = max 1 (or_int (se_failure_backoff_seconds env) 30)"

text \<open>Queue the window and note it; an exception of either marks the window failed.\<close>

definition enqueue_and_note ::
    "scheduler_env \<Rightarrow> datetime \<Rightarrow> int \<Rightarrow> int \<Rightarrow> platform \<Rightarrow> (string + platform)" where
  "enqueue_and_note env now bid delay d =
     (case enqueue_batch env bid delay of
        Some e \<Rightarrow> Inl e
      | None \<Rightarrow> map_sum id snd (mark_enqueued now bid d))"

definition hand_over ::
    "scheduler_env \<Rightarrow> datetime \<Rightarrow> request_result \<Rightarrow> int \<Rightarrow> platform \<Rightarrow> (string + request_result) \<times> platform" where
  "hand_over env now res bid d =
     (case enqueue_and_note env now bid 0 d of
        Inr d1 \<Rightarrow> (Inr (res\<lparr>rr_enqueued := True\<rparr>), d1)
      | Inl e \<Rightarrow>
          (case mark_batch_failed now bid (Some ''application_error'') (Some (take 500 e))
                  (Some (fmt_sec (now + seconds (backoff_seconds env)))) d of
             Inl e' \<Rightarrow> (Inl e', d)
           | Inr (_, d1) \<Rightarrow> (Inr (res\<lparr>rr_enqueued := False, rr_reason := Some ''enqueue_failed''\<rparr>), d1)))"

definition request_state_assessment ::
    "scheduler_env \<Rightarrow> datetime \<Rightarrow> scope \<Rightarrow> assessment_request \<Rightarrow> platform
       \<Rightarrow> (string + request_result) \<times> platform" where
  "request_state_assessment env now sc rq d =
     (case (request_refusal rq, normalize_trigger (rq_trigger_type rq)) of
        (Some e, _) \<Rightarrow> (Inl e, d)
      | (None, Inl e) \<Rightarrow> (Inl e, d)
      | (None, Inr trigger) \<Rightarrow>
          (let session = fetch_session d (fst (snd sc)) in
           if ac_configuration_error (agent_config_from_session session) \<noteq> None
           then (Inr (skipped ''invalid_agent_configuration'' request_result0), d)
           else if pipeline_mode_from_session session = None
           then (Inr (skipped ''state_monitoring_disabled'' request_result0), d)
           else
             (case recover_exhausted_batches now sc d of
                (Inl e, d1) \<Rightarrow> (Inl e, d1)
              | (Inr _, d1) \<Rightarrow>
                  (case recover_terminal_batch_orphans now sc d1 of
                     (Inl e, d2) \<Rightarrow> (Inl e, d2)
                   | (Inr _, d2) \<Rightarrow>
                       (case request_transaction env now sc trigger rq d2 of
                          Inl e \<Rightarrow> (Inl e, d2)
                        | Inr ((needed, res), d3) \<Rightarrow>
                            if needed \<and> or0 (rr_assessment_batch_id res) \<noteq> 0
                            then hand_over env now res (or0 (rr_assessment_batch_id res)) d3
                            else (Inr res, d3))))))"

subsection \<open>Requests made for a message, by the scanner and after a failure\<close>

definition resolve_message_scope :: "platform \<Rightarrow> int \<Rightarrow> int \<Rightarrow> scope option" where
  "resolve_message_scope d gid sequence =
     (case find (\<lambda>m. m_group_id m = gid \<and> m_sequence m = Some sequence
             \<and> (\<exists>x\<in>set (discussions d). sql_eq (m_discussion_id m) (Some (d_id x)) \<and> d_group_id x = m_group_id m
                  \<and> sql_eq (m_session_id m) (Some (d_session_id x)))) (messages d) of
        None \<Rightarrow> None
      | Some m \<Rightarrow> Some (gid, or0 (m_session_id m), or0 (m_discussion_id m)))"

definition plain_request :: "string option \<Rightarrow> int option \<Rightarrow> assessment_request" where
  "plain_request trigger sequence = \<lparr>rq_trigger_type = trigger, rq_trigger_sequence = sequence,
     rq_continuation = False, rq_fixed_start = None, rq_fixed_end = None, rq_replacement = empty_replacement\<rparr>"

definition request_state_assessment_for_message ::
    "scheduler_env \<Rightarrow> datetime \<Rightarrow> int \<Rightarrow> int \<Rightarrow> string option \<Rightarrow> platform \<Rightarrow> (string + request_result) \<times> platform" where
  "request_state_assessment_for_message env now gid sequence trigger d =
     (case resolve_message_scope d gid sequence of
        None \<Rightarrow> (Inr (skipped ''message_discussion_scope_not_found'' request_result0), d)
      | Some sc \<Rightarrow> request_state_assessment env now sc (plain_request trigger (Some sequence)) d)"

text \<open>One discussion of the scan: a count request, then a time request below the threshold.\<close>

definition scan_one ::
    "scheduler_env \<Rightarrow> datetime \<Rightarrow> scope \<Rightarrow> platform \<Rightarrow> (string + request_result) \<times> platform" where
  "scan_one env now sc d =
     (case request_state_assessment env now sc (plain_request (Some ''message_count_periodic'') None) d of
        (Inl e, d1) \<Rightarrow> (Inl e, d1)
      | (Inr r, d1) \<Rightarrow>
          if rr_reason r = Some ''message_threshold_not_reached''
          then request_state_assessment env now sc (plain_request (Some ''time_periodic'') None) d1
          else (Inr r, d1))"

fun scan_each ::
    "scheduler_env \<Rightarrow> datetime \<Rightarrow> scope list \<Rightarrow> platform \<Rightarrow> (string + request_result list) \<times> platform" where
  "scan_each env now [] d = (Inr [], d)"
| "scan_each env now (sc # scs) d =
     (case scan_one env now sc d of
        (Inl e, d1) \<Rightarrow> (Inl e, d1)
      | (Inr r, d1) \<Rightarrow>
          (case scan_each env now scs d1 of
             (Inl e, d2) \<Rightarrow> (Inl e, d2)
           | (Inr rs, d2) \<Rightarrow> (Inr (r # rs), d2)))"

definition due_scopes :: "platform \<Rightarrow> int \<Rightarrow> scope list" where
  "due_scopes d limit =
     take (nat (max 1 (or_int limit 100)))
       (map (\<lambda>x. (d_group_id x, d_session_id x, d_id x))
         (sort_key d_id (filter (\<lambda>x. case (fetch_session d (d_session_id x), fetch_group d (d_group_id x)) of
              (Some es, Some g) \<Rightarrow> scope_running (x, es, g)
            | _ \<Rightarrow> False) (discussions d))))"

record scan_summary =
  ss_scanned :: nat
  ss_requested :: nat
  ss_enqueued :: nat
  ss_skipped :: nat

definition summarize :: "request_result list \<Rightarrow> scan_summary" where
  "summarize rs = \<lparr>ss_scanned = length rs,
     ss_requested = length (filter (\<lambda>r. or0 (rr_assessment_batch_id r) \<noteq> 0) rs),
     ss_enqueued = length (filter rr_enqueued rs), ss_skipped = length (filter rr_skipped rs)\<rparr>"

definition scan_due_state_assessments ::
    "scheduler_env \<Rightarrow> datetime \<Rightarrow> int \<Rightarrow> platform \<Rightarrow> (string + scan_summary) \<times> platform" where
  "scan_due_state_assessments env now limit d =
     (case scan_each env now (due_scopes d limit) d of
        (Inl e, d1) \<Rightarrow> (Inl e, d1)
      | (Inr rs, d1) \<Rightarrow> (Inr (summarize rs), d1))"

subsection \<open>Limited retry\<close>

text \<open>
  \<open>_schedule_limited_retry\<close>.  \<open>rt_terminal\<close> is the window as terminalization left it.
\<close>

record retry_result =
  rt_retried :: bool
  rt_reason :: "string option"
  rt_delay :: "int option"
  rt_terminal :: "batch_row option"

definition not_retried :: "string \<Rightarrow> retry_result" where
  "not_retried reason = \<lparr>rt_retried = False, rt_reason = Some reason, rt_delay = None, rt_terminal = None\<rparr>"

definition STRUCTURED_OUTPUT_ERRORS :: "string list" where
  "STRUCTURED_OUTPUT_ERRORS = [''truncated_response'', ''json_parse_error'', ''schema_validation_error'',
     ''reasoning_budget_exhausted'']"

definition short_detail :: "string \<Rightarrow> string option" where
  "short_detail detail = (if detail \<noteq> [] then Some (take 500 detail) else None)"

definition finalize_terminal_pipeline_siblings :: "datetime \<Rightarrow> int \<Rightarrow> platform \<Rightarrow> platform" where
  "finalize_terminal_pipeline_siblings now bid d = committed d (finalize_terminal_batch_siblings now bid d)"

definition give_up_and_close ::
    "datetime \<Rightarrow> batch_row \<Rightarrow> string \<Rightarrow> string \<Rightarrow> bool \<Rightarrow> string \<Rightarrow> platform
       \<Rightarrow> (string + retry_result) \<times> platform" where
  "give_up_and_close now b code detail force reason d =
     (case terminalize_exhausted_batch now (b_id b) (Some (normalize_batch_error_code (Some code)))
             (short_detail detail) force d of
        Inl e \<Rightarrow> (Inl e, d)
      | Inr (t, d1) \<Rightarrow>
          (Inr ((not_retried reason)\<lparr>rt_terminal := fetch_batch d1 (b_id b)\<rparr>),
           finalize_terminal_pipeline_siblings now (b_id b) d1))"

definition retry_delay :: "scheduler_env \<Rightarrow> batch_row \<Rightarrow> int" where
  "retry_delay env b = backoff_seconds env * max 1 (b_attempt_count b)"

definition retry_later ::
    "scheduler_env \<Rightarrow> datetime \<Rightarrow> batch_row \<Rightarrow> string \<Rightarrow> string \<Rightarrow> platform
       \<Rightarrow> (string + retry_result) \<times> platform" where
  "retry_later env now b code detail d =
     (let delay = retry_delay env b; retry_at = Some (fmt_sec (now + seconds delay))
      in case mark_batch_failed now (b_id b) (Some (normalize_batch_error_code (Some code)))
                (short_detail detail) retry_at d of
           Inl e \<Rightarrow> (Inl e, d)
         | Inr (_, d1) \<Rightarrow>
             (case prepare_retry now (b_id b) retry_at d1 of
                Inl e \<Rightarrow> (Inl e, d1)
              | Inr (prepared, d2) \<Rightarrow>
                  if \<not> prepared then (Inr (not_retried ''retry_not_prepared''), d2)
                  else
                    (case enqueue_and_note env now (b_id b) delay d2 of
                       Inr d3 \<Rightarrow> (Inr \<lparr>rt_retried = True, rt_reason = None, rt_delay = Some delay,
                                     rt_terminal = None\<rparr>, d3)
                     | Inl e \<Rightarrow>
                         (case mark_batch_failed now (b_id b) (Some ''application_error'') (Some (take 500 e))
                                 retry_at d2 of
                            Inl e' \<Rightarrow> (Inl e', d2)
                          | Inr (_, d3) \<Rightarrow> (Inr (not_retried ''retry_enqueue_failed''), d3)))))"

definition schedule_limited_retry ::
    "scheduler_env \<Rightarrow> datetime \<Rightarrow> batch_row \<Rightarrow> string \<Rightarrow> string \<Rightarrow> platform
       \<Rightarrow> (string + retry_result) \<times> platform" where
  "schedule_limited_retry env now b code detail d =
     (if code \<in> set STRUCTURED_OUTPUT_ERRORS
      then give_up_and_close now b code detail True ''structured_output_retry_exhausted'' d
      else if b_attempt_count b \<ge> or_int (b_max_attempts b) 1
      then give_up_and_close now b code detail False ''retry_limit_reached'' d
      else retry_later env now b code detail d)"

definition continue_after_terminal ::
    "scheduler_env \<Rightarrow> datetime \<Rightarrow> batch_row \<Rightarrow> retry_result \<Rightarrow> platform
       \<Rightarrow> (string + request_result option) \<times> platform" where
  "continue_after_terminal env now b retry d =
     (case rt_terminal retry of
        None \<Rightarrow> (Inr None, d)
      | Some tb \<Rightarrow>
          if b_terminal_status tb \<notin> {Some ''degraded'', Some ''quarantined''} then (Inr None, d)
          else map_prod (map_sum id Some) id
                 (request_state_assessment env now (batch_scope b) (continuation_contract tb) d))"

subsection \<open>The ends of an execution\<close>

text \<open>
  The parts of \<open>execute_state_assessment_batch\<close> around the detector and the pipeline stages:
  the claim with the checks made before them, what follows a failed detection, and the
  continuation after a saved answer.
\<close>

datatype execution_start =
    Not_Claimable
  | Refused string
  | Ready batch_row string   \<comment> \<open>the claimed window and the pipeline mode\<close>

definition begin_execution ::
    "datetime \<Rightarrow> int \<Rightarrow> platform \<Rightarrow> (string + execution_start) \<times> platform" where
  "begin_execution now bid d =
     (case claim_batch now bid d of
        Inl e \<Rightarrow> (Inl e, d)
      | Inr (won, d1) \<Rightarrow>
          if \<not> won then (Inr Not_Claimable, d1)
          else
            (let b = the (fetch_batch d1 bid);
                 refuse = (\<lambda>code detail. case mark_batch_failed now bid (Some code) (Some detail) None d1 of
                     Inl e \<Rightarrow> (Inl e, d1)
                   | Inr (_, d2) \<Rightarrow> (Inr (Refused code), d2))
             in case request_scope d1 (batch_scope b) of
                  None \<Rightarrow> refuse ''discussion_not_running'' ''discussion closed before assessment execution''
                | Some (x, es, g) \<Rightarrow>
                    if \<not> scope_running (x, es, g)
                    then refuse ''discussion_not_running'' ''discussion closed before assessment execution''
                    else
                      (case pipeline_mode_from_session (Some es) of
                         None \<Rightarrow> refuse ''state_monitoring_disabled''
                                   ''state monitoring disabled before assessment execution''
                       | Some mode \<Rightarrow> (Inr (Ready b mode), d1))))"

definition after_failed_detection ::
    "scheduler_env \<Rightarrow> datetime \<Rightarrow> batch_row \<Rightarrow> string \<Rightarrow> string \<Rightarrow> platform
       \<Rightarrow> (string + (retry_result \<times> request_result option)) \<times> platform" where
  "after_failed_detection env now b code detail d =
     (case schedule_limited_retry env now (case fetch_batch d (b_id b) of None \<Rightarrow> b | Some r \<Rightarrow> r) code detail d of
        (Inl e, d1) \<Rightarrow> (Inl e, d1)
      | (Inr retry, d1) \<Rightarrow>
          map_prod (map_sum id (Pair retry)) id (continue_after_terminal env now b retry d1))"

text \<open>
  \<open>b\<close> is the window as claimed, \<open>fresh\<close> as it was read after the detection.
\<close>

definition after_saved_answer ::
    "scheduler_env \<Rightarrow> datetime \<Rightarrow> batch_row \<Rightarrow> batch_row \<Rightarrow> platform
       \<Rightarrow> (string + request_result option) \<times> platform" where
  "after_saved_answer env now b fresh d =
     (if b_rerun_requested fresh
         \<or> student_rows d (batch_scope b) (\<lambda>s. s > b_candidate_end_sequence b) \<noteq> []
      then map_prod (map_sum id Some) id
             (request_state_assessment env now (batch_scope b) (continuation_contract fresh) d)
      else (Inr None, d))"

end
