(* ===== verification/Scheduler_Services.thy ===== *)
theory Scheduler_Services
  imports Window_Services Assessment_Scheduler
begin

text \<open>
  The calls of the scheduler keep the invariant of the assessment tables, move windows only
  along their state machine and never move a finalized cursor back; the transaction of a
  request cannot fail.  With the requests to the window service they form one system.
\<close>

subsection \<open>Steps outside the assessment tables\<close>

lemma safe_tables: "assessment_tables d' = assessment_tables d1 \<Longrightarrow> safe_step d d1 \<Longrightarrow> safe_step d d'"
proof -
  assume t: "assessment_tables d' = assessment_tables d1" and s: "safe_step d d1"
  have "batch_inv d' = batch_inv d1" "batches d' = batches d1" "finalized_through d' = finalized_through d1"
    using t batch_inv_cong [of d' d1]
    by (simp_all add: assessment_tables_def finalized_through_def cursor_of_def fun_eq_iff)
  with s show ?thesis by (simp add: safe_step_def)
qed

lemma committed_tables: "assessment_tables (committed d (finalize_terminal_batch_siblings now bid d)) = assessment_tables d"
  by (auto simp: committed_def split: sum.splits dest: finalize_siblings_tables)

subsection \<open>The transaction of a request\<close>

lemma no_active_batch:
  assumes "get_active_batch sc d = None" and "b \<in> set (batches d)" and "batch_scope b = sc"
  shows "\<not> active_batch b"
  using assms by (auto simp: get_active_batch_def filter_empty_conv split: list.splits)

lemma active_batchD:
  assumes "get_active_batch sc d = Some b"
  shows "b \<in> set (batches d)" "batch_scope b = sc" "active_batch b"
  using assms by (auto simp: get_active_batch_def split: list.splits dest!: sort_key_head)

lemma quiet_rerun: "quiet_move d b (rerun_row ts trigger rq rp cutoff fin b)"
  by (rule quiet_idle) (auto simp: rerun_row_def strengthened_def Let_def frozen_part_def batch_scope_def)

lemma opened_cursor_ensure:
  assumes "request_scope d sc = Some (x, es, g)"
  shows "ensure_cursor ts sc d = Inr (opened_cursor ts sc es d)"
  using assms
  by (auto simp: request_scope_def ensure_cursor_def scope_row_def opened_cursor_def split: prod.splits option.splits)

lemma single_flight_insert:
  assumes "single_flight d" and "\<And>q. q \<in> set (batches d) \<Longrightarrow> batch_scope q = batch_scope b \<Longrightarrow> \<not> active_batch q"
  shows "single_flight (insert_batch b d)"
  using assms by (auto simp: single_flight_def insert_batch_def)

lemma single_flight_reopen:
  assumes sf: "single_flight d" and ids: "distinct (map b_id (batches d))"
    and b: "b \<in> set (batches d)" and none: "\<And>q. q \<in> set (batches d) \<Longrightarrow> batch_scope q = batch_scope b \<Longrightarrow> \<not> active_batch q"
    and f: "\<And>q. batch_scope (f q) = batch_scope q"
  shows "single_flight (change_batch (b_id b) P f d)"
proof -
  have "distinct (map batch_scope (filter active_batch (update_where (\<lambda>q. b_id q = b_id b \<and> P q) f bs)))"
    if "distinct (map batch_scope (filter active_batch bs))" "distinct (map b_id bs)" "set bs \<subseteq> set (batches d)" for bs
    using that
  proof (induction bs)
    case (Cons q bs)
    let ?u = "update_where (\<lambda>q. b_id q = b_id b \<and> P q) f bs"
    have tail: "distinct (map batch_scope (filter active_batch ?u))" using Cons by (auto split: if_splits)
    show ?case
    proof (cases "b_id q = b_id b")
      case True
      then have "q = b" by (rule key_inj [OF ids _ b, rotated]) (use Cons.prems in simp)
      moreover have "?u = bs" using Cons.prems(2) True by (intro update_where_none) (auto simp: image_iff)
      ultimately show ?thesis using Cons.prems tail none f by (auto split: if_splits)
    next
      case False
      have "batch_scope q \<notin> batch_scope ` set (filter active_batch ?u)" if act: "active_batch q"
      proof
        assume "batch_scope q \<in> batch_scope ` set (filter active_batch ?u)"
        then obtain r where r: "r \<in> set bs" "batch_scope r = batch_scope q"
            "active_batch (if b_id r = b_id b \<and> P r then f r else r)"
          using f by (auto simp: set_update_where split: if_splits)
        then have "\<not> active_batch r" using Cons.prems(1) act by (force simp: image_iff)
        with r have "b_id r = b_id b" by (auto split: if_splits)
        then have "r = b" by (rule key_inj [OF ids _ b, rotated]) (use r Cons.prems in auto)
        with r act Cons.prems none show False by auto
      qed
      with False tail show ?thesis by auto
    qed
  qed simp
  then show ?thesis using sf ids by (simp add: single_flight_def)
qed

subsection \<open>The messages of a window\<close>

lemma sorted_student_rows: "sorted (sequences (student_rows d sc P))"
proof -
  obtain gid sid did where sc: "sc = (gid, sid, did)" by (cases sc) auto
  have "sorted (map (\<lambda>m. (or0 (m_sequence m), m_id m)) (student_rows d sc P))"
    by (simp add: student_rows_def sc)
  then show ?thesis
    unfolding sequences_def sorted_map
    by (rule sorted_wrt_mono_rel [rotated]) (auto simp: less_eq_prod_def)
qed

lemma sorted_filter_rows: "sorted (sequences ms) \<Longrightarrow> sorted (sequences (filter Q ms))"
  by (simp add: sequences_def sorted_filter)

lemma sorted_candidate_rows:
  "sorted (sequences (candidate_rows d sc rq cutoff (student_rows_after_cursor d' sc' q)))"
  by (auto simp: candidate_rows_def student_rows_in_window_def student_rows_after_cursor_def sorted_student_rows
      sorted_filter_rows split: option.splits)

lemma head_le_last: "sorted (sequences ms) \<Longrightarrow> ms \<noteq> [] \<Longrightarrow> or0 (m_sequence (hd ms)) \<le> or0 (m_sequence (last ms))"
  by (cases ms) (auto simp: sequences_def)

lemma take_sequences: "sequences (take n ms) = take n (sequences ms)"
  by (simp add: sequences_def take_map)

lemma claimed_window_shape:
  "b_status (claimed_window env ts sc es trigger rq rp claimed context rerun bid) = ''pending''"
  "b_attempt_count (claimed_window env ts sc es trigger rq rp claimed context rerun bid) = 0"
  "b_id (claimed_window env ts sc es trigger rq rp claimed context rerun bid) = bid"
  "1 \<le> b_max_attempts (claimed_window env ts sc es trigger rq rp claimed context rerun bid)"
  "batch_scope (claimed_window env ts sc es trigger rq rp claimed context rerun bid) = sc"
  "window_of (claimed_window env ts sc es trigger rq rp claimed context rerun bid)
     = (sc, or0 (m_sequence (hd claimed)), or0 (m_sequence (last claimed)))"
  by (cases sc; simp add: claimed_window_def window_of_def batch_scope_def)+

lemma quiet_reopened: "retryable b \<Longrightarrow> window_move b (reopened_row ts trigger q b)"
  by (auto simp: move_defs retryable_def reopened_row_def)

lemma insert_window_safe:
  assumes inv: "batch_inv d" and b: "b_status b = ''pending''" "b_attempt_count b = 0" "1 \<le> b_max_attempts b"
      "b_id b = next_batch_id d" "b_candidate_start_sequence b \<le> b_candidate_end_sequence b"
    and new: "window_of b \<notin> window_of ` set (batches d)" and sf: "single_flight (insert_batch b d)"
  shows "safe_step d (insert_batch b d)"
proof -
  have mach: "machine_of b = Some (Pending, 0)" by (simp add: machine_of_def b)
  with b have "batch_ok b" by (simp add: batch_ok_def attempts_ok_def)
  with b new sf inv have "batch_inv (insert_batch b d)" by (intro insert_batch_inv) simp_all
  moreover have "windows_evolve (batches d) (batches (insert_batch b d))"
    unfolding windows_evolve_def
    by (rule exI [of _ "batches d"], rule exI [of _ "[b]"]) (simp add: insert_batch_def mach list_all2_refl)
  ultimately show ?thesis
    by (simp add: safe_step_def r_into_rtranclp finalized_through_def cursor_of_def insert_batch_def)
qed

lemma take_up_again_safe:
  assumes inv: "batch_inv d" and b: "b \<in> set (batches d)"
    and none: "\<And>q. q \<in> set (batches d) \<Longrightarrow> batch_scope q = batch_scope b \<Longrightarrow> \<not> active_batch q"
  shows "\<exists>r d'. take_up_again env now trigger q b d = Inr (r, d') \<and> safe_step d d'"
proof -
  let ?d = "change_batch (b_id b) retryable (reopened_row (fmt_sec now) trigger q) d"
  have move: "window_move r (reopened_row (fmt_sec now) trigger q r)" if "retryable r" for r
    using that by (rule quiet_reopened)
  have sf: "single_flight ?d"
    using inv b none
    by (intro single_flight_reopen) (auto simp: batch_inv_parts reopened_row_def batch_scope_def)
  have "b_status (reopened_row ts trigger q r) = ''pending''" for ts r by (simp add: reopened_row_def)
  with move sf inv have "batch_inv ?d"
    unfolding change_batch_def by (intro change_batches_inv_weak) auto
  moreover have "windows_evolve (batches d) (batches ?d)"
    unfolding change_batch_frame by (rule windows_evolve_update) (simp add: move)
  ultimately have "safe_step d ?d" by (simp add: safe_step_def r_into_rtranclp)
  with sf safe_refl [OF inv] show ?thesis by (auto simp: take_up_again_def Let_def indexed_Inr)
qed

lemma open_window_safe:
  assumes inv: "batch_inv d" and none: "get_active_batch sc d = None"
    and students: "students \<noteq> []" "sorted (sequences students)"
  shows "\<exists>r d'. open_window env now sc es trigger rq rp unfinalized students res d = Inr (r, d') \<and> safe_step d d'"
proof -
  define claimed where "claimed = take (nat (max 1 (or_int (se_max_candidate_messages env) 8))) students"
  define a e where "a = or0 (m_sequence (hd claimed))" and "e = or0 (m_sequence (last claimed))"
  let ?touch = "change_cursor sc (\<lambda>c. c\<lparr>c_last_assessment_requested_at := Some (fmt_sec now), c_updated_at := fmt_sec now\<rparr>)"
  have idle: "\<not> active_batch q" if "q \<in> set (batches d)" "batch_scope q = sc" for q
    using no_active_batch [OF none that] .
  show ?thesis
  proof (cases "find (same_window sc a e) (batches d)")
    case None
    define b where "b = claimed_window env (fmt_sec now) sc es trigger rq rp claimed (context_bounds env d sc a)
      (length students > length claimed \<or> rq_fixed_start rq = None \<and> length unfinalized > length claimed) (next_batch_id d)"
    note shape = claimed_window_shape [of env "fmt_sec now" sc es trigger rq rp claimed, folded a_def e_def]
    have "claimed \<noteq> []" using students(1) by (simp add: claimed_def)
    then have "a \<le> e"
      using students(2) unfolding a_def e_def
      by (intro head_le_last) (simp_all add: claimed_def take_sequences sorted_wrt_take)
    have sf: "single_flight (insert_batch b d)"
      using inv idle by (intro single_flight_insert) (auto simp: batch_inv_parts b_def shape)
    have "window_of q \<noteq> (sc, a, e)" if "q \<in> set (batches d)" for q
      using None that by (auto simp: find_None_iff same_window_def window_of_def)
    then have "window_of b \<notin> window_of ` set (batches d)" unfolding b_def shape image_iff by metis
    moreover have "b_candidate_start_sequence b \<le> b_candidate_end_sequence b"
      using \<open>a \<le> e\<close> shape(6) by (simp add: b_def window_of_def)
    ultimately have "safe_step d (insert_batch b d)"
      using inv sf by (intro insert_window_safe) (simp_all add: b_def shape)
    then have "safe_step d (?touch (insert_batch b d))" by (rule safe_cursor [OF forward_touch])
    then show ?thesis
      using sf None unfolding open_window_def Let_def claimed_def [symmetric] a_def [symmetric] e_def [symmetric] b_def [symmetric]
      by (simp add: indexed_Inr single_flight_def)
  next
    case (Some b)
    then have b: "b \<in> set (batches d)" "batch_scope b = sc"
      by (auto simp: find_Some_iff same_window_def)
    obtain won why d1 where t: "take_up_again env now trigger (rq_trigger_sequence rq) b d = Inr ((won, why), d1)"
      and s: "safe_step d d1"
      using take_up_again_safe [OF inv b(1)] idle b(2) by fastforce
    from s have "safe_step d (?touch d1)" by (rule safe_cursor [OF forward_touch])
    with t Some show ?thesis
      unfolding open_window_def Let_def claimed_def [symmetric] a_def [symmetric] e_def [symmetric] by simp
  qed
qed

lemma request_transaction_safe:
  assumes inv: "batch_inv d"
  shows "\<exists>r d'. request_transaction env now sc trigger rq d = Inr (r, d') \<and> safe_step d d'"
proof (cases "request_scope d sc")
  case (Some row)
  obtain x es g where row: "row = (x, es, g)" by (cases row) auto
  define d1 where "d1 = opened_cursor (fmt_sec now) sc es d"
  define c where "c = the (cursor_of d1 sc)"
  define unfinalized where "unfinalized = student_rows_after_cursor d1 sc (scheduled_through c)"
  define rp where "rp = request_replacement d1 sc rq unfinalized"
  define cutoff where "cutoff = request_cutoff trigger rq rp"
  define students where "students = candidate_rows d1 sc rq cutoff unfinalized"
  note folds = d1_def [symmetric] c_def [symmetric] unfinalized_def [symmetric] rp_def [symmetric]
    cutoff_def [symmetric] students_def [symmetric]
  have s1: "safe_step d d1"
    using opened_cursor_ensure [OF Some [unfolded row]] safe_refl [OF inv] unfolding d1_def by (rule safe_ensure)
  then have inv1: "batch_inv d1" by (simp add: safe_step_def)
  show ?thesis
  proof (cases "scope_running (x, es, g)")
    case running: True
    show ?thesis
    proof (cases "get_active_batch sc d1")
      case active: (Some b)
      have "safe_step d1 (change_batch (b_id b) active_batch
          (rerun_row (fmt_sec now) trigger rq rp cutoff (c_last_finalized_student_sequence c)) d1)"
        using quiet_rerun inv1 by (rule safe_change_batch)
      with s1 have "safe_step d (change_batch (b_id b) active_batch
          (rerun_row (fmt_sec now) trigger rq rp cutoff (c_last_finalized_student_sequence c)) d1)"
        by (rule safe_trans)
      with Some running active show ?thesis
        by (simp only: request_transaction_def row Let_def folds option.case prod.case simp_thms if_False) auto
    next
      case none: None
      show ?thesis
      proof (cases "opening_refusal env now trigger rq cutoff x c unfinalized students")
        case refused: (Some reason)
        with Some running none s1 show ?thesis
          by (simp only: request_transaction_def row Let_def folds option.case prod.case simp_thms if_False) auto
      next
        case fresh: None
        then have "students \<noteq> []" by (auto simp: opening_refusal_def)
        moreover have "sorted (sequences students)"
          unfolding students_def unfinalized_def by (rule sorted_candidate_rows)
        ultimately obtain r d' where o: "open_window env now sc es trigger rq rp unfinalized students
            (request_result0\<lparr>rr_request_cutoff := cutoff, rr_new_student_messages := length unfinalized\<rparr>) d1 = Inr (r, d')"
          and "safe_step d1 d'"
          using open_window_safe [OF inv1 none] by blast
        then have "safe_step d d'" using s1 by (blast intro: safe_trans)
        with Some running none fresh o show ?thesis
          by (simp only: request_transaction_def row Let_def folds option.case prod.case simp_thms if_False) auto
      qed
    qed
  next
    case False
    with Some safe_refl [OF inv] show ?thesis by (auto simp: request_transaction_def row)
  qed
qed (auto simp: request_transaction_def safe_refl [OF inv])

subsection \<open>The calls\<close>

lemma enqueue_and_note_safe:
  "enqueue_and_note env now bid delay d = Inr d' \<Longrightarrow> batch_inv d \<Longrightarrow> safe_step d d'"
  by (auto simp: enqueue_and_note_def map_sum_def split: option.splits sum.splits dest: mark_enqueued_safe)

lemma hand_over_safe: "batch_inv d \<Longrightarrow> safe_step d (snd (hand_over env now res bid d))"
  by (auto simp: hand_over_def safe_refl split: sum.splits dest: enqueue_and_note_safe mark_batch_failed_safe)

lemma request_state_assessment_safe:
  assumes inv: "batch_inv d"
  shows "safe_step d (snd (request_state_assessment env now sc rq d))"
proof -
  note safe = safe_refl [OF inv]
  show ?thesis
  proof (cases "request_refusal rq = None \<and> (\<exists>t. normalize_trigger (rq_trigger_type rq) = Inr t)
      \<and> ac_configuration_error (agent_config_from_session (fetch_session d (fst (snd sc)))) = None
      \<and> pipeline_mode_from_session (fetch_session d (fst (snd sc))) \<noteq> None")
    case False
    then have "snd (request_state_assessment env now sc rq d) = d"
      by (auto simp: request_state_assessment_def Let_def split: option.splits sum.splits)
    with safe show ?thesis by simp
  next
    case True
    then obtain trigger where t: "request_refusal rq = None" "normalize_trigger (rq_trigger_type rq) = Inr trigger"
      "ac_configuration_error (agent_config_from_session (fetch_session d (fst (snd sc)))) = None"
      "pipeline_mode_from_session (fetch_session d (fst (snd sc))) \<noteq> None" by blast
    obtain res d1 where r: "recover_exhausted_batches now sc d = (res, d1)" by force
    from recover_exhausted_safe [OF r inv] have s1: "safe_step d d1" .
    obtain rs d2 where o: "recover_terminal_batch_orphans now sc d1 = (Inr rs, d2)"
      and "assessment_tables d2 = assessment_tables d1" by (rule recover_orphans_total)
    then have s2: "safe_step d d2" using s1 safe_tables by blast
    then have inv2: "batch_inv d2" by (simp add: safe_step_def)
    obtain p d3 where q: "request_transaction env now sc trigger rq d2 = Inr (p, d3)"
      and "safe_step d2 d3" using request_transaction_safe [OF inv2] by blast
    with s2 have s3: "safe_step d d3" by (blast intro: safe_trans)
    obtain needed rr where p: "p = (needed, rr)" by force
    then have "safe_step d (snd (hand_over env now rr bid d3))" for bid
      using s3 by (intro safe_trans [OF s3] hand_over_safe) (simp add: safe_step_def)
    with t r o q p s1 s3 safe show ?thesis
      by (cases res) (simp_all add: request_state_assessment_def Let_def)
  qed
qed

text \<open>Calls that return their result or exception next to the platform compose.\<close>

lemma safe_inv: "safe_step d d' \<Longrightarrow> batch_inv d'"
  by (simp add: safe_step_def)

lemma safe_then:
  assumes "safe_step d d1" and "\<And>d. batch_inv d \<Longrightarrow> safe_step d (f d)"
  shows "safe_step d (f d1)"
  using assms safe_inv safe_trans by blast

lemma request_for_message_safe:
  "batch_inv d \<Longrightarrow> safe_step d (snd (request_state_assessment_for_message env now gid q t d))"
  by (auto simp: request_state_assessment_for_message_def safe_refl request_state_assessment_safe split: option.splits)

lemma scan_one_safe: "batch_inv d \<Longrightarrow> safe_step d (snd (scan_one env now sc d))"
  using request_state_assessment_safe [of d env now sc "plain_request (Some ''message_count_periodic'') None"]
  by (auto simp: scan_one_def split: prod.splits sum.splits
      intro: safe_then [OF _ request_state_assessment_safe])

lemma scan_each_safe: "batch_inv d \<Longrightarrow> safe_step d (snd (scan_each env now scs d))"
proof (induction scs arbitrary: d)
  case (Cons sc scs)
  note one = scan_one_safe [OF Cons.prems, of env now sc]
  have rest: "safe_step d (snd (scan_each env now scs (snd (scan_one env now sc d))))"
    using safe_then [OF one Cons.IH] .
  with one show ?case
    by (cases "scan_one env now sc d"; cases "scan_each env now scs (snd (scan_one env now sc d))")
      (auto split: sum.splits)
qed (simp add: safe_refl)

lemma scan_due_safe: "batch_inv d \<Longrightarrow> safe_step d (snd (scan_due_state_assessments env now limit d))"
  using scan_each_safe [of d env now "due_scopes d limit"]
  by (auto simp: scan_due_state_assessments_def split: prod.splits sum.splits)

lemma give_up_and_close_safe:
  assumes "batch_inv d"
  shows "safe_step d (snd (give_up_and_close now b code detail force reason d))"
  using assms
  by (auto simp: give_up_and_close_def finalize_terminal_pipeline_siblings_def safe_refl split: sum.splits
      dest: terminalize_safe intro: safe_tables [OF committed_tables])

lemma retry_later_safe:
  assumes inv: "batch_inv d"
  shows "safe_step d (snd (retry_later env now b code detail d))"
proof -
  let ?at = "Some (fmt_sec (now + seconds (retry_delay env b)))"
  show ?thesis
  proof (cases "mark_batch_failed now (b_id b) (Some (normalize_batch_error_code (Some code))) (short_detail detail) ?at d")
    case (Inr p)
    obtain d1 where m: "mark_batch_failed now (b_id b) (Some (normalize_batch_error_code (Some code))) (short_detail detail) ?at d
        = Inr ((), d1)" using Inr by (cases p) auto
    have s1: "safe_step d d1" using m inv by (rule mark_batch_failed_safe)
    show ?thesis
    proof (cases "prepare_retry now (b_id b) ?at d1")
      case (Inr q)
      obtain ok d2 where q: "q = (ok, d2)" by force
      with Inr have pr: "prepare_retry now (b_id b) ?at d1 = Inr (ok, d2)" by simp
      have s2: "safe_step d d2" using safe_trans [OF s1 prepare_retry_safe [OF pr safe_inv [OF s1]]] .
      have note_ok: "safe_step d d3" if "enqueue_and_note env now (b_id b) (retry_delay env b) d2 = Inr d3" for d3
        using safe_trans [OF s2 enqueue_and_note_safe [OF that safe_inv [OF s2]]] .
      have failed: "safe_step d d3" if "mark_batch_failed now (b_id b) c t ?at d2 = Inr (u, d3)" for c t u d3
        using safe_trans [OF s2 mark_batch_failed_safe [OF that safe_inv [OF s2]]] .
      show ?thesis
        using m pr s2 by (auto simp: retry_later_def Let_def split: sum.splits dest: note_ok failed)
    qed (use m s1 in \<open>simp add: retry_later_def Let_def\<close>)
  qed (simp add: retry_later_def Let_def safe_refl [OF inv])
qed

lemma schedule_limited_retry_safe:
  "batch_inv d \<Longrightarrow> safe_step d (snd (schedule_limited_retry env now b code detail d))"
  by (simp add: schedule_limited_retry_def give_up_and_close_safe retry_later_safe)

lemma continue_after_terminal_safe:
  "batch_inv d \<Longrightarrow> safe_step d (snd (continue_after_terminal env now b retry d))"
  by (auto simp: continue_after_terminal_def safe_refl request_state_assessment_safe split: option.splits)

lemma begin_execution_safe:
  assumes inv: "batch_inv d"
  shows "safe_step d (snd (begin_execution now bid d))"
proof (cases "claim_batch now bid d")
  case (Inr p)
  obtain won d1 where p: "p = (won, d1)" by force
  with Inr have c: "claim_batch now bid d = Inr (won, d1)" by simp
  have s1: "safe_step d d1" using c inv by (rule claim_batch_safe)
  have failed: "safe_step d d2" if "mark_batch_failed now bid a t None d1 = Inr (u, d2)" for a t u d2
    using safe_trans [OF s1 mark_batch_failed_safe [OF that safe_inv [OF s1]]] .
  show ?thesis
    using c s1 by (auto simp: begin_execution_def Let_def split: sum.splits option.splits prod.splits dest: failed)
qed (simp add: begin_execution_def safe_refl [OF inv])

lemma after_failed_detection_safe:
  assumes inv: "batch_inv d"
  shows "safe_step d (snd (after_failed_detection env now b code detail d))"
proof -
  let ?b = "case fetch_batch d (b_id b) of None \<Rightarrow> b | Some r \<Rightarrow> r"
  note s = schedule_limited_retry_safe [OF inv, of env now ?b code detail]
  have "safe_step d (snd (continue_after_terminal env now b r (snd (schedule_limited_retry env now ?b code detail d))))" for r
    using safe_then [OF s continue_after_terminal_safe] .
  with s show ?thesis
    by (cases "schedule_limited_retry env now ?b code detail d") (auto simp: after_failed_detection_def split: sum.splits)
qed

lemma after_saved_answer_safe: "batch_inv d \<Longrightarrow> safe_step d (snd (after_saved_answer env now b fresh d))"
  by (simp add: after_saved_answer_def safe_refl request_state_assessment_safe)

subsection \<open>One system\<close>

datatype scheduler_call =
    Request_Window scheduler_env datetime scope assessment_request
  | Request_For_Message scheduler_env datetime int int "string option"
  | Scan_Discussions scheduler_env datetime int
  | Begin_Execution datetime int
  | Detection_Failed scheduler_env datetime batch_row string string
  | Answer_Saved scheduler_env datetime batch_row batch_row
  | Close_Siblings datetime int

fun scheduler_do :: "scheduler_call \<Rightarrow> platform \<Rightarrow> platform" where
  "scheduler_do (Request_Window env now sc rq) d = snd (request_state_assessment env now sc rq d)"
| "scheduler_do (Request_For_Message env now gid q t) d = snd (request_state_assessment_for_message env now gid q t d)"
| "scheduler_do (Scan_Discussions env now limit) d = snd (scan_due_state_assessments env now limit d)"
| "scheduler_do (Begin_Execution now bid) d = snd (begin_execution now bid d)"
| "scheduler_do (Detection_Failed env now b code detail) d = snd (after_failed_detection env now b code detail d)"
| "scheduler_do (Answer_Saved env now b fresh) d = snd (after_saved_answer env now b fresh d)"
| "scheduler_do (Close_Siblings now bid) d = committed d (finalize_terminal_batch_siblings now bid d)"

lemma scheduler_do_safe: "batch_inv d \<Longrightarrow> safe_step d (scheduler_do r d)"
  by (cases r) (simp_all add: request_state_assessment_safe request_for_message_safe scan_due_safe
      begin_execution_safe after_failed_detection_safe after_saved_answer_safe
      safe_tables [OF committed_tables] safe_refl)

interpretation scheduling: service_pair window_do "\<lambda>_ _. True" scheduler_do "\<lambda>_ _. True" batch_inv finalized_through
  using scheduler_do_safe by unfold_locales (auto simp: safe_step_def)

definition assessment_do :: "window_request + scheduler_call \<Rightarrow> platform \<Rightarrow> platform" where
  "assessment_do = case_sum window_do scheduler_do"

lemma both_admissible: "admissible (case_sum window_do scheduler_do) (case_sum (\<lambda>_ _. True) (\<lambda>_ _. True)) rs d"
  by (induction rs arbitrary: d) (auto split: sum.splits)

lemmas assessment_run_inv = scheduling.both.run_inv [OF both_admissible, folded assessment_do_def]
  and assessment_run_mono = scheduling.both.run_mono [OF both_admissible, folded assessment_do_def]

lemma assessment_do_safe: "batch_inv d \<Longrightarrow> safe_step d (assessment_do r d)"
  by (cases r) (simp_all add: assessment_do_def window_do_safe scheduler_do_safe)

lemma assessment_runs_evolve:
  "batch_inv d \<Longrightarrow> windows_evolve\<^sup>*\<^sup>* (batches d) (batches (fold assessment_do rs d))"
proof (induction rs arbitrary: d)
  case (Cons r rs)
  then have "safe_step d (assessment_do r d)" by (simp add: assessment_do_safe)
  with Cons.IH [of "assessment_do r d"] show ?case
    unfolding safe_step_def fold_Cons comp_apply by (meson rtranclp_trans)
qed simp

end
