(* ===== verification/Service_Frames.thy ===== *)
theory Service_Frames
  imports Room_Services Scheduler_Services
begin

text \<open>
  What the services leave alone.  Lease, coordination and second-stage requests do not touch
  the windows, the cursors or the keys of the segments (\<open>apart\<close>); window requests and
  scheduler calls do not touch the rooms, except to end runs (\<open>quiet\<close>).
\<close>

subsection \<open>What the room services leave alone\<close>

definition sides where
  "sides d = (assessment_tables d, map p_id (pipelines d), next_pipeline_id d)"

lemma sides_frame [simp]:
  "sides (change_groups Q g d) = sides d" "sides (change_interventions J h d) = sides d"
  "sides (change_help K k d) = sides d" "sides (log_event e d) = sides d"
  "sides (schedule_expiry x d) = sides d"
  by (simp_all add: sides_def assessment_tables_def)

lemma sides_change_pipelines: "(\<And>p. p_id (f p) = p_id p) \<Longrightarrow> sides (change_pipelines P f d) = sides d"
  by (simp add: sides_def map_key_update_where)

lemmas sides_runs [simp] = sides_change_pipelines [OF row_updates_p_id(1)]
  sides_change_pipelines [OF row_updates_p_id(2)] sides_change_pipelines [OF row_updates_p_id(3)]
  sides_change_pipelines [OF row_updates_p_id(4)]

lemma sides_expire [simp]: "sides (snd (expire_locked_room now gid want d)) = sides d"
  using expire_locked_room_cases [of now gid want d]
  by (auto simp: expire_events_def terminalize_owner_def Let_def split: option.splits)

lemma sides_acquire [simp]: "sides (snd (acquire cfg t now fresh gid run ls d)) = sides d"
  by (auto simp: acquire_def acquire_cas_def recover_expired_def Let_def split: option.splits)

lemma sides_release [simp]: "sides (snd (release now gid token d)) = sides d"
  by (auto simp: release_def Let_def split: option.splits)

lemma sides_schedule [simp]: "sides (schedule_strategy_pipeline_expiry cfg gid token delay d) = sides d"
  by (simp add: schedule_strategy_pipeline_expiry_def)

lemma sides_renew [simp]: "sides (snd (renew_strategy_pipeline cfg now pid token ls ms d)) = sides d"
  using renew_cases [of cfg now pid token ls ms d]
  by (auto simp: renew_commit_def Let_def sides_change_pipelines)

lemma sides_claim_room: "claim_room cfg now fresh lease p g d = Inr (gr, d1) \<Longrightarrow> sides d1 = sides d"
  by (erule claim_room_cases) simp_all

lemma sides_claim_commit [simp]: "sides (snd (claim_commit cfg now p g gr d)) = sides d"
  by (simp add: claim_commit_def claim_supersede_def claim_events_def Let_def split: option.splits)

lemma sides_claim [simp]: "sides (snd (claim_strategy_pipeline cfg now t fresh pid ls d)) = sides d"
proof -
  have "sides (claim_recover t pid d) = sides d"
    by (simp add: claim_recover_def recover_expired_def split: option.splits)
  moreover have "sides (snd (claim_transaction cfg now fresh pid lease d')) = sides d'" for lease d'
    using claim_transaction_cases [of cfg now fresh pid lease d'] sides_claim_room
    by (auto simp: claim_failed_def)
  ultimately show ?thesis by (simp add: claim_strategy_pipeline_def Let_def split: option.splits)
qed

lemma sides_lease: "sides (lease_do cfg r d) = sides d"
  by (cases r) simp_all

lemma sides_release_pipeline [simp]: "sides (snd (release_pipeline_lock ts row d)) = sides d"
  by (auto simp: release_pipeline_lock_def Let_def)

lemma sides_sync [simp]: "sides (snd (sync_latest_state_from_replacement now i j d)) = sides d"
  by (auto simp: sync_latest_state_from_replacement_def Let_def sides_change_pipelines split: option.splits)

lemma sides_link [simp]: "sides (snd (link_pipeline_replacement now i j r t c d)) = sides d"
  by (auto simp: link_pipeline_replacement_def Let_def sides_change_pipelines split: option.splits)

lemma sides_mark [simp]: "sides (snd (mark_pipeline_terminal mk now row d)) = sides d"
  using sides_release_pipeline [of "fmt_sec now" row d]
  by (auto simp: mark_pipeline_terminal_def Let_def sides_change_pipelines simp del: sides_release_pipeline
      split: prod.splits option.splits)

lemma sides_mark_each [simp]: "sides (snd (mark_each mk now rows d)) = sides d"
  by (induction rows arbitrary: d) (simp_all add: mark_each_snd del: mark_each.simps(2))

lemma sides_record [simp]: "sides (snd (record_replacement_request now pid reason t c d)) = sides d"
  by (auto simp: record_replacement_request_def Let_def sides_change_pipelines split: option.splits)

lemma sides_coordination: "sides (coordination_do r d) = sides d"
  by (cases r) (auto simp: committed_def supersede_lower_priority_runs_for_pipeline_def
      supersede_lower_priority_runs_for_row_def Let_def supersede_preliminary_runs_for_batch_def
      supersede_preliminary_runs_for_batch_row_def finalize_preliminary_runs_for_batch_row_def
      preempt_for_student_help_def cancel_active_runs_for_session_end_def split: option.splits sum.splits)

subsection \<open>What the second stage leaves alone\<close>

text \<open>
  The windows and cursors stay, the segments keep their keys, and the ids of runs stay below
  the next one.
\<close>

definition window_view where
  "window_view d = (batches d, cursors d, next_batch_id d, next_segment_id d, map sg_id (segments d),
     map sg_dedupe_key (segments d), map key_ok (segments d))"

definition apart :: "platform \<Rightarrow> platform \<Rightarrow> bool" where
  "apart d d' \<longleftrightarrow> window_view d' = window_view d \<and> (fresh_runs d \<longrightarrow> fresh_runs d')"

lemma apart_refl [simp]: "apart d d"
  by (simp add: apart_def)

lemma apart_trans [trans]: "apart d d1 \<Longrightarrow> apart d1 d2 \<Longrightarrow> apart d d2"
  by (simp add: apart_def)

lemma fresh_runs_ids: "fresh_runs d \<longleftrightarrow>
    0 < next_pipeline_id d \<and> (\<forall>i\<in>set (map p_id (pipelines d)). i < next_pipeline_id d)"
  by (simp add: fresh_runs_def)

lemma apart_sides: "sides d' = sides d \<Longrightarrow> apart d d'"
  by (simp add: apart_def sides_def assessment_tables_def window_view_def fresh_runs_ids del: set_map)

lemma segments_inv_keys:
  "segments_inv d \<longleftrightarrow> distinct (map sg_id (segments d)) \<and> list_all (\<lambda>i. i < next_segment_id d) (map sg_id (segments d))
     \<and> distinct (map sg_dedupe_key (segments d)) \<and> list_all id (map key_ok (segments d))"
  by (simp add: segments_inv_def list_all_iff)

lemma window_view_inv:
  assumes "window_view d' = window_view d"
  shows "batches d' = batches d" "finalized_through d' = finalized_through d" "batch_inv d' = batch_inv d"
proof -
  from assms have frame: "batches d' = batches d" "cursors d' = cursors d" "next_batch_id d' = next_batch_id d"
    and segs: "segments_inv d' = segments_inv d"
    unfolding window_view_def segments_inv_keys by (simp_all only: prod.inject)
  then show "batches d' = batches d" by blast
  show fin: "finalized_through d' = finalized_through d"
    by (rule ext) (simp only: finalized_through_def cursor_of_def frame)
  show "batch_inv d' = batch_inv d"
    by (simp only: batch_inv_def batches_inv_def cursors_inv_def finalized_inv_def single_flight_def frame segs fin)
qed

lemma apart_safe: "apart d1 d2 \<Longrightarrow> safe_step d d1 \<Longrightarrow> safe_step d d2"
  using window_view_inv [of d2 d1] by (simp add: apart_def safe_step_def)

lemma sides_sync_each [simp]: "sides (sync_each now pid ids d) = sides d"
  by (induction ids arbitrary: d) (simp_all add: sync_each_def)

lemma sides_stage2 [simp]:
  "sides (link_replaced now b pid d) = sides d"
  "sides (sync_replaced now b pid d) = sides d" "sides (snd (release_stage2_lock ts row d)) = sides d"
  "sides (request_replacement_if now stale pid latest d) = sides d"
  by (simp_all add: link_replaced_def sync_replaced_def release_stage2_lock_def
      request_replacement_if_def Let_def sides_change_pipelines lease_returned_def)

lemma sides_close:
  assumes "close_preliminary now b a p d = Inr (ids, d')"
  shows "sides d' = sides d"
proof -
  from assms obtain d1 where "supersede_preliminary_runs_for_batch_row now p a (b_candidate_end_sequence b) d = Inr (ids, d1)"
    and "d' = sync_replaced now b (p_id p) (sync_each now (p_id p) ids d1)"
    by (auto simp: close_preliminary_def andthen_Inr_iff)
  then show ?thesis by (auto elim: supersede_preliminary_marks)
qed

lemma apart_create:
  assumes "get_or_create_pipeline_row now mode b d = Inr (p, d1)"
  shows "apart d d1"
proof -
  from assms consider q m where "adopt_run now m b q d = Inr (p, d1)" | m where "insert_run now m b d = Inr (p, d1)"
    by (auto simp: get_or_create_pipeline_row_def Let_def split: if_splits option.splits)
  then show ?thesis
  proof cases
    case 1
    then show ?thesis
      by (intro apart_sides) (auto simp: adopt_run_def sides_change_pipelines adopted_row_def split: if_splits)
  next
    case 2
    let ?p = "new_run (fmt_ms now) m b (next_pipeline_id d)"
    let ?e = "stage2_event ''pipeline'' ''pipeline_created'' (p_id ?p) (b_id b) (fmt_ms now)"
    let ?n = "log_event ?e (d\<lparr>pipelines := pipelines d @ [?p], next_pipeline_id := next_pipeline_id d + 1\<rparr>)"
    have "p_id ?p = next_pipeline_id d" by (simp add: new_run_def)
    then have "apart d ?n" by (auto simp: apart_def window_view_def fresh_runs_def)
    also have "apart ?n d1" using 2 by (intro apart_sides) (auto simp: insert_run_def Let_def split: if_splits)
    finally show ?thesis .
  qed
qed

lemma apart_update: "checked_update pid f d = Inr d' \<Longrightarrow> (\<And>p. p_id (f p) = p_id p) \<Longrightarrow> apart d d'"
  by (intro apart_sides) (simp add: checked_update_Inr sides_change_pipelines)

lemma apart_segments:
  assumes "\<And>s. sg_id (f s) = sg_id s" "\<And>s. sg_dedupe_key (f s) = sg_dedupe_key s" "\<And>s. key_ok (f s) = key_ok s"
  shows "apart d (d\<lparr>segments := update_where P f (segments d)\<rparr>)"
  by (simp add: apart_def window_view_def fresh_runs_def map_key_update_where assms)

lemma apart_written:
  "apart d (d\<lparr>segments := update_where P (\<lambda>s. s\<lparr>sg_strategy_pipeline_run_id := a, sg_coarse_state_code := c s,
     sg_should_intervene := i, sg_selected_strategy_id := x, sg_strategy_library_version := v,
     sg_source_stage := st, sg_updated_at := u\<rparr>) (segments d)\<rparr>)"
  by (rule apart_segments) (simp_all add: key_ok_def split: dedupe_key.splits)

lemma apart_link_segments:
  "link_segments env ts p active intervene rs d = Inr d' \<Longrightarrow> apart d d'"
proof (induction rs arbitrary: d)
  case (Cons r rs)
  from Cons.prems [unfolded link_segments.simps andthen_Inr_iff] show ?case
    by (elim exE conjE) (drule Cons.IH, erule apart_trans [OF apart_written])
qed simp

text \<open>Every transaction of the second stage stays apart from the windows.\<close>

lemma apart_prepare:
  assumes "prepare_for_batch now mode b d = Inr (r, d')"
  shows "apart d d'"
proof -
  from assms obtain p d1 where 1: "get_or_create_pipeline_row now (Some mode) b d = Inr (p, d1)"
    and d': "d' = change_pipelines (\<lambda>q. p_id q = p_id p) (prepared_row (fmt_ms now) mode b) d1"
    by (auto simp: prepare_for_batch_def andthen_Inr_iff Let_def split: if_splits)
  have "apart d d1" by (rule apart_create [OF 1])
  also have "apart d1 d'" unfolding d' by (intro apart_sides sides_change_pipelines) (simp add: prepared_row_def Let_def)
  finally show ?thesis .
qed

lemma apart_failed:
  assumes "mark_failed now mode b code detail meta started d = Inr (r, d')"
  shows "apart d d'"
proof -
  let ?ts = "fmt_ms now"
  from assms obtain p d1 d2 where 1: "get_or_create_pipeline_row now mode b d = Inr (p, d1)"
    and 2: "checked_update (p_id p) (failed_run ?ts b code detail meta started) d1 = Inr d2"
    and d': "d' = snd (release_stage2_lock ?ts p d2) \<or> (\<exists>e. d' = log_event e (snd (release_stage2_lock ?ts p d2)))"
    by (auto simp: mark_failed_def andthen_Inr_iff Let_def split_beta split: if_splits)
  have "apart d d1" by (rule apart_create [OF 1])
  also have "apart d1 d2" by (rule apart_update [OF 2]) (simp add: failed_run_def)
  also have "apart d2 d'" using d' by (intro apart_sides) auto
  finally show ?thesis .
qed

lemma apart_persist:
  assumes "persist_success env now mode b payload meta saved replay d = Inr (r, d')"
  shows "apart d d'"
  using persist_success_Inr [OF assms]
proof (elim disjE exE conjE)
  fix answer rd and p :: pipeline_row and d1 facts d2 d3 ids d4 d5 e out
  let ?ts = "fmt_ms now" and ?dc = "decide replay rd"
  assume 1: "get_or_create_pipeline_row now mode b d = Inr (p, d1)"
    and 2: "checked_update (p_id p) (decided_run ?ts b rd ?dc facts) d1 = Inr d2"
    and 3: "link_segments env (fmt_sec now) p (rd_active_segment rd) (dc_should_intervene ?dc) saved d2 = Inr d3"
    and 4: "close_preliminary now b (if b_candidate_start_sequence b = 0 then b_candidate_end_sequence b
          else b_candidate_start_sequence b) p d3 = Inr (ids, d4)"
    and 5: "d5 = request_replacement_if now (rd_stale rd) (p_id p) (rd_latest rd) d4"
    and d': "d' = log_event e (snd (release_if (\<not> dc_enter_stage3 ?dc) ?ts p d5))"
  have "apart d d1" by (rule apart_create [OF 1])
  also have "apart d1 d2" by (rule apart_update [OF 2]) (simp add: decided_run_def)
  also have "apart d2 d3" by (rule apart_link_segments [OF 3])
  also have "apart d3 d4" by (rule apart_sides [OF sides_close [OF 4]])
  also have "apart d4 d'" by (rule apart_sides) (simp add: d' 5 release_if_def)
  finally show ?thesis .
qed simp

lemma apart_persist_state_only:
  assumes "persist_state_only_success now b payload meta saved d = Inr (r, d')"
  shows "apart d d'"
  using persist_state_only_Inr [OF assms]
proof (elim disjE exE conjE)
  fix answer active and p :: pipeline_row and d1 d2 d3 :: platform and facts ids e out
  let ?ts = "fmt_ms now"
  let ?s = "d2\<lparr>segments := update_where (\<lambda>s. sg_assessment_batch_id s = b_id b) (adopted_segment ?ts (p_id p)) (segments d2)\<rparr>"
  assume 1: "get_or_create_pipeline_row now (Some ''state_only'') b d = Inr (p, d1)"
    and 2: "checked_update (p_id p) (observed_run ?ts b
          (canonical_of (dget active ''canonical_sub_state'')) facts) d1 = Inr d2"
    and 3: "close_preliminary now b (b_candidate_start_sequence b) p ?s = Inr (ids, d3)"
    and d': "d' = log_event e (snd (release_stage2_lock ?ts p d3))"
  have "apart d d1" by (rule apart_create [OF 1])
  also have "apart d1 d2" by (rule apart_update [OF 2]) (simp add: observed_run_def)
  also have "apart d2 ?s" by (rule apart_segments)
    (simp_all add: adopted_segment_def key_ok_def split: dedupe_key.splits)
  also have "apart ?s d3" by (rule apart_sides [OF sides_close [OF 3]])
  also have "apart d3 d'" by (rule apart_sides) (simp add: d')
  finally show ?thesis .
qed simp

lemma apart_committed: "(\<And>x d'. r = Inr (x, d') \<Longrightarrow> apart d d') \<Longrightarrow> apart d (committed d r)"
  by (cases r) (auto simp: committed_def)

lemma apart_stage2: "apart d (stage2_do r d)"
proof (cases r)
  case (Start now b pid)
  then show ?thesis
    by (auto simp: mark_started_def intro!: apart_sides sides_change_pipelines)
next
  case (Wait_For_Lock now b pid reason)
  then show ?thesis
    by (auto simp: mark_waiting_for_lock_def intro!: apart_sides sides_change_pipelines)
qed (auto intro: apart_committed apart_prepare apart_failed apart_persist apart_persist_state_only)

lemma apart_services: "apart d (services_do cfg r d)"
  by (cases r; cases "projr r") (auto simp: apart_stage2 apart_sides sides_lease sides_coordination split: sum.splits)

subsection \<open>What the window services leave alone\<close>

definition rooms_view where
  "rooms_view d = (groups d, map lease_view (pipelines d), next_pipeline_id d)"

lemma rooms_view_frame [simp]:
  "rooms_view (d\<lparr>batches := bs\<rparr>) = rooms_view d" "rooms_view (d\<lparr>cursors := cs\<rparr>) = rooms_view d"
  "rooms_view (d\<lparr>segments := ss\<rparr>) = rooms_view d" "rooms_view (d\<lparr>next_segment_id := n\<rparr>) = rooms_view d"
  "rooms_view (d\<lparr>next_batch_id := n\<rparr>) = rooms_view d" "rooms_view (log_event e d) = rooms_view d"
  "rooms_view (change_batch i P f d) = rooms_view d" "rooms_view (change_cursor sc g d) = rooms_view d"
  "rooms_view (change_batches B f d) = rooms_view d" "rooms_view (change_interventions J h d) = rooms_view d"
  "rooms_view (insert_batch b d) = rooms_view d" "rooms_view (opened_cursor ts sc es d) = rooms_view d"
  "rooms_view (append_segment s d) = rooms_view d" "rooms_view (silence_segment ts k d) = rooms_view d"
  by (simp_all add: rooms_view_def change_batch_def change_cursor_def insert_batch_def opened_cursor_def
      append_segment_def silence_segment_def)

lemma rooms_ensure [dest]: "ensure_cursor ts sc d = Inr d' \<Longrightarrow> rooms_view d' = rooms_view d"
  by (auto simp: ensure_cursor_def andthen_Inr_iff split: if_splits)

lemma rooms_insert_segment [dest]: "insert_segment s d = Inr d' \<Longrightarrow> rooms_view d' = rooms_view d"
  by (erule insert_segment_cases) simp_all

lemma rooms_insert_rule [dest]:
  "insert_rule_fallback_segments b ts n fs d = Inr (ids, d') \<Longrightarrow> rooms_view d' = rooms_view d"
  by (induction fs arbitrary: n d ids) (fastforce simp: Let_def andthen_Inr_iff)+

lemma rooms_insert_unclassified [dest]:
  "insert_unclassified b ts rows n rs d = Inr (ids, d') \<Longrightarrow> rooms_view d' = rooms_view d"
  by (induction b ts rows n rs d arbitrary: ids rule: insert_unclassified.induct)
    (fastforce simp: Let_def andthen_Inr_iff)+

lemma rooms_terminalize [dest]:
  assumes "terminalize_exhausted_batch now bid code detail force d = Inr (r, d')"
  shows "rooms_view d' = rooms_view d"
proof -
  have commit: "rooms_view d3 = rooms_view d2"
    if "terminalize_commit now b code detail ids other qs d2 = Inr (r, d3)" for b ids other qs d2 d3
    using that by (auto simp: terminalize_commit_def Let_def andthen_Inr_iff split: if_splits)
  obtain b where "batch_with_scope d bid = Inr b" using assms
    by (auto simp: terminalize_exhausted_batch_def andthen_Inr_iff)
  with assms show ?thesis
    by (cases "terminalize_refusal force b d")
      (auto simp: terminalize_exhausted_batch_def andthen_Inr_iff Let_def insert_unclassified_fallback_segments_def
        dest!: commit rooms_insert_rule rooms_insert_unclassified)
qed

lemma rooms_terminalize_each: "rooms_view (snd (terminalize_each now bids d)) = rooms_view d"
proof (induction bids arbitrary: d)
  case (Cons bid bids)
  show ?case
  proof (cases "terminalize_exhausted_batch now bid None None False d")
    case (Inr p)
    then obtain r d1 where t: "terminalize_exhausted_batch now bid None None False d = Inr (r, d1)" by (cases p) auto
    from Cons.IH [of d1] rooms_terminalize [OF t] t show ?thesis
      by (cases "terminalize_each now bids d1") (auto split: sum.splits)
  qed simp
qed simp

lemma rooms_recover [simp]: "rooms_view (snd (recover_exhausted_batches now sc d)) = rooms_view d"
  by (simp add: recover_exhausted_batches_def rooms_terminalize_each)

lemma rooms_store [dest]: "store_segments b ts prompt ns d = Inr (ids, d') \<Longrightarrow> rooms_view d' = rooms_view d"
  by (induction ns arbitrary: d ids) (fastforce simp: andthen_Inr_iff add_segment_def append_segment_def split: if_splits)+

lemma rooms_save [dest]:
  assumes "save_successful_segments library render now bid answer raw parsed model prompt d = Inr (r, d')"
  shows "rooms_view d' = rooms_view d"
proof -
  have commit: "rooms_view d3 = rooms_view d2"
    if "save_commit render ts b raw stored model prompt d2 = Inr d3" for ts b stored d2 d3
    using that by (auto simp: save_commit_def Let_def andthen_Inr_iff split: if_splits)
  show ?thesis using assms
    by (auto simp: save_successful_segments_def andthen_Inr_iff split: if_splits dest!: commit rooms_store)
qed

lemma replayed_view [simp]: "lease_view (pipeline_replayed ts p) = lease_view p"
  by (simp add: lease_view_def pipeline_replayed_def)

lemma rooms_replay [simp]: "rooms_view (replay_apply ts sc rows q d) = rooms_view d"
  by (simp add: replay_apply_def Let_def)
    (simp add: rooms_view_def views_update_where change_batches_def)

lemma rooms_batch_operations [dest]:
  "get_or_create_cursor now sc d = Inr (c, d') \<Longrightarrow> rooms_view d' = rooms_view d"
  "claim_batch now bid d = Inr (won, d') \<Longrightarrow> rooms_view d' = rooms_view d"
  "set_rerun_requested now bid q d = Inr (u, d') \<Longrightarrow> rooms_view d' = rooms_view d"
  "mark_batch_failed now bid code detail retry d = Inr (v, d') \<Longrightarrow> rooms_view d' = rooms_view d"
  "prepare_retry now bid retry d = Inr (ok, d') \<Longrightarrow> rooms_view d' = rooms_view d"
  "mark_enqueued now bid d = Inr (w, d') \<Longrightarrow> rooms_view d' = rooms_view d"
  "set_observation now sc status i j d = Inr (c, d') \<Longrightarrow> rooms_view d' = rooms_view d"
  "link_intervention_to_segment run bid sid trigger reason d = Inr (x, d') \<Longrightarrow> rooms_view d' = rooms_view d"
  "prepare_scope_reprocessing now sc do_apply codes d = Inr (y, d') \<Longrightarrow> rooms_view d' = rooms_view d"
  by (auto simp: get_or_create_cursor_def claim_batch_def set_rerun_requested_def mark_batch_failed_def
      prepare_retry_def mark_enqueued_def set_observation_def link_intervention_to_segment_def
      prepare_scope_reprocessing_def andthen_Inr_iff Let_def indexed_Inr split: if_splits option.splits list.splits)

lemma rooms_create [dest]:
  "create_batch digest now sc sp d = Inr (r, d') \<Longrightarrow> rooms_view d' = rooms_view d"
  by (auto simp: create_batch_def andthen_Inr_iff Let_def indexed_Inr rooms_ensure split: option.splits)

lemma rooms_committed: "(\<And>x d'. r = Inr (x, d') \<Longrightarrow> rooms_view d' = rooms_view d) \<Longrightarrow> rooms_view (committed d r) = rooms_view d"
  by (cases r) (auto simp: committed_def)

lemma rooms_window: "rooms_view (window_do r d) = rooms_view d"
  by (cases r) (auto intro: rooms_committed)

subsection \<open>What the scheduler leaves alone\<close>

text \<open>The rooms only move along the automaton, and the ids of runs stay below the next one.\<close>

definition quiet :: "lease_config \<Rightarrow> platform \<Rightarrow> platform \<Rightarrow> bool" where
  "quiet cfg d d' \<longleftrightarrow> lease_safe cfg d d' \<and> (fresh_runs d \<longrightarrow> fresh_runs d')"

lemma quiet_refl [simp]: "quiet cfg d d"
  by (simp add: quiet_def)

lemma quiet_trans [trans]: "quiet cfg d d1 \<Longrightarrow> quiet cfg d1 d2 \<Longrightarrow> quiet cfg d d2"
  using lease_safe_trans by (auto simp: quiet_def)

lemma quiet_rooms: "rooms_view d' = rooms_view d \<Longrightarrow> quiet cfg d d'"
  using lease_safe_frame [of d' d cfg] views_ids [of "pipelines d'" "pipelines d"]
  by (simp add: quiet_def rooms_view_def fresh_runs_ids del: set_map)

lemma quiet_siblings:
  assumes "finalize_terminal_batch_siblings now bid d = Inr (r, d')"
  shows "quiet cfg d d'"
proof -
  have view: "lease_view (owner_recorded p) = lease_view p" for p by (simp add: lease_view_def owner_recorded_def)
  have owner: "quiet cfg d (change_pipelines P owner_recorded d)" for P
    by (rule quiet_rooms) (simp add: rooms_view_def views_update_where view)
  have marks: "quiet cfg d1 (snd (mark_each mk now rows d1))" for mk rows d1
    using apart_sides [OF sides_mark_each [of mk now rows d1]] lease_safe_marks
    by (simp add: quiet_def apart_def)
  from assms have "d' = d \<or> (\<exists>P mk rows. d' = snd (mark_each mk now rows (change_pipelines P owner_recorded d)))"
    by (auto simp: finalize_terminal_batch_siblings_def finalize_preliminary_runs_for_batch_row_def andthen_Inr_iff
        Let_def eq_snd_iff split: option.splits if_splits)
  then show ?thesis using quiet_trans [OF owner marks] by auto
qed

lemma quiet_committed: "(\<And>x d'. r = Inr (x, d') \<Longrightarrow> quiet cfg d d') \<Longrightarrow> quiet cfg d (committed d r)"
  by (cases r) (auto simp: committed_def)

lemma quiet_finalize_each: "quiet cfg d (snd (finalize_each now bids d))"
proof (induction bids arbitrary: d)
  case (Cons bid bids)
  show ?case
  proof (cases "finalize_terminal_batch_siblings now bid d")
    case (Inr p)
    then obtain r d1 where f: "finalize_terminal_batch_siblings now bid d = Inr (r, d1)" by (cases p) auto
    from quiet_trans [OF quiet_siblings [OF f] Cons.IH] f show ?thesis
      by (cases "finalize_each now bids d1") (auto split: sum.splits)
  qed simp
qed simp

lemma rooms_take_up [dest]: "take_up_again env now trigger q b d = Inr (r, d') \<Longrightarrow> rooms_view d' = rooms_view d"
  by (auto simp: take_up_again_def Let_def indexed_Inr split: if_splits)

lemma rooms_open_window [dest]:
  assumes "open_window env now sc es trigger rq rp unfinalized students res d = Inr (r, d')"
  shows "rooms_view d' = rooms_view d"
proof -
  define claimed where "claimed = take (nat (max 1 (or_int (se_max_candidate_messages env) 8))) students"
  show ?thesis
    using assms unfolding open_window_def Let_def claimed_def [symmetric]
    by (cases "find (same_window sc (or0 (m_sequence (hd claimed))) (or0 (m_sequence (last claimed)))) (batches d)")
      (auto simp: andthen_Inr_iff indexed_Inr)
qed

lemma rooms_transaction:
  assumes "request_transaction env now sc trigger rq d = Inr (r, d')"
  shows "rooms_view d' = rooms_view d"
proof (cases "request_scope d sc")
  case (Some row)
  obtain x es g where row: "row = (x, es, g)" by (cases row) auto
  define d1 where "d1 = opened_cursor (fmt_sec now) sc es d"
  define c where "c = the (cursor_of d1 sc)"
  define unfinalized where "unfinalized = student_rows_after_cursor d1 sc (scheduled_through c)"
  define rp where "rp = request_replacement d1 sc rq unfinalized"
  define cutoff where "cutoff = request_cutoff trigger rq rp"
  define students where "students = candidate_rows d1 sc rq cutoff unfinalized"
  note folds = d1_def [symmetric] c_def [symmetric] unfinalized_def [symmetric] rp_def [symmetric]
    cutoff_def [symmetric] students_def [symmetric]
  have d1: "rooms_view d1 = rooms_view d" by (simp add: d1_def)
  show ?thesis
  proof (cases "scope_running (x, es, g)")
    case True
    then show ?thesis using assms Some d1
      unfolding request_transaction_def Let_def
      by (simp only: row folds option.case prod.case simp_thms if_False)
        (auto split: option.splits)
  qed (use assms Some row in \<open>simp add: request_transaction_def\<close>)
qed (use assms in \<open>simp add: request_transaction_def\<close>)

lemma rooms_enqueue [dest]: "enqueue_and_note env now bid delay d = Inr d' \<Longrightarrow> rooms_view d' = rooms_view d"
  by (auto simp: enqueue_and_note_def map_sum_def split: option.splits sum.splits)

lemma rooms_hand_over [simp]: "rooms_view (snd (hand_over env now res bid d)) = rooms_view d"
  by (auto simp: hand_over_def rooms_enqueue split: sum.splits)

lemma quiet_request: "quiet cfg d (snd (request_state_assessment env now sc rq d))"
proof -
  obtain res d1 where r: "recover_exhausted_batches now sc d = (res, d1)" by force
  obtain rs d2 where o: "recover_terminal_batch_orphans now sc d1 = (rs, d2)" by force
  have q1: "quiet cfg d d1" using r rooms_recover [of now sc d] by (intro quiet_rooms) simp
  have "quiet cfg d1 (snd (recover_terminal_batch_orphans now sc d1))"
    unfolding recover_terminal_batch_orphans_def by (rule quiet_finalize_each)
  then have "quiet cfg d1 d2" by (simp only: o snd_conv)
  with q1 have q2: "quiet cfg d d2" by (rule quiet_trans)
  have q3: "quiet cfg d d3" if "rooms_view d3 = rooms_view d2" for d3
    using q2 quiet_rooms [OF that] by (rule quiet_trans)
  show ?thesis
  proof (cases "request_refusal rq = None \<and> (\<exists>t. normalize_trigger (rq_trigger_type rq) = Inr t)
      \<and> ac_configuration_error (agent_config_from_session (fetch_session d (fst (snd sc)))) = None
      \<and> pipeline_mode_from_session (fetch_session d (fst (snd sc))) \<noteq> None")
    case False
    then have "snd (request_state_assessment env now sc rq d) = d"
      by (auto simp: request_state_assessment_def Let_def split: option.splits sum.splits)
    then show ?thesis by simp
  next
    case True
    then obtain trigger mode where t: "request_refusal rq = None" "normalize_trigger (rq_trigger_type rq) = Inr trigger"
      "ac_configuration_error (agent_config_from_session (fetch_session d (fst (snd sc)))) = None"
      "pipeline_mode_from_session (fetch_session d (fst (snd sc))) = Some mode" by blast
    show ?thesis
    proof (cases "request_transaction env now sc trigger rq d2")
      case (Inl e)
      with t r o q1 q2 show ?thesis
        by (cases res; cases rs) (simp_all add: request_state_assessment_def Let_def)
    next
      case (Inr p)
      obtain needed rr d3 where p: "p = ((needed, rr), d3)" by (metis prod.collapse)
      have "rooms_view d3 = rooms_view d2" by (rule rooms_transaction [OF Inr [unfolded p]])
      then have q: "quiet cfg d d3" "quiet cfg d (snd (hand_over env now rr (or0 (rr_assessment_batch_id rr)) d3))"
        by (simp_all add: q3)
      have "snd (request_state_assessment env now sc rq d)
          \<in> {d1, d2, d3, snd (hand_over env now rr (or0 (rr_assessment_batch_id rr)) d3)}"
        using t r o Inr p by (cases res; cases rs) (simp_all add: request_state_assessment_def Let_def)
      with q q1 q2 show ?thesis unfolding insert_iff empty_iff by (elim disjE FalseE) simp_all
    qed
  qed
qed

lemma quiet_for_message: "quiet cfg d (snd (request_state_assessment_for_message env now gid q t d))"
  by (simp add: request_state_assessment_for_message_def quiet_request split: option.splits)

lemma quiet_scan_one: "quiet cfg d (snd (scan_one env now sc d))"
proof -
  obtain r d1 where one: "request_state_assessment env now sc (plain_request (Some ''message_count_periodic'') None) d = (r, d1)"
    by force
  from quiet_request [of cfg d env now sc "plain_request (Some ''message_count_periodic'') None"] one
  have "quiet cfg d d1" by simp
  with quiet_trans [OF this quiet_request] show ?thesis by (simp add: scan_one_def one split: sum.splits)
qed

lemma quiet_scan_each: "quiet cfg d (snd (scan_each env now scs d))"
proof (induction scs arbitrary: d)
  case (Cons sc scs)
  obtain r d1 where one: "scan_one env now sc d = (r, d1)" by force
  then have "quiet cfg d d1" using quiet_scan_one [of cfg d env now sc] by simp
  moreover from this have "quiet cfg d (snd (scan_each env now scs d1))"
    using Cons.IH [of d1] by (rule quiet_trans)
  ultimately show ?case by (auto simp: one split_beta split: sum.splits prod.splits)
qed simp

lemma quiet_scan_due: "quiet cfg d (snd (scan_due_state_assessments env now limit d))"
  using quiet_scan_each [of cfg d env now "due_scopes d limit"]
  by (auto simp: scan_due_state_assessments_def split: sum.splits prod.splits)

lemma quiet_close: "quiet cfg d (finalize_terminal_pipeline_siblings now bid d)"
  unfolding finalize_terminal_pipeline_siblings_def by (rule quiet_committed) (rule quiet_siblings)

lemma quiet_window: "rooms_view d1 = rooms_view d \<Longrightarrow> quiet cfg d1 d2 \<Longrightarrow> quiet cfg d d2"
  using quiet_trans [OF quiet_rooms] .

lemma quiet_give_up: "quiet cfg d (snd (give_up_and_close now b code detail force reason d))"
  by (auto simp: give_up_and_close_def intro!: quiet_window [OF _ quiet_close] split: sum.splits)

lemma quiet_retry_later: "quiet cfg d (snd (retry_later env now b code detail d))"
  by (rule quiet_rooms)
    (auto simp: retry_later_def Let_def split: sum.splits dest!: rooms_enqueue rooms_batch_operations(4,5))

lemma quiet_retry: "quiet cfg d (snd (schedule_limited_retry env now b code detail d))"
  by (simp add: schedule_limited_retry_def quiet_give_up quiet_retry_later)

lemma quiet_continue: "quiet cfg d (snd (continue_after_terminal env now b retry d))"
  by (simp add: continue_after_terminal_def quiet_request split: option.splits)

lemma quiet_begin: "quiet cfg d (snd (begin_execution now bid d))"
  by (rule quiet_rooms) (auto simp: begin_execution_def Let_def split: sum.splits option.splits prod.splits
      dest!: rooms_batch_operations(2,4))

lemma quiet_failed_detection: "quiet cfg d (snd (after_failed_detection env now b code detail d))"
proof -
  obtain r d1 where s: "schedule_limited_retry env now (case fetch_batch d (b_id b) of None \<Rightarrow> b | Some r \<Rightarrow> r) code detail d
      = (r, d1)" by force
  then have q: "quiet cfg d d1" using quiet_retry by (metis snd_conv)
  show ?thesis using quiet_trans [OF q quiet_continue] q
    by (auto simp: after_failed_detection_def s split: sum.splits)
qed

lemma quiet_saved_answer: "quiet cfg d (snd (after_saved_answer env now b fresh d))"
  by (simp add: after_saved_answer_def quiet_request)

lemma quiet_scheduler: "quiet cfg d (scheduler_do r d)"
  using quiet_close unfolding finalize_terminal_pipeline_siblings_def
  by (cases r) (simp_all add: quiet_request quiet_for_message quiet_scan_due quiet_begin quiet_failed_detection
      quiet_saved_answer)

lemma quiet_assessment: "quiet cfg d (assessment_do r d)"
  by (cases r) (simp_all add: assessment_do_def quiet_scheduler quiet_rooms rooms_window)

end
