(* ===== verification/Execution.thy ===== *)
theory Execution
  imports Assessment_Scheduler Window_Results Stage2_Pipeline Room_Lease
begin

text \<open>
  \<open>execute_state_assessment_batch\<close> of \<open>services/state_assessment_scheduler.py\<close> in the three
  sections the rest of the program separates: from the claim to the detector
  (\<open>open_execution\<close>), from the detector's result to the recorded decision
  (\<open>record_execution\<close>, or \<open>lose_lease\<close> when the heartbeat was fenced), and the continuation
  (\<open>after_saved_answer\<close>).  Between them run the detector and, after a decision, the
  observation record and the third stage; each section composes the transactions it makes,
  and one clock reading stands for the readings of a section.
\<close>

subsection \<open>The answer as segments\<close>

text \<open>\<open>==\<close> between an integer and a decoded value: a bool counts as 0 or 1.\<close>

definition equals_int :: "int \<Rightarrow> json \<Rightarrow> bool" where
  "equals_int n j = (case j of JInt i \<Rightarrow> i = n | JBool x \<Rightarrow> n = (if x then 1 else 0)
     | JFloat (Fin r) \<Rightarrow> r = of_int n | _ \<Rightarrow> False)"

definition is_text :: "json \<Rightarrow> bool" where
  "is_text j = (case j of JStr s \<Rightarrow> True | _ \<Rightarrow> False)"

definition projected_segment :: "batch_row \<Rightarrow> json \<Rightarrow> int \<Rightarrow> dict \<Rightarrow> string + json" where
  "projected_segment b active_index index item =
     (let given = jor (dget item ''canonical_sub_state'') (dget item ''canonical_sub_state_code'');
          canonical = (if jtruthy given then JStr (canonical_of given) else given);
          state = (if jtruthy given then JStr (legacy_state_for_sub_state (Some (canonical_of given)))
                   else dget item ''state'')
      in if jtruthy given \<and> \<not> is_text given then Inl ''AttributeError''
         else
         andthen (iterated (dget item ''secondary_tags'')) (\<lambda>tags.
         andthen (iterated (jor (dget item ''evidence_sequences'') (dget item ''evidence_message_ids''))) (\<lambda>evidence.
           Inr (JObj [(''state'', state),
             (''raw_sub_state_code'', jor (dget item ''raw_sub_state'') (dget item ''raw_sub_state_code'')),
             (''canonical_sub_state_code'', canonical), (''secondary_tags'', JList tags),
             (''start_sequence'', dget item ''start_sequence''), (''end_sequence'', dget item ''end_sequence''),
             (''confidence'', dget item ''confidence''), (''evidence_sequences'', JList evidence),
             (''segment_order'', JInt index), (''source'', JStr ''llm''),
             (''assessment_status'', JStr ''confirmed''),
             (''is_active_at_batch_end'', JBool (equals_int index active_index)),
             (''trigger_type'', JStr (b_trigger_type b))]))))"

fun projected_segments :: "batch_row \<Rightarrow> json \<Rightarrow> int \<Rightarrow> json list \<Rightarrow> string + json list" where
  "projected_segments b active_index index [] = Inr []"
| "projected_segments b active_index index (j # js) =
     (case j of
        JObj item \<Rightarrow>
          andthen (projected_segment b active_index index item) (\<lambda>p.
          andthen (projected_segments b active_index (index + 1) js) (\<lambda>ps. Inr (p # ps)))
      | _ \<Rightarrow> Inl ''AttributeError'')"

definition KNOWN_LLM_STATES :: "string list" where
  "KNOWN_LLM_STATES = [''positive_collaboration'', ''conflict_tension'', ''negative_silence'',
     ''blocked_frustration'', ''frustration_stuck'', ''task_detached'', ''unknown'']"

text \<open>\<open>int(value) if str(value).lstrip("-").isdigit()\<close>; two signs pass the test and not \<open>int\<close>.\<close>

definition message_reference :: "json \<Rightarrow> string + int option" where
  "message_reference j =
     (case j of
        JInt i \<Rightarrow> Inr (Some i)
      | JStr s \<Rightarrow>
          (let digits = dropWhile (\<lambda>c. c = CHR ''-'') s in
           if digits = [] \<or> \<not> list_all is_digit digits then Inr None
           else case int_of_text s of None \<Rightarrow> Inl ''ValueError'' | Some i \<Rightarrow> Inr (Some i))
      | _ \<Rightarrow> Inr None)"

definition sequence_of :: "platform \<Rightarrow> batch_row \<Rightarrow> int \<Rightarrow> int option" where
  "sequence_of d b i =
     (case find (\<lambda>m. m_id m = i \<and> m_group_id m = b_group_id b \<and> m_session_id m = Some (b_session_id b)
             \<and> m_discussion_id m = Some (b_discussion_id b)
             \<and> (case m_sequence m of None \<Rightarrow> False
                | Some q \<Rightarrow> b_candidate_start_sequence b \<le> q \<and> q \<le> b_candidate_end_sequence b)) (messages d) of
        None \<Rightarrow> None | Some m \<Rightarrow> m_sequence m)"

fun evidence_sequences :: "platform \<Rightarrow> batch_row \<Rightarrow> int list \<Rightarrow> json list \<Rightarrow> string + int list" where
  "evidence_sequences d b acc [] = Inr (sort acc)"
| "evidence_sequences d b acc (j # js) =
     andthen (message_reference j) (\<lambda>i.
       evidence_sequences d b
         (case Option.bind i (sequence_of d b) of
            None \<Rightarrow> acc | Some q \<Rightarrow> if q \<in> set acc then acc else acc @ [q]) js)"

text \<open>
  \<open>min(1.0, max(0.0, confidence))\<close>; NaN, a failed conversion and nothing are 0.  An integer
  that rounds past the largest float escapes.
\<close>

definition too_large :: "json \<Rightarrow> bool" where
  "too_large j = (case j of JInt i \<Rightarrow> 2 ^ 1024 - 2 ^ 970 \<le> \<bar>i\<bar> | _ \<Rightarrow> False)"

definition clamped_confidence :: "json \<Rightarrow> pyfloat" where
  "clamped_confidence j =
     (case (if \<not> jtruthy j then None else case j of JBool _ \<Rightarrow> Some (Fin 1) | _ \<Rightarrow> as_float j) of
        Some (Fin r) \<Rightarrow> Fin (min 1 (max 0 r))
      | Some (Inf True) \<Rightarrow> Fin 1
      | _ \<Rightarrow> Fin 0)"

definition segments_from_legacy_result ::
    "(json \<Rightarrow> string) \<Rightarrow> batch_row \<Rightarrow> dict \<Rightarrow> platform \<Rightarrow> string + json list" where
  "segments_from_legacy_result render b result d =
     (let state = strip (py_str render (jor (jor (dget result ''primary_state'') (dget result ''state_code''))
                    (JStr ''unknown'')))
      in if state \<notin> set KNOWN_LLM_STATES then Inr []
         else
           andthen (iterated (dget result ''evidence_message_ids'')) (\<lambda>values.
           andthen (evidence_sequences d b [] values) (\<lambda>qs.
             if qs = [] then Inr []
             else if too_large (dget result ''confidence'') then Inl ''OverflowError''
             else Inr [JObj [(''state'', JStr state), (''start_sequence'', JInt (hd qs)),
                (''end_sequence'', JInt (last qs)),
                (''confidence'', JFloat (clamped_confidence (dget result ''confidence''))),
                (''evidence_sequences'', JList (map JInt (take 3 qs))), (''segment_order'', JInt 0),
                (''source'', JStr ''llm''), (''assessment_status'', JStr ''confirmed''),
                (''is_active_at_batch_end'', JBool (last qs = b_candidate_end_sequence b)),
                (''trigger_type'', JStr (b_trigger_type b))]])))"

definition segments_from_multi_result ::
    "(json \<Rightarrow> string) \<Rightarrow> batch_row \<Rightarrow> dict \<Rightarrow> platform \<Rightarrow> string + json list" where
  "segments_from_multi_result render b result d =
     (if map_of result ''segments'' = None then segments_from_legacy_result render b result d
      else andthen (iterated (dget result ''segments''))
             (projected_segments b (dget result ''active_segment_index'') 0))"

subsection \<open>Failures\<close>

definition current_window :: "platform \<Rightarrow> batch_row \<Rightarrow> batch_row" where
  "current_window d b = (case fetch_batch d (b_id b) of None \<Rightarrow> b | Some r \<Rightarrow> r)"

text \<open>
  The window as read here has no \<open>pipeline_mode\<close>, so the run is looked up in strategy mode.
  A failure of \<open>mark_failed\<close> is logged and survived.
\<close>

definition fail_run ::
    "datetime \<Rightarrow> batch_row \<Rightarrow> string \<Rightarrow> string \<Rightarrow> llm_meta \<Rightarrow> platform \<Rightarrow> platform" where
  "fail_run now b code detail meta d =
     committed d (mark_failed now None (current_window d b) (Some code) (Some (take 500 detail)) meta True d)"

definition fail_execution ::
    "scheduler_env \<Rightarrow> datetime \<Rightarrow> batch_row \<Rightarrow> string \<Rightarrow> string \<Rightarrow> llm_meta \<Rightarrow> platform
       \<Rightarrow> (string + (retry_result \<times> request_result option)) \<times> platform" where
  "fail_execution env now b code detail meta d =
     after_failed_detection env now b code detail (fail_run now b code detail meta d)"

text \<open>The heartbeat was fenced: the attempt is over and nothing is retried.\<close>

definition lose_lease ::
    "datetime \<Rightarrow> batch_row \<Rightarrow> string option \<Rightarrow> platform \<Rightarrow> (string + retry_result) \<times> platform" where
  "lose_lease now b why d =
     (let reason = text_of (or_text why (Some ''room_lease_heartbeat_failed''));
          d1 = fail_run now b reason reason no_meta d
      in case mark_batch_failed now (b_id b) (Some reason) (Some (take 500 reason)) None d1 of
           Inl e \<Rightarrow> (Inl e, d1)
         | Inr (_, d2) \<Rightarrow> (Inr (not_retried reason), d2))"

subsection \<open>Up to the detector\<close>

datatype opened_execution =
    Not_Opened execution_start
  | Waiting int string retry_result   \<comment> \<open>the run, the reason of the lease, the retry\<close>
  | Failed_Opening string "retry_result \<times> request_result option"
  | Detecting batch_row string preparation "string option"   \<comment> \<open>window, mode, run, lease token\<close>

definition wait_for_room ::
    "scheduler_env \<Rightarrow> datetime \<Rightarrow> batch_row \<Rightarrow> int \<Rightarrow> string \<Rightarrow> platform \<Rightarrow> (string + opened_execution) \<times> platform" where
  "wait_for_room env now b pid reason d =
     (let d1 = snd (mark_waiting_for_lock now b pid reason d); current = current_window d1 b
      in case schedule_limited_retry env now current ''room_lease_not_acquired'' reason d1 of
           (Inl e, d2) \<Rightarrow> (Inl e, d2)
         | (Inr retry, d2) \<Rightarrow>
             if rt_retried retry then (Inr (Waiting pid reason retry), d2)
             else
               (case mark_failed now None current (Some ''room_lease_not_acquired'') (Some reason) no_meta False d2 of
                  Inl e \<Rightarrow> (Inl e, d2)
                | Inr (_, d3) \<Rightarrow>
                    (Inr (Waiting pid reason retry), finalize_terminal_pipeline_siblings now (b_id b) d3)))"

definition begin_stage2 ::
    "datetime \<Rightarrow> batch_row \<Rightarrow> string \<Rightarrow> preparation \<Rightarrow> string option \<Rightarrow> platform \<Rightarrow> (string + opened_execution) \<times> platform" where
  "begin_stage2 now b mode pr token d =
     (case mark_started now b (pr_pipeline_run_id pr) d of
        (True, d1) \<Rightarrow> (Inr (Detecting b mode pr token), d1)
      | (False, d1) \<Rightarrow> (Inl ''pipeline_not_stage2_startable'', d1))"

text \<open>
  The body of the \<open>try\<close>: only a strategy run whose first stage asked to escalate takes the
  room.  \<open>Inl\<close> is an exception, with what was committed before it.
\<close>

definition start_stage2 ::
    "lease_config \<Rightarrow> scheduler_env \<Rightarrow> datetime \<Rightarrow> string \<Rightarrow> batch_row \<Rightarrow> string \<Rightarrow> platform
       \<Rightarrow> (string + opened_execution) \<times> platform" where
  "start_stage2 cfg env now fresh b mode d =
     (case prepare_for_batch now mode b d of
        Inl e \<Rightarrow> (Inl e, d)
      | Inr (pr, d1) \<Rightarrow>
          if mode = ''strategy'' \<and> pr_coarse_should_escalate pr
          then
            (let (lease, d2) = claim_strategy_pipeline cfg now now fresh (pr_pipeline_run_id pr) None d1 in
             if lr_acquired lease then begin_stage2 now b mode pr (lr_lock_token lease) d2
             else wait_for_room env now b (pr_pipeline_run_id pr)
                    (if lr_reason lease = [] then ''ROOM_LOCK_UNAVAILABLE'' else lr_reason lease) d2)
          else begin_stage2 now b mode pr None d1)"

definition open_execution ::
    "lease_config \<Rightarrow> scheduler_env \<Rightarrow> datetime \<Rightarrow> string \<Rightarrow> int \<Rightarrow> platform \<Rightarrow> (string + opened_execution) \<times> platform" where
  "open_execution cfg env now fresh bid d =
     (case begin_execution now bid d of
        (Inl e, d1) \<Rightarrow> (Inl e, d1)
      | (Inr (Ready b mode), d1) \<Rightarrow>
          (case start_stage2 cfg env now fresh b mode d1 of
             (Inr o1, d2) \<Rightarrow> (Inr o1, d2)
           | (Inl e, d2) \<Rightarrow>
               map_prod (map_sum id (Failed_Opening ''application_error'')) id
                 (fail_execution env now b ''application_error'' e no_meta d2))
      | (Inr start, d1) \<Rightarrow> (Inr (Not_Opened start), d1))"

subsection \<open>From the detector to the decision\<close>

text \<open>What the detector hands over, as far as it is read here; an exception is \<open>Inl\<close>.\<close>

record detection =
  dt_error :: "string option"
  dt_success :: bool
  dt_analysis_failed :: bool
  dt_failure_type :: "string option"
  dt_skip_reason :: "string option"
  dt_failure_message :: "string option"
  dt_meta :: llm_meta
  dt_result :: dict

definition detection_failure :: "detection \<Rightarrow> (string \<times> string) option" where
  "detection_failure dt =
     (if truthy (dt_error dt) \<or> dt_analysis_failed dt \<or> \<not> dt_success dt
      then
        (let code = text_of (or_text (dt_failure_type dt) (or_text (dt_skip_reason dt)
               (Some (if truthy (dt_error dt) then ''monitoring_failed'' else ''state_llm_failed''))))
         in Some (code, text_of (or_text (dt_error dt) (or_text (dt_failure_message dt) (Some code)))))
      else None)"

datatype recorded_execution =
    Failed_Recording string "retry_result \<times> request_result option"
  | Recorded batch_row save_result "stage2_outcome option" "request_result option"
      \<comment> \<open>the window before the save, the saved one, the decision, the request of a stale answer\<close>

text \<open>A stale answer asks for the messages it came too late for.\<close>

definition stale_request :: "stage2_outcome \<Rightarrow> assessment_request" where
  "stale_request out =
     (let latest = Option.bind (so_latest_student out) m_sequence in
      \<lparr>rq_trigger_type = Some ''message_count_periodic'', rq_trigger_sequence = latest,
       rq_continuation = True, rq_fixed_start = None, rq_fixed_end = None,
       rq_replacement = \<lparr>rp_of_pipeline_run_id = Some (so_pipeline_run_id out),
         rp_reason = Some ''STALE_NEW_STUDENT_MESSAGE'',
         rp_trigger_message_id = map_option m_id (so_latest_student out), rp_cutoff_sequence = latest\<rparr>\<rparr>)"

definition persist_answer ::
    "stage2_env \<Rightarrow> datetime \<Rightarrow> string \<Rightarrow> save_result \<Rightarrow> detection \<Rightarrow> platform
       \<Rightarrow> string + (stage2_outcome option \<times> platform)" where
  "persist_answer senv now mode saved dt d =
     (if \<not> is_stage2_result (JObj (dt_result dt)) then Inr (None, d)
      else if mode = ''state_only''
      then persist_state_only_success now (sv_batch saved) (JObj (dt_result dt)) (dt_meta dt) (sv_segments saved) d
      else persist_success senv now (Some mode) (sv_batch saved) (JObj (dt_result dt)) (dt_meta dt)
             (sv_segments saved) (b_fallback_action (sv_batch saved) = Some ''state_only_replay'') d)"

text \<open>The save is tried once; what fails after it is not caught.\<close>

definition record_execution ::
    "stage2_env \<Rightarrow> (json \<Rightarrow> string) \<Rightarrow> scheduler_env \<Rightarrow> datetime \<Rightarrow> batch_row \<Rightarrow> string \<Rightarrow> string + detection
       \<Rightarrow> platform \<Rightarrow> (string + recorded_execution) \<times> platform" where
  "record_execution senv render env now b mode result d =
     (let failed = (\<lambda>code detail meta. map_prod (map_sum id (Failed_Recording code)) id
            (fail_execution env now b code detail meta d))
      in case result of
           Inl e \<Rightarrow> failed ''application_error'' e no_meta
         | Inr dt \<Rightarrow>
             (case detection_failure dt of
                Some (code, detail) \<Rightarrow> failed code detail (dt_meta dt)
              | None \<Rightarrow>
                  (case segments_from_multi_result render b (dt_result dt) d of
                     Inl e \<Rightarrow> (Inl e, d)
                   | Inr items \<Rightarrow>
                       (case save_successful_segments (sx_library senv) render now (b_id b) (JList items)
                               (lm_raw_response (dt_meta dt)) (JObj (dt_result dt))
                               (lm_model_name (dt_meta dt)) (lm_prompt_version (dt_meta dt)) d of
                          Inl e \<Rightarrow> failed ''application_error'' e (dt_meta dt)
                        | Inr (saved, d1) \<Rightarrow>
                            (case persist_answer senv now mode saved dt d1 of
                               Inl e \<Rightarrow> (Inl e, d1)
                             | Inr (None, d2) \<Rightarrow> (Inr (Recorded (current_window d b) saved None None), d2)
                             | Inr (Some out, d2) \<Rightarrow>
                                 if so_stale out
                                 then map_prod (map_sum id (\<lambda>r. Recorded (current_window d b) saved (Some out) (Some r))) id
                                        (request_state_assessment env now (batch_scope (sv_batch saved))
                                           (stale_request out) d2)
                                 else (Inr (Recorded (current_window d b) saved (Some out) None), d2))))))"

end
