(* ===== verification/Sound_Steps.thy ===== *)
theory Sound_Steps
  imports Service_Frames Execution
begin

text \<open>
  What every step of the program keeps: the invariant of the rooms, of the windows and of the
  run ids, while rooms and windows move along their automata and no version and no cursor
  goes back (\<open>sound\<close>); and that the requests of the services and the sections of an
  execution are such steps.
\<close>

subsection \<open>Sound steps\<close>

definition platform_inv :: "lease_config \<Rightarrow> platform \<Rightarrow> bool" where
  "platform_inv cfg d \<longleftrightarrow> lease_inv cfg d \<and> batch_inv d \<and> fresh_runs d"

definition sound :: "lease_config \<Rightarrow> platform \<Rightarrow> platform \<Rightarrow> bool" where
  "sound cfg d d' \<longleftrightarrow> (platform_inv cfg d \<longrightarrow>
     platform_inv cfg d' \<and> rooms_evolve (groups d) (groups d')
     \<and> windows_evolve\<^sup>*\<^sup>* (batches d) (batches d') \<and> (\<forall>sc. finalized_through d sc \<le> finalized_through d' sc))"

lemma sound_refl [simp]: "sound cfg d d"
  by (simp add: sound_def)

lemma sound_trans [trans]: "sound cfg d d1 \<Longrightarrow> sound cfg d1 d2 \<Longrightarrow> sound cfg d d2"
  unfolding sound_def by (meson evolve_trans rtranclp_trans order_trans)

lemma sound_quiet: "quiet cfg d d' \<Longrightarrow> (batch_inv d \<Longrightarrow> safe_step d d') \<Longrightarrow> sound cfg d d'"
  by (auto simp: sound_def quiet_def lease_safe_def safe_step_def platform_inv_def)

lemma sound_apart: "apart d d' \<Longrightarrow> (fresh_runs d \<Longrightarrow> lease_safe cfg d d') \<Longrightarrow> sound cfg d d'"
  using apart_safe [OF _ safe_refl, of d d']
  by (auto simp: sound_def lease_safe_def safe_step_def platform_inv_def apart_def)

lemma sound_window: "sound cfg d (window_do r d)"
  by (intro sound_quiet quiet_rooms rooms_window window_do_safe)

lemma sound_scheduler: "sound cfg d (scheduler_do r d)"
  by (intro sound_quiet quiet_scheduler scheduler_do_safe)

lemma sound_assessment: "sound cfg d (assessment_do r d)"
  by (intro sound_quiet quiet_assessment assessment_do_safe)

lemma sound_services: "services_ok cfg r d \<Longrightarrow> sound cfg d (services_do cfg r d)"
  using services_step_evolves [of cfg r d] services.both.step_inv [of cfg r d]
  by (intro sound_apart apart_services) (simp add: lease_safe_def)

lemma sound_stage2: "sound cfg d (stage2_do r d)"
  by (intro sound_apart apart_stage2 stage2_do_safe) (simp add: stage2_ok_def)

text \<open>The calls the sections of an execution make, as steps of the services.\<close>

lemma sound_calls:
  "claim_batch now bid d = Inr (won, d') \<Longrightarrow> sound cfg d d'"
  "mark_batch_failed now bid code detail retry d = Inr (v, d') \<Longrightarrow> sound cfg d d'"
  "save_successful_segments library render now bid answer raw parsed model prompt d = Inr (s, d') \<Longrightarrow> sound cfg d d'"
  "prepare_for_batch now mode b d = Inr (pr, d') \<Longrightarrow> sound cfg d d'"
  "mark_failed now m b code detail meta started d = Inr (x, d') \<Longrightarrow> sound cfg d d'"
  "persist_success senv now m b payload meta saved replay d = Inr (out, d') \<Longrightarrow> sound cfg d d'"
  "persist_state_only_success now b payload meta saved d = Inr (out, d') \<Longrightarrow> sound cfg d d'"
  using sound_window [of cfg d "Claim_Window now bid"] sound_window [of cfg d "Fail_Window now bid code detail retry"]
    sound_window [of cfg d "Save_Answer library render now bid answer raw parsed model prompt"]
    sound_stage2 [of cfg d "Prepare now mode b"] sound_stage2 [of cfg d "Fail now m b code detail meta started"]
    sound_stage2 [of cfg d "Persist senv now m b payload meta saved replay"]
    sound_stage2 [of cfg d "Persist_State_Only now b payload meta saved"]
  by (simp_all add: committed_def)

lemma sound_scheduler_calls [simp]:
  "sound cfg d (snd (request_state_assessment env now sc rq d))"
  "sound cfg d (snd (begin_execution now bid d))"
  "sound cfg d (snd (after_failed_detection env now b code detail d))"
  "sound cfg d (finalize_terminal_pipeline_siblings now bid d)"
  "sound cfg d (snd (schedule_limited_retry env now b code detail d))"
  using sound_scheduler [of cfg d "Request_Window env now sc rq"] sound_scheduler [of cfg d "Begin_Execution now bid"]
    sound_scheduler [of cfg d "Detection_Failed env now b code detail"]
    sound_scheduler [of cfg d "Close_Siblings now bid"]
    sound_quiet [OF quiet_retry schedule_limited_retry_safe]
  by (simp_all add: finalize_terminal_pipeline_siblings_def)

lemma sound_stage2_calls [simp]:
  "sound cfg d (snd (mark_started now b pid d))"
  "sound cfg d (snd (mark_waiting_for_lock now b pid reason d))"
  using sound_stage2 [of cfg d "Start now b pid"] sound_stage2 [of cfg d "Wait_For_Lock now b pid reason"]
  by simp_all

lemma sound_claim:
  "fresh \<noteq> [] \<Longrightarrow> cf_initial_ttl_seconds cfg \<le> cf_max_total_seconds cfg \<Longrightarrow>
   sound cfg d (snd (claim_strategy_pipeline cfg now now fresh pid None d))"
  using sound_services [of cfg "Inl (Claim now now fresh pid None)" d] by (simp add: or_default_def)

subsection \<open>Sections of an execution\<close>

lemma sound_fail_run [simp]: "sound cfg d (fail_run now b code detail meta d)"
  by (auto simp: fail_run_def committed_def split: sum.splits dest: sound_calls)

lemma sound_fail_execution [simp]: "sound cfg d (snd (fail_execution env now b code detail meta d))"
  unfolding fail_execution_def by (rule sound_trans [OF sound_fail_run sound_scheduler_calls(3)])

lemma sound_lose_lease: "sound cfg d (snd (lose_lease now b why d))"
  by (auto simp: lose_lease_def Let_def split: sum.splits dest!: sound_calls(2) [where cfg = cfg]
      intro: sound_trans [OF sound_fail_run])

lemma sound_begin_stage2: "sound cfg d (snd (begin_stage2 now b mode pr token d))"
  using sound_stage2_calls(1) [of cfg d now b "pr_pipeline_run_id pr"]
  by (cases "mark_started now b (pr_pipeline_run_id pr) d"; cases "fst (mark_started now b (pr_pipeline_run_id pr) d)")
    (simp_all add: begin_stage2_def)

lemma sound_wait_for_room: "sound cfg d (snd (wait_for_room env now b pid reason d))"
proof -
  define d1 where "d1 = snd (mark_waiting_for_lock now b pid reason d)"
  obtain r d2 where s: "schedule_limited_retry env now (current_window d1 b) ''room_lease_not_acquired'' reason d1 = (r, d2)"
    by force
  have "sound cfg d d1" by (simp add: d1_def)
  also have "sound cfg d1 d2"
    using sound_scheduler_calls(5) [of cfg d1 env now "current_window d1 b" "''room_lease_not_acquired''" reason] s by simp
  finally have d2: "sound cfg d d2" .
  have "sound cfg d (finalize_terminal_pipeline_siblings now (b_id b) d3)"
    if "mark_failed now None (current_window d1 b) (Some ''room_lease_not_acquired'') (Some reason) no_meta False d2 = Inr (x, d3)"
    for x d3
    using d2 sound_calls(5) [OF that, of cfg] sound_scheduler_calls(4) by (blast intro: sound_trans)
  then show ?thesis using d2 by (auto simp: wait_for_room_def s d1_def [symmetric] split: sum.splits)
qed

lemma sound_start_stage2:
  assumes "fresh \<noteq> []" "cf_initial_ttl_seconds cfg \<le> cf_max_total_seconds cfg"
  shows "sound cfg d (snd (start_stage2 cfg env now fresh b mode d))"
proof (cases "prepare_for_batch now mode b d")
  case (Inr p)
  then obtain pr d1 where p: "prepare_for_batch now mode b d = Inr (pr, d1)" by (cases p) auto
  note d1 = sound_calls(4) [OF p, of cfg]
  obtain lease d2 where l: "claim_strategy_pipeline cfg now now fresh (pr_pipeline_run_id pr) None d1 = (lease, d2)" by force
  have d2: "sound cfg d d2"
    using sound_trans [OF d1 sound_claim [OF assms, of d1 now "pr_pipeline_run_id pr"]] l by simp
  show ?thesis
    using d1 d2 sound_begin_stage2 sound_wait_for_room
    by (auto simp: start_stage2_def p l intro: sound_trans)
qed (simp add: start_stage2_def)

lemma sound_open_execution:
  assumes "fresh \<noteq> []" "cf_initial_ttl_seconds cfg \<le> cf_max_total_seconds cfg"
  shows "sound cfg d (snd (open_execution cfg env now fresh bid d))"
proof -
  obtain r d1 where r: "begin_execution now bid d = (r, d1)" by force
  then have d1: "sound cfg d d1" using sound_scheduler_calls(2) [of cfg d now bid] by simp
  have "sound cfg d (snd (case start_stage2 cfg env now fresh b mode d1 of
      (Inr o1, d2) \<Rightarrow> (Inr o1, d2)
    | (Inl e, d2) \<Rightarrow> map_prod (map_sum id (Failed_Opening ''application_error'')) id
        (fail_execution env now b ''application_error'' e no_meta d2)))" for b mode
  proof -
    obtain s d2 where s: "start_stage2 cfg env now fresh b mode d1 = (s, d2)" by force
    have "sound cfg d d2" using sound_trans [OF d1 sound_start_stage2 [OF assms, of d1 env now b mode]] s by simp
    then show ?thesis by (auto simp: s split: sum.splits intro: sound_trans)
  qed
  then show ?thesis using d1 by (auto simp: open_execution_def r split: sum.splits execution_start.splits)
qed

lemma sound_persist_answer:
  "persist_answer senv now mode saved dt d = Inr (out, d') \<Longrightarrow> sound cfg d d'"
  by (auto simp: persist_answer_def andthen_Inr_iff split: if_splits dest: sound_calls(6,7))

lemma sound_record_execution: "sound cfg d (snd (record_execution senv render env now b mode result d))"
proof -
  have stale: "sound cfg d d2 \<Longrightarrow> sound cfg d (snd (request_state_assessment env now sc rq d2))" for d2 sc rq
    by (erule sound_trans) (rule sound_scheduler_calls(1))
  show ?thesis
    by (auto simp: record_execution_def Let_def split: sum.splits option.splits prod.splits
        dest!: sound_calls(3) [where cfg = cfg] sound_persist_answer [where cfg = cfg] intro: stale sound_trans)
qed

end
