(* ===== verification/Group_Runtime.thy ===== *)
theory Group_Runtime
  imports Platform_State
begin

text \<open>
  \<open>services/group_discussion_runtime_service.py\<close>: the discussion of a group waits until every
  expected student has reached it, then runs until its deadline
  (\<open>enter_group_discussion_stage\<close>); the predicates that tell when it takes no more messages.
  Lists of ids are written sorted and without repetitions and read back the same way.
\<close>

definition DEFAULT_DISCUSSION_MINUTES :: int where
  "DEFAULT_DISCUSSION_MINUTES = 30"

definition WRITE_CLOSED_STATUSES :: "string list" where
  "WRITE_CLOSED_STATUSES = [''timed_out'', ''submitted'', ''closed'']"

definition id_list :: "int list \<Rightarrow> int list" where
  "id_list ids = sort (remdups ids)"

lemma set_id_list [simp]: "set (id_list ids) = set ids"
  by (simp add: id_list_def)

definition discussion_limit_minutes :: "platform \<Rightarrow> int \<Rightarrow> int" where
  "discussion_limit_minutes d sid =
     (let limit = (case fetch_session d sid of
            None \<Rightarrow> 0
          | Some es \<Rightarrow> or0 (coalesce (es_time_limit_minutes es)
              (Option.bind (Option.bind (es_task_id es) (\<lambda>t. fetch_by t_id t (tasks d))) t_time_limit_minutes)))
      in if limit > 0 then limit else DEFAULT_DISCUSSION_MINUTES)"

definition snapshot_group_members :: "platform \<Rightarrow> int \<Rightarrow> int \<Rightarrow> int list" where
  "snapshot_group_members d gid fallback =
     (let ids = map gm_user_id (filter (\<lambda>m. gm_group_id m = gid) (members d))
      in id_list (if fallback \<noteq> 0 \<and> fallback \<notin> set ids then ids @ [fallback] else ids))"

subsection \<open>Deadlines\<close>

definition runtime_of :: "int \<Rightarrow> int \<Rightarrow> discussion_row \<Rightarrow> bool" where
  "runtime_of sid gid x \<longleftrightarrow> d_session_id x = sid \<and> d_group_id x = gid"

definition get_group_discussion_runtime :: "platform \<Rightarrow> int \<Rightarrow> int \<Rightarrow> discussion_row option" where
  "get_group_discussion_runtime d sid gid = find (runtime_of sid gid) (discussions d)"

definition deadline_remaining_seconds :: "datetime \<Rightarrow> stamp option \<Rightarrow> int option" where
  "deadline_remaining_seconds now deadline =
     map_option (\<lambda>t. max 0 ((stamp_dt t - now) div 1000000)) deadline"

definition runtime_deadline_passed :: "datetime \<Rightarrow> discussion_row option \<Rightarrow> bool" where
  "runtime_deadline_passed now runtime =
     (case runtime of
        None \<Rightarrow> False
      | Some x \<Rightarrow> d_status x = ''running''
          \<and> (case d_deadline x of None \<Rightarrow> False | Some t \<Rightarrow> stamp_dt t \<le> now))"

definition is_group_discussion_write_closed :: "datetime \<Rightarrow> int \<Rightarrow> int \<Rightarrow> platform \<Rightarrow> bool" where
  "is_group_discussion_write_closed now sid gid d =
     (case get_group_discussion_runtime d sid gid of
        None \<Rightarrow> False
      | Some x \<Rightarrow> d_status x \<in> set WRITE_CLOSED_STATUSES \<or> runtime_deadline_passed now (Some x))"

record timer_payload =
  tp_status :: "string option"
  tp_started_at :: "stamp option"
  tp_deadline :: "stamp option"
  tp_remaining_seconds :: "int option"
  tp_timed_out :: bool

definition group_discussion_timer_payload :: "datetime \<Rightarrow> discussion_row option \<Rightarrow> timer_payload" where
  "group_discussion_timer_payload now runtime =
     (case runtime of
        None \<Rightarrow> \<lparr>tp_status = None, tp_started_at = None, tp_deadline = None, tp_remaining_seconds = None,
                 tp_timed_out = False\<rparr>
      | Some x \<Rightarrow>
          (let over = (d_status x = ''timed_out'' \<or> runtime_deadline_passed now runtime) in
           \<lparr>tp_status = Some (if over \<and> d_status x = ''running'' then ''timed_out'' else d_status x),
            tp_started_at = d_started_at x, tp_deadline = d_deadline x,
            tp_remaining_seconds = deadline_remaining_seconds now (d_deadline x), tp_timed_out = over\<rparr>))"

subsection \<open>Entering the discussion\<close>

definition change_discussions ::
    "(discussion_row \<Rightarrow> bool) \<Rightarrow> (discussion_row \<Rightarrow> discussion_row) \<Rightarrow> platform \<Rightarrow> platform" where
  "change_discussions P f d = d\<lparr>discussions := update_where P f (discussions d)\<rparr>"

definition new_runtime :: "stamp \<Rightarrow> int \<Rightarrow> int \<Rightarrow> int list \<Rightarrow> int \<Rightarrow> discussion_row" where
  "new_runtime ts sid gid expected did =
     \<lparr>d_id = did, d_session_id = sid, d_group_id = gid, d_status = ''waiting'', d_started_at = None,
      d_created_at = Some ts, d_expected_student_ids = id_list expected, d_ready_student_ids = [],
      d_expected_student_count = int (length expected), d_ready_student_count = 0, d_deadline = None,
      d_submitted_at = None, d_auto_submitted_at = None, d_updated_at = Some ts\<rparr>"

definition opened_runtime :: "stamp \<Rightarrow> int \<Rightarrow> int \<Rightarrow> int \<Rightarrow> platform \<Rightarrow> discussion_row \<times> platform" where
  "opened_runtime ts sid gid student d =
     (case get_group_discussion_runtime d sid gid of
        Some x \<Rightarrow> (x, d)
      | None \<Rightarrow>
          (let x = new_runtime ts sid gid (snapshot_group_members d gid student) (next_discussion_id d)
           in (x, d\<lparr>discussions := discussions d @ [x], next_discussion_id := next_discussion_id d + 1\<rparr>)))"

text \<open>\<open>INSERT OR IGNORE\<close> of the entry, and the UPDATE that keeps the first \<open>ready_at\<close>.\<close>

definition entry_of :: "int \<Rightarrow> int \<Rightarrow> entry_row \<Rightarrow> bool" where
  "entry_of did student e \<longleftrightarrow> en_discussion_id e = did \<and> en_student_id e = student"

definition entered :: "stamp \<Rightarrow> int \<Rightarrow> int \<Rightarrow> platform \<Rightarrow> platform" where
  "entered ts did student d =
     (let es = (if \<exists>e\<in>set (entries d). entry_of did student e then entries d
                else entries d @ [\<lparr>en_discussion_id = did, en_student_id = student, en_entered_at = ts,
                   en_ready_at = Some ts, en_last_seen_at = Some ts, en_created_at = ts, en_updated_at = ts\<rparr>])
      in d\<lparr>entries := update_where (entry_of did student)
             (\<lambda>e. e\<lparr>en_ready_at := coalesce (en_ready_at e) (Some ts), en_last_seen_at := Some ts,
                    en_updated_at := ts\<rparr>) es\<rparr>)"

definition ready_ids :: "platform \<Rightarrow> int \<Rightarrow> int list" where
  "ready_ids d did =
     id_list (map en_student_id (filter (\<lambda>e. en_discussion_id e = did \<and> en_ready_at e \<noteq> None) (entries d)))"

definition all_ready :: "int list \<Rightarrow> int list \<Rightarrow> bool" where
  "all_ready expected ready \<longleftrightarrow> expected \<noteq> [] \<and> set expected \<subseteq> set ready"

text \<open>The deadline is counted in whole seconds from the start.\<close>

definition discussion_deadline :: "stamp \<Rightarrow> int \<Rightarrow> stamp" where
  "discussion_deadline started minutes = fmt_sec (stamp_dt started + seconds (60 * minutes))"

definition readied_runtime ::
    "stamp \<Rightarrow> int list \<Rightarrow> int \<Rightarrow> discussion_row \<Rightarrow> discussion_row \<Rightarrow> discussion_row" where
  "readied_runtime ts ready limit x r =
     (let expected = id_list (d_expected_student_ids x);
          both = id_list (filter (\<lambda>i. i \<in> set expected) ready);
          starts = (d_status x = ''waiting'' \<and> all_ready expected ready);
          started = (if starts then Some ts else d_started_at x);
          deadline = (if starts then Some (discussion_deadline ts limit) else d_deadline x)
      in r\<lparr>d_status := (if starts then ''running'' else d_status x), d_ready_student_ids := both,
           d_ready_student_count := int (length both), d_started_at := coalesce (d_started_at r) started,
           d_deadline := coalesce (d_deadline r) deadline, d_updated_at := Some ts\<rparr>)"

text \<open>The foreign keys of the two tables are checked by SQLite.\<close>

definition enter_group_discussion_stage ::
    "datetime \<Rightarrow> int \<Rightarrow> int \<Rightarrow> int \<Rightarrow> platform \<Rightarrow> string + (discussion_row \<times> platform)" where
  "enter_group_discussion_stage now sid gid student d =
     (if sid = 0 \<or> gid = 0 \<or> student = 0 then Inl ''ValueError''
      else if get_group_discussion_runtime d sid gid = None
           \<and> (fetch_session d sid = None \<or> fetch_group d gid = None) then Inl ''IntegrityError''
      else
        (let ts = fmt_sec now; (x, d1) = opened_runtime ts sid gid student d in
         if (\<forall>e\<in>set (entries d1). \<not> entry_of (d_id x) student e) \<and> fetch_by u_id student (users d1) = None
         then Inl ''IntegrityError''
         else
           (let d2 = entered ts (d_id x) student d1;
                d3 = change_discussions (\<lambda>r. d_id r = d_id x)
                       (readied_runtime ts (ready_ids d2 (d_id x)) (discussion_limit_minutes d2 sid) x) d2
            in Inr (the (find (\<lambda>r. d_id r = d_id x) (discussions d3)), d3))))"

end
