(* ===== verification/Auto_Submit.thy ===== *)
theory Auto_Submit
  imports Group_Runtime
begin

text \<open>
  \<open>services/auto_submit_service.py\<close>: the collaborative documents of a group are submitted
  for it when its deadline passes (\<open>scan_and_auto_submit\<close>) or the teacher ends the session
  (\<open>submit_session_documents\<close>).  The collaboration server is a parameter (\<open>submit_env\<close>): it
  freezes a document or not, and a flush rewrites the body of the document.  The snapshot a
  browser may send along, the process events and the requests for the final state summary
  are not modelled.
\<close>

subsection \<open>The collaboration server\<close>

text \<open>
  \<open>sb_flush\<close> is the answer to an attempt (0 or 1): \<open>None\<close> an exception, otherwise whether it
  succeeded and the revision it reports; with it the body the server left in the table.
\<close>

record submit_env =
  sb_freeze :: "int \<Rightarrow> bool"
  sb_flush :: "nat \<Rightarrow> int \<Rightarrow> document_body \<Rightarrow> (bool \<times> int option) option \<times> document_body"
  sb_fresh_id :: "int \<Rightarrow> string"

definition fetch_document :: "platform \<Rightarrow> int \<Rightarrow> document_row option" where
  "fetch_document d k = fetch_by doc_id k (documents d)"

definition change_documents ::
    "(document_row \<Rightarrow> bool) \<Rightarrow> (document_row \<Rightarrow> document_row) \<Rightarrow> platform \<Rightarrow> platform" where
  "change_documents P f d = d\<lparr>documents := update_where P f (documents d)\<rparr>"

definition written_body :: "int \<Rightarrow> document_body \<Rightarrow> platform \<Rightarrow> platform" where
  "written_body did body = change_documents (\<lambda>x. doc_id x = did) (\<lambda>x. x\<lparr>doc_body := body\<rparr>)"

text \<open>Two attempts, the second only after an answer that reports a failure.\<close>

definition flush_document ::
    "submit_env \<Rightarrow> int \<Rightarrow> document_body \<Rightarrow> (bool \<times> int option) \<times> document_body" where
  "flush_document env did body =
     (case sb_flush env 0 did body of
        (None, body1) \<Rightarrow> ((False, None), body1)
      | (Some (True, revision), body1) \<Rightarrow> ((True, revision), body1)
      | (Some (False, _), body1) \<Rightarrow>
          (case sb_flush env 1 did body1 of
             (Some (True, revision), body2) \<Rightarrow> ((True, revision), body2)
           | (_, body2) \<Rightarrow> ((False, None), body2)))"

subsection \<open>Helpers\<close>

definition get_agent_user_id :: "platform \<Rightarrow> int" where
  "get_agent_user_id d =
     (case sort (map u_id (filter (\<lambda>u. u_role u = Some ''agent'') (users d))) of [] \<Rightarrow> 0 | i # _ \<Rightarrow> i)"

definition deadline_reached :: "datetime \<Rightarrow> stamp option \<Rightarrow> bool" where
  "deadline_reached now deadline = (case deadline of None \<Rightarrow> False | Some t \<Rightarrow> stamp_dt t \<le> now)"

definition runtime_submitted :: "stamp \<Rightarrow> discussion_row \<Rightarrow> discussion_row" where
  "runtime_submitted ts x = x\<lparr>d_status := ''submitted'', d_submitted_at := coalesce (d_submitted_at x) (Some ts),
     d_updated_at := Some ts\<rparr>"

definition runtime_auto_submitted :: "stamp \<Rightarrow> discussion_row \<Rightarrow> discussion_row" where
  "runtime_auto_submitted ts x =
     (runtime_submitted ts x)\<lparr>d_auto_submitted_at := coalesce (d_auto_submitted_at x) (Some ts)\<rparr>"

definition runtime_put :: "string \<Rightarrow> stamp \<Rightarrow> discussion_row \<Rightarrow> discussion_row" where
  "runtime_put status ts x = x\<lparr>d_status := status, d_updated_at := Some ts\<rparr>"

definition mark_group_discussion :: "int \<Rightarrow> string \<Rightarrow> stamp \<Rightarrow> platform \<Rightarrow> platform" where
  "mark_group_discussion did status ts d =
     (if did = 0 then d
      else if status = ''submitted''
      then change_discussions (\<lambda>x. d_id x = did \<and> d_status x \<in> {''running'', ''timed_out''})
             (runtime_auto_submitted ts) d
      else if status = ''timed_out''
      then change_discussions (\<lambda>x. d_id x = did \<and> d_status x = ''running'') (runtime_put ''timed_out'' ts) d
      else d)"

text \<open>The documents of a session: by its id, or older ones by task and number.\<close>

definition document_of_session :: "int \<Rightarrow> int option \<Rightarrow> int option \<Rightarrow> document_row \<Rightarrow> bool" where
  "document_of_session sid task number x \<longleftrightarrow>
     doc_session_id x = Some sid
     \<or> (doc_session_id x = None \<and> task = Some (doc_task_id x) \<and> number = Some (doc_session_no x))"

definition has_submitted_group_document :: "int \<Rightarrow> int \<Rightarrow> int option \<Rightarrow> int option \<Rightarrow> platform \<Rightarrow> bool" where
  "has_submitted_group_document sid gid task number d \<longleftrightarrow>
     (\<exists>x\<in>set (documents d). doc_group_id x = gid \<and> doc_status x = ''submitted''
        \<and> document_of_session sid task number x)"

definition stored_content :: "content \<Rightarrow> content" where
  "stored_content c = \<lparr>ct_json = Some (text_of (ct_json c)), ct_html = Some (text_of (ct_html c)),
     ct_text = Some (text_of (ct_text c))\<rparr>"

definition or_id :: "int \<Rightarrow> int \<Rightarrow> int" where
  "or_id a b = (if a = 0 then b else a)"

subsection \<open>One document\<close>

record submit_context =
  sc_session_id :: int
  sc_task_id :: "int option"
  sc_session_no :: "int option"
  sc_group_discussion_id :: int   \<comment> \<open>0 where the context has none\<close>

text \<open>The reasons are Chinese sentences in the code; a name stands for each.\<close>

record submit_order =
  ord_source :: string
  ord_reason :: string
  ord_allowed :: "string list"
  ord_actor :: int

datatype submit_result =
    Submitted (sr_revision: int) (sr_submission_id: int) (sr_freeze_ok: bool) (sr_flush_ok: bool)
  | Not_Submitted string

text \<open>
  The transaction: the document, its prepare, its checkpoint and its submission are written
  together or not at all.  The rows name the creator under a foreign key.
\<close>

definition submitted_document :: "stamp \<Rightarrow> int \<Rightarrow> content \<Rightarrow> document_row \<Rightarrow> document_row" where
  "submitted_document ts sid c x = x\<lparr>doc_session_id := coalesce (doc_session_id x) (Some sid),
     doc_status := ''submitted'', doc_body := (doc_body x)\<lparr>db_content := c\<rparr>,
     doc_submitted_at := coalesce (doc_submitted_at x) (Some ts), doc_updated_at := ts\<rparr>"

definition submission_rows ::
    "submit_env \<Rightarrow> stamp \<Rightarrow> int \<Rightarrow> submit_order \<Rightarrow> int \<Rightarrow> int option \<Rightarrow> int option \<Rightarrow> int \<Rightarrow> content \<Rightarrow> string option
       \<Rightarrow> int \<Rightarrow> platform \<Rightarrow> platform" where
  "submission_rows env ts did ord gid task number creator c y revision d = d\<lparr>
     prepares := prepares d @ [\<lparr>sp_document_id = did, sp_freeze_id = sb_fresh_id env did,
       sp_state_revision = revision, sp_committed = 1, sp_created_by = creator, sp_created_at = ts\<rparr>],
     checkpoints := checkpoints d @ [\<lparr>cp_document_id = did, cp_state_revision = revision,
       cp_reason = ''submitted'', cp_y_state = y, cp_content = c, cp_created_by = creator, cp_created_at = ts\<rparr>],
     submissions := submissions d @ [\<lparr>su_id = next_submission_id d, su_group_id = gid, su_user_id = creator,
       su_task_id = task, su_session_no = number, su_content = ct_text c, su_submission_source = ord_source ord,
       su_submit_reason = ord_reason ord,
       su_timeout_at = (if ord_source ord = ''auto_timeout'' then Some ts else None), su_submitted_at = ts\<rparr>],
     next_submission_id := next_submission_id d + 1\<rparr>"

definition claim_submission ::
    "submit_env \<Rightarrow> stamp \<Rightarrow> int \<Rightarrow> submit_context \<Rightarrow> submit_order \<Rightarrow> document_row \<Rightarrow> int \<Rightarrow> platform
       \<Rightarrow> string + ((int \<times> int) \<times> platform)" where
  "claim_submission env ts did ctx ord doc revision d =
     (let c = stored_content (db_content (doc_body doc));
          creator = or_id (ord_actor ord) (or_id (get_agent_user_id d) (doc_created_by doc))
      in case fetch_document d did of
           None \<Rightarrow> Inl ''invalid_status''
         | Some current \<Rightarrow>
             if doc_status current \<notin> set (ord_allowed ord)
             then Inl (if doc_status current = ''submitted'' then ''already_submitted'' else ''invalid_status'')
             else if fetch_by u_id creator (users d) = None then Inl ''claim_error''
             else
               (let final = or_id (db_state_revision (doc_body current)) revision;
                    d1 = change_documents (\<lambda>x. doc_id x = did) (submitted_document ts (sc_session_id ctx) c) d
                in Inr ((final, next_submission_id d),
                     submission_rows env ts did ord (doc_group_id doc)
                       (if doc_task_id doc \<noteq> 0 then Some (doc_task_id doc) else sc_task_id ctx)
                       (if doc_session_no doc \<noteq> 0 then Some (doc_session_no doc) else sc_session_no ctx)
                       creator c (db_y_state (doc_body current)) final d1)))"

definition perform_forced_submission ::
    "submit_env \<Rightarrow> datetime \<Rightarrow> int \<Rightarrow> submit_context \<Rightarrow> submit_order \<Rightarrow> platform \<Rightarrow> submit_result \<times> platform" where
  "perform_forced_submission env now did ctx ord d =
     (case fetch_document d did of
        None \<Rightarrow> (Not_Submitted ''not_found'', d)
      | Some doc \<Rightarrow>
          if doc_status doc = ''submitted'' then (Not_Submitted ''already_submitted'', d)
          else if doc_status doc \<notin> set (ord_allowed ord) then (Not_Submitted ''invalid_status'', d)
          else if or0 (doc_session_id doc) \<noteq> 0 \<and> sc_session_id ctx \<noteq> 0
                  \<and> doc_session_id doc \<noteq> Some (sc_session_id ctx)
          then (Not_Submitted ''session_mismatch'', d)
          else
            (let ((flushed, reported), body) = flush_document env did (doc_body doc);
                 d1 = written_body did body d;
                 revision = or_id (db_state_revision body) (or_id (or0 reported) (db_state_revision (doc_body doc)))
             in case claim_submission env (fmt_sec now) did ctx ord (doc\<lparr>doc_body := body\<rparr>) revision d1 of
                  Inl why \<Rightarrow> (Not_Submitted why, d1)
                | Inr ((final, sid), d2) \<Rightarrow>
                    (Submitted final sid (sb_freeze env did) flushed,
                     if ord_source ord = ''auto_timeout''
                     then mark_group_discussion (sc_group_discussion_id ctx) ''submitted'' (fmt_sec now) d2
                     else d2)))"

subsection \<open>At the deadline\<close>

definition auto_order :: submit_order where
  "auto_order = \<lparr>ord_source = ''auto_timeout'', ord_reason = ''deadline'', ord_allowed = [''editing''], ord_actor = 0\<rparr>"

definition perform_auto_submit ::
    "submit_env \<Rightarrow> datetime \<Rightarrow> int \<Rightarrow> submit_context \<Rightarrow> stamp option \<Rightarrow> platform \<Rightarrow> submit_result \<times> platform" where
  "perform_auto_submit env now did ctx deadline d =
     (if deadline = None then (Not_Submitted ''no_deadline'', d)
      else if \<not> deadline_reached now deadline then (Not_Submitted ''deadline_not_reached'', d)
      else perform_forced_submission env now did ctx auto_order d)"

record submit_tally =
  ty_processed :: int
  ty_submitted :: nat
  ty_skipped :: nat
  ty_errors :: nat

definition no_tally :: submit_tally where
  "no_tally = \<lparr>ty_processed = 0, ty_submitted = 0, ty_skipped = 0, ty_errors = 0\<rparr>"

definition counted :: "submit_result \<Rightarrow> submit_tally \<Rightarrow> submit_tally" where
  "counted r y = (let z = y\<lparr>ty_processed := ty_processed y + 1\<rparr> in
     case r of Submitted _ _ _ _ \<Rightarrow> z\<lparr>ty_submitted := ty_submitted y + 1\<rparr>
       | Not_Submitted why \<Rightarrow> if why = ''already_submitted'' then z\<lparr>ty_skipped := ty_skipped y + 1\<rparr>
           else z\<lparr>ty_errors := ty_errors y + 1\<rparr>)"

text \<open>The documents of one group, until the allowance of the scan is used up.\<close>

fun submit_each ::
    "submit_env \<Rightarrow> datetime \<Rightarrow> int \<Rightarrow> submit_context \<Rightarrow> stamp option \<Rightarrow> int list \<Rightarrow> submit_tally \<Rightarrow> platform
       \<Rightarrow> submit_tally \<times> platform" where
  "submit_each env now max_docs ctx deadline [] y d = (y, d)"
| "submit_each env now max_docs ctx deadline (i # is) y d =
     (if ty_processed y \<ge> max_docs then (y, d)
      else (case perform_auto_submit env now i ctx deadline d of
              (r, d1) \<Rightarrow> submit_each env now max_docs ctx deadline is (counted r y) d1))"

definition editing_documents :: "int \<Rightarrow> submit_context \<Rightarrow> int \<Rightarrow> platform \<Rightarrow> int list" where
  "editing_documents gid ctx room d =
     (let ids = sort (map doc_id (filter (\<lambda>x. doc_group_id x = gid \<and> doc_status x = ''editing''
            \<and> document_of_session (sc_session_id ctx) (sc_task_id ctx) (sc_session_no ctx) x) (documents d)))
      in if room < 0 then ids else take (nat room) ids)"

definition close_expired ::
    "submit_env \<Rightarrow> datetime \<Rightarrow> int \<Rightarrow> discussion_row \<times> submit_context \<Rightarrow> submit_tally \<Rightarrow> platform
       \<Rightarrow> submit_tally \<times> platform" where
  "close_expired env now max_docs xc y d =
     (case xc of (x, ctx) \<Rightarrow>
       (let (z, d1) = submit_each env now max_docs ctx (d_deadline x)
              (editing_documents (d_group_id x) ctx (max_docs - ty_processed y) d) y d
        in (z, if ty_submitted z > ty_submitted y
               then mark_group_discussion (d_id x) ''submitted'' (fmt_sec now) d1
               else if ty_errors z = ty_errors y
               then mark_group_discussion (d_id x)
                 (if has_submitted_group_document (sc_session_id ctx) (d_group_id x) (sc_task_id ctx) (sc_session_no ctx) d1
                  then ''submitted'' else ''timed_out'') (fmt_sec now) d1
               else d1)))"

fun close_each ::
    "submit_env \<Rightarrow> datetime \<Rightarrow> int \<Rightarrow> (discussion_row \<times> submit_context) list \<Rightarrow> submit_tally \<Rightarrow> platform
       \<Rightarrow> submit_tally \<times> platform" where
  "close_each env now max_docs [] y d = (y, d)"
| "close_each env now max_docs (xc # xcs) y d =
     (if \<not> deadline_reached now (d_deadline (fst xc)) then close_each env now max_docs xcs y d
      else
        (case close_expired env now max_docs xc y d of
           (z, d1) \<Rightarrow> if ty_processed z \<ge> max_docs then (z, d1) else close_each env now max_docs xcs z d1))"

definition expired_context :: "platform \<Rightarrow> stamp \<Rightarrow> discussion_row \<Rightarrow> submit_context option" where
  "expired_context d ts x =
     (case (fetch_session d (d_session_id x), d_deadline x) of
        (Some es, Some t) \<Rightarrow>
          if d_status x = ''running'' \<and> t \<le> ts \<and> es_status es = Some ''running'' \<and> es_task_id es \<noteq> None
          then Some \<lparr>sc_session_id = d_session_id x, sc_task_id = es_task_id es, sc_session_no = es_session_no es,
                 sc_group_discussion_id = d_id x\<rparr>
          else None
      | _ \<Rightarrow> None)"

definition expired_discussions :: "platform \<Rightarrow> stamp \<Rightarrow> int \<Rightarrow> (discussion_row \<times> submit_context) list" where
  "expired_discussions d ts limit =
     take (nat (max 1 limit))
       (map (\<lambda>x. (x, the (expired_context d ts x)))
         (sort_key (\<lambda>x. (the (d_deadline x), d_id x))
           (filter (\<lambda>x. expired_context d ts x \<noteq> None) (discussions d))))"

definition scan_and_auto_submit :: "submit_env \<Rightarrow> datetime \<Rightarrow> int \<Rightarrow> platform \<Rightarrow> submit_tally \<times> platform" where
  "scan_and_auto_submit env now max_docs d =
     close_each env now max_docs (expired_discussions d (fmt_sec now) max_docs) no_tally d"

subsection \<open>At the end of a session\<close>

definition teacher_order :: "int \<Rightarrow> submit_order" where
  "teacher_order operator = \<lparr>ord_source = ''teacher_end'', ord_reason = ''teacher_close'',
     ord_allowed = [''editing'', ''returned'', ''locked''], ord_actor = operator\<rparr>"

fun submit_all ::
    "submit_env \<Rightarrow> datetime \<Rightarrow> submit_context \<Rightarrow> submit_order \<Rightarrow> (int \<times> int) list \<Rightarrow> submit_tally \<times> int list \<Rightarrow> platform
       \<Rightarrow> (submit_tally \<times> int list) \<times> platform" where
  "submit_all env now ctx ord [] y d = (y, d)"
| "submit_all env now ctx ord ((i, gid) # is) (y, gs) d =
     (case perform_forced_submission env now i ctx ord d of
        (r, d1) \<Rightarrow> submit_all env now ctx ord is
          (counted r y, case r of Not_Submitted why \<Rightarrow> if why = ''already_submitted'' then gid # gs else gs
             | Submitted _ _ _ _ \<Rightarrow> gid # gs) d1)"

definition closes_as_submitted :: "submit_context \<Rightarrow> int list \<Rightarrow> platform \<Rightarrow> discussion_row \<Rightarrow> bool" where
  "closes_as_submitted ctx gs d x \<longleftrightarrow> d_group_id x \<in> set gs
     \<or> has_submitted_group_document (sc_session_id ctx) (d_group_id x) (sc_task_id ctx) (sc_session_no ctx) d"

definition close_runtimes :: "stamp \<Rightarrow> submit_context \<Rightarrow> int list \<Rightarrow> platform \<Rightarrow> platform" where
  "close_runtimes ts ctx gs d = d\<lparr>discussions := map (\<lambda>x.
     if d_session_id x \<noteq> sc_session_id ctx then x
     else if closes_as_submitted ctx gs d x then runtime_submitted ts x
     else if d_status x \<in> {''waiting'', ''running'', ''timed_out''} then runtime_put ''closed'' ts x
     else x) (discussions d)\<rparr>"

text \<open>\<open>None\<close>: there is no such session.\<close>

definition submit_session_documents ::
    "submit_env \<Rightarrow> datetime \<Rightarrow> int \<Rightarrow> int \<Rightarrow> platform \<Rightarrow> submit_tally option \<times> platform" where
  "submit_session_documents env now sid operator d =
     (case fetch_session d sid of
        None \<Rightarrow> (None, d)
      | Some es \<Rightarrow>
          (let ctx = \<lparr>sc_session_id = sid, sc_task_id = es_task_id es, sc_session_no = es_session_no es,
                      sc_group_discussion_id = 0\<rparr>;
               docs = map (\<lambda>x. (doc_id x, doc_group_id x))
                 (sort_key (\<lambda>x. (doc_group_id x, doc_id x))
                   (filter (\<lambda>x. doc_status x \<in> set (ord_allowed (teacher_order operator))
                      \<and> document_of_session sid (es_task_id es) (es_session_no es) x) (documents d)));
               ((y, gs), d1) = submit_all env now ctx (teacher_order operator) docs (no_tally, []) d
           in (Some y, close_runtimes (fmt_sec now) ctx gs d1)))"

end
