(* ===== verification/Observation.thy ===== *)
theory Observation
  imports Stage2_Pipeline "HOL-Library.AList"
begin

text \<open>
  \<open>services/three_stage_observation.py\<close>: after an intervention is published its run is
  observed.  Each assessment of an observation window is summarized onto the run observed
  last (\<open>record_observation_assessment\<close>), until the state has recovered, moved or persisted
  or the allowed rounds are over; the end of a session closes what is still observed.
\<close>

definition RECOVERY_SUB_STATES :: "string list" where
  "RECOVERY_SUB_STATES = [''standard'', ''deep_thinking'', ''execution_progress'',
     ''constructive_conflict'', ''stage_achievement'']"

definition TERMINAL_OBSERVATION_RESULTS :: "string list" where
  "TERMINAL_OBSERVATION_RESULTS = [''recovered'', ''persistent_risk'', ''migrated_risk'',
     ''state_migrated_non_intervention'', ''window_expired_no_recovery'', ''finalization_only'']"

definition MIN_RECOVERY_STUDENT_MESSAGES :: int where
  "MIN_RECOVERY_STUDENT_MESSAGES = 2"

text \<open>\<open>OBSERVATION_MAX_ASSESSMENT_ROUNDS\<close> from the value of the environment.\<close>

definition max_assessment_rounds :: "int \<Rightarrow> int" where
  "max_assessment_rounds env = max 1 env"

subsection \<open>The observed run\<close>

definition published_message :: "platform \<Rightarrow> pipeline_row \<Rightarrow> message_row option" where
  "published_message d p = Option.bind (p_published_message_id p) (\<lambda>i. fetch_by m_id i (messages d))"

definition published_sequence :: "platform \<Rightarrow> pipeline_row \<Rightarrow> int option" where
  "published_sequence d p = Option.bind (published_message d p) m_sequence"

definition observing :: "pipeline_row \<Rightarrow> bool" where
  "observing p \<longleftrightarrow> p_publish_status p = Some ''PUBLISHED'' \<and> ob_status (p_observation p) = Some ''observing''"

definition observed_candidate :: "platform \<Rightarrow> scope \<Rightarrow> int option \<Rightarrow> pipeline_row \<Rightarrow> bool" where
  "observed_candidate d sc limit p \<longleftrightarrow>
     p_group_id p = fst sc \<and> or0 (p_session_id p) = fst (snd sc) \<and> or0 (p_discussion_id p) = snd (snd sc)
     \<and> observing p \<and> (case limit of None \<Rightarrow> True | Some q \<Rightarrow> or0 (published_sequence d p) < q)"

definition observed_rank :: "platform \<Rightarrow> pipeline_row \<Rightarrow> int \<times> int" where
  "observed_rank d p = (- or0 (coalesce (published_sequence d p) (p_input_cutoff_student_sequence p)), - p_id p)"

definition find_observed_pipeline :: "platform \<Rightarrow> scope \<Rightarrow> int option \<Rightarrow> pipeline_row option" where
  "find_observed_pipeline d sc limit =
     (case sort_key (observed_rank d) (filter (observed_candidate d sc limit) (pipelines d)) of
        [] \<Rightarrow> None | p # _ \<Rightarrow> Some p)"

text \<open>The student messages after the published one, in the discussion of the run.\<close>

definition student_response :: "platform \<Rightarrow> pipeline_row \<Rightarrow> int \<Rightarrow> message_row \<Rightarrow> bool" where
  "student_response d p after m \<longleftrightarrow>
     m_group_id m = p_group_id p \<and> or0 (m_session_id m) = or0 (p_session_id p)
     \<and> or0 (m_discussion_id m) = or0 (p_discussion_id p) \<and> message_author d m = Some ''student''
     \<and> (case m_sequence m of None \<Rightarrow> False | Some q \<Rightarrow> q > after)"

definition first_student_response_after :: "platform \<Rightarrow> pipeline_row \<Rightarrow> message_row option" where
  "first_student_response_after d p =
     (case published_sequence d p of
        None \<Rightarrow> None
      | Some q \<Rightarrow>
          (case sort_key (\<lambda>m. (or0 (m_sequence m), m_id m)) (filter (student_response d p q) (messages d)) of
             [] \<Rightarrow> None | m # _ \<Rightarrow> Some m))"

definition student_response_count :: "platform \<Rightarrow> pipeline_row \<Rightarrow> int option \<Rightarrow> int" where
  "student_response_count d p through =
     (case published_sequence d p of
        None \<Rightarrow> 0
      | Some q \<Rightarrow> int (rowcount (\<lambda>m. student_response d p q m
            \<and> (case through of None \<Rightarrow> True | Some e \<Rightarrow> or0 (m_sequence m) \<le> e)) (messages d)))"

definition observation_round :: "pipeline_row \<Rightarrow> int \<Rightarrow> batch_row \<Rightarrow> bool" where
  "observation_round p after b \<longleftrightarrow>
     b_group_id b = p_group_id p \<and> b_session_id b = or0 (p_session_id p) \<and> b_discussion_id b = or0 (p_discussion_id p)
     \<and> b_trigger_type b = ''post_intervention_observation'' \<and> b_status b = ''succeeded''
     \<and> b_candidate_end_sequence b > after"

definition completed_observation_rounds :: "platform \<Rightarrow> pipeline_row \<Rightarrow> int" where
  "completed_observation_rounds d p =
     (case published_sequence d p of None \<Rightarrow> 0 | Some q \<Rightarrow> int (rowcount (observation_round p q) (batches d)))"

subsection \<open>The result of a round\<close>

definition classify_observation_result ::
    "int \<Rightarrow> string \<Rightarrow> string \<Rightarrow> bool \<Rightarrow> int \<Rightarrow> int \<Rightarrow> string" where
  "classify_observation_result max_rounds previous current intervene count rounds =
     (if current = [] \<or> current = ''unknown_sub_state''
      then (if rounds \<ge> max_rounds then ''window_expired_no_recovery'' else ''continue_observing'')
      else if current \<in> set RECOVERY_SUB_STATES
      then (if count \<ge> MIN_RECOVERY_STUDENT_MESSAGES \<or> rounds \<ge> max_rounds then ''recovered''
            else ''insufficient_evidence'')
      else if intervene then (if current = previous then ''persistent_risk'' else ''migrated_risk'')
      else if current \<noteq> previous then ''state_migrated_non_intervention''
      else if rounds \<ge> max_rounds then ''window_expired_no_recovery''
      else ''continue_observing'')"

text \<open>\<open>max(0.0, (end - start).total_seconds())\<close> of two stamps.\<close>

definition seconds_between :: "stamp option \<Rightarrow> stamp option \<Rightarrow> rat option" where
  "seconds_between a b =
     (case (a, b) of
        (Some s, Some e) \<Rightarrow> Some (max 0 (of_int (stamp_dt e - stamp_dt s) / 1000000))
      | _ \<Rightarrow> None)"

definition text_json :: "string option \<Rightarrow> json" where
  "text_json t = (case t of None \<Rightarrow> JNull | Some s \<Rightarrow> JStr s)"

definition int_json :: "int option \<Rightarrow> json" where
  "int_json t = (case t of None \<Rightarrow> JNull | Some i \<Rightarrow> JInt i)"

definition OBSERVATION_SCHEMA_VERSION :: string where
  "OBSERVATION_SCHEMA_VERSION = ''post_intervention_observation.v1''"

definition observation_details ::
    "platform \<Rightarrow> pipeline_row \<Rightarrow> batch_row \<Rightarrow> dict \<Rightarrow> dict \<Rightarrow> message_row option \<Rightarrow> int \<Rightarrow> int \<Rightarrow> string \<Rightarrow> dict" where
  "observation_details d p b answer active first count rounds result =
     [(''schema_version'', JStr OBSERVATION_SCHEMA_VERSION), (''result'', JStr result),
      (''previous_pipeline_run_id'', JInt (p_id p)),
      (''previous_sub_state'', text_json (p_canonical_sub_state_code p)),
      (''selected_strategy_id'', text_json (p_selected_strategy_id p)),
      (''published_message_id'', int_json (p_published_message_id p)),
      (''published_sequence'', int_json (published_sequence d p)),
      (''first_response_sequence'', int_json (Option.bind first m_sequence)),
      (''student_response_count'', JInt count), (''observation_rounds'', JInt rounds),
      (''window_start_sequence'', JInt (b_candidate_start_sequence b)),
      (''window_end_sequence'', JInt (b_candidate_end_sequence b)),
      (''current_sub_state'', dget active ''canonical_sub_state''),
      (''should_intervene'', JBool (jtruthy (dget answer ''should_intervene''))),
      (''all_state_segments'', jor (dget answer ''segments'') (JList []))]"

subsection \<open>Operations\<close>

abbreviation observe_row :: "(observation \<Rightarrow> observation) \<Rightarrow> stamp \<Rightarrow> pipeline_row \<Rightarrow> pipeline_row" where
  "observe_row f ts p \<equiv> p\<lparr>p_observation := f (p_observation p), p_updated_at := Some ts\<rparr>"

text \<open>
  \<open>mark_observation_started\<close>, called by the publisher inside its transaction with the row it
  holds: a missing row, message or sequence is reported and changes nothing.
\<close>

definition started_observation :: "stamp \<Rightarrow> int \<Rightarrow> string option \<Rightarrow> dict \<Rightarrow> observation \<Rightarrow> observation" where
  "started_observation ts sequence state details o' = o'\<lparr>ob_status := Some ''observing'',
     ob_started_at := coalesce (ob_started_at o') (Some ts),
     ob_window_start_sequence := coalesce (ob_window_start_sequence o') (Some (sequence + 1)),
     ob_previous_sub_state_code := coalesce (ob_previous_sub_state_code o') state,
     ob_details := details\<rparr>"

definition start_details :: "int \<Rightarrow> int \<Rightarrow> pipeline_row \<Rightarrow> dict" where
  "start_details mid sequence row =
     [(''schema_version'', JStr OBSERVATION_SCHEMA_VERSION), (''published_message_id'', JInt mid),
      (''published_sequence'', JInt sequence),
      (''previous_sub_state'', text_json (p_canonical_sub_state_code row)),
      (''selected_strategy_id'', text_json (p_selected_strategy_id row))]"

definition mark_observation_started ::
    "stamp \<Rightarrow> pipeline_row option \<Rightarrow> int option \<Rightarrow> platform \<Rightarrow> (string + int) \<times> platform" where
  "mark_observation_started ts row message_id d =
     (case row of
        None \<Rightarrow> (Inl ''missing_pipeline_or_message'', d)
      | Some p \<Rightarrow>
          if or0 message_id = 0 then (Inl ''missing_pipeline_or_message'', d)
          else
            (case Option.bind (fetch_by m_id (or0 message_id) (messages d)) m_sequence of
               None \<Rightarrow> (Inl ''published_message_not_found'', d)
             | Some q \<Rightarrow>
                 (Inr q, change_pipelines (\<lambda>r. p_id r = p_id p)
                    (\<lambda>r. observe_row (started_observation ts q (p_canonical_sub_state_code r)
                        (start_details (or0 message_id) q p)) ts r) d)))"

text \<open>
  \<open>record_observation_assessment\<close> runs in one transaction; \<open>answer\<close> is the result of the
  second stage, an object.
\<close>

record observation_outcome =
  oo_observed_pipeline_run_id :: int
  oo_result :: string
  oo_status :: string
  oo_first_response_sequence :: "int option"
  oo_student_response_count :: int
  oo_observation_rounds :: int
  oo_reintervention_run_id :: "int option"

definition is_terminal_result :: "string \<Rightarrow> bool" where
  "is_terminal_result result \<longleftrightarrow> result \<in> set TERMINAL_OBSERVATION_RESULTS"

definition assessed_observation ::
    "stamp \<Rightarrow> int \<Rightarrow> batch_row \<Rightarrow> int option \<Rightarrow> rat option \<Rightarrow> string \<Rightarrow> string \<Rightarrow> bool \<Rightarrow> string \<Rightarrow> dict
       \<Rightarrow> observation \<Rightarrow> observation" where
  "assessed_observation ts run b first delay previous current intervene result details o' = o'\<lparr>
     ob_status := Some (if is_terminal_result result then ''completed'' else ''observing''),
     ob_first_response_sequence := coalesce (ob_first_response_sequence o') first,
     ob_first_response_seconds := coalesce (ob_first_response_seconds o') delay,
     ob_window_start_sequence := coalesce (ob_window_start_sequence o') first,
     ob_window_end_sequence := Some (b_candidate_end_sequence b),
     ob_completed_at := (if is_terminal_result result then Some ts else ob_completed_at o'),
     ob_result := Some result, ob_assessment_run_id := Some run, ob_assessment_batch_id := Some (b_id b),
     ob_reintervention_run_id := (if intervene then Some run else ob_reintervention_run_id o'),
     ob_previous_sub_state_code := coalesce (ob_previous_sub_state_code o') (Some previous),
     ob_current_sub_state_code := Some current, ob_details := details\<rparr>"

definition observed_discussion :: "pipeline_row \<Rightarrow> cursor_row \<Rightarrow> bool" where
  "observed_discussion p c \<longleftrightarrow> c_group_id c = p_group_id p \<and> c_session_id c = or0 (p_session_id p)
     \<and> c_discussion_id c = or0 (p_discussion_id p) \<and> c_observation_status c = ''observing''"

definition stop_cursor :: "stamp \<Rightarrow> cursor_row \<Rightarrow> cursor_row" where
  "stop_cursor ts c = c\<lparr>c_observation_status := ''inactive'', c_updated_at := ts\<rparr>"

definition deactivate_observation_cursor :: "pipeline_row \<Rightarrow> stamp \<Rightarrow> platform \<Rightarrow> platform" where
  "deactivate_observation_cursor p ts d = change_cursors (observed_discussion p) (stop_cursor ts) d"

definition observe_assessment ::
    "int \<Rightarrow> stamp \<Rightarrow> int \<Rightarrow> batch_row \<Rightarrow> dict \<Rightarrow> pipeline_row \<Rightarrow> dict \<Rightarrow> platform \<Rightarrow> observation_outcome \<times> platform" where
  "observe_assessment max_rounds ts run b answer p active d =
     (let current = canonical_of (dget active ''canonical_sub_state'');
          previous = normalize_canonical_sub_state (p_canonical_sub_state_code p);
          intervene = jtruthy (dget answer ''should_intervene'');
          first = first_student_response_after d p;
          count = student_response_count d p (Some (b_candidate_end_sequence b));
          rounds = completed_observation_rounds d p;
          result = classify_observation_result max_rounds previous current intervene count rounds;
          details = observation_details d p b answer active first count rounds result;
          delay = seconds_between (coalesce (p_published_at p) (Option.bind (published_message d p) m_created_at))
                    (Option.bind first m_created_at);
          d1 = change_pipelines (\<lambda>r. p_id r = p_id p)
                 (observe_row (assessed_observation ts run b (Option.bind first m_sequence) delay previous current
                    intervene result details) ts) d;
          d2 = change_pipelines (\<lambda>r. p_id r = run)
                 (\<lambda>r. r\<lparr>p_parent_run_id := coalesce (p_parent_run_id r) (Some (p_id p)), p_updated_at := Some ts\<rparr>) d1
      in (\<lparr>oo_observed_pipeline_run_id = p_id p, oo_result = result,
            oo_status = (if is_terminal_result result then ''completed'' else ''observing''),
            oo_first_response_sequence = Option.bind first m_sequence, oo_student_response_count = count,
            oo_observation_rounds = rounds, oo_reintervention_run_id = (if intervene then Some run else None)\<rparr>,
          if is_terminal_result result then deactivate_observation_cursor p ts d2 else d2))"

definition record_observation_assessment ::
    "int \<Rightarrow> datetime \<Rightarrow> int option \<Rightarrow> batch_row \<Rightarrow> dict \<Rightarrow> platform
       \<Rightarrow> string + ((string + observation_outcome) \<times> platform)" where
  "record_observation_assessment max_rounds now run b answer d =
     (if b_trigger_type b \<noteq> ''post_intervention_observation'' then Inr (Inl ''not_observation_batch'', d)
      else if or0 run = 0 then Inr (Inl ''missing_observation_pipeline'', d)
      else
        (case find_observed_pipeline d (batch_scope b) (Some (b_candidate_start_sequence b)) of
           None \<Rightarrow> Inr (Inl ''observed_pipeline_not_found'', d)
         | Some p \<Rightarrow>
             andthen (dict_of (dget answer ''active_sub_state'')) (\<lambda>active.
               (case observe_assessment max_rounds (fmt_sec now) (or0 run) b answer p active d of
                  (out, d1) \<Rightarrow> Inr (Inr out, d1)))))"

text \<open>
  \<open>mark_session_observations_finalization_only\<close>, at the end of a session; \<open>render\<close> gives the text
  of a stamp.
\<close>

definition finalized_observation :: "(stamp \<Rightarrow> string) \<Rightarrow> stamp \<Rightarrow> string \<Rightarrow> observation \<Rightarrow> observation" where
  "finalized_observation render ts reason o' = o'\<lparr>ob_status := Some ''finalization_only'',
     ob_result := Some ''finalization_only'', ob_completed_at := Some ts,
     ob_details := AList.update ''finalized_at'' (JStr (render ts))
       (AList.update ''finalization_reason'' (JStr reason) (ob_details o'))\<rparr>"

definition mark_session_observations_finalization_only ::
    "(stamp \<Rightarrow> string) \<Rightarrow> datetime \<Rightarrow> int \<Rightarrow> string \<Rightarrow> platform \<Rightarrow> nat \<times> platform" where
  "mark_session_observations_finalization_only render now sid reason d =
     (let ts = fmt_sec now;
          mine = (\<lambda>p. p_session_id p = Some sid \<and> observing p);
          d1 = change_pipelines mine (observe_row (finalized_observation render ts reason) ts) d
      in (rowcount mine (pipelines d),
          change_cursors (\<lambda>c. c_session_id c = sid \<and> c_observation_status c = ''observing'') (stop_cursor ts) d1))"

subsection \<open>The context of the next detection\<close>

text \<open>
  What \<open>enrich_state_detector_context\<close> adds to the context of the detector; \<open>None\<close> leaves
  the context as it was.
\<close>

record observation_context =
  oc_previous_pipeline_run_id :: int
  oc_previous_sub_state :: "string option"
  oc_selected_strategy_id :: "string option"
  oc_published_message_id :: "int option"
  oc_published_sequence :: "int option"
  oc_published_at :: "stamp option"
  oc_published_message_text :: "string option"
  oc_observation_started_at :: "stamp option"
  oc_observation_window_start_sequence :: "int option"
  oc_first_response_sequence :: "int option"

definition observation_context_payload :: "platform \<Rightarrow> pipeline_row \<Rightarrow> message_row option \<Rightarrow> observation_context" where
  "observation_context_payload d p first = (let o' = p_observation p in
     \<lparr>oc_previous_pipeline_run_id = p_id p, oc_previous_sub_state = p_canonical_sub_state_code p,
      oc_selected_strategy_id = p_selected_strategy_id p, oc_published_message_id = p_published_message_id p,
      oc_published_sequence = published_sequence d p,
      oc_published_at = coalesce (p_published_at p) (Option.bind (published_message d p) m_created_at),
      oc_published_message_text = Option.bind (published_message d p) m_content,
      oc_observation_started_at = ob_started_at o',
      oc_observation_window_start_sequence = ob_window_start_sequence o',
      oc_first_response_sequence = (case first of None \<Rightarrow> ob_first_response_sequence o' | Some m \<Rightarrow> m_sequence m)\<rparr>)"

definition enrich_state_detector_context ::
    "int \<Rightarrow> int \<Rightarrow> int \<Rightarrow> int option \<Rightarrow> platform \<Rightarrow> observation_context option" where
  "enrich_state_detector_context gid sid did cutoff d =
     (if sid = 0 \<or> did = 0 then None
      else map_option (\<lambda>p. observation_context_payload d p (first_student_response_after d p))
             (find_observed_pipeline d (gid, sid, did) cutoff))"

end
