(* ===== verification/Session_Lifecycle.thy ===== *)
theory Session_Lifecycle
  imports Auto_Submit Observation Agent_Mode Coordination
begin

text \<open>
  \<open>services/session_lifecycle.py\<close>: what may still be written in a session, the gate every
  agent passes before it speaks (\<open>check_agent_allowed\<close>), and the end of a session
  (\<open>close_session\<close>), which submits the documents, ends the runs and closes the observations.
  \<open>get_current_running_session_context\<close> is the helper of \<open>db.py\<close>; its callers here read
  the id, task and number of the session only.
\<close>

subsection \<open>What may be written\<close>

definition session_status :: "platform \<Rightarrow> int \<Rightarrow> string option" where
  "session_status d sid = Option.bind (fetch_session d sid) es_status"

definition is_group_closed :: "int \<Rightarrow> platform \<Rightarrow> bool" where
  "is_group_closed gid d = (case fetch_group d gid of None \<Rightarrow> False | Some g \<Rightarrow> g_state g = ''CLOSED'')"

text \<open>\<open>_is_group_discussion_write_closed\<close>: 0 stands for a missing id.\<close>

definition discussion_closed_for :: "datetime \<Rightarrow> int \<Rightarrow> int \<Rightarrow> platform \<Rightarrow> bool" where
  "discussion_closed_for now sid gid d \<longleftrightarrow>
     sid \<noteq> 0 \<and> gid \<noteq> 0 \<and> is_group_discussion_write_closed now sid gid d"

definition is_discussion_writable :: "datetime \<Rightarrow> int \<Rightarrow> int \<Rightarrow> platform \<Rightarrow> bool" where
  "is_discussion_writable now sid gid d =
     (if gid = 0 then False
      else if sid = 0 then \<not> is_group_closed gid d
      else
        (case fetch_session d sid of
           None \<Rightarrow> \<not> is_group_closed gid d
         | Some es \<Rightarrow> es_status es = Some ''running'' \<and> \<not> discussion_closed_for now sid gid d))"

definition is_help_request_allowed :: "datetime \<Rightarrow> int \<Rightarrow> int \<Rightarrow> platform \<Rightarrow> bool" where
  "is_help_request_allowed = is_discussion_writable"

text \<open>The second definition of the module, which replaces the first.  The latest document counts.\<close>

definition latest_document :: "(document_row \<Rightarrow> bool) \<Rightarrow> platform \<Rightarrow> document_row option" where
  "latest_document P d =
     (case sort_key (\<lambda>x. - doc_id x) (filter P (documents d)) of [] \<Rightarrow> None | x # _ \<Rightarrow> Some x)"

definition is_document_writable :: "datetime \<Rightarrow> int \<Rightarrow> int \<Rightarrow> int \<Rightarrow> platform \<Rightarrow> bool" where
  "is_document_writable now sid gid did d \<longleftrightarrow>
     gid \<noteq> 0 \<and> sid \<noteq> 0 \<and> session_status d sid = Some ''running'' \<and> \<not> discussion_closed_for now sid gid d
     \<and> (case (if did \<noteq> 0 then fetch_document d did else latest_document (\<lambda>x. doc_group_id x = gid) d) of
          None \<Rightarrow> True
        | Some x \<Rightarrow> doc_status x \<in> {''editing'', ''returned''})"

record session_context =
  sx_session_id :: int
  sx_status :: "string option"
  sx_is_running :: bool
  sx_discussion_writable :: bool
  sx_help_writable :: bool
  sx_document_writable :: bool
  sx_posttest_available :: bool

definition get_session_context :: "datetime \<Rightarrow> int \<Rightarrow> int \<Rightarrow> platform \<Rightarrow> session_context option" where
  "get_session_context now sid gid d =
     map_option (\<lambda>es. (let running = (es_status es = Some ''running'') in
       \<lparr>sx_session_id = es_id es, sx_status = es_status es, sx_is_running = running,
        sx_discussion_writable = (if gid \<noteq> 0 then is_discussion_writable now sid gid d else running),
        sx_help_writable = (if gid \<noteq> 0 then is_help_request_allowed now sid gid d else running),
        sx_document_writable = (if gid \<noteq> 0 then is_document_writable now sid gid 0 d else running),
        sx_posttest_available = (es_status es \<in> {Some ''ended'', Some ''archived''})\<rparr>)) (fetch_session d sid)"

subsection \<open>The gate of the agents\<close>

text \<open>The session named by the setting while it runs, otherwise the only running one.\<close>

definition get_current_running_session_context :: "platform \<Rightarrow> session_row option" where
  "get_current_running_session_context d =
     (case Option.bind (current_session_setting d) (\<lambda>i. if i = 0 then None else fetch_session d i) of
        Some es \<Rightarrow>
          if es_status es = Some ''running'' then Some es
          else (case filter (\<lambda>s. es_status s = Some ''running'') (sessions d) of [s] \<Rightarrow> Some s | _ \<Rightarrow> None)
      | None \<Rightarrow> (case filter (\<lambda>s. es_status s = Some ''running'') (sessions d) of [s] \<Rightarrow> Some s | _ \<Rightarrow> None))"

record gate_scope =
  gs_session_id :: int
  gs_task_id :: int
  gs_session_no :: "int option"

definition resolved_scope :: "gate_scope \<Rightarrow> platform \<Rightarrow> gate_scope" where
  "resolved_scope q d =
     (if gs_session_id q \<noteq> 0 \<and> gs_task_id q \<noteq> 0 \<and> gs_session_no q \<noteq> None then q
      else
        (case get_current_running_session_context d of
           None \<Rightarrow> q
         | Some es \<Rightarrow> \<lparr>gs_session_id = or_id (gs_session_id q) (es_id es),
             gs_task_id = or_id (gs_task_id q) (or0 (es_task_id es)),
             gs_session_no = coalesce (gs_session_no q) (es_session_no es)\<rparr>))"

text \<open>The checks on the session and its agents; \<open>None\<close> passes.\<close>

definition session_gate :: "string option \<Rightarrow> int \<Rightarrow> platform \<Rightarrow> string option" where
  "session_gate agent_type sid d =
     (if sid = 0 then None
      else
        (case fetch_session d sid of
           None \<Rightarrow> Some ''session_not_found''
         | Some es \<Rightarrow>
             if es_status es \<noteq> Some ''running'' then Some ''session_not_active''
             else
               (let config = agent_config_from_session (Some es) in
                if ac_configuration_error config \<noteq> None then Some ''invalid_agent_configuration''
                else if agent_type = Some ''emotion'' \<and> ac_agent_mode config \<noteq> Some ''emotion''
                then Some ''agent_disabled''
                else if agent_type = Some ''strategy'' \<and> ac_agent_mode config \<noteq> Some ''strategy''
                then Some ''agent_disabled''
                else None)))"

definition LOCKED_DOCUMENT_STATUSES :: "string list" where
  "LOCKED_DOCUMENT_STATUSES = [''submitted'', ''locked'', ''frozen'', ''closed'', ''submitting'']"

text \<open>The documents the gate looks at: of the task and number when both are known.\<close>

definition scoped_document :: "int \<Rightarrow> gate_scope \<Rightarrow> document_row \<Rightarrow> bool" where
  "scoped_document gid q x \<longleftrightarrow> doc_group_id x = gid \<and> (gs_task_id q \<noteq> 0 \<and> gs_session_no q \<noteq> None \<longrightarrow>
     doc_task_id x = gs_task_id q \<and> gs_session_no q = Some (doc_session_no x))"

definition document_gate :: "int \<Rightarrow> gate_scope \<Rightarrow> platform \<Rightarrow> string option" where
  "document_gate gid q d =
     (case latest_document (scoped_document gid q) d of
        None \<Rightarrow> None
      | Some x \<Rightarrow>
          if doc_submitted_at x \<noteq> None then Some ''document_submitted''
          else if doc_status x \<in> set LOCKED_DOCUMENT_STATUSES then Some ''document_locked''
          else None)"

text \<open>
  \<open>check_agent_allowed\<close>.  A row of \<open>group_session_controls\<close> is read with \<open>.get\<close>, which a
  \<open>sqlite3.Row\<close> does not have.
\<close>

definition check_agent_allowed ::
    "datetime \<Rightarrow> int \<Rightarrow> gate_scope \<Rightarrow> string option \<Rightarrow> platform \<Rightarrow> string + (bool \<times> string)" where
  "check_agent_allowed now gid q0 agent_type d =
     (let q = resolved_scope q0 d; sid = gs_session_id q in
      case session_gate agent_type sid d of
        Some why \<Rightarrow> Inr (False, why)
      | None \<Rightarrow>
          (case fetch_group d gid of
             None \<Rightarrow> Inr (False, ''group_not_found'')
           | Some g \<Rightarrow>
               if g_state g = ''CLOSED'' then Inr (False, ''group_closed'')
               else if sid \<noteq> 0 \<and> (\<exists>c\<in>set (controls d). gc_group_id c = gid \<and> gc_session_id c = sid)
               then Inl ''AttributeError''
               else
                 (case document_gate gid q d of
                    Some why \<Rightarrow> Inr (False, why)
                  | None \<Rightarrow>
                      if discussion_closed_for now sid gid d then Inr (False, ''group_discussion_closed'')
                      else Inr (True, ''active''))))"

subsection \<open>The end of a session\<close>

definition ended_session :: "stamp \<Rightarrow> session_row \<Rightarrow> session_row" where
  "ended_session ts es = es\<lparr>es_status := Some ''ended'', es_end_time := Some ts, es_updated_at := Some ts\<rparr>"

definition end_session_row :: "stamp \<Rightarrow> int \<Rightarrow> platform \<Rightarrow> platform" where
  "end_session_row ts sid d =
     (let active = (case get_current_running_session_context d of None \<Rightarrow> False | Some es \<Rightarrow> es_id es = sid);
          d1 = d\<lparr>sessions := update_where (\<lambda>s. es_id s = sid) (ended_session ts) (sessions d)\<rparr>
      in if active then d1\<lparr>current_session_setting := None\<rparr> else d1)"

text \<open>
  \<open>close_session\<close>: \<open>Inl\<close> is the \<open>ValueError\<close> of an unknown session or of documents that could
  not be submitted, with what was submitted before it.
\<close>

definition close_session ::
    "submit_env \<Rightarrow> (stamp \<Rightarrow> string) \<Rightarrow> datetime \<Rightarrow> int \<Rightarrow> string \<Rightarrow> int \<Rightarrow> platform
       \<Rightarrow> (string + session_row) \<times> platform" where
  "close_session env render now sid reason operator d =
     (case fetch_session d sid of
        None \<Rightarrow> (Inl ''session_not_found'', d)
      | Some es \<Rightarrow>
          if es_status es \<in> {Some ''ended'', Some ''archived''} then (Inr es, d)
          else
            (let (tally, d1) = submit_session_documents env now sid operator d in
             case tally of
               None \<Rightarrow> (Inl ''COLLABORATIVE_DOCUMENT_SUBMISSION_FAILED'', d1)
             | Some y \<Rightarrow>
                 if ty_errors y \<noteq> 0 then (Inl ''COLLABORATIVE_DOCUMENT_SUBMISSION_FAILED'', d1)
                 else
                   (let d2 = end_session_row (fmt_sec now) sid d1;
                        (cancelled, d3) = cancel_active_runs_for_session_end now sid ''CANCELLED_SESSION_ENDED'' d2;
                        (closed, d4) = mark_session_observations_finalization_only render now sid
                          (if reason = [] then ''session_end'' else reason) d3
                    in (Inr (the (fetch_session d4 sid)), d4))))"

end
