(* ===== verification/Third_Stage.thy ===== *)
theory Third_Stage
  imports Stage2_Pipeline Room_Lease
begin

text \<open>
  \<open>services/three_stage_stage3.py\<close>: the third stage of a strategy run.  A run the second
  stage sent on is marked running, the model is asked for a strategy and a sentence (at most
  one repair), and the run either records both and waits for the decision gate or fails and
  gives its room back.  The answers of the model gateway are parameters; the prompt, and the
  order of the candidates in it, are not modelled.
\<close>

record publish_env =
  px_routes :: stage2_env
  px_llm_enabled :: bool                \<comment> \<open>\<open>SERA_LLM_ENABLED\<close>\<close>
  px_auto_intervention_enabled :: bool  \<comment> \<open>\<open>AUTO_INTERVENTION_V2_ENABLED\<close>\<close>
  px_cooldown_seconds :: int            \<comment> \<open>\<open>STRATEGY_COOLDOWN_SECONDS\<close>\<close>
  px_max_interventions :: int           \<comment> \<open>\<open>THREE_STAGE_MAX_STRATEGY_INTERVENTIONS_PER_SESSION\<close>\<close>
  px_db_lock_max_retries :: int         \<comment> \<open>\<open>THREE_STAGE_DB_LOCK_MAX_RETRIES\<close>\<close>

subsection \<open>Which runs, which strategies\<close>

definition eligible_for_stage3 :: "pipeline_row \<Rightarrow> bool" where
  "eligible_for_stage3 p \<longleftrightarrow>
     p_stage2_status p = Some ''SUCCEEDED'' \<and> or0 (p_should_intervene p) = 1
     \<and> \<not> truthy (p_inhibition_strategy_id p)
     \<and> \<not> (truthy (p_selected_strategy_id p) \<and> upper (text_of (p_stage3_status p)) = ''SUCCEEDED'')
     \<and> upper (text_of (p_stage3_status p)) \<in> {''PENDING'', ''FAILED'', ''RUNNING''}"

text \<open>\<open>_json_list\<close> of the decoded column: what is not a list counts as empty.\<close>

definition json_texts :: "json list \<Rightarrow> string list" where
  "json_texts xs = dedupe_ids (map (\<lambda>j. if jtruthy j then code_text j else []) xs)"

definition json_list :: "json \<Rightarrow> string list" where
  "json_list j = (case j of JList xs \<Rightarrow> json_texts xs | _ \<Rightarrow> [])"

text \<open>
  \<open>allowed_strategy_ids\<close> of \<open>build_stage3_context\<close>: the pool of the route, as far as the run
  recorded it as candidates and the library defines it as an intervention.  \<open>Inl\<close> is what the
  router raises.
\<close>

definition stage3_route :: "stage2_env \<Rightarrow> pipeline_row \<Rightarrow> string + route_payload" where
  "stage3_route env p = route_for_state_with_overlays (sx_library env)
     (Some (normalize_canonical_sub_state (p_canonical_sub_state_code p)))
     (Tag_List (map JStr (json_list (sf_secondary_tags (p_facts p)))))"

definition allowed_strategy_ids :: "stage2_env \<Rightarrow> pipeline_row \<Rightarrow> route_payload \<Rightarrow> string list" where
  "allowed_strategy_ids env p route =
     filter (\<lambda>i. i \<in> set (dedupe_ids (sf_strategy_candidate_ids (p_facts p)))
         \<and> i \<in> sx_library env \<and> i \<notin> set OI_STRATEGY_IDS)
       (pl_candidates route)"

subsection \<open>The answers of the model\<close>

text \<open>
  A call of the gateway raises or returns a result.  \<open>ga_embedded\<close> is the first JSON object
  the decoder finds in an output that is a text.
\<close>

record gateway_answer =
  ga_success :: bool
  ga_failure_type :: "string option"
  ga_status_code :: "int option"
  ga_finish_reason :: "string option"
  ga_output :: json
  ga_embedded :: "dict option"

datatype gateway_call = Call_Raised string | Call_Answered gateway_answer

definition coerce_stage3_object :: "gateway_answer \<Rightarrow> dict option" where
  "coerce_stage3_object a =
     (case ga_output a of JObj items \<Rightarrow> Some items
      | JStr s \<Rightarrow> if strip s = [] then None else ga_embedded a | _ \<Rightarrow> None)"

definition parse_stage3_output ::
    "(json \<Rightarrow> string) \<Rightarrow> string list \<Rightarrow> gateway_answer \<Rightarrow> string + (string \<times> string)" where
  "parse_stage3_output render allowed a =
     (case coerce_stage3_object a of
        None \<Rightarrow> Inl (if ga_finish_reason a = Some ''length'' then ''finish_reason_length'' else ''invalid_json'')
      | Some items \<Rightarrow>
          (let selected = strip (py_str render (jor (dget items ''selected_strategy_id'') (JStr [])))
           in if selected = [] then Inl ''missing_selected_strategy_id''
              else if selected \<notin> set allowed then Inl ''strategy_not_candidate''
              else (case dget items ''intervention_text'' of
                      JStr raw \<Rightarrow> if strip raw = [] then Inl ''missing_intervention_text''
                                  else Inr (selected, strip raw)
                    | _ \<Rightarrow> Inl ''missing_intervention_text'')))"

definition REPAIRABLE_VALIDATION_FAILURES :: "string list" where
  "REPAIRABLE_VALIDATION_FAILURES = [''invalid_json'', ''finish_reason_length'',
     ''missing_selected_strategy_id'', ''missing_intervention_text'', ''empty_text'', ''strategy_not_candidate'']"

definition is_repairable_gateway_failure :: "gateway_answer \<Rightarrow> bool" where
  "is_repairable_gateway_failure a \<longleftrightarrow>
     text_of (ga_failure_type a) \<in> {''invalid_response'', ''truncated_response''}
     \<and> (text_of (ga_failure_type a) = ''invalid_response'' \<longrightarrow> ga_status_code a \<in> {None, Some 200})"

definition is_repairable_validation_failure :: "string \<Rightarrow> bool" where
  "is_repairable_validation_failure reason \<longleftrightarrow>
     reason \<in> set REPAIRABLE_VALIDATION_FAILURES \<or> take 15 reason = ''missing_fields:''"

text \<open>One pass of the loop: what the call came to, and whether a repair may follow.\<close>

datatype call_verdict = Accepted string string | Rejected string bool | Crashed string

definition judge_call :: "(json \<Rightarrow> string) \<Rightarrow> string list \<Rightarrow> gateway_call \<Rightarrow> call_verdict" where
  "judge_call render allowed call =
     (case call of
        Call_Raised e \<Rightarrow> Crashed e
      | Call_Answered a \<Rightarrow>
          if \<not> ga_success a
          then Rejected (text_of (or_text (ga_failure_type a) (Some ''stage3_llm_failed'')))
                 (is_repairable_gateway_failure a)
          else (case parse_stage3_output render allowed a of
                  Inr (selected, text) \<Rightarrow> Accepted selected text
                | Inl reason \<Rightarrow> Rejected reason (is_repairable_validation_failure reason)))"

text \<open>\<open>first_text\<close>: the sentence of the first structured answer, accepted or not.\<close>

definition drafted_text :: "(json \<Rightarrow> string) \<Rightarrow> gateway_call \<Rightarrow> string option" where
  "drafted_text render call =
     (case call of
        Call_Answered a \<Rightarrow>
          (case (ga_success a, ga_output a) of
             (True, JObj items) \<Rightarrow>
               nonempty (strip (py_str render (jor (dget items ''intervention_text'') (JStr []))))
           | _ \<Rightarrow> None)
      | Call_Raised _ \<Rightarrow> None)"

text \<open>The two calls: \<open>Inl\<close> is the failure code and its detail.\<close>

record stage3_text =
  st_selected :: string
  st_generated :: string
  st_validated :: string

definition FAILED_VALIDATION :: string where
  "FAILED_VALIDATION = ''Stage3 strategy generation failed validation.''"

definition generate ::
    "(json \<Rightarrow> string) \<Rightarrow> string list \<Rightarrow> gateway_call \<Rightarrow> gateway_call \<Rightarrow> (string \<times> string) + stage3_text" where
  "generate render allowed first_call repair_call =
     (let written = (\<lambda>drafts selected text. \<lparr>st_selected = selected,
            st_generated = text_of (foldr coalesce drafts (Some text)), st_validated = text\<rparr>)
      in case judge_call render allowed first_call of
           Accepted selected text \<Rightarrow> Inr (written [drafted_text render first_call] selected text)
         | Crashed e \<Rightarrow> Inl (''stage3_worker_exception'', e)
         | Rejected reason repairable \<Rightarrow>
             if \<not> repairable then Inl (reason, FAILED_VALIDATION)
             else (case judge_call render allowed repair_call of
                     Accepted selected text \<Rightarrow>
                       Inr (written [drafted_text render first_call, drafted_text render repair_call] selected text)
                   | Crashed e \<Rightarrow> Inl (''stage3_worker_exception'', e)
                   | Rejected reason' _ \<Rightarrow> Inl (reason', FAILED_VALIDATION)))"

subsection \<open>The transactions\<close>

definition stage3_running :: "stamp \<Rightarrow> pipeline_row \<Rightarrow> pipeline_row" where
  "stage3_running ts p = p\<lparr>p_stage3_status := Some ''RUNNING'',
     p_stage3_started_at := coalesce (p_stage3_started_at p) (Some ts),
     p_final_status := Some ''GENERATING'', p_updated_at := Some ts\<rparr>"

definition mark_stage3_running :: "stamp \<Rightarrow> int \<Rightarrow> platform \<Rightarrow> platform" where
  "mark_stage3_running ts pid d =
     change_pipelines (\<lambda>p. p_id p = pid \<and> p_stage2_status p = Some ''SUCCEEDED'' \<and> p_should_intervene p = Some 1)
       (stage3_running ts) d"

text \<open>\<open>_release_pipeline_lock\<close> of the third stage.\<close>

definition release_stage3_lock :: "stamp \<Rightarrow> pipeline_row \<Rightarrow> platform \<Rightarrow> bool \<times> platform" where
  "release_stage3_lock ts row d =
     (if \<not> truthy (p_room_lock_token row) then (False, d)
      else
        (let hit = (\<lambda>g. g_id g = p_group_id row \<and> g_lock_token g = p_room_lock_token row
                     \<and> g_active_intervention_run_id g = Some (- p_id row));
             released = (rowcount hit (groups d) = 1);
             d1 = change_groups hit (\<lambda>g. g\<lparr>g_state := ''OPEN'', g_version := g_version g + 1,
                    g_lock_token := None, g_lock_expires_at := None,
                    g_active_intervention_run_id := None\<rparr>) d
         in (released,
             if released
             then log_event \<lparr>le_stage = ''lock'', le_event = ''room_lock_released'',
                 le_pipeline_run_id = Some (p_id row), le_assessment_batch_id = p_assessment_batch_id row,
                 le_lock_owner = None, le_lock_token = p_room_lock_token row,
                 le_reason = Some ''stage3_failed'', le_occurred_at = ts\<rparr>
               (change_pipelines (\<lambda>p. p_id p = p_id row) (lease_returned ts) d1)
             else d1)))"

definition stage3_failed :: "stamp \<Rightarrow> string \<Rightarrow> string \<Rightarrow> pipeline_row \<Rightarrow> pipeline_row" where
  "stage3_failed ts code detail p = p\<lparr>p_stage3_status := Some ''FAILED'',
     p_stage3_started_at := coalesce (p_stage3_started_at p) (Some ts),
     p_stage3_completed_at := Some ts, p_publish_status := Some ''NOT_READY'',
     p_final_status := Some ''FAILED'', p_skip_reason := Some ''STAGE3_FAILED'',
     p_failure_code := Some (if code = [] then ''stage3_failed'' else code),
     p_failure_detail := Some (take 500 detail), p_updated_at := Some ts\<rparr>"

text \<open>\<open>mark_failed\<close>; \<open>None\<close> is "pipeline not found", otherwise whether the room was given back.\<close>

definition mark_stage3_failed :: "datetime \<Rightarrow> int \<Rightarrow> string \<Rightarrow> string \<Rightarrow> platform \<Rightarrow> bool option \<times> platform" where
  "mark_stage3_failed now pid code detail d =
     (case fetch_pipeline d pid of
        None \<Rightarrow> (None, d)
      | Some row \<Rightarrow>
          (let (released, d1) = release_stage3_lock (fmt_ms now) row
                 (change_pipelines (\<lambda>p. p_id p = pid) (stage3_failed (fmt_ms now) code detail) d)
           in (Some released, d1)))"

definition generated_run ::
    "stage2_env \<Rightarrow> stamp \<Rightarrow> route_payload \<Rightarrow> stage3_text \<Rightarrow> pipeline_row \<Rightarrow> pipeline_row" where
  "generated_run env ts route text p = p\<lparr>p_stage3_status := Some ''SUCCEEDED'',
     p_stage3_started_at := coalesce (p_stage3_started_at p) (Some ts), p_stage3_completed_at := Some ts,
     p_selected_strategy_id := Some (st_selected text),
     p_generated_intervention_text := Some (st_generated text),
     p_validated_intervention_text := Some (st_validated text),
     p_publish_status := Some ''NOT_READY'', p_final_status := Some ''PENDING_DECISION_GATE'',
     p_skip_reason := None, p_failure_code := None, p_failure_detail := None,
     p_facts := (p_facts p)\<lparr>sf_sub_category := or_text (sf_sub_category (p_facts p)) (Some (pl_canonical route)),
       sf_strategy_pool := pl_candidates route,
       sf_strategy_source := or_text (sf_strategy_source (p_facts p)) (Some (strategy_source env))\<rparr>,
     p_updated_at := Some ts\<rparr>"

text \<open>\<open>_persist_success\<close>, under the checks of the table.\<close>

definition persist_stage3 ::
    "stage2_env \<Rightarrow> datetime \<Rightarrow> int \<Rightarrow> route_payload \<Rightarrow> stage3_text \<Rightarrow> platform \<Rightarrow> string + platform" where
  "persist_stage3 env now pid route text d =
     andthen (checked_update pid (generated_run env (fmt_ms now) route text) d) (\<lambda>d1.
       Inr (d1\<lparr>segments := update_where
          (\<lambda>s. sg_strategy_pipeline_run_id s = Some pid \<and> sg_is_active_at_batch_end s = 1)
          (\<lambda>s. s\<lparr>sg_selected_strategy_id := Some (st_selected text), sg_updated_at := fmt_ms now\<rparr>)
          (segments d1)\<rparr>))"

subsection \<open>The stage\<close>

text \<open>
  \<open>_lease_heartbeat_failure\<close>: the heartbeat that ran while the model was asked is stopped;
  \<open>lost\<close> is the reason its last renewal was refused, and it beats once more otherwise.
\<close>

definition lease_heartbeat_failure ::
    "lease_config \<Rightarrow> datetime \<Rightarrow> int \<Rightarrow> string option \<Rightarrow> string option \<Rightarrow> platform \<Rightarrow> string option \<times> platform" where
  "lease_heartbeat_failure cfg now pid token lost d =
     (if \<not> truthy token then (None, d)
      else case lost of
             Some reason \<Rightarrow> (Some (if reason = [] then ''room_lease_heartbeat_failed'' else reason), d)
           | None \<Rightarrow>
               (let (r, d1) = renew_strategy_pipeline cfg now pid (text_of token) None None d
                in (if lr_renewed r then None
                    else Some (if lr_reason r = [] then ''room_lease_heartbeat_failed'' else lr_reason r), d1)))"

datatype stage3_result = Stage3_Not_Run string | Stage3_Failed string "bool option" | Stage3_Succeeded string

definition LEASE_LOST_DETAIL :: string where
  "LEASE_LOST_DETAIL = ''Stage 3 completed after its room lease could no longer be renewed safely.''"

definition fail_stage3 :: "datetime \<Rightarrow> int \<Rightarrow> string \<Rightarrow> string \<Rightarrow> platform \<Rightarrow> stage3_result \<times> platform" where
  "fail_stage3 now pid code detail d =
     map_prod (Stage3_Failed code) id (mark_stage3_failed now pid code detail d)"

text \<open>What the model had to say about the allowed strategies, recorded under the lease.\<close>

definition record_stage3 ::
    "lease_config \<Rightarrow> stage2_env \<Rightarrow> datetime \<Rightarrow> string option \<Rightarrow> pipeline_row \<Rightarrow> route_payload
       \<Rightarrow> (string \<times> string) + stage3_text \<Rightarrow> platform \<Rightarrow> (string + stage3_result) \<times> platform" where
  "record_stage3 cfg env now lost p route answer d =
     (case answer of
        Inl (code, detail) \<Rightarrow> map_prod Inr id (fail_stage3 now (p_id p) code detail d)
      | Inr text \<Rightarrow>
          (case lease_heartbeat_failure cfg now (p_id p) (p_room_lock_token p) lost d of
             (Some reason, d1) \<Rightarrow> map_prod Inr id (fail_stage3 now (p_id p) reason LEASE_LOST_DETAIL d1)
           | (None, d1) \<Rightarrow>
               (case persist_stage3 env now (p_id p) route text d1 of
                  Inl e \<Rightarrow> (Inl e, d1)
                | Inr d2 \<Rightarrow> (Inr (Stage3_Succeeded (st_selected text)), d2))))"

text \<open>
  \<open>execute_for_pipeline\<close>.  The context, with the route and the allowed strategies, is read
  before the model is asked.
\<close>

definition execute_for_pipeline ::
    "lease_config \<Rightarrow> publish_env \<Rightarrow> (json \<Rightarrow> string) \<Rightarrow> datetime \<Rightarrow> string option \<Rightarrow> gateway_call \<Rightarrow> gateway_call
       \<Rightarrow> int \<Rightarrow> platform \<Rightarrow> (string + stage3_result) \<times> platform" where
  "execute_for_pipeline cfg env render now lost first_call repair_call pid d =
     (case fetch_pipeline d pid of
        None \<Rightarrow> (Inr (Stage3_Not_Run ''pipeline_not_found''), d)
      | Some p \<Rightarrow>
          if \<not> eligible_for_stage3 p then (Inr (Stage3_Not_Run ''not_stage3_eligible''), d)
          else if \<not> px_llm_enabled env then (Inr (Stage3_Not_Run ''stage3_llm_disabled''), d)
          else
            (let d1 = mark_stage3_running (fmt_ms now) pid d
             in case stage3_route (px_routes env) p of
                  Inl e \<Rightarrow> map_prod Inr id (fail_stage3 now pid ''stage3_context_exception'' e d1)
                | Inr route \<Rightarrow>
                    (let allowed = allowed_strategy_ids (px_routes env) p route
                     in if allowed = []
                        then map_prod Inr id (fail_stage3 now pid ''missing_candidate_strategy_ids''
                               ''Stage3 requires at least one intervention candidate strategy.'' d1)
                        else record_stage3 cfg (px_routes env) now lost p route
                               (generate render allowed first_call repair_call) d1)))"

end
