(* ===== verification/Decision_Gate.thy ===== *)
theory Decision_Gate
  imports Session_Lifecycle Third_Stage
begin

text \<open>
  The decision gate of \<open>services/three_stage_publish.py\<close>: the checks a run has to pass before
  its sentence is spoken (\<open>evaluate\<close>), and the cheaper ones before the third stage is started
  (\<open>evaluate_preflight\<close>).  A check returns what blocks the run, if anything; \<open>Inl\<close> is an
  exception of the code it calls.
\<close>

subsection \<open>Reasons\<close>

text \<open>\<open>needle in text\<close>.\<close>

fun contains :: "string \<Rightarrow> string \<Rightarrow> bool" where
  "contains needle [] \<longleftrightarrow> needle = []"
| "contains needle (c # cs) \<longleftrightarrow> take (length needle) (c # cs) = needle \<or> contains needle cs"

definition contains_any :: "string list \<Rightarrow> string \<Rightarrow> bool" where
  "contains_any needles text \<longleftrightarrow> (\<exists>n\<in>set needles. contains n text)"

definition normalize_publish_runtime_reason :: "string option \<Rightarrow> string option" where
  "normalize_publish_runtime_reason reason =
     (let text = lower (strip (text_of reason)) in
      if text = [] \<or> text = ''allowed'' \<or> text = ''none'' then None
      else if contains ''already_published'' text \<or> text = ''published'' then Some ''already_published''
      else if contains_any [''stale'', ''new_student'', ''student_sequence''] text
      then Some ''stale_new_student_message''
      else if contains_any [''lease'', ''lock'', ''room_lease'', ''room_locked''] text then Some ''invalid_room_lease''
      else if contains ''session'' text
          \<and> contains_any [''closed'', ''ended'', ''not_running'', ''not_active'', ''disabled''] text
      then Some ''session_closed''
      else if contains ''discussion'' text \<and> contains_any [''closed'', ''ended'', ''not_running''] text
      then Some ''discussion_closed''
      else if (contains ''agent'' text \<or> contains ''intervention'' text \<or> text = ''auto_intervention_disabled'')
          \<and> contains ''disabled'' text
      then Some ''agent_disabled''
      else if contains ''help'' text then Some ''help_already_covered''
      else if contains_any [''cooldown'', ''spacing'', ''emotion_slot'', ''no_student_feedback'', ''intervention_cap'',
          ''overlapping_evidence''] text
      then Some ''cooldown_active''
      else Some ''runtime_gate_blocked'')"

definition default_final_status :: "string \<Rightarrow> string" where
  "default_final_status reason =
     (let text = upper reason in
      if contains_any [''SUPERSEDED'', ''HIGHER_PRIORITY''] text then ''SUPERSEDED''
      else if contains_any [''STALE'', ''NEW_STUDENT_MESSAGE''] text then ''STALE''
      else if contains_any [''VALIDATION'', ''FAILED'', ''LOCK''] text then ''FAILED''
      else ''SUPPRESSED'')"

definition PREFLIGHT_COOLDOWN_REASONS :: "string list" where
  "PREFLIGHT_COOLDOWN_REASONS = [''strategy_cooldown'', ''no_student_feedback_after_last_intervention'',
     ''strategy_intervention_cap_reached'']"

definition preflight_terminal_reason :: "string \<Rightarrow> string" where
  "preflight_terminal_reason reason =
     (let raw = strip (if reason = [] then ''preflight_blocked'' else reason);
          category = normalize_publish_runtime_reason (Some raw)
      in if raw \<in> set PREFLIGHT_COOLDOWN_REASONS then ''SUPPRESSED_COOLDOWN''
         else if category = Some ''cooldown_active'' then ''SUPPRESSED_COOLDOWN''
         else if category = Some ''session_closed'' then ''SUPPRESSED_SESSION_CLOSED''
         else if category = Some ''discussion_closed'' then ''SUPPRESSED_DISCUSSION_CLOSED''
         else if category = Some ''agent_disabled'' then ''SUPPRESSED_AGENT_DISABLED''
         else if category = Some ''already_published'' then ''ALREADY_PUBLISHED''
         else raw)"

subsection \<open>Outcomes\<close>

text \<open>\<open>_blocked\<close>: the reason, the status the run ends with, and what two checks add.\<close>

record block =
  bl_reason :: string
  bl_terminal_status :: "string option"
  bl_latest_student_sequence :: "int option"
  bl_superseding_run_id :: "int option"

definition blocked :: "string \<Rightarrow> string \<Rightarrow> block" where
  "blocked reason terminal = \<lparr>bl_reason = reason, bl_terminal_status = Some terminal,
     bl_latest_student_sequence = None, bl_superseding_run_id = None\<rparr>"

datatype gate_result = Allowed | Duplicate int | Blocked block

text \<open>The checks in their order: the first that blocks decides, a later one is not run.\<close>

fun first_block :: "(unit \<Rightarrow> string + block option) list \<Rightarrow> string + block option" where
  "first_block [] = Inr None"
| "first_block (check # checks) =
     (case check () of Inr None \<Rightarrow> first_block checks | r \<Rightarrow> r)"

subsection \<open>The row itself\<close>

definition oi_or_inhibited :: "pipeline_row \<Rightarrow> bool" where
  "oi_or_inhibited p \<longleftrightarrow> truthy (p_inhibition_strategy_id p)
     \<or> take 3 (text_of (p_selected_strategy_id p)) = ''OI-''"

definition freshly_self_regulated :: "pipeline_row \<Rightarrow> bool" where
  "freshly_self_regulated p \<longleftrightarrow> or0 (sf_fresh_detected_self_regulation (p_facts p)) = 1"

definition suppressed_by_stage2 :: "pipeline_row \<Rightarrow> bool" where
  "suppressed_by_stage2 p \<longleftrightarrow> upper (text_of (sf_suppression_type (p_facts p))) \<in> {''OI'', ''SELF_REGULATION''}"

definition structural_check :: "pipeline_row \<Rightarrow> block option" where
  "structural_check p =
     (if p_stage2_status p \<noteq> Some ''SUCCEEDED'' then Some (blocked ''stage2_not_succeeded'' ''FAILED'')
      else if p_stage3_status p \<noteq> Some ''SUCCEEDED'' then Some (blocked ''stage3_not_succeeded'' ''FAILED'')
      else if freshly_self_regulated p then Some (blocked ''SELF_REGULATION_SUPPRESSED'' ''SUPPRESSED'')
      else if suppressed_by_stage2 p
      then Some (blocked (text_of (or_text (sf_suppression_decision_reason (p_facts p))
             (Some ''strong_suppression_gate''))) ''SUPPRESSED'')
      else if or0 (p_should_intervene p) \<noteq> 1 then Some (blocked ''should_intervene_false'' ''SUPPRESSED'')
      else if oi_or_inhibited p then Some (blocked ''oi_or_inhibited_strategy'' ''SUPPRESSED'')
      else if \<not> truthy (p_selected_strategy_id p) then Some (blocked ''missing_selected_strategy_id'' ''FAILED'')
      else if \<not> truthy (p_validated_intervention_text p) then Some (blocked ''missing_validated_text'' ''FAILED'')
      else if p_final_status p \<notin> {Some ''PENDING_DECISION_GATE'', Some ''READY_TO_PUBLISH'', Some ''VALIDATING''}
      then Some (blocked ''pipeline_not_ready_to_publish'' ''FAILED'')
      else None)"

text \<open>\<open>_json_string_list\<close> iterates over whatever the column decodes to.\<close>

definition json_string_list :: "json \<Rightarrow> string + string list" where
  "json_string_list j = map_sum id json_texts (iterated j)"

record route_binding =
  bi_route :: route_payload
  bi_selected_id :: string
  bi_persisted :: "string list"
  bi_effective :: "string list"

definition route_binding_details :: "stage2_env \<Rightarrow> pipeline_row \<Rightarrow> string + route_binding" where
  "route_binding_details env p =
     andthen (json_string_list (sf_secondary_tags (p_facts p))) (\<lambda>tags.
     andthen (route_for_state_with_overlays (sx_library env)
         (Some (normalize_canonical_sub_state (p_canonical_sub_state_code p))) (Tag_List (map JStr tags))) (\<lambda>route.
       (let persisted = dedupe_ids (sf_strategy_candidate_ids (p_facts p))
        in Inr \<lparr>bi_route = route, bi_selected_id = strip (text_of (p_selected_strategy_id p)),
             bi_persisted = persisted, bi_effective = filter (\<lambda>i. i \<in> set (pl_candidates route)) persisted\<rparr>)))"

definition publishable_route :: "route_payload \<Rightarrow> bool" where
  "publishable_route r \<longleftrightarrow> pl_should_intervene r \<or> terminal_decision r = ''OPTIONAL_SUPPORT''"

definition route_binding_check :: "stage2_env \<Rightarrow> pipeline_row \<Rightarrow> string + block option" where
  "route_binding_check env p =
     map_sum id (\<lambda>bi.
       let pool = pl_candidates (bi_route bi) in
       if pool = [] then Some (blocked ''state_route_has_no_strategy_pool'' ''FAILED'')
       else if \<not> publishable_route (bi_route bi) then Some (blocked ''state_route_not_publishable'' ''SUPPRESSED'')
       else if bi_persisted bi = [] then Some (blocked ''missing_strategy_candidate_pool'' ''FAILED'')
       else if bi_effective bi = [] then Some (blocked ''strategy_candidate_pool_not_in_route'' ''FAILED'')
       else if bi_selected_id bi \<notin> set pool then Some (blocked ''selected_strategy_not_in_route_pool'' ''FAILED'')
       else if bi_selected_id bi \<notin> set (bi_effective bi)
       then Some (blocked ''selected_strategy_not_in_candidate_pool'' ''FAILED'')
       else None) (route_binding_details env p)"

definition preflight_route_binding_check :: "stage2_env \<Rightarrow> pipeline_row \<Rightarrow> string + block option" where
  "preflight_route_binding_check env p =
     map_sum id (\<lambda>bi.
       if pl_candidates (bi_route bi) = [] then Some (blocked ''state_route_has_no_strategy_pool'' ''FAILED'')
       else if \<not> pl_should_intervene (bi_route bi) then Some (blocked ''state_route_not_publishable'' ''SUPPRESSED'')
       else if bi_persisted bi = [] then Some (blocked ''missing_strategy_candidate_pool'' ''FAILED'')
       else if bi_effective bi = [] then Some (blocked ''strategy_candidate_pool_not_in_route'' ''FAILED'')
       else None) (route_binding_details env p)"

subsection \<open>Switches\<close>

text \<open>
  \<open>get_session_agent_config(group_id=...)\<close>: the session of the group's latest message, or the
  session of the setting while it runs.  Of messages of the same second the one written last
  is taken; the query leaves that open.
\<close>

definition get_active_experiment_session :: "platform \<Rightarrow> session_row option" where
  "get_active_experiment_session d =
     (case Option.bind (current_session_setting d) (\<lambda>i. if i = 0 then None else fetch_session d i) of
        Some es \<Rightarrow> if es_status es = Some ''running'' then Some es else None
      | None \<Rightarrow> None)"

definition session_of_message :: "platform \<Rightarrow> message_row \<Rightarrow> session_row option" where
  "session_of_message d m = Option.bind (m_session_id m) (fetch_session d)"

definition session_for_group :: "int \<Rightarrow> platform \<Rightarrow> session_row option" where
  "session_for_group gid d =
     (if gid = 0 then None
      else
        (case Option.bind (max_by m_created_at
                (filter (\<lambda>m. m_group_id m = gid \<and> session_of_message d m \<noteq> None) (messages d))) (session_of_message d) of
           Some es \<Rightarrow> Some es
         | None \<Rightarrow> get_active_experiment_session d))"

definition check_strategy_agent_enabled :: "int \<Rightarrow> platform \<Rightarrow> bool" where
  "check_strategy_agent_enabled gid d =
     (ac_agent_mode (agent_config_from_session (session_for_group gid d)) = Some ''strategy'')"

definition get_agent_intervention_enabled_for_task :: "int \<Rightarrow> platform \<Rightarrow> bool" where
  "get_agent_intervention_enabled_for_task tid d =
     (case fetch_by t_id tid (tasks d) of None \<Rightarrow> True | Some t \<Rightarrow> or0 (t_agent_intervention_enabled t) \<noteq> 0)"

definition agent_config_check :: "publish_env \<Rightarrow> datetime \<Rightarrow> pipeline_row \<Rightarrow> platform \<Rightarrow> string + block option" where
  "agent_config_check env now p d =
     (let gid = p_group_id p in
      if \<not> px_auto_intervention_enabled env then Inr (Some (blocked ''auto_intervention_disabled'' ''SUPPRESSED''))
      else if (case fetch_group d gid of None \<Rightarrow> True
               | Some g \<Rightarrow> g_auto_intervention_enabled g = Some 0)
      then Inr (Some (blocked ''group_auto_intervention_disabled'' ''SUPPRESSED''))
      else if \<not> check_strategy_agent_enabled gid d
      then Inr (Some (blocked ''strategy_agent_disabled'' ''SUPPRESSED''))
      else
        (case check_agent_allowed now gid \<lparr>gs_session_id = or0 (p_session_id p), gs_task_id = or0 (p_task_id p),
                gs_session_no = p_session_no p\<rparr> (Some ''strategy'') d of
           Inl e \<Rightarrow> Inl e
         | Inr (False, reason) \<Rightarrow> Inr (Some (blocked reason ''SUPPRESSED''))
         | Inr (True, _) \<Rightarrow>
             Inr (if or0 (p_task_id p) \<noteq> 0 \<and> \<not> get_agent_intervention_enabled_for_task (or0 (p_task_id p)) d
                  then Some (blocked ''task_agent_intervention_disabled'' ''SUPPRESSED'') else None)))"

subsection \<open>Room, messages and other runs\<close>

definition lock_check :: "datetime \<Rightarrow> pipeline_row \<Rightarrow> platform \<Rightarrow> block option" where
  "lock_check now p d =
     (if \<not> truthy (p_room_lock_token p) then Some (blocked ''missing_room_lock'' ''FAILED'')
      else
        (case fetch_group d (p_group_id p) of
           None \<Rightarrow> Some (blocked ''group_not_found'' ''FAILED'')
         | Some g \<Rightarrow>
             if g_state g \<noteq> ''AI_INTERVENING'' then Some (blocked ''room_not_locked'' ''FAILED'')
             else if g_lock_token g \<noteq> p_room_lock_token p then Some (blocked ''lock_token_mismatch'' ''FAILED'')
             else if g_active_intervention_run_id g \<noteq> Some (- p_id p)
             then Some (blocked ''lock_owner_mismatch'' ''FAILED'')
             else if (case g_lock_expires_at g of None \<Rightarrow> False | Some e \<Rightarrow> stamp_dt e \<le> now)
             then Some (blocked ''lock_expired'' ''FAILED'')
             else None))"

definition message_in_scope :: "int \<Rightarrow> int option \<Rightarrow> int option \<Rightarrow> message_row \<Rightarrow> bool" where
  "message_in_scope gid session discussion m \<longleftrightarrow>
     m_group_id m = gid \<and> or0 (m_session_id m) = or0 session \<and> or0 (m_discussion_id m) = or0 discussion"

definition latest_student_in_scope :: "int \<Rightarrow> int option \<Rightarrow> int option \<Rightarrow> platform \<Rightarrow> int option" where
  "latest_student_in_scope gid session discussion d =
     map_option (\<lambda>m. or0 (m_sequence m))
       (max_by (\<lambda>m. or0 (m_sequence m))
         (filter (\<lambda>m. message_in_scope gid session discussion m \<and> message_author d m = Some ''student''
             \<and> m_sequence m \<noteq> None) (messages d)))"

definition latest_student_of :: "pipeline_row \<Rightarrow> platform \<Rightarrow> int option" where
  "latest_student_of p d = latest_student_in_scope (p_group_id p) (p_session_id p) (p_discussion_id p) d"

definition cutoff_of :: "pipeline_row \<Rightarrow> int" where
  "cutoff_of p = or0 (p_input_cutoff_student_sequence p)"

definition staleness_check :: "pipeline_row \<Rightarrow> platform \<Rightarrow> block option" where
  "staleness_check p d =
     (case latest_student_of p d of
        None \<Rightarrow> None
      | Some q \<Rightarrow>
          if q > cutoff_of p
          then Some ((blocked ''STALE_NEW_STUDENT_MESSAGE'' ''STALE'')\<lparr>bl_latest_student_sequence := Some q\<rparr>)
          else None)"

definition help_request_check :: "pipeline_row \<Rightarrow> platform \<Rightarrow> block option" where
  "help_request_check p d =
     (if text_of (p_trigger_source p) \<in> {''student_help'', ''student_help_request'', ''help_request''} then None
      else if \<exists>h\<in>set (help_requests d). hr_group_id h = p_group_id p
             \<and> or0 (hr_session_id h) = or0 (p_session_id p) \<and> or0 (hr_discussion_id h) = or0 (p_discussion_id p)
             \<and> hr_status h \<in> {Some ''QUEUED'', Some ''RUNNING''}
      then Some (blocked ''pending_help_request'' ''SUPPRESSED'')
      else None)"

definition TERMINAL_RUN_STATUSES :: "string list" where
  "TERMINAL_RUN_STATUSES = [''PUBLISHED'', ''SUPPRESSED'', ''STALE'', ''FAILED'', ''CANCELLED'', ''SUPERSEDED'']"

definition newer_active_runs :: "pipeline_row \<Rightarrow> platform \<Rightarrow> pipeline_row list" where
  "newer_active_runs p d =
     take 8 (sort_key (\<lambda>q. (- cutoff_of q, - p_id q))
       (filter (\<lambda>q. in_scope (p_group_id p) (p_session_id p) (p_discussion_id p) q \<and> p_id q \<noteq> p_id p
           \<and> cutoff_of q > cutoff_of p \<and> text_of (p_final_status q) \<notin> set TERMINAL_RUN_STATUSES)
         (pipelines d)))"

definition higher_priority_new_run_check :: "pipeline_row \<Rightarrow> platform \<Rightarrow> block option" where
  "higher_priority_new_run_check p d =
     (case sort_key (\<lambda>q. (priority_for_pipeline_row q, - cutoff_of q, - p_id q))
             (filter (\<lambda>q. priority_for_pipeline_row q < priority_for_pipeline_row p) (newer_active_runs p d)) of
        [] \<Rightarrow> None
      | q # _ \<Rightarrow> Some ((blocked ''higher_priority_newer_run'' ''SUPERSEDED'')\<lparr>bl_superseding_run_id := Some (p_id q)\<rparr>))"

text \<open>
  The evidence of a run holds message sequences, whatever the column is called.  The two
  evidence columns of a segment are written with the same list.
\<close>

definition evidence_of :: "pipeline_row \<Rightarrow> int list" where
  "evidence_of p = dedupe [] (sf_evidence_message_ids (p_facts p))"

definition bound_student_rows :: "pipeline_row \<Rightarrow> platform \<Rightarrow> message_row list" where
  "bound_student_rows p d =
     filter (\<lambda>m. message_in_scope (p_group_id p) (p_session_id p) (p_discussion_id p) m
         \<and> m_sequence m \<in> Some ` set (evidence_of p) \<and> message_author d m = Some ''student'') (messages d)"

definition active_segment_of :: "pipeline_row \<Rightarrow> platform \<Rightarrow> segment_row option" where
  "active_segment_of p d =
     max_by sg_id (filter (\<lambda>s. sg_strategy_pipeline_run_id s = Some (p_id p) \<and> sg_is_active_at_batch_end s = 1)
       (segments d))"

definition evidence_binding_check :: "pipeline_row \<Rightarrow> platform \<Rightarrow> block option" where
  "evidence_binding_check p d =
     (let evidence = evidence_of p in
      if evidence = [] then Some (blocked ''missing_evidence'' ''FAILED'')
      else if (case (p_input_start_sequence p, coalesce (p_input_end_sequence p) (p_input_cutoff_student_sequence p)) of
               (Some a, Some e) \<Rightarrow> \<exists>q\<in>set evidence. q < a \<or> q > e | _ \<Rightarrow> False)
      then Some (blocked ''evidence_outside_pipeline_window'' ''FAILED'')
      else if \<exists>q\<in>set evidence. Some q \<notin> m_sequence ` set (bound_student_rows p d)
      then Some (blocked ''evidence_not_bound_to_student_messages'' ''FAILED'')
      else if (case active_segment_of p d of
                 None \<Rightarrow> False
               | Some s \<Rightarrow> sg_evidence_sequences s \<noteq> [] \<and> set (sg_evidence_sequences s) \<noteq> set evidence)
      then Some (blocked ''evidence_segment_mismatch'' ''FAILED'')
      else None)"

text \<open>The last published run of the discussion, other than this one.\<close>

definition published_in_scope :: "pipeline_row \<Rightarrow> pipeline_row \<Rightarrow> bool" where
  "published_in_scope p q \<longleftrightarrow> in_scope (p_group_id p) (p_session_id p) (p_discussion_id p) q
     \<and> p_id q \<noteq> p_id p \<and> p_publish_status q = Some ''PUBLISHED''"

definition latest_strategy_publish :: "pipeline_row \<Rightarrow> platform \<Rightarrow> pipeline_row option" where
  "latest_strategy_publish p d =
     max_by (\<lambda>q. (coalesce (p_published_at q) (coalesce (p_updated_at q) (p_created_at q)), p_id q))
       (filter (published_in_scope p) (pipelines d))"

definition within_cooldown :: "publish_env \<Rightarrow> datetime \<Rightarrow> stamp option \<Rightarrow> bool" where
  "within_cooldown env now published =
     (case published of None \<Rightarrow> False
      | Some t \<Rightarrow> max 0 (now - stamp_dt t) < seconds (px_cooldown_seconds env))"

definition published_count :: "pipeline_row \<Rightarrow> platform \<Rightarrow> int" where
  "published_count p d =
     int (length (filter (\<lambda>q. p_group_id q = p_group_id p \<and> or0 (p_session_id q) = or0 (p_session_id p)
         \<and> p_publish_status q = Some ''PUBLISHED'') (pipelines d)))"

definition cooldown_check :: "publish_env \<Rightarrow> datetime \<Rightarrow> pipeline_row \<Rightarrow> platform \<Rightarrow> block option" where
  "cooldown_check env now p d =
     (let last = latest_strategy_publish p d;
          spoken = Option.bind last (\<lambda>q. if or0 (p_published_message_id q) = 0 then None
             else Option.bind (fetch_by m_id (or0 (p_published_message_id q)) (messages d)) m_sequence)
      in if (case last of None \<Rightarrow> False | Some q \<Rightarrow> within_cooldown env now (p_published_at q))
         then Some (blocked ''strategy_cooldown'' ''SUPPRESSED'')
         else if (case spoken of None \<Rightarrow> False | Some k \<Rightarrow> cutoff_of p \<le> k)
         then Some (blocked ''no_student_feedback_after_last_intervention'' ''SUPPRESSED'')
         else if published_count p d \<ge> px_max_interventions env
         then Some (blocked ''strategy_intervention_cap_reached'' ''SUPPRESSED'')
         else None)"

text \<open>At least half of the smaller of the two sets; the quotient is compared with 0.5.\<close>

definition overlapping :: "int set \<Rightarrow> int set \<Rightarrow> bool" where
  "overlapping a b \<longleftrightarrow> b \<noteq> {} \<and> min (card a) (card b) \<le> 2 * card (a \<inter> b)"

definition recently_published :: "pipeline_row \<Rightarrow> platform \<Rightarrow> pipeline_row list" where
  "recently_published p d = take 8 (sort_key (\<lambda>q. - p_id q) (filter (published_in_scope p) (pipelines d)))"

definition evidence_overlap_check :: "pipeline_row \<Rightarrow> platform \<Rightarrow> block option" where
  "evidence_overlap_check p d =
     (if evidence_of p = [] then Some (blocked ''missing_evidence'' ''FAILED'')
      else if \<exists>q\<in>set (recently_published p d). overlapping (set (evidence_of p)) (set (evidence_of q))
      then Some (blocked ''overlapping_evidence_already_published'' ''SUPPRESSED'')
      else None)"

subsection \<open>The two gates\<close>

definition already_published :: "pipeline_row \<Rightarrow> int option" where
  "already_published p =
     (if p_publish_status p = Some ''PUBLISHED'' \<and> or0 (p_published_message_id p) \<noteq> 0
      then p_published_message_id p else None)"

definition gate_verdict :: "string + block option \<Rightarrow> string + gate_result" where
  "gate_verdict r = map_sum id (\<lambda>b. case b of None \<Rightarrow> Allowed | Some b \<Rightarrow> Blocked b) r"

definition publish_checks :: "publish_env \<Rightarrow> datetime \<Rightarrow> pipeline_row \<Rightarrow> platform \<Rightarrow> (unit \<Rightarrow> string + block option) list" where
  "publish_checks env now p d =
     [\<lambda>_. Inr (structural_check p),
      \<lambda>_. route_binding_check (px_routes env) p,
      \<lambda>_. agent_config_check env now p d,
      \<lambda>_. Inr (lock_check now p d),
      \<lambda>_. Inr (staleness_check p d),
      \<lambda>_. Inr (help_request_check p d),
      \<lambda>_. Inr (higher_priority_new_run_check p d),
      \<lambda>_. Inr (evidence_binding_check p d),
      \<lambda>_. Inr (cooldown_check env now p d),
      \<lambda>_. Inr (evidence_overlap_check p d)]"

definition evaluate :: "publish_env \<Rightarrow> datetime \<Rightarrow> int \<Rightarrow> platform \<Rightarrow> string + gate_result" where
  "evaluate env now pid d =
     (case fetch_pipeline d pid of
        None \<Rightarrow> Inr (Blocked \<lparr>bl_reason = ''pipeline_not_found'', bl_terminal_status = None,
                  bl_latest_student_sequence = None, bl_superseding_run_id = None\<rparr>)
      | Some p \<Rightarrow>
          (case already_published p of
             Some mid \<Rightarrow> Inr (Duplicate mid)
           | None \<Rightarrow> gate_verdict (first_block (publish_checks env now p d))))"

definition preflight_row_check :: "pipeline_row \<Rightarrow> block option" where
  "preflight_row_check p =
     (if upper (text_of (p_stage2_status p)) \<noteq> ''SUCCEEDED'' then Some (blocked ''stage2_not_succeeded'' ''FAILED'')
      else if or0 (p_should_intervene p) \<noteq> 1 then Some (blocked ''should_intervene_false'' ''SUPPRESSED'')
      else if freshly_self_regulated p \<or> suppressed_by_stage2 p \<or> oi_or_inhibited p
      then Some (blocked ''oi_or_inhibited_strategy'' ''SUPPRESSED'')
      else None)"

definition preflight_checks :: "publish_env \<Rightarrow> datetime \<Rightarrow> pipeline_row \<Rightarrow> platform \<Rightarrow> (unit \<Rightarrow> string + block option) list" where
  "preflight_checks env now p d =
     [\<lambda>_. Inr (preflight_row_check p),
      \<lambda>_. preflight_route_binding_check (px_routes env) p,
      \<lambda>_. agent_config_check env now p d,
      \<lambda>_. Inr (cooldown_check env now p d)]"

definition evaluate_preflight :: "publish_env \<Rightarrow> datetime \<Rightarrow> int \<Rightarrow> platform \<Rightarrow> string + gate_result" where
  "evaluate_preflight env now pid d =
     (case fetch_pipeline d pid of
        None \<Rightarrow> Inr (Blocked (blocked ''pipeline_not_found'' ''FAILED''))
      | Some p \<Rightarrow>
          (case already_published p of
             Some mid \<Rightarrow> Inr (Duplicate mid)
           | None \<Rightarrow> gate_verdict (first_block (preflight_checks env now p d))))"

end
