(* ===== verification/Agent_Publication.thy ===== *)
theory Agent_Publication
  imports Decision_Gate
begin

text \<open>
  Speaking in a room: \<open>services/discussion_scope.py\<close> (which session and discussion a message
  belongs to), \<open>begin_discussion_observation\<close> of \<open>db.py\<close>, and
  \<open>services/agent_intervention_publisher.py\<close> as the strategy pipeline calls it, with an
  intervention run, no help request, no target segment and no teacher.
\<close>

subsection \<open>Scope\<close>

record discussion_scope =
  ds_session_id :: "int option"
  ds_session_no :: "int option"
  ds_task_id :: "int option"
  ds_discussion_id :: "int option"
  ds_resolved_from :: string
  ds_legacy :: bool

text \<open>\<open>a or b\<close> of two nullable integers.\<close>

definition or_int_opt :: "int option \<Rightarrow> int option \<Rightarrow> int option" where
  "or_int_opt a b = (if or0 a = 0 then b else a)"

definition is_complete :: "discussion_scope \<Rightarrow> bool" where
  "is_complete s \<longleftrightarrow> ds_session_id s \<noteq> None \<and> ds_session_no s \<noteq> None \<and> ds_task_id s \<noteq> None
     \<and> ds_discussion_id s \<noteq> None"

text \<open>\<open>CASE status WHEN 'running' THEN 0 WHEN 'waiting' THEN 1 ELSE 2 END\<close>, then the latest id.\<close>

definition runtime_order :: "discussion_row \<Rightarrow> int \<times> int" where
  "runtime_order x = (if d_status x = ''running'' then 0 else if d_status x = ''waiting'' then 1 else 2, - d_id x)"

definition best_runtime :: "(discussion_row \<Rightarrow> bool) \<Rightarrow> platform \<Rightarrow> discussion_row option" where
  "best_runtime P d = (case sort_key runtime_order (filter P (discussions d)) of [] \<Rightarrow> None | x # _ \<Rightarrow> Some x)"

definition session_scope_of :: "string \<Rightarrow> session_row \<Rightarrow> int option \<Rightarrow> discussion_scope" where
  "session_scope_of from es discussion = \<lparr>ds_session_id = Some (es_id es), ds_session_no = es_session_no es,
     ds_task_id = es_task_id es, ds_discussion_id = discussion, ds_resolved_from = from, ds_legacy = False\<rparr>"

text \<open>The message of the room with that id, or with that sequence.\<close>

definition scope_of_message :: "int \<Rightarrow> int option \<Rightarrow> int option \<Rightarrow> platform \<Rightarrow> discussion_scope option" where
  "scope_of_message gid mid sequence d =
     (if mid = None \<and> sequence = None then None
      else
        map_option (\<lambda>m.
          let es = session_of_message d m;
              x = best_runtime (\<lambda>x. Some (d_session_id x) = m_session_id m \<and> d_group_id x = m_group_id m) d;
              s = \<lparr>ds_session_id = m_session_id m,
                   ds_session_no = or_int_opt (Option.bind es es_session_no) (m_session_no m),
                   ds_task_id = or_int_opt (Option.bind es es_task_id) (m_task_id m),
                   ds_discussion_id = or_int_opt (m_discussion_id m) (map_option d_id x),
                   ds_resolved_from = ''message'', ds_legacy = False\<rparr>
          in if is_complete s then s else s\<lparr>ds_legacy := True\<rparr>)
        (find (\<lambda>m. m_group_id m = gid \<and> (case mid of Some i \<Rightarrow> m_id m = i | None \<Rightarrow> m_sequence m = sequence))
          (messages d)))"

definition scope_of_discussion ::
    "int \<Rightarrow> int option \<Rightarrow> int option \<Rightarrow> platform \<Rightarrow> string + discussion_scope option" where
  "scope_of_discussion gid session discussion d =
     (case Option.bind discussion (\<lambda>i. find (\<lambda>x. d_id x = i \<and> d_group_id x = gid) (discussions d)) of
        None \<Rightarrow> Inr None
      | Some x \<Rightarrow>
          (case fetch_session d (d_session_id x) of
             None \<Rightarrow> Inr None
           | Some es \<Rightarrow>
               if session \<noteq> None \<and> session \<noteq> Some (es_id es) then Inl ''discussion_scope_mismatch''
               else Inr (Some (session_scope_of ''session'' es (Some (d_id x))))))"

definition scope_of_session :: "int \<Rightarrow> int option \<Rightarrow> int option \<Rightarrow> platform \<Rightarrow> discussion_scope option" where
  "scope_of_session gid session discussion d =
     (case Option.bind session (fetch_session d) of
        None \<Rightarrow> None
      | Some es \<Rightarrow>
          (let x = best_runtime (\<lambda>x. d_session_id x = es_id es \<and> d_group_id x = gid
                     \<and> (discussion = None \<or> discussion = Some (d_id x))) d
           in if discussion \<noteq> None \<and> x = None then None
              else Some (session_scope_of ''session'' es (map_option d_id x))))"

text \<open>By number or task: only when exactly one session fits.\<close>

definition scope_of_number :: "int \<Rightarrow> int option \<Rightarrow> int option \<Rightarrow> platform \<Rightarrow> discussion_scope option" where
  "scope_of_number gid session_no task d =
     (if session_no = None \<and> task = None then None
      else
        (case filter (\<lambda>es. (session_no = None \<or> es_session_no es = session_no)
                \<and> (task = None \<or> es_task_id es = task)) (sessions d) of
           [es] \<Rightarrow> Some (session_scope_of ''session'' es
             (map_option d_id (best_runtime (\<lambda>x. d_session_id x = es_id es \<and> d_group_id x = gid) d)))
         | _ \<Rightarrow> None))"

definition session_running :: "platform \<Rightarrow> int \<Rightarrow> bool" where
  "session_running d i \<longleftrightarrow> (case fetch_session d i of None \<Rightarrow> False | Some es \<Rightarrow> es_status es = Some ''running'')"

definition runtime_scope :: "int \<Rightarrow> platform \<Rightarrow> discussion_scope option" where
  "runtime_scope gid d =
     (case best_runtime (\<lambda>x. d_group_id x = gid \<and> d_status x \<in> {''running'', ''waiting''}
              \<and> session_running d (d_session_id x)) d of
        Some x \<Rightarrow> map_option (\<lambda>es. session_scope_of ''runtime'' es (Some (d_id x))) (fetch_session d (d_session_id x))
      | None \<Rightarrow>
          (case max_by es_id (filter (\<lambda>es. es_status es = Some ''running'') (sessions d)) of
             None \<Rightarrow> None
           | Some es \<Rightarrow> Some (session_scope_of ''runtime'' es
               (map_option d_id (max_by d_id (filter (\<lambda>x. d_session_id x = es_id es \<and> d_group_id x = gid)
                  (discussions d)))))))"

text \<open>\<open>resolve_discussion_scope\<close> without the legacy settings, which its callers here switch off.\<close>

fun first_some :: "'a option list \<Rightarrow> 'a option" where
  "first_some [] = None"
| "first_some (None # xs) = first_some xs"
| "first_some (Some x # xs) = Some x"

record scope_query =
  sq_message_id :: "int option"
  sq_sequence :: "int option"
  sq_session_id :: "int option"
  sq_session_no :: "int option"
  sq_task_id :: "int option"
  sq_discussion_id :: "int option"

definition resolve_discussion_scope :: "int \<Rightarrow> scope_query \<Rightarrow> platform \<Rightarrow> string + discussion_scope" where
  "resolve_discussion_scope gid q d =
     (case scope_of_message gid (sq_message_id q) (sq_sequence q) d of
        Some s \<Rightarrow> Inr s
      | None \<Rightarrow>
          andthen (scope_of_discussion gid (sq_session_id q) (sq_discussion_id q) d) (\<lambda>found.
            Inr (case first_some [found, scope_of_session gid (sq_session_id q) (sq_discussion_id q) d,
                   scope_of_number gid (sq_session_no q) (sq_task_id q) d, runtime_scope gid d] of
                   Some s \<Rightarrow> s
                 | None \<Rightarrow> \<lparr>ds_session_id = sq_session_id q, ds_session_no = sq_session_no q,
                     ds_task_id = sq_task_id q, ds_discussion_id = sq_discussion_id q,
                     ds_resolved_from = ''unresolved'', ds_legacy = False\<rparr>)))"

subsection \<open>Observation cursor\<close>

text \<open>
  \<open>begin_discussion_observation\<close>: a cursor row is made when there is none, and a later
  intervention starts the observation again; \<open>None\<close> is the \<open>None\<close> of the code.
\<close>

definition observed_runtime :: "int \<Rightarrow> int \<Rightarrow> int option \<Rightarrow> platform \<Rightarrow> int option" where
  "observed_runtime gid sid discussion d =
     (case discussion of
        Some i \<Rightarrow>
          if \<exists>x\<in>set (discussions d). d_id x = i \<and> d_group_id x = gid \<and> d_session_id x = sid then Some i else None
      | None \<Rightarrow> map_option d_id (max_by (\<lambda>x. (if d_status x = ''running'' then (1 :: int) else 0, d_id x))
          (filter (\<lambda>x. d_group_id x = gid \<and> d_session_id x = sid) (discussions d))))"

definition plain_cursor :: "scope \<Rightarrow> stamp \<Rightarrow> cursor_row" where
  "plain_cursor sc ts = (case sc of (gid, sid, did) \<Rightarrow>
     \<lparr>c_group_id = gid, c_session_id = sid, c_discussion_id = did, c_session_no = None, c_task_id = None,
      c_last_finalized_student_sequence = 0, c_last_scheduled_student_sequence = 0,
      c_last_assessment_requested_at = None, c_last_assessment_completed_at = None,
      c_last_scheduling_completed_at = None, c_last_intervention_sequence = None,
      c_observation_started_sequence = None, c_observation_status = ''inactive'', c_updated_at = ts\<rparr>)"

definition observing_cursor :: "stamp \<Rightarrow> int \<Rightarrow> cursor_row \<Rightarrow> cursor_row" where
  "observing_cursor ts sequence c =
     (if (case c_last_intervention_sequence c of None \<Rightarrow> True | Some k \<Rightarrow> k < sequence)
      then c\<lparr>c_observation_status := ''observing'', c_observation_started_sequence := None,
             c_last_intervention_sequence := Some sequence, c_updated_at := ts\<rparr>
      else c)"

definition begin_discussion_observation ::
    "stamp \<Rightarrow> int \<Rightarrow> int option \<Rightarrow> int option \<Rightarrow> int option \<Rightarrow> platform \<Rightarrow> int option \<times> platform" where
  "begin_discussion_observation ts gid session sequence discussion d =
     (case (session, sequence) of
        (Some sid, Some q) \<Rightarrow>
          (case observed_runtime gid sid discussion d of
             None \<Rightarrow> (None, d)
           | Some did \<Rightarrow>
               (let sc = (gid, sid, did);
                    d1 = (if cursor_of d sc = None then d\<lparr>cursors := cursors d @ [plain_cursor sc ts]\<rparr> else d)
                in (Some did, change_cursor sc (observing_cursor ts q) d1)))
      | _ \<Rightarrow> (None, d))"

subsection \<open>The transaction\<close>

text \<open>The arguments the strategy pipeline passes, as far as they decide or are stored.\<close>

record publication =
  pu_group_id :: int
  pu_message :: "string option"
  pu_intervention_run_id :: int
  pu_pipeline_run_id :: int
  pu_session_id :: "int option"
  pu_session_no :: "int option"
  pu_discussion_id :: "int option"
  pu_task_id :: "int option"
  pu_cutoff :: "int option"
  pu_strategy_id :: "string option"
  pu_lock_token :: "string option"

record refusal =
  rf_reason :: string
  rf_latest :: "int option"

definition refused :: "string \<Rightarrow> refusal" where
  "refused reason = \<lparr>rf_reason = reason, rf_latest = None\<rparr>"

record spoken =
  sp_message_id :: int
  sp_run_id :: int
  sp_duplicate :: bool

text \<open>\<open>get_sera_user_id\<close>; an id of 0 counts as missing.\<close>

definition get_sera_user_id :: "platform \<Rightarrow> int option" where
  "get_sera_user_id d =
     (case find (\<lambda>u. u_username u = ''sera'') (users d) of
        None \<Rightarrow> None | Some u \<Rightarrow> if u_id u = 0 then None else Some (u_id u))"

definition client_message_id :: "int \<Rightarrow> string" where
  "client_message_id run_id = ''agent-strategy-'' @ int_text run_id"

text \<open>The guards on the room and the discussion, before the scope is resolved.\<close>

definition room_refusal :: "stamp \<Rightarrow> publication \<Rightarrow> group_row \<Rightarrow> string option" where
  "room_refusal ts u g =
     (if \<not> truthy (pu_lock_token u) then None
      else if g_lock_token g \<noteq> pu_lock_token u then Some ''lock_token_mismatch''
      else if g_state g \<noteq> ''AI_INTERVENING'' then Some ''room_not_locked''
      else if (case g_lock_expires_at g of None \<Rightarrow> False | Some e \<Rightarrow> e \<le> ts) then Some ''lock_expired''
      else if g_active_intervention_run_id g \<noteq> Some (- pu_pipeline_run_id u) then Some ''lock_owner_mismatch''
      else None)"

definition discussion_running :: "int \<Rightarrow> int option \<Rightarrow> int \<Rightarrow> platform \<Rightarrow> bool" where
  "discussion_running gid session did d \<longleftrightarrow>
     (\<exists>x\<in>set (discussions d). d_id x = did \<and> d_group_id x = gid \<and> Some (d_session_id x) = session
        \<and> d_status x = ''running'' \<and> session_running d (d_session_id x))"

definition opening_refusal_of :: "stamp \<Rightarrow> publication \<Rightarrow> platform \<Rightarrow> string option" where
  "opening_refusal_of ts u d =
     (case fetch_group d (pu_group_id u) of
        None \<Rightarrow> Some ''group_not_found''
      | Some g \<Rightarrow>
          (case room_refusal ts u g of
             Some why \<Rightarrow> Some why
           | None \<Rightarrow>
               (case pu_discussion_id u of
                  None \<Rightarrow> None
                | Some did \<Rightarrow>
                    if discussion_running (pu_group_id u) (pu_session_id u) did d then None
                    else Some ''discussion_not_running'')))"

text \<open>The guards on the resolved scope; what the run was called with is the cut-off.\<close>

definition message_scope_refusal :: "publication \<Rightarrow> discussion_scope \<Rightarrow> platform \<Rightarrow> refusal option" where
  "message_scope_refusal u s d =
     (if (case ds_session_id s of None \<Rightarrow> False | Some i \<Rightarrow> fetch_session d i = None)
      then Some (refused ''session_not_found'')
      else if (case ds_task_id s of None \<Rightarrow> False | Some i \<Rightarrow> fetch_by t_id i (tasks d) = None)
      then Some (refused ''task_not_found'')
      else
        (case (pu_cutoff u, latest_student_in_scope (pu_group_id u) (ds_session_id s) (ds_discussion_id s) d) of
           (Some k, Some q) \<Rightarrow>
             if q > k then Some \<lparr>rf_reason = ''stale_student_sequence'', rf_latest = Some q\<rparr> else None
         | _ \<Rightarrow> None))"

text \<open>\<open>_next_message_sequence\<close>.\<close>

definition last_sequence :: "int \<Rightarrow> platform \<Rightarrow> int" where
  "last_sequence gid d =
     (case max_by m_sequence (filter (\<lambda>m. m_group_id m = gid) (messages d)) of
        None \<Rightarrow> 0 | Some m \<Rightarrow> or0 (m_sequence m))"

definition next_message_sequence :: "int \<Rightarrow> platform \<Rightarrow> int \<times> platform" where
  "next_message_sequence gid d =
     (let d1 = change_groups (\<lambda>g. g_id g = gid)
            (\<lambda>g. g\<lparr>g_last_message_sequence := Some (max (or0 (g_last_message_sequence g)) (last_sequence gid d) + 1)\<rparr>) d
      in (or0 (Option.bind (fetch_group d1 gid) g_last_message_sequence), d1))"

text \<open>What the scope leaves open is taken from the intervention run.\<close>

definition filled_scope :: "discussion_scope \<Rightarrow> intervention_row \<Rightarrow> discussion_scope" where
  "filled_scope s r = s\<lparr>ds_session_id := coalesce (ds_session_id s) (ir_session_id r),
     ds_session_no := coalesce (ds_session_no s) (ir_session_no r),
     ds_task_id := coalesce (ds_task_id s) (ir_task_id r),
     ds_discussion_id := coalesce (ds_discussion_id s) (ir_discussion_id r)\<rparr>"

definition agent_message ::
    "stamp \<Rightarrow> publication \<Rightarrow> discussion_scope \<Rightarrow> int \<Rightarrow> int \<Rightarrow> int \<Rightarrow> message_row" where
  "agent_message ts u s sera sequence mid =
     \<lparr>m_id = mid, m_group_id = pu_group_id u, m_user_id = sera, m_session_id = ds_session_id s,
      m_discussion_id = ds_discussion_id s, m_sequence = Some sequence, m_role = Some ''agent'',
      m_sender_type = Some ''agent'', m_session_no = ds_session_no s, m_task_id = ds_task_id s,
      m_content = pu_message u, m_created_at = Some ts,
      m_client_message_id = Some (client_message_id (pu_intervention_run_id u)),
      m_intervention_run_id = Some (pu_intervention_run_id u), m_strategy_id = pu_strategy_id u,
      m_agent_type = Some ''strategy'', m_trigger_source = Some ''auto_state'', m_linked_log_id = None\<rparr>"

text \<open>
  The message of the run: the one already there under the run's client id, or a new one under
  the next sequence, which is reported with it.
\<close>

definition spoken_already :: "int \<Rightarrow> publication \<Rightarrow> message_row \<Rightarrow> bool" where
  "spoken_already sera u m \<longleftrightarrow> m_group_id m = pu_group_id u \<and> m_user_id m = sera
     \<and> m_client_message_id m = Some (client_message_id (pu_intervention_run_id u))"

definition write_message ::
    "stamp \<Rightarrow> publication \<Rightarrow> discussion_scope \<Rightarrow> int \<Rightarrow> platform \<Rightarrow> (int \<times> int option) \<times> platform" where
  "write_message ts u s sera d =
     (case max_by m_id (filter (spoken_already sera u) (messages d)) of
        Some m \<Rightarrow> ((m_id m, None), d)
      | None \<Rightarrow>
          (let (sequence, d1) = next_message_sequence (pu_group_id u) d; mid = next_message_id d1
           in ((mid, Some sequence),
                d1\<lparr>messages := messages d1 @ [agent_message ts u s sera sequence mid], next_message_id := mid + 1\<rparr>)))"

definition run_spoken :: "stamp \<Rightarrow> publication \<Rightarrow> discussion_scope \<Rightarrow> int \<Rightarrow> intervention_row \<Rightarrow> intervention_row" where
  "run_spoken ts u s mid r = r\<lparr>ir_status := Some ''PUBLISHED'', ir_decision := Some ''INTERVENE'',
     ir_generated_message := pu_message u, ir_strategy_id := pu_strategy_id u, ir_message_id := Some mid,
     ir_published_at := Some ts, ir_completed_at := Some ts,
     ir_lock_token := coalesce (pu_lock_token u) (ir_lock_token r),
     ir_session_id := coalesce (ds_session_id s) (ir_session_id r),
     ir_task_id := coalesce (ds_task_id s) (ir_task_id r),
     ir_discussion_id := coalesce (ds_discussion_id s) (ir_discussion_id r),
     ir_started_at := coalesce (ir_started_at r) (Some ts), ir_agent_type := Some ''strategy'',
     ir_trigger_type := Some ''auto_state'', ir_strategy_pipeline_run_id := Some (pu_pipeline_run_id u),
     ir_publish_status := Some ''PUBLISHED''\<rparr>"

definition run_spoken_before :: "stamp \<Rightarrow> intervention_row \<Rightarrow> intervention_row" where
  "run_spoken_before ts r = r\<lparr>
     ir_status := (if text_of (ir_status r) \<in> {''PUBLISHED'', ''FALLBACK''} then ir_status r else Some ''PUBLISHED''),
     ir_decision := coalesce (ir_decision r) (Some ''INTERVENE''),
     ir_published_at := coalesce (ir_published_at r) (Some ts),
     ir_completed_at := coalesce (ir_completed_at r) (Some ts)\<rparr>"

text \<open>The silence segment a run was made for, when it was made for one.\<close>

definition settle_silence_segment ::
    "stamp \<Rightarrow> (segment_row \<Rightarrow> stamp option) \<Rightarrow> intervention_row \<Rightarrow> platform \<Rightarrow> platform" where
  "settle_silence_segment ts published r d =
     (if or0 (ir_target_segment_id r) = 0 then d
      else d\<lparr>segments := update_where
         (\<lambda>s. Some (sg_id s) = ir_target_segment_id r \<and> sg_state_code s = ''negative_silence'' \<and> sg_source s = ''silence_rule'')
         (\<lambda>s. s\<lparr>sg_intervention_run_id := Some (ir_id r), sg_intervention_published_at := published s,
            sg_intervention_disposition := Some ''PUBLISHED'', sg_updated_at := ts\<rparr>)
         (segments d)\<rparr>)"

definition log_publication :: "stamp \<Rightarrow> publication \<Rightarrow> discussion_scope \<Rightarrow> int \<Rightarrow> platform \<Rightarrow> platform" where
  "log_publication ts u s mid d =
     (let lid = next_log_id d;
          index = int (length (filter (\<lambda>l. il_group_id l = pu_group_id u) (intervention_logs d))) + 1
      in d\<lparr>intervention_logs := intervention_logs d @ [\<lparr>il_id = lid, il_group_id = pu_group_id u,
             il_intervention_run_id = Some (pu_intervention_run_id u), il_push_mode = ''sera_auto_v2'',
             il_message = pu_message u, il_strategy_id = pu_strategy_id u, il_session_id = ds_session_id s,
             il_discussion_id = ds_discussion_id s, il_intervention_index = index, il_message_id = mid,
             il_created_at = ts\<rparr>],
           next_log_id := lid + 1,
           messages := update_where (\<lambda>m. m_id m = mid) (\<lambda>m. m\<lparr>m_linked_log_id := Some lid\<rparr>) (messages d)\<rparr>)"

text \<open>
  The room is opened by the lease token; a room that is not held under it any more raises.
  Without a token only the time of the intervention is noted.
\<close>

definition open_room_after ::
    "(group_row \<Rightarrow> stamp option) \<Rightarrow> publication \<Rightarrow> platform \<Rightarrow> string + platform" where
  "open_room_after intervened u d =
     (let hit = (\<lambda>g. g_id g = pu_group_id u \<and> g_lock_token g = pu_lock_token u) in
      if rowcount hit (groups d) \<noteq> 1 then Inl ''room_lease_release_failed''
      else Inr (change_groups hit (\<lambda>g. g\<lparr>g_state := ''OPEN'', g_version := g_version g + 1,
             g_lock_token := None, g_lock_expires_at := None, g_active_intervention_run_id := None,
             g_last_intervention_at := intervened g\<rparr>) d))"

definition leave_room :: "stamp \<Rightarrow> publication \<Rightarrow> platform \<Rightarrow> string + platform" where
  "leave_room ts u d =
     (if truthy (pu_lock_token u) then open_room_after (\<lambda>_. Some ts) u d
      else Inr (change_groups (\<lambda>g. g_id g = pu_group_id u) (\<lambda>g. g\<lparr>g_last_intervention_at := Some ts\<rparr>) d))"

text \<open>
  The unique index of interventions admits one live intervention per room, cut-off, agent and
  trigger; an update that makes a second one raises.
\<close>

definition indexed_intervention :: "intervention_row \<Rightarrow> bool" where
  "indexed_intervention r \<longleftrightarrow>
     (case ir_status r of None \<Rightarrow> False
      | Some s \<Rightarrow> s \<notin> {''CANCELLED'', ''FAILED'', ''EXPIRED'', ''STALE''})
     \<and> \<not> (text_of (ir_agent_type r) = ''emotion'' \<and> text_of (ir_trigger_type r) = ''emotion_time_slot'')"

definition intervention_key :: "intervention_row \<Rightarrow> int \<times> int \<times> string \<times> string" where
  "intervention_key r = (ir_group_id r, or0 (ir_cutoff_sequence r),
     text_of (coalesce (ir_agent_type r) (Some ''strategy'')),
     text_of (coalesce (ir_trigger_type r) (Some ''auto_state'')))"

definition update_intervention ::
    "(intervention_row \<Rightarrow> intervention_row) \<Rightarrow> intervention_row \<Rightarrow> platform \<Rightarrow> string + platform" where
  "update_intervention f r d =
     (if indexed_intervention (f r) \<and> (\<exists>x\<in>set (interventions d). ir_id x \<noteq> ir_id r
           \<and> indexed_intervention x \<and> intervention_key x = intervention_key (f r))
      then Inl ''IntegrityError''
      else Inr (change_interventions (\<lambda>x. ir_id x = ir_id r) f d))"

definition repeat_publication :: "stamp \<Rightarrow> publication \<Rightarrow> intervention_row \<Rightarrow> platform \<Rightarrow> (string + platform)" where
  "repeat_publication ts u r d =
     andthen (if truthy (pu_lock_token u)
              then open_room_after (\<lambda>g. coalesce (g_last_intervention_at g) (Some ts)) u d else Inr d) (\<lambda>d1.
     andthen (update_intervention (run_spoken_before ts) r d1) (\<lambda>d2.
       Inr (settle_silence_segment ts (\<lambda>s. coalesce (sg_intervention_published_at s) (Some ts)) r d2)))"

definition new_publication ::
    "stamp \<Rightarrow> publication \<Rightarrow> discussion_scope \<Rightarrow> intervention_row \<Rightarrow> int \<Rightarrow> platform \<Rightarrow> string + (int \<times> platform)" where
  "new_publication ts u s r sera d =
     (let ((mid, written), d1) = write_message ts u s sera d
      in andthen (update_intervention (run_spoken ts u s mid) r d1) (\<lambda>d2.
         andthen (leave_room ts u (log_publication ts u s mid (settle_silence_segment ts (\<lambda>_. Some ts) r d2))) (\<lambda>d3.
           Inr (mid, case written of None \<Rightarrow> d3
             | Some sequence \<Rightarrow>
                 snd (begin_discussion_observation ts (pu_group_id u) (ds_session_id s) (Some sequence) None d3)))))"

text \<open>
  \<open>publish_agent_intervention\<close>: one transaction; what it raises rolls it back and is reported
  as \<open>publish_failed\<close>.
\<close>

definition speak ::
    "stamp \<Rightarrow> publication \<Rightarrow> discussion_scope \<Rightarrow> int \<Rightarrow> platform \<Rightarrow> (refusal + spoken) \<times> platform" where
  "speak ts u s sera d =
     (case fetch_intervention d (pu_intervention_run_id u) of
        None \<Rightarrow> (Inl (refused ''intervention_run_not_found''), d)
      | Some r \<Rightarrow>
          if ir_group_id r \<noteq> pu_group_id u then (Inl (refused ''intervention_run_not_found''), d)
          else if or0 (ir_message_id r) \<noteq> 0
          then (case repeat_publication ts u r d of
                  Inl _ \<Rightarrow> (Inl (refused ''publish_failed''), d)
                | Inr d1 \<Rightarrow> (Inr \<lparr>sp_message_id = or0 (ir_message_id r), sp_run_id = ir_id r, sp_duplicate = True\<rparr>, d1))
          else (case new_publication ts u (filled_scope s r) r sera d of
                  Inl _ \<Rightarrow> (Inl (refused ''publish_failed''), d)
                | Inr (mid, d1) \<Rightarrow> (Inr \<lparr>sp_message_id = mid, sp_run_id = ir_id r, sp_duplicate = False\<rparr>, d1)))"

definition publication_query :: "publication \<Rightarrow> scope_query" where
  "publication_query u = \<lparr>sq_message_id = None, sq_sequence = pu_cutoff u, sq_session_id = pu_session_id u,
     sq_session_no = pu_session_no u, sq_task_id = pu_task_id u, sq_discussion_id = pu_discussion_id u\<rparr>"

definition publish_agent_intervention ::
    "datetime \<Rightarrow> publication \<Rightarrow> platform \<Rightarrow> (refusal + spoken) \<times> platform" where
  "publish_agent_intervention now u d =
     (if \<not> truthy (pu_message u) then (Inl (refused ''empty_message''), d)
      else
        (case get_sera_user_id d of
           None \<Rightarrow> (Inl (refused ''sera_user_not_found''), d)
         | Some sera \<Rightarrow>
             (case opening_refusal_of (fmt_sec now) u d of
                Some why \<Rightarrow> (Inl (refused why), d)
              | None \<Rightarrow>
                  (case resolve_discussion_scope (pu_group_id u) (publication_query u) d of
                     Inl _ \<Rightarrow> (Inl (refused ''publish_failed''), d)
                   | Inr s \<Rightarrow>
                       (case message_scope_refusal u s d of
                          Some f \<Rightarrow> (Inl f, d)
                        | None \<Rightarrow> speak (fmt_sec now) u s sera d)))))"

end
