(* ===== verification/Publication.thy ===== *)
theory Publication
  imports Agent_Publication Assessment_Scheduler
begin

text \<open>
  \<open>ThreeStageInterventionPublisher\<close> of \<open>services/three_stage_publish.py\<close>: what becomes of a
  run at the decision gate, before and after the third stage, and the section of
  \<open>execute_state_assessment_batch\<close> that drives both.  Each transaction is a function; the
  sections compose them, with one clock for the transactions of a section.  Of the telemetry
  only the events written inside a transaction are kept.
\<close>

record publish_outcome =
  po_published :: bool
  po_duplicate :: bool
  po_reason :: string
  po_final_status :: "string option"
  po_message_id :: "int option"
  po_lock_released :: bool

definition not_published :: "string \<Rightarrow> publish_outcome" where
  "not_published reason = \<lparr>po_published = False, po_duplicate = False, po_reason = reason,
     po_final_status = None, po_message_id = None, po_lock_released = False\<rparr>"

definition published_before :: "int \<Rightarrow> publish_outcome" where
  "published_before mid = (not_published ''already_published'')\<lparr>po_published := True, po_duplicate := True,
     po_message_id := Some mid\<rparr>"

subsection \<open>Ending a run without a message\<close>

text \<open>\<open>_release_pipeline_lock\<close> of the publisher; the caller notes the time on the run.\<close>

definition release_publish_lock :: "stamp \<Rightarrow> pipeline_row \<Rightarrow> platform \<Rightarrow> bool \<times> platform" where
  "release_publish_lock ts row d =
     (if \<not> truthy (p_room_lock_token row) then (False, d)
      else
        (let hit = (\<lambda>g. g_id g = p_group_id row \<and> g_lock_token g = p_room_lock_token row
                     \<and> g_active_intervention_run_id g = Some (- p_id row));
             released = (rowcount hit (groups d) = 1);
             d1 = change_groups hit (\<lambda>g. g\<lparr>g_state := ''OPEN'', g_version := g_version g + 1,
                    g_lock_token := None, g_lock_expires_at := None,
                    g_active_intervention_run_id := None\<rparr>) d
         in (released,
             if released
             then log_event \<lparr>le_stage = ''lock'', le_event = ''room_lock_released'',
                 le_pipeline_run_id = Some (p_id row), le_assessment_batch_id = p_assessment_batch_id row,
                 le_lock_owner = None, le_lock_token = p_room_lock_token row,
                 le_reason = Some ''publish_terminal_without_message'', le_occurred_at = ts\<rparr> d1
             else d1)))"

definition publish_status_for :: "string \<Rightarrow> string" where
  "publish_status_for final = (if final = ''FAILED'' then ''FAILED'' else ''SKIPPED'')"

definition preflight_status :: "block \<Rightarrow> string" where
  "preflight_status b =
     (let final = upper (text_of (or_text (bl_terminal_status b) (Some ''SUPPRESSED'')))
      in if final \<in> {''SUPPRESSED'', ''FAILED''} then final else ''SUPPRESSED'')"

definition preflighted_run :: "stamp \<Rightarrow> bool \<Rightarrow> string \<Rightarrow> string \<Rightarrow> string \<Rightarrow> pipeline_row \<Rightarrow> pipeline_row" where
  "preflighted_run ts released final terminal reason p = p\<lparr>p_stage3_status := Some ''SKIPPED'',
     p_stage3_completed_at := coalesce (p_stage3_completed_at p) (Some ts),
     p_publish_status := Some (publish_status_for final), p_final_status := Some final,
     p_skip_reason := Some terminal, p_failure_code := Some terminal, p_failure_detail := Some reason,
     p_room_lock_released_at := coalesce (p_room_lock_released_at p) (if released then Some ts else None),
     p_updated_at := Some ts\<rparr>"

definition skipped_intervention :: "stamp \<Rightarrow> string \<Rightarrow> string \<Rightarrow> string option \<Rightarrow> intervention_row \<Rightarrow> intervention_row" where
  "skipped_intervention ts final reason failure r = r\<lparr>ir_status := Some final,
     ir_decision := Some ''SKIPPED'', ir_publish_status := Some (publish_status_for final),
     ir_skip_reason := Some reason, ir_failure_reason := failure, ir_completed_at := Some ts,
     ir_lock_acquired := Some 0\<rparr>"

definition block_preflight :: "datetime \<Rightarrow> int \<Rightarrow> block \<Rightarrow> platform \<Rightarrow> publish_outcome \<times> platform" where
  "block_preflight now pid b d =
     (let ts = fmt_ms now; final = preflight_status b; terminal = preflight_terminal_reason (bl_reason b) in
      case fetch_pipeline d pid of
        None \<Rightarrow> (not_published ''pipeline_not_found'', d)
      | Some row \<Rightarrow>
          (case already_published row of
             Some mid \<Rightarrow> (published_before mid, d)
           | None \<Rightarrow>
               (let (released, d1) = release_publish_lock ts row d;
                    d2 = change_pipelines (\<lambda>p. p_id p = pid)
                           (preflighted_run ts released final terminal (bl_reason b)) d1;
                    d3 = change_interventions (\<lambda>r. ir_strategy_pipeline_run_id r = Some pid)
                           (\<lambda>r. skipped_intervention ts final terminal
                              (coalesce (ir_failure_reason r) (Some (bl_reason b))) r) d2
                in ((not_published (bl_reason b))\<lparr>po_final_status := Some final, po_lock_released := released\<rparr>, d3))))"

text \<open>\<open>finish_preflight\<close>, called for what the preflight did not allow.\<close>

definition finish_preflight :: "datetime \<Rightarrow> int \<Rightarrow> gate_result \<Rightarrow> platform \<Rightarrow> publish_outcome \<times> platform" where
  "finish_preflight now pid outcome d =
     (case outcome of
        Duplicate mid \<Rightarrow> (published_before mid, d)
      | Blocked b \<Rightarrow> block_preflight now pid b d
      | Allowed \<Rightarrow> (not_published ''allowed'', d))"

text \<open>
  \<open>_finish_without_publish\<close>.  A stale run asks for its replacement in the same transaction; a
  superseded one is linked to the run that took over.
\<close>

record ending =
  en_reason :: string
  en_final_status :: "string option"
  en_failure_code :: "string option"
  en_intervention_run :: "int option"
  en_superseding :: "int option"

definition ended_run :: "stamp \<Rightarrow> bool \<Rightarrow> string \<Rightarrow> ending \<Rightarrow> pipeline_row \<Rightarrow> pipeline_row" where
  "ended_run ts released final e p = p\<lparr>p_publish_status := Some (publish_status_for final),
     p_final_status := Some final, p_skip_reason := Some (en_reason e),
     p_superseded_by_run_id := coalesce (en_superseding e) (p_superseded_by_run_id p),
     p_failure_code := coalesce (en_failure_code e) (p_failure_code p),
     p_room_lock_released_at := coalesce (p_room_lock_released_at p) (if released then Some ts else None),
     p_updated_at := Some ts\<rparr>"

definition final_status_of :: "ending \<Rightarrow> string" where
  "final_status_of e = text_of (or_text (en_final_status e) (Some (default_final_status (en_reason e))))"

definition request_if_stale :: "datetime \<Rightarrow> int \<Rightarrow> ending \<Rightarrow> pipeline_row \<Rightarrow> platform \<Rightarrow> platform" where
  "request_if_stale now pid e row d =
     (if final_status_of e = ''STALE''
      then snd (record_replacement_request now pid (en_reason e) None (latest_student_of row d) d) else d)"

definition close_intervention :: "stamp \<Rightarrow> ending \<Rightarrow> platform \<Rightarrow> platform" where
  "close_intervention ts e d =
     (if or0 (en_intervention_run e) = 0 then d
      else change_interventions (\<lambda>r. Some (ir_id r) = en_intervention_run e)
        (skipped_intervention ts (final_status_of e) (en_reason e)
           (or_text (en_failure_code e) (Some (en_reason e)))) d)"

definition link_superseding :: "datetime \<Rightarrow> int \<Rightarrow> ending \<Rightarrow> platform \<Rightarrow> platform" where
  "link_superseding now pid e d =
     (case en_superseding e of
        None \<Rightarrow> d
      | Some i \<Rightarrow> snd (link_pipeline_replacement now pid i (Some (en_reason e)) None None d))"

definition finish_without_publish :: "datetime \<Rightarrow> int \<Rightarrow> ending \<Rightarrow> platform \<Rightarrow> publish_outcome \<times> platform" where
  "finish_without_publish now pid e d =
     (case fetch_pipeline d pid of
        None \<Rightarrow> (not_published ''pipeline_not_found'', d)
      | Some row \<Rightarrow>
          (let (released, d1) = release_publish_lock (fmt_ms now) row (request_if_stale now pid e row d);
               d2 = change_pipelines (\<lambda>p. p_id p = pid) (ended_run (fmt_ms now) released (final_status_of e) e) d1
           in ((not_published (en_reason e))\<lparr>po_final_status := Some (final_status_of e), po_lock_released := released\<rparr>,
               link_superseding now pid e (close_intervention (fmt_ms now) e d2))))"

definition simple_ending :: "string \<Rightarrow> string \<Rightarrow> ending" where
  "simple_ending reason final = \<lparr>en_reason = reason, en_final_status = Some final, en_failure_code = None,
     en_intervention_run = None, en_superseding = None\<rparr>"

definition ending_of_block :: "block \<Rightarrow> int option \<Rightarrow> ending" where
  "ending_of_block b run = \<lparr>en_reason = (if bl_reason b = [] then ''decision_gate_blocked'' else bl_reason b),
     en_final_status = bl_terminal_status b, en_failure_code = None, en_intervention_run = run,
     en_superseding = bl_superseding_run_id b\<rparr>"

subsection \<open>Speaking for a run\<close>

text \<open>
  \<open>_get_or_create_intervention_run\<close>, under the unique index of interventions; \<open>Inl\<close> is the
  reason the claim failed.
\<close>

definition claimed_intervention :: "stamp \<Rightarrow> pipeline_row \<Rightarrow> int \<Rightarrow> intervention_row" where
  "claimed_intervention ts p i =
     \<lparr>ir_id = i, ir_group_id = p_group_id p, ir_session_id = p_session_id p,
      ir_strategy_pipeline_run_id = Some (p_id p), ir_agent_type = Some ''strategy'',
      ir_trigger_type = Some ''auto_state'', ir_status = Some ''LOCKED'', ir_decision = Some ''INTERVENE'',
      ir_publish_status = Some ''PENDING'', ir_skip_reason = None, ir_failure_reason = None,
      ir_completed_at = None, ir_lock_acquired = Some 1, ir_assessment_batch_id = None,
      ir_target_segment_id = None, ir_reason_code = None, ir_discussion_id = p_discussion_id p,
      ir_session_no = p_session_no p, ir_task_id = p_task_id p,
      ir_cutoff_sequence = p_input_cutoff_student_sequence p, ir_strategy_id = p_selected_strategy_id p,
      ir_generated_message = p_validated_intervention_text p, ir_message_id = None,
      ir_lock_token = p_room_lock_token p, ir_started_at = Some ts, ir_published_at = None\<rparr>"

definition get_or_create_intervention_run :: "datetime \<Rightarrow> int \<Rightarrow> platform \<Rightarrow> (string + int) \<times> platform" where
  "get_or_create_intervention_run now pid d =
     (case fetch_pipeline d pid of
        None \<Rightarrow> (Inl ''pipeline_not_found'', d)
      | Some p \<Rightarrow>
          (case sort_key ir_id (filter (\<lambda>r. ir_strategy_pipeline_run_id r = Some pid) (interventions d)) of
             r # _ \<Rightarrow> (Inr (ir_id r), d)
           | [] \<Rightarrow>
               (let r = claimed_intervention (fmt_sec now) p (next_intervention_id d) in
                if \<exists>x\<in>set (interventions d). indexed_intervention x \<and> intervention_key x = intervention_key r
                then (Inl ''intervention_run_claim_failed'', d)
                else (Inr (ir_id r), d\<lparr>interventions := interventions d @ [r],
                        next_intervention_id := next_intervention_id d + 1\<rparr>))))"

definition publication_of :: "pipeline_row \<Rightarrow> int \<Rightarrow> publication" where
  "publication_of p run = \<lparr>pu_group_id = p_group_id p, pu_message = p_validated_intervention_text p,
     pu_intervention_run_id = run, pu_pipeline_run_id = p_id p, pu_session_id = p_session_id p,
     pu_session_no = p_session_no p, pu_discussion_id = p_discussion_id p, pu_task_id = p_task_id p,
     pu_cutoff = p_input_cutoff_student_sequence p, pu_strategy_id = p_selected_strategy_id p,
     pu_lock_token = p_room_lock_token p\<rparr>"

subsection \<open>Recording what was said\<close>

definition published_run ::
    "stage2_env \<Rightarrow> stamp \<Rightarrow> int \<Rightarrow> int option \<Rightarrow> route_binding \<Rightarrow> pipeline_row \<Rightarrow> pipeline_row" where
  "published_run env ts mid latest bi p = p\<lparr>p_publish_status := Some ''PUBLISHED'',
     p_published_message_id := Some mid, p_published_at := coalesce (p_published_at p) (Some ts),
     p_latest_sequence_at_publish := latest, p_final_status := Some ''PUBLISHED'', p_skip_reason := None,
     p_failure_code := None, p_failure_detail := None,
     p_room_lock_released_at := coalesce (p_room_lock_released_at p) (Some ts),
     p_facts := (p_facts p)\<lparr>sf_sub_category := Some (pl_canonical (bi_route bi)),
       sf_strategy_pool := pl_candidates (bi_route bi), sf_strategy_source := Some (strategy_source env)\<rparr>,
     p_updated_at := Some ts\<rparr>"

text \<open>
  \<open>_mark_published\<close>, the transaction after the one that wrote the message.  The observation
  of the run starts here; \<open>Inl\<close> leaves the run as it was.
\<close>

definition mark_published ::
    "stage2_env \<Rightarrow> datetime \<Rightarrow> int \<Rightarrow> int \<Rightarrow> int \<Rightarrow> platform \<Rightarrow> string + (publish_outcome \<times> platform)" where
  "mark_published env now pid run mid d =
     (let ts = fmt_ms now in
      case fetch_pipeline d pid of
        None \<Rightarrow> Inr (not_published ''pipeline_not_found'', d)
      | Some row \<Rightarrow>
          andthen (route_binding_details env row) (\<lambda>bi.
            (let (started, d1) = mark_observation_started ts (Some row) (Some mid) d;
                 d2 = snd (begin_discussion_observation ts (p_group_id row) (p_session_id row)
                        (case started of Inl _ \<Rightarrow> None | Inr q \<Rightarrow> Some q) (p_discussion_id row) d1)
             in andthen (checked_update pid (published_run env ts mid (latest_student_of row d) bi) d2) (\<lambda>d3.
               (let d4 = change_interventions (\<lambda>r. ir_id r = run)
                      (\<lambda>r. r\<lparr>ir_publish_status := Some ''PUBLISHED'', ir_strategy_pipeline_run_id := Some pid\<rparr>) d3;
                    d5 = d4\<lparr>segments := update_where
                      (\<lambda>s. sg_strategy_pipeline_run_id s = Some pid \<and> sg_is_active_at_batch_end s = 1)
                      (\<lambda>s. s\<lparr>sg_intervention_run_id := Some run,
                         sg_intervention_published_at := coalesce (sg_intervention_published_at s) (Some ts),
                         sg_intervention_disposition := Some ''PUBLISHED'',
                         sg_selected_strategy_id := p_selected_strategy_id row, sg_updated_at := ts\<rparr>)
                      (segments d4)\<rparr>
                in Inr (\<lparr>po_published = True, po_duplicate = False, po_reason = ''published'',
                      po_final_status = Some ''PUBLISHED'', po_message_id = Some mid,
                      po_lock_released = True\<rparr>, d5))))))"

subsection \<open>The publisher\<close>

text \<open>
  The attempts: the first is made when the section runs; one that meets a locked database
  changes nothing and is repeated, after another look at the gate, at the next of the given
  times, as long as the allowance lasts.  \<open>Inl\<close> is an exception of the gate.  The handlers of
  \<open>publish_worker_exception\<close> around the call have no branch: \<open>publish_agent_intervention\<close> reports
  what its transaction raises itself (\<open>publish_failed\<close>), so they see only a connection that cannot
  be opened, and a lost connection is not a behaviour of the model.
\<close>

datatype attempt = Spoken spoken | Refused refusal | Gate_Duplicate int | Gate_Blocks block

fun publish_attempts ::
    "publish_env \<Rightarrow> pipeline_row \<Rightarrow> int \<Rightarrow> nat \<Rightarrow> datetime \<Rightarrow> datetime list \<Rightarrow> platform \<Rightarrow> (string + attempt) \<times> platform" where
  "publish_attempts env p run retries now [] d =
     map_prod (\<lambda>r. Inr (case_sum Refused Spoken r)) id (publish_agent_intervention now (publication_of p run) d)"
| "publish_attempts env p run 0 now (later # rest) d = (Inr (Refused (refused ''DB_LOCK_RETRY_EXHAUSTED'')), d)"
| "publish_attempts env p run (Suc retries) now (later # rest) d =
     (case evaluate env later (p_id p) d of
        Inl e \<Rightarrow> (Inl e, d)
      | Inr (Duplicate mid) \<Rightarrow> (Inr (Gate_Duplicate mid), d)
      | Inr (Blocked b) \<Rightarrow> (Inr (Gate_Blocks b), d)
      | Inr Allowed \<Rightarrow> publish_attempts env p run retries later rest d)"

text \<open>\<open>_request_replacement_assessment\<close>; what it raises is reported, not raised.\<close>

definition request_replacement_assessment ::
    "scheduler_env \<Rightarrow> datetime \<Rightarrow> int \<Rightarrow> int option \<Rightarrow> platform \<Rightarrow> platform" where
  "request_replacement_assessment senv now pid latest d =
     (case fetch_pipeline d pid of
        None \<Rightarrow> d
      | Some p \<Rightarrow> snd (request_state_assessment senv now
          (p_group_id p, or0 (p_session_id p), or0 (p_discussion_id p))
          \<lparr>rq_trigger_type = Some ''message_count_periodic'', rq_trigger_sequence = latest,
           rq_continuation = True, rq_fixed_start = None, rq_fixed_end = None, rq_replacement = \<lparr>rp_of_pipeline_run_id = Some pid,
             rp_reason = Some ''STALE_NEW_STUDENT_MESSAGE'', rp_trigger_message_id = None,
             rp_cutoff_sequence = latest\<rparr>\<rparr> d))"

text \<open>The claim of the intervention run, under a lease that is renewed once more.\<close>

definition open_publication ::
    "lease_config \<Rightarrow> datetime \<Rightarrow> pipeline_row \<Rightarrow> platform \<Rightarrow> (string + int) \<times> platform" where
  "open_publication cfg now p d =
     (if \<not> truthy (p_room_lock_token p) then get_or_create_intervention_run now (p_id p) d
      else
        (let (lease, d1) = renew_strategy_pipeline cfg now (p_id p) (text_of (p_room_lock_token p)) None None d
         in if lr_renewed lease then get_or_create_intervention_run now (p_id p) d1
            else (Inl (if lr_reason lease = [] then ''room_lease_heartbeat_failed'' else lr_reason lease), d1)))"

definition refused_ending :: "refusal \<Rightarrow> int \<Rightarrow> ending" where
  "refused_ending f run = \<lparr>en_reason = rf_reason f,
     en_final_status = Some (if rf_reason f = ''stale_student_sequence'' then ''STALE'' else ''FAILED''),
     en_failure_code = Some (rf_reason f), en_intervention_run = Some run, en_superseding = None\<rparr>"

definition settle_attempt ::
    "publish_env \<Rightarrow> scheduler_env \<Rightarrow> datetime \<Rightarrow> int \<Rightarrow> int \<Rightarrow> attempt \<Rightarrow> platform \<Rightarrow> (string + publish_outcome) \<times> platform" where
  "settle_attempt env senv now pid run a d =
     (case a of
        Gate_Duplicate mid \<Rightarrow> (Inr (published_before mid), d)
      | Gate_Blocks b \<Rightarrow> map_prod Inr id (finish_without_publish now pid (ending_of_block b (Some run)) d)
      | Refused f \<Rightarrow>
          (let (out, d1) = finish_without_publish now pid (refused_ending f run) d
           in (Inr out, if rf_reason f = ''stale_student_sequence''
                        then request_replacement_assessment senv now pid (rf_latest f) d1 else d1))
      | Spoken s \<Rightarrow>
          (case mark_published (px_routes env) now pid (sp_run_id s) (sp_message_id s) d of
             Inl e \<Rightarrow> (Inl e, d)
           | Inr (out, d1) \<Rightarrow> (Inr out, d1)))"

definition publish_allowed ::
    "lease_config \<Rightarrow> publish_env \<Rightarrow> scheduler_env \<Rightarrow> datetime \<Rightarrow> datetime list \<Rightarrow> pipeline_row \<Rightarrow> platform
       \<Rightarrow> (string + publish_outcome) \<times> platform" where
  "publish_allowed cfg env senv now locked p d =
     (case open_publication cfg now p d of
        (Inl why, d1) \<Rightarrow> map_prod Inr id (finish_without_publish now (p_id p) (simple_ending why ''FAILED'') d1)
      | (Inr run, d1) \<Rightarrow>
          (case fetch_pipeline d1 (p_id p) of
             None \<Rightarrow> (Inl ''pipeline_not_found'', d1)
           | Some row \<Rightarrow>
               (case publish_attempts env row run (nat (max 1 (px_db_lock_max_retries env)) - 1) now locked d1 of
                  (Inl e, d2) \<Rightarrow> (Inl e, d2)
                | (Inr a, d2) \<Rightarrow> settle_attempt env senv now (p_id p) run a d2)))"

definition publish_ready_pipeline ::
    "lease_config \<Rightarrow> publish_env \<Rightarrow> scheduler_env \<Rightarrow> datetime \<Rightarrow> datetime list \<Rightarrow> int \<Rightarrow> platform
       \<Rightarrow> (string + publish_outcome) \<times> platform" where
  "publish_ready_pipeline cfg env senv now locked pid d =
     (case evaluate env now pid d of
        Inl e \<Rightarrow> (Inl e, d)
      | Inr (Duplicate mid) \<Rightarrow> (Inr (published_before mid), d)
      | Inr (Blocked b) \<Rightarrow>
          (let (out, d1) = finish_without_publish now pid (ending_of_block b None) d
           in (Inr out, if bl_reason b = ''STALE_NEW_STUDENT_MESSAGE''
                        then request_replacement_assessment senv now pid (bl_latest_student_sequence b) d1 else d1))
      | Inr Allowed \<Rightarrow>
          (case fetch_pipeline d pid of
             None \<Rightarrow> (Inl ''pipeline_not_found'', d)
           | Some p \<Rightarrow> publish_allowed cfg env senv now locked p d))"

subsection \<open>From the second stage to the message\<close>

text \<open>
  \<open>execute_state_assessment_batch\<close>, the part that follows a decision to go on: preflight,
  room, third stage, decision gate.
\<close>

datatype third_outcome =
    Stage3_Disabled
  | Stopped_Before publish_outcome
  | Stopped_In stage3_result
  | Gate_Reached publish_outcome

definition start_third_stage ::
    "lease_config \<Rightarrow> publish_env \<Rightarrow> (json \<Rightarrow> string) \<Rightarrow> datetime \<Rightarrow> string \<Rightarrow> string option
       \<Rightarrow> gateway_call \<Rightarrow> gateway_call \<Rightarrow> int \<Rightarrow> platform \<Rightarrow> (string + stage3_result) \<times> platform" where
  "start_third_stage cfg env render now fresh lost first_call repair_call pid d =
     (let (lease, d1) = claim_strategy_pipeline cfg now now fresh pid None d
      in if lr_acquired lease
         then execute_for_pipeline cfg env render now lost first_call repair_call pid d1
         else map_prod Inr id (fail_stage3 now pid
                (if lr_reason lease = [] then ''ROOM_LOCK_UNAVAILABLE'' else lr_reason lease)
                ''Stage 3 did not start because the authoritative pipeline could not own the room lease.'' d1))"

definition run_third_stage ::
    "lease_config \<Rightarrow> publish_env \<Rightarrow> scheduler_env \<Rightarrow> (json \<Rightarrow> string) \<Rightarrow> datetime \<Rightarrow> string \<Rightarrow> string option
       \<Rightarrow> gateway_call \<Rightarrow> gateway_call \<Rightarrow> datetime list \<Rightarrow> int \<Rightarrow> platform \<Rightarrow> (string + third_outcome) \<times> platform" where
  "run_third_stage cfg env senv render now fresh lost first_call repair_call locked pid d =
     (if \<not> px_llm_enabled env then (Inr Stage3_Disabled, d)
      else
        (case evaluate_preflight env now pid d of
           Inl e \<Rightarrow> (Inl e, d)
         | Inr Allowed \<Rightarrow>
             (case start_third_stage cfg env render now fresh lost first_call repair_call pid d of
                (Inl e, d1) \<Rightarrow> (Inl e, d1)
              | (Inr (Stage3_Succeeded _), d1) \<Rightarrow>
                  map_prod (map_sum id Gate_Reached) id (publish_ready_pipeline cfg env senv now locked pid d1)
              | (Inr r, d1) \<Rightarrow> (Inr (Stopped_In r), d1))
         | Inr g \<Rightarrow> map_prod (Inr \<circ> Stopped_Before) id (finish_preflight now pid g d)))"

end
