(* ===== verification/Publication_Services.thy ===== *)
theory Publication_Services
  imports Sound_Steps Publication
begin

text \<open>
  The third stage, the decision gate and the publisher are sound: they leave windows and
  finalized cursors alone, open rooms only along the lease automaton, and keep the columns of
  a run that tie it to its lease.
\<close>

subsection \<open>Steps that leave rooms or windows alone\<close>

lemma sound_tables:
  assumes "groups d' = groups d" "pipelines d' = pipelines d" "next_pipeline_id d' = next_pipeline_id d"
    and "window_view d' = window_view d"
  shows "sound cfg d d'"
  using assms by (intro sound_apart lease_safe_frame) (simp_all add: apart_def fresh_runs_def)

lemma sound_runs:
  assumes "\<And>p. lease_view (f p) = lease_view p"
  shows "sound cfg d (change_pipelines P f d)"
proof -
  have "p_id (f p) = p_id p" for p using assms [of p] by (simp add: lease_view_def)
  then show ?thesis
    by (intro sound_apart apart_sides sides_change_pipelines change_pipelines_safe assms)
qed

lemma sound_checked:
  "checked_update pid f d = Inr d' \<Longrightarrow> (\<And>p. lease_view (f p) = lease_view p) \<Longrightarrow> sound cfg d d'"
  by (simp add: checked_update_Inr sound_runs)

lemma sound_change [simp]:
  "sound cfg d (change_interventions J h d)" "sound cfg d (log_event e d)"
  by (rule sound_tables; simp add: window_view_def)+

lemma sound_segments:
  assumes "\<And>s. sg_id (f s) = sg_id s" "\<And>s. sg_dedupe_key (f s) = sg_dedupe_key s" "\<And>s. key_ok (f s) = key_ok s"
  shows "sound cfg d (d\<lparr>segments := update_where P f (segments d)\<rparr>)"
  by (intro sound_apart apart_segments assms lease_safe_frame) simp_all

lemma sound_rooms:
  assumes inv: "\<And>gs. rooms_ok gs \<Longrightarrow> rooms_evolve gs (update_where P f gs)"
    and cap: "\<And>g v. within_cap (cf_max_total_seconds cfg) g v \<Longrightarrow> within_cap (cf_max_total_seconds cfg) (f g) v"
  shows "sound cfg d (change_groups P f d)"
proof (rule sound_apart)
  show "apart d (change_groups P f d)" by (simp add: apart_sides)
  show "lease_safe cfg d (change_groups P f d)"
    unfolding lease_safe_def
  proof (intro impI conjI)
    assume lease: "lease_inv cfg d"
    then show ev: "rooms_evolve (groups d) (groups (change_groups P f d))" by (simp add: inv lease_inv_def)
    show "lease_inv cfg (change_groups P f d)"
      by (rule lease_inv_change [OF lease ev [unfolded change_groups_self] change_groups_self]) (simp_all add: cap)
  qed
qed

text \<open>A room that is opened, its notes changed or not.\<close>

definition reopened :: "(group_row \<Rightarrow> stamp option) \<Rightarrow> group_row \<Rightarrow> group_row" where
  "reopened t g = (opened g)\<lparr>g_last_intervention_at := t g\<rparr>"

lemma noted_notes:
  "room_noted g (g\<lparr>g_last_intervention_at := t\<rparr>)" "room_noted g (g\<lparr>g_last_message_sequence := q\<rparr>)"
  by (simp_all add: room_noted_def)

lemma within_cap_notes [simp]:
  "within_cap cap (g\<lparr>g_last_intervention_at := t\<rparr>) v = within_cap cap g v"
  "within_cap cap (g\<lparr>g_last_message_sequence := q\<rparr>) v = within_cap cap g v"
  by (cases v; simp add: within_cap_def)+

lemma sound_notes:
  "sound cfg d (change_groups P (\<lambda>g. g\<lparr>g_last_intervention_at := t\<rparr>) d)"
  "sound cfg d (change_groups P (\<lambda>g. g\<lparr>g_last_message_sequence := q g\<rparr>) d)"
  by (rule sound_rooms; simp add: evolve_noted noted_notes)+

lemma evolve_reopened:
  assumes "rooms_ok gs" and "\<And>g. P g \<Longrightarrow> truthy (g_lock_token g)"
  shows "rooms_evolve gs (update_where P (reopened t) gs)"
  unfolding rooms_evolve_def update_where_def list_all2_map2
proof (rule list.rel_refl_strong)
  fix g assume g: "g \<in> set gs"
  show "room_step\<^sup>*\<^sup>* g (if P g then reopened t g else g)"
  proof (cases "P g")
    case True
    then have "g_state g = LOCK_STATE" "room_ok g"
      using assms g by (auto simp: rooms_ok_def elim!: truthyE intro: room_ok_token)
    then have "room_step g (opened g)" by (simp add: room_step_opened)
    moreover have "room_step (opened g) (reopened t g)" by (simp add: room_step_def reopened_def noted_notes)
    ultimately have "room_step\<^sup>*\<^sup>* g (reopened t g)" by (meson converse_rtranclp_into_rtranclp r_into_rtranclp)
    with True show ?thesis by simp
  qed simp
qed

lemma sound_reopened:
  assumes "\<And>g. P g \<Longrightarrow> truthy (g_lock_token g)"
  shows "sound cfg d (change_groups P (reopened t) d)"
  by (rule sound_rooms) (simp_all add: evolve_reopened assms, simp add: reopened_def within_cap_opened)

lemma sound_opened:
  assumes "\<And>g. P g \<Longrightarrow> truthy (g_lock_token g)"
  shows "sound cfg d (change_groups P opened d)"
proof -
  have "reopened (\<lambda>g. g_last_intervention_at (opened g)) = opened" by (rule ext) (simp add: reopened_def)
  with sound_reopened [OF assms] show ?thesis by metis
qed

lemmas opened_row = opened_def [abs_def, unfolded OPEN_STATE_def, symmetric]

subsection \<open>The third stage\<close>

lemma stage3_views [simp]:
  "lease_view (stage3_running ts p) = lease_view p" "lease_view (stage3_failed ts code detail p) = lease_view p"
  "lease_view (generated_run env ts route text p) = lease_view p"
  by (simp_all add: lease_view_def stage3_running_def stage3_failed_def generated_run_def)

lemma sound_mark_running [simp]: "sound cfg d (mark_stage3_running ts pid d)"
  by (simp add: mark_stage3_running_def sound_runs)

lemma sound_release_stage3 [simp]: "sound cfg d (snd (release_stage3_lock ts row d))"
proof (cases "truthy (p_room_lock_token row)")
  case True
  let ?hit = "\<lambda>g. g_id g = p_group_id row \<and> g_lock_token g = p_room_lock_token row
    \<and> g_active_intervention_run_id g = Some (- p_id row)"
  have g: "sound cfg d (change_groups ?hit opened d)" using True by (intro sound_opened) auto
  have "sound cfg d (log_event e (change_pipelines (\<lambda>p. p_id p = p_id row) (lease_returned ts) (change_groups ?hit opened d)))" for e
    by (rule sound_trans [OF g], rule sound_trans [OF sound_runs sound_change(2)]) (rule stage2_rows)
  with g True show ?thesis by (simp add: release_stage3_lock_def opened_row Let_def)
qed (simp add: release_stage3_lock_def)

lemma sound_mark_stage3_failed [simp]: "sound cfg d (snd (mark_stage3_failed now pid code detail d))"
proof -
  have "sound cfg d (snd (release_stage3_lock ts row (change_pipelines (\<lambda>p. p_id p = pid) (stage3_failed ts code detail) d)))"
    for ts row
    by (rule sound_trans [OF sound_runs sound_release_stage3]) simp
  then show ?thesis by (simp add: mark_stage3_failed_def split_beta split: option.splits)
qed

lemma sound_fail_stage3 [simp]: "sound cfg d (snd (fail_stage3 now pid code detail d))"
  by (simp add: fail_stage3_def)

lemma sound_renew [simp]: "sound cfg d (snd (renew_strategy_pipeline cfg now pid token ls None d))"
  using sound_services [of cfg "Inl (Renew now pid token ls None)" d] by (simp add: or_default_def)

lemma sound_heartbeat_failure [simp]: "sound cfg d (snd (lease_heartbeat_failure cfg now pid token lost d))"
  using sound_renew [of cfg d now pid "text_of token" None]
  by (auto simp: lease_heartbeat_failure_def split_beta split: option.splits)

lemma sound_persist_stage3: "persist_stage3 env now pid route text d = Inr d' \<Longrightarrow> sound cfg d d'"
proof -
  assume p: "persist_stage3 env now pid route text d = Inr d'"
  let ?seg = "\<lambda>s. s\<lparr>sg_selected_strategy_id := Some (st_selected text), sg_updated_at := fmt_ms now\<rparr>"
  from p obtain d1 P where 1: "checked_update pid (generated_run env (fmt_ms now) route text) d = Inr d1"
    and d': "d' = d1\<lparr>segments := update_where P ?seg (segments d1)\<rparr>"
    by (auto simp: persist_stage3_def andthen_Inr_iff)
  from 1 have "sound cfg d d1" by (rule sound_checked) simp
  also have "sound cfg d1 d'"
    unfolding d' by (rule sound_segments) (simp_all add: key_ok_def split: dedupe_key.splits)
  finally show ?thesis .
qed

lemma sound_record_stage3 [simp]: "sound cfg d (snd (record_stage3 cfg env now lost p route answer d))"
proof (cases answer)
  case (Inr w)
  obtain why d1 where h: "lease_heartbeat_failure cfg now (p_id p) (p_room_lock_token p) lost d = (why, d1)" by force
  with sound_heartbeat_failure [of cfg d now "p_id p" "p_room_lock_token p" lost] have d1: "sound cfg d d1" by simp
  show ?thesis
    using d1 by (auto simp: record_stage3_def Inr h split: option.splits sum.splits
        intro: sound_trans sound_trans [OF d1 sound_persist_stage3])
qed (simp add: record_stage3_def split_beta)

lemma sound_execute_for_pipeline [simp]:
  "sound cfg d (snd (execute_for_pipeline cfg env render now lost first_call repair_call pid d))"
proof -
  have run: "sound cfg d (snd (fail_stage3 now pid code detail (mark_stage3_running ts pid d)))"
    "sound cfg d (snd (record_stage3 cfg env' now lost p route answer (mark_stage3_running ts pid d)))"
    for code detail ts env' p route answer
    by (rule sound_trans [OF sound_mark_running sound_fail_stage3])
      (rule sound_trans [OF sound_mark_running sound_record_stage3])
  then show ?thesis
    by (auto simp: execute_for_pipeline_def Let_def split: option.splits sum.splits)
qed

subsection \<open>The transaction of the message\<close>

lemma reopened_row: "reopened t = (\<lambda>g. g\<lparr>g_state := ''OPEN'', g_version := g_version g + 1, g_lock_token := None,
    g_lock_expires_at := None, g_active_intervention_run_id := None, g_last_intervention_at := t g\<rparr>)"
  by (rule ext) (simp add: reopened_def opened_def OPEN_STATE_def)

lemma sound_open_room: "open_room_after t u d = Inr d' \<Longrightarrow> truthy (pu_lock_token u) \<Longrightarrow> sound cfg d d'"
  by (auto simp: open_room_after_def Let_def reopened_row [symmetric] split: if_splits intro!: sound_reopened)

lemma sound_leave_room: "leave_room ts u d = Inr d' \<Longrightarrow> sound cfg d d'"
  by (auto simp: leave_room_def sound_notes split: if_splits dest: sound_open_room)

lemma sound_settle_silence [simp]: "sound cfg d (settle_silence_segment ts published r d)"
proof -
  have "sound cfg d (d\<lparr>segments := update_where P (\<lambda>s. s\<lparr>sg_intervention_run_id := i,
      sg_intervention_published_at := published s, sg_intervention_disposition := x, sg_updated_at := ts\<rparr>) (segments d)\<rparr>)"
    for P i x
    by (rule sound_segments) (simp_all add: key_ok_def split: dedupe_key.splits)
  then show ?thesis by (simp add: settle_silence_segment_def)
qed

lemma sound_write_message [simp]: "sound cfg d (snd (write_message ts u s sera d))"
proof -
  have 1: "sound cfg d (snd (next_message_sequence gid d))" for gid
    by (simp add: next_message_sequence_def Let_def sound_notes)
  have 2: "sound cfg d1 (d1\<lparr>messages := ms, next_message_id := n\<rparr>)" for d1 ms n
    by (rule sound_tables) (simp_all add: window_view_def)
  show ?thesis
    by (simp add: write_message_def Let_def split_beta sound_trans [OF 1 2] split: option.splits)
qed

lemma sound_log_publication [simp]: "sound cfg d (log_publication ts u s mid d)"
  by (rule sound_tables) (simp_all add: log_publication_def Let_def window_view_def)

lemma sound_run_written [simp]: "sound cfg d (change_interventions J h d)"
  by (rule sound_change)

text \<open>The cursors gain a fresh row or change their observation columns.\<close>

lemma plain_cursor_ok [simp]: "cursor_ok (plain_cursor sc ts)" "cursor_scope (plain_cursor sc ts) = sc"
  "c_last_finalized_student_sequence (plain_cursor sc ts) = 0"
  by (cases sc; simp add: plain_cursor_def cursor_ok_def cursor_scope_def)+

lemma observing_cursor_forward: "cursor_forward (observing_cursor ts q)"
  by (auto simp: cursor_forward_def observing_cursor_def cursor_scope_def cursor_ok_def split: option.splits)

lemma sound_cursor_added:
  assumes "cursor_of d sc = None"
  shows "sound cfg d (d\<lparr>cursors := cursors d @ [plain_cursor sc ts]\<rparr>)"
proof -
  let ?d = "d\<lparr>cursors := cursors d @ [plain_cursor sc ts]\<rparr>"
  have fin: "finalized_through ?d k = finalized_through d k" for k
    using assms by (auto simp: finalized_through_def cursor_of_def find_append split: option.splits)
  have "safe_step d ?d" if inv: "batch_inv d"
    using inv assms fin
    by (auto simp: safe_step_def batch_inv_def batches_inv_def segments_inv_def single_flight_def finalized_inv_def
        cursors_inv_def cursor_of_def find_None_iff)
  then show ?thesis by (intro sound_quiet quiet_rooms) simp
qed

lemma sound_observing: "sound cfg d (change_cursor sc (observing_cursor ts q) d)"
proof (rule sound_quiet)
  show "quiet cfg d (change_cursor sc (observing_cursor ts q) d)" by (simp add: quiet_rooms)
  show "batch_inv d \<Longrightarrow> safe_step d (change_cursor sc (observing_cursor ts q) d)"
    using change_cursor_inv [OF observing_cursor_forward] forward_finalized_through [OF observing_cursor_forward]
    by (simp add: safe_step_def change_cursor_def)
qed

lemma sound_begin_observation [simp]: "sound cfg d (snd (begin_discussion_observation ts gid session sequence discussion d))"
proof -
  have "sound cfg d (change_cursor sc (observing_cursor ts q)
      (if cursor_of d sc = None then d\<lparr>cursors := cursors d @ [plain_cursor sc ts]\<rparr> else d))" for sc q
    using sound_trans [OF sound_cursor_added sound_observing] sound_observing by simp
  then show ?thesis by (auto simp: begin_discussion_observation_def Let_def split: option.splits)
qed

lemma sound_new_publication:
  assumes "new_publication ts u s r sera d = Inr (mid, d')"
  shows "sound cfg d d'"
proof -
  obtain m written d1 where w: "write_message ts u s sera d = ((m, written), d1)" by (metis surj_pair)
  let ?d3 = "log_publication ts u s m (settle_silence_segment ts (\<lambda>_. Some ts) r
    (change_interventions (\<lambda>x. ir_id x = ir_id r) (run_spoken ts u s m) d1))"
  have "sound cfg d d1" using sound_write_message [of cfg d ts u s sera] w by simp
  also have "sound cfg d1 ?d3"
    by (rule sound_trans [OF sound_trans [OF sound_run_written sound_settle_silence] sound_log_publication])
  finally have d3: "sound cfg d ?d3" .
  from assms obtain d4 where l: "leave_room ts u ?d3 = Inr d4"
    and d': "d' = (case written of None \<Rightarrow> d4 | Some q \<Rightarrow>
      snd (begin_discussion_observation ts (pu_group_id u) (ds_session_id s) (Some q) None d4))"
    by (auto simp: new_publication_def update_intervention_def w Let_def andthen_Inr_iff split: if_splits)
  have "sound cfg d d4" by (rule sound_trans [OF d3 sound_leave_room [OF l]])
  then show ?thesis
    unfolding d' by (cases written) (simp_all add: sound_trans [OF _ sound_begin_observation])
qed

lemma sound_repeat_publication:
  assumes "repeat_publication ts u r d = Inr d'"
  shows "sound cfg d d'"
proof -
  from assms obtain d1 where d1: "d1 = d \<or> truthy (pu_lock_token u) \<and> (\<exists>t. open_room_after t u d = Inr d1)"
    and d': "\<exists>f. d' = settle_silence_segment ts f r (change_interventions (\<lambda>x. ir_id x = ir_id r) (run_spoken_before ts) d1)"
    by (auto simp: repeat_publication_def update_intervention_def andthen_Inr_iff split: if_splits)
  have "sound cfg d d1" using d1 sound_open_room by auto
  then show ?thesis using d' sound_trans [OF sound_run_written sound_settle_silence] sound_trans by metis
qed

lemma sound_publish [simp]: "sound cfg d (snd (publish_agent_intervention now u d))"
proof -
  have "sound cfg d (snd (speak ts u s sera d))" for ts s sera
    by (auto simp: speak_def split: option.splits sum.splits dest: sound_new_publication sound_repeat_publication)
  then show ?thesis
    by (auto simp: publish_agent_intervention_def split: option.splits sum.splits)
qed

subsection \<open>The publisher\<close>

lemma publication_views [simp]:
  "lease_view (preflighted_run ts released final terminal reason p) = lease_view p"
  "lease_view (ended_run ts released final e p) = lease_view p"
  "lease_view (published_run env ts mid latest bi p) = lease_view p"
  by (simp_all add: lease_view_def preflighted_run_def ended_run_def published_run_def)

lemma sound_release_publish [simp]: "sound cfg d (snd (release_publish_lock ts row d))"
proof (cases "truthy (p_room_lock_token row)")
  case True
  let ?hit = "\<lambda>g. g_id g = p_group_id row \<and> g_lock_token g = p_room_lock_token row
    \<and> g_active_intervention_run_id g = Some (- p_id row)"
  have "sound cfg d (change_groups ?hit opened d)" using True by (intro sound_opened) auto
  then show ?thesis
    using True sound_trans [OF _ sound_change(2)] by (simp add: release_publish_lock_def opened_row Let_def)
qed (simp add: release_publish_lock_def)

lemma sound_block_preflight [simp]: "sound cfg d (snd (block_preflight now pid b d))"
proof -
  have "sound cfg d (change_interventions J h (change_pipelines P (preflighted_run ts rel final terminal why)
      (snd (release_publish_lock ts row d))))" for J h P ts rel final terminal why row
    by (rule sound_trans [OF sound_trans [OF sound_release_publish sound_runs] sound_change(1)]) simp
  then show ?thesis by (auto simp: block_preflight_def Let_def split_beta split: option.splits)
qed

lemma sound_finish_preflight [simp]: "sound cfg d (snd (finish_preflight now pid g d))"
  by (cases g) (simp_all add: finish_preflight_def)

lemma sound_replacement [simp]:
  "sound cfg d (snd (record_replacement_request now pid why t c d))"
  "sound cfg d (snd (link_pipeline_replacement now i j r t c d))"
proof -
  have "sound cfg d (change_pipelines P (\<lambda>p. p\<lparr>p_replacement_reason := a p, p_replacement_trigger_message_id := b p,
      p_replacement_cutoff_sequence := x p, p_updated_at := y\<rparr>) d)" for P a b x y
    by (rule sound_runs) (simp add: lease_view_def)
  then show "sound cfg d (snd (record_replacement_request now pid why t c d))"
    by (simp add: record_replacement_request_def Let_def split: option.splits)
  show "sound cfg d (snd (link_pipeline_replacement now i j r t c d))"
    by (intro sound_apart apart_sides lease_safe_frame) simp_all
qed

lemma sound_finish [simp]: "sound cfg d (snd (finish_without_publish now pid e d))"
proof (cases "fetch_pipeline d pid")
  case (Some row)
  obtain rel d1 where r: "release_publish_lock (fmt_ms now) row (request_if_stale now pid e row d) = (rel, d1)" by force
  let ?d2 = "change_pipelines (\<lambda>p. p_id p = pid) (ended_run (fmt_ms now) rel (final_status_of e) e) d1"
  have "sound cfg d (request_if_stale now pid e row d)" by (simp add: request_if_stale_def)
  also have "sound cfg (request_if_stale now pid e row d) d1"
    using sound_release_publish [of cfg "request_if_stale now pid e row d" "fmt_ms now" row] r by simp
  also have "sound cfg d1 ?d2" by (rule sound_runs) simp
  also have "sound cfg ?d2 (close_intervention (fmt_ms now) e ?d2)" by (simp add: close_intervention_def)
  also have "sound cfg (close_intervention (fmt_ms now) e ?d2) (link_superseding now pid e (close_intervention (fmt_ms now) e ?d2))"
    by (simp add: link_superseding_def split: option.splits)
  finally show ?thesis by (simp add: finish_without_publish_def Some r)
qed (simp add: finish_without_publish_def)

lemma sound_request_replacement [simp]: "sound cfg d (request_replacement_assessment senv now pid latest d)"
  by (auto simp: request_replacement_assessment_def split: option.splits)

lemma sound_open_publication [simp]: "sound cfg d (snd (open_publication cfg now p d))"
proof -
  have claim: "sound cfg d1 (snd (get_or_create_intervention_run now pid d1))" for pid d1
    by (rule sound_tables) (auto simp: get_or_create_intervention_run_def Let_def window_view_def
        split: option.splits list.splits)
  then show ?thesis
    using sound_trans [OF sound_renew claim] by (auto simp: open_publication_def split_beta)
qed

lemma sound_attempts [simp]: "sound cfg d (snd (publish_attempts env p run n now locked d))"
  by (induction env p run n now locked d rule: publish_attempts.induct)
    (auto split: sum.splits gate_result.splits)

lemma sound_mark_published:
  assumes "mark_published env now pid run mid d = Inr (out, d')"
  shows "sound cfg d d'"
proof (cases "fetch_pipeline d pid")
  case (Some row)
  let ?ts = "fmt_ms now"
  obtain started d1 where o: "mark_observation_started ?ts (Some row) (Some mid) d = (started, d1)" by force
  have "sound cfg d (change_pipelines P (\<lambda>r. observe_row (started_observation ts q (c r) x) ts r) d)" for P ts q c x
    by (rule sound_runs) (simp add: lease_view_def)
  then have d1: "sound cfg d d1"
    using arg_cong [OF o, of snd] by (auto simp: mark_observation_started_def split: option.splits if_splits)
  from assms obtain bi d3 P where
    3: "checked_update pid (published_run env ?ts mid (latest_student_of row d) bi)
      (snd (begin_discussion_observation ?ts (p_group_id row) (p_session_id row)
        (case started of Inl _ \<Rightarrow> None | Inr q \<Rightarrow> Some q) (p_discussion_id row) d1)) = Inr d3"
    and d': "d' = (let d4 = change_interventions (\<lambda>r. ir_id r = run)
        (\<lambda>r. r\<lparr>ir_publish_status := Some ''PUBLISHED'', ir_strategy_pipeline_run_id := Some pid\<rparr>) d3
      in d4\<lparr>segments := update_where P (\<lambda>s. s\<lparr>sg_intervention_run_id := Some run,
        sg_intervention_published_at := coalesce (sg_intervention_published_at s) (Some ?ts),
        sg_intervention_disposition := Some ''PUBLISHED'',
        sg_selected_strategy_id := p_selected_strategy_id row, sg_updated_at := ?ts\<rparr>) (segments d4)\<rparr>)"
    by (auto simp: mark_published_def Some o andthen_Inr_iff Let_def)
  have "sound cfg d d3"
    by (rule sound_trans [OF sound_trans [OF d1 sound_begin_observation] sound_checked [OF 3]]) simp
  also have "sound cfg d3 d'"
    unfolding d' Let_def
    by (rule sound_trans [OF sound_change(1) sound_segments]) (simp_all add: key_ok_def split: dedupe_key.splits)
  finally show ?thesis .
qed (use assms in \<open>simp add: mark_published_def Let_def\<close>)

lemma sound_settle_attempt [simp]: "sound cfg d (snd (settle_attempt env senv now pid run a d))"
proof (cases a)
  case (Refused f)
  then show ?thesis
    using sound_trans [OF sound_finish [of cfg d now pid "refused_ending f run"] sound_request_replacement]
    by (simp add: settle_attempt_def split_beta)
qed (auto simp: settle_attempt_def split: sum.splits dest: sound_mark_published)

lemma sound_publish_allowed [simp]: "sound cfg d (snd (publish_allowed cfg env senv now locked p d))"
proof -
  obtain run d1 where o: "open_publication cfg now p d = (run, d1)" by force
  have d1: "sound cfg d d1" using sound_open_publication [of cfg d now p] o by simp
  show ?thesis
  proof (cases run)
    case (Inr i)
    have "sound cfg d (snd (case publish_attempts env row i n now locked d1 of
        (Inl e, d2) \<Rightarrow> (Inl e, d2) | (Inr a, d2) \<Rightarrow> settle_attempt env senv now (p_id p) i a d2))" for row n
    proof -
      obtain a d2 where a: "publish_attempts env row i n now locked d1 = (a, d2)" by force
      have "sound cfg d d2" using sound_trans [OF d1 sound_attempts [of cfg d1 env row i n now locked]] a by simp
      then show ?thesis using sound_trans [OF _ sound_settle_attempt] by (cases a) (simp_all add: a)
    qed
    then show ?thesis using d1 by (simp add: publish_allowed_def o Inr split: option.splits)
  qed (simp add: publish_allowed_def o sound_trans [OF d1 sound_finish])
qed

lemma sound_publish_ready [simp]: "sound cfg d (snd (publish_ready_pipeline cfg env senv now locked pid d))"
  using sound_trans [OF sound_finish sound_request_replacement]
  by (auto simp: publish_ready_pipeline_def split_beta split: sum.splits gate_result.splits option.splits)

lemma sound_run_third_stage:
  assumes "fresh \<noteq> []" "cf_initial_ttl_seconds cfg \<le> cf_max_total_seconds cfg"
  shows "sound cfg d (snd (run_third_stage cfg env senv render now fresh lost c1 c2 locked pid d))"
proof -
  obtain lease d1 where c: "claim_strategy_pipeline cfg now now fresh pid None d = (lease, d1)" by force
  have d1: "sound cfg d d1" using sound_claim [OF assms, of d now pid] c by simp
  obtain r d2 where s: "start_third_stage cfg env render now fresh lost c1 c2 pid d = (r, d2)" by force
  have "sound cfg d d2"
    using arg_cong [OF s, of snd] sound_trans [OF d1 sound_execute_for_pipeline] sound_trans [OF d1 sound_fail_stage3]
    by (auto simp: start_third_stage_def c split: if_splits)
  then show ?thesis
    using sound_trans [OF _ sound_publish_ready]
    by (auto simp: run_third_stage_def s split_beta split: sum.splits gate_result.splits stage3_result.splits)
qed

end
