(* ===== verification/Platform_Services.thy ===== *)
theory Platform_Services
  imports Publication_Services
begin

text \<open>
  The program as one system: lease, coordination and second-stage requests, window requests,
  scheduler calls, the sections of an execution and of the third stage, in any order over one
  platform.  Every step is \<open>sound\<close>.
\<close>

subsection \<open>One system\<close>

datatype execution_request =
    Open_Execution scheduler_env datetime string int
  | Record_Execution stage2_env "json \<Rightarrow> string" scheduler_env datetime batch_row string "string + detection"
  | Lose_Lease datetime batch_row "string option"
  | Run_Third_Stage publish_env scheduler_env "json \<Rightarrow> string" datetime string "string option"
      gateway_call gateway_call "datetime list" int
  | Publish_Ready publish_env scheduler_env datetime "datetime list" int
  | Publish_Message datetime publication

fun execution_do :: "lease_config \<Rightarrow> execution_request \<Rightarrow> platform \<Rightarrow> platform" where
  "execution_do cfg (Open_Execution env now fresh bid) d = snd (open_execution cfg env now fresh bid d)"
| "execution_do cfg (Record_Execution senv render env now b mode result) d =
     snd (record_execution senv render env now b mode result d)"
| "execution_do cfg (Lose_Lease now b why) d = snd (lose_lease now b why d)"
| "execution_do cfg (Run_Third_Stage env senv render now fresh lost c1 c2 locked pid) d =
     snd (run_third_stage cfg env senv render now fresh lost c1 c2 locked pid d)"
| "execution_do cfg (Publish_Ready env senv now locked pid) d = snd (publish_ready_pipeline cfg env senv now locked pid d)"
| "execution_do cfg (Publish_Message now u) d = snd (publish_agent_intervention now u d)"

fun execution_ok :: "lease_config \<Rightarrow> execution_request \<Rightarrow> bool" where
  "execution_ok cfg (Open_Execution env now fresh bid) \<longleftrightarrow>
     fresh \<noteq> [] \<and> cf_initial_ttl_seconds cfg \<le> cf_max_total_seconds cfg"
| "execution_ok cfg (Run_Third_Stage env senv render now fresh lost c1 c2 locked pid) \<longleftrightarrow>
     fresh \<noteq> [] \<and> cf_initial_ttl_seconds cfg \<le> cf_max_total_seconds cfg"
| "execution_ok cfg _ \<longleftrightarrow> True"

type_synonym platform_request = "service_request + (window_request + scheduler_call) + execution_request"

definition platform_do :: "lease_config \<Rightarrow> platform_request \<Rightarrow> platform \<Rightarrow> platform" where
  "platform_do cfg = case_sum (services_do cfg) (case_sum assessment_do (execution_do cfg))"

text \<open>
  What is asked of a request: lock tokens are fresh and no requested lease is longer than the
  maximum.  Windows, calls of the scheduler and second-stage transactions need nothing.
\<close>

definition platform_ok :: "lease_config \<Rightarrow> platform_request \<Rightarrow> platform \<Rightarrow> bool" where
  "platform_ok cfg r d \<longleftrightarrow>
     (case r of Inl (Inl q) \<Rightarrow> lease_ok cfg q d | Inr (Inr q) \<Rightarrow> execution_ok cfg q | _ \<Rightarrow> True)"

lemma sound_execution: "execution_ok cfg r \<Longrightarrow> sound cfg d (execution_do cfg r d)"
  by (cases r) (simp_all add: sound_open_execution sound_record_execution sound_lose_lease sound_run_third_stage)

lemma sound_platform:
  assumes "platform_ok cfg r d" shows "sound cfg d (platform_do cfg r d)"
proof (cases r)
  case (Inl q)
  have "fresh_runs d \<Longrightarrow> services_ok cfg q d"
    using assms Inl by (auto simp: platform_ok_def stage2_ok_def split: sum.splits)
  moreover have "\<not> fresh_runs d \<Longrightarrow> sound cfg d d'" for d' by (simp add: sound_def platform_inv_def)
  ultimately show ?thesis using sound_services [of cfg q d] Inl by (auto simp: platform_do_def)
next
  case (Inr q)
  with assms show ?thesis
    by (cases q) (simp_all add: platform_do_def platform_ok_def sound_assessment sound_execution)
qed

text \<open>The versions of the rooms and the finalized cursors of the discussions only grow.\<close>

definition progress :: "platform \<Rightarrow> int + scope \<Rightarrow> int" where
  "progress d k = (case k of Inl gid \<Rightarrow> room_version d gid | Inr sc \<Rightarrow> finalized_through d sc)"

interpretation system: monotone_system "platform_do cfg" "platform_ok cfg" "platform_inv cfg" progress for cfg
  using sound_platform
  by unfold_locales (auto simp: sound_def progress_def evolve_version split: sum.splits)

lemma sound_run: "admissible (platform_do cfg) (platform_ok cfg) rs d \<Longrightarrow> sound cfg d (fold (platform_do cfg) rs d)"
proof (induction rs arbitrary: d)
  case (Cons r rs)
  then have "sound cfg d (platform_do cfg r d)" by (simp add: sound_platform)
  also from Cons have "sound cfg (platform_do cfg r d) (fold (platform_do cfg) rs (platform_do cfg r d))" by simp
  finally show ?case by simp
qed simp

text \<open>Between two moments of a run, the earlier one sound and the rest of the run after it.\<close>

lemma sound_between:
  assumes run: "admissible (platform_do cfg) (platform_ok cfg) rs d" and inv: "platform_inv cfg d" and le: "i \<le> j"
  shows "rooms_follow (fold (platform_do cfg) (take i rs) d) (fold (platform_do cfg) (take j rs) d)"
proof -
  let ?d = "fold (platform_do cfg) (take i rs) d" and ?rest = "take (j - i) (drop i rs)"
  have split: "take j rs = take i rs @ ?rest" using take_add [of i "j - i" rs] le by simp
  have "admissible (platform_do cfg) (platform_ok cfg) (take j rs) d"
    using run admissible_append [of "platform_do cfg" "platform_ok cfg" "take j rs" "drop j rs" d]
    unfolding append_take_drop_id by blast
  then have "admissible (platform_do cfg) (platform_ok cfg) (take i rs) d"
      "admissible (platform_do cfg) (platform_ok cfg) ?rest ?d"
    unfolding split admissible_append by simp_all
  then have "platform_inv cfg ?d" "sound cfg ?d (fold (platform_do cfg) ?rest ?d)"
    using sound_run inv by (auto simp: sound_def)
  then have "rooms_evolve (groups ?d) (groups (fold (platform_do cfg) (take j rs) d))"
    unfolding split by (simp add: sound_def)
  then show ?thesis by (rule evolving_rooms_follow)
qed

end
