(* ===== verification/Segment_Properties.thy ===== *)
theory Segment_Properties
  imports Segment_Normalization Samples
begin

text \<open>
  The properties of segment validation and of the fallback ranges: what an accepted answer
  looks like, and that contiguous ranges cover exactly the given sequences.
\<close>

subsection \<open>An accepted answer\<close>

definition segment_wf :: "batch_row \<Rightarrow> int set option \<Rightarrow> normal_segment \<Rightarrow> bool" where
  "segment_wf b students n \<longleftrightarrow>
     b_candidate_start_sequence b \<le> ns_start n \<and> ns_start n \<le> ns_end n
     \<and> ns_end n \<le> b_candidate_end_sequence b
     \<and> among students (ns_start n) \<and> among students (ns_end n)
     \<and> (\<forall>q\<in>set (ns_evidence n). ns_start n \<le> q \<and> q \<le> ns_end n \<and> among students q)
     \<and> distinct (ns_evidence n) \<and> length (ns_evidence n) \<le> 3
     \<and> ns_state_code n \<in> set SEGMENT_STATE_CODES
     \<and> (\<forall>c. ns_canonical n = Some c \<longrightarrow> c \<in> set CANONICAL_SUB_STATE_CODES)
     \<and> (\<forall>r. ns_confidence n = Some (Fin r) \<longrightarrow> 0 \<le> r \<and> r \<le> 1)
     \<and> ns_source n \<in> set SEGMENT_SOURCES \<and> ns_assessment_status n \<in> set SEGMENT_ASSESSMENT_STATUSES
     \<and> ns_active n \<in> {0, 1} \<and> 0 \<le> ns_order n"

lemma evidence_loop_wf:
  "evidence_loop s e students acc vs = Inr qs \<Longrightarrow> distinct acc \<Longrightarrow>
   (\<forall>q\<in>set acc. s \<le> q \<and> q \<le> e \<and> among students q) \<Longrightarrow>
   distinct qs \<and> (\<forall>q\<in>set qs. s \<le> q \<and> q \<le> e \<and> among students q)"
proof (induction vs arbitrary: acc)
  case (Cons v vs)
  from Cons.prems(1) obtain q where q: "s \<le> q" "q \<le> e" "among students q"
      "evidence_loop s e students (if q \<in> set acc then acc else acc @ [q]) vs = Inr qs"
    by (auto simp: andthen_Inr_iff not_less split: if_splits)
  show ?case
    by (rule Cons.IH [OF q(4)]) (use Cons.prems(2,3) q(1-3) in auto)
qed simp

lemma segment_evidence_wf:
  "segment_evidence s e students item = Inr qs \<Longrightarrow>
   distinct qs \<and> length qs \<le> 3 \<and> (\<forall>q\<in>set qs. s \<le> q \<and> q \<le> e \<and> among students q)"
  by (auto simp: segment_evidence_def andthen_Inr_iff dest: evidence_loop_wf
      split: json.splits if_splits)

lemma segment_confidence_wf:
  "segment_confidence item = Inr (Some (Fin r)) \<Longrightarrow> 0 \<le> r \<and> r \<le> 1"
  by (auto simp: segment_confidence_def Let_def split: json.splits option.splits pyfloat.splits if_splits)

lemma normalize_item_wf:
  assumes "normalize_item library render b students index seen j = Inr n"
  shows "segment_wf b students n \<and> ns_order n \<notin> set seen"
proof -
  from assms obtain item canonical k where
    j: "j = JObj item" and
    c: "segment_canonical item = Inr canonical" "ns_canonical n = canonical" and
    st: "segment_state item canonical = Inr (ns_state_code n)" and
    r: "segment_range b students item = Inr (ns_start n, ns_end n)" and
    k: "segment_order index seen item = Inr (ns_order n)" and
    ev: "segment_evidence (ns_start n) (ns_end n) students item = Inr (ns_evidence n)" and
    cf: "segment_confidence item = Inr (ns_confidence n)" and
    so: "segment_choice item ''source'' ''llm'' SEGMENT_SOURCES ''invalid_segment_source'' = Inr (ns_source n)" and
    sa: "segment_choice item ''assessment_status'' ''confirmed'' SEGMENT_ASSESSMENT_STATUSES
          ''invalid_segment_assessment_status'' = Inr (ns_assessment_status n)" and
    ac: "segment_active item = Inr (ns_active n)"
    by (auto simp: normalize_item_def andthen_Inr_iff split: json.splits)
  have "c \<in> set CANONICAL_SUB_STATE_CODES" if "ns_canonical n = Some c" for c
    using c that normalize_canonical_mem
    by (auto simp: segment_canonical_def Let_def split: if_splits)
  moreover have "ns_state_code n \<in> set SEGMENT_STATE_CODES"
    using st by (auto simp: segment_state_def Let_def split: if_splits)
  moreover have "b_candidate_start_sequence b \<le> ns_start n \<and> ns_start n \<le> ns_end n
      \<and> ns_end n \<le> b_candidate_end_sequence b \<and> among students (ns_start n) \<and> among students (ns_end n)"
    using r by (auto simp: segment_range_def andthen_Inr_iff not_less split: if_splits)
  moreover have "0 \<le> ns_order n \<and> ns_order n \<notin> set seen"
    using k by (auto simp: segment_order_def andthen_Inr_iff not_less split: if_splits)
  moreover have "ns_source n \<in> set SEGMENT_SOURCES" "ns_assessment_status n \<in> set SEGMENT_ASSESSMENT_STATUSES"
    using so sa by (auto simp: segment_choice_def Let_def split: if_splits)
  moreover have "ns_active n \<in> {0, 1}"
    using ac by (auto simp: segment_active_def split: json.splits if_splits)
  ultimately show ?thesis
    using segment_evidence_wf [OF ev] segment_confidence_wf [of item] cf
    by (auto simp: segment_wf_def)
qed

lemma normalize_items_wf:
  "normalize_items library render b students index seen js = Inr ns \<Longrightarrow>
   (\<forall>n\<in>set ns. segment_wf b students n \<and> ns_order n \<notin> set seen)
   \<and> distinct (map ns_order ns) \<and> length ns = length js"
proof (induction js arbitrary: index seen ns)
  case (Cons j js)
  from Cons.prems obtain n rest where
    n: "normalize_item library render b students index seen j = Inr n"
    and rest: "normalize_items library render b students (index + 1) (ns_order n # seen) js = Inr rest"
    and ns: "ns = n # rest"
    by (auto simp: andthen_Inr_iff)
  from normalize_item_wf [OF n] Cons.IH [OF rest] show ?case by (auto simp: ns)
qed simp

lemma adjacent_chain:
  assumes "\<forall>n\<in>set ns. (ns_start n::int) \<le> ns_end n"
    and "\<not> list_ex (\<lambda>(p, c). ns_start c \<le> ns_end p) (zip ns (tl ns))"
  shows "sorted_wrt (\<lambda>p c. ns_end p < ns_start c) ns"
  using assms
proof (induction ns)
  case (Cons p ns)
  have chain: "sorted_wrt (\<lambda>p c. ns_end p < ns_start c) ns"
    using Cons by (cases ns) auto
  have "ns_end p < ns_start c" if "c \<in> set ns" for c
  proof (cases ns)
    case (Cons q rest)
    with Cons.prems(2) have "ns_end p < ns_start q" by auto
    moreover have "ns_start q \<le> ns_start c"
      using chain that Cons Cons.prems(1) by fastforce
    ultimately show ?thesis by simp
  qed (use that in simp)
  with chain show ?case by simp
qed simp

text \<open>
  C39. An answer that passes validation is a sequence of segments, one for each item, in the
  order of their distinct numbers and pairwise disjoint in that order; each lies in the
  candidate window, begins and ends at a student message, has at most three distinct pieces
  of evidence, all student messages inside it, and carries known codes; a confidence that
  is a number is between 0 and 1.
\<close>

theorem normalized_segments_well_formed:
  assumes "normalize_segments library render b students j = Inr ns"
  shows "sorted_wrt (\<lambda>p c. ns_end p < ns_start c) ns
    \<and> sorted_wrt (\<lambda>p c. ns_order p < ns_order c) ns
    \<and> (\<forall>n\<in>set ns. segment_wf b students n)
    \<and> (\<exists>js. j = JList js \<and> length ns = length js)"
proof -
  from assms obtain js raw where
    js: "j = JList js" and raw: "normalize_items library render b students 0 [] js = Inr raw"
    and ns: "ns = sort_key ns_order raw"
    and adj: "\<not> list_ex (\<lambda>(p, c). ns_start c \<le> ns_end p) (zip ns (tl ns))"
    by (auto simp: normalize_segments_def andthen_Inr_iff Let_def split: json.splits if_splits)
  note wf = normalize_items_wf [OF raw]
  have all: "\<forall>n\<in>set ns. segment_wf b students n" using wf by (simp add: ns)
  then have "sorted_wrt (\<lambda>p c. ns_end p < ns_start c) ns"
    by (intro adjacent_chain [OF _ adj]) (auto simp: segment_wf_def)
  moreover have "sorted (map ns_order ns)" unfolding ns by (rule sorted_sort_key)
  moreover have "distinct (map ns_order ns)" using wf by (simp add: ns distinct_map)
  then have "sorted_wrt (<) (map ns_order ns)"
    unfolding strict_sorted_iff using \<open>sorted (map ns_order ns)\<close> by blast
  then have "sorted_wrt (\<lambda>p c. ns_order p < ns_order c) ns" unfolding sorted_wrt_map .
  ultimately show ?thesis using all wf js by (auto simp: ns)
qed

definition demo_answer :: json where
  "demo_answer = JList
     [JObj [(''canonical_sub_state_code'', JStr ''confusion''), (''start_sequence'', JInt 3),
            (''end_sequence'', JInt 4), (''segment_order'', JInt 1), (''confidence'', JFloat (Fin (3/4)))],
      JObj [(''state'', JStr ''unknown''), (''start_message_id'', JStr ''1''), (''end_message_id'', JInt 2),
            (''segment_order'', JInt 0), (''evidence_sequences'', JList [JInt 2, JInt 2])]]"

lemma normalized_segments_well_formed_witness:
  "let ns = projr (normalize_segments (set table_ids) (\<lambda>_. []) blank_batch (Some {1, 2, 3, 4}) demo_answer)
   in map ns_start ns = [1, 3] \<and> sorted_wrt (\<lambda>p c. ns_end p < ns_start c) ns"
proof -
  let ?r = "normalize_segments (set table_ids) (\<lambda>_. []) blank_batch (Some {1, 2, 3, 4}) demo_answer"
  have "isl ?r = False" and starts: "map ns_start (projr ?r) = [1, 3]" by code_simp+
  then have "?r = Inr (projr ?r)" by (cases ?r) simp_all
  from normalized_segments_well_formed [OF this] starts show ?thesis by (simp only: Let_def)
qed

subsection \<open>Contiguous ranges\<close>

definition covered :: "(int \<times> int) list \<Rightarrow> int set" where
  "covered ranges = {q. \<exists>(s, e)\<in>set ranges. s \<le> q \<and> q \<le> e}"

lemma covered_Cons: "covered ((s, e) # rs) = {s..e} \<union> covered rs"
  by (auto simp: covered_def)

lemma range_loop_spec:
  "sorted_wrt (<) (p # qs) \<Longrightarrow> s \<le> p \<Longrightarrow>
   covered (range_loop s p qs) = {s..p} \<union> set qs
   \<and> sorted_wrt (\<lambda>(a, b) (a', b'). b + 1 < a') (range_loop s p qs)
   \<and> (\<forall>(a, b)\<in>set (range_loop s p qs). s \<le> a \<and> a \<le> b)"
proof (induction qs arbitrary: s p)
  case Nil
  then show ?case by (auto simp: covered_def)
next
  case (Cons q qs)
  show ?case
  proof (cases "q = p + 1")
    case True
    have "{s..p + 1} = insert (p + 1) {s..p}" using Cons.prems(2) by auto
    with Cons.IH [of q s] Cons.prems True show ?thesis by simp
  next
    case False
    have "p < q" "sorted_wrt (<) (q # qs)" using Cons.prems(1) by simp_all
    with Cons.IH [of q q] False show ?thesis
      using Cons.prems(2) by (fastforce simp: covered_Cons)
  qed
qed

lemma contiguous_ranges_spec:
  "covered (contiguous_ranges qs) = set qs
   \<and> sorted_wrt (\<lambda>(a, b) (a', b'). b + 1 < a') (contiguous_ranges qs)
   \<and> (\<forall>(a, b)\<in>set (contiguous_ranges qs). a \<le> b)"
proof (cases "sorted_list_of_set (set qs)")
  case Nil
  then have "set qs = {}" by (metis List.finite_set set_empty sorted_list_of_set.set_sorted_key_list_of_set)
  with Nil show ?thesis by (simp add: contiguous_ranges_def covered_def)
next
  case (Cons q rest)
  have "set (sorted_list_of_set (set qs)) = set qs" by simp
  then have set: "set qs = insert q (set rest)" by (simp add: Cons)
  have "sorted_wrt (<) (sorted_list_of_set (set qs))" by (rule strict_sorted_list_of_set)
  then have "sorted_wrt (<) (q # rest)" by (simp only: Cons)
  note spec = range_loop_spec [OF this order_refl]
  have eq: "contiguous_ranges qs = range_loop q q rest"
    by (simp only: contiguous_ranges_def Cons list.case)
  show ?thesis unfolding eq set using spec by auto
qed

lemma contiguous_ranges_covers: "covered (contiguous_ranges qs) = set qs"
  using contiguous_ranges_spec by blast

text \<open>
  The contiguous ranges of a list of sequences cover exactly those sequences, in
  ascending order, and each is maximal: between two of them a sequence is missing.
\<close>

theorem contiguous_ranges_partition:
  "covered (contiguous_ranges qs) = set qs
   \<and> sorted_wrt (\<lambda>(a, b) (a', b'). b + 1 < a') (contiguous_ranges qs)
   \<and> (\<forall>(a, b)\<in>set (contiguous_ranges qs). a \<le> b)"
  by (rule contiguous_ranges_spec)

lemma contiguous_ranges_partition_witness:
  "contiguous_ranges [3, 1, 2, 7] = [(1, 3), (7, 7)] \<and> covered [(1, 3), (7, 7)] = {1, 2, 3, 7}"
proof -
  have "contiguous_ranges [3, 1, 2, 7] = [(1, 3), (7, 7)]" by code_simp
  with contiguous_ranges_partition [of "[3, 1, 2, 7]"] show ?thesis by (auto simp del: atLeastAtMost_iff)
qed

end
