(* ===== verification/Window_Properties.thy ===== *)
theory Window_Properties
  imports Scheduler_Services Segment_Properties
begin

text \<open>
  The properties of the assessment windows: their state machine and cursors along any
  sequence of requests, what a saved answer leaves behind, that giving a window up is
  idempotent and leaves no student message of it uncovered, and how a message is shown.
\<close>

subsection \<open>Runs\<close>

lemma windows_evolve_nth:
  assumes "windows_evolve bs bs'" and "i < length bs"
  shows "i < length bs' \<and> window_move (bs ! i) (bs' ! i)"
proof -
  from assms(1) obtain old new where "bs' = old @ new" and l: "list_all2 window_move bs old"
    by (auto simp: windows_evolve_def)
  with assms(2) list_all2_lengthD [OF l] list_all2_nthD [OF l] show ?thesis
    by (auto simp: nth_append)
qed

lemma window_moves_steps:
  assumes "windows_evolve\<^sup>*\<^sup>* bs bs'" and "i < length bs" and "machine_of (bs ! i) = Some s"
  shows "i < length bs' \<and> frozen_part (bs' ! i) = frozen_part (bs ! i)
    \<and> (\<exists>t. machine_of (bs' ! i) = Some t \<and> (window_step (b_max_attempts (bs ! i)))\<^sup>*\<^sup>* s t)"
  using assms
proof (induction rule: rtranclp_induct)
  case base
  then show ?case by auto
next
  case (step bs' bs'')
  then obtain t where t: "i < length bs'" "frozen_part (bs' ! i) = frozen_part (bs ! i)"
      "machine_of (bs' ! i) = Some t" "(window_step (b_max_attempts (bs ! i)))\<^sup>*\<^sup>* s t" by auto
  have move: "i < length bs''" "window_move (bs' ! i) (bs'' ! i)"
    using windows_evolve_nth [OF step.hyps(2) t(1)] by auto
  then obtain u where u: "machine_of (bs'' ! i) = Some u" "window_step (b_max_attempts (bs' ! i)) t u"
    using t(3) by (auto simp: window_move_def split: option.splits)
  have "b_max_attempts (bs' ! i) = b_max_attempts (bs ! i)" using t(2) by (simp add: frozen_part_def)
  with u t move show ?case
    by (auto simp: window_move_def intro: rtranclp.rtrancl_into_rtrancl)
qed

lemma succeeded_absorbing: "(window_step m)\<^sup>*\<^sup>* (Succeeded, n) t \<Longrightarrow> t = (Succeeded, n)"
  by (induction rule: rtranclp_induct) auto

lemma succeeded_machine: "machine_of b = Some (Succeeded, n) \<longleftrightarrow> b_status b = ''succeeded'' \<and> b_attempt_count b = n"
  by (auto simp: machine_of_def stage_of_iff)

text \<open>
  C10. Along any interleaving of requests to the window service and calls of the scheduler,
  at most one window of a discussion is pending or running, no window is ever attempted more often than allowed,
  and each window moves along its state machine, its scope, range and allowance fixed.
\<close>

theorem window_runs_refine_machine:
  assumes inv: "batch_inv d" and run: "d' = fold assessment_do rs d"
  shows "single_flight d' \<and> (\<forall>b\<in>set (batches d'). b_attempt_count b \<le> b_max_attempts b)
    \<and> (\<forall>b\<in>set (batches d). \<exists>b'\<in>set (batches d'). frozen_part b' = frozen_part b
         \<and> (\<exists>s t. machine_of b = Some s \<and> machine_of b' = Some t
              \<and> (window_step (b_max_attempts b))\<^sup>*\<^sup>* s t))"
proof -
  have inv': "batch_inv d'"
    unfolding run by (rule assessment_run_inv [OF inv])
  then have att: "b_attempt_count b \<le> b_max_attempts b" if "b \<in> set (batches d')" for b
    using that by (auto simp: batch_inv_def batches_inv_def batch_ok_def attempts_ok_def machine_of_def)
  have "\<exists>b'\<in>set (batches d'). frozen_part b' = frozen_part b
         \<and> (\<exists>s t. machine_of b = Some s \<and> machine_of b' = Some t
              \<and> (window_step (b_max_attempts b))\<^sup>*\<^sup>* s t)" if "b \<in> set (batches d)" for b
  proof -
    from that obtain i where i: "i < length (batches d)" "b = batches d ! i" by (auto simp: in_set_conv_nth)
    have "batch_ok b" using inv that by (simp add: batch_inv_def batches_inv_def)
    then obtain s where "machine_of b = Some s" unfolding batch_ok_def by (elim conjE exE)
    with window_moves_steps [OF assessment_runs_evolve [OF inv, of rs] i(1)] show ?thesis
      unfolding i(2) run by (metis nth_mem)
  qed
  with inv' att show ?thesis by (simp add: batch_inv_def batches_inv_def)
qed

definition demo_window :: batch_row where
  "demo_window = blank_batch\<lparr>b_status := ''running'', b_attempt_count := 1, b_student_sequences := Some [1, 5]\<rparr>"

definition student :: "int \<Rightarrow> message_row" where
  "student q = blank_message\<lparr>m_id := 100 + q, m_sequence := Some q\<rparr>"

definition windowed :: platform where
  "windowed = sample\<lparr>users := [\<lparr>u_id = 50, u_role = Some ''student'', u_username = []\<rparr>],
     messages := [student 1, student 3, student 5], batches := [demo_window], next_batch_id := 6\<rparr>"

lemma windowed_inv: "batch_inv windowed"
  by (simp add: batch_inv_parts windowed_def demo_window_def sample_def blank_defs batch_ok_def machine_of_def
      attempts_ok_def active_batch_def single_flight_def)

lemma window_runs_refine_machine_witness:
  "single_flight (fold assessment_do [Inl (Fail_Window 0 5 None None None), Inr (Begin_Execution 0 5), Inl (Retry_Window 0 5 None)] windowed)"
  using window_runs_refine_machine [OF windowed_inv refl] by blast

text \<open>
  C12. The finalized cursor of a discussion is sound and final: whatever window requests and
  scheduler calls are made, it never moves back and is never past the scheduled cursor; every
  window that has succeeded by then, before the run or during it, ends at or before the cursor
  of its discussion; and a window that had succeeded before is still succeeded.
\<close>

theorem finalized_cursor_is_sound:
  assumes inv: "batch_inv d" and run: "d' = fold assessment_do rs d"
  shows "finalized_through d sc \<le> finalized_through d' sc
    \<and> (\<forall>c. cursor_of d' sc = Some c \<longrightarrow>
         c_last_finalized_student_sequence c \<le> c_last_scheduled_student_sequence c)
    \<and> (\<forall>b\<in>set (batches d'). b_status b = ''succeeded'' \<longrightarrow>
         b_candidate_end_sequence b \<le> finalized_through d' (batch_scope b))
    \<and> (\<forall>b\<in>set (batches d). b_status b = ''succeeded'' \<longrightarrow>
         (\<exists>b'\<in>set (batches d'). b_id b' = b_id b \<and> b_status b' = ''succeeded''
            \<and> b_candidate_end_sequence b \<le> finalized_through d' (batch_scope b)))"
proof -
  have inv': "batch_inv d'" unfolding run by (rule assessment_run_inv [OF inv])
  have mono: "finalized_through d sc \<le> finalized_through d' sc"
    unfolding run by (rule assessment_run_mono [OF inv])
  have cur: "c_last_finalized_student_sequence c \<le> c_last_scheduled_student_sequence c"
    if "cursor_of d' sc = Some c" for c
    using cursor_ofD [OF that] inv' by (auto simp: batch_inv_def cursors_inv_def cursor_ok_def)
  have "\<exists>b'\<in>set (batches d'). b_id b' = b_id b \<and> b_status b' = ''succeeded''
      \<and> b_candidate_end_sequence b \<le> finalized_through d' (batch_scope b)"
    if b: "b \<in> set (batches d)" "b_status b = ''succeeded''" for b
  proof -
    from b(1) obtain i where i: "i < length (batches d)" "b = batches d ! i" by (auto simp: in_set_conv_nth)
    have "machine_of b = Some (Succeeded, b_attempt_count b)" using b(2) by (simp add: succeeded_machine)
    with window_moves_steps [OF assessment_runs_evolve [OF inv, of rs] i(1)] obtain t where
      t: "i < length (batches d')" "frozen_part (batches d' ! i) = frozen_part b"
        "machine_of (batches d' ! i) = Some t" "(window_step (b_max_attempts b))\<^sup>*\<^sup>* (Succeeded, b_attempt_count b) t"
      unfolding i(2) run by auto
    from succeeded_absorbing [OF t(4)] t(3) have st: "b_status (batches d' ! i) = ''succeeded''"
      by (simp add: succeeded_machine)
    have mem: "batches d' ! i \<in> set (batches d')" using t(1) by simp
    with inv' st have "b_candidate_end_sequence (batches d' ! i) \<le> finalized_through d' (batch_scope (batches d' ! i))"
      by (simp add: batch_inv_def finalized_inv_def)
    with t(2) st mem show ?thesis by (intro bexI [OF _ mem]) (simp add: frozen_part_def)
  qed
  moreover have "\<forall>b\<in>set (batches d'). b_status b = ''succeeded'' \<longrightarrow>
      b_candidate_end_sequence b \<le> finalized_through d' (batch_scope b)"
    using inv' by (simp add: batch_inv_def finalized_inv_def)
  ultimately show ?thesis using mono cur by blast
qed

definition answered_window :: platform where
  "answered_window = windowed\<lparr>batches := [demo_window\<lparr>b_status := ''succeeded''\<rparr>],
     cursors := [blank_cursor\<lparr>c_last_finalized_student_sequence := 5, c_last_scheduled_student_sequence := 5\<rparr>]\<rparr>"

lemma finalized_cursor_is_sound_witness:
  "5 \<le> finalized_through (fold assessment_do [Inl (Give_Up 0 5 None None True), Inr (Begin_Execution 0 5), Inl (Retry_Window 0 5 None)] answered_window) (7, 1, 3)"
proof -
  have inv: "batch_inv answered_window"
    by (simp add: batch_inv_parts answered_window_def windowed_def demo_window_def sample_def blank_defs batch_ok_def
        machine_of_def attempts_ok_def active_batch_def single_flight_def finalized_through_def cursor_of_def
        cursor_scope_def batch_scope_def cursor_ok_def)
  have "finalized_through answered_window (7, 1, 3) = 5"
    by (simp add: answered_window_def finalized_through_def cursor_of_def cursor_scope_def blank_defs)
  with finalized_cursor_is_sound [OF inv refl, of "(7, 1, 3)"] show ?thesis by metis
qed

subsection \<open>Saving an answer\<close>

lemma store_segments_rows:
  "store_segments b ts prompt ns d = Inr (ids, d') \<Longrightarrow>
   \<exists>new. segments d' = segments d @ new \<and> map fst ids = map ns_order ns \<and> map snd ids = map sg_id new
     \<and> list_all2 (\<lambda>n s. \<exists>raw i. s = (segment_of b ts prompt raw n)\<lparr>sg_id := i\<rparr>) ns new"
proof (induction ns arbitrary: d ids d')
  case Nil
  then show ?case by auto
next
  case (Cons n ns)
  from Cons.prems obtain raw d1 ids' where
    add: "add_segment (segment_of b ts prompt raw n) d = Inr d1" and
    rest: "store_segments b ts prompt ns d1 = Inr (ids', d')" and
    ids: "ids = (ns_order n, next_segment_id d) # ids'"
    by (auto simp: andthen_Inr_iff)
  let ?s = "(segment_of b ts prompt raw n)\<lparr>sg_id := next_segment_id d\<rparr>"
  from Cons.IH [OF rest] obtain new where
    new: "segments d' = segments d1 @ new" "map fst ids' = map ns_order ns" "map snd ids' = map sg_id new"
      "list_all2 (\<lambda>n s. \<exists>raw i. s = (segment_of b ts prompt raw n)\<lparr>sg_id := i\<rparr>) ns new" by auto
  from add have "segments d1 = segments d @ [?s]" by (auto simp: add_segment_def append_segment_def split: if_splits)
  with new ids show ?case by (intro exI [of _ "?s # new"]) auto
qed

lemma save_commit_effects:
  assumes c: "save_commit render ts b raw stored model prompt d = Inr d'"
    and b: "fetch_batch d (b_id b) = Some b" "b_status b = ''running''"
  shows "segments d' = segments d" and "fetch_batch d' (b_id b) = Some (succeeded_row ts raw model prompt stored b)"
proof -
  from save_commit_cases [OF c] obtain d1 where e: "ensure_cursor ts (batch_scope b) d = Inr d1"
    and d': "d' = change_batch (b_id b) (\<lambda>r. batch_scope r = batch_scope b \<and> b_status r = ''running'')
               (succeeded_row ts raw model prompt stored)
               (if observation_reason render stored \<notin> {[], ''continue_observing'', ''insufficient_evidence''}
                then change_cursor (batch_scope b) (stop_observing ts)
                  (change_cursor (batch_scope b) (finalized_to ts (b_candidate_end_sequence b)) d1)
                else change_cursor (batch_scope b) (finalized_to ts (b_candidate_end_sequence b)) d1)" .
  have rid: "b_id (succeeded_row ts raw model prompt stored r) = b_id r" for r by (simp add: succeeded_row_def)
  have same: "fetch_batch (change_cursor sc f x) k = fetch_batch x k" for sc f x k
    by (simp add: change_cursor_def)
  show "segments d' = segments d" unfolding d' using ensure_cursor_frame(2) [OF e] by simp
  have "fetch_batch d1 (b_id b) = Some b"
    using b(1) ensure_cursor_frame(1) [OF e] by (simp add: fetch_batch_def)
  with b(2) show "fetch_batch d' (b_id b) = Some (succeeded_row ts raw model prompt stored b)"
    unfolding d' change_batch_def by (simp add: windows.fetch_change rid same)
qed

text \<open>
  C25. A saved answer closes its window: the batch was running and is now succeeded without an
  error, exactly one new segment was added for each accepted item, in order, over the same
  range and with the same state, their ids are the ones returned, and both cursors of the
  discussion are at or past the end of the window.
\<close>

theorem saved_answer_closes_window:
  assumes inv: "batch_inv d" and saved: "sv_saved r"
    and s: "save_successful_segments library render now bid answer raw parsed model prompt d = Inr (r, d')"
  shows "\<exists>b b' ns new. fetch_batch d bid = Some b \<and> b_status b = ''running''
    \<and> fetch_batch d' bid = Some b' \<and> b_status b' = ''succeeded'' \<and> b_error_code b' = None
    \<and> normalize_segments library render b (Some (set (window_students d b))) answer = Inr ns
    \<and> segments d' = segments d @ new \<and> map sg_id new = sv_segment_ids r
    \<and> list_all2 (\<lambda>n g. sg_assessment_batch_id g = bid \<and> sg_start_sequence g = ns_start n
         \<and> sg_end_sequence g = ns_end n \<and> sg_state_code g = ns_state_code n
         \<and> sg_segment_order g = ns_order n) ns new
    \<and> (\<exists>c. cursor_of d' (batch_scope b) = Some c \<and> b_candidate_end_sequence b \<le> c_last_finalized_student_sequence c
          \<and> b_candidate_end_sequence b \<le> c_last_scheduled_student_sequence c)"
  using s
proof (cases rule: save_parts)
  case stored
  with saved show ?thesis by simp
next
  case (saved b ns ids d1)
  have b: "fetch_batch d bid = Some b" "b_id b = bid" using batch_with_scopeD [OF saved(1)] by auto
  have "segments_inv d" using inv by (simp add: batch_inv_def)
  with saved(4) have only: "segments_only d d1" by (rule store_segments_only)
  have b1: "fetch_batch d1 (b_id b) = Some b"
    using b segments_only_frame [OF only] by (simp add: fetch_batch_def)
  have inv1: "batch_inv d1" using segments_only_safe [OF only inv] by (simp add: safe_step_def)
  from store_segments_rows [OF saved(4)] obtain new where
    new: "segments d1 = segments d @ new" "map snd ids = map sg_id new"
      "list_all2 (\<lambda>n s. \<exists>raw i. s = (segment_of b (fmt_sec now) prompt raw n)\<lparr>sg_id := i\<rparr>) ns new" by auto
  have "list_all2 (\<lambda>n g. sg_assessment_batch_id g = bid \<and> sg_start_sequence g = ns_start n
         \<and> sg_end_sequence g = ns_end n \<and> sg_state_code g = ns_state_code n
         \<and> sg_segment_order g = ns_order n) ns new"
    by (rule list_all2_mono [OF new(3)]) (auto simp: segment_of_def b(2))
  moreover note effects = save_commit_effects [OF saved(5) b1 saved(2)]
  moreover have "\<exists>c. cursor_of d' (batch_scope b) = Some c \<and> b_candidate_end_sequence b \<le> c_last_finalized_student_sequence c
      \<and> b_candidate_end_sequence b \<le> c_last_scheduled_student_sequence c"
    by (rule save_commit_cursor [OF saved(5)])
  ultimately show ?thesis
    using b saved new
    by (intro exI [of _ b] exI [of _ "succeeded_row (fmt_sec now) raw model prompt (stored_answer ids parsed) b"]
        exI [of _ ns] exI [of _ new]) (simp add: succeeded_row_def)
qed

text \<open>
  A segment of the window whose order an accepted item has as well stops the whole answer: the
  unique index on window and order is not met.
\<close>

lemma store_segments_taken:
  assumes "s \<in> set (segments d)" "sg_assessment_batch_id s = b_id b" "sg_segment_order s \<in> ns_order ` set ns"
  shows "\<exists>e. store_segments b ts prompt ns d = Inl e"
proof (rule ccontr)
  assume "\<nexists>e. store_segments b ts prompt ns d = Inl e"
  then obtain ids d' where "store_segments b ts prompt ns d = Inr (ids, d')"
    by (cases "store_segments b ts prompt ns d") auto
  then show False using assms
  proof (induction ns arbitrary: d ids d')
    case (Cons n ns)
    from Cons.prems(1) obtain raw d1 ids' where add: "add_segment (segment_of b ts prompt raw n) d = Inr d1"
      and rest: "store_segments b ts prompt ns d1 = Inr (ids', d')" by (auto simp: andthen_Inr_iff)
    from add have free: "\<not> order_taken (segment_of b ts prompt raw n) d"
      and more: "set (segments d) \<subseteq> set (segments d1)"
      by (auto simp: add_segment_def append_segment_def split: if_splits)
    from free Cons.prems(2,3) have "sg_segment_order s \<noteq> ns_order n"
      by (auto simp: order_taken_def segment_of_def)
    with Cons.IH [OF rest] more Cons.prems(2-4) show ?case by auto
  qed simp
qed

definition window_answer :: json where
  "window_answer = JList [JObj [(''state'', JStr ''off_task''), (''start_sequence'', JInt 1), (''end_sequence'', JInt 3)],
     JObj [(''state'', JStr ''unknown''), (''start_sequence'', JInt 5), (''end_sequence'', JInt 5)]]"

abbreviation save_demo where
  "save_demo \<equiv> save_successful_segments {} (\<lambda>_. []) 7000000 5 window_answer None JNull None None windowed"

lemma saved_answer_closes_window_witness:
  "map sg_start_sequence (segments (committed windowed save_demo)) = [1, 5]
   \<and> (\<exists>b'. fetch_batch (committed windowed save_demo) 5 = Some b' \<and> b_status b' = ''succeeded'')"
proof -
  have "\<not> isl save_demo" "sv_saved (fst (projr save_demo))"
    and starts: "map sg_start_sequence (segments (committed windowed save_demo)) = [1, 5]" by code_simp+
  then have s: "save_demo = Inr (fst (projr save_demo), snd (projr save_demo))" by (cases save_demo) auto
  from saved_answer_closes_window [OF windowed_inv \<open>sv_saved (fst (projr save_demo))\<close> s]
  have "\<exists>b'. fetch_batch (snd (projr save_demo)) 5 = Some b' \<and> b_status b' = ''succeeded''" by blast
  moreover have "committed windowed save_demo = snd (projr save_demo)" by (subst (1) s) (simp add: committed_def)
  ultimately show ?thesis using starts by metis
qed

text \<open>
  Saving is idempotent: once a window has succeeded, saving any answer for it again
  changes nothing and returns the segments the window has.
\<close>

theorem saving_again_changes_nothing:
  assumes "batch_with_scope d bid = Inr b" and "b_status b = ''succeeded''"
  shows "\<exists>r. save_successful_segments library render now bid answer raw parsed model prompt d = Inr (r, d)
    \<and> \<not> sv_saved r \<and> sv_batch r = b \<and> set (sv_segments r) = {s \<in> set (segments d). sg_assessment_batch_id s = bid}"
  using assms by (auto simp: save_successful_segments_def segments_of_batch_def)

lemma saving_again_changes_nothing_witness:
  "\<exists>r. save_successful_segments {} (\<lambda>_. []) 9 5 JNull None JNull None None answered_window = Inr (r, answered_window)"
proof -
  have "batch_with_scope answered_window 5 = Inr (demo_window\<lparr>b_status := ''succeeded''\<rparr>)" by code_simp
  from saving_again_changes_nothing [OF this] show ?thesis by fastforce
qed

subsection \<open>Giving a window up\<close>

text \<open>Writing fallback segments keeps what a segment covers and under which key.\<close>

definition segment_core :: "segment_row \<Rightarrow> dedupe_key \<times> int \<times> int \<times> int \<times> string" where
  "segment_core s = (sg_dedupe_key s, sg_assessment_batch_id s, sg_start_sequence s, sg_end_sequence s, sg_assessment_status s)"

definition segments_grow :: "platform \<Rightarrow> platform \<Rightarrow> bool" where
  "segments_grow d d' \<longleftrightarrow> segment_core ` set (segments d) \<subseteq> segment_core ` set (segments d')"

lemma silenced_core:
  "segment_core ` set (segments (silence_segment ts k d)) = segment_core ` set (segments d)"
proof -
  have "map segment_core (segments (silence_segment ts k d)) = map segment_core (segments d)"
    by (simp add: silence_segment_def) (rule distinct_map_update, simp add: segment_core_def)
  then show ?thesis by (metis set_map)
qed

lemma written_grows: "insert_segment s d = Inr d' \<Longrightarrow> segments_grow d (silence_segment ts k d')"
  unfolding segments_grow_def silenced_core by (erule insert_segment_cases) (auto simp: append_segment_def)

lemma segments_grow_trans: "segments_grow d d1 \<Longrightarrow> segments_grow d1 d2 \<Longrightarrow> segments_grow d d2"
  by (auto simp: segments_grow_def)

lemma written_key:
  assumes "insert_segment s d = Inr d'"
  shows "sg_dedupe_key s \<in> sg_dedupe_key ` set (segments (silence_segment ts k d'))"
proof -
  from assms have "sg_dedupe_key s \<in> sg_dedupe_key ` set (segments d')"
  proof (cases rule: insert_segment_cases)
    case kept
    then show ?thesis by (metis image_iff)
  qed (simp add: append_segment_def)
  then have "sg_dedupe_key s \<in> fst ` segment_core ` set (segments (silence_segment ts k d'))"
    unfolding silenced_core by (simp add: image_image segment_core_def)
  then show ?thesis by (simp add: image_image segment_core_def)
qed

lemma grown_key: "segments_grow d d' \<Longrightarrow> k \<in> sg_dedupe_key ` set (segments d) \<Longrightarrow> k \<in> sg_dedupe_key ` set (segments d')"
  by (force simp: segments_grow_def segment_core_def)

lemma insert_unclassified_keys:
  "insert_unclassified b ts rows n rs d = Inr (ids, d') \<Longrightarrow>
   segments_grow d d' \<and> (\<forall>(s, e)\<in>set rs. Unclassified_Key (b_id b) s e \<in> sg_dedupe_key ` set (segments d'))"
proof (induction rs arbitrary: n d ids d')
  case Nil
  then show ?case by (simp add: segments_grow_def)
next
  case (Cons r rs)
  obtain s e where r: "r = (s, e)" by force
  let ?s = "unclassified_segment b ts n (row_of_sequence rows s) s e"
  from Cons.prems obtain d0 ids' where i: "insert_segment ?s d = Inr d0"
    and rest: "insert_unclassified b ts rows (n + 1) rs (silence_segment ts (Unclassified_Key (b_id b) s e) d0) = Inr (ids', d')"
    by (auto simp: Let_def r andthen_Inr_iff)
  let ?d1 = "silence_segment ts (Unclassified_Key (b_id b) s e) d0"
  from Cons.IH [OF rest] have ih: "segments_grow ?d1 d'"
      "\<forall>(s, e)\<in>set rs. Unclassified_Key (b_id b) s e \<in> sg_dedupe_key ` set (segments d')" by auto
  have "sg_dedupe_key ?s = Unclassified_Key (b_id b) s e" by (simp add: unclassified_segment_def)
  then have "Unclassified_Key (b_id b) s e \<in> sg_dedupe_key ` set (segments d')"
    using grown_key [OF ih(1)] written_key [OF i] by metis
  with ih segments_grow_trans [OF written_grows [OF i] ih(1)] show ?case by (simp add: r)
qed

lemma covered_by_range:
  assumes "q \<in> set qs"
  shows "\<exists>(s, e)\<in>set (contiguous_ranges qs). s \<le> q \<and> q \<le> e"
  using contiguous_ranges_covers assms by (auto simp: covered_def)

lemma unclassified_covers:
  assumes u: "insert_unclassified_fallback_segments b ts rows n d = Inr (ids, d')"
    and inv: "segments_inv d'" and q: "q \<in> set (sequences rows)"
  shows "\<exists>s\<in>set (segments d'). sg_assessment_batch_id s = b_id b \<and> covers q s
    \<and> sg_assessment_status s \<in> {''confirmed'', ''unclassified''}"
proof (cases "q \<in> segment_covered_sequences (sequences rows) (confirmed_ranges d b)")
  case True
  then obtain s where s: "s \<in> set (segments d)" "sg_assessment_batch_id s = b_id b"
      "sg_assessment_status s = ''confirmed''" "covers q s"
    by (auto simp: segment_covered_sequences_def confirmed_ranges_def covers_def list_ex_iff)
  have "segments_grow d d'"
    using u insert_unclassified_keys by (auto simp: insert_unclassified_fallback_segments_def Let_def)
  with s(1) obtain s' where "s' \<in> set (segments d')" "segment_core s' = segment_core s"
    by (force simp: segments_grow_def)
  with s show ?thesis by (intro bexI [of _ s']) (auto simp: segment_core_def covers_def)
next
  case False
  let ?rest = "filter (\<lambda>q. q \<notin> segment_covered_sequences (sequences rows) (confirmed_ranges d b)) (sequences rows)"
  from False q have "q \<in> set ?rest" by simp
  from covered_by_range [OF this] obtain s e where r: "(s, e) \<in> set (contiguous_ranges ?rest)" "s \<le> q" "q \<le> e"
    by auto
  from u have "insert_unclassified b ts rows n (contiguous_ranges ?rest) d = Inr (ids, d')"
    by (simp add: insert_unclassified_fallback_segments_def Let_def)
  from insert_unclassified_keys [OF this] r(1) obtain g where
    g: "g \<in> set (segments d')" "sg_dedupe_key g = Unclassified_Key (b_id b) s e" by (auto simp: image_iff)
  with inv have "key_ok g" by (simp add: segments_inv_def)
  with g r show ?thesis by (intro bexI [of _ g]) (auto simp: key_ok_def covers_def)
qed

lemma terminalize_commit_effects:
  assumes t: "terminalize_commit now b code detail ri oi qs d = Inr (r, d')" and ended: "tz_terminalized r"
    and b: "fetch_batch d (b_id b) = Some b" and ids: "distinct (map b_id (batches d))"
  shows "segments d' = segments d" and "finalized_through d' sc = finalized_through d sc"
    and "scope_row d' = scope_row d"
    and "\<exists>c. cursor_of d' (batch_scope b) = Some c \<and> b_candidate_end_sequence b \<le> c_last_scheduled_student_sequence c"
    and "\<exists>b'. fetch_batch d' (b_id b) = Some b' \<and> b_status b' = ''failed'' \<and> batch_scope b' = batch_scope b
          \<and> b_terminal_status b' = Some (if ri \<noteq> [] then ''degraded'' else ''quarantined'')"
proof -
  let ?f = "terminal_batch_row (fmt_sec now) (ri \<noteq> []) (length (ri @ oi)) qs
    (text_of (or_text code (or_text (b_error_code b) (Some ''application_error'')))) (coalesce detail (b_error_detail b))"
  from t ended have one: "rowcount (\<lambda>r. b_id r = b_id b \<and> terminable r) (batches d) = 1"
    by (auto simp: terminalize_commit_def Let_def not_terminalized_def split: if_splits)
  with t obtain d1 where e: "ensure_cursor (fmt_sec now) (batch_scope b) (change_batch (b_id b) terminable ?f d) = Inr d1"
    and d': "d' = change_cursor (batch_scope b) (scheduled_to (fmt_sec now) (b_candidate_end_sequence b)) d1"
    by (auto simp: terminalize_commit_def Let_def andthen_Inr_iff)
  note frame = ensure_cursor_frame [OF e]
  have keep: "cursor_scope (scheduled_to ts k c) = cursor_scope c"
    "c_last_finalized_student_sequence (scheduled_to ts k c) = c_last_finalized_student_sequence c" for ts k c
    by (simp_all add: scheduled_to_def cursor_scope_def)
  show "segments d' = segments d" by (simp add: d' frame)
  show "scope_row d' = scope_row d"
    by (rule scope_row_cong) (simp_all add: d' change_cursor_def frame, simp_all add: change_batch_def)
  have "finalized_through d' sc = finalized_through d1 sc"
    unfolding d' finalized_through_def by (subst cursor_of_change) (auto simp: keep split: option.splits)
  then show "finalized_through d' sc = finalized_through d sc"
    using ensure_cursor_finalized(1) [OF e, of sc] by simp
  obtain c where "cursor_of d1 (batch_scope b) = Some c" using ensure_cursor_finalized(2) [OF e] by blast
  then have "cursor_of d' (batch_scope b) = Some (scheduled_to (fmt_sec now) (b_candidate_end_sequence b) c)"
    unfolding d' by (subst cursor_of_change) (simp_all add: keep)
  then show "\<exists>c. cursor_of d' (batch_scope b) = Some c \<and> b_candidate_end_sequence b \<le> c_last_scheduled_student_sequence c"
    by (auto simp: scheduled_to_def)
  have go: "terminable b"
  proof -
    have "rowcount (\<lambda>r. b_id r = b_id b \<and> terminable r) (batches d) = (if terminable b then 1 else 0)"
      by (rule rowcount_fetched [OF ids b [unfolded fetch_batch_def]]) (rule refl)
    with one show ?thesis by (metis zero_neq_one)
  qed
  have rid: "b_id (?f x) = b_id x" for x by (simp add: terminal_batch_row_def)
  have "fetch_batch d' (b_id b) = fetch_batch (change_batch (b_id b) terminable ?f d) (b_id b)"
    by (simp only: d' fetch_batch_def change_cursor_frame frame(1))
  also have "\<dots> = Some (?f b)"
    unfolding change_batch_def by (rule windows.fetch_change_hit [OF rid b]) (simp add: go)
  finally show "\<exists>b'. fetch_batch d' (b_id b) = Some b' \<and> b_status b' = ''failed'' \<and> batch_scope b' = batch_scope b
          \<and> b_terminal_status b' = Some (if ri \<noteq> [] then ''degraded'' else ''quarantined'')"
    by (simp add: terminal_batch_row_def batch_scope_def)
qed

text \<open>Everything a successful terminalization does.\<close>

lemma terminalize_effects:
  assumes inv: "batch_inv d" and ended: "tz_terminalized r"
    and t: "terminalize_exhausted_batch now bid code detail force d = Inr (r, d')"
  obtains b b' where "fetch_batch d bid = Some b" and "fetch_batch d' bid = Some b'"
    and "b_status b' = ''failed''" and "b_terminal_status b' \<in> Some ` set TERMINAL_BATCH_STATUSES"
    and "batch_scope b' = batch_scope b" and "scope_row d' = scope_row d"
    and "\<And>sc. finalized_through d' sc = finalized_through d sc"
    and "\<exists>c. cursor_of d' (batch_scope b) = Some c \<and> b_candidate_end_sequence b \<le> c_last_scheduled_student_sequence c"
    and "\<And>q. q \<in> set (window_students d b) \<Longrightarrow> \<exists>s\<in>set (segments d'). sg_assessment_batch_id s = bid
          \<and> covers q s \<and> sg_assessment_status s \<in> {''confirmed'', ''unclassified''}"
proof -
  from t obtain b where bs: "batch_with_scope d bid = Inr b"
    by (auto simp: terminalize_exhausted_batch_def andthen_Inr_iff)
  then have b: "fetch_batch d bid = Some b" "b_id b = bid" by (auto dest: batch_with_scopeD)
  have go: "terminalize_refusal force b d = None"
    using t bs ended
    by (cases "terminalize_refusal force b d")
      (auto simp: terminalize_exhausted_batch_def terminalize_refusal_def not_terminalized_def split: if_splits)
  let ?rows = "candidate_student_rows d (b_group_id b) (b_session_id b) (b_discussion_id b)
    (b_candidate_start_sequence b) (b_candidate_end_sequence b)"
  from terminalize_parts [OF t bs go] obtain fs ri oi d1 d2 where
    r: "insert_rule_fallback_segments b (fmt_sec now) 0 fs d = Inr (ri, d1)" and
    u: "insert_unclassified_fallback_segments b (fmt_sec now) ?rows (int (length fs)) d1 = Inr (oi, d2)" and
    c: "terminalize_commit now b code detail ri oi (window_students d b) d2 = Inr (r, d')" .
  have "segments_inv d" using inv by (simp add: batch_inv_def)
  with r have s1: "segments_only d d1" by (rule insert_rule_only)
  then have "segments_inv d1" by (simp add: segments_only_def)
  with u have s2: "segments_only d1 d2"
    by (auto simp: insert_unclassified_fallback_segments_def Let_def intro: insert_unclassified_only)
  then have inv2: "segments_inv d2" by (simp add: segments_only_def)
  note f = segments_only_frame [OF segments_only_trans [OF s1 s2]]
  have b2: "fetch_batch d2 (b_id b) = Some b" using b by (simp add: fetch_batch_def f)
  have ids: "distinct (map b_id (batches d2))" using inv by (simp add: batch_inv_def batches_inv_def f)
  note e = terminalize_commit_effects [OF c ended b2 ids]
  have fin: "finalized_through d2 sc = finalized_through d sc" for sc
    by (simp add: finalized_through_def cursor_of_def f)
  have cov: "\<exists>s\<in>set (segments d'). sg_assessment_batch_id s = bid \<and> covers q s
      \<and> sg_assessment_status s \<in> {''confirmed'', ''unclassified''}" if "q \<in> set (window_students d b)" for q
    using unclassified_covers [OF u inv2] that by (simp add: window_students_def e(1) b(2))
  from e(5) b(2) obtain b' where b': "fetch_batch d' bid = Some b'" "b_status b' = ''failed''"
      "batch_scope b' = batch_scope b" "b_terminal_status b' \<in> Some ` set TERMINAL_BATCH_STATUSES"
    by (auto simp: TERMINAL_BATCH_STATUSES_def)
  show thesis
    using that [OF b(1) b'(1,2,4,3)] e(2,3,4) fin cov f(3) by simp
qed

text \<open>
  C23. Giving a window up leaves nothing open: the window ends failed and marked degraded or
  quarantined, every student message of it is covered by a segment of the window (a rule
  state or an unclassified range), scheduling moves past the window, and no finalized cursor
  moves, since the model gave no result.
\<close>

theorem given_up_window_is_covered:
  assumes "batch_inv d" and "tz_terminalized r"
    and "terminalize_exhausted_batch now bid code detail force d = Inr (r, d')"
  shows "\<exists>b b'. fetch_batch d bid = Some b \<and> fetch_batch d' bid = Some b' \<and> b_status b' = ''failed''
    \<and> b_terminal_status b' \<in> Some ` set TERMINAL_BATCH_STATUSES
    \<and> (\<forall>q\<in>set (window_students d b). \<exists>s\<in>set (segments d'). sg_assessment_batch_id s = bid
          \<and> covers q s \<and> sg_assessment_status s \<in> {''confirmed'', ''unclassified''})
    \<and> (\<forall>sc. finalized_through d' sc = finalized_through d sc)
    \<and> (\<exists>c. cursor_of d' (batch_scope b) = Some c
          \<and> b_candidate_end_sequence b \<le> c_last_scheduled_student_sequence c)"
  by (rule terminalize_effects [OF assms]) blast

abbreviation give_up_demo where
  "give_up_demo \<equiv> terminalize_exhausted_batch 7000000 5 None None True windowed"

lemma give_up_demo_done: "give_up_demo = Inr (fst (projr give_up_demo), snd (projr give_up_demo))"
  "tz_terminalized (fst (projr give_up_demo))"
proof -
  have "\<not> isl give_up_demo" by code_simp
  then show "give_up_demo = Inr (fst (projr give_up_demo), snd (projr give_up_demo))"
    by (cases give_up_demo) auto
  show "tz_terminalized (fst (projr give_up_demo))" by code_simp
qed

lemma given_up_window_is_covered_witness:
  "map (\<lambda>s. (sg_start_sequence s, sg_end_sequence s)) (segments (committed windowed give_up_demo)) = [(1, 1), (3, 3), (5, 5)]
   \<and> finalized_through (snd (projr give_up_demo)) (7, 1, 3) = finalized_through windowed (7, 1, 3)"
proof -
  have "map (\<lambda>s. (sg_start_sequence s, sg_end_sequence s)) (segments (committed windowed give_up_demo)) = [(1, 1), (3, 3), (5, 5)]"
    by code_simp
  with given_up_window_is_covered [OF windowed_inv give_up_demo_done(2,1)] show ?thesis by blast
qed

text \<open>
  Giving up is idempotent: a second call, with any arguments, reports the window as
  already terminal and changes nothing.
\<close>

theorem giving_up_again_changes_nothing:
  assumes "batch_inv d" and "tz_terminalized r"
    and t: "terminalize_exhausted_batch now bid code detail force d = Inr (r, d')"
  shows "\<exists>ids. terminalize_exhausted_batch now' bid code' detail' force' d' = Inr (not_terminalized ''already_terminal'' ids, d')"
proof (rule terminalize_effects [OF assms])
  fix b b'
  assume b: "fetch_batch d bid = Some b" and b': "fetch_batch d' bid = Some b'"
    and ended: "b_terminal_status b' \<in> Some ` set TERMINAL_BATCH_STATUSES"
    and scope: "batch_scope b' = batch_scope b" "scope_row d' = scope_row d"
  from t b obtain es where "scope_row d (batch_scope b) = Inr es"
    by (auto simp: terminalize_exhausted_batch_def batch_with_scope_def andthen_Inr_iff)
  with b' scope have "batch_with_scope d' bid = Inr b'" by (simp add: batch_with_scope_def)
  with ended show ?thesis
    by (simp add: terminalize_exhausted_batch_def terminalize_refusal_def) (rule exI, rule refl)
qed

lemma giving_up_again_changes_nothing_witness:
  "\<exists>ids. terminalize_exhausted_batch 9 5 None None False (snd (projr give_up_demo))
     = Inr (not_terminalized ''already_terminal'' ids, snd (projr give_up_demo))"
  by (rule giving_up_again_changes_nothing [OF windowed_inv give_up_demo_done(2,1)])

end
