(* ===== verification/Scheduler_Properties.thy ===== *)
theory Scheduler_Properties
  imports Window_Properties
begin

text \<open>
  The properties of the scheduler: which messages a new window takes, that a request meeting
  an active window is neither lost nor postponed, that what was queued comes back as it was
  asked for, that a failed window is retried within its allowance or given up, and that
  sessions without an agent are left alone.
\<close>

subsection \<open>Agent modes\<close>

text \<open>
  C36. At most one agent is on in a session, whatever its row holds; the strategy pipeline
  runs exactly in strategy mode, and some pipeline runs exactly when the state is monitored.
  A row whose mode is not valid, or whose two old switches are both set without a mode, is
  reported as a configuration error; no other row is; and such a row has no mode, no agent, no
  intervention, no monitoring, not even for research, and no pipeline.
\<close>

theorem agent_modes_are_exclusive:
  "\<not> (mf_strategy_agent_enabled (ac_flags (agent_config_from_session s))
        \<and> mf_emotion_agent_enabled (ac_flags (agent_config_from_session s)))
   \<and> (pipeline_mode_from_session s = Some ''strategy''
        \<longleftrightarrow> mf_strategy_agent_enabled (ac_flags (agent_config_from_session s)))
   \<and> (pipeline_mode_from_session s = None
        \<longleftrightarrow> \<not> mf_state_monitoring_enabled (ac_flags (agent_config_from_session s)))
   \<and> (ac_configuration_error (agent_config_from_session s) \<noteq> None \<longleftrightarrow> (\<exists>es. s = Some es \<and> contradictory es))
   \<and> (\<forall>es. s = Some es \<and> contradictory es \<longrightarrow>
        agent_config_from_session s = \<lparr>ac_agent_mode = None,
          ac_flags = \<lparr>mf_strategy_agent_enabled = False, mf_emotion_agent_enabled = False,
            mf_agent_intervention_enabled = False, mf_research_state_monitoring_enabled = False,
            mf_state_monitoring_enabled = False\<rparr>,
          ac_configuration_error = Some INVALID_AGENT_CONFIGURATION\<rparr>
        \<and> pipeline_mode_from_session s = None)"
proof (cases "resolve_session_agent_mode s")
  case (Inl e)
  then have "agent_config_from_session s = \<lparr>ac_agent_mode = None,
      ac_flags = projr (flags_for_agent_mode (JStr ''none'') (JBool False)),
      ac_configuration_error = Some INVALID_AGENT_CONFIGURATION\<rparr>"
    by (simp add: agent_config_from_session_def)
  moreover have "\<exists>es. s = Some es \<and> contradictory es" using Inl resolve_error_iff by blast
  ultimately show ?thesis by (auto simp: pipeline_mode_from_session_def none_flags)
next
  case (Inr mode)
  have conf: "agent_config_from_session s = \<lparr>ac_agent_mode = Some mode,
      ac_flags = projr (flags_for_agent_mode (JStr mode) (research_switch s)), ac_configuration_error = None\<rparr>"
    by (simp add: agent_config_from_session_def Inr)
  have none: "\<not> (\<exists>es. s = Some es \<and> contradictory es)"
    unfolding resolve_error_iff [symmetric] using Inr by simp
  have "mode = ''none'' \<or> mode = ''strategy'' \<or> mode = ''emotion''"
    using resolved_valid [OF Inr] by (simp add: valid_mode_cases)
  then show ?thesis
    unfolding conf pipeline_mode_from_session_def resolved_flags [OF Inr] using none
    by (elim disjE) simp_all
qed

text \<open>A session whose mode names two agents, with both old switches and the research switch on.\<close>

definition both_agents :: session_row where
  "both_agents = blank_session\<lparr>es_agent_mode := Some ''both'', es_strategy_agent_enabled := Some 1,
     es_emotion_agent_enabled := Some 1, es_research_state_monitoring_enabled := Some 1\<rparr>"

lemma agent_modes_are_exclusive_witness:
  "\<not> mf_strategy_agent_enabled (ac_flags (agent_config_from_session (Some both_agents)))
   \<and> \<not> mf_emotion_agent_enabled (ac_flags (agent_config_from_session (Some both_agents)))
   \<and> pipeline_mode_from_session (Some both_agents) = None"
proof -
  have "contradictory both_agents" by code_simp
  with agent_modes_are_exclusive [of "Some both_agents"] show ?thesis by simp
qed

text \<open>
  The cut-off of a request with a fixed window is the end of that window; a request for a
  replacement states it consistently, or not at all.
\<close>

definition consistent_request :: "assessment_request \<Rightarrow> bool" where
  "consistent_request rq \<longleftrightarrow> rq_fixed_end rq = None \<or> rp_cutoff_sequence (rq_replacement rq) \<in> {None, rq_fixed_end rq}"

definition demo_env :: scheduler_env where
  "demo_env = \<lparr>se_context_messages = 3, se_failure_backoff_seconds = 30, se_failure_max_attempts = 2,
     se_max_candidate_messages = 8, se_message_threshold = 4, se_min_interval_seconds = 30,
     se_time_threshold_seconds = 180, se_digest = id, se_enqueue = (\<lambda>_ _. None)\<rparr>"

abbreviation help_at where
  "help_at q \<equiv> plain_request (Some ''help_request'') (Some q)"

lemma help_is_trigger: "''help_request'' \<in> fst ` set TRIGGER_PRIORITIES"
  by code_simp

lemma help_consistent: "consistent_request (help_at q)"
  by (simp add: consistent_request_def plain_request_def)

subsection \<open>The continuation slot\<close>

text \<open>
  A slot for one pending request that keeps the earliest: putting a request in lowers its
  due point to that of the request, or leaves it.  Whatever is put in, in whatever order,
  the slot ends up due at the earliest of all.
\<close>

locale earliest_slot =
  fixes put :: "'r \<Rightarrow> 'q \<Rightarrow> 'q"
    and due :: "'r \<Rightarrow> int"
    and slot_due :: "'q \<Rightarrow> int option"
    and valid :: "'r \<Rightarrow> bool"
  assumes put_due: "valid r \<Longrightarrow>
    slot_due (put r q) = Some (case slot_due q of None \<Rightarrow> due r | Some k \<Rightarrow> min (due r) k)"
begin

lemma puts_due:
  assumes "\<forall>r\<in>set rs. valid r"
  shows "slot_due (fold put rs q) =
    (case slot_due q of
       None \<Rightarrow> if rs = [] then None else Some (Min (due ` set rs))
     | Some k \<Rightarrow> Some (Min (insert k (due ` set rs))))"
  using assms
proof (induction rs arbitrary: q)
  case (Cons r rs)
  then have "slot_due (fold put rs (put r q)) = Some (Min (insert (case slot_due q of None \<Rightarrow> due r | Some k \<Rightarrow> min (due r) k) (due ` set rs)))"
    by (simp add: put_due)
  moreover have "Min (insert (min a k) A) = Min (insert k (insert a A))" if "finite A" for a k :: int and A
    using that by (cases "A = {}") (auto simp: min.assoc min.commute min.left_commute)
  ultimately show ?case by (simp split: option.splits)
qed (simp split: option.splits)

lemma put_never_later: "valid r \<Longrightarrow> slot_due q = Some k \<Longrightarrow> \<exists>k'\<le>k. slot_due (put r q) = Some k'"
  by (simp add: put_due)

lemma put_not_lost: "valid r \<Longrightarrow> \<exists>k\<le>due r. slot_due (put r q) = Some k"
  by (auto simp: put_due split: option.splits)

end

text \<open>A queued request: its trigger, arguments, replacement and window.\<close>

type_synonym queued = "string \<times> assessment_request \<times> replacement \<times> int \<times> int option \<times> int option"

fun queue_put :: "queued \<Rightarrow> continuation \<Rightarrow> continuation" where
  "queue_put (trigger, rq, rp, w) ct = queue_request trigger rq rp w ct"

fun queued_due :: "queued \<Rightarrow> int" where
  "queued_due (trigger, rq, rp, c, a, e) = c"

fun queueable :: "queued \<Rightarrow> bool" where
  "queueable (trigger, rq, rp, c, a, e) \<longleftrightarrow> trigger \<in> fst ` set TRIGGER_PRIORITIES
     \<and> (e = None \<longrightarrow> request_cutoff_sequence trigger (rq_trigger_sequence rq) (rp_cutoff_sequence rp) = Some c)
     \<and> (e \<noteq> None \<longrightarrow> e = Some c)
     \<and> (rp_of_pipeline_run_id rp \<noteq> None \<longrightarrow> rp_cutoff_sequence rp = Some c)"

lemma trigger_names: "t \<in> fst ` set TRIGGER_PRIORITIES \<Longrightarrow> t \<noteq> [] \<and> strip t = t"
proof -
  have "\<forall>t\<in>fst ` set TRIGGER_PRIORITIES. t \<noteq> [] \<and> strip t = t" by code_simp
  then show "t \<in> fst ` set TRIGGER_PRIORITIES \<Longrightarrow> t \<noteq> [] \<and> strip t = t" by blast
qed

lemma queue_put_due:
  assumes r: "queueable r"
  shows "queued_cutoff (queue_put r ct) = Some (case queued_cutoff ct of None \<Rightarrow> queued_due r | Some k \<Rightarrow> min (queued_due r) k)"
proof -
  obtain trigger rq rp c a e where eq: "r = (trigger, rq, rp, c, a, e)" by (cases r) auto
  from r have "trigger \<in> fst ` set TRIGGER_PRIORITIES" unfolding eq queueable.simps by (elim conjE)
  with r have ok: "trigger \<noteq> []"
    "e = None \<Longrightarrow> request_cutoff_sequence trigger (rq_trigger_sequence rq) (rp_cutoff_sequence rp) = Some c"
    "e \<noteq> None \<Longrightarrow> e = Some c" "rp_of_pipeline_run_id rp \<noteq> None \<Longrightarrow> rp_cutoff_sequence rp = Some c"
    unfolding eq queueable.simps using trigger_names by blast+
  let ?new = "\<lparr>ct_trigger_type = Some trigger, ct_trigger_sequence = rq_trigger_sequence rq,
     ct_request_priority = trigger_priority_of trigger, ct_candidate_start_sequence = a,
     ct_candidate_end_sequence = e, ct_replacement = rp\<rparr>"
  have new: "queued_cutoff ?new = Some c"
    using ok(1-3) by (cases e) (auto simp: queued_cutoff_def)
  have join: "queued_cutoff (ct\<lparr>ct_replacement := rp\<rparr>) = Some c"
    if "queued_cutoff ct = Some c" "rp_of_pipeline_run_id rp \<noteq> None"
    using that ok(4) by (auto simp: queued_cutoff_def request_cutoff_sequence_def split: if_splits option.splits)
  show ?thesis
    using new join by (auto simp: eq queue_request_def split: option.splits)
qed

interpretation continuation_slot: earliest_slot queue_put queued_due queued_cutoff queueable
  by unfold_locales (rule queue_put_due)

text \<open>
  The continuation slot of an active window keeps the earliest of the requests queued
  behind it: after any sequence of them its cut-off is the least of theirs and of the one
  that was there.
\<close>

theorem continuation_keeps_earliest:
  assumes "\<forall>r\<in>set rs. queueable r" and "rs \<noteq> []"
  shows "queued_cutoff (fold queue_put rs ct) =
    Some (Min (queued_due ` set rs \<union> (case queued_cutoff ct of None \<Rightarrow> {} | Some k \<Rightarrow> {k})))"
  using continuation_slot.puts_due [OF assms(1), of ct] assms(2) by (simp split: option.splits)

lemma continuation_keeps_earliest_witness:
  "queued_cutoff (fold queue_put [(''help_request'', help_at 9, empty_replacement, 9, None, None),
     (''rule_high_risk'', help_at 7, empty_replacement, 7, Some 6, Some 7)] empty_continuation) = Some 7"
proof -
  let ?rs = "[(''help_request'', help_at 9, empty_replacement, 9, None, None),
     (''rule_high_risk'', help_at 7, empty_replacement, 7, Some 6, Some 7)] :: queued list"
  have "\<forall>r\<in>set ?rs. queueable r" by code_simp
  from continuation_keeps_earliest [OF this, of empty_continuation] show ?thesis
    by (simp add: queued_cutoff_def empty_continuation_def)
qed

lemma incoming_queueable:
  assumes t: "trigger \<in> fst ` set TRIGGER_PRIORITIES" and ok: "consistent_request rq"
    and rp: "rp = request_replacement d sc rq ms" and w: "incoming_window rq (request_cutoff trigger rq rp) f b = Some (c, a, e)"
  shows "queueable (trigger, rq, rp, c, a, e)" and "request_cutoff trigger rq rp = Some c"
proof -
  show c: "request_cutoff trigger rq rp = Some c"
    using w by (auto simp: incoming_window_def Let_def split: option.splits if_splits)
  have e: "e = Some c \<or> e = rq_fixed_end rq"
    using w by (auto simp: incoming_window_def Let_def split: option.splits if_splits)
  have "rp_cutoff_sequence rp = Some c" if of: "rp_of_pipeline_run_id rp \<noteq> None"
  proof (cases "rq_fixed_end rq")
    case None
    obtain k where k: "rp_cutoff_sequence rp = Some k \<or> rp_cutoff_sequence rp = None" by blast
    with None c show ?thesis
      using of unfolding rp
      by (auto simp: request_cutoff_def request_cutoff_sequence_def request_replacement_def Let_def coalesce_def
          split: option.splits if_splits)
  next
    case (Some k)
    then have "c = k" using c by (simp add: request_cutoff_def)
    with Some ok of show ?thesis
      unfolding rp by (auto simp: consistent_request_def request_replacement_def Let_def split: if_splits)
  qed
  with t e c show "queueable (trigger, rq, rp, c, a, e)"
    by (cases "rq_fixed_end rq") (auto simp: request_cutoff_def)
qed

lemma rerun_row_parts:
  "frozen_part (rerun_row ts trigger rq rp cutoff f b) = frozen_part b"
  "machine_of (rerun_row ts trigger rq rp cutoff f b) = machine_of b"
  "b_rerun_requested (rerun_row ts trigger rq rp cutoff f b)"
  "b_continuation (rerun_row ts trigger rq rp cutoff f b) =
     (case incoming_window rq cutoff f b of None \<Rightarrow> b_continuation b
      | Some w \<Rightarrow> queue_put (trigger, rq, rp, w) (b_continuation b))"
  by (auto simp: rerun_row_def strengthened_def Let_def frozen_part_def batch_scope_def machine_of_def split: option.splits)

lemma transaction_active:
  assumes "request_scope d sc = Some r" and "scope_running r" and "get_active_batch sc d = Some b"
    and run: "request_transaction env now sc trigger rq d = Inr ((needed, res), d')"
  obtains es ms where
    "d' = change_batch (b_id b) active_batch
       (rerun_row (fmt_sec now) trigger rq (request_replacement (opened_cursor (fmt_sec now) sc es d) sc rq ms)
          (rr_request_cutoff res) (finalized_through d sc)) (opened_cursor (fmt_sec now) sc es d)"
    "rr_request_cutoff res = request_cutoff trigger rq (request_replacement (opened_cursor (fmt_sec now) sc es d) sc rq ms)"
    "\<not> needed" "\<not> rr_created res" "rr_assessment_batch_id res = Some (b_id b)" "rr_pending_or_running res"
proof -
  obtain x es g where r: "r = (x, es, g)" by (cases r) auto
  let ?d1 = "opened_cursor (fmt_sec now) sc es d"
  have act: "get_active_batch sc ?d1 = Some b" using assms(3) by (simp add: get_active_batch_def opened_cursor_def)
  have fin: "c_last_finalized_student_sequence (the (cursor_of ?d1 sc)) = finalized_through d sc"
  proof -
    note e = opened_cursor_ensure [OF assms(1) [unfolded r], of "fmt_sec now"]
    obtain c where c: "cursor_of ?d1 sc = Some c" using ensure_cursor_finalized(2) [OF e] by blast
    have "finalized_through d sc = finalized_through ?d1 sc" by (simp add: ensure_cursor_finalized(1) [OF e])
    with c show ?thesis by (simp add: finalized_through_def)
  qed
  from run show thesis
    using assms(1,2) act
    by (intro that [of es "student_rows_after_cursor ?d1 sc (scheduled_through (the (cursor_of ?d1 sc)))"])
      (auto simp: request_transaction_def r Let_def request_result0_def fin)
qed

text \<open>
  C28. A request that meets an active window opens none: it leaves every other window alone,
  and of the active one the scope, range, attempts and status.  It marks that window for a
  rerun.  If it asks for that very window, its trigger and priority replace the window's when
  the priority is higher.  If it asks for messages the active window does not end with, and
  that are neither finalized nor before the window (\<open>incoming_window\<close>), the continuation slot is
  due afterwards at the earlier of what it held and the cut-off asked for, so that a request
  with a later cut-off than the one queued leaves the slot due as it was.  Otherwise the slot
  is due as before.
\<close>

theorem request_behind_active_window:
  assumes inv: "batch_inv d" and scope: "request_scope d sc = Some r" "scope_running r"
    and active: "get_active_batch sc d = Some b"
    and request: "trigger \<in> fst ` set TRIGGER_PRIORITIES" "consistent_request rq"
    and run: "request_transaction env now sc trigger rq d = Inr ((needed, res), d')"
  shows "\<not> needed \<and> \<not> rr_created res \<and> rr_assessment_batch_id res = Some (b_id b)
    \<and> (\<forall>k. k \<noteq> b_id b \<longrightarrow> fetch_batch d' k = fetch_batch d k)
    \<and> (\<exists>b'. fetch_batch d' (b_id b) = Some b' \<and> frozen_part b' = frozen_part b \<and> machine_of b' = machine_of b
         \<and> b_rerun_requested b'
         \<and> (b_trigger_type b', b_request_priority b') =
              (if same_request_window rq (rr_request_cutoff res) b \<and> b_request_priority b < trigger_priority_of trigger
               then (trigger, trigger_priority_of trigger) else (b_trigger_type b, b_request_priority b))
         \<and> queued_cutoff (b_continuation b') =
              (case incoming_window rq (rr_request_cutoff res) (finalized_through d sc) b of
                 None \<Rightarrow> queued_cutoff (b_continuation b)
               | Some (q, _) \<Rightarrow> Some (case queued_cutoff (b_continuation b) of None \<Rightarrow> q | Some k \<Rightarrow> min q k)))"
proof -
  from transaction_active [OF scope active run] obtain es ms d1 rp where
    d1: "d1 = opened_cursor (fmt_sec now) sc es d" and rp: "rp = request_replacement d1 sc rq ms" and
    d': "d' = change_batch (b_id b) active_batch
       (rerun_row (fmt_sec now) trigger rq rp (rr_request_cutoff res) (finalized_through d sc)) d1" and
    cut: "rr_request_cutoff res = request_cutoff trigger rq rp" and
    rest: "\<not> needed" "\<not> rr_created res" "rr_assessment_batch_id res = Some (b_id b)"
    by metis
  define b' where "b' = rerun_row (fmt_sec now) trigger rq rp (rr_request_cutoff res) (finalized_through d sc) b"
  note parts = rerun_row_parts [of "fmt_sec now" trigger rq rp "rr_request_cutoff res" "finalized_through d sc" b, folded b'_def]
  have same: "batches d1 = batches d" by (simp add: d1 opened_cursor_def)
  have key: "b_id (rerun_row ts t q p c f x) = b_id x" for ts t q p c f x
    using rerun_row_parts(1) [of ts t q p c f x] by (simp add: frozen_part_def)
  have fetch: "fetch_batch d' k = map_option (\<lambda>x. if b_id x = b_id b \<and> active_batch x
      then rerun_row (fmt_sec now) trigger rq rp (rr_request_cutoff res) (finalized_through d sc) x else x) (fetch_batch d k)" for k
    by (simp add: fetch_batch_def d' same fetch_by_update_where [where key = b_id] key)
  have "fetch_batch d (b_id b) = Some b"
    using inv active_batchD(1) [OF active] by (simp add: fetch_batch_def batch_inv_parts fetch_by_unique)
  with active_batchD(3) [OF active] have own: "fetch_batch d' (b_id b) = Some b'" by (simp add: fetch b'_def)
  have others: "fetch_batch d' k = fetch_batch d k" if "k \<noteq> b_id b" for k
  proof (cases "fetch_batch d k")
    case (Some x)
    then have "b_id x = k" by (simp add: fetch_batch_def fetch_by_SomeD)
    with that Some show ?thesis by (simp add: fetch)
  qed (simp add: fetch)
  have asked: "(b_trigger_type b', b_request_priority b') =
      (if same_request_window rq (rr_request_cutoff res) b \<and> b_request_priority b < trigger_priority_of trigger
       then (trigger, trigger_priority_of trigger) else (b_trigger_type b, b_request_priority b))"
    by (simp add: b'_def rerun_row_def strengthened_def Let_def)
  have slot: "queued_cutoff (b_continuation b') =
      (case incoming_window rq (rr_request_cutoff res) (finalized_through d sc) b of
         None \<Rightarrow> queued_cutoff (b_continuation b)
       | Some (q, _) \<Rightarrow> Some (case queued_cutoff (b_continuation b) of None \<Rightarrow> q | Some k \<Rightarrow> min q k))"
  proof (cases "incoming_window rq (rr_request_cutoff res) (finalized_through d sc) b")
    case (Some w)
    obtain c a e where w: "w = (c, a, e)" by (cases w) auto
    have "queueable (trigger, rq, rp, c, a, e)"
      using incoming_queueable(1) [OF request rp] Some by (simp add: w cut)
    from continuation_slot.put_due [OF this, of "b_continuation b"] show ?thesis by (simp add: parts Some w split: option.splits)
  qed (simp add: parts)
  show ?thesis using rest own others parts(1-3) asked slot by blast
qed

abbreviation behind_demo where
  "behind_demo \<equiv> request_transaction demo_env 0 (7, 1, 3) ''help_request'' (help_at 3) windowed"

lemma request_behind_active_window_witness:
  "\<exists>b'. fetch_batch (snd (projr behind_demo)) 5 = Some b' \<and> b_rerun_requested b'
     \<and> b_trigger_type b' = b_trigger_type demo_window \<and> queued_cutoff (b_continuation b') = Some 3"
proof -
  let ?r = "the (request_scope windowed (7, 1, 3))"
  have 1: "request_scope windowed (7, 1, 3) = Some ?r" "scope_running ?r"
    "get_active_batch (7, 1, 3) windowed = Some demo_window"
    "behind_demo = Inr ((fst (fst (projr behind_demo)), snd (fst (projr behind_demo))), snd (projr behind_demo))"
    by code_simp+
  have 2: "rr_request_cutoff (snd (fst (projr behind_demo))) = Some 3"
    "b_id demo_window = 5" "\<not> same_request_window (help_at 3) (Some 3) demo_window"
    "incoming_window (help_at 3) (Some 3) (finalized_through windowed (7, 1, 3)) demo_window = Some (3, Some 1, Some 3)"
    "queued_cutoff (b_continuation demo_window) = None"
    by code_simp+
  from request_behind_active_window [OF windowed_inv 1(1-3) help_is_trigger help_consistent 1(4)] 2
  show ?thesis by auto
qed

text \<open>
  C33. What was queued comes back as it was asked for: when nothing was due in the slot, the
  continuation of the active window is the queued request itself, with its trigger, window
  and replacement, and whenever that continuation is made its cut-off is the one queued.
\<close>

theorem queued_request_comes_back:
  assumes request: "trigger \<in> fst ` set TRIGGER_PRIORITIES" "consistent_request rq"
    and rp: "rp = request_replacement d sc rq ms" and empty: "queued_cutoff (b_continuation b) = None"
    and w: "incoming_window rq (request_cutoff trigger rq rp) f b = Some (c, a, e)"
    and k: "k = continuation_contract (rerun_row ts trigger rq rp (request_cutoff trigger rq rp) f b)"
  shows "k = \<lparr>rq_trigger_type = Some trigger, rq_trigger_sequence = rq_trigger_sequence rq,
      rq_continuation = True, rq_fixed_start = a, rq_fixed_end = e, rq_replacement = rp\<rparr>
    \<and> normalize_trigger (rq_trigger_type k) = Inr trigger
    \<and> request_cutoff trigger k (request_replacement d' sc' k ms') = Some c"
proof -
  note q = incoming_queueable [OF request rp w]
  note t = trigger_names [OF request(1)]
  have slot: "b_continuation (rerun_row ts trigger rq rp (request_cutoff trigger rq rp) f b)
      = \<lparr>ct_trigger_type = Some trigger, ct_trigger_sequence = rq_trigger_sequence rq,
         ct_request_priority = trigger_priority_of trigger, ct_candidate_start_sequence = a,
         ct_candidate_end_sequence = e, ct_replacement = rp\<rparr>"
    using empty by (simp add: rerun_row_parts w queue_request_def)
  have eq: "k = \<lparr>rq_trigger_type = Some trigger, rq_trigger_sequence = rq_trigger_sequence rq,
      rq_continuation = True, rq_fixed_start = a, rq_fixed_end = e, rq_replacement = rp\<rparr>"
    using t by (simp add: k continuation_contract_def slot Let_def)
  have "\<forall>t\<in>fst ` set TRIGGER_PRIORITIES. normalize_trigger (Some t) = Inr t" by code_simp
  with request(1) have norm: "normalize_trigger (Some trigger) = Inr trigger" by blast
  have "rp_cutoff_sequence (request_replacement d' sc' k ms') = rp_cutoff_sequence rp"
    if "e = None"
  proof (cases "rp_of_pipeline_run_id rp = None")
    case False
    with q(1) have "rp_cutoff_sequence rp = Some c" by simp
    with False show ?thesis by (simp add: request_replacement_def eq Let_def)
  qed (simp add: request_replacement_def eq Let_def)
  with q(1) have "request_cutoff trigger k (request_replacement d' sc' k ms') = Some c"
    by (cases e) (auto simp: request_cutoff_def eq)
  with eq norm show ?thesis by simp
qed

lemma queued_request_comes_back_witness:
  "continuation_contract (rerun_row (Stamp 0 None) ''help_request'' (help_at 3)
      (request_replacement windowed (7, 1, 3) (help_at 3) []) (Some 3) 0 demo_window)
    = \<lparr>rq_trigger_type = Some ''help_request'', rq_trigger_sequence = Some 3, rq_continuation = True,
       rq_fixed_start = Some 1, rq_fixed_end = Some 3,
       rq_replacement = request_replacement windowed (7, 1, 3) (help_at 3) []\<rparr>"
proof -
  let ?rp = "request_replacement windowed (7, 1, 3) (help_at 3) []"
  have 1: "queued_cutoff (b_continuation demo_window) = None"
    "request_cutoff ''help_request'' (help_at 3) ?rp = Some 3"
    "incoming_window (help_at 3) (request_cutoff ''help_request'' (help_at 3) ?rp) 0 demo_window = Some (3, Some 1, Some 3)"
    "rq_trigger_sequence (help_at 3) = Some 3"
    by code_simp+
  from queued_request_comes_back [OF help_is_trigger help_consistent refl 1(1,3) refl, where ts = "Stamp 0 None"]
  show ?thesis by (simp add: 1(2,4))
qed

subsection \<open>The messages a window takes\<close>

text \<open>The student sequences of a discussion in order, and those a request may take.\<close>

definition student_sequences :: "platform \<Rightarrow> scope \<Rightarrow> int list" where
  "student_sequences d sc = sequences (student_rows d sc (\<lambda>_. True))"

definition scheduled_up_to :: "platform \<Rightarrow> scope \<Rightarrow> int" where
  "scheduled_up_to d sc = (case cursor_of d sc of None \<Rightarrow> 0 | Some c \<Rightarrow> scheduled_through c)"

definition eligible :: "platform \<Rightarrow> scope \<Rightarrow> assessment_request \<Rightarrow> int option \<Rightarrow> int \<Rightarrow> bool" where
  "eligible d sc rq cutoff q \<longleftrightarrow>
     (case rq_fixed_start rq of
        Some a \<Rightarrow> a \<le> q \<and> q \<le> or0 (rq_fixed_end rq)
      | None \<Rightarrow> scheduled_up_to d sc < q \<and> (case cutoff of None \<Rightarrow> True | Some c \<Rightarrow> q \<le> c))"

definition next_messages :: "scheduler_env \<Rightarrow> platform \<Rightarrow> scope \<Rightarrow> assessment_request \<Rightarrow> int option \<Rightarrow> int list" where
  "next_messages env d sc rq cutoff =
     take (nat (max 1 (or_int (se_max_candidate_messages env) 8)))
       (filter (eligible d sc rq cutoff) (student_sequences d sc))"

lemma sequences_filter: "sequences (filter (\<lambda>m. Q (or0 (m_sequence m))) ms) = filter Q (sequences ms)"
  by (induction ms) (auto simp: sequences_def)

lemma student_rows_filter: "student_rows d sc P = filter (\<lambda>m. P (or0 (m_sequence m))) (student_rows d sc (\<lambda>_. True))"
  by (cases sc) (auto simp: student_rows_def filter_sort intro!: arg_cong [where f = "sort_key _"] filter_cong
      split: option.splits)

lemma sequences_student_rows: "sequences (student_rows d sc P) = filter P (student_sequences d sc)"
  by (subst student_rows_filter) (simp add: sequences_filter student_sequences_def)

lemma student_rows_opened [simp]: "student_rows (opened_cursor ts sc' es d) sc P = student_rows d sc P"
  by (cases sc) (simp add: student_rows_def opened_cursor_def joined_role_def)

lemma take_interval:
  assumes "sorted A" "distinct A" and convex: "\<And>x y z. P x \<Longrightarrow> P z \<Longrightarrow> x \<le> y \<Longrightarrow> y \<le> z \<Longrightarrow> P y"
    and T: "T = take n (filter P A)" "T \<noteq> []"
  shows "filter (\<lambda>q. hd T \<le> q \<and> q \<le> last T) A = (T :: int list)"
proof (rule sorted_distinct_set_unique)
  let ?L = "filter P A"
  have L: "sorted ?L" "distinct ?L" using assms(1,2) by (simp_all add: sorted_wrt_filter)
  then show sT: "sorted T" "distinct T" by (simp_all add: T sorted_wrt_take)
  show "sorted (filter (\<lambda>q. hd T \<le> q \<and> q \<le> last T) A)" "distinct (filter (\<lambda>q. hd T \<le> q \<and> q \<le> last T) A)"
    using assms(1,2) by (simp_all add: sorted_wrt_filter)
  have sub: "set T \<subseteq> set ?L" unfolding T by (rule set_take_subset)
  have LT: "T @ drop n ?L = ?L" unfolding T by (rule append_take_drop_id)
  have ends: "hd T \<in> set T" "last T \<in> set T" using T(2) by simp_all
  have bounds: "hd T \<le> q \<and> q \<le> last T" if "q \<in> set T" for q
  proof -
    from sT(1) T(2) have "\<forall>x\<in>set T. hd T \<le> x" by (cases T) auto
    moreover have split: "butlast T @ [last T] = T" using T(2) by simp
    then have "sorted (butlast T @ [last T])" using sT(1) by simp
    then have "\<forall>x\<in>set (butlast T @ [last T]). x \<le> last T" by (auto simp: sorted_append)
    then have "\<forall>x\<in>set T. x \<le> last T" unfolding split .
    ultimately show ?thesis using that by blast
  qed
  have "q \<in> set T" if q: "q \<in> set A" "hd T \<le> q" "q \<le> last T" for q
  proof -
    have "P (hd T)" "P (last T)" using ends sub by auto
    then have "P q" using convex [OF _ _ q(2,3)] by blast
    with q(1) have "q \<in> set ?L" by simp
    then have "q \<in> set (T @ drop n ?L)" unfolding LT .
    then consider "q \<in> set T" | "q \<in> set (drop n ?L)" by auto
    then show ?thesis
    proof cases
      case 2
      have "sorted (T @ drop n ?L)" "distinct (T @ drop n ?L)" unfolding LT using L by simp_all
      with 2 ends(2) have "last T \<le> q" "last T \<noteq> q" by (auto simp: sorted_append)
      with q(3) show ?thesis by simp
    qed
  qed
  with sub bounds show "set (filter (\<lambda>q. hd T \<le> q \<and> q \<le> last T) A) = set T" by auto
qed

lemma eligible_convex:
  "eligible d sc rq cutoff x \<Longrightarrow> eligible d sc rq cutoff z \<Longrightarrow> x \<le> y \<Longrightarrow> y \<le> z \<Longrightarrow> eligible d sc rq cutoff y"
  by (auto simp: eligible_def split: option.splits)

lemma scheduled_opened:
  assumes "request_scope d sc = Some (x, es, g)"
  shows "scheduled_through (the (cursor_of (opened_cursor ts sc es d) sc)) = scheduled_up_to d sc"
proof (cases "cursor_of d sc")
  case None
  have "c_last_scheduled_student_sequence (new_cursor sc es ts) = 0" by (cases sc) (simp add: new_cursor_def)
  then have new: "scheduled_through (new_cursor sc es ts) = 0" by (simp add: scheduled_through_def)
  have "cursor_of (opened_cursor ts sc es d) sc = Some (new_cursor sc es ts)"
    using None by (simp add: opened_cursor_def cursor_of_def find_append)
  with None new show ?thesis by (simp add: scheduled_up_to_def)
qed (simp add: opened_cursor_def scheduled_up_to_def)

lemma candidate_sequences:
  assumes "request_scope d sc = Some (x, es, g)" and "d1 = opened_cursor ts sc es d"
    and "ms = student_rows_after_cursor d1 sc (scheduled_through (the (cursor_of d1 sc)))"
  shows "sequences (candidate_rows d1 sc rq cutoff ms) = filter (eligible d sc rq cutoff) (student_sequences d sc)"
proof (cases "rq_fixed_start rq")
  case None
  then have "sequences (candidate_rows d1 sc rq cutoff ms)
      = filter (\<lambda>q. case cutoff of None \<Rightarrow> True | Some c \<Rightarrow> q \<le> c) (sequences ms)"
    unfolding candidate_rows_def
    by (simp add: sequences_filter [of "\<lambda>q. case cutoff of None \<Rightarrow> True | Some c \<Rightarrow> q \<le> c"])
  also have "sequences ms = filter (\<lambda>q. scheduled_up_to d sc < q) (student_sequences d sc)"
    unfolding assms(3) student_rows_after_cursor_def assms(2) scheduled_opened [OF assms(1)]
    by (simp add: sequences_student_rows)
  finally show ?thesis using None by (auto simp: eligible_def intro!: filter_cong split: option.splits)
next
  case (Some a)
  then show ?thesis
    by (auto simp: candidate_rows_def student_rows_in_window_def sequences_student_rows assms(2) eligible_def
        intro!: filter_cong)
qed

lemma transaction_idle:
  assumes scope: "request_scope d sc = Some r" "scope_running r" and none: "get_active_batch sc d = None"
    and run: "request_transaction env now sc trigger rq d = Inr ((needed, res), d')"
  obtains x es g c d1 ms rp res0 where "r = (x, es, g)" "d1 = opened_cursor (fmt_sec now) sc es d"
    "sequences (candidate_rows d1 sc rq (rr_request_cutoff res) ms)
       = filter (eligible d sc rq (rr_request_cutoff res)) (student_sequences d sc)"
    "rr_request_cutoff res0 = rr_request_cutoff res" "\<not> rr_created res0" "\<not> rr_skipped res0"
    "(\<exists>reason. opening_refusal env now trigger rq (rr_request_cutoff res) x c ms
         (candidate_rows d1 sc rq (rr_request_cutoff res) ms) = Some reason
       \<and> res = skipped reason res0 \<and> \<not> needed \<and> d' = d1)
     \<or> opening_refusal env now trigger rq (rr_request_cutoff res) x c ms
         (candidate_rows d1 sc rq (rr_request_cutoff res) ms) = None
       \<and> open_window env now sc es trigger rq rp ms (candidate_rows d1 sc rq (rr_request_cutoff res) ms) res0 d1
         = Inr ((needed, res), d')"
proof -
  obtain x es g where r: "r = (x, es, g)" by (cases r) auto
  define d1 where "d1 = opened_cursor (fmt_sec now) sc es d"
  define c where "c = the (cursor_of d1 sc)"
  define ms where "ms = student_rows_after_cursor d1 sc (scheduled_through c)"
  define rp where "rp = request_replacement d1 sc rq ms"
  define cutoff where "cutoff = request_cutoff trigger rq rp"
  define res0 where "res0 = request_result0\<lparr>rr_request_cutoff := cutoff, rr_new_student_messages := length ms\<rparr>"
  note folds = d1_def [symmetric] c_def [symmetric] ms_def [symmetric] rp_def [symmetric]
    cutoff_def [symmetric] res0_def [symmetric]
  have act: "get_active_batch sc d1 = None" using none by (simp add: get_active_batch_def opened_cursor_def d1_def)
  have res0: "rr_request_cutoff res0 = cutoff" "\<not> rr_created res0" "\<not> rr_skipped res0"
    by (simp_all add: res0_def request_result0_def)
  have eq: "request_transaction env now sc trigger rq d =
      (case opening_refusal env now trigger rq cutoff x c ms (candidate_rows d1 sc rq cutoff ms) of
         Some reason \<Rightarrow> Inr ((False, skipped reason res0), d1)
       | None \<Rightarrow> open_window env now sc es trigger rq rp ms (candidate_rows d1 sc rq cutoff ms) res0 d1)"
    using scope act
    by (simp only: request_transaction_def r Let_def folds option.case prod.case simp_thms if_False)
  have kept: "rr_request_cutoff res1 = rr_request_cutoff res0"
    if "open_window env now sc es trigger rq rp ms students res0 d1 = Inr ((n, res1), d2)" for students n res1 d2
    using that by (auto simp: open_window_def Let_def indexed_Inr andthen_Inr_iff split: option.splits)
  have "rr_request_cutoff res = cutoff"
    using run kept unfolding eq by (auto simp: res0 skipped_def split: option.splits)
  then show thesis
    using run res0 candidate_sequences [OF scope(1) [unfolded r] d1_def ms_def [unfolded c_def], of rq cutoff] unfolding eq
    by (intro that [OF r d1_def]) (auto split: option.splits)
qed

lemma hd_sequences: "ms \<noteq> [] \<Longrightarrow> or0 (m_sequence (hd ms)) = hd (sequences ms)"
  by (cases ms) (simp_all add: sequences_def)

lemma last_sequences: "ms \<noteq> [] \<Longrightarrow> or0 (m_sequence (last ms)) = last (sequences ms)"
  by (simp add: sequences_def last_map)

text \<open>
  C26. A window opened by a request takes the next messages: the first student messages, up
  to the maximum, that are past the scheduled cursor and not past the cut-off, or that lie
  in the fixed window.  Its range runs from the first to the last of them, and when no two
  student messages have the same sequence number it has no other student message in it.
\<close>

theorem request_opens_next_messages:
  assumes scope: "request_scope d sc = Some r" "scope_running r" and none: "get_active_batch sc d = None"
    and run: "request_transaction env now sc trigger rq d = Inr ((needed, res), d')" and created: "rr_created res"
    and qs: "qs = next_messages env d sc rq (rr_request_cutoff res)"
  shows "needed \<and> qs \<noteq> [] \<and> (\<exists>b. batches d' = batches d @ [b] \<and> rr_assessment_batch_id res = Some (b_id b)
      \<and> b_id b = next_batch_id d \<and> batch_scope b = sc \<and> b_status b = ''pending'' \<and> b_trigger_type b = trigger
      \<and> b_student_sequences b = Some qs
      \<and> b_candidate_start_sequence b = hd qs \<and> b_candidate_end_sequence b = last qs
      \<and> (distinct (student_sequences d sc) \<longrightarrow>
           qs = sequences (student_rows_in_window d sc (b_candidate_start_sequence b) (b_candidate_end_sequence b))))"
proof -
  let ?n = "nat (max 1 (or_int (se_max_candidate_messages env) 8))"
  from transaction_idle [OF scope none run] obtain x es g c d1 ms rp res0 where r: "r = (x, es, g)" and
    d1: "d1 = opened_cursor (fmt_sec now) sc es d" and
    sq: "sequences (candidate_rows d1 sc rq (rr_request_cutoff res) ms)
       = filter (eligible d sc rq (rr_request_cutoff res)) (student_sequences d sc)" and
    res0: "\<not> rr_created res0" and
    alt: "(\<exists>reason. opening_refusal env now trigger rq (rr_request_cutoff res) x c ms
         (candidate_rows d1 sc rq (rr_request_cutoff res) ms) = Some reason
       \<and> res = skipped reason res0 \<and> \<not> needed \<and> d' = d1)
     \<or> opening_refusal env now trigger rq (rr_request_cutoff res) x c ms
         (candidate_rows d1 sc rq (rr_request_cutoff res) ms) = None
       \<and> open_window env now sc es trigger rq rp ms (candidate_rows d1 sc rq (rr_request_cutoff res) ms) res0 d1
         = Inr ((needed, res), d')" .
  define students where "students = candidate_rows d1 sc rq (rr_request_cutoff res) ms"
  define claimed where "claimed = take ?n students"
  from alt res0 created have ref: "opening_refusal env now trigger rq (rr_request_cutoff res) x c ms students = None"
    and o: "open_window env now sc es trigger rq rp ms students res0 d1 = Inr ((needed, res), d')"
    by (auto simp: skipped_def students_def)
  have seq: "sequences claimed = qs"
    unfolding claimed_def take_sequences students_def sq qs next_messages_def ..
  from ref have "claimed \<noteq> []" by (auto simp: claimed_def opening_refusal_def)
  then have ends: "or0 (m_sequence (hd claimed)) = hd qs" "or0 (m_sequence (last claimed)) = last qs" "qs \<noteq> []"
    using seq by (auto simp: hd_sequences last_sequences sequences_def)
  define b where "b = claimed_window env (fmt_sec now) sc es trigger rq rp claimed (context_bounds env d1 sc (hd qs))
      (length students > length claimed \<or> rq_fixed_start rq = None \<and> length ms > length claimed) (next_batch_id d1)"
  have fresh: "find (same_window sc (hd qs) (last qs)) (batches d1) = None"
    using o created res0
    by (auto simp: open_window_def Let_def claimed_def [symmetric] ends andthen_Inr_iff split: option.splits)
  then have "batches d' = batches d1 @ [b]" "needed" "rr_assessment_batch_id res = Some (b_id b)"
    using o by (auto simp: open_window_def Let_def claimed_def [symmetric] ends indexed_Inr b_def insert_batch_def)
  moreover have "batches d1 = batches d" "next_batch_id d1 = next_batch_id d" by (simp_all add: d1 opened_cursor_def)
  moreover have "b_id b = next_batch_id d1" "batch_scope b = sc" "b_status b = ''pending''"
    by (simp_all add: b_def claimed_window_shape)
  moreover have "b_trigger_type b = trigger" "b_student_sequences b = Some qs"
      "b_candidate_start_sequence b = hd qs" "b_candidate_end_sequence b = last qs"
    by (cases sc; simp add: b_def claimed_window_def ends seq)+
  moreover have "qs = sequences (student_rows_in_window d sc (hd qs) (last qs))" if "distinct (student_sequences d sc)"
  proof -
    have "sorted (student_sequences d sc)" unfolding student_sequences_def by (rule sorted_student_rows)
    from take_interval [OF this that eligible_convex qs [unfolded next_messages_def] ends(3)]
    show ?thesis by (simp add: student_rows_in_window_def sequences_student_rows)
  qed
  ultimately show ?thesis using ends(3) by auto
qed

definition idle_room :: platform where
  "idle_room = windowed\<lparr>batches := []\<rparr>"

abbreviation opening_demo where
  "opening_demo \<equiv> request_transaction demo_env 0 (7, 1, 3) ''help_request'' (help_at 3) idle_room"

lemma opening_demo_parts:
  "request_scope idle_room (7, 1, 3) = Some (the (request_scope idle_room (7, 1, 3)))"
  "scope_running (the (request_scope idle_room (7, 1, 3)))" "get_active_batch (7, 1, 3) idle_room = None"
  "opening_demo = Inr ((fst (fst (projr opening_demo)), snd (fst (projr opening_demo))), snd (projr opening_demo))"
  "rr_created (snd (fst (projr opening_demo)))"
  "next_messages demo_env idle_room (7, 1, 3) (help_at 3) (rr_request_cutoff (snd (fst (projr opening_demo)))) = [1, 3]"
  by code_simp+

lemma request_opens_next_messages_witness:
  "\<exists>b. batches (snd (projr opening_demo)) = batches idle_room @ [b] \<and> b_student_sequences b = Some [1, 3]"
  using request_opens_next_messages [OF opening_demo_parts(1-5) refl] unfolding opening_demo_parts(6) by blast

lemma claimed_ends:
  assumes "students \<noteq> []" and "take (nat (max 1 (or_int k 8))) (sequences students) = qs"
  shows "or0 (m_sequence (hd (take (nat (max 1 (or_int k 8))) students))) = hd qs"
    and "or0 (m_sequence (last (take (nat (max 1 (or_int k 8))) students))) = last qs"
  using assms by (auto simp: hd_sequences last_sequences take_sequences)

lemma open_window_reopens:
  assumes inv: "batch_inv d" and b: "find (same_window sc a e) (batches d) = Some b" and idle: "\<not> active_batch b"
    and ends: "students \<noteq> []" "take (nat (max 1 (or_int (se_max_candidate_messages env) 8))) (sequences students) = qs"
      "a = hd qs" "e = last qs"
    and o: "open_window env now sc es trigger rq rp ms students res0 d = Inr ((needed, res), d')"
  shows "rr_created res = rr_created res0 \<and> rr_skipped res = rr_skipped res0 \<and> rr_candidate res = Some (a, e)
    \<and> (needed \<longleftrightarrow> retryable b \<and> (\<forall>t. b_next_retry_at b = Some t \<longrightarrow> stamp_dt t \<le> now))
    \<and> batches d' = (if needed then update_where (\<lambda>x. b_id x = b_id b \<and> retryable x)
          (reopened_row (fmt_sec now) trigger (rq_trigger_sequence rq)) (batches d) else batches d)"
proof -
  let ?n = "nat (max 1 (or_int (se_max_candidate_messages env) 8))"
  from claimed_ends [OF ends(1,2)] ends(3,4) o b obtain won why d1 where
    t: "take_up_again env now trigger (rq_trigger_sequence rq) b d = Inr ((won, why), d1)" and
    res: "needed = won" "rr_created res = rr_created res0" "rr_skipped res = rr_skipped res0" "rr_candidate res = Some (a, e)"
      "batches d' = batches d1"
    by (auto simp: open_window_def Let_def andthen_Inr_iff)
  have mem: "b \<in> set (batches d)" using b by (auto simp: find_Some_iff)
  with inv have "batch_ok b" "distinct (map b_id (batches d))" by (auto simp: batch_inv_parts)
  then have max: "1 \<le> b_max_attempts b" and ids: "distinct (map b_id (batches d))"
    by (auto simp: batch_ok_def attempts_ok_def)
  have "rowcount (\<lambda>r. b_id r = b_id b \<and> retryable r) (batches d) = (if retryable b then 1 else 0)"
    by (rule rowcount_fetched [OF ids fetch_by_unique [where key = b_id, OF ids mem]]) (rule refl)
  then have one: "rowcount (\<lambda>r. b_id r = b_id b \<and> retryable r) (batches d) = 1 \<longleftrightarrow> retryable b" by simp
  have "won \<longleftrightarrow> retryable b \<and> (\<forall>t. b_next_retry_at b = Some t \<longrightarrow> stamp_dt t \<le> now)"
    using t max one by (auto simp: take_up_again_def retryable_def or_int_def Let_def indexed_Inr split: if_splits option.splits)
  moreover have "batches d1 = (if won then update_where (\<lambda>x. b_id x = b_id b \<and> retryable x)
      (reopened_row (fmt_sec now) trigger (rq_trigger_sequence rq)) (batches d) else batches d)"
    using t max one by (auto simp: take_up_again_def Let_def indexed_Inr change_batch_def retryable_def or_int_def
        split: if_splits option.splits)
  ultimately show ?thesis using res by simp
qed

text \<open>
  C31. What an explicit trigger does in a running discussion without an active window, when it
  is not of the periodic kind and has a message to take: it is not skipped and names the window
  of its next messages.  Where no window has exactly that range it opens one.  Where one has,
  that window is made pending again just when it failed with attempts left and its retry is
  due; otherwise (it succeeded, was given up, or waits for its retry) the request opens nothing
  and leaves every window as it was.
\<close>

theorem explicit_request_is_served:
  assumes inv: "batch_inv d" and scope: "request_scope d sc = Some r" "scope_running r"
    and none: "get_active_batch sc d = None" and trigger: "trigger \<notin> set ORDINARY_PERIODIC_TRIGGERS"
    and run: "request_transaction env now sc trigger rq d = Inr ((needed, res), d')"
    and qs: "qs = next_messages env d sc rq (rr_request_cutoff res)" "qs \<noteq> []"
  shows "\<not> rr_skipped res \<and> rr_candidate res = Some (hd qs, last qs)
    \<and> (case find (same_window sc (hd qs) (last qs)) (batches d) of
         None \<Rightarrow> rr_created res \<and> needed
       | Some b \<Rightarrow> \<not> rr_created res
           \<and> (needed \<longleftrightarrow> retryable b \<and> (\<forall>t. b_next_retry_at b = Some t \<longrightarrow> stamp_dt t \<le> now))
           \<and> (if needed then \<exists>b'. fetch_batch d' (b_id b) = Some b' \<and> b_status b' = ''pending''
                 \<and> b_trigger_type b' = trigger
              else batches d' = batches d))"
proof -
  let ?n = "nat (max 1 (or_int (se_max_candidate_messages env) 8))"
  from transaction_idle [OF scope none run] obtain x es g c d1 ms rp res0 where r: "r = (x, es, g)" and
    d1: "d1 = opened_cursor (fmt_sec now) sc es d" and
    sq: "sequences (candidate_rows d1 sc rq (rr_request_cutoff res) ms)
       = filter (eligible d sc rq (rr_request_cutoff res)) (student_sequences d sc)" and
    res0: "\<not> rr_created res0" "\<not> rr_skipped res0" and
    alt: "(\<exists>reason. opening_refusal env now trigger rq (rr_request_cutoff res) x c ms
         (candidate_rows d1 sc rq (rr_request_cutoff res) ms) = Some reason
       \<and> res = skipped reason res0 \<and> \<not> needed \<and> d' = d1)
     \<or> opening_refusal env now trigger rq (rr_request_cutoff res) x c ms
         (candidate_rows d1 sc rq (rr_request_cutoff res) ms) = None
       \<and> open_window env now sc es trigger rq rp ms (candidate_rows d1 sc rq (rr_request_cutoff res) ms) res0 d1
         = Inr ((needed, res), d')" .
  define students where "students = candidate_rows d1 sc rq (rr_request_cutoff res) ms"
  have seq: "take ?n (sequences students) = qs"
    unfolding students_def sq qs(1) next_messages_def ..
  with qs(2) have ne: "students \<noteq> []" by (auto simp: sequences_def)
  have "opening_refusal env now trigger rq (rr_request_cutoff res) x c ms students = None"
    using ne trigger by (auto simp: opening_refusal_def ORDINARY_PERIODIC_TRIGGERS_def)
  with alt have o: "open_window env now sc es trigger rq rp ms students res0 d1 = Inr ((needed, res), d')"
    by (auto simp: students_def)
  have same: "batches d1 = batches d" by (simp add: d1 opened_cursor_def)
  show ?thesis
  proof (cases "find (same_window sc (hd qs) (last qs)) (batches d)")
    case None
    from claimed_ends [OF ne seq] None o res0 show ?thesis by (auto simp: open_window_def Let_def same indexed_Inr)
  next
    case (Some b)
    have "safe_step d d1"
      using opened_cursor_ensure [OF scope(1) [unfolded r]] safe_refl [OF inv] unfolding d1 by (rule safe_ensure)
    then have inv1: "batch_inv d1" by (rule safe_inv)
    have "b \<in> set (batches d)" "batch_scope b = sc" using Some by (auto simp: find_Some_iff same_window_def)
    then have "\<not> active_batch b" by (rule no_active_batch [OF none])
    note opened = open_window_reopens [OF inv1 Some [folded same] this ne seq refl refl o]
    have "\<exists>b'. fetch_batch d' (b_id b) = Some b' \<and> b_status b' = ''pending'' \<and> b_trigger_type b' = trigger" if needed
    proof -
      have "fetch_batch d (b_id b) = Some b"
        using inv \<open>b \<in> set (batches d)\<close> by (simp add: fetch_batch_def batch_inv_parts fetch_by_unique)
      moreover have "retryable b" using opened that by blast
      ultimately show ?thesis
        using opened that
        by (simp add: same fetch_batch_def fetch_by_update_where [where key = b_id] reopened_row_def)
    qed
    with opened Some res0 show ?thesis by (cases needed) (auto simp: same)
  qed
qed

lemma idle_room_inv: "batch_inv idle_room"
  using windowed_inv by (simp add: batch_inv_parts idle_room_def single_flight_def finalized_through_def cursor_of_def)

lemma explicit_request_is_served_witness:
  "\<not> rr_skipped (snd (fst (projr opening_demo))) \<and> rr_candidate (snd (fst (projr opening_demo))) = Some (1, 3)"
proof -
  have "''help_request'' \<notin> set ORDINARY_PERIODIC_TRIGGERS" by code_simp
  from explicit_request_is_served [OF idle_room_inv opening_demo_parts(1-3) this opening_demo_parts(4) refl]
  show ?thesis unfolding opening_demo_parts(6) by simp
qed

end
