(* ===== verification/Retry_Properties.thy ===== *)
theory Retry_Properties
  imports Scheduler_Properties
begin

text \<open>
  What becomes of a window whose detection failed: it is retried within its allowance or
  given up, never left running; except for a window that was given up before and opened
  again, which gets stuck.
\<close>

lemma terminalize_done:
  assumes t: "terminalize_exhausted_batch now bid code detail force d = Inr (r, d')" and inv: "batch_inv d"
    and b: "fetch_batch d bid = Some b" "terminable b"
    and go: "force \<or> (if b_max_attempts b = 0 then 1 else b_max_attempts b) \<le> b_attempt_count b"
  shows "tz_terminalized r"
proof -
  from t b(1) have bs: "batch_with_scope d bid = Inr b"
    by (auto simp: terminalize_exhausted_batch_def batch_with_scope_def andthen_Inr_iff)
  then have id: "b_id b = bid" by (auto dest: batch_with_scopeD)
  have "terminalize_refusal force b d = None"
    using b(2) go by (auto simp: terminalize_refusal_def terminable_def)
  from terminalize_parts [OF t bs this] obtain fs ri oi d1 d2 where
    r: "insert_rule_fallback_segments b (fmt_sec now) 0 fs d = Inr (ri, d1)" and
    u: "insert_unclassified_fallback_segments b (fmt_sec now)
       (candidate_student_rows d (b_group_id b) (b_session_id b) (b_discussion_id b)
          (b_candidate_start_sequence b) (b_candidate_end_sequence b)) (int (length fs)) d1 = Inr (oi, d2)" and
    c: "terminalize_commit now b code detail ri oi (window_students d b) d2 = Inr (r, d')" .
  have "segments_inv d" using inv by (simp add: batch_inv_def)
  with r have s1: "segments_only d d1" by (rule insert_rule_only)
  then have "segments_inv d1" by (simp add: segments_only_def)
  with u have "segments_only d1 d2"
    by (auto simp: insert_unclassified_fallback_segments_def Let_def intro: insert_unclassified_only)
  with s1 have same: "batches d2 = batches d" by (auto dest!: segments_only_frame(1))
  have "distinct (map b_id (batches d2))" using inv by (simp add: batch_inv_parts same)
  moreover have "fetch_by b_id (b_id b) (batches d2) = Some b" using b(1) by (simp add: same id fetch_batch_def)
  ultimately have "rowcount (\<lambda>q. b_id q = b_id b \<and> terminable q) (batches d2) = (if terminable b then 1 else 0)"
    by (rule rowcount_fetched) (rule refl)
  with c b(2) show ?thesis by (auto simp: terminalize_commit_def Let_def andthen_Inr_iff)
qed

lemma closing_fetch: "fetch_batch (finalize_terminal_pipeline_siblings now bid d) k = fetch_batch d k"
  using committed_tables [of d now bid]
  by (simp add: finalize_terminal_pipeline_siblings_def fetch_batch_def assessment_tables_def)

text \<open>The three transactions of a retry, on the window they are about.\<close>

lemma mark_failed_fetch:
  assumes m: "mark_batch_failed now i code detail retry d = Inr (u, d')" and b: "fetch_batch d i = Some b"
  shows "fetch_batch d' i = Some (if active_batch b
    then failed_row (fmt_sec now) (text_of (or_text code (Some ''assessment_failed''))) detail retry b else b)"
proof -
  have "b_id b = i" using b by (simp add: fetch_batch_def fetch_by_SomeD)
  with m b show ?thesis
    by (auto simp: mark_batch_failed_def andthen_Inr_iff fetch_batch_def failed_row_def fetch_by_update_where)
qed

lemma prepare_retry_fetch:
  assumes p: "prepare_retry now i retry d = Inr (ok, d')" and b: "fetch_batch d i = Some b"
    and ids: "distinct (map b_id (batches d))"
  shows "ok = retryable b \<and> fetch_batch d' i = Some (if retryable b
    then b\<lparr>b_status := ''pending'', b_next_retry_at := retry, b_completed_at := None,
            b_error_code := None, b_error_detail := None, b_updated_at := Some (fmt_sec now)\<rparr> else b)"
proof -
  have "b_id b = i" using b by (simp add: fetch_batch_def fetch_by_SomeD)
  moreover have "rowcount (\<lambda>r. b_id r = i \<and> retryable r) (batches d) = (if retryable b then 1 else 0)"
    using b unfolding fetch_batch_def by (rule rowcount_fetched [OF ids]) (rule refl)
  ultimately show ?thesis
    using p b by (auto simp: prepare_retry_def andthen_Inr_iff indexed_Inr fetch_batch_def fetch_by_update_where)
qed

lemma noted_fetch:
  assumes "enqueue_and_note env now i delay d = Inr d'" and b: "fetch_batch d i = Some b"
  shows "enqueue_batch env i delay = None
    \<and> fetch_batch d' i = Some (b\<lparr>b_enqueued_at := Some (fmt_ms now), b_updated_at := Some (fmt_ms now)\<rparr>)"
proof -
  have "b_id b = i" using b by (simp add: fetch_batch_def fetch_by_SomeD)
  with assms show ?thesis
    by (auto simp: enqueue_and_note_def mark_enqueued_def andthen_def batch_with_scope_def map_sum_def fetch_batch_def
        fetch_by_update_where split: option.splits sum.splits)
qed

lemma give_up_settles:
  assumes inv: "batch_inv d" and b: "fetch_batch d (b_id b) = Some b" "terminable b"
    and go: "force \<or> (if b_max_attempts b = 0 then 1 else b_max_attempts b) \<le> b_attempt_count b"
    and r: "give_up_and_close now b code detail force reason d = (Inr r, d')"
  shows "\<not> rt_retried r \<and> (\<exists>b'. fetch_batch d' (b_id b) = Some b' \<and> b_status b' = ''failed''
    \<and> b_terminal_status b' \<in> Some ` set TERMINAL_BATCH_STATUSES \<and> rt_terminal r = Some b')"
proof -
  from r obtain t d1 where
    t: "terminalize_exhausted_batch now (b_id b) (Some (normalize_batch_error_code (Some code))) (short_detail detail) force d
        = Inr (t, d1)" and
    r': "r = (not_retried reason)\<lparr>rt_terminal := fetch_batch d1 (b_id b)\<rparr>" and
    d': "d' = finalize_terminal_pipeline_siblings now (b_id b) d1"
    by (auto simp: give_up_and_close_def split: sum.splits)
  have "tz_terminalized t" by (rule terminalize_done [OF t inv b go])
  then show ?thesis
    by (rule terminalize_effects [OF inv _ t]) (simp add: r' d' closing_fetch not_retried_def)
qed

lemma retry_later_settles:
  assumes inv: "batch_inv d" and b: "fetch_batch d (b_id b) = Some b" "b_status b = ''running''"
    and left: "b_attempt_count b < b_max_attempts b"
    and r: "retry_later env now b code detail d = (Inr r, d')"
  shows "\<exists>b'. fetch_batch d' (b_id b) = Some b' \<and> b_attempt_count b' = b_attempt_count b
    \<and> (if rt_retried r
       then b_status b' = ''pending'' \<and> enqueue_batch env (b_id b) (retry_delay env b) = None
         \<and> b_next_retry_at b' = Some (fmt_sec (now + seconds (retry_delay env b)))
       else b_status b' = ''failed'' \<and> rt_reason r = Some ''retry_enqueue_failed'')"
proof -
  let ?at = "Some (fmt_sec (now + seconds (retry_delay env b)))"
  let ?code = "Some (normalize_batch_error_code (Some code))"
  let ?failed = "failed_row (fmt_sec now) (text_of (or_text ?code (Some ''assessment_failed''))) (short_detail detail) ?at b"
  from r obtain d1 where m: "mark_batch_failed now (b_id b) ?code (short_detail detail) ?at d = Inr ((), d1)"
    by (auto simp: retry_later_def Let_def split: sum.splits)
  with r obtain ok d2 where pr: "prepare_retry now (b_id b) ?at d1 = Inr (ok, d2)"
    by (auto simp: retry_later_def Let_def split: sum.splits)
  have b1: "fetch_batch d1 (b_id b) = Some ?failed"
    using mark_failed_fetch [OF m b(1)] b(2) by (simp add: active_iff)
  have s1: "safe_step d d1" using m inv by (rule mark_batch_failed_safe)
  then have ids: "distinct (map b_id (batches d1))" using safe_inv by (auto simp: batch_inv_parts)
  have "retryable ?failed" using left by (simp add: retryable_def failed_row_def)
  with prepare_retry_fetch [OF pr b1 ids] obtain b2 where
    b2: "fetch_batch d2 (b_id b) = Some b2" "b_status b2 = ''pending''" "b_next_retry_at b2 = ?at"
      "b_attempt_count b2 = b_attempt_count b" and ok
    by (auto simp: failed_row_def)
  show ?thesis
  proof (cases "enqueue_and_note env now (b_id b) (retry_delay env b) d2")
    case (Inr d3)
    with r m pr \<open>ok\<close> have "d' = d3" "rt_retried r" by (auto simp: retry_later_def Let_def)
    with noted_fetch [OF Inr b2(1)] b2 show ?thesis by simp
  next
    case (Inl e)
    with r m pr \<open>ok\<close> obtain u where
      f: "mark_batch_failed now (b_id b) (Some ''application_error'') (Some (take 500 e)) ?at d2 = Inr (u, d')"
      and "r = not_retried ''retry_enqueue_failed''"
      by (auto simp: retry_later_def Let_def split: sum.splits)
    with mark_failed_fetch [OF f b2(1)] b2 show ?thesis
      by (simp add: active_iff failed_row_def not_retried_def)
  qed
qed

text \<open>
  C27. A failed attempt of a window that was not given up before is settled, in one of three
  ways.  An error in the structure of the answer, or the last attempt, gives the window up.
  Any other failure makes it pending again for the moment its backoff is over, when the queue
  takes it; when the queue refuses it, the window is failed, with attempts left, and the
  result says that the retry could not be queued.  In none of them is it running any more.
\<close>

theorem failed_attempt_is_settled:
  assumes inv: "batch_inv d" and b: "fetch_batch d (b_id b) = Some b" "b_status b = ''running''" "b_terminal_status b = None"
    and r: "schedule_limited_retry env now b code detail d = (Inr r, d')"
    and final: "final \<longleftrightarrow> code \<in> set STRUCTURED_OUTPUT_ERRORS \<or> b_max_attempts b \<le> b_attempt_count b"
  shows "\<exists>b'. fetch_batch d' (b_id b) = Some b'
    \<and> (if rt_retried r
       then \<not> final \<and> b_status b' = ''pending'' \<and> enqueue_batch env (b_id b) (retry_delay env b) = None
         \<and> b_next_retry_at b' = Some (fmt_sec (now + seconds (retry_delay env b)))
       else b_status b' = ''failed''
         \<and> (if final then b_terminal_status b' \<in> Some ` set TERMINAL_BATCH_STATUSES \<and> rt_terminal r = Some b'
            else rt_reason r = Some ''retry_enqueue_failed''))"
proof -
  have "batch_ok b"
    using inv b(1) by (auto simp: batch_inv_def batches_inv_def fetch_batch_def dest: fetch_by_SomeD)
  then have max: "1 \<le> b_max_attempts b" by (auto simp: batch_ok_def attempts_ok_def)
  have t: "terminable b" using b(2,3) by (simp add: terminable_def)
  show ?thesis
  proof (cases final)
    case True
    then obtain force reason where go: "force \<or> (if b_max_attempts b = 0 then 1 else b_max_attempts b) \<le> b_attempt_count b"
      and g: "give_up_and_close now b code detail force reason d = (Inr r, d')"
      using r max final unfolding schedule_limited_retry_def or_int_def by (auto split: if_splits)
    from give_up_settles [OF inv b(1) t go g] True show ?thesis by auto
  next
    case False
    then have "retry_later env now b code detail d = (Inr r, d')" "b_attempt_count b < b_max_attempts b"
      using r max final unfolding schedule_limited_retry_def or_int_def by (auto split: if_splits)
    from retry_later_settles [OF inv b(1,2) this(2,1)] False show ?thesis by auto
  qed
qed

abbreviation retry_demo where
  "retry_demo \<equiv> schedule_limited_retry demo_env 0 demo_window ''read_timeout'' ''timeout'' windowed"

lemma failed_attempt_is_settled_witness:
  "\<exists>b'. fetch_batch (snd retry_demo) 5 = Some b' \<and> b_status b' = ''pending''
     \<and> b_next_retry_at b' = Some (Stamp 30 None)"
proof -
  have 1: "fetch_batch windowed (b_id demo_window) = Some demo_window" "b_status demo_window = ''running''"
    "b_terminal_status demo_window = None" "b_id demo_window = 5"
    "rt_retried (projr (fst retry_demo))" "\<not> isl (fst retry_demo)"
    "fmt_sec (0 + seconds (retry_delay demo_env demo_window)) = Stamp 30 None"
    by code_simp+
  then have "retry_demo = (Inr (projr (fst retry_demo)), snd retry_demo)" by (simp add: prod_eq_iff)
  from failed_attempt_is_settled [OF windowed_inv 1(1-3) this refl] 1(4,5,7) show ?thesis by auto
qed

text \<open>
  C37. A window that was given up and opened again gets stuck: when it fails for good it
  stays running, because it counts as already terminal, and while it runs no other window of
  its discussion can be opened.
\<close>

theorem terminal_window_sticks:
  assumes inv: "batch_inv d" and b: "batch_with_scope d (b_id b) = Inr b" "b_status b = ''running''"
      "b_terminal_status b \<in> Some ` set TERMINAL_BATCH_STATUSES"
    and final: "code \<in> set STRUCTURED_OUTPUT_ERRORS \<or> b_max_attempts b \<le> b_attempt_count b"
    and x: "x \<in> set (batches d)" "batch_scope x = batch_scope b" "active_batch x"
  shows "\<exists>r d'. schedule_limited_retry env now b code detail d = (Inr r, d') \<and> \<not> rt_retried r
    \<and> fetch_batch d' (b_id b) = Some b \<and> x = b"
proof -
  from batch_with_scopeD [OF b(1)] have f: "fetch_batch d (b_id b) = Some b" "b \<in> set (batches d)" by auto
  have "batch_ok b" using inv f(2) by (simp add: batch_inv_parts)
  then have max: "1 \<le> b_max_attempts b" by (auto simp: batch_ok_def attempts_ok_def)
  have ref: "terminalize_refusal force b d \<in> Some ` range (not_terminalized ''already_terminal'')" for force
    using b(3) by (auto simp: terminalize_refusal_def)
  have t: "\<exists>ids. terminalize_exhausted_batch now (b_id b) c t force d = Inr (not_terminalized ''already_terminal'' ids, d)"
    for c t force
    using b(1) ref [of force] by (auto simp: terminalize_exhausted_batch_def)
  have g: "\<exists>r d'. give_up_and_close now b code detail force reason d = (Inr r, d') \<and> \<not> rt_retried r
      \<and> fetch_batch d' (b_id b) = Some b" for force reason
    using t [of "Some (normalize_batch_error_code (Some code))" "short_detail detail" force] f(1)
    by (auto simp: give_up_and_close_def not_retried_def closing_fetch)
  have "x = b"
  proof -
    have act: "active_batch b" using b(2) by (simp add: active_iff)
    have sf: "distinct (map batch_scope (filter active_batch (batches d)))"
      using inv by (simp add: batch_inv_parts single_flight_def)
    show ?thesis by (rule key_inj [OF sf]) (use x f(2) act in auto)
  qed
  with g final max show ?thesis
    unfolding schedule_limited_retry_def or_int_def by (auto split: if_splits)
qed

text \<open>The window of the sample, given up, asked for again and claimed.\<close>

definition stuck_room :: platform where
  "stuck_room = fold assessment_do
     [Inl (Give_Up 7000000 5 None None True),
      Inr (Request_Window demo_env 8000000 (7, 1, 3) ((help_at 5)\<lparr>rq_fixed_start := Some 1, rq_fixed_end := Some 5\<rparr>)),
      Inr (Begin_Execution 9000000 5)] windowed"

definition stuck_at_first :: "platform \<Rightarrow> bool" where
  "stuck_at_first d \<longleftrightarrow> (case batches d of
       b # _ \<Rightarrow> batch_with_scope d (b_id b) = Inr b \<and> b_status b = ''running''
         \<and> list_ex (\<lambda>x. b_terminal_status b = Some x) TERMINAL_BATCH_STATUSES \<and> b_id b = 5
     | [] \<Rightarrow> False)"

lemma stuck_room_stuck: "stuck_at_first stuck_room"
  by code_simp

lemma terminal_window_sticks_witness:
  "\<exists>r d'. schedule_limited_retry demo_env 0 (hd (batches stuck_room)) ''json_parse_error'' ''bad'' stuck_room = (Inr r, d')
     \<and> fetch_batch d' 5 = Some (hd (batches stuck_room)) \<and> b_status (hd (batches stuck_room)) = ''running''"
proof -
  let ?b = "hd (batches stuck_room)"
  have inv: "batch_inv stuck_room" unfolding stuck_room_def by (rule assessment_run_inv [OF windowed_inv])
  have 1: "batch_with_scope stuck_room (b_id ?b) = Inr ?b" "b_status ?b = ''running''"
    "b_terminal_status ?b \<in> Some ` set TERMINAL_BATCH_STATUSES" "b_id ?b = 5"
    using stuck_room_stuck by (auto simp: stuck_at_first_def list_ex_iff split: list.splits)
  have 5: "''json_parse_error'' \<in> set STRUCTURED_OUTPUT_ERRORS" by code_simp
  from 1 have 2: "?b \<in> set (batches stuck_room)" "active_batch ?b"
    by (auto simp: active_iff dest: batch_with_scopeD)
  from terminal_window_sticks [OF inv 1(1-3) disjI1 [OF 5] 2(1) refl 2(2), of demo_env 0 "''bad''"] 1(2,4)
  show ?thesis by auto
qed

text \<open>
  C32. The fallback segments of a window that was given up refuse its later answers: when such a
  window has been opened again and runs, an accepted answer with an item of the same order as
  one of them, and items are numbered from 0 as the fallback segments are, raises on the unique
  index of window and order, and nothing of it is kept.
\<close>

theorem fallback_segments_refuse_answers:
  assumes b: "batch_with_scope d bid = Inr b" "b_status b = ''running''"
    and kept: "s \<in> set (segments d)" "is_fallback_of [bid] s"
    and answer: "normalize_segments library render b (Some (set (window_students d b))) answer = Inr ns"
      "sg_segment_order s \<in> ns_order ` set ns"
  shows "\<exists>e. save_successful_segments library render now bid answer raw parsed model prompt d = Inl e
    \<and> committed d (save_successful_segments library render now bid answer raw parsed model prompt d) = d"
proof -
  from b(1) have "b_id b = bid" by (auto dest: batch_with_scopeD)
  with kept(2) have "sg_assessment_batch_id s = b_id b" by (simp add: is_fallback_of_def)
  from store_segments_taken [OF kept(1) this answer(2)] obtain e
    where "store_segments b (fmt_sec now) prompt ns d = Inl e" by blast
  with b answer(1) show ?thesis by (simp add: save_successful_segments_def committed_def)
qed

lemma fallback_segments_refuse_answers_witness:
  "\<exists>e. save_successful_segments {} (\<lambda>_. []) 9000000 5 window_answer None JNull None None stuck_room = Inl e"
proof -
  let ?b = "hd (batches stuck_room)" and ?s = "hd (segments stuck_room)"
  let ?ns = "normalize_segments {} (\<lambda>_. []) ?b (Some (set (window_students stuck_room ?b))) window_answer"
  have "segments stuck_room \<noteq> [] \<and> is_fallback_of [5] ?s \<and> (case ?ns of Inl _ \<Rightarrow> False
      | Inr ns \<Rightarrow> sg_segment_order ?s \<in> ns_order ` set ns)" by code_simp
  then obtain ns where "?s \<in> set (segments stuck_room)" "is_fallback_of [5] ?s" "?ns = Inr ns"
      "sg_segment_order ?s \<in> ns_order ` set ns"
    by (auto split: sum.splits)
  moreover have "batch_with_scope stuck_room 5 = Inr ?b" "b_status ?b = ''running''"
    using stuck_room_stuck by (auto simp: stuck_at_first_def split: list.splits)
  ultimately show ?thesis using fallback_segments_refuse_answers [where bid = 5] by blast
qed

text \<open>A claim either wins, and the window is the claimed one, or changes no window.\<close>

lemma claim_batch_outcome:
  assumes inv: "batch_inv d" and c: "claim_batch now bid d = Inr (won, d1)"
  shows "discussions d1 = discussions d" "sessions d1 = sessions d" "groups d1 = groups d"
    and "\<not> won \<Longrightarrow> batches d1 = batches d"
    and "won \<Longrightarrow> \<exists>b0. fetch_batch d1 bid = Some (claimed_row (fmt_ms now) b0)"
proof -
  from c obtain b0 where b0: "fetch_batch d bid = Some b0" "b_id b0 = bid"
    and won: "won \<longleftrightarrow> rowcount (\<lambda>r. b_id r = bid \<and> claimable (fmt_ms now) r) (batches d) = 1"
    and d1: "batches d1 = update_where (\<lambda>x. b_id x = bid \<and> claimable (fmt_ms now) x) (claimed_row (fmt_ms now)) (batches d)"
    and frame: "discussions d1 = discussions d" "sessions d1 = sessions d" "groups d1 = groups d"
    by (auto simp: claim_batch_def andthen_Inr_iff Let_def change_batch_def split: if_splits dest: batch_with_scopeD)
  show "discussions d1 = discussions d" "sessions d1 = sessions d" "groups d1 = groups d" by (rule frame)+
  have ids: "distinct (map b_id (batches d))" using inv by (simp add: batch_inv_parts)
  have "rowcount (\<lambda>r. b_id r = bid \<and> claimable (fmt_ms now) r) (batches d) = (if claimable (fmt_ms now) b0 then 1 else 0)"
    by (rule rowcount_fetched [OF ids b0(1) [unfolded fetch_batch_def]]) (rule refl)
  with won have cl: "won \<longleftrightarrow> claimable (fmt_ms now) b0" by auto
  have keep: "b_id (claimed_row ts x) = b_id x" for ts x by (simp add: claimed_row_def)
  show "batches d1 = batches d" if lost: "\<not> won"
  proof -
    have "\<not> claimable (fmt_ms now) x" if "x \<in> set (batches d)" "b_id x = bid" for x
    proof -
      have "b0 \<in> set (batches d)" using b0(1) fetch_by_SomeD unfolding fetch_batch_def by fast
      with that b0(2) have "x = b0" by (intro key_inj [OF ids]) simp_all
      with cl lost show ?thesis by simp
    qed
    then show ?thesis unfolding d1 by (intro update_where_none) auto
  qed
  show "\<exists>b0. fetch_batch d1 bid = Some (claimed_row (fmt_ms now) b0)" if won
    using b0 cl that by (auto simp: fetch_batch_def d1 fetch_by_update_where keep)
qed

text \<open>A refusal leaves the window failed under the code of the refusal.\<close>

definition refuse_start where
  "refuse_start now bid code detail d1 =
     (case mark_batch_failed now bid (Some code) (Some detail) None d1 of
        Inl e \<Rightarrow> (Inl e, d1) | Inr (_, d2) \<Rightarrow> (Inr (Refused code), d2))"

lemma refuse_start_fails:
  assumes "refuse_start now bid code detail d1 = (Inr start, d')" and "fetch_batch d1 bid = Some b"
    and "b_status b = ''running''" and "code \<noteq> []"
  shows "start = Refused code \<and> (\<exists>b'. fetch_batch d' bid = Some b' \<and> b_status b' = ''failed'' \<and> b_error_code b' = Some code)"
proof -
  from assms(1) obtain u where m: "mark_batch_failed now bid (Some code) (Some detail) None d1 = Inr (u, d')"
    and "start = Refused code" by (auto simp: refuse_start_def split: sum.splits)
  with mark_failed_fetch [OF m assms(2)] assms(3,4) show ?thesis
    by (auto simp: active_iff failed_row_def or_text_def)
qed

lemma begin_execution_outcome:
  assumes inv: "batch_inv d" and run: "begin_execution now bid d = (Inr start, d')"
  shows "case start of
      Not_Claimable \<Rightarrow> batches d' = batches d
    | Refused code \<Rightarrow> (\<exists>b'. fetch_batch d' bid = Some b' \<and> b_status b' = ''failed'' \<and> b_error_code b' = Some code)
    | Ready b mode \<Rightarrow> fetch_batch d' bid = Some b \<and> b_status b = ''running''
        \<and> (\<exists>r. request_scope d (batch_scope b) = Some r \<and> scope_running r)
        \<and> pipeline_mode_from_session (fetch_session d (b_session_id b)) = Some mode"
proof -
  from run obtain won d1 where c: "claim_batch now bid d = Inr (won, d1)"
    by (auto simp: begin_execution_def split: sum.splits)
  note out = claim_batch_outcome [OF inv c]
  show ?thesis
  proof (cases won)
    case False
    with run c out(4) show ?thesis by (auto simp: begin_execution_def)
  next
    case True
    from out(5) [OF this] obtain b0 where "fetch_batch d1 bid = Some (claimed_row (fmt_ms now) b0)" ..
    then obtain b where b: "fetch_batch d1 bid = Some b" "b_status b = ''running''"
      by (simp add: claimed_row_def)
    have scope: "request_scope d1 = request_scope d"
      by (auto simp: fun_eq_iff request_scope_def fetch_session_def fetch_group_def out(1-3) split: option.splits)
    have ended: ?thesis if "refuse_start now bid k t d1 = (Inr start, d')" "k \<noteq> []" for k t
      using refuse_start_fails [OF that(1) b that(2)] by (elim conjE) simp
    note start = run [unfolded begin_execution_def c sum.case prod.case Let_def b(1) option.sel scope,
        folded refuse_start_def]
    show ?thesis
    proof (cases "request_scope d (batch_scope b)")
      case None
      with start True show ?thesis
        by (intro ended [where k = "''discussion_not_running''"]) (simp_all add: refuse_start_def)
    next
      case (Some r)
      obtain x es g where r: "r = (x, es, g)" by (cases r) auto
      have es: "fetch_session d (b_session_id b) = Some es"
        using Some by (auto simp: r request_scope_def batch_scope_def split: option.splits)
      consider "\<not> scope_running r" | "scope_running r" "pipeline_mode_from_session (Some es) = None"
        | mode where "scope_running r" "pipeline_mode_from_session (Some es) = Some mode" by fastforce
      then show ?thesis
      proof cases
        case 1
        with start True Some r show ?thesis
          by (intro ended [where k = "''discussion_not_running''"]) (simp_all add: refuse_start_def)
      next
        case 2
        with start True Some r show ?thesis
          by (intro ended [where k = "''state_monitoring_disabled''"]) (simp_all add: refuse_start_def)
      next
        case 3
        with start True Some r have "start = Ready b mode" "d' = d1" by simp_all
        with b Some 3 es show ?thesis by simp
      qed
    qed
  qed
qed

text \<open>
  An execution starts only where it may: a claimed window is handed to the detector
  only in a running discussion of a running session in a room that is not closed, under the
  pipeline mode of the session; a window refused for one of these reasons ends failed with
  that reason, and a window that cannot be claimed is left as it was.
\<close>

theorem execution_starts_only_when_allowed:
  assumes inv: "batch_inv d" and run: "begin_execution now bid d = (Inr start, d')"
  shows "case start of
      Not_Claimable \<Rightarrow> batches d' = batches d
    | Refused code \<Rightarrow> (\<exists>b'. fetch_batch d' bid = Some b' \<and> b_status b' = ''failed'' \<and> b_error_code b' = Some code)
    | Ready b mode \<Rightarrow> fetch_batch d' bid = Some b \<and> b_status b = ''running''
        \<and> (\<exists>r. request_scope d (batch_scope b) = Some r \<and> scope_running r)
        \<and> pipeline_mode_from_session (fetch_session d (b_session_id b)) = Some mode"
  using begin_execution_outcome [OF inv run] .

definition queued_room :: platform where
  "queued_room = fold assessment_do [Inl (Fail_Window 0 5 None None None), Inl (Retry_Window 0 5 None)] windowed"

lemma execution_starts_only_when_allowed_witness:
  "\<exists>b. fst (begin_execution 1000000 5 queued_room) = Inr (Ready b ''strategy'')
     \<and> b_status b = ''running'' \<and> pipeline_mode_from_session (fetch_session queued_room (b_session_id b)) = Some ''strategy''"
proof -
  let ?r = "begin_execution 1000000 5 queued_room"
  have inv: "batch_inv queued_room" unfolding queued_room_def by (rule assessment_run_inv [OF windowed_inv])
  have "case projr (fst ?r) of Ready b m \<Rightarrow> m = ''strategy'' | _ \<Rightarrow> False" "\<not> isl (fst ?r)" by code_simp+
  then obtain b where b: "fst ?r = Inr (Ready b ''strategy'')"
    by (cases "fst ?r") (auto split: execution_start.splits)
  then have "?r = (Inr (Ready b ''strategy''), snd ?r)" by (simp add: prod_eq_iff)
  from execution_starts_only_when_allowed [OF inv this] b show ?thesis by simp
qed

end
