(* ===== verification/Stage2_Lemmas.thy ===== *)
theory Stage2_Lemmas
  imports Stage2_Services
begin

text \<open>
  What the transactions of the second stage leave in the row of the run they are about:
  the run stands for the window, its verdict and its findings are the recorded ones, and
  ending other runs or linking them does not touch them.
\<close>

subsection \<open>The run of a window\<close>

text \<open>What the second stage found, and where the run stands in its discussion.\<close>

definition findings where
  "findings p = (p_facts p, p_canonical_sub_state_code p, p_stage3_status p, p_inhibition_strategy_id p,
     p_stage1_status p, p_session_id p, p_discussion_id p, p_group_id p, p_input_cutoff_student_sequence p,
     p_room_lock_token p, p_id p)"

lemma linked_findings [simp]:
  "findings (linked_original ts r why tr cu p) = findings p"
  "findings (linked_replacement ts i tr p) = findings p"
  "findings (terminal_row mk ts tr cu rel p) = findings p"
  "findings (lease_returned ts p) = findings p" "verdict (lease_returned ts p) = verdict p"
  by (simp_all add: findings_def verdict_def linked_original_def linked_replacement_def terminal_row_def Let_def
      lease_returned_def)

lemma sync_findings [simp]:
  "map findings (pipelines (snd (sync_latest_state_from_replacement now i j d))) = map findings (pipelines d)"
  by (auto simp: sync_latest_state_from_replacement_def Let_def findings_def intro!: map_key_update_where
      split: option.splits)

lemma link_findings [simp]:
  "map findings (pipelines (snd (link_pipeline_replacement now i j r t c d))) = map findings (pipelines d)"
  by (simp add: link_pipeline_replacement_def Let_def map_key_update_where split: option.splits)

lemma mark_findings [simp]:
  "map findings (pipelines (snd (mark_pipeline_terminal mk now row d))) = map findings (pipelines d)"
proof (cases "markable row")
  case True
  show ?thesis
    by (rule mark_pipelines [OF True, of mk now d]) (simp add: map_key_update_where split: option.splits)
qed (simp add: mark_unmarkable)

lemma mark_each_findings [simp]:
  "map findings (pipelines (snd (mark_each mk now rows d))) = map findings (pipelines d)"
  by (induction rows arbitrary: d) (simp_all add: mark_each_snd del: mark_each.simps(2))

lemma fetch_findings:
  "map findings (pipelines d') = map findings (pipelines d) \<Longrightarrow>
   map_option findings (fetch_pipeline d' k) = map_option findings (fetch_pipeline d k)"
proof -
  have "map_option findings (fetch_by p_id k ps)
      = fetch_by (\<lambda>t. snd (snd (snd (snd (snd (snd (snd (snd (snd (snd t)))))))))) k (map findings ps)"
    for ps :: "pipeline_row list"
    by (induction ps) (simp_all add: findings_def)
  then show "map findings (pipelines d') = map findings (pipelines d) \<Longrightarrow> ?thesis"
    by (simp add: fetch_pipeline_def)
qed

text \<open>Two states in which a run has the same verdict and findings.\<close>

definition same_record :: "int \<Rightarrow> platform \<Rightarrow> platform \<Rightarrow> bool" where
  "same_record k d d' \<longleftrightarrow> map_option verdict (fetch_pipeline d' k) = map_option verdict (fetch_pipeline d k)
     \<and> map_option findings (fetch_pipeline d' k) = map_option findings (fetch_pipeline d k)"

lemma same_record_refl [simp]: "same_record k d d"
  by (simp add: same_record_def)

lemma same_record_trans [trans]: "same_record k d d1 \<Longrightarrow> same_record k d1 d2 \<Longrightarrow> same_record k d d2"
  by (simp add: same_record_def)

lemma same_record_pipelines: "pipelines d' = pipelines d \<Longrightarrow> same_record k d d'"
  by (simp add: same_record_def fetch_pipeline_def)

lemma same_record_link: "same_record k d (link_replaced now b pid d)"
  by (simp add: same_record_def link_replaced_def Let_def link_fetch_verdict fetch_findings [OF link_findings])

lemma same_record_sync: "same_record k d (snd (sync_latest_state_from_replacement now i j d))"
  by (simp add: same_record_def sync_fetch(1) fetch_findings [OF sync_findings])

lemma same_record_sync_each: "same_record k d (sync_each now pid ids d)"
proof (induction ids arbitrary: d)
  case (Cons i ids)
  show ?case
    using same_record_trans [OF same_record_sync Cons.IH, of d now i pid] by (simp add: sync_each_def)
qed (simp add: sync_each_def)

lemma same_record_sync_replaced: "same_record k d (sync_replaced now b pid d)"
  by (auto simp: sync_replaced_def Let_def intro!: same_record_trans [OF same_record_link same_record_sync])

lemma same_record_marks: "k \<notin> p_id ` set rows \<Longrightarrow> same_record k d (snd (mark_each mk now rows d))"
  by (simp add: same_record_def mark_each_verdict fetch_findings [OF mark_each_findings])

lemma same_record_change:
  "(\<And>p. p_id (f p) = p_id p) \<Longrightarrow> (\<And>p. verdict (f p) = verdict p) \<Longrightarrow> (\<And>p. findings (f p) = findings p)
   \<Longrightarrow> same_record k d (change_pipelines P f d)"
  by (cases "fetch_pipeline d k") (simp_all add: same_record_def runs.fetch_change)

lemma same_record_close:
  assumes "close_preliminary now b a p d = Inr (ids, d')"
  shows "same_record (p_id p) d d'"
proof -
  from assms obtain d1 where sup: "supersede_preliminary_runs_for_batch_row now p a (b_candidate_end_sequence b) d = Inr (ids, d1)"
    and d': "d' = sync_replaced now b (p_id p) (sync_each now (p_id p) ids d1)"
    by (auto simp: close_preliminary_def andthen_Inr_iff)
  from sup obtain mk rows where "d1 = snd (mark_each mk now rows d)" "p_id p \<notin> p_id ` set rows"
    by (rule supersede_preliminary_marks)
  then have "same_record (p_id p) d d1" by (simp add: same_record_marks)
  also have "same_record (p_id p) d1 (sync_each now (p_id p) ids d1)" by (rule same_record_sync_each)
  also have "same_record (p_id p) \<dots> d'" unfolding d' by (rule same_record_sync_replaced)
  finally show ?thesis .
qed

lemma release_stage2_pipelines:
  "pipelines (snd (release_stage2_lock ts row d)) = pipelines d
   \<or> pipelines (snd (release_stage2_lock ts row d))
       = pipelines (change_pipelines (\<lambda>p. p_id p = p_id row) (lease_returned ts) d)"
  by (simp add: release_stage2_lock_def Let_def)

lemma same_record_release: "same_record k d (snd (release_stage2_lock ts row d))"
  using release_stage2_pipelines [of ts row d]
proof
  assume "pipelines (snd (release_stage2_lock ts row d))
    = pipelines (change_pipelines (\<lambda>p. p_id p = p_id row) (lease_returned ts) d)"
  then show ?thesis
    by (rule same_record_trans [OF same_record_change same_record_pipelines, rotated 3]) simp_all
qed (rule same_record_pipelines)

lemma record_replacement_pipelines:
  "\<exists>f. snd (record_replacement_request now pid reason t c d) = d
   \<or> snd (record_replacement_request now pid reason t c d) = change_pipelines (\<lambda>p. p_id p = pid) f d
      \<and> (\<forall>p. p_id (f p) = p_id p \<and> verdict (f p) = verdict p \<and> findings (f p) = findings p)"
  by (cases "fetch_pipeline d pid") (auto simp: record_replacement_request_def Let_def verdict_def findings_def)

lemma same_record_request:
  "same_record k d (request_replacement_if now stale pid latest d)"
  using record_replacement_pipelines [of now pid "''STALE_NEW_STUDENT_MESSAGE''" "map_option m_id latest"
      "Option.bind latest m_sequence" d]
  by (cases stale) (auto simp: request_replacement_if_def intro!: same_record_change)

lemma find_pipeline_row_Some:
  assumes "find_pipeline_row b d = Some q"
  shows "q \<in> set (pipelines d)" "is_owner_candidate b q"
    "\<And>x. x \<in> set (pipelines d) \<Longrightarrow> is_owner_candidate b x \<Longrightarrow> candidate_rank b q \<le> candidate_rank b x"
proof -
  from assms obtain qs where "sort_key (candidate_rank b) (filter (is_owner_candidate b) (pipelines d)) = q # qs"
    by (auto simp: find_pipeline_row_def split: list.splits)
  from sort_key_head [OF this] show "q \<in> set (pipelines d)" "is_owner_candidate b q"
    "\<And>x. x \<in> set (pipelines d) \<Longrightarrow> is_owner_candidate b x \<Longrightarrow> candidate_rank b q \<le> candidate_rank b x"
    by auto
qed

lemma fetch_by_append: "fetch_by key k (xs @ ys) = (case fetch_by key k xs of None \<Rightarrow> fetch_by key k ys | Some r \<Rightarrow> Some r)"
  by (induction xs) auto

lemma not_ready_published [simp]: "upper ''NOT_READY'' \<noteq> ''PUBLISHED''"
  by code_simp

lemma new_run_candidate: "is_owner_candidate b (new_run ts mode b n)"
  by (simp add: is_owner_candidate_def new_run_def)

lemma adopted_candidate:
  "is_owner_candidate b q \<Longrightarrow> is_owner_candidate b (adopted_row mode b q)
     \<and> p_assessment_batch_id (adopted_row mode b q) = Some (b_id b)"
  by (auto simp: is_owner_candidate_def adopted_row_def)

text \<open>The run of a window, and the state in which it is there.\<close>

lemma no_owner_candidate:
  assumes "find_pipeline_row b d = None" and "x \<in> set (pipelines d)"
  shows "\<not> is_owner_candidate b x"
proof -
  from assms(1) have "sort_key (candidate_rank b) (filter (is_owner_candidate b) (pipelines d)) = []"
    by (auto simp: find_pipeline_row_def split: list.splits)
  then have "set (filter (is_owner_candidate b) (pipelines d)) = {}" by (metis set_empty set_sort)
  with assms(2) show ?thesis by auto
qed

lemma adopted_rank: "candidate_rank b (adopted_row mode b q) \<le> candidate_rank b q"
  by (auto simp: candidate_rank_def adopted_row_def less_eq_prod_def coalesce_def split: option.splits)

lemma adopted_parent:
  "p_parent_run_id (adopted_row mode b q) = None \<Longrightarrow> rp_of_pipeline_run_id (b_replacement b) = None"
  "p_parent_run_id (new_run ts mode b n) = rp_of_pipeline_run_id (b_replacement b)"
  by (auto simp: adopted_row_def new_run_def coalesce_def split: option.splits)

lemma get_or_create_run:
  assumes run: "get_or_create_pipeline_row now mode b d = Inr (p, d1)"
    and ids: "distinct (map p_id (pipelines d))"
    and fresh: "\<forall>p\<in>set (pipelines d). p_id p < next_pipeline_id d"
  obtains d0 where "fetch_pipeline d0 (p_id p) = Some p" "d1 = link_replaced now b (p_id p) d0"
    "is_owner_candidate b p" "p_assessment_batch_id p = Some (b_id b)"
    "distinct (map p_id (pipelines d0))" "length (pipelines d0) \<le> length (pipelines d) + 1"
    "\<And>x. x \<in> set (pipelines d0) \<Longrightarrow> p_id x \<noteq> p_id p \<Longrightarrow> is_owner_candidate b x \<Longrightarrow>
       candidate_rank b p \<le> candidate_rank b x"
    "p_parent_run_id p = None \<Longrightarrow> rp_of_pipeline_run_id (b_replacement b) = None"
proof (cases "find_pipeline_row b d")
  case None
  let ?m = "text_of (or_text mode (Some ''strategy''))"
  let ?p = "new_run (fmt_ms now) ?m b (next_pipeline_id d)"
  let ?e = "stage2_event ''pipeline'' ''pipeline_created'' (p_id ?p) (b_id b) (fmt_ms now)"
  let ?d0 = "log_event ?e (d\<lparr>pipelines := pipelines d @ [?p], next_pipeline_id := next_pipeline_id d + 1\<rparr>)"
  from run None have p: "p = ?p" "d1 = link_replaced now b (p_id ?p) ?d0"
    by (auto simp: get_or_create_pipeline_row_def Let_def insert_run_def split: if_splits)
  have "next_pipeline_id d \<notin> p_id ` set (pipelines d)" using fresh by force
  moreover from this have "fetch_by p_id (next_pipeline_id d) (pipelines d) = None"
    unfolding fetch_by_None_iff by (metis image_eqI)
  moreover have "p_id ?p = next_pipeline_id d" by simp
  ultimately have "fetch_pipeline ?d0 (p_id ?p) = Some ?p" "distinct (map p_id (pipelines ?d0))"
    using ids by (simp_all add: fetch_pipeline_def fetch_by_append)
  with p show thesis
    by (intro that [of ?d0]) (auto simp: new_run_candidate no_owner_candidate [OF None] adopted_parent, simp add: new_run_def)
next
  case (Some q)
  note q = find_pipeline_row_Some [OF Some]
  let ?m = "text_of (or_text mode (Some ''strategy''))"
  let ?d0 = "change_pipelines (\<lambda>r. p_id r = p_id q) (adopted_row ?m b) d"
  from run Some have p: "p = adopted_row ?m b q" "d1 = link_replaced now b (p_id q) ?d0"
    by (auto simp: get_or_create_pipeline_row_def Let_def adopt_run_def split: if_splits)
  have "fetch_pipeline d (p_id q) = Some q"
    using ids q(1) by (simp add: fetch_pipeline_def fetch_by_unique)
  then have "fetch_pipeline ?d0 (p_id q) = Some p" by (simp add: p runs.fetch_change)
  moreover have "map p_id (pipelines ?d0) = map p_id (pipelines d)" by (simp add: map_key_update_where)
  moreover have "candidate_rank b p \<le> candidate_rank b x"
    if "x \<in> set (pipelines ?d0)" "p_id x \<noteq> p_id p" "is_owner_candidate b x" for x
  proof -
    from that have "x \<in> set (pipelines d)" by (auto simp: p set_update_where)
    from q(3) [OF this that(3)] show ?thesis unfolding p by (rule order_trans [OF adopted_rank])
  qed
  ultimately show thesis
    using p ids adopted_candidate [OF q(2)] adopted_parent(1) by (intro that [of ?d0]) auto
qed

subsection \<open>The row that was written\<close>

lemma row_of_run:
  assumes run: "get_or_create_pipeline_row now mode b d = Inr (p, d1)"
    and ids: "distinct (map p_id (pipelines d))"
    and fresh: "\<forall>p\<in>set (pipelines d). p_id p < next_pipeline_id d"
  obtains r where "fetch_pipeline d1 (p_id p) = Some r" "verdict r = verdict p" "findings r = findings p"
proof -
  from get_or_create_run [OF assms] obtain d0
    where "fetch_pipeline d0 (p_id p) = Some p" "d1 = link_replaced now b (p_id p) d0" .
  with same_record_link [of "p_id p" d0 now b "p_id p"] show thesis
    by (auto simp: same_record_def intro: that)
qed

text \<open>What the update of a run leaves after the steps that only touch other runs and links.\<close>

lemma written_row:
  assumes run: "get_or_create_pipeline_row now mode b d = Inr (p, d1)"
    and ids: "distinct (map p_id (pipelines d))"
    and fresh: "\<forall>p\<in>set (pipelines d). p_id p < next_pipeline_id d"
    and upd: "checked_update (p_id p) f d1 = Inr d2" and id: "\<And>p. p_id (f p) = p_id p"
    and rest: "same_record (p_id p) d2 d'"
  obtains r q where "fetch_pipeline d' (p_id p) = Some q" "verdict q = verdict (f r)" "findings q = findings (f r)"
    "verdict r = verdict p" "findings r = findings p" "run_checks (f r)"
    "is_owner_candidate b p" "p_assessment_batch_id p = Some (b_id b)"
proof -
  from get_or_create_run [OF run ids fresh] have p: "is_owner_candidate b p" "p_assessment_batch_id p = Some (b_id b)"
    by auto
  from row_of_run [OF run ids fresh] obtain r
    where r: "fetch_pipeline d1 (p_id p) = Some r" "verdict r = verdict p" "findings r = findings p" .
  from upd have d2: "d2 = change_pipelines (\<lambda>q. p_id q = p_id p) f d1"
    and checks: "run_checks (f r)"
    using fetch_by_SomeD [OF r(1) [unfolded fetch_pipeline_def]] by (auto simp: checked_update_Inr)
  have "p_id r = p_id p" using r(3) by (simp add: findings_def)
  then have "fetch_pipeline d2 (p_id p) = Some (f r)" unfolding d2 by (simp add: runs.fetch_change id r)
  with rest obtain q where "fetch_pipeline d' (p_id p) = Some q" "verdict q = verdict (f r)" "findings q = findings (f r)"
    by (auto simp: same_record_def)
  then show thesis using r checks p by (intro that)
qed

lemma released_run_free:
  "p_id q = p_id p \<Longrightarrow> p_group_id q = p_group_id p \<Longrightarrow> p_room_lock_token q = p_room_lock_token p \<Longrightarrow>
   g \<in> set (groups (snd (release_stage2_lock ts p d))) \<Longrightarrow> \<not> leased_to q g"
  by (auto simp: release_stage2_lock_eq(1) set_update_where leased_to_def opened_def split: if_splits)

lemma same_record_log: "same_record k d (log_event e d)"
  by (simp add: same_record_pipelines)

lemma same_record_release_if: "same_record k d (snd (release_if yes ts p d))"
  by (simp add: release_if_def same_record_release)

text \<open>An answer that was recorded: what was read, and the row it left.\<close>

lemma recorded_answer:
  assumes run: "persist_success env now mode b payload meta saved replay d = Inr (Some out, d')"
    and ids: "distinct (map p_id (pipelines d))"
    and fresh: "\<forall>p\<in>set (pipelines d). p_id p < next_pipeline_id d"
  obtains answer rd facts r q where "payload = JObj answer" "read_answer env now d b answer saved = Inr rd"
    "decided_facts env (fmt_ms now) b answer meta rd (decide replay rd) = Inr facts"
    "fetch_pipeline d' (so_pipeline_run_id out) = Some q"
    "verdict q = verdict (decided_run (fmt_ms now) b rd (decide replay rd) facts r)"
    "findings q = findings (decided_run (fmt_ms now) b rd (decide replay rd) facts r)"
    "run_checks (decided_run (fmt_ms now) b rd (decide replay rd) facts r)"
    "is_owner_candidate b r" "p_assessment_batch_id r = Some (b_id b)"
    "so_final_status out = dc_final_status (decide replay rd)"
    "so_enter_stage3 out = dc_enter_stage3 (decide replay rd)"
    "so_should_intervene out = dc_should_intervene (decide replay rd)"
    "so_skip_reason out = dc_skip_reason (decide replay rd)" "so_stale out = rd_stale rd"
    "so_enter_stage3 out \<or> (\<forall>g\<in>set (groups d'). \<not> leased_to q g)"
proof -
  from persist_success_Inr [OF run] obtain answer rd and p :: pipeline_row and d1 facts d2 d3 ids d4 d5 e where
    read: "payload = JObj answer" "read_answer env now d b answer saved = Inr rd"
    and 1: "get_or_create_pipeline_row now mode b d = Inr (p, d1)"
    and facts: "decided_facts env (fmt_ms now) b answer meta rd (decide replay rd) = Inr facts"
    and 2: "checked_update (p_id p) (decided_run (fmt_ms now) b rd (decide replay rd) facts) d1 = Inr d2"
    and 3: "link_segments env (fmt_sec now) p (rd_active_segment rd) (dc_should_intervene (decide replay rd)) saved d2 = Inr d3"
    and 4: "close_preliminary now b (if b_candidate_start_sequence b = 0 then b_candidate_end_sequence b
            else b_candidate_start_sequence b) p d3 = Inr (ids, d4)"
    and 5: "d5 = request_replacement_if now (rd_stale rd) (p_id p) (rd_latest rd) d4"
    and d': "d' = log_event e (snd (release_if (\<not> dc_enter_stage3 (decide replay rd)) (fmt_ms now) p d5))"
    and out: "so_pipeline_run_id out = p_id p" "so_final_status out = dc_final_status (decide replay rd)"
      "so_enter_stage3 out = dc_enter_stage3 (decide replay rd)"
      "so_should_intervene out = dc_should_intervene (decide replay rd)"
      "so_skip_reason out = dc_skip_reason (decide replay rd)" "so_stale out = rd_stale rd"
    by (elim disjE exE conjE) simp_all
  let ?k = "p_id p"
  have "same_record ?k d2 d3" using link_segments_frame [OF 3] by (simp add: same_record_pipelines)
  also have "same_record ?k d3 d4" by (rule same_record_close [OF 4])
  also have "same_record ?k d4 d5" unfolding 5 by (rule same_record_request)
  also have "same_record ?k d5 (snd (release_if (\<not> dc_enter_stage3 (decide replay rd)) (fmt_ms now) p d5))"
    by (rule same_record_release_if)
  also have "same_record ?k \<dots> d'" unfolding d' by (rule same_record_log)
  finally have rest: "same_record ?k d2 d'" .
  obtain r q where
    q: "fetch_pipeline d' ?k = Some q" "verdict q = verdict (decided_run (fmt_ms now) b rd (decide replay rd) facts r)"
      "findings q = findings (decided_run (fmt_ms now) b rd (decide replay rd) facts r)"
    and r: "verdict r = verdict p" "findings r = findings p"
      "run_checks (decided_run (fmt_ms now) b rd (decide replay rd) facts r)"
    and p: "is_owner_candidate b p" "p_assessment_batch_id p = Some (b_id b)"
    by (rule written_row [OF 1 assms(2,3) 2 _ rest]) simp_all
  have r': "is_owner_candidate b r" "p_assessment_batch_id r = Some (b_id b)"
    using p r by (simp_all add: is_owner_candidate_def verdict_def findings_def)
  have same: "p_id q = p_id p" "p_group_id q = p_group_id p" "p_room_lock_token q = p_room_lock_token p"
    using q(3) r(2) by (simp_all add: findings_def decided_run_def)
  have "so_enter_stage3 out \<or> (\<forall>g\<in>set (groups d'). \<not> leased_to q g)"
    using released_run_free [OF same] by (simp add: d' out release_if_def)
  then show thesis using read facts q r r' out by (intro that) simp_all
qed

subsection \<open>What was read\<close>

text \<open>A student message of the discussion that comes after the window.\<close>

definition spoken_after :: "platform \<Rightarrow> batch_row \<Rightarrow> message_row \<Rightarrow> bool" where
  "spoken_after d b m \<longleftrightarrow> m_group_id m = b_group_id b \<and> m_session_id m = Some (b_session_id b)
     \<and> m_discussion_id m = Some (b_discussion_id b) \<and> joined_role d m = Some ''student''
     \<and> (case m_sequence m of None \<Rightarrow> False | Some s \<Rightarrow> b_candidate_end_sequence b < s)"

text \<open>A student message of the discussion inside the window.\<close>

definition spoken_inside :: "platform \<Rightarrow> batch_row \<Rightarrow> message_row \<Rightarrow> bool" where
  "spoken_inside d b m \<longleftrightarrow> in_discussion b m \<and> joined_role d m = Some ''student''
     \<and> (case m_sequence m of None \<Rightarrow> False
        | Some s \<Rightarrow> b_candidate_start_sequence b \<le> s \<and> s \<le> b_candidate_end_sequence b)"

lemma not_stale_iff:
  "(case latest_student_message d b of None \<Rightarrow> False | Some m \<Rightarrow> b_candidate_end_sequence b < or0 (m_sequence m))
   \<longleftrightarrow> (\<exists>m\<in>set (messages d). spoken_after d b m)"
proof (cases "latest_student_message d b")
  case None
  then have "\<forall>m\<in>set (messages d). \<not> spoken_after d b m"
    by (auto simp: latest_student_message_def spoken_after_def filter_empty_conv split: option.splits)
  with None show ?thesis by simp
next
  case (Some m)
  from max_by_Some [OF this [unfolded latest_student_message_def]]
  have m: "m \<in> set (messages d)" "m_group_id m = b_group_id b" "m_session_id m = Some (b_session_id b)"
      "m_discussion_id m = Some (b_discussion_id b)" "joined_role d m = Some ''student''" "m_sequence m \<noteq> None"
    and top: "\<And>x. x \<in> set (messages d) \<Longrightarrow> spoken_after d b x \<Longrightarrow> or0 (m_sequence x) \<le> or0 (m_sequence m)"
    by (auto simp: spoken_after_def less_eq_prod_def dest!: bspec split: option.splits)
  show ?thesis
  proof
    assume "\<exists>x\<in>set (messages d). spoken_after d b x"
    then obtain x where "x \<in> set (messages d)" "spoken_after d b x" by blast
    with top [OF this] show "case latest_student_message d b of None \<Rightarrow> False
        | Some m \<Rightarrow> b_candidate_end_sequence b < or0 (m_sequence m)"
      by (auto simp: Some spoken_after_def split: option.splits)
  qed (use m Some in \<open>auto simp: spoken_after_def split: option.splits intro!: bexI [of _ m]\<close>)
qed

lemma audit_valid:
  assumes "audit_active_evidence d b active canonical qs = Inr a" and "ea_valid a"
  shows "ea_message_ids a \<noteq> []" "\<And>i. i \<in> set (ea_message_ids a) \<Longrightarrow> \<exists>m\<in>set (messages d). m_id m = i \<and> spoken_inside d b m"
proof -
  have closed: "\<not> ea_valid (unaudited why)" for why by (simp add: unaudited_def)
  have qs: "qs \<noteq> []" using assms by (auto simp: audit_active_evidence_def closed split: if_splits)
  let ?F = "\<lambda>first final. case (first, final) of
       (Some s, Some e) \<Rightarrow>
         if canonical_of (dget active ''canonical_sub_state'') \<noteq> canonical \<or> e \<noteq> b_candidate_end_sequence b
         then unaudited ''evidence_not_related_to_active_sub_state''
         else if \<exists>q\<in>set qs. q < b_candidate_start_sequence b \<or> q > b_candidate_end_sequence b \<or> q < s \<or> q > e
         then unaudited ''evidence_outside_current_candidate_window''
         else if set (sequences (evidence_rows d b qs)) \<noteq> set qs
         then unaudited ''evidence_missing_or_not_student_message''
         else \<lparr>ea_valid = True, ea_reason = ''fresh_student_evidence'',
                ea_message_ids = map m_id (evidence_rows d b qs)\<rparr>
     | _ \<Rightarrow> unaudited ''missing_evidence_window''"
  from assms(1) qs have "andthen (int_or_none (dget active ''start_sequence'')) (\<lambda>first.
      andthen (int_or_none (dget active ''end_sequence'')) (\<lambda>final. Inr (?F first final))) = Inr a"
    unfolding audit_active_evidence_def by (simp only: if_False)
  then obtain first final where "a = ?F first final"
    unfolding andthen_Inr_iff by blast
  with assms(2) have inside: "\<forall>q\<in>set qs. b_candidate_start_sequence b \<le> q \<and> q \<le> b_candidate_end_sequence b"
    and found: "set (sequences (evidence_rows d b qs)) = set qs" "ea_message_ids a = map m_id (evidence_rows d b qs)"
    by (auto simp: closed not_less split: if_splits option.splits)
  show "ea_message_ids a \<noteq> []" using qs found by (auto simp: sequences_def)
  show "\<exists>m\<in>set (messages d). m_id m = i \<and> spoken_inside d b m" if "i \<in> set (ea_message_ids a)" for i
    using that inside by (auto simp: found(2) evidence_rows_def spoken_inside_def split: option.splits)
qed

lemma read_answer_Inr:
  assumes "read_answer env now d b answer saved = Inr rd"
  shows "route_for_state_with_overlays (sx_library env) (Some (rd_canonical rd))
      (tags_of (jor (dget (rd_active rd) ''secondary_tags'') (JList []))) = Inr (rd_route rd)"
    "audit_active_evidence d b (rd_active rd) (rd_canonical rd) (rd_evidence rd) = Inr (rd_audit rd)"
    "rd_stale rd \<longleftrightarrow> (\<exists>m\<in>set (messages d). spoken_after d b m)"
    "rd_fresh_self_regulation rd \<longrightarrow> ea_valid (rd_audit rd)"
    "rd_oi_strategy rd \<noteq> None \<longrightarrow> ea_valid (rd_audit rd)"
    "rd_gate rd = (if wants_support (rd_route rd) answer
       then Some (optional_support_gate now d b (pl_candidates (rd_route rd))) else None)"
    "rd_should_intervene rd = (if pl_optional_support (rd_route rd)
       then (case rd_gate rd of None \<Rightarrow> False | Some g \<Rightarrow> og_allowed g) else pl_should_intervene (rd_route rd))"
    "\<not> ea_valid (rd_audit rd) \<longrightarrow> rd_invalid_suppression rd \<longleftrightarrow>
       jtruthy (dget (rd_active rd) ''detected_self_regulation'')
       \<or> pl_inhibition (rd_route rd) \<noteq> None \<and> text_of (pl_inhibition (rd_route rd)) \<in> set OI_STRATEGY_IDS"
proof -
  from assms obtain active canonical route evidence payloads segment audit where
    route: "route_for_state_with_overlays (sx_library env) (Some canonical)
        (tags_of (jor (dget active ''secondary_tags'') (JList []))) = Inr route"
    and audit: "audit_active_evidence d b active canonical evidence = Inr audit"
    and rd: "rd = (let latest = latest_student_message d b;
            oi = pl_inhibition route;
            observed = (oi \<noteq> None \<and> text_of oi \<in> set OI_STRATEGY_IDS);
            self = jtruthy (dget active ''detected_self_regulation'');
            gate = (if wants_support route answer
                    then Some (optional_support_gate now d b (pl_candidates route)) else None)
        in \<lparr>rd_active = active, rd_canonical = canonical, rd_route = route, rd_evidence = evidence,
             rd_segments = payloads, rd_latest = latest,
             rd_stale = (case latest of None \<Rightarrow> False
                         | Some m \<Rightarrow> or0 (m_sequence m) > b_candidate_end_sequence b),
             rd_active_segment = segment, rd_audit = audit,
             rd_fresh_self_regulation = (self \<and> ea_valid audit),
             rd_oi_strategy = (if observed \<and> ea_valid audit then oi else None),
             rd_invalid_suppression = (\<not> ea_valid audit \<and> (self \<or> observed)),
             rd_gate = gate,
             rd_should_intervene = (if pl_optional_support route
               then (case gate of None \<Rightarrow> False | Some g \<Rightarrow> og_allowed g)
               else pl_should_intervene route)\<rparr>)"
    unfolding read_answer_def andthen_Inr_iff Let_def by blast
  show "rd_stale rd \<longleftrightarrow> (\<exists>m\<in>set (messages d). spoken_after d b m)"
    using not_stale_iff [where d = d and b = b] by (simp add: rd Let_def)
  show "route_for_state_with_overlays (sx_library env) (Some (rd_canonical rd))
      (tags_of (jor (dget (rd_active rd) ''secondary_tags'') (JList []))) = Inr (rd_route rd)"
    "audit_active_evidence d b (rd_active rd) (rd_canonical rd) (rd_evidence rd) = Inr (rd_audit rd)"
    "rd_fresh_self_regulation rd \<longrightarrow> ea_valid (rd_audit rd)"
    "rd_oi_strategy rd \<noteq> None \<longrightarrow> ea_valid (rd_audit rd)"
    "rd_gate rd = (if wants_support (rd_route rd) answer
       then Some (optional_support_gate now d b (pl_candidates (rd_route rd))) else None)"
    "rd_should_intervene rd = (if pl_optional_support (rd_route rd)
       then (case rd_gate rd of None \<Rightarrow> False | Some g \<Rightarrow> og_allowed g) else pl_should_intervene (rd_route rd))"
    "\<not> ea_valid (rd_audit rd) \<longrightarrow> rd_invalid_suppression rd \<longleftrightarrow>
       jtruthy (dget (rd_active rd) ''detected_self_regulation'')
       \<or> pl_inhibition (rd_route rd) \<noteq> None \<and> text_of (pl_inhibition (rd_route rd)) \<in> set OI_STRATEGY_IDS"
    using route audit by (simp_all add: rd Let_def)
qed

lemma decided_facts_Inr:
  assumes "decided_facts env ts b answer meta rd dc = Inr facts"
  shows "sf_evidence_message_ids facts = rd_evidence rd"
    "sf_secondary_tags facts = jor (dget (rd_active rd) ''secondary_tags'') (JList [])"
    "sf_strategy_pool facts = pl_candidates (rd_route rd)" "sf_suppression_type facts = dc_suppression_type dc"
    "sf_suppression_evidence_message_ids facts
       = (if dc_suppression_type dc \<noteq> None then ea_message_ids (rd_audit rd) else [])"
    "sf_suppression_source_batch_id facts = (if dc_suppression_type dc \<noteq> None then Some (b_id b) else None)"
    "sf_suppression_strategy_id facts = dc_suppression_strategy_id dc"
  using assms by (auto simp: decided_facts_def recorded_facts_def andthen_Inr_iff Let_def split: if_splits)

lemma gate_allowed:
  assumes "og_allowed (optional_support_gate now d b ids)"
  shows "supports_published d b ids < 2"
    "\<And>m n. last_agent_message d b = Some m \<Longrightarrow> seconds_since now (Some m) = Some n \<Longrightarrow> 300 \<le> n"
    "\<exists>s. latest_student_sequence d b = Some s
       \<and> (\<forall>m k. last_agent_message d b = Some m \<longrightarrow> m_sequence m = Some k \<longrightarrow> k < s)"
  using assms by (auto simp: optional_support_gate_def Let_def split: if_splits option.splits)

subsection \<open>Finding the run again\<close>

text \<open>The columns that decide which run stands for a window.\<close>

definition claim_view where
  "claim_view p = (p_id p, p_group_id p, p_session_id p, p_discussion_id p, p_input_cutoff_student_sequence p,
     p_assessment_batch_id p, p_publish_status p, p_stage1_status p)"

lemma claim_view_cong:
  "claim_view p = claim_view q \<Longrightarrow> is_owner_candidate b p = is_owner_candidate b q \<and> candidate_rank b p = candidate_rank b q
     \<and> p_id p = p_id q"
  by (simp add: claim_view_def is_owner_candidate_def candidate_rank_def)

lemma linked_claim_view [simp]:
  "claim_view (linked_original ts r why tr cu p) = claim_view p"
  "claim_view (linked_replacement ts i tr p) = claim_view p"
  by (simp_all add: claim_view_def linked_original_def linked_replacement_def)

lemma sync_claim_views:
  "map claim_view (pipelines (snd (sync_latest_state_from_replacement now i j d))) = map claim_view (pipelines d)"
  by (auto simp: sync_latest_state_from_replacement_def Let_def claim_view_def intro!: map_key_update_where
      split: option.splits)

lemma link_claim_views [simp]:
  "map claim_view (pipelines (link_replaced now b pid d)) = map claim_view (pipelines d)"
  by (simp add: link_replaced_def link_pipeline_replacement_def Let_def map_key_update_where sync_claim_views
      split: option.splits)

lemma claim_view_ids: "map claim_view ps = map claim_view qs \<Longrightarrow> map p_id ps = map p_id qs"
  by (drule arg_cong [where f = "map fst"]) (simp add: claim_view_def comp_def)

lemma claim_view_mem:
  "map claim_view ps = map claim_view qs \<Longrightarrow> p \<in> set ps \<Longrightarrow> \<exists>q\<in>set qs. claim_view q = claim_view p"
  by (metis (no_types, opaque_lifting) image_iff list.set_map)

lemma find_pipeline_row_best:
  assumes "p \<in> set (pipelines d)" "is_owner_candidate b p"
    and best: "\<And>x. x \<in> set (pipelines d) \<Longrightarrow> is_owner_candidate b x \<Longrightarrow> candidate_rank b p \<le> candidate_rank b x"
    and ids: "distinct (map p_id (pipelines d))"
  shows "find_pipeline_row b d = Some p"
proof (cases "find_pipeline_row b d")
  case None
  from no_owner_candidate [OF this assms(1)] assms(2) show ?thesis by simp
next
  case (Some q)
  note q = find_pipeline_row_Some [OF Some]
  from q(3) [OF assms(1,2)] best [OF q(1,2)] have "candidate_rank b q = candidate_rank b p" by simp
  then have "p_id q = p_id p" by (simp add: candidate_rank_def)
  with Some q(1) assms(1) ids show ?thesis by (auto simp: distinct_map dest: inj_onD)
qed

text \<open>A run with a parent keeps one.\<close>

definition has_parent :: "platform \<Rightarrow> int \<Rightarrow> bool" where
  "has_parent d k = (case fetch_pipeline d k of None \<Rightarrow> False | Some p \<Rightarrow> p_parent_run_id p \<noteq> None)"

lemma has_parent_change:
  "has_parent d k \<Longrightarrow> (\<And>p. p_id (f p) = p_id p) \<Longrightarrow> (\<And>p. p_parent_run_id p \<noteq> None \<Longrightarrow> p_parent_run_id (f p) \<noteq> None)
   \<Longrightarrow> has_parent (change_pipelines P f d) k"
  by (auto simp: has_parent_def runs.fetch_change split: option.splits)

lemma has_parent_sync: "has_parent d k \<Longrightarrow> has_parent (snd (sync_latest_state_from_replacement now i j d)) k"
  by (auto simp: sync_latest_state_from_replacement_def Let_def intro: has_parent_change split: option.splits)

lemma has_parent_link: "has_parent d k \<Longrightarrow> has_parent (link_replaced now b pid d) k"
  by (auto simp: link_replaced_def link_pipeline_replacement_def Let_def linked_original_def linked_replacement_def
      intro!: has_parent_sync has_parent_change split: option.splits)

text \<open>
  A run that was prepared stands for its window: it is the best of the runs that could, and
  the adoption of a parent cannot fail again.
\<close>

lemma prepared_found:
  assumes run: "prepare_for_batch now mode b d = Inr (r, d')"
    and ids: "distinct (map p_id (pipelines d))"
    and fresh: "\<forall>p\<in>set (pipelines d). p_id p < next_pipeline_id d"
  obtains q where "find_pipeline_row b d' = Some q" "p_id q = pr_pipeline_run_id r"
    "p_parent_run_id q \<noteq> None \<or> rp_of_pipeline_run_id (b_replacement b) = None"
    "distinct (map p_id (pipelines d'))" "length (pipelines d') \<le> length (pipelines d) + 1"
proof -
  let ?f = "prepared_row (fmt_ms now) mode b"
  from run obtain p d1 where created: "get_or_create_pipeline_row now (Some mode) b d = Inr (p, d1)"
    and d': "d' = change_pipelines (\<lambda>q. p_id q = p_id p) ?f d1"
    and id: "pr_pipeline_run_id r = p_id (case fetch_pipeline d' (p_id p) of None \<Rightarrow> p | Some q \<Rightarrow> q)"
    by (auto simp: prepare_for_batch_def andthen_Inr_iff Let_def split: if_splits)
  from get_or_create_run [OF created ids fresh] obtain d0
    where d0: "fetch_pipeline d0 (p_id p) = Some p" and d1: "d1 = link_replaced now b (p_id p) d0"
    and p: "is_owner_candidate b p" "p_assessment_batch_id p = Some (b_id b)"
    and dist: "distinct (map p_id (pipelines d0))" and len: "length (pipelines d0) \<le> length (pipelines d) + 1"
    and best: "\<And>x. x \<in> set (pipelines d0) \<Longrightarrow> p_id x \<noteq> p_id p \<Longrightarrow> is_owner_candidate b x \<Longrightarrow>
       candidate_rank b p \<le> candidate_rank b x"
    and parent: "p_parent_run_id p = None \<Longrightarrow> rp_of_pipeline_run_id (b_replacement b) = None" by blast
  have views: "map claim_view (pipelines d1) = map claim_view (pipelines d0)" by (simp add: d1)
  have ids': "map p_id (pipelines d') = map p_id (pipelines d0)"
    using claim_view_ids [OF views] by (simp add: d' map_key_update_where)
  then have dist': "distinct (map p_id (pipelines d'))" using dist by simp
  have "p_id p \<in> p_id ` set (pipelines d1)"
    using claim_view_ids [OF views] fetch_by_SomeD [OF d0 [unfolded fetch_pipeline_def]]
    by (metis image_eqI list.set_map)
  then obtain p1 where p1: "p1 \<in> set (pipelines d1)" "p_id p1 = p_id p" by auto
  obtain p0 where "p0 \<in> set (pipelines d0)" "claim_view p0 = claim_view p1"
    using claim_view_mem [OF views p1(1)] by blast
  moreover from this p1(2) dist fetch_by_SomeD [OF d0 [unfolded fetch_pipeline_def]] have "p0 = p"
    by (auto simp: distinct_map claim_view_def dest: inj_onD)
  ultimately have view: "claim_view p1 = claim_view p" by simp
  let ?q = "?f p1"
  have mem: "?q \<in> set (pipelines d')" using p1 by (auto simp: d' set_update_where)
  have cand: "is_owner_candidate b ?q" "candidate_rank b ?q = candidate_rank b p"
    using p claim_view_cong [OF view, of b] view
    by (auto simp: prepared_row_def Let_def is_owner_candidate_def candidate_rank_def claim_view_def coalesce_def)
  have "candidate_rank b ?q \<le> candidate_rank b x" if x: "x \<in> set (pipelines d')" "is_owner_candidate b x" for x
  proof (cases "p_id x = p_id p")
    case True
    then have "p_id x = p_id ?q" using p1(2) by simp
    with x(1) mem dist' have "x = ?q" by (meson distinct_map inj_onD)
    then show ?thesis by simp
  next
    case False
    then have "x \<in> set (pipelines d1)" using x(1) by (auto simp: d' set_update_where)
    from claim_view_mem [OF views this] obtain x0 where x0: "x0 \<in> set (pipelines d0)" "claim_view x0 = claim_view x"
      by blast
    from claim_view_cong [OF x0(2), of b] best [OF x0(1)] x(2) False cand show ?thesis by simp
  qed
  from find_pipeline_row_best [OF mem cand(1) this] dist'
  have found: "find_pipeline_row b d' = Some ?q" by simp
  have fetched: "fetch_pipeline d' (p_id p) = Some ?q"
    using dist' mem p1(2) fetch_by_unique [of p_id "pipelines d'" ?q] by (simp add: fetch_pipeline_def)
  have "has_parent d' (p_id p)" if "p_parent_run_id p \<noteq> None"
  proof -
    have "has_parent d1 (p_id p)" unfolding d1 using that d0 by (intro has_parent_link) (simp add: has_parent_def)
    then show ?thesis unfolding d' by (rule has_parent_change) (simp_all add: prepared_row_def Let_def)
  qed
  then have "p_parent_run_id ?q \<noteq> None \<or> rp_of_pipeline_run_id (b_replacement b) = None"
    using parent fetched by (cases "p_parent_run_id p") (auto simp: has_parent_def)
  moreover have "length (pipelines d') = length (pipelines d0)" by (rule map_eq_imp_length_eq [OF ids'])
  moreover have "p_id ?q = pr_pipeline_run_id r" using id fetched p1(2) by simp
  ultimately show thesis using that [OF found] dist' len by simp
qed

end
