(* ===== verification/Stage2_Properties.thy ===== *)
theory Stage2_Properties
  imports Stage2_Lemmas Lease_Properties
begin

text \<open>
  The properties of the second stage: what recording an answer leaves behind, what it takes
  to go on to the third stage, what a suppression rests on, and that preparing and starting
  a run can be repeated.  Each has a witness on a small platform.
\<close>

subsection \<open>A small platform with a window to assess\<close>

definition assessed_window :: batch_row where
  "assessed_window = blank_batch\<lparr>b_status := ''running'', b_candidate_end_sequence := 2,
     b_attempt_count := 1\<rparr>"

definition assessed_run :: pipeline_row where
  "assessed_run = blank_pipeline\<lparr>p_input_cutoff_student_sequence := Some 2,
     p_assessment_batch_id := Some 5, p_final_status := Some ''ASSESSING'',
     p_stage2_status := Some ''RUNNING'', p_room_lock_token := Some ''t''\<rparr>"

text \<open>The run holds the room; two students have spoken.\<close>

definition assessed :: platform where
  "assessed = sample\<lparr>
     groups := [blank_group\<lparr>g_state := LOCK_STATE, g_lock_token := Some ''t'',
        g_lock_expires_at := Some (Stamp 90 None), g_active_intervention_run_id := Some (-11), g_version := 1\<rparr>],
     users := [\<lparr>u_id = 50, u_role = Some ''student'', u_username = []\<rparr>],
     messages := [blank_message, blank_message\<lparr>m_id := 101, m_sequence := Some 2\<rparr>],
     pipelines := [assessed_run], batches := [assessed_window]\<rparr>"

definition answer_of :: "string \<Rightarrow> bool \<Rightarrow> json" where
  "answer_of state self = JObj [(''schema_version'', JStr ''stage2.v1''),
     (''active_sub_state'', JObj [(''canonical_sub_state'', JStr state), (''raw_sub_state'', JStr state),
        (''start_sequence'', JInt 1), (''end_sequence'', JInt 2),
        (''evidence_message_ids'', JList [JInt 2]), (''detected_self_regulation'', JBool self)]),
     (''segments'', JList [])]"

definition table_env :: stage2_env where
  "table_env = \<lparr>sx_library = set table_ids, sx_manifest_version = None, sx_library_version = None,
     sx_library_hash = None\<rparr>"

definition recorded :: "string + (stage2_outcome option \<times> platform) \<Rightarrow> (stage2_outcome \<Rightarrow> bool) \<Rightarrow> bool" where
  "recorded r P = (case r of Inr (Some out, d) \<Rightarrow> P out | _ \<Rightarrow> False)"

lemma assessed_ids:
  "distinct (map p_id (pipelines assessed))" "\<forall>p\<in>set (pipelines assessed). p_id p < next_pipeline_id assessed"
  by (simp_all add: assessed_def assessed_run_def blank_defs)

text \<open>An answer that asks for an intervention, and one that asks to leave the group alone.\<close>

definition intervene_run :: "string + (stage2_outcome option \<times> platform)" where
  "intervene_run = persist_success table_env 0 None assessed_window (answer_of ''burnout'' False) no_meta [] False assessed"

definition suppress_run :: "string + (stage2_outcome option \<times> platform)" where
  "suppress_run = persist_success table_env 0 None assessed_window (answer_of ''deep_thinking'' False) no_meta [] False assessed"

lemma recorded_Inr: "recorded r P \<longleftrightarrow> (\<exists>out d. r = Inr (Some out, d) \<and> P out)"
  by (auto simp: recorded_def split: sum.splits prod.splits option.splits)

lemma intervene_run_recorded: "recorded intervene_run (\<lambda>out. so_enter_stage3 out \<and> so_pipeline_run_id out = 11)"
  by code_simp

lemma suppress_run_recorded:
  "recorded suppress_run (\<lambda>out. \<not> so_enter_stage3 out \<and> so_pipeline_run_id out = 11)"
  by code_simp

subsection \<open>Recording an answer\<close>

lemma decide_enter:
  "dc_enter_stage3 (decide replay rd) \<longleftrightarrow> dc_final_status (decide replay rd) = ''PENDING_STAGE3''"
  "dc_enter_stage3 (decide replay rd) \<Longrightarrow> dc_stage3_status (decide replay rd) = ''PENDING'' \<and> \<not> rd_stale rd
     \<and> \<not> replay \<and> dc_should_intervene (decide replay rd) \<and> rd_should_intervene rd
     \<and> \<not> rd_fresh_self_regulation rd \<and> rd_oi_strategy rd = None \<and> \<not> rd_invalid_suppression rd"
  "\<not> dc_enter_stage3 (decide replay rd) \<Longrightarrow> dc_stage3_status (decide replay rd) = ''SKIPPED''
     \<and> dc_final_status (decide replay rd) \<in> {''STALE'', ''FAILED'', ''SUPPRESSED''}"
  by (auto simp: decide_def Let_def suppressed_as_def split: option.splits if_splits)

lemma recorded_decision:
  assumes "persist_success env now mode b payload meta saved replay d = Inr (Some out, d')"
    and "distinct (map p_id (pipelines d))" and "\<forall>p\<in>set (pipelines d). p_id p < next_pipeline_id d"
  shows "\<exists>q. fetch_pipeline d' (so_pipeline_run_id out) = Some q
     \<and> p_assessment_batch_id q = Some (b_id b) \<and> p_group_id q = b_group_id b
     \<and> p_input_cutoff_student_sequence q = Some (b_candidate_end_sequence b)
     \<and> p_stage2_status q = Some ''SUCCEEDED'' \<and> p_final_status q = Some (so_final_status out)
     \<and> p_skip_reason q = so_skip_reason out
     \<and> p_should_intervene q = Some (if so_should_intervene out then 1 else 0)
     \<and> (if so_enter_stage3 out
        then so_final_status out = ''PENDING_STAGE3'' \<and> p_stage3_status q = Some ''PENDING''
          \<and> \<not> so_stale out \<and> so_should_intervene out
        else so_final_status out \<in> {''STALE'', ''FAILED'', ''SUPPRESSED''} \<and> p_stage3_status q = Some ''SKIPPED''
          \<and> (\<forall>g\<in>set (groups d'). \<not> leased_to q g))"
proof -
  from assms obtain answer rd facts r q where q: "fetch_pipeline d' (so_pipeline_run_id out) = Some q"
    "verdict q = verdict (decided_run (fmt_ms now) b rd (decide replay rd) facts r)"
    "findings q = findings (decided_run (fmt_ms now) b rd (decide replay rd) facts r)"
    and r: "is_owner_candidate b r" "p_assessment_batch_id r = Some (b_id b)"
    and out: "so_final_status out = dc_final_status (decide replay rd)"
      "so_enter_stage3 out = dc_enter_stage3 (decide replay rd)"
      "so_should_intervene out = dc_should_intervene (decide replay rd)"
      "so_skip_reason out = dc_skip_reason (decide replay rd)" "so_stale out = rd_stale rd"
    and free: "so_enter_stage3 out \<or> (\<forall>g\<in>set (groups d'). \<not> leased_to q g)"
    by (rule recorded_answer)
  show ?thesis
    using q r free decide_enter [of replay rd]
    by (intro exI [of _ q])
      (auto simp: verdict_def findings_def decided_run_def is_owner_candidate_def out flag_def)
qed

text \<open>
  C13. Recording an answer settles the run of the window.  The run the answer is recorded in
  stands for the window (its room and cut-off), its second stage succeeded, and it carries
  the decision that is reported.  Either it goes on to the third stage, and then the answer
  was not stale and an intervention was decided; or it is over (stale, failed or
  suppressed), its third stage is skipped, and no room is left under the lease it recorded.
\<close>

theorem recorded_answer_settles_run:
  assumes "persist_success env now mode b payload meta saved replay d = Inr (Some out, d')"
    and "distinct (map p_id (pipelines d))" and "\<forall>p\<in>set (pipelines d). p_id p < next_pipeline_id d"
  shows "\<exists>q. fetch_pipeline d' (so_pipeline_run_id out) = Some q
     \<and> p_assessment_batch_id q = Some (b_id b) \<and> p_group_id q = b_group_id b
     \<and> p_input_cutoff_student_sequence q = Some (b_candidate_end_sequence b)
     \<and> p_stage2_status q = Some ''SUCCEEDED'' \<and> p_final_status q = Some (so_final_status out)
     \<and> p_skip_reason q = so_skip_reason out
     \<and> p_should_intervene q = Some (if so_should_intervene out then 1 else 0)
     \<and> (if so_enter_stage3 out
        then so_final_status out = ''PENDING_STAGE3'' \<and> p_stage3_status q = Some ''PENDING''
          \<and> \<not> so_stale out \<and> so_should_intervene out
        else so_final_status out \<in> {''STALE'', ''FAILED'', ''SUPPRESSED''} \<and> p_stage3_status q = Some ''SKIPPED''
          \<and> (\<forall>g\<in>set (groups d'). \<not> leased_to q g))"
  using recorded_decision [OF assms] .

lemma recorded_answer_settles_run_witness:
  "\<exists>d q. recorded suppress_run (\<lambda>out. \<not> so_enter_stage3 out)
     \<and> fetch_pipeline d 11 = Some q \<and> p_stage3_status q = Some ''SKIPPED''
     \<and> filter (leased_to q) (groups d) = []"
proof -
  from suppress_run_recorded obtain out d where run: "suppress_run = Inr (Some out, d)"
    and out: "\<not> so_enter_stage3 out" "so_pipeline_run_id out = 11"
    by (auto simp: recorded_Inr)
  from recorded_answer_settles_run [OF run [unfolded suppress_run_def] assessed_ids] out
  obtain q where "fetch_pipeline d 11 = Some q" "p_stage3_status q = Some ''SKIPPED''"
    "\<forall>g\<in>set (groups d). \<not> leased_to q g" by auto
  then show ?thesis using run out by (auto simp: recorded_Inr filter_empty_conv)
qed

subsection \<open>What it takes to intervene\<close>

text \<open>
  C14. A run goes on to the third stage only on fresh evidence and with a route for it.  No
  student has spoken in the discussion after the window, the answer is not a replay, and it
  names evidence.  The route of the recorded state and tags either requires an
  intervention, or offers optional support, and then fewer than two supports were published
  in the session, the last agent message of the discussion is at least 300 seconds old, and
  a student has spoken since.
\<close>

theorem stage3_needs_fresh_evidence:
  assumes "persist_success env now mode b payload meta saved replay d = Inr (Some out, d')"
    and "distinct (map p_id (pipelines d))" and "\<forall>p\<in>set (pipelines d). p_id p < next_pipeline_id d"
    and "so_enter_stage3 out"
  shows "\<not> replay \<and> (\<forall>m\<in>set (messages d). \<not> spoken_after d b m)
     \<and> (\<exists>q route. fetch_pipeline d' (so_pipeline_run_id out) = Some q
       \<and> sf_evidence_message_ids (p_facts q) \<noteq> []
       \<and> route_for_state_with_overlays (sx_library env) (p_canonical_sub_state_code q)
           (tags_of (sf_secondary_tags (p_facts q))) = Inr route
       \<and> sf_strategy_pool (p_facts q) = pl_candidates route
       \<and> (if pl_optional_support route
          then supports_published d b (pl_candidates route) < 2
            \<and> (\<forall>m n. last_agent_message d b = Some m \<longrightarrow> seconds_since now (Some m) = Some n \<longrightarrow> 300 \<le> n)
            \<and> (\<exists>s. latest_student_sequence d b = Some s
                \<and> (\<forall>m k. last_agent_message d b = Some m \<longrightarrow> m_sequence m = Some k \<longrightarrow> k < s))
          else pl_should_intervene route))"
proof -
  from assms(1-3) obtain answer rd facts r q where read: "read_answer env now d b answer saved = Inr rd"
    and facts: "decided_facts env (fmt_ms now) b answer meta rd (decide replay rd) = Inr facts"
    and q: "fetch_pipeline d' (so_pipeline_run_id out) = Some q"
    "findings q = findings (decided_run (fmt_ms now) b rd (decide replay rd) facts r)"
    and checks: "run_checks (decided_run (fmt_ms now) b rd (decide replay rd) facts r)"
    and out: "so_enter_stage3 out = dc_enter_stage3 (decide replay rd)"
    by (rule recorded_answer)
  note rd = read_answer_Inr [OF read] and f = decided_facts_Inr [OF facts]
  have enter: "\<not> replay" "\<not> rd_stale rd" "rd_should_intervene rd" "dc_should_intervene (decide replay rd)"
    using decide_enter(2) [of replay rd] assms(4) out by blast+
  have row: "p_facts q = facts" "p_canonical_sub_state_code q = Some (rd_canonical rd)"
    using q(2) by (simp_all add: findings_def decided_run_def)
  have "sf_evidence_message_ids facts \<noteq> []"
    using checks enter by (auto simp: run_checks_def decided_run_def flag_def)
  moreover have "if pl_optional_support (rd_route rd)
      then og_allowed (optional_support_gate now d b (pl_candidates (rd_route rd)))
      else pl_should_intervene (rd_route rd)"
    using enter(3) rd(6,7) by (auto split: if_splits)
  ultimately show ?thesis
    using enter rd(1,3) q(1) gate_allowed [of now d b "pl_candidates (rd_route rd)"]
    by (intro conjI exI [of _ q] exI [of _ "rd_route rd"]) (auto simp: row f split: if_splits)
qed

lemma stage3_needs_fresh_evidence_witness:
  "\<exists>d q. recorded intervene_run so_enter_stage3 \<and> fetch_pipeline d 11 = Some q
     \<and> sf_evidence_message_ids (p_facts q) \<noteq> []"
proof -
  from intervene_run_recorded obtain out d where run: "intervene_run = Inr (Some out, d)"
    and out: "so_enter_stage3 out" "so_pipeline_run_id out = 11"
    by (auto simp: recorded_Inr)
  from stage3_needs_fresh_evidence [OF run [unfolded intervene_run_def] assessed_ids out(1)] out(2)
  obtain q where "fetch_pipeline d 11 = Some q" "sf_evidence_message_ids (p_facts q) \<noteq> []" by auto
  then show ?thesis using run out by (auto simp: recorded_Inr)
qed

lemma decide_suppression:
  "dc_suppression_type (decide replay rd) \<noteq> None \<Longrightarrow>
     (rd_fresh_self_regulation rd \<or> rd_oi_strategy rd \<noteq> None)
     \<and> dc_final_status (decide replay rd) = ''SUPPRESSED'' \<and> \<not> dc_should_intervene (decide replay rd)"
  by (auto simp: decide_def Let_def suppressed_as_def split: option.splits if_splits)

text \<open>
  C22. A run is suppressed for what the students do themselves only on messages of the
  window.  When the recorded run carries a suppression (an observation strategy or
  self-regulation), it is over without an intervention, and the messages recorded as the
  reason are not empty and are all student messages of the discussion inside the window.
\<close>

theorem suppression_rests_on_window_evidence:
  assumes "persist_success env now mode b payload meta saved replay d = Inr (Some out, d')"
    and "distinct (map p_id (pipelines d))" and "\<forall>p\<in>set (pipelines d). p_id p < next_pipeline_id d"
    and "fetch_pipeline d' (so_pipeline_run_id out) = Some q" and "sf_suppression_type (p_facts q) \<noteq> None"
  shows "p_final_status q = Some ''SUPPRESSED'' \<and> p_should_intervene q = Some 0
     \<and> sf_suppression_source_batch_id (p_facts q) = Some (b_id b)
     \<and> sf_suppression_evidence_message_ids (p_facts q) \<noteq> []
     \<and> (\<forall>i\<in>set (sf_suppression_evidence_message_ids (p_facts q)).
          \<exists>m\<in>set (messages d). m_id m = i \<and> spoken_inside d b m)"
proof -
  from assms(1-3) obtain answer rd facts r q' where read: "read_answer env now d b answer saved = Inr rd"
    and facts: "decided_facts env (fmt_ms now) b answer meta rd (decide replay rd) = Inr facts"
    and q': "fetch_pipeline d' (so_pipeline_run_id out) = Some q'"
    "verdict q' = verdict (decided_run (fmt_ms now) b rd (decide replay rd) facts r)"
    "findings q' = findings (decided_run (fmt_ms now) b rd (decide replay rd) facts r)"
    by (rule recorded_answer)
  note rd = read_answer_Inr [OF read] and f = decided_facts_Inr [OF facts]
  have row: "p_facts q = facts" "p_final_status q = Some (dc_final_status (decide replay rd))"
    "p_should_intervene q = Some (flag (dc_should_intervene (decide replay rd)))"
    using q' assms(4) by (simp_all add: findings_def verdict_def decided_run_def)
  have some: "dc_suppression_type (decide replay rd) \<noteq> None" using assms(5) by (simp add: row f)
  note decided = decide_suppression [OF some]
  then have "ea_valid (rd_audit rd)" using rd(4,5) by auto
  with decided some show ?thesis
    using audit_valid [OF rd(2)] by (simp add: row f flag_def)
qed

lemma suppression_rests_on_window_evidence_witness:
  "recorded suppress_run (\<lambda>out. True) \<and> (\<exists>m\<in>set (messages assessed). spoken_inside assessed assessed_window m)"
proof -
  have "case suppress_run of Inr (Some out, d) \<Rightarrow>
      (case fetch_pipeline d (so_pipeline_run_id out) of
         Some q \<Rightarrow> sf_suppression_type (p_facts q) \<noteq> None | None \<Rightarrow> False) | _ \<Rightarrow> False"
    by code_simp
  then obtain out d q where run: "suppress_run = Inr (Some out, d)"
    and q: "fetch_pipeline d (so_pipeline_run_id out) = Some q" "sf_suppression_type (p_facts q) \<noteq> None"
    by (auto split: sum.splits prod.splits option.splits)
  from suppression_rests_on_window_evidence [OF run [unfolded suppress_run_def] assessed_ids q] run
  show ?thesis by (auto simp: recorded_Inr neq_Nil_conv)
qed

subsection \<open>Preparing and starting\<close>

text \<open>
  C34. Preparing the run of a window can be repeated.  A window that was prepared is prepared
  again without an error, in any mode: the run found is the one of the first time, no run is
  added, and the first time added at most one.
\<close>

theorem preparing_again_finds_same_run:
  assumes "prepare_for_batch now mode b d = Inr (r, d1)"
    and "distinct (map p_id (pipelines d))" and "\<forall>p\<in>set (pipelines d). p_id p < next_pipeline_id d"
    and "mode' \<in> {''strategy'', ''state_only''}"
  shows "\<exists>r' d2. prepare_for_batch now' mode' b d1 = Inr (r', d2)
     \<and> pr_pipeline_run_id r' = pr_pipeline_run_id r
     \<and> map p_id (pipelines d2) = map p_id (pipelines d1)
     \<and> length (pipelines d1) \<le> length (pipelines d) + 1"
proof -
  from assms(1-3) obtain q where q: "find_pipeline_row b d1 = Some q" "p_id q = pr_pipeline_run_id r"
    "p_parent_run_id q \<noteq> None \<or> rp_of_pipeline_run_id (b_replacement b) = None"
    and len: "length (pipelines d1) \<le> length (pipelines d) + 1" by (rule prepared_found)
  let ?a = "adopted_row mode' b"
  let ?adopted = "change_pipelines (\<lambda>x. p_id x = p_id q) ?a d1"
  let ?prepared = "change_pipelines (\<lambda>x. p_id x = p_id q) (prepared_row (fmt_ms now') mode' b) (link_replaced now' b (p_id q) ?adopted)"
  have mode: "text_of (or_text (Some mode') (Some ''strategy'')) = mode'" using assms(4) by (auto simp: or_text_def)
  have adopt: "get_or_create_pipeline_row now' (Some mode') b d1 = Inr (?a q, link_replaced now' b (p_id q) ?adopted)"
    using assms(4) q by (auto simp: get_or_create_pipeline_row_def mode adopt_run_def parent_known_def Let_def)
  have "map p_id (pipelines (link_replaced now' b (p_id q) ?adopted)) = map p_id (pipelines d1)"
    using claim_view_ids [OF link_claim_views, of now' b "p_id q" ?adopted] by (simp add: map_key_update_where)
  then have ids: "map p_id (pipelines ?prepared) = map p_id (pipelines d1)" by (simp add: map_key_update_where)
  let ?x = "case fetch_pipeline ?prepared (p_id q) of None \<Rightarrow> ?a q | Some x \<Rightarrow> x"
  have id: "p_id ?x = p_id q"
    by (auto simp: fetch_pipeline_def dest: fetch_by_SomeD split: option.splits)
  have "mode' \<notin> {''strategy'', ''state_only''} \<longleftrightarrow> False" using assms(4) by blast
  then have "prepare_for_batch now' mode' b d1 = Inr
      (\<lparr>pr_pipeline_run_id = p_id ?x, pr_pipeline_mode = p_pipeline_mode ?x,
         pr_coarse_should_escalate = (or0 (p_coarse_should_escalate ?x) \<noteq> 0),
         pr_room_lock_token = p_room_lock_token ?x\<rparr>, ?prepared)"
    unfolding prepare_for_batch_def by (simp only: if_False adopt andthen_simps prod.case Let_def stage2_row_ids)
  then show ?thesis
    using ids id len q(2) by (intro exI conjI) (assumption, simp_all only: preparation.simps)
qed

lemma preparing_again_finds_same_run_witness:
  "\<exists>r d1 r' d2. prepare_for_batch 0 ''strategy'' assessed_window (assessed\<lparr>pipelines := []\<rparr>) = Inr (r, d1)
     \<and> prepare_for_batch 9 ''state_only'' assessed_window d1 = Inr (r', d2)
     \<and> pr_pipeline_run_id r' = pr_pipeline_run_id r \<and> length (pipelines d1) \<le> 1"
proof -
  have "case prepare_for_batch 0 ''strategy'' assessed_window (assessed\<lparr>pipelines := []\<rparr>) of
      Inr x \<Rightarrow> True | Inl e \<Rightarrow> False" by code_simp
  then obtain r d1 where "prepare_for_batch 0 ''strategy'' assessed_window (assessed\<lparr>pipelines := []\<rparr>) = Inr (r, d1)"
    by (auto split: sum.splits)
  from preparing_again_finds_same_run [OF this, of "''state_only''" 9] this show ?thesis by force
qed

text \<open>
  The second stage of a run starts at most once.  In the state a successful start leaves,
  no start of the same run succeeds, for any window and at any time, and it cannot be sent
  to wait for the room either: both leave everything as it is.
\<close>

theorem run_starts_at_most_once:
  assumes "distinct (map p_id (pipelines d))" and "mark_started now b pid d = (True, d')"
  shows "mark_started now' b' pid d' = (False, d') \<and> mark_waiting_for_lock now' b' pid reason d' = (False, d')"
proof -
  have "upper ''RUNNING'' \<noteq> ''PENDING''" by code_simp
  then have running: "\<not> awaits_stage2 pid k (started_row ts p)" for k ts p
    by (simp add: awaits_stage2_def started_row_def coalesce_def)
  from assms(2) have one: "rowcount (startable pid (b_id b)) (pipelines d) = 1"
    and d': "pipelines d' = update_where (startable pid (b_id b)) (started_row (fmt_ms now)) (pipelines d)"
    by (auto simp: mark_started_def split: if_splits)
  from rowcount_one_ex [OF one] obtain p where p: "p \<in> set (pipelines d)" "startable pid (b_id b) p" by blast
  have none: "\<not> awaits_stage2 pid k x" if "x \<in> set (pipelines d')" for x k
  proof
    assume x: "awaits_stage2 pid k x"
    with that running have "x \<in> set (pipelines d)" "\<not> startable pid (b_id b) x"
      by (auto simp: d' set_update_where)
    moreover have "p_id x = p_id p" using x p(2) by (simp add: awaits_stage2_def startable_def)
    ultimately show False using p assms(1) by (auto simp: distinct_map dest: inj_onD)
  qed
  then have "rowcount (startable pid (b_id b')) (pipelines d') = 0" "rowcount (awaits_stage2 pid (b_id b')) (pipelines d') = 0"
    by (auto simp: rowcount_0_iff startable_def)
  moreover have "change_pipelines (awaits_stage2 pid (b_id b')) f d' = d'" for f
    using none by (simp add: change_pipelines_def update_where_none)
  ultimately show ?thesis by (simp add: mark_started_def mark_waiting_for_lock_def)
qed

lemma run_starts_at_most_once_witness:
  "\<exists>d'. mark_started 0 (blank_batch\<lparr>b_status := ''running''\<rparr>) 11 ready = (True, d')
     \<and> mark_started 1 (blank_batch\<lparr>b_status := ''running''\<rparr>) 11 d' = (False, d')"
proof -
  have "fst (mark_started 0 (blank_batch\<lparr>b_status := ''running''\<rparr>) 11 ready)" by code_simp
  then obtain d' where start: "mark_started 0 (blank_batch\<lparr>b_status := ''running''\<rparr>) 11 ready = (True, d')"
    by (metis prod.collapse)
  have "distinct (map p_id (pipelines ready))" by (simp add: ready_def)
  from run_starts_at_most_once [OF this start, of 1] start show ?thesis by blast
qed

subsection \<open>Answers that are refused\<close>

lemma persisted_None: "persist_success env now mode b payload meta saved replay d = Inr (None, d') \<Longrightarrow> \<not> is_stage2_result payload"
  by (auto simp: persist_success_def is_stage2_result_def andthen_Inr_iff Let_def split_beta split: json.splits if_splits)

text \<open>
  An answer that calls for an intervention without naming evidence cannot be recorded.
  When the route of the state requires an intervention, the answer is not stale, not a
  replay and not invalid, and its evidence is empty, the CHECK clauses of the run refuse
  the row: the transaction raises, and nothing it did remains.
\<close>

theorem answer_without_evidence_is_refused:
  assumes "is_stage2_result (JObj answer)" and "read_answer env now d b answer saved = Inr rd"
    and "rd_evidence rd = []" and "rd_should_intervene rd" and "\<not> rd_invalid_suppression rd" and "\<not> replay"
    and "distinct (map p_id (pipelines d))" and "\<forall>p\<in>set (pipelines d). p_id p < next_pipeline_id d"
  shows "\<exists>e. persist_success env now mode b (JObj answer) meta saved replay d = Inl e
     \<and> stage2_do (Persist env now mode b (JObj answer) meta saved replay) d = d"
proof (cases "persist_success env now mode b (JObj answer) meta saved replay d")
  case (Inr x)
  obtain out d' where run: "persist_success env now mode b (JObj answer) meta saved replay d = Inr (Some out, d')"
    using Inr persisted_None [of env now mode b "JObj answer" meta saved replay d] assms(1)
    by (cases x; cases "fst x") auto
  from run assms(7,8) obtain answer' rd' facts r where read: "JObj answer = JObj answer'"
      "read_answer env now d b answer' saved = Inr rd'"
    and facts: "decided_facts env (fmt_ms now) b answer' meta rd' (decide replay rd') = Inr facts"
    and checks: "run_checks (decided_run (fmt_ms now) b rd' (decide replay rd') facts r)"
    by (rule recorded_answer)
  from read assms(2) have rd': "rd' = rd" by simp
  have "audit_active_evidence d b (rd_active rd) (rd_canonical rd) [] = Inr (rd_audit rd)"
    using read_answer_Inr(2) [OF assms(2)] assms(3) by simp
  then have "rd_audit rd = unaudited ''empty_evidence''" by (simp add: audit_active_evidence_def)
  then have "\<not> ea_valid (rd_audit rd)" by (simp add: unaudited_def)
  then have "\<not> rd_fresh_self_regulation rd" "rd_oi_strategy rd = None" using read_answer_Inr(4,5) [OF assms(2)] by auto
  then have "dc_should_intervene (decide replay rd)" using assms(4-6) by (simp add: decide_def Let_def)
  with checks decided_facts_Inr(1) [OF facts] assms(3) have False
    by (simp add: rd' run_checks_def decided_run_def flag_def)
  then show ?thesis ..
qed (simp add: committed_def)

definition bare_answer :: dict where
  "bare_answer = [(''schema_version'', JStr ''stage2.v1''),
     (''active_sub_state'', JObj [(''canonical_sub_state'', JStr ''burnout''), (''raw_sub_state'', JStr ''burnout''),
        (''start_sequence'', JInt 1), (''end_sequence'', JInt 2), (''evidence_message_ids'', JList [])])]"

lemma answer_without_evidence_is_refused_witness:
  "\<exists>e. persist_success table_env 0 None assessed_window (JObj bare_answer) no_meta [] False assessed = Inl e"
proof -
  have "case read_answer table_env 0 assessed assessed_window bare_answer [] of Inl e \<Rightarrow> False
    | Inr rd \<Rightarrow> rd_evidence rd = [] \<and> rd_should_intervene rd \<and> \<not> rd_invalid_suppression rd" by code_simp
  then obtain rd where "read_answer table_env 0 assessed assessed_window bare_answer [] = Inr rd"
    "rd_evidence rd = []" "rd_should_intervene rd" "\<not> rd_invalid_suppression rd"
    by (auto split: sum.splits)
  moreover have "is_stage2_result (JObj bare_answer)" by code_simp
  moreover note assessed_ids
  ultimately show ?thesis
    using answer_without_evidence_is_refused [of bare_answer table_env 0 assessed assessed_window "[]" rd False None no_meta]
    by blast
qed

end
