(* ===== verification/Execution_Properties.thy ===== *)
theory Execution_Properties
  imports Platform_Services Lease_Properties Retry_Properties Stage2_Properties
begin

text \<open>
  The properties of an execution as a whole and of the program as one system, with witnesses
  on a room that holds a window waiting for its assessment.
\<close>

subsection \<open>The detector runs under the lease\<close>

lemma prepared_windows: "prepare_for_batch now mode b d = Inr (pr, d') \<Longrightarrow> batches d' = batches d"
  using window_view_inv(1) [of d' d] by (auto simp: apart_def dest: apart_prepare)

lemma claimed_sides: "claim_strategy_pipeline cfg now t fresh pid ls d = (r, d') \<Longrightarrow> sides d' = sides d"
  by (metis sides_claim snd_conv)

lemma started_run:
  assumes "mark_started now b pid d = (True, d')" and ids: "distinct (map p_id (pipelines d))"
  obtains p where "fetch_pipeline d pid = Some p" "p_assessment_batch_id p = Some (b_id b)"
    and "fetch_pipeline d' pid = Some (started_row (fmt_ms now) p)"
    and "groups d' = groups d" "batches d' = batches d"
proof -
  from assms(1) have one: "rowcount (startable pid (b_id b)) (pipelines d) = 1"
    and d': "d' = log_event (stage2_event ''stage2'' ''stage2_started'' pid (b_id b) (fmt_ms now))
         (change_pipelines (startable pid (b_id b)) (started_row (fmt_ms now)) d)"
    by (auto simp: mark_started_def split: if_splits)
  from rowcount_one_ex [OF one] obtain p where p: "p \<in> set (pipelines d)" "startable pid (b_id b) p" by blast
  then have pid: "p_id p = pid" "p_assessment_batch_id p = Some (b_id b)"
    by (simp_all add: startable_def awaits_stage2_def)
  have f: "fetch_pipeline d pid = Some p"
    using fetch_by_unique [OF ids p(1)] pid(1) by (simp add: fetch_pipeline_def)
  have "p_id (started_row ts x) = p_id x" for ts x by (simp add: started_row_def)
  then have "fetch_pipeline d' pid = Some (started_row (fmt_ms now) p)"
    using f p(2) by (simp add: d' fetch_pipeline_def fetch_by_update_where)
  with f pid(2) show thesis by (rule that) (simp_all add: d')
qed

lemma waits_not_detecting: "fst (wait_for_room env now b pid reason d) \<noteq> Inr (Detecting b' mode pr token)"
  by (auto simp: wait_for_room_def Let_def split: sum.splits prod.splits)

lemma begin_stage2_detecting:
  "begin_stage2 now b mode pr token d = (Inr (Detecting b' mode' pr' token'), d')
     \<longleftrightarrow> b' = b \<and> mode' = mode \<and> pr' = pr \<and> token' = token \<and> mark_started now b (pr_pipeline_run_id pr) d = (True, d')"
  by (cases "mark_started now b (pr_pipeline_run_id pr) d"; cases "fst (mark_started now b (pr_pipeline_run_id pr) d)")
    (auto simp: begin_stage2_def)

lemma start_stage2_detecting:
  assumes "start_stage2 cfg env now fresh b mode d = (Inr (Detecting b' mode' pr token), d')"
  obtains d1 d2 lease where "b' = b" "mode' = mode" "prepare_for_batch now mode b d = Inr (pr, d1)"
    "mark_started now b (pr_pipeline_run_id pr) d2 = (True, d')"
    "if mode = ''strategy'' \<and> pr_coarse_should_escalate pr
     then claim_strategy_pipeline cfg now now fresh (pr_pipeline_run_id pr) None d1 = (lease, d2)
       \<and> lr_acquired lease \<and> token = lr_lock_token lease
     else d2 = d1 \<and> token = None"
proof (cases "prepare_for_batch now mode b d")
  case (Inr p)
  then obtain pr1 d1 where p: "prepare_for_batch now mode b d = Inr (pr1, d1)" by (cases p) auto
  obtain lease d2 where l: "claim_strategy_pipeline cfg now now fresh (pr_pipeline_run_id pr1) None d1 = (lease, d2)" by force
  have waits: "wait_for_room env now b pid reason d2 \<noteq> (Inr (Detecting b' mode' pr token), d')" for pid reason
    using waits_not_detecting [of env now b pid reason d2 b' mode' pr token] by auto
  note run = assms [unfolded start_stage2_def p sum.case prod.case l Let_def]
  show thesis
  proof (cases "mode = ''strategy'' \<and> pr_coarse_should_escalate pr1")
    case True
    with run waits have "lr_acquired lease" "begin_stage2 now b mode pr1 (lr_lock_token lease) d2
        = (Inr (Detecting b' mode' pr token), d')"
      by (simp_all split: if_splits)
    with True show thesis using p l by (intro that [of d1 d2 lease]) (auto simp: begin_stage2_detecting)
  next
    case False
    with run have "begin_stage2 now b mode pr1 None d1 = (Inr (Detecting b' mode' pr token), d')"
      by (simp split: if_splits)
    with False show thesis using p by (intro that [of d1 d1]) (auto simp: begin_stage2_detecting)
  qed
qed (use assms in \<open>simp add: start_stage2_def\<close>)

lemma open_execution_detecting:
  assumes "open_execution cfg env now fresh bid d = (Inr (Detecting b mode pr token), d')"
  obtains d1 where "begin_execution now bid d = (Inr (Ready b mode), d1)"
    "start_stage2 cfg env now fresh b mode d1 = (Inr (Detecting b mode pr token), d')"
proof -
  have failed: "map_prod (map_sum id (Failed_Opening k)) id x \<noteq> (Inr (Detecting b mode pr token), d')" for k x
    by (cases x; cases "fst x") auto
  from assms obtain b1 mode1 d1 where 1: "begin_execution now bid d = (Inr (Ready b1 mode1), d1)"
    "start_stage2 cfg env now fresh b1 mode1 d1 = (Inr (Detecting b mode pr token), d')"
    by (auto simp: open_execution_def failed split: sum.splits execution_start.splits prod.splits)
  from 1(2) have "b1 = b" "mode1 = mode" by (auto elim!: start_stage2_detecting)
  with 1 show thesis by (auto intro: that)
qed

text \<open>
  C8. The detector only runs on a window that is running, for a run that has started its
  second stage on that window; and when the session is in strategy mode and the first stage
  asked to escalate, under a lease: the room is locked under the token the heartbeat will
  renew, and the room and the run both name it.  Otherwise no lease is taken.
\<close>

theorem detector_runs_under_lease:
  assumes inv: "platform_inv cfg d"
    and run: "open_execution cfg env now fresh bid d = (Inr (Detecting b mode pr token), d')"
  shows "fetch_batch d' bid = Some b \<and> b_status b = ''running''
    \<and> (\<exists>p. fetch_pipeline d' (pr_pipeline_run_id pr) = Some p \<and> p_assessment_batch_id p = Some bid
        \<and> p_stage2_status p = Some ''RUNNING'' \<and> p_final_status p = Some ''ASSESSING''
        \<and> (if mode = ''strategy'' \<and> pr_coarse_should_escalate pr
           then \<exists>g t. token = Some t \<and> fetch_group d' (p_group_id p) = Some g \<and> g_state g = LOCK_STATE
              \<and> g_active_intervention_run_id g = Some (- pr_pipeline_run_id pr)
              \<and> g_lock_token g = Some t \<and> p_room_lock_token p = Some t
           else token = None))"
proof -
  let ?pid = "pr_pipeline_run_id pr"
  from run obtain d1 where start: "begin_execution now bid d = (Inr (Ready b mode), d1)"
    and stage2: "start_stage2 cfg env now fresh b mode d1 = (Inr (Detecting b mode pr token), d')"
    by (rule open_execution_detecting)
  from stage2 obtain d2 d3 lease where prep: "prepare_for_batch now mode b d1 = Inr (pr, d2)"
    and started: "mark_started now b ?pid d3 = (True, d')"
    and lease: "if mode = ''strategy'' \<and> pr_coarse_should_escalate pr
      then claim_strategy_pipeline cfg now now fresh ?pid None d2 = (lease, d3) \<and> lr_acquired lease \<and> token = lr_lock_token lease
      else d3 = d2 \<and> token = None"
    by (rule start_stage2_detecting) blast
  have b: "fetch_batch d1 bid = Some b" "b_status b = ''running''"
    using begin_execution_outcome [OF _ start] inv by (simp_all add: platform_inv_def)
  have "platform_inv cfg d1"
    using inv sound_scheduler_calls(2) [of cfg d now bid] start by (simp add: sound_def)
  then have inv2: "platform_inv cfg d2" using sound_calls(4) [OF prep] by (simp add: sound_def)
  have sides: "sides d3 = sides d2"
  proof (cases "mode = ''strategy'' \<and> pr_coarse_should_escalate pr")
    case True
    with lease claimed_sides show ?thesis by metis
  qed (use lease in simp)
  have ids: "distinct (map p_id (pipelines d3))"
    using inv2 sides by (simp add: sides_def platform_inv_def lease_inv_def ids_distinct_def del: distinct_map)
  obtain p where p: "fetch_pipeline d3 ?pid = Some p" "p_assessment_batch_id p = Some (b_id b)"
    and p': "fetch_pipeline d' ?pid = Some (started_row (fmt_ms now) p)"
    and frame: "groups d' = groups d3" "batches d' = batches d3"
    using started ids by (rule started_run)
  have "batches d3 = batches d1"
    using sides prepared_windows [OF prep] by (simp add: sides_def assessment_tables_def)
  then have win: "fetch_batch d' bid = Some b" using b(1) by (simp add: fetch_batch_def frame)
  have bid: "b_id b = bid" using b(1) unfolding fetch_batch_def by (rule fetch_by_SomeD [THEN conjunct2])
  have room: "\<exists>g t. token = Some t \<and> fetch_group d' (p_group_id p) = Some g \<and> g_state g = LOCK_STATE
      \<and> g_active_intervention_run_id g = Some (- ?pid) \<and> g_lock_token g = Some t \<and> p_room_lock_token p = Some t"
    if "mode = ''strategy'' \<and> pr_coarse_should_escalate pr"
    using claim_holds [of cfg d2 now now fresh ?pid None lease d3] inv2 lease that p(1)
    by (auto simp: holds_lease_def platform_inv_def fetch_group_def frame)
  show ?thesis using win b(2) p(2) p' room lease bid
    by (auto simp: started_row_def split: if_splits)
qed

text \<open>A discussion with one window waiting for its assessment, and its escalating run.\<close>

definition waiting_room :: platform where
  "waiting_room = queued_room\<lparr>pipelines := [ready_run]\<rparr>"

lemma waiting_room_inv: "platform_inv demo_cfg waiting_room"
proof -
  have q: "groups queued_room = [blank_group]" "pipelines queued_room = []" "next_pipeline_id queued_room = 100" by code_simp+
  have "batch_inv queued_room" unfolding queued_room_def by (rule assessment_run_inv [OF windowed_inv])
  moreover have "window_view waiting_room = window_view queued_room" by (simp add: window_view_def waiting_room_def)
  ultimately have "batch_inv waiting_room" using window_view_inv(3) [of waiting_room queued_room] by simp
  then show ?thesis
    by (simp add: platform_inv_def fresh_runs_def lease_inv_def rooms_ok_def room_ok_def ids_distinct_def runs_positive_def capped_def
      waiting_room_def q ready_run_def within_cap_def lease_view_def blank_defs LOCK_STATE_def)
qed

lemma detector_runs_under_lease_witness:
  "\<exists>b pr d'. open_execution demo_cfg demo_env 1000000 ''t1'' 5 waiting_room = (Inr (Detecting b ''strategy'' pr (Some ''t1'')), d')
     \<and> fetch_batch d' 5 = Some b \<and> b_status b = ''running''
     \<and> (\<exists>p g. fetch_pipeline d' (pr_pipeline_run_id pr) = Some p \<and> fetch_group d' (p_group_id p) = Some g
          \<and> g_lock_token g = Some ''t1'')"
proof -
  let ?r = "open_execution demo_cfg demo_env 1000000 ''t1'' 5 waiting_room"
  have "case projr (fst ?r) of Detecting b m pr t \<Rightarrow> m = ''strategy'' \<and> t = Some ''t1'' \<and> pr_coarse_should_escalate pr | _ \<Rightarrow> False"
    "\<not> isl (fst ?r)" by code_simp+
  then obtain b pr d' where 1: "?r = (Inr (Detecting b ''strategy'' pr (Some ''t1'')), d')" "pr_coarse_should_escalate pr"
    by (cases ?r; cases "fst ?r") (auto split: opened_execution.splits)
  from detector_runs_under_lease [OF waiting_room_inv 1(1)] 1 show ?thesis by fastforce
qed

subsection \<open>A recorded answer settles the window and the run together\<close>

lemma saved_window:
  assumes s: "save_successful_segments library render now bid answer raw parsed model prompt d = Inr (r, d')"
    and inv: "batch_inv d"
  shows "fetch_batch d' bid = Some (sv_batch r) \<and> b_status (sv_batch r) = ''succeeded'' \<and> b_id (sv_batch r) = bid"
  using s
proof (cases rule: save_parts)
  case (stored b)
  with s show ?thesis using batch_with_scopeD [of d bid b] by (auto simp: save_successful_segments_def)
next
  case (saved b ns ids d1)
  have b: "fetch_batch d bid = Some b" "b_id b = bid" using batch_with_scopeD [OF saved(1)] by auto
  have "segments_inv d" using inv by (simp add: batch_inv_def)
  with saved(4) have only: "segments_only d d1" by (rule store_segments_only)
  have "fetch_batch d1 (b_id b) = Some b"
    using b segments_only_frame [OF only] by (simp add: fetch_batch_def)
  from save_commit_effects(2) [OF saved(5) this saved(2)] saved(8) b(2) show ?thesis
    by (simp add: succeeded_row_def)
qed

lemma record_execution_recorded:
  assumes "record_execution senv render env now b mode (Inr dt) d = (Inr (Recorded w saved (Some out) next), d')"
    and "\<not> so_stale out" and "mode \<noteq> ''state_only''"
  obtains items d1 where "save_successful_segments (sx_library senv) render now (b_id b) (JList items)
      (lm_raw_response (dt_meta dt)) (JObj (dt_result dt)) (lm_model_name (dt_meta dt)) (lm_prompt_version (dt_meta dt)) d
      = Inr (saved, d1)"
    "persist_success senv now (Some mode) (sv_batch saved) (JObj (dt_result dt)) (dt_meta dt) (sv_segments saved)
      (b_fallback_action (sv_batch saved) = Some ''state_only_replay'') d1 = Inr (Some out, d')"
proof -
  have failed: "map_prod (map_sum id (Failed_Recording k)) id x \<noteq> (Inr (Recorded w saved (Some out) next), d')" for k x
    by (cases x; cases "fst x") auto
  have stale: "map_prod (map_sum id (\<lambda>r. Recorded w1 saved1 (Some out1) (Some r))) id x
      = (Inr (Recorded w saved (Some out) next), d') \<Longrightarrow> out1 = out" for w1 saved1 out1 x
    by (cases x; cases "fst x") auto
  show thesis
    using assms by (auto simp: record_execution_def failed Let_def persist_answer_def
      split: sum.splits option.splits prod.splits if_splits dest!: stale intro: that)
qed

text \<open>
  C9. A recorded answer settles the window and the run together.  When the answer of the
  detector is recorded and no student spoke meanwhile, the window has succeeded and the
  finalized cursor of its discussion is at or past its end; and the run of that window
  carries the reported decision: either it goes on to the third stage with an intervention
  decided, or it is over and no room is left under the lease it recorded.
\<close>

theorem recorded_execution_settles_both:
  assumes inv: "platform_inv cfg d"
    and run: "record_execution senv render env now b ''strategy'' (Inr dt) d = (Inr (Recorded w saved (Some out) next), d')"
    and fresh: "\<not> so_stale out"
  shows "\<exists>b' q. fetch_batch d' (b_id b) = Some b' \<and> b_status b' = ''succeeded''
    \<and> b_candidate_end_sequence b' \<le> finalized_through d' (batch_scope b')
    \<and> fetch_pipeline d' (so_pipeline_run_id out) = Some q \<and> p_assessment_batch_id q = Some (b_id b)
    \<and> p_stage2_status q = Some ''SUCCEEDED'' \<and> p_final_status q = Some (so_final_status out)
    \<and> (if so_enter_stage3 out then so_final_status out = ''PENDING_STAGE3'' \<and> so_should_intervene out
       else so_final_status out \<in> {''STALE'', ''FAILED'', ''SUPPRESSED''} \<and> (\<forall>g\<in>set (groups d'). \<not> leased_to q g))"
proof -
  have "''strategy'' \<noteq> ''state_only''" by simp
  with run fresh obtain items d1 where
    save: "save_successful_segments (sx_library senv) render now (b_id b) (JList items)
      (lm_raw_response (dt_meta dt)) (JObj (dt_result dt)) (lm_model_name (dt_meta dt)) (lm_prompt_version (dt_meta dt)) d
      = Inr (saved, d1)"
    and persist: "persist_success senv now (Some ''strategy'') (sv_batch saved) (JObj (dt_result dt)) (dt_meta dt)
      (sv_segments saved) (b_fallback_action (sv_batch saved) = Some ''state_only_replay'') d1 = Inr (Some out, d')"
    by (rule record_execution_recorded)
  have "platform_inv cfg d1" using inv sound_calls(3) [OF save, of cfg] by (simp add: sound_def)
  then have inv1: "platform_inv cfg d1" "platform_inv cfg d'"
    using sound_calls(6) [OF persist, of cfg] by (simp_all add: sound_def)
  have "batches d' = batches d1"
    using apart_persist [OF persist] window_view_inv(1) [of d' d1] by (simp add: apart_def)
  then have win: "fetch_batch d' (b_id b) = Some (sv_batch saved)" "b_status (sv_batch saved) = ''succeeded''"
      "b_id (sv_batch saved) = b_id b"
    using saved_window [OF save] inv by (simp_all add: fetch_batch_def platform_inv_def)
  have "sv_batch saved \<in> set (batches d')"
    using win(1) unfolding fetch_batch_def by (rule fetch_by_SomeD [THEN conjunct1])
  then have end_: "b_candidate_end_sequence (sv_batch saved) \<le> finalized_through d' (batch_scope (sv_batch saved))"
    using inv1(2) win(2) by (simp add: platform_inv_def batch_inv_def finalized_inv_def)
  have "distinct (map p_id (pipelines d1))" "\<forall>p\<in>set (pipelines d1). p_id p < next_pipeline_id d1"
    using inv1(1) by (simp_all add: platform_inv_def lease_inv_def ids_distinct_def fresh_runs_def del: distinct_map)
  from recorded_decision [OF persist this] win end_ show ?thesis by (auto split: if_splits)
qed

text \<open>The window is being assessed, its run holds the room, and the detector answers for all of it.\<close>

definition detecting_room :: platform where
  "detecting_room = windowed\<lparr>
     groups := [blank_group\<lparr>g_state := LOCK_STATE, g_lock_token := Some ''t'', g_version := 1,
        g_lock_expires_at := Some (Stamp 90 None), g_active_intervention_run_id := Some (-11)\<rparr>],
     pipelines := [blank_pipeline\<lparr>p_assessment_batch_id := Some 5, p_final_status := Some ''ASSESSING'',
        p_stage2_status := Some ''RUNNING'', p_room_lock_token := Some ''t'',
        p_room_lock_acquired_at := Some (Stamp 0 (Some 0))\<rparr>]\<rparr>"

lemma detecting_room_inv: "platform_inv demo_cfg detecting_room"
proof -
  have "window_view detecting_room = window_view windowed" by (simp add: window_view_def detecting_room_def)
  then have "batch_inv detecting_room" using window_view_inv(3) [of detecting_room windowed] windowed_inv by simp
  moreover have "lease_inv demo_cfg detecting_room"
    by (simp add: lease_inv_def rooms_ok_def room_ok_def ids_distinct_def runs_positive_def capped_def detecting_room_def within_cap_def
      lease_view_def windowed_def blank_defs LOCK_STATE_def demo_cfg_def mk_lease_config_def stamp_dt_def seconds_def)
  moreover have "fresh_runs detecting_room" by (simp add: fresh_runs_def detecting_room_def windowed_def blank_defs)
  ultimately show ?thesis by (simp add: platform_inv_def)
qed

definition answer_for :: "string \<Rightarrow> detection" where
  "answer_for state = \<lparr>dt_error = None, dt_success = True, dt_analysis_failed = False, dt_failure_type = None,
     dt_skip_reason = None, dt_failure_message = None, dt_meta = no_meta, dt_result =
       (let part = [(''canonical_sub_state'', JStr state), (''raw_sub_state'', JStr state),
          (''start_sequence'', JInt 1), (''end_sequence'', JInt 5), (''evidence_message_ids'', JList [JInt 1])]
        in [(''schema_version'', JStr ''stage2.v1''), (''active_segment_index'', JInt 0),
            (''active_sub_state'', JObj part), (''segments'', JList [JObj part])])\<rparr>"

definition regulated :: detection where
  "regulated = answer_for ''deep_thinking''"

abbreviation answered where
  "answered \<equiv> record_execution table_env (\<lambda>_. []) demo_env 2000000 demo_window ''strategy'' (Inr regulated) detecting_room"

definition answer_items where
  "answer_items = segments_from_multi_result (\<lambda>_. []) demo_window (dt_result regulated) detecting_room"

definition answer_saved where
  "answer_saved = save_successful_segments (sx_library table_env) (\<lambda>_. []) 2000000 (b_id demo_window)
     (JList (projr answer_items)) (lm_raw_response (dt_meta regulated)) (JObj (dt_result regulated))
     (lm_model_name (dt_meta regulated)) (lm_prompt_version (dt_meta regulated)) detecting_room"

lemma answered_parts:
  "\<not> isl answer_items" "\<not> isl answer_saved" "detection_failure regulated = None" "b_id demo_window = 5"
  "recorded (persist_answer table_env 2000000 ''strategy'' (fst (projr answer_saved)) regulated (snd (projr answer_saved)))
     (\<lambda>x. \<not> so_stale x \<and> \<not> so_enter_stage3 x \<and> so_final_status x = ''SUPPRESSED'' \<and> so_pipeline_run_id x = 11)"
  by code_simp+

lemma answered_recorded:
  obtains w sv out d' where "answered = (Inr (Recorded w sv (Some out) None), d')" "\<not> so_stale out"
    "\<not> so_enter_stage3 out" "so_final_status out = ''SUPPRESSED''" "so_pipeline_run_id out = 11"
proof -
  obtain sv d1 where s: "projr answer_saved = (sv, d1)" by force
  have "answer_items = Inr (projr answer_items)" using sum.collapse(2) [OF answered_parts(1)] by (rule sym)
  note items = trans [OF answer_items_def [symmetric] this]
  have "answer_saved = Inr (sv, d1)" using sum.collapse(2) [OF answered_parts(2), unfolded s] by (rule sym)
  note saved = trans [OF answer_saved_def [symmetric] this]
  from answered_parts(5) obtain out d2 where "persist_answer table_env 2000000 ''strategy'' sv regulated d1 = Inr (Some out, d2)"
    "\<not> so_stale out" "\<not> so_enter_stage3 out" "so_final_status out = ''SUPPRESSED''" "so_pipeline_run_id out = 11"
    unfolding s recorded_Inr by auto
  then show thesis using items saved answered_parts(3) by (intro that) (simp_all add: record_execution_def)
qed

lemma recorded_execution_settles_both_witness:
  "\<exists>b' q. fetch_batch (snd answered) 5 = Some b' \<and> b_status b' = ''succeeded''
     \<and> fetch_pipeline (snd answered) 11 = Some q \<and> p_final_status q = Some ''SUPPRESSED''
     \<and> filter (leased_to q) (groups (snd answered)) = []"
proof -
  from answered_recorded obtain w sv out d' where 1: "answered = (Inr (Recorded w sv (Some out) None), d')"
    "\<not> so_stale out" "\<not> so_enter_stage3 out" "so_final_status out = ''SUPPRESSED''" "so_pipeline_run_id out = 11" .
  from recorded_execution_settles_both [OF detecting_room_inv 1(1,2)]
  obtain b' q where "fetch_batch d' 5 = Some b'" "b_status b' = ''succeeded''" "fetch_pipeline d' 11 = Some q"
    "p_final_status q = Some ''SUPPRESSED''" "\<forall>g\<in>set (groups d'). \<not> leased_to q g"
    unfolding answered_parts(4) 1(4,5) using 1(3) by auto
  then show ?thesis unfolding 1(1) snd_conv filter_empty_conv by blast
qed

end
