(* ===== verification/Runtime_Machine.thy ===== *)
theory Runtime_Machine
  imports Session_Lifecycle
begin

text \<open>
  The life of a group discussion: \<open>runtime_ok\<close> is what holds of every row,
  \<open>runtime_evolves\<close> what an operation may do to it, \<open>discussions_inv\<close> the invariant of the
  tables.  Every request that reaches the table (a student enters, the scan at the deadline,
  the end of the session) keeps the invariant and lets every row evolve.
\<close>

subsection \<open>One discussion\<close>

definition runtime_rank :: "string \<Rightarrow> nat" where
  "runtime_rank s = (if s = ''waiting'' then 0 else if s = ''running'' then 1 else if s = ''timed_out'' then 2
     else if s = ''closed'' then 3 else if s = ''submitted'' then 4 else 5)"

lemma runtime_rank_simps [simp]:
  "runtime_rank ''waiting'' = 0" "runtime_rank ''running'' = 1" "runtime_rank ''timed_out'' = 2"
  "runtime_rank ''closed'' = 3" "runtime_rank ''submitted'' = 4"
  by (simp_all add: runtime_rank_def)

definition everyone_ready :: "discussion_row \<Rightarrow> bool" where
  "everyone_ready x \<longleftrightarrow> set (d_expected_student_ids x) \<subseteq> set (d_ready_student_ids x)"

text \<open>A discussion waits exactly until everyone expected is ready; then its clock is set.\<close>

definition runtime_ok :: "discussion_row \<Rightarrow> bool" where
  "runtime_ok x \<longleftrightarrow> d_status x \<in> {''waiting'', ''running'', ''timed_out'', ''closed'', ''submitted''}
     \<and> d_expected_student_ids x \<noteq> []
     \<and> (d_status x = ''waiting'' \<longrightarrow> d_started_at x = None \<and> d_deadline x = None \<and> \<not> everyone_ready x)
     \<and> (d_status x \<in> {''running'', ''timed_out''} \<longrightarrow> d_started_at x \<noteq> None \<and> everyone_ready x)
     \<and> (case (d_started_at x, d_deadline x) of
          (Some s, Some t) \<Rightarrow> s < t | (None, None) \<Rightarrow> True | _ \<Rightarrow> False)"

definition runtime_evolves :: "discussion_row \<Rightarrow> discussion_row \<Rightarrow> bool" where
  "runtime_evolves x y \<longleftrightarrow> d_id y = d_id x \<and> d_session_id y = d_session_id x \<and> d_group_id y = d_group_id x
     \<and> d_expected_student_ids y = d_expected_student_ids x
     \<and> set (d_ready_student_ids x) \<subseteq> set (d_ready_student_ids y)
     \<and> runtime_rank (d_status x) \<le> runtime_rank (d_status y)
     \<and> (d_started_at x \<noteq> None \<longrightarrow> d_started_at y = d_started_at x)
     \<and> (d_deadline x \<noteq> None \<longrightarrow> d_deadline y = d_deadline x)
     \<and> (d_submitted_at x \<noteq> None \<longrightarrow> d_submitted_at y = d_submitted_at x)"

lemma runtime_evolves_refl [simp]: "runtime_evolves x x"
  by (simp add: runtime_evolves_def)

lemma evolves_itself: "x \<in> A \<Longrightarrow> \<exists>y\<in>A. runtime_evolves x y"
  by (rule bexI) simp_all

lemma runtime_evolves_trans [trans]: "runtime_evolves x y \<Longrightarrow> runtime_evolves y z \<Longrightarrow> runtime_evolves x z"
  unfolding runtime_evolves_def by (metis order_trans)

subsection \<open>The tables\<close>

definition discussion_key :: "discussion_row \<Rightarrow> int \<times> int" where
  "discussion_key x = (d_session_id x, d_group_id x)"

definition discussions_inv :: "platform \<Rightarrow> bool" where
  "discussions_inv d \<longleftrightarrow> distinct (map d_id (discussions d))
     \<and> distinct (map discussion_key (discussions d)) \<and> (\<forall>x\<in>set (discussions d). d_id x < next_discussion_id d)
     \<and> (\<forall>e\<in>set (entries d). en_discussion_id e < next_discussion_id d)
     \<and> (\<forall>x\<in>set (discussions d). runtime_ok x
          \<and> d_ready_student_ids x = id_list (filter (\<lambda>i. i \<in> set (d_expected_student_ids x)) (ready_ids d (d_id x))))"

text \<open>What an operation does to the discussions: every row evolves and the invariant is kept.\<close>

definition discussions_step :: "platform \<Rightarrow> platform \<Rightarrow> bool" where
  "discussions_step d d' \<longleftrightarrow> (discussions_inv d \<longrightarrow> discussions_inv d'
     \<and> (\<forall>x\<in>set (discussions d). \<exists>y\<in>set (discussions d'). runtime_evolves x y)
     \<and> (\<forall>did. set (ready_ids d did) \<subseteq> set (ready_ids d' did)))
     \<and> users d' = users d"

lemma discussions_step_refl [simp]: "discussions_step d d"
  by (auto simp: discussions_step_def intro: evolves_itself)

lemma discussions_step_trans [trans]:
  assumes "discussions_step d d1" and "discussions_step d1 d2"
  shows "discussions_step d d2"
proof (cases "discussions_inv d")
  case True
  with assms have "\<forall>x\<in>set (discussions d). \<exists>y\<in>set (discussions d1). runtime_evolves x y"
    "\<forall>x\<in>set (discussions d1). \<exists>y\<in>set (discussions d2). runtime_evolves x y"
    by (auto simp: discussions_step_def)
  then have "\<forall>x\<in>set (discussions d). \<exists>y\<in>set (discussions d2). runtime_evolves x y"
    using runtime_evolves_trans by metis
  with True assms show ?thesis unfolding discussions_step_def by (metis subset_trans)
qed (use assms in \<open>simp add: discussions_step_def\<close>)

text \<open>The columns the invariant looks at.\<close>

definition discussion_tables where
  "discussion_tables d = (discussions d, entries d, next_discussion_id d, users d)"

lemma discussions_step_same: "discussion_tables d' = discussion_tables d \<Longrightarrow> discussions_step d d'"
  by (auto simp: discussion_tables_def discussions_step_def discussions_inv_def ready_ids_def
      intro: evolves_itself)

text \<open>An UPDATE that moves rows on and touches neither their rosters nor their clocks.\<close>

definition moves_on :: "(discussion_row \<Rightarrow> discussion_row) \<Rightarrow> discussion_row \<Rightarrow> bool" where
  "moves_on f x \<longleftrightarrow> d_id (f x) = d_id x \<and> (runtime_ok x \<longrightarrow> runtime_ok (f x) \<and> runtime_evolves x (f x)
     \<and> d_ready_student_ids (f x) = d_ready_student_ids x)"

lemma discussions_step_map:
  assumes f: "\<And>x. x \<in> set (discussions d) \<Longrightarrow> moves_on f x"
  shows "discussions_step d (d\<lparr>discussions := map f (discussions d)\<rparr>)"
proof -
  let ?d = "d\<lparr>discussions := map f (discussions d)\<rparr>"
  have ids: "map (d_id \<circ> f) (discussions d) = map d_id (discussions d)" using f by (simp add: moves_on_def)
  have ready: "ready_ids ?d = ready_ids d" by (intro ext) (simp add: ready_ids_def)
  have keys: "map (discussion_key \<circ> f) (discussions d) = map discussion_key (discussions d)" if "discussions_inv d"
    using f that by (auto simp: moves_on_def discussions_inv_def runtime_evolves_def discussion_key_def)
  have dk: "distinct (map (discussion_key \<circ> f) (discussions d))" if "discussions_inv d"
    unfolding keys [OF that] using that by (simp add: discussions_inv_def)
  have row: "d_id (f x) = d_id x \<and> runtime_ok (f x) \<and> runtime_evolves x (f x) \<and> d_ready_student_ids (f x) = d_ready_student_ids x
      \<and> d_expected_student_ids (f x) = d_expected_student_ids x"
    if "x \<in> set (discussions d)" "discussions_inv d" for x
    using f [OF that(1)] that(2) that(1) by (simp add: moves_on_def discussions_inv_def runtime_evolves_def)
  have "discussions_inv ?d" if inv: "discussions_inv d"
    using inv row [OF _ inv] dk [OF inv] unfolding discussions_inv_def ready by (simp add: ids)
  moreover have "\<forall>x\<in>set (discussions d). \<exists>y\<in>set (discussions ?d). runtime_evolves x y" if "discussions_inv d"
    using row that by auto
  ultimately show ?thesis unfolding discussions_step_def ready by simp
qed

lemma discussions_step_change:
  assumes "\<And>x. x \<in> set (discussions d) \<Longrightarrow> P x \<Longrightarrow> moves_on f x"
  shows "discussions_step d (change_discussions P f d)"
  unfolding change_discussions_def update_where_def
  by (rule discussions_step_map) (use assms in \<open>auto simp: moves_on_def\<close>)

subsection \<open>Submissions and the end of a session\<close>

lemma moves_submitted: "moves_on (runtime_submitted ts) x"
  by (cases "d_submitted_at x")
    (auto simp: moves_on_def runtime_ok_def runtime_evolves_def runtime_submitted_def everyone_ready_def)

lemma moves_auto_submitted: "moves_on (runtime_auto_submitted ts) x"
  by (cases "d_submitted_at x")
    (auto simp: moves_on_def runtime_ok_def runtime_evolves_def runtime_auto_submitted_def runtime_submitted_def
      everyone_ready_def)

lemma moves_timed_out: "d_status x = ''running'' \<Longrightarrow> moves_on (runtime_put ''timed_out'' ts) x"
  by (auto simp: moves_on_def runtime_ok_def runtime_evolves_def runtime_put_def everyone_ready_def)

lemma moves_closed:
  "d_status x \<in> {''waiting'', ''running'', ''timed_out''} \<Longrightarrow> moves_on (runtime_put ''closed'' ts) x"
  by (auto simp: moves_on_def runtime_ok_def runtime_evolves_def runtime_put_def everyone_ready_def)

lemma step_mark: "discussions_step d (mark_group_discussion did status ts d)"
  by (auto simp: mark_group_discussion_def moves_auto_submitted moves_timed_out intro!: discussions_step_change)

lemma step_close_runtimes: "discussions_step d (close_runtimes ts ctx gs d)"
  unfolding close_runtimes_def
  by (rule discussions_step_map)
    (use moves_submitted moves_closed in \<open>auto simp: moves_on_def\<close>)

lemma tables_written [simp]:
  "discussion_tables (written_body did body d) = discussion_tables d"
  "discussion_tables (change_documents P f d) = discussion_tables d"
  "discussion_tables (submission_rows env ts did ord gid task number creator c y revision d) = discussion_tables d"
  by (simp_all add: discussion_tables_def written_body_def change_documents_def submission_rows_def)

lemma tables_claim:
  "claim_submission env ts did ctx ord doc revision d = Inr (r, d') \<Longrightarrow> discussion_tables d' = discussion_tables d"
  by (auto simp: claim_submission_def Let_def split: option.splits if_splits)

lemma step_forced: "discussions_step d (snd (perform_forced_submission env now did ctx ord d))"
proof -
  have "discussions_step d (written_body did body d)" for body
    by (rule discussions_step_same) simp
  moreover have "discussions_step d d2" "discussions_step d (mark_group_discussion i s ts d2)"
    if "claim_submission env ts' did ctx ord doc revision (written_body did body d) = Inr (r, d2)"
    for ts' doc revision body r d2 i s ts
  proof -
    from tables_claim [OF that] show "discussions_step d d2" by (intro discussions_step_same) simp
    then show "discussions_step d (mark_group_discussion i s ts d2)"
      using step_mark discussions_step_trans by blast
  qed
  ultimately show ?thesis
    by (auto simp: perform_forced_submission_def Let_def split: option.splits prod.splits sum.splits)
qed

lemma step_auto: "discussions_step d (snd (perform_auto_submit env now did ctx deadline d))"
  by (simp add: perform_auto_submit_def step_forced)

lemma step_submit_each: "discussions_step d (snd (submit_each env now max_docs ctx deadline is y d))"
proof (induction "is" arbitrary: y d)
  case (Cons i "is")
  show ?case
    using step_auto [of d env now i ctx deadline] Cons discussions_step_trans
    by (auto split: prod.splits)
qed simp

lemma step_close_expired: "discussions_step d (snd (close_expired env now max_docs xc y d))"
proof -
  obtain x ctx where xc: "xc = (x, ctx)" by (cases xc)
  have "discussions_step d (mark_group_discussion i s ts (snd (submit_each env now max_docs ctx deadline is y d)))"
    for i s ts deadline "is"
    using step_submit_each step_mark discussions_step_trans by blast
  then show ?thesis
    using step_submit_each [of d env now max_docs ctx]
    by (auto simp: close_expired_def xc Let_def case_prod_beta)
qed

lemma step_close_each: "discussions_step d (snd (close_each env now max_docs xcs y d))"
proof (induction xcs arbitrary: y d)
  case (Cons xc xcs)
  show ?case
    using step_close_expired [of d env now max_docs xc y] Cons discussions_step_trans
    by (auto simp: case_prod_beta)
qed simp

lemma step_scan: "discussions_step d (snd (scan_and_auto_submit env now max_docs d))"
  by (simp add: scan_and_auto_submit_def step_close_each)

lemma step_submit_all: "discussions_step d (snd (submit_all env now ctx ord is y d))"
proof (induction env now ctx ord "is" y d rule: submit_all.induct)
  case (2 env now ctx ord i gid "is" y gs d)
  show ?case
    using step_forced [of d env now i ctx ord] 2 discussions_step_trans
    by (auto split: prod.splits)
qed simp

lemma step_submit_session: "discussions_step d (snd (submit_session_documents env now sid operator d))"
proof -
  have "discussions_step d (close_runtimes ts ctx gs (snd (submit_all env now ctx ord is y d)))" for ts ctx gs ord "is" y
    using step_submit_all step_close_runtimes discussions_step_trans by blast
  then show ?thesis
    by (auto simp: submit_session_documents_def Let_def case_prod_beta split: option.splits)
qed

subsection \<open>A student enters\<close>

lemma id_list_Nil_iff [simp]: "id_list ids = [] \<longleftrightarrow> ids = []"
  by (metis set_empty2 set_id_list)

lemma id_list_Nil [simp]: "id_list [] = []"
  by (simp add: id_list_def)

lemma discussion_limit_pos: "0 < discussion_limit_minutes d sid"
  by (simp add: discussion_limit_minutes_def DEFAULT_DISCUSSION_MINUTES_def Let_def)

lemma discussion_deadline_later: "0 < minutes \<Longrightarrow> fmt_sec now < discussion_deadline (fmt_sec now) minutes"
  by (simp add: discussion_deadline_def fmt_sec_def stamp_dt_def seconds_def less_stamp_def less_eq_stamp_def stamp_key_def)

lemma runtime_found:
  "get_group_discussion_runtime d sid gid = Some x \<Longrightarrow> x \<in> set (discussions d) \<and> runtime_of sid gid x"
  by (auto simp: get_group_discussion_runtime_def find_Some_iff)

lemma ready_none: "discussions_inv d \<Longrightarrow> next_discussion_id d \<le> did \<Longrightarrow> ready_ids d did = []"
  by (auto simp: discussions_inv_def ready_ids_def filter_empty_conv)

lemma new_runtime_ok:
  assumes "student \<noteq> 0"
  shows "runtime_ok (new_runtime ts sid gid (snapshot_group_members d gid student) did)"
proof -
  have "snapshot_group_members d gid student \<noteq> []"
    using assms by (auto simp: snapshot_group_members_def Let_def filter_empty_conv)
  then show ?thesis by (simp add: runtime_ok_def new_runtime_def everyone_ready_def)
qed

lemma step_open:
  assumes "student \<noteq> 0" and "opened_runtime ts sid gid student d = (x, d1)"
  shows "discussions_step d d1" and "x \<in> set (discussions d1)" and "runtime_of sid gid x" and "entries d1 = entries d"
    and "sessions d1 = sessions d" and "tasks d1 = tasks d"
proof -
  let ?n = "new_runtime ts sid gid (snapshot_group_members d gid student) (next_discussion_id d)"
  have n': "discussion_key ?n = (sid, gid)" by (simp add: new_runtime_def discussion_key_def)
  have n: "d_id ?n = next_discussion_id d" "d_ready_student_ids ?n = []" by (simp_all add: new_runtime_def)
  have "discussions_step d (d\<lparr>discussions := discussions d @ [?n], next_discussion_id := next_discussion_id d + 1\<rparr>)"
    (is "discussions_step d ?d") if "get_group_discussion_runtime d sid gid = None"
  proof -
    have fresh: "(sid, gid) \<notin> discussion_key ` set (discussions d)"
      using that by (auto simp: get_group_discussion_runtime_def find_None_iff runtime_of_def discussion_key_def)
    have ready: "ready_ids ?d = ready_ids d" by (intro ext) (simp add: ready_ids_def)
    have "discussions_inv ?d" if inv: "discussions_inv d"
      using inv new_runtime_ok [OF assms(1), of ts sid gid d "next_discussion_id d"] ready_none [OF inv order_refl] n n' fresh
      unfolding discussions_inv_def ready by auto
    then show ?thesis unfolding discussions_step_def ready by (auto intro: evolves_itself)
  qed
  with assms(2) show "discussions_step d d1" "x \<in> set (discussions d1)" "runtime_of sid gid x" "entries d1 = entries d"
    "sessions d1 = sessions d" "tasks d1 = tasks d"
    by (auto simp: opened_runtime_def Let_def split: option.splits dest: runtime_found)
      (auto simp: runtime_of_def new_runtime_def)
qed

lemma entered_frame [simp]:
  "discussions (entered ts did student d) = discussions d" "users (entered ts did student d) = users d"
  "next_discussion_id (entered ts did student d) = next_discussion_id d"
  by (simp_all add: entered_def Let_def)

lemma in_ready_ids: "i \<in> set (ready_ids d did) \<longleftrightarrow> (\<exists>e\<in>set (entries d). entry_of did i e \<and> en_ready_at e \<noteq> None)"
  by (auto simp: ready_ids_def entry_of_def)

definition touched :: "stamp \<Rightarrow> entry_row \<Rightarrow> entry_row" where
  "touched ts e = e\<lparr>en_ready_at := coalesce (en_ready_at e) (Some ts), en_last_seen_at := Some ts, en_updated_at := ts\<rparr>"

lemma touched_simps [simp]:
  "entry_of did i (touched ts e) = entry_of did i e" "en_discussion_id (touched ts e) = en_discussion_id e"
  "en_ready_at (touched ts e) \<noteq> None"
  by (simp_all add: touched_def entry_of_def)

lemma entries_entered:
  obtains es where "entries (entered ts did student d) = update_where (entry_of did student) (touched ts) es"
    and "\<exists>e\<in>set es. entry_of did student e"
    and "es = entries d \<or> (\<exists>e. es = entries d @ [e] \<and> entry_of did student e)"
proof (cases "\<exists>e\<in>set (entries d). entry_of did student e")
  case True
  then show ?thesis
    by (intro that [of "entries d"]) (simp_all add: entered_def Let_def touched_def [abs_def])
next
  case False
  then show ?thesis
    by (intro that [of "entries d @ [\<lparr>en_discussion_id = did, en_student_id = student, en_entered_at = ts,
                   en_ready_at = Some ts, en_last_seen_at = Some ts, en_created_at = ts, en_updated_at = ts\<rparr>]"])
      (simp_all add: entered_def Let_def touched_def [abs_def], simp_all add: entry_of_def)
qed

lemma entered_ids:
  assumes "e \<in> set (entries (entered ts did student d))"
  shows "en_discussion_id e = did \<or> (\<exists>e'\<in>set (entries d). en_discussion_id e = en_discussion_id e')"
  using assms
  by (rule_tac entries_entered [of ts did student d])
    (auto simp: set_update_where entry_of_def split: if_splits)

lemma ready_entered: "set (ready_ids (entered ts did student d) i)
    = (if i = did then insert student (set (ready_ids d did)) else set (ready_ids d i))"
proof -
  have "s \<in> set (ready_ids (entered ts did student d) i)
      \<longleftrightarrow> (i = did \<and> s = student) \<or> s \<in> set (ready_ids d i)" for s
  proof (rule entries_entered [of ts did student d])
    fix es
    assume es: "entries (entered ts did student d) = update_where (entry_of did student) (touched ts) es"
      "\<exists>e\<in>set es. entry_of did student e" "es = entries d \<or> (\<exists>e. es = entries d @ [e] \<and> entry_of did student e)"
    have "s \<in> set (ready_ids (entered ts did student d) i)
      \<longleftrightarrow> (\<exists>e\<in>set es. entry_of i s e \<and> (entry_of did student e \<or> en_ready_at e \<noteq> None))"
      unfolding in_ready_ids es(1) set_update_where bex_simps by (rule bex_cong) (auto simp del: not_None_eq)
    also have "\<dots> \<longleftrightarrow> (i = did \<and> s = student) \<or> s \<in> set (ready_ids d i)"
      using es(2,3) unfolding in_ready_ids by (auto simp: entry_of_def)
    finally show ?thesis .
  qed
  then show ?thesis by auto
qed

text \<open>The row after the UPDATE, \<open>ready\<close> being the students that are ready now.\<close>

lemma readied_row:
  assumes ok: "runtime_ok x" and more: "set (d_ready_student_ids x) \<subseteq> set (d_expected_student_ids x) \<inter> set ready"
    and pos: "0 < limit" and row: "y = readied_runtime (fmt_sec now) ready limit x x"
  shows "runtime_ok y"
    and "runtime_evolves x y"
    and "d_ready_student_ids y = id_list (filter (\<lambda>i. i \<in> set (d_expected_student_ids x)) ready)"
    and "d_status x = ''waiting'' \<Longrightarrow> d_status y = (if everyone_ready y then ''running'' else ''waiting'')"
    and "d_status x = ''waiting'' \<Longrightarrow> d_status y = ''running'' \<Longrightarrow> d_started_at y = Some (fmt_sec now)
      \<and> d_deadline y = Some (discussion_deadline (fmt_sec now) limit)"
proof -
  define starts where "starts = (d_status x = ''waiting'' \<and> set (d_expected_student_ids x) \<subseteq> set ready)"
  have all: "all_ready (id_list (d_expected_student_ids x)) ready \<longleftrightarrow> set (d_expected_student_ids x) \<subseteq> set ready"
    using ok by (simp add: all_ready_def runtime_ok_def)
  show ready: "d_ready_student_ids y = id_list (filter (\<lambda>i. i \<in> set (d_expected_student_ids x)) ready)"
    by (simp add: row readied_runtime_def Let_def)
  have y: "d_id y = d_id x" "d_session_id y = d_session_id x" "d_group_id y = d_group_id x"
    "d_expected_student_ids y = d_expected_student_ids x" "d_submitted_at y = d_submitted_at x"
    "d_status y = (if starts then ''running'' else d_status x)"
    "d_started_at y = coalesce (d_started_at x) (if starts then Some (fmt_sec now) else d_started_at x)"
    "d_deadline y = coalesce (d_deadline x) (if starts then Some (discussion_deadline (fmt_sec now) limit) else d_deadline x)"
    by (simp_all add: row readied_runtime_def Let_def all starts_def)
  have same: "coalesce a a = a" for a :: "stamp option" by (cases a) simp_all
  have every: "everyone_ready y \<longleftrightarrow> set (d_expected_student_ids x) \<subseteq> set ready"
    unfolding everyone_ready_def ready y(4) by auto
  have grow: "set (d_ready_student_ids x) \<subseteq> set (d_ready_student_ids y)" unfolding ready using more by auto
  then have keep: "everyone_ready x \<Longrightarrow> everyone_ready y" unfolding everyone_ready_def y(4) by blast
  have waits: "d_started_at x = None" "d_deadline x = None" if starts
    using that ok by (simp_all add: starts_def runtime_ok_def)
  show "runtime_ok y"
  proof (cases starts)
    case True
    then show ?thesis
      using ok waits every discussion_deadline_later [OF pos, of now]
      by (simp add: runtime_ok_def y same starts_def)
  next
    case False
    then have "d_started_at y = d_started_at x" "d_deadline y = d_deadline x" "d_status y = d_status x"
      by (simp_all add: y same)
    moreover from False have "d_status x = ''waiting'' \<Longrightarrow> \<not> everyone_ready y" by (simp add: every starts_def)
    ultimately show ?thesis using ok keep by (simp add: runtime_ok_def y(4))
  qed
  show "runtime_evolves x y"
    using grow waits by (cases starts) (auto simp: runtime_evolves_def y same starts_def)
  show "d_status x = ''waiting'' \<Longrightarrow> d_status y = (if everyone_ready y then ''running'' else ''waiting'')"
    by (simp add: y(6) every starts_def)
  show "d_status x = ''waiting'' \<Longrightarrow> d_status y = ''running'' \<Longrightarrow> d_started_at y = Some (fmt_sec now)
      \<and> d_deadline y = Some (discussion_deadline (fmt_sec now) limit)"
    using waits by (cases starts) (auto simp: y)
qed

definition readied_tables :: "datetime \<Rightarrow> int \<Rightarrow> discussion_row \<Rightarrow> int \<Rightarrow> platform \<Rightarrow> platform" where
  "readied_tables now limit x student d = change_discussions (\<lambda>r. d_id r = d_id x)
     (readied_runtime (fmt_sec now) (ready_ids (entered (fmt_sec now) (d_id x) student d) (d_id x)) limit x)
     (entered (fmt_sec now) (d_id x) student d)"

lemma enter_cases:
  assumes "enter_group_discussion_stage now sid gid student d = Inr (y, d')"
  obtains x d1 limit where "student \<noteq> 0" and "opened_runtime (fmt_sec now) sid gid student d = (x, d1)"
    and "0 < limit" and "d' = readied_tables now limit x student d1"
    and "y = the (find (\<lambda>r. d_id r = d_id x) (discussions d'))"
proof -
  obtain x d1 where o: "opened_runtime (fmt_sec now) sid gid student d = (x, d1)" by force
  let ?d2 = "entered (fmt_sec now) (d_id x) student d1"
  from assms o have "student \<noteq> 0" "d' = readied_tables now (discussion_limit_minutes ?d2 sid) x student d1"
    "y = the (find (\<lambda>r. d_id r = d_id x) (discussions d'))"
    by (auto simp: enter_group_discussion_stage_def readied_tables_def Let_def split: if_splits)
  with o show ?thesis using discussion_limit_pos that by blast
qed

lemma readied_tables_discussions:
  fixes student now :: int
  assumes inv: "discussions_inv d" and x: "x \<in> set (discussions d)" and pos: "0 < limit"
  defines "ready \<equiv> ready_ids (entered (fmt_sec now) (d_id x) student d) (d_id x)"
  shows "discussions (readied_tables now limit x student d)
      = map (\<lambda>r. if d_id r = d_id x then readied_runtime (fmt_sec now) ready limit x x else r) (discussions d)"
    and "runtime_ok x" and "set (d_ready_student_ids x) \<subseteq> set (d_expected_student_ids x) \<inter> set ready"
proof -
  have one: "r = x" if "r \<in> set (discussions d)" "d_id r = d_id x" for r
    using that x inv by (auto simp: discussions_inv_def dest: key_inj)
  show "discussions (readied_tables now limit x student d)
      = map (\<lambda>r. if d_id r = d_id x then readied_runtime (fmt_sec now) ready limit x x else r) (discussions d)"
    by (auto simp: readied_tables_def change_discussions_def update_where_def ready_def dest: one)
  from inv x have "d_ready_student_ids x = id_list (filter (\<lambda>i. i \<in> set (d_expected_student_ids x)) (ready_ids d (d_id x)))"
    and "runtime_ok x" by (auto simp: discussions_inv_def)
  then show "runtime_ok x" "set (d_ready_student_ids x) \<subseteq> set (d_expected_student_ids x) \<inter> set ready"
    by (auto simp: ready_def ready_entered)
qed

lemma ready_ids_eq: "set (ready_ids d i) = set (ready_ids d' j) \<Longrightarrow> ready_ids d i = ready_ids d' j"
  by (simp add: ready_ids_def id_list_def sorted_list_of_set_sort_remdups [symmetric])

lemma readied_ready_ids:
  "set (ready_ids (readied_tables now limit x student d) i)
    = (if i = d_id x then insert student (set (ready_ids d (d_id x))) else set (ready_ids d i))"
proof -
  have "ready_ids (readied_tables now limit x student d) i = ready_ids (entered (fmt_sec now) (d_id x) student d) i"
    by (simp add: readied_tables_def change_discussions_def ready_ids_def)
  then show ?thesis by (simp add: ready_entered)
qed

lemma step_readied:
  assumes inv: "discussions_inv d \<Longrightarrow> x \<in> set (discussions d)" and pos: "0 < limit"
  shows "discussions_step d (readied_tables now limit x student d)"
proof -
  let ?d = "readied_tables now limit x student d"
  define ready where "ready = ready_ids (entered (fmt_sec now) (d_id x) student d) (d_id x)"
  have inv': "discussions_inv ?d \<and> (\<forall>r\<in>set (discussions d). \<exists>y\<in>set (discussions ?d). runtime_evolves r y)"
    if di: "discussions_inv d"
  proof -
    note x = inv [OF di]
    note row1 = readied_tables_discussions(1) [OF di x pos, where student = student and now = now, folded ready_def]
    note row3 = readied_tables_discussions(3) [OF di x pos, where student = student and now = now, folded ready_def]
    define y where "y = readied_runtime (fmt_sec now) ready limit x x"
    note y = readied_row [OF readied_tables_discussions(2) [OF di x pos] row3 pos y_def]
    have id: "d_id y = d_id x" "d_expected_student_ids y = d_expected_student_ids x"
      using y(2) by (simp_all add: runtime_evolves_def)
    have map: "discussions ?d = map (\<lambda>r. if d_id r = d_id x then y else r) (discussions d)"
      using row1 by (simp add: y_def)
    have one: "r = x" if "r \<in> set (discussions d)" "d_id r = d_id x" for r
      using that x di by (auto simp: discussions_inv_def dest: key_inj)
    have ids: "map d_id (discussions ?d) = map d_id (discussions d)" using id by (simp add: map)
    have keys: "map discussion_key (discussions ?d) = map discussion_key (discussions d)"
      using y(2) one by (auto simp: map runtime_evolves_def discussion_key_def)
    have n: "next_discussion_id ?d = next_discussion_id d" and e: "entries ?d = entries (entered (fmt_sec now) (d_id x) student d)"
      by (simp_all add: readied_tables_def change_discussions_def)
    have same: "ready_ids ?d i = (if i = d_id x then ready else ready_ids d i)" for i
      unfolding ready_def by (cases "i = d_id x") (auto intro!: ready_ids_eq simp: readied_ready_ids ready_entered)
    have "\<forall>r\<in>set (discussions ?d). runtime_ok r
        \<and> d_ready_student_ids r = id_list (filter (\<lambda>i. i \<in> set (d_expected_student_ids r)) (ready_ids ?d (d_id r)))"
      using di y(1,3) id by (auto simp: map same discussions_inv_def)
    moreover have "\<forall>r\<in>set (discussions ?d). d_id r < next_discussion_id d"
      using di id x by (auto simp: map discussions_inv_def)
    moreover have "\<forall>r\<in>set (entries ?d). en_discussion_id r < next_discussion_id d"
      using di x entered_ids unfolding e discussions_inv_def by metis
    ultimately have "discussions_inv ?d" using di unfolding discussions_inv_def ids keys n by simp
    moreover have "\<exists>s\<in>set (discussions ?d). runtime_evolves r s" if r: "r \<in> set (discussions d)" for r
    proof (cases "d_id r = d_id x")
      case True
      with one [OF r] have "r = x" by simp
      with y(2) r show ?thesis by (auto simp: map intro!: bexI [of _ y])
    next
      case False
      then show ?thesis using r by (auto simp: map intro!: bexI [of _ r])
    qed
    ultimately show ?thesis by blast
  qed
  have "users ?d = users d" by (simp add: readied_tables_def change_discussions_def)
  moreover have "set (ready_ids d i) \<subseteq> set (ready_ids ?d i)" for i by (auto simp: readied_ready_ids)
  ultimately show ?thesis using inv' by (auto simp: discussions_step_def)
qed

lemma step_enter: "discussions_step d (committed d (enter_group_discussion_stage now sid gid student d))"
proof (cases "enter_group_discussion_stage now sid gid student d")
  case (Inr r)
  obtain y d' where r: "r = (y, d')" by (cases r)
  with Inr obtain x d1 limit where o: "student \<noteq> 0" "opened_runtime (fmt_sec now) sid gid student d = (x, d1)"
      "0 < limit" "d' = readied_tables now limit x student d1"
    using enter_cases by metis
  note opened = step_open [OF o(1,2)]
  have "discussions_step d1 d'" unfolding o(4) using opened(2) o(3) by (rule step_readied)
  then show ?thesis using opened(1) discussions_step_trans by (simp add: Inr r committed_def)
qed (simp add: committed_def)

text \<open>Who enters is ready afterwards, in the discussion of the room.\<close>

lemma enter_ready:
  assumes "enter_group_discussion_stage now sid gid student d = Inr (y, d')" and inv: "discussions_inv d"
    and x: "x \<in> set (discussions d)" "runtime_of sid gid x"
  shows "student \<in> set (ready_ids d' (d_id x))"
proof -
  obtain z d1 limit where o: "opened_runtime (fmt_sec now) sid gid student d = (z, d1)"
      "d' = readied_tables now limit z student d1"
    using assms(1) by (rule enter_cases)
  have "get_group_discussion_runtime d sid gid \<noteq> None"
    using x by (auto simp: get_group_discussion_runtime_def find_None_iff)
  then obtain r where r: "get_group_discussion_runtime d sid gid = Some r" by blast
  have "distinct (map discussion_key (discussions d))" using inv by (simp add: discussions_inv_def)
  moreover have "r \<in> set (discussions d)" "discussion_key r = discussion_key x"
    using runtime_found [OF r] x(2) by (simp_all add: runtime_of_def discussion_key_def)
  ultimately have "r = x" using x(1) by (metis key_inj)
  with o(1) r have "z = x" by (simp add: opened_runtime_def)
  then show ?thesis by (simp add: o(2) readied_ready_ids)
qed

text \<open>A student of the platform can always enter a discussion that is there.\<close>

lemma enter_succeeds:
  assumes "sid \<noteq> 0" "gid \<noteq> 0" "student \<noteq> 0" and "fetch_by u_id student (users d) \<noteq> None"
    and "x \<in> set (discussions d)" "runtime_of sid gid x"
  obtains y d' where "enter_group_discussion_stage now sid gid student d = Inr (y, d')"
proof -
  have "get_group_discussion_runtime d sid gid \<noteq> None"
    using assms(5,6) by (auto simp: get_group_discussion_runtime_def find_None_iff)
  then obtain r where "opened_runtime (fmt_sec now) sid gid student d = (r, d)" "get_group_discussion_runtime d sid gid \<noteq> None"
    by (auto simp: opened_runtime_def)
  with assms that show ?thesis by (auto simp: enter_group_discussion_stage_def Let_def)
qed

end
