(* ===== verification/Observation_Properties.thy ===== *)
theory Observation_Properties
  imports Observation Samples
begin

text \<open>
  What a round of observation leaves behind, and what the end of a session does to the
  observations that are still open.
\<close>

subsection \<open>The run that is observed\<close>

lemma find_observed_Some:
  assumes "find_observed_pipeline d sc limit = Some p"
  shows "p \<in> set (pipelines d)" and "observed_candidate d sc limit p"
    and "q \<in> set (pipelines d) \<Longrightarrow> observed_candidate d sc limit q \<Longrightarrow> observed_rank d p \<le> observed_rank d q"
proof -
  from assms obtain ps where s: "sort_key (observed_rank d) (filter (observed_candidate d sc limit) (pipelines d)) = p # ps"
    by (auto simp: find_observed_pipeline_def split: list.splits)
  note head = sort_key_head [OF s]
  show "p \<in> set (pipelines d)" "observed_candidate d sc limit p" using head by auto
  show "q \<in> set (pipelines d) \<Longrightarrow> observed_candidate d sc limit q \<Longrightarrow> observed_rank d p \<le> observed_rank d q"
    using head by auto
qed

lemma record_observation_cases:
  assumes "record_observation_assessment mx now run b answer d = Inr (Inr out, d')"
  obtains p active where "find_observed_pipeline d (batch_scope b) (Some (b_candidate_start_sequence b)) = Some p"
    and "observe_assessment mx (fmt_sec now) (or0 run) b answer p active d = (out, d')"
    and "or0 run \<noteq> 0" and "b_trigger_type b = ''post_intervention_observation''"
  using assms
  by (auto simp: record_observation_assessment_def andthen_def split: if_splits option.splits sum.splits prod.splits)

subsection \<open>Runs under the updates of an observation\<close>

lemma p_id_observe [simp]:
  "p_id (observe_row f ts p) = p_id p"
  "p_observation (observe_row f ts p) = f (p_observation p)"
  by simp_all

lemma pipelines_deactivate [simp]: "pipelines (deactivate_observation_cursor p ts d) = pipelines d"
  by (simp add: deactivate_observation_cursor_def change_cursors_def)

lemma cursors_deactivate:
  "cursors (deactivate_observation_cursor p ts d) = update_where (observed_discussion p) (stop_cursor ts) (cursors d)"
  by (simp add: deactivate_observation_cursor_def change_cursors_def)

lemma stopped_cursor [simp]: "c_observation_status (stop_cursor ts c) = ''inactive''"
  by (simp add: stop_cursor_def)

lemma not_observed_after: "c \<in> set (cursors (deactivate_observation_cursor p ts d)) \<Longrightarrow> \<not> observed_discussion p c"
  by (auto simp: cursors_deactivate set_update_where observed_discussion_def split: if_splits)

lemma observation_of_other:
  "p_observation (if p_id q = run then q\<lparr>p_parent_run_id := x, p_updated_at := y\<rparr> else q) = p_observation q"
  "p_id (if p_id q = run then q\<lparr>p_parent_run_id := x, p_updated_at := y\<rparr> else q) = p_id q"
  by auto

text \<open>Every outcome that is not terminal leaves rounds to come.\<close>

lemma classify_enough_rounds:
  "mx \<le> rounds \<Longrightarrow> is_terminal_result (classify_observation_result mx previous current intervene count rounds)"
  by (simp add: classify_observation_result_def is_terminal_result_def TERMINAL_OBSERVATION_RESULTS_def)

lemma classify_recovered:
  "classify_observation_result mx previous current intervene count rounds = ''recovered''
   \<Longrightarrow> current \<in> set RECOVERY_SUB_STATES \<and> (MIN_RECOVERY_STUDENT_MESSAGES \<le> count \<or> mx \<le> rounds)"
  by (auto simp: classify_observation_result_def split: if_splits)

definition round_written :: "int \<Rightarrow> batch_row \<Rightarrow> observation_outcome \<Rightarrow> observation \<Rightarrow> bool" where
  "round_written run b out o' \<longleftrightarrow> ob_status o' = Some (oo_status out) \<and> ob_result o' = Some (oo_result out)
     \<and> ob_assessment_run_id o' = Some run \<and> ob_assessment_batch_id o' = Some (b_id b)
     \<and> ob_window_end_sequence o' = Some (b_candidate_end_sequence b)"

definition round_pipelines :: "stamp \<Rightarrow> int \<Rightarrow> pipeline_row \<Rightarrow> (observation \<Rightarrow> observation) \<Rightarrow> pipeline_row list \<Rightarrow> pipeline_row list" where
  "round_pipelines ts run p f rows =
     update_where (\<lambda>r. p_id r = run)
       (\<lambda>r. r\<lparr>p_parent_run_id := coalesce (p_parent_run_id r) (Some (p_id p)), p_updated_at := Some ts\<rparr>)
       (update_where (\<lambda>r. p_id r = p_id p) (observe_row f ts) rows)"

lemma observe_assessment_parts:
  assumes "observe_assessment mx ts run b answer p active d = (out, d')"
  obtains f where "pipelines d' = round_pipelines ts run p f (pipelines d)"
    and "\<forall>o'. round_written run b out (f o')"
    and "oo_observed_pipeline_run_id out = p_id p" and "oo_observation_rounds out = completed_observation_rounds d p"
    and "oo_student_response_count out = student_response_count d p (Some (b_candidate_end_sequence b))"
    and "oo_result out = classify_observation_result mx (normalize_canonical_sub_state (p_canonical_sub_state_code p))
           (canonical_of (dget active ''canonical_sub_state'')) (jtruthy (dget answer ''should_intervene''))
           (oo_student_response_count out) (oo_observation_rounds out)"
    and "oo_status out = (if is_terminal_result (oo_result out) then ''completed'' else ''observing'')"
    and "cursors d' = (if is_terminal_result (oo_result out)
           then update_where (observed_discussion p) (stop_cursor ts) (cursors d) else cursors d)"
  using assms
  by (rule_tac that [of "assessed_observation ts run b (Option.bind (first_student_response_after d p) m_sequence)
        (seconds_between (coalesce (p_published_at p) (Option.bind (published_message d p) m_created_at))
           (Option.bind (first_student_response_after d p) m_created_at))
        (normalize_canonical_sub_state (p_canonical_sub_state_code p)) (canonical_of (dget active ''canonical_sub_state''))
        (jtruthy (dget answer ''should_intervene'')) (oo_result out)
        (observation_details d p b answer active (first_student_response_after d p)
           (oo_student_response_count out) (oo_observation_rounds out) (oo_result out))"])
    (auto simp: observe_assessment_def Let_def round_pipelines_def change_pipelines_def round_written_def
       assessed_observation_def cursors_deactivate)

lemma fetch_round_pipelines:
  assumes "distinct (map p_id rows)" and "q \<in> set rows"
  obtains q' where "fetch_by p_id (p_id q) (round_pipelines ts run p f rows) = Some q'"
    and "p_observation q' = (if p_id q = p_id p then f (p_observation q) else p_observation q)"
proof -
  from assms have "fetch_by p_id (p_id q) rows = Some q" by (simp add: fetch_by_unique)
  then show ?thesis
    by (intro that) (auto simp: round_pipelines_def table_simps)
qed

subsection \<open>A round\<close>

text \<open>
  C17. A recorded round settles the run observed last: of the published runs of the discussion
  that are being observed and were published before the window it is the one published last;
  it gets the reported status and result, the other observations stay as they were.  When
  the round is conclusive no cursor of the discussion goes on observing, otherwise the
  cursors are untouched; when the allowed rounds are used up it is always conclusive, and a
  recovery is only reported on enough student messages or at the last round.
\<close>

theorem observation_round_settles:
  assumes "record_observation_assessment mx now run b answer d = Inr (Inr out, d')"
    and "distinct (map p_id (pipelines d))"
  shows "\<exists>p. p \<in> set (pipelines d) \<and> p_id p = oo_observed_pipeline_run_id out
    \<and> observed_candidate d (batch_scope b) (Some (b_candidate_start_sequence b)) p
    \<and> (\<forall>q\<in>set (pipelines d). observed_candidate d (batch_scope b) (Some (b_candidate_start_sequence b)) q
         \<longrightarrow> observed_rank d p \<le> observed_rank d q)
    \<and> (\<exists>p'. fetch_pipeline d' (p_id p) = Some p' \<and> round_written (or0 run) b out (p_observation p'))
    \<and> (\<forall>q\<in>set (pipelines d). p_id q \<noteq> p_id p
         \<longrightarrow> (\<exists>q'. fetch_pipeline d' (p_id q) = Some q' \<and> p_observation q' = p_observation q))
    \<and> oo_status out = (if is_terminal_result (oo_result out) then ''completed'' else ''observing'')
    \<and> (oo_status out = ''completed'' \<longrightarrow> (\<forall>c\<in>set (cursors d'). \<not> observed_discussion p c))
    \<and> (oo_status out = ''observing'' \<longrightarrow> cursors d' = cursors d)
    \<and> (mx \<le> completed_observation_rounds d p \<longrightarrow> oo_status out = ''completed'')
    \<and> (oo_result out = ''recovered'' \<longrightarrow> mx \<le> completed_observation_rounds d p
         \<or> MIN_RECOVERY_STUDENT_MESSAGES \<le> student_response_count d p (Some (b_candidate_end_sequence b)))"
proof -
  from assms(1) obtain p active
    where find: "find_observed_pipeline d (batch_scope b) (Some (b_candidate_start_sequence b)) = Some p"
      and run: "observe_assessment mx (fmt_sec now) (or0 run) b answer p active d = (out, d')"
    by (rule record_observation_cases)
  note p = find_observed_Some [OF find]
  from run obtain f where rows: "pipelines d' = round_pipelines (fmt_sec now) (or0 run) p f (pipelines d)"
    and f: "\<forall>o'. round_written (or0 run) b out (f o')" and i: "oo_observed_pipeline_run_id out = p_id p"
    and n: "oo_observation_rounds out = completed_observation_rounds d p"
    and m: "oo_student_response_count out = student_response_count d p (Some (b_candidate_end_sequence b))"
    and r: "oo_result out = classify_observation_result mx (normalize_canonical_sub_state (p_canonical_sub_state_code p))
           (canonical_of (dget active ''canonical_sub_state'')) (jtruthy (dget answer ''should_intervene''))
           (oo_student_response_count out) (oo_observation_rounds out)"
    and st: "oo_status out = (if is_terminal_result (oo_result out) then ''completed'' else ''observing'')"
    and cs: "cursors d' = (if is_terminal_result (oo_result out)
           then update_where (observed_discussion p) (stop_cursor (fmt_sec now)) (cursors d) else cursors d)"
    by (rule observe_assessment_parts)
  have self: "\<exists>p'. fetch_pipeline d' (p_id p) = Some p' \<and> round_written (or0 run) b out (p_observation p')"
    by (rule fetch_round_pipelines [OF assms(2) p(1), of "fmt_sec now" "or0 run" p f])
      (auto simp: fetch_pipeline_def rows f)
  have others: "\<forall>q\<in>set (pipelines d). p_id q \<noteq> p_id p
         \<longrightarrow> (\<exists>q'. fetch_pipeline d' (p_id q) = Some q' \<and> p_observation q' = p_observation q)"
  proof (intro ballI impI)
    fix q :: pipeline_row
    assume "q \<in> set (pipelines d)" "p_id q \<noteq> p_id p"
    then show "\<exists>q'. fetch_pipeline d' (p_id q) = Some q' \<and> p_observation q' = p_observation q"
      by (rule_tac fetch_round_pipelines [OF assms(2), of q "fmt_sec now" "or0 run" p f])
        (auto simp: fetch_pipeline_def rows)
  qed
  have quiet: "oo_status out = ''completed'' \<longrightarrow> (\<forall>c\<in>set (cursors d'). \<not> observed_discussion p c)"
    using not_observed_after [of _ p "fmt_sec now" d] by (auto simp: st cs cursors_deactivate split: if_splits)
  have bound: "mx \<le> completed_observation_rounds d p \<longrightarrow> oo_status out = ''completed''"
    using classify_enough_rounds [of mx "oo_observation_rounds out"] by (auto simp: st r n)
  have rec: "oo_result out = ''recovered'' \<longrightarrow> mx \<le> completed_observation_rounds d p
         \<or> MIN_RECOVERY_STUDENT_MESSAGES \<le> student_response_count d p (Some (b_candidate_end_sequence b))"
  proof
    assume "oo_result out = ''recovered''"
    then show "mx \<le> completed_observation_rounds d p
         \<or> MIN_RECOVERY_STUDENT_MESSAGES \<le> student_response_count d p (Some (b_candidate_end_sequence b))"
      using classify_recovered r n m by metis
  qed
  have least: "\<forall>q\<in>set (pipelines d). observed_candidate d (batch_scope b) (Some (b_candidate_start_sequence b)) q
         \<longrightarrow> observed_rank d p \<le> observed_rank d q"
    using p(3) by blast
  have idle: "oo_status out = ''observing'' \<longrightarrow> cursors d' = cursors d"
    by (simp add: st cs)
  show ?thesis
    by (rule exI [of _ p], intro conjI) (fact p(1) i [symmetric] p(2) least self others st quiet idle bound rec)+
qed

subsection \<open>A room under observation\<close>

definition observed_room :: platform where
  "observed_room = sample\<lparr>
     messages := [blank_message\<lparr>m_id := 200, m_sequence := Some 6, m_role := Some ''agent''\<rparr>,
       blank_message\<lparr>m_id := 101, m_sequence := Some 7\<rparr>, blank_message\<lparr>m_id := 102, m_sequence := Some 8\<rparr>],
     pipelines := [blank_pipeline\<lparr>p_publish_status := Some ''PUBLISHED'', p_published_message_id := Some 200,
         p_canonical_sub_state_code := Some ''emotional_conflict'',
         p_observation := no_observation\<lparr>ob_status := Some ''observing''\<rparr>\<rparr>,
       blank_pipeline\<lparr>p_id := 12\<rparr>],
     cursors := [blank_cursor\<lparr>c_observation_status := ''observing''\<rparr>]\<rparr>"

definition observation_batch :: batch_row where
  "observation_batch = blank_batch\<lparr>b_trigger_type := ''post_intervention_observation'',
     b_candidate_start_sequence := 7, b_candidate_end_sequence := 8\<rparr>"

definition recovery_answer :: dict where
  "recovery_answer = [(''active_sub_state'', JObj [(''canonical_sub_state'', JStr ''deep_thinking'')])]"

definition recovered_round :: "string + ((string + observation_outcome) \<times> platform) \<Rightarrow> bool" where
  "recovered_round r = (case r of Inr (Inr out, d) \<Rightarrow> oo_result out = ''recovered'' | _ \<Rightarrow> False)"

lemma recovered_roundE:
  assumes "recovered_round r"
  obtains out d where "r = Inr (Inr out, d)" and "oo_result out = ''recovered''"
  using assms by (auto simp: recovered_round_def split: sum.splits prod.splits)

lemma observed_room_recovers:
  "recovered_round (record_observation_assessment 2 9000000 (Some 12) observation_batch recovery_answer observed_room)"
  by code_simp

lemma observed_room_keys: "distinct (map p_id (pipelines observed_room))"
  by (simp add: observed_room_def blank_defs)

lemma observation_round_settles_witness:
  "\<exists>out d' p. record_observation_assessment 2 9000000 (Some 12) observation_batch recovery_answer observed_room
       = Inr (Inr out, d')
     \<and> oo_result out = ''recovered'' \<and> p \<in> set (pipelines observed_room) \<and> p_id p = oo_observed_pipeline_run_id out
     \<and> (\<exists>p'. fetch_pipeline d' (p_id p) = Some p' \<and> round_written 12 observation_batch out (p_observation p'))"
proof -
  obtain out d' where r: "record_observation_assessment 2 9000000 (Some 12) observation_batch recovery_answer observed_room
      = Inr (Inr out, d')" and out: "oo_result out = ''recovered''"
    by (rule recovered_roundE [OF observed_room_recovers])
  from observation_round_settles [OF r observed_room_keys] r out show ?thesis
    by (metis or0_simps(2))
qed

end
