(* ===== verification/Session_Services.thy ===== *)
theory Session_Services
  imports Runtime_Machine Coordination_Lemmas Observation_Properties
begin

text \<open>
  The sections of \<open>close_session\<close> side by side: ending runs and closing observations leave
  the documents, the discussions and the sessions alone (\<open>desk\<close>), the submission of the
  documents leaves the runs and the cursors alone (\<open>stage\<close>).
\<close>

definition desk where
  "desk d = (sessions d, current_session_setting d, documents d, prepares d, checkpoints d, submissions d,
     discussion_tables d, controls d)"

definition stage where
  "stage d = (pipelines d, cursors d, groups d, messages d, interventions d, batches d, sessions d,
     current_session_setting d, controls d)"

definition around_runs where
  "around_runs d = (desk d, cursors d, batches d, messages d)"

subsection \<open>Ending the runs\<close>

lemma desk_change [simp]:
  "desk (change_pipelines P f d) = desk d" "desk (change_cursors C k d) = desk d"
  by (simp_all add: desk_def discussion_tables_def change_pipelines_def change_cursors_def)

lemma around_change [simp]:
  "around_runs (change_groups Q g d) = around_runs d" "around_runs (change_pipelines P f d) = around_runs d"
  "around_runs (change_interventions J h d) = around_runs d" "around_runs (log_event e d) = around_runs d"
  by (simp_all add: around_runs_def desk_def discussion_tables_def change_groups_def change_pipelines_def
      change_interventions_def log_event_def)

lemma around_release [simp]: "around_runs (snd (release_pipeline_lock ts row d)) = around_runs d"
  by (auto simp: release_pipeline_lock_def Let_def)

lemma around_sync [simp]: "around_runs (snd (sync_latest_state_from_replacement now i j d)) = around_runs d"
  by (auto simp: sync_latest_state_from_replacement_def Let_def split: option.splits)

lemma around_link [simp]: "around_runs (snd (link_pipeline_replacement now i j r t c d)) = around_runs d"
  by (auto simp: link_pipeline_replacement_def Let_def split: option.splits)

lemma around_mark [simp]: "around_runs (snd (mark_pipeline_terminal mk now row d)) = around_runs d"
  using around_release [of "fmt_sec now" row d]
  by (auto simp: mark_pipeline_terminal_def Let_def simp del: around_release split: prod.splits option.splits)

lemma around_mark_each [simp]: "around_runs (snd (mark_each mk now rows d)) = around_runs d"
  by (induction rows arbitrary: d) (simp_all add: mark_each_snd del: mark_each.simps(2))

lemma cancel_frame [simp]:
  "desk (snd (cancel_active_runs_for_session_end now sid reason d)) = desk d"
  "cursors (snd (cancel_active_runs_for_session_end now sid reason d)) = cursors d"
proof -
  have "around_runs (snd (cancel_active_runs_for_session_end now sid reason d)) = around_runs d"
    by (simp add: cancel_active_runs_for_session_end_def)
  then show "desk (snd (cancel_active_runs_for_session_end now sid reason d)) = desk d"
    "cursors (snd (cancel_active_runs_for_session_end now sid reason d)) = cursors d"
    by (simp_all add: around_runs_def)
qed

lemma desk_finalize [simp]: "desk (snd (mark_session_observations_finalization_only render now sid reason d)) = desk d"
  by (simp add: mark_session_observations_finalization_only_def Let_def)

subsection \<open>Submitting the documents\<close>

lemma stage_change [simp]:
  "stage (change_discussions P f d) = stage d" "stage (change_documents Q g d) = stage d"
  "stage (written_body did body d) = stage d" "stage (close_runtimes ts ctx gs d) = stage d"
  "stage (submission_rows env ts did ord gid task number creator c y revision d) = stage d"
  by (simp_all add: stage_def change_discussions_def change_documents_def written_body_def close_runtimes_def
      submission_rows_def)

lemma stage_mark [simp]: "stage (mark_group_discussion did status ts d) = stage d"
  by (simp add: mark_group_discussion_def)

lemma stage_claim: "claim_submission env ts did ctx ord doc revision d = Inr (r, d') \<Longrightarrow> stage d' = stage d"
  by (auto simp: claim_submission_def Let_def split: option.splits if_splits)

lemma stage_forced [simp]: "stage (snd (perform_forced_submission env now did ctx ord d)) = stage d"
  by (auto simp: perform_forced_submission_def Let_def split: option.splits prod.splits sum.splits dest!: stage_claim)

lemma stage_submit_all [simp]: "stage (snd (submit_all env now ctx ord is y d)) = stage d"
proof (induction env now ctx ord "is" y d rule: submit_all.induct)
  case (2 env now ctx ord i gid "is" y gs d)
  show ?case
    using stage_forced [of env now i ctx ord d] 2 by (auto simp del: stage_forced split: prod.splits)
qed simp

lemma stage_submit_session [simp]: "stage (snd (submit_session_documents env now sid operator d)) = stage d"
  by (auto simp: submit_session_documents_def Let_def case_prod_beta split: option.splits)

subsection \<open>The sections of the end of a session\<close>

lemma close_session_cases:
  assumes "close_session env render now sid reason operator d = (Inr row, d')"
    and "fetch_session d sid = Some es" and "es_status es \<notin> {Some ''ended'', Some ''archived''}"
  obtains y d1 ids d3 n why where "submit_session_documents env now sid operator d = (Some y, d1)" and "ty_errors y = 0"
    and "cancel_active_runs_for_session_end now sid ''CANCELLED_SESSION_ENDED'' (end_session_row (fmt_sec now) sid d1) = (ids, d3)"
    and "mark_session_observations_finalization_only render now sid why d3 = (n, d')"
    and "row = the (fetch_session d' sid)"
  using assms
  by (auto simp: close_session_def Let_def split: option.splits prod.splits if_splits)

lemma close_session_refused:
  assumes "close_session env render now sid reason operator d = (Inl why, d')"
  shows "stage d' = stage d"
  using assms stage_submit_session [of env now sid operator d]
  by (auto simp: close_session_def Let_def simp del: stage_submit_session split: option.splits prod.splits if_splits)

lemma tables_end_row [simp]: "discussion_tables (end_session_row ts sid d) = discussion_tables d"
  by (simp add: end_session_row_def Let_def discussion_tables_def)

lemma tables_of_desk: "desk d' = desk d \<Longrightarrow> discussion_tables d' = discussion_tables d"
  by (simp add: desk_def)

lemma step_close_session: "discussions_step d (snd (close_session env render now sid reason operator d))"
proof (cases "fetch_session d sid")
  case (Some es)
  show ?thesis
  proof (cases "es_status es \<in> {Some ''ended'', Some ''archived''}")
    case False
    obtain t d1 where s: "submit_session_documents env now sid operator d = (t, d1)" by force
    have one: "discussions_step d d1" using step_submit_session [of d env now sid operator] by (simp add: s)
    define d3 where "d3 = snd (cancel_active_runs_for_session_end now sid ''CANCELLED_SESSION_ENDED''
       (end_session_row (fmt_sec now) sid d1))"
    have "discussion_tables (snd (mark_session_observations_finalization_only render now sid why d3)) = discussion_tables d1" for why
      unfolding d3_def using tables_of_desk desk_finalize cancel_frame(1) tables_end_row by metis
    then have "discussions_step d (snd (mark_session_observations_finalization_only render now sid why d3))" for why
      using one discussions_step_same discussions_step_trans by blast
    with one False Some show ?thesis
      by (auto simp: close_session_def Let_def s d3_def case_prod_beta split: option.splits)
  qed (simp add: close_session_def Some)
qed (simp add: close_session_def)

end
