(* ===== verification/Submission_Properties.thy ===== *)
theory Submission_Properties
  imports Auto_Submit Samples
begin

text \<open>
  A forced submission writes the document, its prepare, its checkpoint and its submission
  together or writes none of them, and never twice.
\<close>

subsection \<open>The cases of a submission\<close>

lemma forced_cases:
  assumes "perform_forced_submission env now did ctx ord d = (r, d')"
  obtains (missing) "r = Not_Submitted ''not_found''" and "fetch_document d did = None" and "d' = d"
  | (refused) doc why where "fetch_document d did = Some doc" and "r = Not_Submitted why" and "d' = d"
      and "why = ''already_submitted'' \<longleftrightarrow> doc_status doc = ''submitted''"
  | (failed) doc why body revision where "fetch_document d did = Some doc" and "r = Not_Submitted why"
      and "d' = written_body did body d" and "doc_status doc \<in> set (ord_allowed ord)" and "doc_status doc \<noteq> ''submitted''"
      and "claim_submission env (fmt_sec now) did ctx ord (doc\<lparr>doc_body := body\<rparr>) revision (written_body did body d) = Inl why"
  | (submitted) doc body revision final sid flushed d2 where "fetch_document d did = Some doc"
      and "doc_status doc \<in> set (ord_allowed ord)" and "doc_status doc \<noteq> ''submitted''"
      and "claim_submission env (fmt_sec now) did ctx ord (doc\<lparr>doc_body := body\<rparr>) revision (written_body did body d)
         = Inr ((final, sid), d2)"
      and "r = Submitted final sid (sb_freeze env did) flushed"
      and "d' = (if ord_source ord = ''auto_timeout''
           then mark_group_discussion (sc_group_discussion_id ctx) ''submitted'' (fmt_sec now) d2 else d2)"
proof (cases "fetch_document d did")
  case None
  with assms show ?thesis by (intro missing) (simp_all add: perform_forced_submission_def)
next
  case (Some doc)
  consider "doc_status doc = ''submitted''" | "doc_status doc \<noteq> ''submitted''" "doc_status doc \<notin> set (ord_allowed ord)"
    | "doc_status doc \<noteq> ''submitted''" "doc_status doc \<in> set (ord_allowed ord)"
      "or0 (doc_session_id doc) \<noteq> 0 \<and> sc_session_id ctx \<noteq> 0 \<and> doc_session_id doc \<noteq> Some (sc_session_id ctx)"
    | "doc_status doc \<noteq> ''submitted''" "doc_status doc \<in> set (ord_allowed ord)"
      "\<not> (or0 (doc_session_id doc) \<noteq> 0 \<and> sc_session_id ctx \<noteq> 0 \<and> doc_session_id doc \<noteq> Some (sc_session_id ctx))"
    by blast
  then show ?thesis
  proof cases
    case 4
    obtain flushed reported body where fl: "flush_document env did (doc_body doc) = ((flushed, reported), body)"
      by (metis surj_pair)
    let ?rev = "or_id (db_state_revision body) (or_id (or0 reported) (db_state_revision (doc_body doc)))"
    show ?thesis
    proof (cases "claim_submission env (fmt_sec now) did ctx ord (doc\<lparr>doc_body := body\<rparr>) ?rev (written_body did body d)")
      case (Inl why)
      with assms Some 4 fl show ?thesis
        by (intro failed [OF Some, of why body ?rev]) (auto simp: perform_forced_submission_def Let_def)
    next
      case (Inr q)
      obtain final sid d2 where q: "q = ((final, sid), d2)" by (metis surj_pair)
      with assms Some 4 fl Inr show ?thesis
        by (intro submitted [OF Some 4(2,1), of body ?rev final sid d2 flushed])
          (auto simp: perform_forced_submission_def Let_def)
    qed
  qed (use assms Some in \<open>auto intro!: refused simp: perform_forced_submission_def\<close>)
qed

lemma claim_succeeds:
  assumes "claim_submission env ts did ctx ord doc revision d = Inr ((final, sid), d')"
  obtains current task number creator where "fetch_document d did = Some current"
    and "doc_status current \<in> set (ord_allowed ord)"
    and "d' = submission_rows env ts did ord (doc_group_id doc) task number creator
           (stored_content (db_content (doc_body doc))) (db_y_state (doc_body current)) final
           (change_documents (\<lambda>x. doc_id x = did)
             (submitted_document ts (sc_session_id ctx) (stored_content (db_content (doc_body doc)))) d)"
    and "sid = next_submission_id d"
  using assms by (auto simp: claim_submission_def Let_def split: option.splits if_splits)

lemma claim_fails: "claim_submission env ts did ctx ord doc revision d = Inl ''already_submitted''
    \<Longrightarrow> \<exists>x. fetch_document d did = Some x \<and> doc_status x = ''submitted''"
  by (auto simp: claim_submission_def Let_def split: option.splits if_splits)

subsection \<open>Documents\<close>

lemma doc_id_submitted [simp]: "doc_id (submitted_document ts sid c x) = doc_id x"
  "doc_status (submitted_document ts sid c x) = ''submitted''" "doc_submitted_at (submitted_document ts sid c x) \<noteq> None"
  by (simp_all add: submitted_document_def)

lemma documents_written [simp]: "documents (written_body did body d) = update_where (\<lambda>x. doc_id x = did) (\<lambda>x. x\<lparr>doc_body := body\<rparr>) (documents d)"
  by (simp add: written_body_def change_documents_def)

lemma documents_change [simp]: "documents (change_documents P f d) = update_where P f (documents d)"
  by (simp add: change_documents_def)

lemma documents_mark [simp]: "documents (mark_group_discussion did status ts d) = documents d"
  "prepares (mark_group_discussion did status ts d) = prepares d"
  "checkpoints (mark_group_discussion did status ts d) = checkpoints d"
  "submissions (mark_group_discussion did status ts d) = submissions d"
  by (simp_all add: mark_group_discussion_def change_discussions_def)

lemma written_parts [simp]: "prepares (written_body did body d) = prepares d" "checkpoints (written_body did body d) = checkpoints d"
  "submissions (written_body did body d) = submissions d" "next_submission_id (written_body did body d) = next_submission_id d"
  "discussions (written_body did body d) = discussions d"
  by (simp_all add: written_body_def change_documents_def)

lemma change_documents_parts [simp]: "prepares (change_documents P f d) = prepares d" "checkpoints (change_documents P f d) = checkpoints d"
  "submissions (change_documents P f d) = submissions d"
  "next_submission_id (change_documents P f d) = next_submission_id d"
  by (simp_all add: change_documents_def)

lemma fetch_document_update:
  "(\<And>x. doc_id (f x) = doc_id x) \<Longrightarrow> documents d' = update_where P f (documents d)
   \<Longrightarrow> fetch_document d' k = map_option (\<lambda>x. if P x then f x else x) (fetch_document d k)"
  by (simp add: fetch_document_def fetch_by_update_where)

lemma claim_documents: "claim_submission env ts did ctx ord doc revision d = Inr (q, d')
    \<Longrightarrow> documents d' = update_where (\<lambda>x. doc_id x = did)
      (submitted_document ts (sc_session_id ctx) (stored_content (db_content (doc_body doc)))) (documents d)"
  by (auto simp: claim_submission_def Let_def submission_rows_def split: option.splits if_splits)

subsection \<open>All or nothing\<close>

definition filed :: "int \<Rightarrow> int \<Rightarrow> document_row \<Rightarrow> platform \<Rightarrow> platform \<Rightarrow> bool" where
  "filed revision sid y d d' \<longleftrightarrow> (\<exists>pr cp su. prepares d' = prepares d @ [pr] \<and> checkpoints d' = checkpoints d @ [cp]
     \<and> submissions d' = submissions d @ [su]
     \<and> sp_document_id pr = doc_id y \<and> sp_state_revision pr = revision \<and> sp_committed pr = 1
     \<and> cp_document_id cp = doc_id y \<and> cp_state_revision cp = revision
     \<and> cp_content cp = db_content (doc_body y) \<and> cp_y_state cp = db_y_state (doc_body y)
     \<and> su_id su = sid \<and> su_group_id su = doc_group_id y \<and> su_content su = ct_text (db_content (doc_body y)))"

text \<open>
  C20. A forced submission is all or nothing and happens once.  When it reports success, a
  document that was not submitted and had an allowed status is submitted now, and exactly one
  prepare, one checkpoint and one submission were added, all of the reported revision and of
  the content the document shows; any later attempt on it is refused as already submitted
  and changes nothing.  When it reports a failure nothing was filed, no discussion moved and no
  document changed its status.
\<close>

theorem submission_is_all_or_nothing:
  assumes run: "perform_forced_submission env now did ctx ord d = (r, d')"
  shows "case r of
      Submitted revision sid frozen flushed \<Rightarrow>
        (\<exists>x y. fetch_document d did = Some x \<and> doc_status x \<in> set (ord_allowed ord) \<and> doc_status x \<noteq> ''submitted''
           \<and> fetch_document d' did = Some y \<and> doc_status y = ''submitted'' \<and> doc_submitted_at y \<noteq> None
           \<and> doc_id y = did \<and> filed revision sid y d d')
        \<and> (\<forall>env' now' ctx' ord'. perform_forced_submission env' now' did ctx' ord' d'
              = (Not_Submitted ''already_submitted'', d'))
    | Not_Submitted why \<Rightarrow> prepares d' = prepares d \<and> checkpoints d' = checkpoints d \<and> submissions d' = submissions d
        \<and> discussions d' = discussions d \<and> map doc_status (documents d') = map doc_status (documents d)"
  using run
proof (cases rule: forced_cases)
  case (submitted doc body revision final sid flushed d2)
  let ?d1 = "written_body did body d" and ?c = "stored_content (db_content body)"
  from submitted(4) obtain current task number creator
    where cur: "fetch_document ?d1 did = Some current"
      and d2: "d2 = submission_rows env (fmt_sec now) did ord (doc_group_id doc) task number creator ?c
          (db_y_state (doc_body current)) final
          (change_documents (\<lambda>x. doc_id x = did) (submitted_document (fmt_sec now) (sc_session_id ctx) ?c) ?d1)"
      and sid: "sid = next_submission_id ?d1"
    by (rule claim_succeeds) simp
  have id: "doc_id doc = did" using submitted(1) by (auto simp: fetch_document_def dest: fetch_by_SomeD)
  have "fetch_document ?d1 did = Some (doc\<lparr>doc_body := body\<rparr>)"
    using submitted(1) id by (simp add: fetch_document_def fetch_by_update_where)
  with cur have c: "current = doc\<lparr>doc_body := body\<rparr>" by simp
  let ?y = "submitted_document (fmt_sec now) (sc_session_id ctx) ?c current"
  have docs: "documents d' = update_where (\<lambda>x. doc_id x = did) (submitted_document (fmt_sec now) (sc_session_id ctx) ?c) (documents ?d1)"
    by (simp add: submitted(6) d2 submission_rows_def)
  have y: "fetch_document d' did = Some ?y"
    using fetch_document_update [OF _ docs, of did] cur id c by simp
  have "filed final sid ?y d d'"
    by (simp add: filed_def submitted(6) d2 submission_rows_def sid c id submitted_document_def)
  moreover have "perform_forced_submission env' now' did ctx' ord' d' = (Not_Submitted ''already_submitted'', d')"
    for env' now' ctx' ord'
    by (simp add: perform_forced_submission_def y)
  ultimately show ?thesis
    using submitted(1-3) y by (simp add: submitted(5) c id del: not_None_eq)
next
  case (failed doc why body revision)
  then show ?thesis by (simp add: update_where_def comp_def if_distrib cong: if_cong)
qed auto

subsection \<open>A room with a document\<close>

definition blank_document :: document_row where
  "blank_document = \<lparr>doc_id = 40, doc_session_id = Some 1, doc_group_id = 7, doc_task_id = 2, doc_session_no = 1,
     doc_body = \<lparr>db_content = \<lparr>ct_json = None, ct_html = None, ct_text = Some ''draft''\<rparr>, db_y_state = Some ''y'',
       db_state_revision = 4\<rparr>,
     doc_status = ''editing'', doc_created_by = 50, doc_updated_at = Stamp 0 None, doc_submitted_at = None\<rparr>"

text \<open>A server that freezes and flushes every document at once and keeps its body.\<close>

definition calm_server :: submit_env where
  "calm_server = \<lparr>sb_freeze = (\<lambda>_. True), sb_flush = (\<lambda>_ _ body. (Some (True, Some 5), body)), sb_fresh_id = (\<lambda>_. ''f'')\<rparr>"

definition writing_room :: platform where
  "writing_room = sample\<lparr>users := [\<lparr>u_id = 50, u_role = Some ''student'', u_username = []\<rparr>, \<lparr>u_id = 9, u_role = Some ''teacher'', u_username = []\<rparr>],
     documents := [blank_document]\<rparr>"

definition teacher_context :: submit_context where
  "teacher_context = \<lparr>sc_session_id = 1, sc_task_id = Some 2, sc_session_no = Some 1, sc_group_discussion_id = 0\<rparr>"

lemma writing_room_submits:
  "fst (perform_forced_submission calm_server 9000000 40 teacher_context (teacher_order 9) writing_room)
     = Submitted 4 1 True True"
  by code_simp

lemma submission_is_all_or_nothing_witness:
  "\<exists>d' y. perform_forced_submission calm_server 9000000 40 teacher_context (teacher_order 9) writing_room
       = (Submitted 4 1 True True, d') \<and> fetch_document d' 40 = Some y \<and> doc_status y = ''submitted''
     \<and> filed 4 1 y writing_room d'"
proof -
  obtain d' where d': "perform_forced_submission calm_server 9000000 40 teacher_context (teacher_order 9) writing_room
       = (Submitted 4 1 True True, d')"
    using writing_room_submits by (metis prod.collapse)
  from submission_is_all_or_nothing [OF this] d' show ?thesis by auto
qed

subsection \<open>All documents of a session\<close>

text \<open>Every document that is not submitted afterwards stands as it stood.\<close>

definition stands where
  "stands x = (doc_id x, doc_session_id x, doc_group_id x, doc_task_id x, doc_session_no x, doc_status x)"

definition only_submitted :: "platform \<Rightarrow> platform \<Rightarrow> bool" where
  "only_submitted d d' \<longleftrightarrow> map doc_id (documents d') = map doc_id (documents d)
     \<and> (\<forall>y\<in>set (documents d'). doc_status y = ''submitted'' \<or> (\<exists>x\<in>set (documents d). stands x = stands y))"

lemma only_submitted_refl [simp]: "only_submitted d d"
  by (auto simp: only_submitted_def)

lemma only_submitted_trans [trans]: "only_submitted d d1 \<Longrightarrow> only_submitted d1 d2 \<Longrightarrow> only_submitted d d2"
  unfolding only_submitted_def stands_def prod.inject by metis

lemma only_submitted_written: "only_submitted d (written_body did body d)"
  by (auto simp: only_submitted_def stands_def set_update_where map_key_update_where)

lemma only_submitted_update:
  assumes "documents d' = update_where P (submitted_document ts sid c) (documents d)"
  shows "only_submitted d d'"
  using assms by (auto simp: only_submitted_def set_update_where map_key_update_where)

lemma forced_only_submitted:
  assumes "perform_forced_submission env now did ctx ord d = (r, d')"
  shows "only_submitted d d'"
  using assms
proof (cases rule: forced_cases)
  case (submitted doc body revision final sid flushed d2)
  from claim_documents [OF submitted(4)]
  have "documents d' = update_where (\<lambda>x. doc_id x = did)
      (submitted_document (fmt_sec now) (sc_session_id ctx) (stored_content (db_content body))) (documents (written_body did body d))"
    by (simp add: submitted(6))
  then have "only_submitted (written_body did body d) d'" by (rule only_submitted_update)
  with only_submitted_written show ?thesis by (rule only_submitted_trans)
qed (simp_all add: only_submitted_written)

lemma update_submits:
  assumes "documents d' = update_where (\<lambda>x. doc_id x = did) (submitted_document ts sid c) (documents d)"
    and "x \<in> set (documents d')" and "doc_id x = did"
  shows "doc_status x = ''submitted''"
proof -
  from assms(2) have "x \<in> (\<lambda>r. if doc_id r = did then submitted_document ts sid c r else r) ` set (documents d)"
    unfolding assms(1) set_update_where .
  then obtain r where "x = (if doc_id r = did then submitted_document ts sid c r else r)" by blast
  with assms(3) show ?thesis by (cases "doc_id r = did") simp_all
qed

lemma forced_submits:
  assumes run: "perform_forced_submission env now did ctx ord d = (r, d')" and ids: "distinct (map doc_id (documents d))"
    and r: "\<And>why. r = Not_Submitted why \<Longrightarrow> why = ''already_submitted''"
    and x: "x \<in> set (documents d')" "doc_id x = did"
  shows "doc_status x = ''submitted''"
proof -
  have ids': "distinct (map doc_id (documents d'))"
    using forced_only_submitted [OF run] ids by (simp add: only_submitted_def)
  then have fetch: "fetch_document d' did = Some x" using x by (auto simp: fetch_document_def dest: fetch_by_unique)
  from run show ?thesis
  proof (cases rule: forced_cases)
    case missing
    with r show ?thesis by simp
  next
    case (refused doc why)
    with r fetch show ?thesis by simp
  next
    case (failed doc why body revision)
    with r have "why = ''already_submitted''" by blast
    with failed(6) obtain z where "fetch_document (written_body did body d) did = Some z" "doc_status z = ''submitted''"
      using claim_fails by blast
    with fetch failed(3) show ?thesis by simp
  next
    case (submitted doc body revision final sid flushed d2)
    from claim_documents [OF submitted(4)]
    have "documents d' = update_where (\<lambda>x. doc_id x = did)
      (submitted_document (fmt_sec now) (sc_session_id ctx) (stored_content (db_content body))) (documents (written_body did body d))"
      by (simp add: submitted(6))
    then show ?thesis using x by (rule update_submits)
  qed
qed

definition went_well :: "submit_result \<Rightarrow> bool" where
  "went_well r \<longleftrightarrow> (\<forall>why. r = Not_Submitted why \<longrightarrow> why = ''already_submitted'')"

lemma counted_errors: "ty_errors (counted r y) = (if went_well r then ty_errors y else Suc (ty_errors y))"
  by (cases r) (simp_all add: counted_def went_well_def Let_def)

lemma submit_all_Cons:
  "submit_all env now ctx ord ((i, gid) # is) (y, gs) d
     = submit_all env now ctx ord is (counted (fst (perform_forced_submission env now i ctx ord d)) y,
         if went_well (fst (perform_forced_submission env now i ctx ord d)) then gid # gs else gs)
         (snd (perform_forced_submission env now i ctx ord d))"
  by (cases "fst (perform_forced_submission env now i ctx ord d)")
    (auto simp: went_well_def split: prod.splits)

definition settled_documents :: "(int \<times> int) list \<Rightarrow> platform \<Rightarrow> bool" where
  "settled_documents is d \<longleftrightarrow> (\<forall>x\<in>set (documents d). doc_id x \<in> fst ` set is \<longrightarrow> doc_status x = ''submitted'')"

lemma settled_stays: "only_submitted d d' \<Longrightarrow> settled_documents is d \<Longrightarrow> settled_documents is d'"
  unfolding only_submitted_def settled_documents_def stands_def prod.inject by metis

lemma submit_all_settles:
  assumes "distinct (map doc_id (documents d))"
  shows "only_submitted d (snd (submit_all env now ctx ord is (y, gs) d))
    \<and> ty_errors y \<le> ty_errors (fst (fst (submit_all env now ctx ord is (y, gs) d)))
    \<and> (ty_errors (fst (fst (submit_all env now ctx ord is (y, gs) d))) = ty_errors y
         \<longrightarrow> settled_documents is (snd (submit_all env now ctx ord is (y, gs) d)))"
  using assms
proof (induction "is" arbitrary: y gs d)
  case Nil
  then show ?case by (simp add: settled_documents_def)
next
  case (Cons i "is")
  obtain j gid where i: "i = (j, gid)" by (cases i)
  obtain r d1 where run: "perform_forced_submission env now j ctx ord d = (r, d1)" by force
  note one = forced_only_submitted [OF run]
  then have ids: "distinct (map doc_id (documents d1))" using Cons.prems by (simp add: only_submitted_def)
  let ?y = "counted r y" and ?gs = "if went_well r then gid # gs else gs"
  note IH = Cons.IH [OF ids, of ?y ?gs]
  have eq: "submit_all env now ctx ord (i # is) (y, gs) d = submit_all env now ctx ord is (?y, ?gs) d1"
    unfolding i submit_all_Cons run by simp
  have here: "settled_documents [(j, gid)] d1" if "went_well r"
    using forced_submits [OF run Cons.prems] that by (auto simp: settled_documents_def went_well_def)
  have "settled_documents (i # is) d'" if "settled_documents [(j, gid)] d'" "settled_documents is d'" for d'
    using that by (auto simp: settled_documents_def i)
  with IH here settled_stays only_submitted_trans [OF one] show ?case
    unfolding eq by (auto simp: counted_errors split: if_splits)
qed

end
