(* ===== verification/Session_Properties.thy ===== *)
theory Session_Properties
  imports Session_Services Submission_Properties Coordination_Properties
begin

text \<open>
  The end of a session and the gate of the agents, and the discussions of a session along
  any sequence of requests.
\<close>

subsection \<open>What the end of a session leaves behind\<close>

lemma submit_session_cases:
  assumes "submit_session_documents env now sid operator d = (Some y, d1)" and "fetch_session d sid = Some es"
  obtains ctx gs ds d0 where "sc_session_id ctx = sid"
    and "submit_all env now ctx (teacher_order operator) ds (no_tally, []) d = ((y, gs), d0)"
    and "d1 = close_runtimes (fmt_sec now) ctx gs d0"
    and "\<And>x. x \<in> set (documents d) \<Longrightarrow> doc_status x \<in> {''editing'', ''returned'', ''locked''}
       \<Longrightarrow> document_of_session sid (es_task_id es) (es_session_no es) x \<Longrightarrow> doc_id x \<in> fst ` set ds"
proof -
  let ?ctx = "\<lparr>sc_session_id = sid, sc_task_id = es_task_id es, sc_session_no = es_session_no es, sc_group_discussion_id = 0\<rparr>"
  let ?ds = "map (\<lambda>x. (doc_id x, doc_group_id x)) (sort_key (\<lambda>x. (doc_group_id x, doc_id x))
       (filter (\<lambda>x. doc_status x \<in> set (ord_allowed (teacher_order operator))
          \<and> document_of_session sid (es_task_id es) (es_session_no es) x) (documents d)))"
  obtain u d0 where u: "submit_all env now ?ctx (teacher_order operator) ?ds (no_tally, []) d = (u, d0)"
    by (rule prod.exhaust)
  obtain z gs where "u = (z, gs)" by (rule prod.exhaust)
  with u have run: "submit_all env now ?ctx (teacher_order operator) ?ds (no_tally, []) d = ((z, gs), d0)" by simp
  have "submit_session_documents env now sid operator d = (Some z, close_runtimes (fmt_sec now) ?ctx gs d0)"
    by (simp only: submit_session_documents_def assms(2) option.case Let_def run prod.case)
  with assms(1) have "z = y" "d1 = close_runtimes (fmt_sec now) ?ctx gs d0" by simp_all
  with run show ?thesis
    by (intro that [of ?ctx ?ds gs d0]) (auto simp: teacher_order_def image_iff)
qed

lemma close_runtimes_closed:
  assumes "x \<in> set (discussions (close_runtimes ts ctx gs d))" and "d_session_id x = sc_session_id ctx"
    and "\<forall>r\<in>set (discussions d). runtime_ok r"
  shows "d_status x \<in> {''submitted'', ''closed''}"
proof -
  let ?f = "\<lambda>r. if d_session_id r \<noteq> sc_session_id ctx then r
     else if closes_as_submitted ctx gs d r then runtime_submitted ts r
     else if d_status r \<in> {''waiting'', ''running'', ''timed_out''} then runtime_put ''closed'' ts r else r"
  have "discussions (close_runtimes ts ctx gs d) = map ?f (discussions d)" by (simp add: close_runtimes_def)
  with assms(1) have "x \<in> ?f ` set (discussions d)" by (simp only: set_map)
  then obtain r where r: "r \<in> set (discussions d)" "x = ?f r" by (rule imageE)
  with assms(3) have "d_status r \<in> {''waiting'', ''running'', ''timed_out'', ''closed'', ''submitted''}"
    by (simp add: runtime_ok_def)
  with r(2) assms(2) show ?thesis
    by (cases "d_session_id r = sc_session_id ctx"; cases "closes_as_submitted ctx gs d r")
      (simp_all add: runtime_submitted_def runtime_put_def split: if_splits, auto)
qed

lemma close_runtimes_documents [simp]: "documents (close_runtimes ts ctx gs d) = documents d"
  by (simp add: close_runtimes_def)

lemma submitted_session:
  assumes run: "submit_session_documents env now sid operator d = (Some y, d1)" and es: "fetch_session d sid = Some es"
    and ok: "ty_errors y = 0" and ids: "distinct (map doc_id (documents d))" and inv: "discussions_inv d"
  shows "\<forall>x\<in>set (documents d1). document_of_session sid (es_task_id es) (es_session_no es) x
       \<longrightarrow> doc_status x \<notin> {''editing'', ''returned'', ''locked''}"
    and "\<forall>x\<in>set (discussions d1). d_session_id x = sid \<longrightarrow> d_status x \<in> {''submitted'', ''closed''}"
proof -
  obtain ctx gs ds d0 where c: "sc_session_id ctx = sid"
      "submit_all env now ctx (teacher_order operator) ds (no_tally, []) d = ((y, gs), d0)"
      "d1 = close_runtimes (fmt_sec now) ctx gs d0"
    and listed: "\<And>x. x \<in> set (documents d) \<Longrightarrow> doc_status x \<in> {''editing'', ''returned'', ''locked''}
       \<Longrightarrow> document_of_session sid (es_task_id es) (es_session_no es) x \<Longrightarrow> doc_id x \<in> fst ` set ds"
    using run es by (rule submit_session_cases) blast
  from submit_all_settles [OF ids, of env now ctx "teacher_order operator" ds no_tally "[]", unfolded c(2)] ok
  have all: "only_submitted d d0" "settled_documents ds d0" by (simp_all add: no_tally_def)
  show "\<forall>x\<in>set (documents d1). document_of_session sid (es_task_id es) (es_session_no es) x
       \<longrightarrow> doc_status x \<notin> {''editing'', ''returned'', ''locked''}"
  proof (intro ballI impI notI)
    fix x :: document_row
    assume x: "x \<in> set (documents d1)" "document_of_session sid (es_task_id es) (es_session_no es) x"
      "doc_status x \<in> {''editing'', ''returned'', ''locked''}"
    then obtain x0 where x0: "x0 \<in> set (documents d)" "stands x0 = stands x"
      using all(1) by (auto simp: c(3) only_submitted_def)
    then have "doc_id x0 \<in> fst ` set ds" using x listed [of x0]
      by (simp add: stands_def document_of_session_def)
    with all(2) x x0(2) have "doc_status x = ''submitted''"
      by (simp add: settled_documents_def c(3) stands_def)
    with x(3) show False by simp
  qed
  have "discussions_inv d0"
    using step_submit_all [of d env now ctx "teacher_order operator" ds "(no_tally, [])"] inv
    by (simp add: c discussions_step_def)
  then show "\<forall>x\<in>set (discussions d1). d_session_id x = sid \<longrightarrow> d_status x \<in> {''submitted'', ''closed''}"
    using close_runtimes_closed [of _ "fmt_sec now" ctx gs d0] by (simp add: c discussions_inv_def)
qed

lemma finalized_parts:
  "pipelines (snd (mark_session_observations_finalization_only render now sid why d))
     = update_where (\<lambda>p. p_session_id p = Some sid \<and> observing p)
         (observe_row (finalized_observation render (fmt_sec now) why) (fmt_sec now)) (pipelines d)"
  "cursors (snd (mark_session_observations_finalization_only render now sid why d))
     = update_where (\<lambda>c. c_session_id c = sid \<and> c_observation_status c = ''observing'') (stop_cursor (fmt_sec now)) (cursors d)"
  by (simp_all add: mark_session_observations_finalization_only_def Let_def change_cursors_def change_pipelines_def)

lemma finalized_none:
  assumes "p \<in> set (pipelines (snd (mark_session_observations_finalization_only render now sid why d)))"
    and "p_session_id p = Some sid" and "\<forall>q\<in>set (pipelines d). p_session_id q = Some sid \<longrightarrow> \<not> active_unpublished q"
  shows "\<not> observing p \<and> \<not> active_unpublished p"
proof -
  let ?f = "observe_row (finalized_observation render (fmt_sec now) why) (fmt_sec now)"
  from assms(1) obtain q where q: "q \<in> set (pipelines d)" "p = (if p_session_id q = Some sid \<and> observing q then ?f q else q)"
    unfolding finalized_parts set_update_where by blast
  then have s: "p_session_id q = Some sid" using assms(2) by (simp split: if_splits)
  show ?thesis
    using q s assms(3) by (cases "observing q") (simp_all add: observing_def finalized_observation_def active_unpublished_def)
qed

lemma finalized_cursors:
  assumes "c \<in> set (cursors (snd (mark_session_observations_finalization_only render now sid why d)))"
    and "c_session_id c = sid"
  shows "c_observation_status c \<noteq> ''observing''"
proof -
  from assms(1) obtain k where "c = (if c_session_id k = sid \<and> c_observation_status k = ''observing''
      then stop_cursor (fmt_sec now) k else k)"
    unfolding finalized_parts set_update_where by blast
  with assms(2) show ?thesis by (auto simp: stop_cursor_def split: if_splits)
qed

lemma fetch_session_of: "sessions d = update_where (\<lambda>s. es_id s = sid) (ended_session ts) (sessions d0)
    \<Longrightarrow> fetch_session d0 sid = Some es \<Longrightarrow> fetch_session d sid = Some (ended_session ts es)"
  by (auto simp: fetch_session_def fetch_by_update_where ended_session_def dest: fetch_by_SomeD)

lemma sessions_end_row: "sessions (end_session_row ts sid d) = update_where (\<lambda>s. es_id s = sid) (ended_session ts) (sessions d)"
  "pipelines (end_session_row ts sid d) = pipelines d" "cursors (end_session_row ts sid d) = cursors d"
  "groups (end_session_row ts sid d) = groups d" "documents (end_session_row ts sid d) = documents d"
  by (simp_all add: end_session_row_def Let_def)

lemma gate_of_ended:
  assumes "fetch_session d sid = Some es" and "es_status es = Some ''ended''" and "gs_session_id q = sid" and "sid \<noteq> 0"
  shows "check_agent_allowed now gid q agent d = Inr (False, ''session_not_active'')"
proof -
  have "gs_session_id (resolved_scope q d) = sid"
    using assms(3,4) by (simp add: resolved_scope_def or_id_def split: option.splits)
  then show ?thesis using assms by (simp add: check_agent_allowed_def session_gate_def Let_def)
qed

text \<open>
  C15. Ending a session that was neither ended nor archived, when it succeeds, settles
  everything of the session: its row is ended now, every discussion of it is submitted or
  closed, none of its documents is still being edited, returned or locked, no unpublished run
  of it is active, no run and no cursor of it is under observation, and from then on no
  agent passes the gate of the session.
\<close>

theorem session_end_settles_session:
  assumes run: "close_session env render now sid reason operator d = (Inr row, d')"
    and es: "fetch_session d sid = Some es" "es_status es \<notin> {Some ''ended'', Some ''archived''}"
    and ids: "ids_distinct d" "distinct (map doc_id (documents d))" and inv: "discussions_inv d"
  shows "fetch_session d' sid = Some row \<and> row = ended_session (fmt_sec now) es
    \<and> (\<forall>x\<in>set (discussions d'). d_session_id x = sid \<longrightarrow> d_status x \<in> {''submitted'', ''closed''})
    \<and> (\<forall>x\<in>set (documents d'). document_of_session sid (es_task_id es) (es_session_no es) x
         \<longrightarrow> doc_status x \<notin> {''editing'', ''returned'', ''locked''})
    \<and> (\<forall>p\<in>set (pipelines d'). p_session_id p = Some sid \<longrightarrow> \<not> active_unpublished p \<and> \<not> observing p)
    \<and> (\<forall>c\<in>set (cursors d'). c_session_id c = sid \<longrightarrow> c_observation_status c \<noteq> ''observing'')
    \<and> (sid \<noteq> 0 \<longrightarrow> (\<forall>now' gid q agent. gs_session_id q = sid
         \<longrightarrow> check_agent_allowed now' gid q agent d' = Inr (False, ''session_not_active'')))"
proof -
  from run es obtain y d1 ks d3 n why where sub: "submit_session_documents env now sid operator d = (Some y, d1)" "ty_errors y = 0"
    and cancel: "cancel_active_runs_for_session_end now sid ''CANCELLED_SESSION_ENDED'' (end_session_row (fmt_sec now) sid d1) = (ks, d3)"
    and fin: "mark_session_observations_finalization_only render now sid why d3 = (n, d')"
    and row: "row = the (fetch_session d' sid)"
    by (rule close_session_cases)
  let ?d2 = "end_session_row (fmt_sec now) sid d1"
  have stage: "stage d1 = stage d" using stage_submit_session [of env now sid operator d] by (simp add: sub)
  have desk: "desk d' = desk ?d2"
    using desk_finalize [of render now sid why d3] cancel_frame(1) [of now sid "''CANCELLED_SESSION_ENDED''" ?d2]
    by (simp add: fin cancel)
  then have "sessions d' = update_where (\<lambda>s. es_id s = sid) (ended_session (fmt_sec now)) (sessions d)"
    using stage by (simp add: desk_def stage_def sessions_end_row)
  then have session: "fetch_session d' sid = Some (ended_session (fmt_sec now) es)" using es(1) by (rule fetch_session_of)
  have docs: "documents d' = documents d1" "discussions d' = discussions d1"
    using desk tables_end_row [of "fmt_sec now" sid d1] by (simp_all add: desk_def discussion_tables_def sessions_end_row)
  have dist: "ids_distinct ?d2" using ids(1) stage by (simp add: ids_distinct_def stage_def sessions_end_row)
  have idle: "\<forall>q\<in>set (pipelines d3). p_session_id q = Some sid \<longrightarrow> \<not> active_unpublished q"
    using conjunct1 [OF session_end_cancels_all_active [OF dist cancel]] .
  have gate: "sid \<noteq> 0 \<longrightarrow> (\<forall>now' gid q agent. gs_session_id q = sid
         \<longrightarrow> check_agent_allowed now' gid q agent d' = Inr (False, ''session_not_active''))"
    using gate_of_ended [OF session] by (simp add: ended_session_def)
  show ?thesis
    using session gate submitted_session [OF sub(1) es(1) sub(2) ids(2) inv]
      finalized_none [of _ render now sid why d3, OF _ _ idle] finalized_cursors [of _ render now sid why d3]
    by (simp add: row docs fin)
qed

definition closing_room :: platform where
  "closing_room = writing_room\<lparr>
     discussions := [blank_discussion\<lparr>d_started_at := Some (Stamp 0 None), d_deadline := Some (Stamp 1800 None),
       d_expected_student_ids := [50], d_ready_student_ids := [50]\<rparr>],
     entries := [\<lparr>en_discussion_id = 3, en_student_id = 50, en_entered_at = Stamp 0 None, en_ready_at = Some (Stamp 0 None),
       en_last_seen_at = None, en_created_at = Stamp 0 None, en_updated_at = Stamp 0 None\<rparr>],
     pipelines := [blank_pipeline, blank_pipeline\<lparr>p_id := 12, p_publish_status := Some ''PUBLISHED'',
       p_observation := no_observation\<lparr>ob_status := Some ''observing''\<rparr>\<rparr>],
     cursors := [blank_cursor\<lparr>c_observation_status := ''observing''\<rparr>]\<rparr>"

definition ended_well :: "(string + session_row) \<times> platform \<Rightarrow> bool" where
  "ended_well r = (case fst r of Inl _ \<Rightarrow> False | Inr _ \<Rightarrow> True)"

lemma closing_room_ends: "ended_well (close_session calm_server (\<lambda>_. ''t'') 9000000 1 ''manual'' 9 closing_room)"
  by code_simp

lemma closing_room_facts:
  "fetch_session closing_room 1 = Some blank_session" "ids_distinct closing_room"
  "distinct (map doc_id (documents closing_room))" "discussions_inv closing_room"
  by code_simp+

lemma session_end_settles_session_witness:
  "\<exists>row d'. close_session calm_server (\<lambda>_. ''t'') 9000000 1 ''manual'' 9 closing_room = (Inr row, d')
     \<and> filter (\<lambda>p. p_session_id p = Some 1 \<and> (active_unpublished p \<or> observing p)) (pipelines d') = []
     \<and> check_agent_allowed 0 7 \<lparr>gs_session_id = 1, gs_task_id = 2, gs_session_no = Some 1\<rparr> None d'
         = Inr (False, ''session_not_active'')"
proof -
  obtain row d' where r: "close_session calm_server (\<lambda>_. ''t'') 9000000 1 ''manual'' 9 closing_room = (Inr row, d')"
    using closing_room_ends by (auto simp: ended_well_def split: sum.splits) (metis prod.collapse)
  have "es_status blank_session \<notin> {Some ''ended'', Some ''archived''}" by (simp add: blank_session_def)
  from session_end_settles_session [OF r closing_room_facts(1) this closing_room_facts(2-4)] r show ?thesis
    by (simp add: filter_empty_conv)
qed

subsection \<open>The gate of the agents\<close>

lemma session_gate_passes:
  assumes "session_gate agent sid d = None" and "sid \<noteq> 0"
  obtains es where "fetch_session d sid = Some es" and "es_status es = Some ''running''"
    and "ac_configuration_error (agent_config_from_session (Some es)) = None"
    and "agent = Some ''emotion'' \<Longrightarrow> ac_agent_mode (agent_config_from_session (Some es)) = Some ''emotion''"
    and "agent = Some ''strategy'' \<Longrightarrow> ac_agent_mode (agent_config_from_session (Some es)) = Some ''strategy''"
  using assms by (auto simp: session_gate_def Let_def split: option.splits if_splits)

lemma document_gate_passes:
  "document_gate gid q d = None \<Longrightarrow> latest_document (scoped_document gid q) d = Some x
   \<Longrightarrow> doc_submitted_at x = None \<and> doc_status x \<notin> set LOCKED_DOCUMENT_STATUSES"
  by (auto simp: document_gate_def split: if_splits)

lemma gate_cases:
  assumes "check_agent_allowed now gid q0 agent d = r"
  defines "q \<equiv> resolved_scope q0 d"
  obtains (session) why where "session_gate agent (gs_session_id q) d = Some why" and "r = Inr (False, why)"
  | (group) why where "session_gate agent (gs_session_id q) d = None" and "r = Inr (False, why)"
      and "case fetch_group d gid of None \<Rightarrow> True | Some g \<Rightarrow> g_state g = ''CLOSED''"
  | (controlled) g where "session_gate agent (gs_session_id q) d = None" and "fetch_group d gid = Some g"
      and "g_state g \<noteq> ''CLOSED''" and "gs_session_id q \<noteq> 0"
      and "\<exists>c\<in>set (controls d). gc_group_id c = gid \<and> gc_session_id c = gs_session_id q" and "r = Inl ''AttributeError''"
  | (passed) g where "session_gate agent (gs_session_id q) d = None" and "fetch_group d gid = Some g"
      and "g_state g \<noteq> ''CLOSED''"
      and "gs_session_id q = 0 \<or> (\<forall>c\<in>set (controls d). gc_group_id c = gid \<longrightarrow> gc_session_id c \<noteq> gs_session_id q)"
      and "r = (case document_gate gid q d of
            Some why \<Rightarrow> Inr (False, why)
          | None \<Rightarrow> if discussion_closed_for now (gs_session_id q) gid d then Inr (False, ''group_discussion_closed'')
              else Inr (True, ''active''))"
  using assms
  by (auto simp: check_agent_allowed_def Let_def split: option.splits if_splits)

text \<open>
  C16. An agent only speaks where it may: when the gate lets it pass, the room exists and is
  not closed, the discussion is not over and its deadline has not passed, the latest document
  of the scope is neither submitted nor locked, and a session the call resolved to is running,
  with a consistent agent mode that names the agent.
\<close>

theorem agent_speaks_only_in_open_session:
  assumes run: "check_agent_allowed now gid q0 agent d = Inr (True, why)" and q: "q = resolved_scope q0 d"
  shows "(\<exists>g. fetch_group d gid = Some g \<and> g_state g \<noteq> ''CLOSED'')
    \<and> (\<forall>x. latest_document (scoped_document gid q) d = Some x
         \<longrightarrow> doc_submitted_at x = None \<and> doc_status x \<notin> set LOCKED_DOCUMENT_STATUSES)
    \<and> (gs_session_id q \<noteq> 0 \<longrightarrow>
        (\<exists>es. fetch_session d (gs_session_id q) = Some es \<and> es_status es = Some ''running''
           \<and> ac_configuration_error (agent_config_from_session (Some es)) = None
           \<and> (agent = Some ''emotion'' \<longrightarrow> ac_agent_mode (agent_config_from_session (Some es)) = Some ''emotion'')
           \<and> (agent = Some ''strategy'' \<longrightarrow> ac_agent_mode (agent_config_from_session (Some es)) = Some ''strategy''))
        \<and> (gid \<noteq> 0 \<longrightarrow> \<not> is_group_discussion_write_closed now (gs_session_id q) gid d)
        \<and> (\<forall>c\<in>set (controls d). gc_group_id c = gid \<longrightarrow> gc_session_id c \<noteq> gs_session_id q))"
  using run
proof (cases rule: gate_cases)
  case (passed g)
  have open_: "document_gate gid q d = None" "\<not> discussion_closed_for now (gs_session_id q) gid d"
    using passed(5) by (auto simp: q split: option.splits if_splits)
  have "\<exists>es. fetch_session d (gs_session_id q) = Some es \<and> es_status es = Some ''running''
           \<and> ac_configuration_error (agent_config_from_session (Some es)) = None
           \<and> (agent = Some ''emotion'' \<longrightarrow> ac_agent_mode (agent_config_from_session (Some es)) = Some ''emotion'')
           \<and> (agent = Some ''strategy'' \<longrightarrow> ac_agent_mode (agent_config_from_session (Some es)) = Some ''strategy'')"
    if "gs_session_id q \<noteq> 0"
    by (rule session_gate_passes [OF passed(1) [folded q] that]) blast
  moreover have "doc_submitted_at x = None \<and> doc_status x \<notin> set LOCKED_DOCUMENT_STATUSES"
    if "latest_document (scoped_document gid q) d = Some x" for x
    using document_gate_passes [OF open_(1) that] .
  ultimately show ?thesis using passed(2-4) open_(2) by (auto simp: discussion_closed_for_def q)
qed auto

definition open_scope :: gate_scope where
  "open_scope = \<lparr>gs_session_id = 1, gs_task_id = 0, gs_session_no = None\<rparr>"

lemma sample_gate: "check_agent_allowed 0 7 open_scope (Some ''strategy'') sample = Inr (True, ''active'')"
  by code_simp

lemma agent_speaks_only_in_open_session_witness:
  "check_agent_allowed 0 7 open_scope (Some ''strategy'') sample = Inr (True, ''active'')
   \<and> (\<exists>g. fetch_group sample 7 = Some g \<and> g_state g \<noteq> ''CLOSED'')"
  using agent_speaks_only_in_open_session [OF sample_gate refl] sample_gate by blast

text \<open>
  Nobody can be paused: a row of the controls of the room, whatever it says, makes the gate
  fail with an \<open>AttributeError\<close> where it would have let the agent pass.
\<close>

definition controlled_room :: platform where
  "controlled_room = sample\<lparr>controls := [\<lparr>gc_group_id = 7, gc_session_id = 1, gc_agent_paused = Some 0\<rparr>]\<rparr>"

lemma control_row_breaks_gate:
  "check_agent_allowed 0 7 open_scope (Some ''strategy'') controlled_room = Inl ''AttributeError''"
  by code_simp

end
