(* ===== verification/Discussion_Runs.thy ===== *)
theory Discussion_Runs
  imports Session_Services
begin

text \<open>
  The requests that reach the discussions of a session, in any order: a student enters, the
  scan at the deadline, the end of the session.
\<close>

datatype discussion_request =
    Enter datetime int int int                          \<comment> \<open>\<open>enter_group_discussion_stage(session, group, student)\<close>\<close>
  | Scan submit_env datetime int                        \<comment> \<open>\<open>scan_and_auto_submit(max_docs)\<close>\<close>
  | End_Session submit_env "stamp \<Rightarrow> string" datetime int string int
      \<comment> \<open>\<open>close_session(session, reason, operator)\<close>\<close>

fun discussion_do :: "discussion_request \<Rightarrow> platform \<Rightarrow> platform" where
  "discussion_do (Enter now sid gid student) d = committed d (enter_group_discussion_stage now sid gid student d)"
| "discussion_do (Scan env now max_docs) d = snd (scan_and_auto_submit env now max_docs d)"
| "discussion_do (End_Session env render now sid reason operator) d = snd (close_session env render now sid reason operator d)"

lemma step_discussion: "discussions_step d (discussion_do r d)"
  by (cases r) (simp_all add: step_enter step_scan step_close_session)

lemma step_discussions: "discussions_step d (fold discussion_do rs d)"
proof (induction rs arbitrary: d)
  case (Cons r rs)
  from discussions_step_trans [OF step_discussion Cons] show ?case by simp
qed simp

interpretation discussion_system: op_system discussion_do "\<lambda>_ _. True" discussions_inv
  by unfold_locales (use step_discussion in \<open>simp add: discussions_step_def\<close>)

subsection \<open>The clock of a discussion\<close>

text \<open>
  C18. Along any sequence of requests a discussion only moves on (waiting, running, timed out,
  closed, submitted), its roster never changes, who is ready stays ready, and the start, the
  deadline and the submission stamp are set once.  At any time it is waiting, with no clock,
  exactly while an expected student is missing; a running or timed-out one has everyone
  ready, a start and a later deadline.
\<close>

theorem discussion_clock_is_set_once:
  assumes "discussions_inv d" and "x \<in> set (discussions d)"
  shows "\<exists>y\<in>set (discussions (fold discussion_do rs d)). runtime_evolves x y \<and> runtime_ok y"
proof -
  from step_discussions [of d rs] assms obtain y
    where y: "y \<in> set (discussions (fold discussion_do rs d))" "runtime_evolves x y"
    by (auto simp: discussions_step_def)
  moreover have "discussions_inv (fold discussion_do rs d)"
    using assms(1) by (rule discussion_system.run_inv [rotated]) (induction rs arbitrary: d, simp_all)
  ultimately show ?thesis by (auto simp: discussions_inv_def)
qed

lemma invariant_along: "discussions_inv d \<Longrightarrow> discussions_inv (fold discussion_do rs d)"
  using step_discussions [of d rs] by (simp add: discussions_step_def)

lemma evolves_along:
  assumes "discussions_inv d" and "x \<in> set (discussions d)"
  obtains y where "y \<in> set (discussions (fold discussion_do rs d))" and "runtime_evolves x y"
  using step_discussions [of d rs] assms by (auto simp: discussions_step_def)

lemma ready_along: "discussions_inv d \<Longrightarrow> i \<in> set (ready_ids d did) \<Longrightarrow> i \<in> set (ready_ids (fold discussion_do rs d) did)"
  using step_discussions [of d rs] by (auto simp: discussions_step_def)

lemma entered_is_ready:
  assumes inv: "discussions_inv d" and x: "x \<in> set (discussions d)" "runtime_of sid gid x"
    and keys: "sid \<noteq> 0" "gid \<noteq> 0" "i \<noteq> 0" and user: "fetch_by u_id i (users d) \<noteq> None"
    and enters: "Enter now sid gid i \<in> set rs"
  shows "i \<in> set (ready_ids (fold discussion_do rs d) (d_id x))"
proof -
  from enters obtain rs1 rs2 where rs: "rs = rs1 @ Enter now sid gid i # rs2" by (meson split_list)
  let ?d1 = "fold discussion_do rs1 d" and ?d2 = "fold discussion_do (rs1 @ [Enter now sid gid i]) d"
  obtain x1 where x1: "x1 \<in> set (discussions ?d1)" "runtime_evolves x x1" using inv x(1) by (rule evolves_along)
  then have of: "runtime_of sid gid x1" "d_id x1 = d_id x" using x(2) by (simp_all add: runtime_of_def runtime_evolves_def)
  have "fetch_by u_id i (users ?d1) \<noteq> None" using user step_discussions [of d rs1] by (simp add: discussions_step_def)
  with keys x1(1) of(1) obtain y d2 where e: "enter_group_discussion_stage now sid gid i ?d1 = Inr (y, d2)"
    by (metis enter_succeeds)
  from enter_ready [OF e invariant_along [OF inv] x1(1) of(1)] have "i \<in> set (ready_ids ?d2 (d_id x))"
    by (simp add: e committed_def of(2))
  with invariant_along [OF inv] have "i \<in> set (ready_ids (fold discussion_do rs2 ?d2) (d_id x))" by (rule ready_along)
  then show ?thesis by (simp add: rs)
qed

text \<open>
  C19. A discussion starts once everyone has come: when every expected student is a user and
  enters at some point of a sequence of requests, then, whatever else happens in between, the
  discussion is not waiting at the end and everyone is ready.
\<close>

theorem discussion_starts_when_all_came:
  assumes inv: "discussions_inv d" and x: "x \<in> set (discussions d)"
    and keys: "d_session_id x \<noteq> 0" "d_group_id x \<noteq> 0"
    and came: "\<And>i. i \<in> set (d_expected_student_ids x) \<Longrightarrow> i \<noteq> 0 \<and> fetch_by u_id i (users d) \<noteq> None
       \<and> (\<exists>now. Enter now (d_session_id x) (d_group_id x) i \<in> set rs)"
  shows "\<exists>y\<in>set (discussions (fold discussion_do rs d)). runtime_evolves x y \<and> everyone_ready y
     \<and> d_status y \<noteq> ''waiting''"
proof -
  have self: "runtime_of (d_session_id x) (d_group_id x) x" by (simp add: runtime_of_def)
  obtain y where y: "y \<in> set (discussions (fold discussion_do rs d))" "runtime_evolves x y"
    using inv x by (rule evolves_along)
  have "runtime_ok y" and "d_ready_student_ids y
      = id_list (filter (\<lambda>i. i \<in> set (d_expected_student_ids y)) (ready_ids (fold discussion_do rs d) (d_id y)))"
    using invariant_along [OF inv, of rs] y(1) by (auto simp: discussions_inv_def)
  moreover have "i \<in> set (ready_ids (fold discussion_do rs d) (d_id x))" if "i \<in> set (d_expected_student_ids x)" for i
    using came [OF that] entered_is_ready [OF inv x self keys] by blast
  ultimately have "everyone_ready y" "runtime_ok y"
    using y(2) by (auto simp: everyone_ready_def runtime_evolves_def)
  with y show ?thesis by (auto simp: runtime_ok_def)
qed

subsection \<open>Two students meet\<close>

definition waiting_discussion :: discussion_row where
  "waiting_discussion = blank_discussion\<lparr>d_status := ''waiting'', d_expected_student_ids := [50, 51],
     d_expected_student_count := 2\<rparr>"

definition meeting_room :: platform where
  "meeting_room = sample\<lparr>users := [\<lparr>u_id = 50, u_role = Some ''student'', u_username = []\<rparr>, \<lparr>u_id = 51, u_role = Some ''student'', u_username = []\<rparr>],
     discussions := [waiting_discussion]\<rparr>"

definition meeting_requests :: "discussion_request list" where
  "meeting_requests = [Enter 1000000 1 7 51, Enter 60000000 1 7 50]"

lemma meeting_room_inv: "discussions_inv meeting_room"
  by code_simp

lemma meeting_parts: "discussions meeting_room = [waiting_discussion]" "d_session_id waiting_discussion = 1"
  "d_group_id waiting_discussion = 7" "d_expected_student_ids waiting_discussion = [50, 51]" "d_id waiting_discussion = 3"
  "fetch_by u_id 50 (users meeting_room) \<noteq> None" "fetch_by u_id 51 (users meeting_room) \<noteq> None"
  by (simp_all add: meeting_room_def waiting_discussion_def blank_discussion_def)

lemma discussion_clock_is_set_once_witness:
  "\<exists>y\<in>set (discussions (fold discussion_do meeting_requests meeting_room)).
     d_id y = 3 \<and> d_expected_student_ids y = [50, 51] \<and> runtime_ok y"
  using discussion_clock_is_set_once [OF meeting_room_inv, of waiting_discussion meeting_requests]
  by (auto simp: meeting_parts runtime_evolves_def)

lemma discussion_starts_when_all_came_witness:
  "\<exists>y\<in>set (discussions (fold discussion_do meeting_requests meeting_room)). d_id y = 3 \<and> d_status y \<noteq> ''waiting''"
proof -
  have "i \<noteq> 0 \<and> fetch_by u_id i (users meeting_room) \<noteq> None
      \<and> (\<exists>now. Enter now (d_session_id waiting_discussion) (d_group_id waiting_discussion) i \<in> set meeting_requests)"
    if "i \<in> set (d_expected_student_ids waiting_discussion)" for i
    using that meeting_parts(6,7) by (auto simp: meeting_parts(2-4) meeting_requests_def)
  with discussion_starts_when_all_came [OF meeting_room_inv, of waiting_discussion meeting_requests]
  show ?thesis by (auto simp: meeting_parts runtime_evolves_def)
qed

end
