(* ===== verification/Publication_Properties.thy ===== *)
theory Publication_Properties
  imports Publication_Services Samples
begin

text \<open>
  What an agent says and when: the transaction of \<open>publish_agent_intervention\<close> (guards,
  message, room, run), at most one message for an intervention run, what the decision gate
  lets through, how a run that reached the gate is settled, and what the third stage records.
\<close>

subsection \<open>What the steps leave alone\<close>

lemma next_sequence_frame [simp]:
  "messages (snd (next_message_sequence gid d)) = messages d" "users (snd (next_message_sequence gid d)) = users d"
  "interventions (snd (next_message_sequence gid d)) = interventions d"
  "pipelines (snd (next_message_sequence gid d)) = pipelines d"
  "next_message_id (snd (next_message_sequence gid d)) = next_message_id d"
  "groups (snd (next_message_sequence gid d)) = update_where (\<lambda>g. g_id g = gid)
     (\<lambda>g. g\<lparr>g_last_message_sequence := Some (max (or0 (g_last_message_sequence g)) (last_sequence gid d) + 1)\<rparr>) (groups d)"
  by (simp_all add: next_message_sequence_def Let_def change_groups_def)

lemma settle_silence_frame [simp]:
  "messages (settle_silence_segment ts f r d) = messages d" "users (settle_silence_segment ts f r d) = users d"
  "interventions (settle_silence_segment ts f r d) = interventions d"
  "pipelines (settle_silence_segment ts f r d) = pipelines d"
  "groups (settle_silence_segment ts f r d) = groups d"
  by (simp_all add: settle_silence_segment_def)

lemma begin_observation_frame [simp]:
  "messages (snd (begin_discussion_observation ts gid a b c d)) = messages d"
  "users (snd (begin_discussion_observation ts gid a b c d)) = users d"
  "interventions (snd (begin_discussion_observation ts gid a b c d)) = interventions d"
  "pipelines (snd (begin_discussion_observation ts gid a b c d)) = pipelines d"
  "groups (snd (begin_discussion_observation ts gid a b c d)) = groups d"
  by (simp_all add: begin_discussion_observation_def change_cursor_def Let_def split: option.splits)

text \<open>The message that is linked to its log is the one that was written.\<close>

definition linked :: "int \<Rightarrow> int \<Rightarrow> message_row list \<Rightarrow> message_row list" where
  "linked mid lid = update_where (\<lambda>m. m_id m = mid) (\<lambda>m. m\<lparr>m_linked_log_id := Some lid\<rparr>)"

lemma log_publication_frame [simp]:
  "messages (log_publication ts u s mid d) = linked mid (next_log_id d) (messages d)"
  "users (log_publication ts u s mid d) = users d"
  "interventions (log_publication ts u s mid d) = interventions d"
  "pipelines (log_publication ts u s mid d) = pipelines d"
  "groups (log_publication ts u s mid d) = groups d"
  by (simp_all add: log_publication_def linked_def Let_def)

lemma open_room_frame:
  assumes "open_room_after t u d = Inr d'"
  shows "messages d' = messages d \<and> users d' = users d \<and> interventions d' = interventions d \<and> pipelines d' = pipelines d"
  using assms by (auto simp: open_room_after_def Let_def change_groups_def split: if_splits)

lemma leave_room_frame:
  assumes "leave_room ts u d = Inr d'"
  shows "messages d' = messages d \<and> users d' = users d \<and> interventions d' = interventions d \<and> pipelines d' = pipelines d"
  using assms by (auto simp: leave_room_def change_groups_def dest: open_room_frame split: if_splits)

lemma linked_simps [simp]: "linked mid lid [] = []"
  "linked mid lid (m # ms) = (if m_id m = mid then m\<lparr>m_linked_log_id := Some lid\<rparr> else m) # linked mid lid ms"
  "linked mid lid (ms @ ns) = linked mid lid ms @ linked mid lid ns"
  by (simp_all add: linked_def update_where_def)

lemma linked_others: "(\<And>m. m \<in> set ms \<Longrightarrow> m_id m \<noteq> mid) \<Longrightarrow> linked mid lid ms = ms"
  by (induction ms) auto

lemma linked_ids [simp]: "m_id ` set (linked mid lid ms) = m_id ` set ms"
  by (induction ms) auto

subsection \<open>One transaction\<close>

lemma publish_spokenE:
  assumes "publish_agent_intervention now u d = (Inr s, d')"
  obtains sera sc r where "truthy (pu_message u)" "get_sera_user_id d = Some sera"
    "opening_refusal_of (fmt_sec now) u d = None"
    "resolve_discussion_scope (pu_group_id u) (publication_query u) d = Inr sc"
    "message_scope_refusal u sc d = None" "fetch_intervention d (pu_intervention_run_id u) = Some r"
    "ir_group_id r = pu_group_id u" "sp_run_id s = ir_id r"
    "(sp_duplicate s \<and> or0 (ir_message_id r) \<noteq> 0 \<and> repeat_publication (fmt_sec now) u r d = Inr d')
     \<or> (\<not> sp_duplicate s \<and> or0 (ir_message_id r) = 0
        \<and> new_publication (fmt_sec now) u (filled_scope sc r) r sera d = Inr (sp_message_id s, d'))"
  using assms by (auto simp: publish_agent_intervention_def speak_def split: if_splits option.splits sum.splits)

lemma publish_newE:
  assumes "publish_agent_intervention now u d = (Inr s, d')" "\<not> sp_duplicate s"
  obtains sera sc r where "truthy (pu_message u)" "opening_refusal_of (fmt_sec now) u d = None"
      "resolve_discussion_scope (pu_group_id u) (publication_query u) d = Inr sc" "message_scope_refusal u sc d = None"
      "fetch_intervention d (pu_intervention_run_id u) = Some r"
      "new_publication (fmt_sec now) u (filled_scope sc r) r sera d = Inr (sp_message_id s, d')"
  using assms by (elim publish_spokenE) blast

text \<open>A publication that is refused leaves the platform as it was.\<close>

lemma refused_publication_is_rolled_back:
  assumes "publish_agent_intervention now u d = (Inl f, d')" shows "d' = d"
  using assms by (auto simp: publish_agent_intervention_def speak_def split: if_splits option.splits sum.splits)

lemma new_publication_cases:
  assumes "new_publication ts u s r sera d = Inr (mid, d')"
  obtains (again) m lid where "m \<in> set (messages d)" "spoken_already sera u m" "m_id m = mid"
      "messages d' = linked mid lid (messages d)"
    | (fresh) lid where "\<And>m. m \<in> set (messages d) \<Longrightarrow> \<not> spoken_already sera u m" "mid = next_message_id d"
      "messages d' = linked mid lid (messages d @
         [agent_message ts u s sera (fst (next_message_sequence (pu_group_id u) d)) mid])"
proof -
  obtain m written d1 where w: "write_message ts u s sera d = ((m, written), d1)" by (metis surj_pair)
  let ?d3 = "log_publication ts u s m (settle_silence_segment ts (\<lambda>_. Some ts) r
    (change_interventions (\<lambda>x. ir_id x = ir_id r) (run_spoken ts u s m) d1))"
  from assms obtain d4 where l: "leave_room ts u ?d3 = Inr d4" and [simp]: "m = mid"
    and d': "messages d' = messages d4"
    by (auto simp: new_publication_def update_intervention_def w Let_def andthen_Inr_iff split: option.splits if_splits)
  from leave_room_frame [OF l] d' obtain lid where m: "messages d' = linked mid lid (messages d1)" by simp
  show ?thesis
  proof (cases "max_by m_id (filter (spoken_already sera u) (messages d))")
    case None
    obtain q e where ns: "next_message_sequence (pu_group_id u) d = (q, e)" by (metis surj_pair)
    have "messages e = messages d" "next_message_id e = next_message_id d"
      using next_sequence_frame(1,5) [of "pu_group_id u" d] ns by simp_all
    with w None ns have "mid = next_message_id d" "messages d1 = messages d @ [agent_message ts u s sera q mid]"
      by (auto simp: write_message_def Let_def)
    moreover from None have "\<not> spoken_already sera u m" if "m \<in> set (messages d)" for m
      using that by (simp add: filter_empty_conv)
    ultimately show ?thesis using m ns by (intro fresh) simp_all
  next
    case (Some x)
    then show ?thesis using w m again [of x lid] max_by_Some [OF Some]
      by (auto simp: write_message_def)
  qed
qed

lemma next_sequence_above:
  assumes "fetch_group d gid = Some g" "m \<in> set (messages d)" "m_group_id m = gid" "m_sequence m = Some k"
  shows "k < fst (next_message_sequence gid d)"
proof -
  obtain top where top: "max_by m_sequence (filter (\<lambda>m. m_group_id m = gid) (messages d)) = Some top"
    using assms by (cases "max_by m_sequence (filter (\<lambda>m. m_group_id m = gid) (messages d))") (auto simp: filter_empty_conv)
  from max_by_Some [OF this] assms have "Some k \<le> m_sequence top" by force
  then have "k \<le> last_sequence gid d" by (cases "m_sequence top") (simp_all add: last_sequence_def top)
  then show ?thesis
    using assms(1) rooms.fetch_rid [OF assms(1)]
    by (simp add: next_message_sequence_def Let_def rooms.fetch_change max.coboundedI2)
qed

lemma write_message_frame:
  "interventions (snd (write_message ts u s sera d)) = interventions d"
  "users (snd (write_message ts u s sera d)) = users d"
  "pipelines (snd (write_message ts u s sera d)) = pipelines d"
  "map_option g_lock_token (fetch_group (snd (write_message ts u s sera d)) gid) = map_option g_lock_token (fetch_group d gid)"
  by (simp_all add: write_message_def Let_def split_beta fetch_group_def fetch_by_update_where option.map_comp comp_def
      split: option.splits) (auto simp: map_option_case split: option.splits)

lemma open_room_result:
  assumes "open_room_after t u d = Inr d'" "fetch_group d (pu_group_id u) = Some g" "g_lock_token g = pu_lock_token u"
  shows "fetch_group d' (pu_group_id u) = Some (reopened t g)"
proof -
  have "g_id (reopened t g) = g_id g" for g by (simp add: reopened_def)
  then show ?thesis
    using assms rooms.fetch_rid [OF assms(2)]
    by (auto simp: open_room_after_def Let_def reopened_row [symmetric] rooms.fetch_change split: if_splits)
qed

lemma new_publication_steps:
  assumes new: "new_publication ts u s r sera d = Inr (mid, d')"
  obtains d3 d4 where "leave_room ts u d3 = Inr d4" "groups d' = groups d4" "users d' = users d" "pipelines d' = pipelines d"
    "interventions d' = update_where (\<lambda>x. ir_id x = ir_id r) (run_spoken ts u s mid) (interventions d)"
    "map_option g_lock_token (fetch_group d3 (pu_group_id u)) = map_option g_lock_token (fetch_group d (pu_group_id u))"
proof -
  obtain m written d1 where w: "write_message ts u s sera d = ((m, written), d1)" by (metis surj_pair)
  let ?d3 = "log_publication ts u s m (settle_silence_segment ts (\<lambda>_. Some ts) r
    (change_interventions (\<lambda>x. ir_id x = ir_id r) (run_spoken ts u s m) d1))"
  from new obtain d4 where l: "leave_room ts u ?d3 = Inr d4" and [simp]: "m = mid"
    and d': "d' = (case written of None \<Rightarrow> d4 | Some q \<Rightarrow>
      snd (begin_discussion_observation ts (pu_group_id u) (ds_session_id s) (Some q) None d4))"
    by (auto simp: new_publication_def update_intervention_def w Let_def andthen_Inr_iff split: if_splits)
  have "interventions d' = interventions d4" "users d' = users d4" "pipelines d' = pipelines d4" "groups d' = groups d4"
    by (simp_all add: d' split: option.splits)
  moreover note write_message_frame [of ts u s sera d, unfolded w snd_conv]
  moreover have "fetch_group ?d3 (pu_group_id u) = fetch_group d1 (pu_group_id u)" by (simp add: fetch_group_def)
  ultimately show ?thesis using l leave_room_frame [OF l] that [of ?d3 d4] by simp
qed

lemma new_publication_run:
  assumes "new_publication ts u s r sera d = Inr (mid, d')" "fetch_intervention d (ir_id r) = Some r"
  shows "fetch_intervention d' (ir_id r) = Some (run_spoken ts u s mid r)"
  using assms(1)
proof (rule new_publication_steps)
  assume "interventions d' = update_where (\<lambda>x. ir_id x = ir_id r) (run_spoken ts u s mid) (interventions d)"
  with assms(2) show ?thesis by (simp add: fetch_intervention_def fetch_by_update_where run_spoken_def)
qed

lemma new_publication_room:
  assumes new: "new_publication ts u s r sera d = Inr (mid, d')"
    and g: "fetch_group d (pu_group_id u) = Some g" "g_lock_token g = pu_lock_token u" "truthy (pu_lock_token u)"
  shows "\<exists>g'. fetch_group d' (pu_group_id u) = Some g' \<and> g_state g' = ''OPEN'' \<and> g_lock_token g' = None
    \<and> g_active_intervention_run_id g' = None"
  using new
proof (rule new_publication_steps)
  fix d3 d4
  assume l: "leave_room ts u d3 = Inr d4" and same: "groups d' = groups d4"
    and "map_option g_lock_token (fetch_group d3 (pu_group_id u)) = map_option g_lock_token (fetch_group d (pu_group_id u))"
  with g obtain g3 where g3: "fetch_group d3 (pu_group_id u) = Some g3" "g_lock_token g3 = pu_lock_token u" by auto
  from l g(3) have "open_room_after (\<lambda>_. Some ts) u d3 = Inr d4" by (simp add: leave_room_def)
  from open_room_result [OF this g3] same show ?thesis
    by (simp add: fetch_group_def reopened_def opened_def OPEN_STATE_def)
qed

lemma opening_allowed:
  assumes "opening_refusal_of ts u d = None" "truthy (pu_lock_token u)"
  obtains g where "fetch_group d (pu_group_id u) = Some g" "g_lock_token g = pu_lock_token u"
    "g_state g = ''AI_INTERVENING''" "g_active_intervention_run_id g = Some (- pu_pipeline_run_id u)"
    "\<And>e. g_lock_expires_at g = Some e \<Longrightarrow> ts < e"
    "\<And>i. pu_discussion_id u = Some i \<Longrightarrow> discussion_running (pu_group_id u) (pu_session_id u) i d"
  using assms by (auto simp: opening_refusal_of_def room_refusal_def split: option.splits if_splits)

lemma spoken_before_cutoff:
  assumes "message_scope_refusal u s d = None" "pu_cutoff u = Some k" "m \<in> set (messages d)"
    "message_in_scope (pu_group_id u) (ds_session_id s) (ds_discussion_id s) m" "message_author d m = Some ''student''"
    "m_sequence m = Some q"
  shows "q \<le> k"
proof -
  let ?ms = "filter (\<lambda>m. message_in_scope (pu_group_id u) (ds_session_id s) (ds_discussion_id s) m
    \<and> message_author d m = Some ''student'' \<and> m_sequence m \<noteq> None) (messages d)"
  obtain top where top: "max_by (\<lambda>m. or0 (m_sequence m)) ?ms = Some top"
    using assms by (cases "max_by (\<lambda>m. or0 (m_sequence m)) ?ms") (auto simp: filter_empty_conv)
  from max_by_Some [OF this] assms(3-6) have "q \<le> or0 (m_sequence top)" by force
  moreover from assms(1,2) top have "or0 (m_sequence top) \<le> k"
    by (simp add: message_scope_refusal_def latest_student_in_scope_def split: if_splits)
  ultimately show ?thesis by simp
qed

text \<open>
  C2. What \<open>publish_agent_intervention\<close> says it says under a lease: the room is locked with the
  token of the run, for that run, and the lease has not ended; the discussion runs; and no
  student has spoken in the scope after the cut-off of the run.  Exactly one message is
  written, with a sequence above every message of the room; the run is published with it and
  the room is open again.
\<close>

theorem agent_speaks_under_its_lease:
  assumes run: "publish_agent_intervention now u d = (Inr s, d')" and new: "\<not> sp_duplicate s"
    and token: "truthy (pu_lock_token u)"
    and ids: "\<forall>m\<in>set (messages d). m_id m < next_message_id d"
    and silent: "\<forall>m\<in>set (messages d). m_client_message_id m \<noteq> Some (client_message_id (pu_intervention_run_id u))"
  shows "(\<exists>g. fetch_group d (pu_group_id u) = Some g \<and> g_state g = ''AI_INTERVENING''
      \<and> g_lock_token g = pu_lock_token u \<and> g_active_intervention_run_id g = Some (- pu_pipeline_run_id u)
      \<and> (\<forall>e. g_lock_expires_at g = Some e \<longrightarrow> fmt_sec now < e))
    \<and> (\<forall>i. pu_discussion_id u = Some i \<longrightarrow> discussion_running (pu_group_id u) (pu_session_id u) i d)
    \<and> (\<exists>sc. resolve_discussion_scope (pu_group_id u) (publication_query u) d = Inr sc
      \<and> (\<forall>m\<in>set (messages d). \<forall>k q. message_in_scope (pu_group_id u) (ds_session_id sc) (ds_discussion_id sc) m
          \<and> message_author d m = Some ''student'' \<and> pu_cutoff u = Some k \<and> m_sequence m = Some q \<longrightarrow> q \<le> k))
    \<and> (\<exists>m k. messages d' = messages d @ [m] \<and> m_id m = sp_message_id s \<and> m_group_id m = pu_group_id u
      \<and> m_role m = Some ''agent'' \<and> m_content m = pu_message u \<and> truthy (m_content m)
      \<and> m_intervention_run_id m = Some (pu_intervention_run_id u) \<and> m_sequence m = Some k
      \<and> (\<forall>x\<in>set (messages d). \<forall>q. m_group_id x = pu_group_id u \<and> m_sequence x = Some q \<longrightarrow> q < k))
    \<and> (\<exists>r. fetch_intervention d' (pu_intervention_run_id u) = Some r \<and> ir_status r = Some ''PUBLISHED''
      \<and> ir_message_id r = Some (sp_message_id s))
    \<and> (\<exists>g'. fetch_group d' (pu_group_id u) = Some g' \<and> g_state g' = ''OPEN'' \<and> g_lock_token g' = None
      \<and> g_active_intervention_run_id g' = None)"
proof -
  from run new obtain sera sc r where said: "truthy (pu_message u)" "opening_refusal_of (fmt_sec now) u d = None"
      "resolve_discussion_scope (pu_group_id u) (publication_query u) d = Inr sc" "message_scope_refusal u sc d = None"
      "fetch_intervention d (pu_intervention_run_id u) = Some r"
      "new_publication (fmt_sec now) u (filled_scope sc r) r sera d = Inr (sp_message_id s, d')"
    by (rule publish_newE)
  obtain g where g: "fetch_group d (pu_group_id u) = Some g" "g_lock_token g = pu_lock_token u"
      "g_state g = ''AI_INTERVENING''" "g_active_intervention_run_id g = Some (- pu_pipeline_run_id u)"
      "\<And>e. g_lock_expires_at g = Some e \<Longrightarrow> fmt_sec now < e"
      "\<And>i. pu_discussion_id u = Some i \<Longrightarrow> discussion_running (pu_group_id u) (pu_session_id u) i d"
    using opening_allowed [OF said(2) token] by blast
  have r: "ir_id r = pu_intervention_run_id u" by (rule jobs.fetch_rid [OF said(5)])
  have lease: "\<exists>g. fetch_group d (pu_group_id u) = Some g \<and> g_state g = ''AI_INTERVENING''
      \<and> g_lock_token g = pu_lock_token u \<and> g_active_intervention_run_id g = Some (- pu_pipeline_run_id u)
      \<and> (\<forall>e. g_lock_expires_at g = Some e \<longrightarrow> fmt_sec now < e)"
    using g(1-5) by blast
  have running: "\<forall>i. pu_discussion_id u = Some i \<longrightarrow> discussion_running (pu_group_id u) (pu_session_id u) i d" using g(6) by blast
  have fresh: "\<exists>sc. resolve_discussion_scope (pu_group_id u) (publication_query u) d = Inr sc
      \<and> (\<forall>m\<in>set (messages d). \<forall>k q. message_in_scope (pu_group_id u) (ds_session_id sc) (ds_discussion_id sc) m
          \<and> message_author d m = Some ''student'' \<and> pu_cutoff u = Some k \<and> m_sequence m = Some q \<longrightarrow> q \<le> k)"
    using said(3) spoken_before_cutoff [OF said(4)] by blast
  have message: "\<exists>m k. messages d' = messages d @ [m] \<and> m_id m = sp_message_id s \<and> m_group_id m = pu_group_id u
      \<and> m_role m = Some ''agent'' \<and> m_content m = pu_message u \<and> truthy (m_content m)
      \<and> m_intervention_run_id m = Some (pu_intervention_run_id u) \<and> m_sequence m = Some k
      \<and> (\<forall>x\<in>set (messages d). \<forall>q. m_group_id x = pu_group_id u \<and> m_sequence x = Some q \<longrightarrow> q < k)"
    using said(6)
  proof (cases rule: new_publication_cases)
    case (again m lid)
    with silent show ?thesis by (simp add: spoken_already_def)
  next
    case (fresh lid)
    have "linked (sp_message_id s) lid (messages d) = messages d"
      using ids fresh(2) by (intro linked_others) fastforce
    with fresh(3) said(1) next_sequence_above [OF g(1)] show ?thesis by (simp add: agent_message_def)
  qed
  have published: "\<exists>r. fetch_intervention d' (pu_intervention_run_id u) = Some r \<and> ir_status r = Some ''PUBLISHED''
      \<and> ir_message_id r = Some (sp_message_id s)"
    using new_publication_run [OF said(6) said(5) [folded r]] r by (simp add: run_spoken_def)
  have opened: "\<exists>g'. fetch_group d' (pu_group_id u) = Some g' \<and> g_state g' = ''OPEN'' \<and> g_lock_token g' = None
      \<and> g_active_intervention_run_id g' = None"
    by (rule new_publication_room [OF said(6) g(1,2) token])
  from lease running fresh message published opened show ?thesis by (intro conjI)
qed


subsection \<open>One message for a run\<close>

text \<open>Two ids never share a client id: the digits of a number determine it.\<close>

lemma nat_digits_inj: "nat_digits m = nat_digits n \<Longrightarrow> m = n"
proof (induction m arbitrary: n rule: nat_digits.induct)
  case (1 m)
  have long: "nat_digits k \<noteq> []" for k by (cases "k < 10") simp_all
  show ?case
  proof (cases "m < 10 \<or> n < 10")
    case True
    have digit: "(char_of (48 + i) :: char) = char_of (48 + j) \<Longrightarrow> i < 10 \<Longrightarrow> j < 10 \<Longrightarrow> i = j" for i j :: nat
      by (drule arg_cong [where f = "of_char :: char \<Rightarrow> nat"]) simp
    show ?thesis using True 1(2) digit [of m n] long [symmetric] long by (auto split: if_splits simp del: nat_digits.simps simp: nat_digits.simps [of m] nat_digits.simps [of n])
  next
    case False
    with 1(2) have eq: "nat_digits (m div 10) = nat_digits (n div 10)"
        "(char_of (48 + m mod 10) :: char) = char_of (48 + n mod 10)"
      by (simp_all del: nat_digits.simps add: nat_digits.simps [of m] nat_digits.simps [of n])
    from eq(2) have "m mod 10 = n mod 10"
      by (drule_tac arg_cong [where f = "of_char :: char \<Rightarrow> nat"]) simp
    moreover from 1(1) False eq(1) have "m div 10 = n div 10" by blast
    ultimately show ?thesis by (metis div_mult_mod_eq)
  qed
qed

lemma nat_digits_sign: "nat_digits n \<noteq> CHR ''-'' # cs"
proof
  have "(\<exists>k. 48 \<le> k \<and> k \<le> (57 :: nat) \<and> hd (nat_digits n) = char_of k) \<and> nat_digits n \<noteq> []" for n
  proof (induction n rule: nat_digits.induct)
    case (1 n)
    then show ?case
      by (cases "n < 10") (auto simp: nat_digits.simps [of n] simp del: nat_digits.simps intro!: exI [of _ "48 + n"])
  qed
  moreover assume "nat_digits n = CHR ''-'' # cs"
  ultimately obtain k :: nat where k: "48 \<le> k" "k \<le> 57" "CHR ''-'' = char_of k" by (metis list.sel(1))
  have "(of_char (CHR ''-'') :: nat) = of_char (char_of k)" using k(3) by simp
  with k(1,2) show False by simp
qed

lemma int_text_inj [simp]: "int_text i = int_text j \<longleftrightarrow> i = j"
  using nat_digits_inj [of "nat i" "nat j"] nat_digits_inj [of "nat (- i)" "nat (- j)"] nat_digits_sign
    nat_digits_sign [symmetric]
  by (auto simp: int_text_def simp del: nat_digits.simps)

lemma client_message_id_inj [simp]: "client_message_id i = client_message_id j \<longleftrightarrow> i = j"
  by (simp add: client_message_id_def)


text \<open>
  The messages a run left in the log: at most one for a run, by the user of the agents and in
  the room of the run.
\<close>

definition voiced :: "int \<Rightarrow> message_row \<Rightarrow> bool" where
  "voiced i m \<longleftrightarrow> m_client_message_id m = Some (client_message_id i)"

definition voices_ok :: "platform \<Rightarrow> bool" where
  "voices_ok d \<longleftrightarrow> (\<forall>i. length (filter (voiced i) (messages d)) \<le> 1)
     \<and> (\<forall>m\<in>set (messages d). \<forall>i. voiced i m \<longrightarrow> get_sera_user_id d = Some (m_user_id m)
          \<and> map_option ir_group_id (fetch_intervention d i) = Some (m_group_id m))"

definition publish_call :: "datetime \<times> publication \<Rightarrow> platform \<Rightarrow> platform" where
  "publish_call c d = snd (publish_agent_intervention (fst c) (snd c) d)"

lemma linked_voiced:
  "length (filter (voiced i) (linked mid lid ms)) = length (filter (voiced i) ms)"
  "m \<in> set (linked mid lid ms) \<Longrightarrow> \<exists>x\<in>set ms. voiced i x = voiced i m \<and> m_user_id x = m_user_id m \<and> m_group_id x = m_group_id m"
proof -
  show "length (filter (voiced i) (linked mid lid ms)) = length (filter (voiced i) ms)"
    by (induction ms) (simp_all add: voiced_def)
  assume "m \<in> set (linked mid lid ms)"
  then obtain x where "x \<in> set ms" "m = (if m_id x = mid then x\<lparr>m_linked_log_id := Some lid\<rparr> else x)"
    unfolding linked_def set_update_where by blast
  then show "\<exists>x\<in>set ms. voiced i x = voiced i m \<and> m_user_id x = m_user_id m \<and> m_group_id x = m_group_id m"
    by (intro bexI [of _ x]) (simp_all add: voiced_def)
qed

text \<open>What keeps the log right: old messages stay what they were, and one may join under a client id not used.\<close>

lemma voices_ok_step:
  assumes ok: "voices_ok d" and users: "users d' = users d"
    and runs: "\<And>i. map_option ir_group_id (fetch_intervention d' i) = map_option ir_group_id (fetch_intervention d i)"
    and ms: "messages d' = linked mid lid (messages d @ new)"
    and new: "\<And>m. m \<in> set new \<Longrightarrow> new = [m] \<and> (\<exists>i. voiced i m \<and> (\<forall>x\<in>set (messages d). \<not> voiced i x)
      \<and> get_sera_user_id d = Some (m_user_id m) \<and> map_option ir_group_id (fetch_intervention d i) = Some (m_group_id m))"
  shows "voices_ok d'"
proof -
  have sera: "get_sera_user_id d' = get_sera_user_id d" by (simp add: get_sera_user_id_def users)
  have one: "voiced i m \<Longrightarrow> voiced j m \<Longrightarrow> i = j" for i j m by (simp add: voiced_def)
  have "length (filter (voiced i) (messages d @ new)) \<le> 1" for i
  proof (cases "filter (voiced i) new")
    case Nil
    then show ?thesis using ok by (simp add: voices_ok_def)
  next
    case (Cons m rest)
    then have "m \<in> set (filter (voiced i) new)" by simp
    then have m: "m \<in> set new" "voiced i m" by simp_all
    with new [OF m(1)] one have "new = [m]" "\<forall>x\<in>set (messages d). \<not> voiced i x" by blast+
    then show ?thesis by (simp add: filter_False)
  qed
  moreover have "get_sera_user_id d = Some (m_user_id m)
      \<and> map_option ir_group_id (fetch_intervention d i) = Some (m_group_id m)"
    if "m \<in> set (messages d @ new)" "voiced i m" for m i
  proof (cases "m \<in> set (messages d)")
    case True
    with ok that(2) show ?thesis unfolding voices_ok_def by blast
  next
    case False
    with that(1) have "m \<in> set new" by simp
    from new [OF this] one [OF that(2)] show ?thesis by blast
  qed
  ultimately show ?thesis
    unfolding voices_ok_def ms linked_voiced(1) sera runs using linked_voiced(2) [of _ mid lid "messages d @ new"] by metis
qed

lemma linked_nowhere: "\<exists>mid. linked mid lid ms = ms"
proof -
  have "finite (m_id ` set ms)" by simp
  then obtain mid where "mid \<notin> m_id ` set ms" using ex_new_if_finite infinite_UNIV_int by blast
  then show ?thesis using linked_others [of ms mid lid] by blast
qed

lemma run_keys [simp]: "ir_id (run_spoken ts u s mid r) = ir_id r" "ir_group_id (run_spoken ts u s mid r) = ir_group_id r"
  "ir_id (run_spoken_before ts r) = ir_id r" "ir_group_id (run_spoken_before ts r) = ir_group_id r"
  by (simp_all add: run_spoken_def run_spoken_before_def)

lemma fetched_groups:
  assumes "interventions d' = update_where P f (interventions d)" "\<And>r. ir_id (f r) = ir_id r" "\<And>r. ir_group_id (f r) = ir_group_id r"
  shows "map_option ir_group_id (fetch_intervention d' i) = map_option ir_group_id (fetch_intervention d i)"
  using assms by (cases "fetch_by ir_id i (interventions d)") (simp_all add: fetch_intervention_def fetch_by_update_where)

lemma publish_call_voices:
  assumes ok: "voices_ok d" shows "voices_ok (publish_call c d)"
proof (cases "publish_agent_intervention (fst c) (snd c) d")
  case (Pair out d')
  let ?u = "snd c"
  show ?thesis
  proof (cases out)
    case (Inl f)
    with Pair ok refused_publication_is_rolled_back [of "fst c" ?u d f d'] show ?thesis by (simp add: publish_call_def)
  next
    case (Inr s)
    with Pair have run: "publish_agent_intervention (fst c) ?u d = (Inr s, d')" by simp
    then obtain sera sc r where sera: "get_sera_user_id d = Some sera"
        and r: "fetch_intervention d (pu_intervention_run_id ?u) = Some r" "ir_group_id r = pu_group_id ?u"
        and said: "repeat_publication (fmt_sec (fst c)) ?u r d = Inr d'
          \<or> new_publication (fmt_sec (fst c)) ?u (filled_scope sc r) r sera d = Inr (sp_message_id s, d')"
      by (elim publish_spokenE) blast
    from said have "voices_ok d'"
    proof
      assume "repeat_publication (fmt_sec (fst c)) ?u r d = Inr d'"
      then obtain d1 where "d1 = d \<or> (\<exists>t. open_room_after t ?u d = Inr d1)"
          and d': "\<exists>f. d' = settle_silence_segment (fmt_sec (fst c)) f r
            (change_interventions (\<lambda>x. ir_id x = ir_id r) (run_spoken_before (fmt_sec (fst c))) d1)"
        by (auto simp: repeat_publication_def update_intervention_def andthen_Inr_iff split: if_splits)
      then have d1: "messages d1 = messages d" "users d1 = users d" "interventions d1 = interventions d"
        by (auto dest: open_room_frame)
      have runs: "interventions d' = update_where (\<lambda>x. ir_id x = ir_id r) (run_spoken_before (fmt_sec (fst c))) (interventions d)"
        and frame: "users d' = users d" "messages d' = messages d"
        using d' d1 by auto
      obtain mid where "linked mid 0 (messages d) = messages d" using linked_nowhere by blast
      with frame(2) show ?thesis
        by (intro voices_ok_step [OF ok frame(1) fetched_groups [OF runs run_keys(3,4)], of mid 0 "[]"]) simp_all
    next
      assume new: "new_publication (fmt_sec (fst c)) ?u (filled_scope sc r) r sera d = Inr (sp_message_id s, d')"
      have frame: "users d' = users d" "map_option ir_group_id (fetch_intervention d' i) = map_option ir_group_id (fetch_intervention d i)" for i
        using new_publication_steps [OF new] fetched_groups run_keys(1,2) by metis+
      show ?thesis
        using new
      proof (cases rule: new_publication_cases)
        case (again m lid)
        show ?thesis by (rule voices_ok_step [OF ok frame, of "sp_message_id s" lid "[]"]) (simp_all add: again)
      next
        case (fresh lid)
        have "\<not> voiced (pu_intervention_run_id ?u) m" if "m \<in> set (messages d)" for m
        proof
          assume v: "voiced (pu_intervention_run_id ?u) m"
          with ok that sera r have "m_user_id m = sera" "m_group_id m = pu_group_id ?u"
            unfolding voices_ok_def by fastforce+
          with v fresh(1) [OF that] show False by (simp add: spoken_already_def voiced_def)
        qed
        then show ?thesis
          using r sera by (intro voices_ok_step [OF ok frame fresh(3)]) (auto simp: agent_message_def voiced_def)
      qed
    qed
    with Pair show ?thesis by (simp add: publish_call_def)
  qed
qed

interpretation speakers: op_system publish_call "\<lambda>_ _. True" voices_ok
  by unfold_locales (rule publish_call_voices)

lemma admissible_all [simp]: "admissible step (\<lambda>_ _. True) cs d"
  by (induction cs arbitrary: d) simp_all

text \<open>
  C3. However often and in whatever order interventions are published, the log holds at most
  one message for each intervention run.
\<close>

theorem one_message_for_a_run:
  assumes "voices_ok d"
  shows "length (filter (\<lambda>m. m_client_message_id m = Some (client_message_id i)) (messages (fold publish_call calls d))) \<le> 1"
proof -
  have "length (filter (voiced i) (messages (fold publish_call calls d))) \<le> 1"
    using speakers.run_inv [OF admissible_all assms, of calls] by (simp add: voices_ok_def)
  then show ?thesis by (simp only: voiced_def [abs_def])
qed

subsection \<open>A room about to be spoken in\<close>

text \<open>
  Room 7 is leased to pipeline run 11 under the token \<open>t\<close>; intervention run 21 has not spoken.
\<close>

definition leased_room :: platform where
  "leased_room = sample\<lparr>groups := [blank_group\<lparr>g_state := ''AI_INTERVENING'', g_lock_token := Some ''t'',
       g_lock_expires_at := Some (Stamp 100 None), g_active_intervention_run_id := Some (- 11)\<rparr>],
     users := [\<lparr>u_id = 50, u_role = Some ''student'', u_username = []\<rparr>,
       \<lparr>u_id = 60, u_role = Some ''agent'', u_username = ''sera''\<rparr>],
     messages := [blank_message\<lparr>m_sequence := Some 5\<rparr>], interventions := [blank_intervention]\<rparr>"

definition sentence :: publication where
  "sentence = \<lparr>pu_group_id = 7, pu_message = Some ''Who else agrees?'', pu_intervention_run_id = 21,
     pu_pipeline_run_id = 11, pu_session_id = Some 1, pu_session_no = Some 1, pu_discussion_id = Some 3,
     pu_task_id = None, pu_cutoff = Some 5, pu_strategy_id = Some ''S1'', pu_lock_token = Some ''t''\<rparr>"

lemma agent_speaks_under_its_lease_witness:
  "\<exists>d'. publish_agent_intervention 0 sentence leased_room
       = (Inr \<lparr>sp_message_id = 1000, sp_run_id = 21, sp_duplicate = False\<rparr>, d')
     \<and> (\<exists>m k. messages d' = messages leased_room @ [m] \<and> m_content m = Some ''Who else agrees?''
         \<and> m_sequence m = Some k \<and> 5 < k)
     \<and> (\<exists>g'. fetch_group d' 7 = Some g' \<and> g_state g' = ''OPEN'')"
proof -
  let ?s = "\<lparr>sp_message_id = 1000, sp_run_id = 21, sp_duplicate = False\<rparr>"
  have "fst (publish_agent_intervention 0 sentence leased_room) = Inr ?s" by code_simp
  then obtain d' where run: "publish_agent_intervention 0 sentence leased_room = (Inr ?s, d')"
    by (metis prod.collapse)
  have ms: "messages leased_room = [blank_message\<lparr>m_sequence := Some 5\<rparr>]" "next_message_id leased_room = 1000"
    by (simp_all add: leased_room_def sample_def)
  have given: "\<not> sp_duplicate ?s" "truthy (pu_lock_token sentence)"
    "\<forall>m\<in>set (messages leased_room). m_id m < next_message_id leased_room"
    "\<forall>m\<in>set (messages leased_room). m_client_message_id m \<noteq> Some (client_message_id (pu_intervention_run_id sentence))"
    by (simp_all add: ms sentence_def blank_message_def)
  note said = agent_speaks_under_its_lease [OF run given]
  have "\<exists>m k. messages d' = messages leased_room @ [m] \<and> m_content m = Some ''Who else agrees?'' \<and> m_sequence m = Some k \<and> 5 < k"
    using said [THEN conjunct2, THEN conjunct2, THEN conjunct2, THEN conjunct1] by (auto simp: ms sentence_def blank_message_def)
  moreover have "\<exists>g'. fetch_group d' 7 = Some g' \<and> g_state g' = ''OPEN''"
    using said [THEN conjunct2, THEN conjunct2, THEN conjunct2, THEN conjunct2, THEN conjunct2] by (auto simp: sentence_def)
  ultimately show ?thesis using run by blast
qed

lemma one_message_for_a_run_witness:
  "voices_ok leased_room
   \<and> (let d = fold publish_call [(0, sentence), (5, sentence), (9, sentence\<lparr>pu_intervention_run_id := 22\<rparr>)] leased_room
      in length (filter (\<lambda>m. m_client_message_id m = Some (client_message_id 21)) (messages d)) \<le> 1
         \<and> length (messages d) = 2)"
proof -
  have ms: "messages leased_room = [blank_message\<lparr>m_sequence := Some 5\<rparr>]" by (simp add: leased_room_def)
  have "voices_ok leased_room" by (simp add: voices_ok_def voiced_def ms blank_message_def)
  moreover have "length (messages (fold publish_call
      [(0, sentence), (5, sentence), (9, sentence\<lparr>pu_intervention_run_id := 22\<rparr>)] leased_room)) = 2" by code_simp
  ultimately show ?thesis using one_message_for_a_run [of leased_room 21] unfolding Let_def by blast
qed

end
