(* ===== verification/Gate_Properties.thy ===== *)
theory Gate_Properties
  imports Publication_Properties Stage2_Properties Scheduler_Properties Lease_Properties
begin

text \<open>
  The way of a run from the second stage to its message: what the decision gate asks for, what
  the preflight makes of optional support, which strategy and sentence the third stage records,
  and what becomes of a run whose message was written but not recorded.
\<close>

subsection \<open>What passes the gate\<close>

lemma first_block_None: "first_block checks = Inr None \<longleftrightarrow> (\<forall>c\<in>set checks. c () = Inr None)"
  by (induction checks) (auto split: sum.splits option.splits)

lemma gate_allows: "gate_verdict r = Inr Allowed \<longleftrightarrow> r = Inr None"
  by (cases r) (auto simp: gate_verdict_def split: option.splits)

lemma evaluate_allowed:
  assumes "evaluate env now pid d = Inr Allowed"
  obtains p where "fetch_pipeline d pid = Some p" "structural_check p = None"
    "route_binding_check (px_routes env) p = Inr None" "agent_config_check env now p d = Inr None"
    "lock_check now p d = None" "staleness_check p d = None" "help_request_check p d = None"
    "higher_priority_new_run_check p d = None" "evidence_binding_check p d = None"
    "cooldown_check env now p d = None" "evidence_overlap_check p d = None"
  using assms
  by (auto simp: evaluate_def gate_allows first_block_None publish_checks_def simp del: first_block.simps split: option.splits)

lemma published_was_allowed:
  assumes "publish_ready_pipeline cfg env senv now locked pid d = (Inr out, d')" "po_published out" "\<not> po_duplicate out"
  shows "evaluate env now pid d = Inr Allowed"
proof (rule ccontr)
  have finish: "\<not> po_published (fst (finish_without_publish now pid e d))" for e
    by (simp add: finish_without_publish_def not_published_def split_beta split: option.splits)
  assume "evaluate env now pid d \<noteq> Inr Allowed"
  then show False
    using assms finish
    by (auto simp: publish_ready_pipeline_def published_before_def not_published_def split_beta
        split: sum.splits gate_result.splits)
qed

lemma structural_passes:
  assumes "structural_check p = None"
  shows "p_stage2_status p = Some ''SUCCEEDED'' \<and> p_stage3_status p = Some ''SUCCEEDED'' \<and> p_should_intervene p = Some 1
     \<and> \<not> freshly_self_regulated p \<and> \<not> suppressed_by_stage2 p \<and> \<not> oi_or_inhibited p
     \<and> truthy (p_selected_strategy_id p) \<and> truthy (p_validated_intervention_text p)
     \<and> p_final_status p \<in> {Some ''PENDING_DECISION_GATE'', Some ''READY_TO_PUBLISH'', Some ''VALIDATING''}"
  using assms by (cases "p_should_intervene p") (auto simp: structural_check_def split: if_splits)

lemma route_passes:
  assumes "route_binding_check env p = Inr None"
  obtains bi where "route_binding_details env p = Inr bi" "publishable_route (bi_route bi)"
    "bi_selected_id bi \<in> set (pl_candidates (bi_route bi))" "bi_selected_id bi \<in> set (bi_persisted bi)"
proof -
  from assms obtain bi where bi: "route_binding_details env p = Inr bi" "publishable_route (bi_route bi)"
      "bi_selected_id bi \<in> set (pl_candidates (bi_route bi))" "bi_selected_id bi \<in> set (bi_effective bi)"
    by (cases "route_binding_details env p") (auto simp: route_binding_check_def Let_def split: if_splits)
  moreover from bi(1) have "set (bi_effective bi) \<subseteq> set (bi_persisted bi)"
    by (auto simp: route_binding_details_def andthen_Inr_iff Let_def)
  ultimately show ?thesis using that by blast
qed

lemma agent_passes:
  assumes "agent_config_check env now p d = Inr None"
  shows "px_auto_intervention_enabled env
     \<and> (\<exists>g. fetch_group d (p_group_id p) = Some g \<and> g_auto_intervention_enabled g \<noteq> Some 0)
     \<and> check_strategy_agent_enabled (p_group_id p) d
     \<and> (\<exists>why. check_agent_allowed now (p_group_id p) \<lparr>gs_session_id = or0 (p_session_id p), gs_task_id = or0 (p_task_id p),
          gs_session_no = p_session_no p\<rparr> (Some ''strategy'') d = Inr (True, why))
     \<and> (or0 (p_task_id p) = 0 \<or> get_agent_intervention_enabled_for_task (or0 (p_task_id p)) d)"
  using assms by (auto simp: agent_config_check_def Let_def split: if_splits sum.splits bool.splits option.splits)

lemma lock_passes:
  assumes "lock_check now p d = None"
  shows "\<exists>g. fetch_group d (p_group_id p) = Some g \<and> g_state g = ''AI_INTERVENING'' \<and> truthy (g_lock_token g)
     \<and> g_lock_token g = p_room_lock_token p \<and> g_active_intervention_run_id g = Some (- p_id p)
     \<and> (\<forall>e. g_lock_expires_at g = Some e \<longrightarrow> now < stamp_dt e)"
  using assms by (auto simp: lock_check_def split: if_splits option.splits)

lemma fresh_passes:
  assumes "staleness_check p d = None" "m \<in> set (messages d)" "m_sequence m = Some q" "message_author d m = Some ''student''"
    "message_in_scope (p_group_id p) (p_session_id p) (p_discussion_id p) m"
  shows "q \<le> cutoff_of p"
proof -
  let ?ms = "filter (\<lambda>m. message_in_scope (p_group_id p) (p_session_id p) (p_discussion_id p) m
    \<and> message_author d m = Some ''student'' \<and> m_sequence m \<noteq> None) (messages d)"
  obtain top where top: "max_by (\<lambda>m. or0 (m_sequence m)) ?ms = Some top"
    using assms by (cases "max_by (\<lambda>m. or0 (m_sequence m)) ?ms") (auto simp: filter_empty_conv)
  from max_by_Some [OF this] assms(2-5) have "q \<le> or0 (m_sequence top)" by force
  with assms(1) top show ?thesis
    by (simp add: staleness_check_def latest_student_of_def latest_student_in_scope_def split: if_splits)
qed

lemma evidence_passes:
  assumes "evidence_binding_check p d = None"
  shows "evidence_of p \<noteq> []"
    and "\<forall>q\<in>set (evidence_of p). \<exists>m\<in>set (messages d). m_sequence m = Some q
       \<and> message_in_scope (p_group_id p) (p_session_id p) (p_discussion_id p) m \<and> message_author d m = Some ''student''"
    and "\<forall>a e. p_input_start_sequence p = Some a \<and> coalesce (p_input_end_sequence p) (p_input_cutoff_student_sequence p) = Some e
       \<longrightarrow> (\<forall>q\<in>set (evidence_of p). a \<le> q \<and> q \<le> e)"
    and "\<forall>s. active_segment_of p d = Some s \<and> sg_evidence_sequences s \<noteq> []
       \<longrightarrow> set (sg_evidence_sequences s) = set (evidence_of p)"
proof -
  show "evidence_of p \<noteq> []" using assms by (auto simp: evidence_binding_check_def)
  have "\<forall>q\<in>set (evidence_of p). Some q \<in> m_sequence ` set (bound_student_rows p d)"
    using assms unfolding evidence_binding_check_def Let_def by (simp only: split: if_splits) auto
  then show "\<forall>q\<in>set (evidence_of p). \<exists>m\<in>set (messages d). m_sequence m = Some q
       \<and> message_in_scope (p_group_id p) (p_session_id p) (p_discussion_id p) m \<and> message_author d m = Some ''student''"
    by (fastforce simp: bound_student_rows_def)
  have "\<not> (case (p_input_start_sequence p, coalesce (p_input_end_sequence p) (p_input_cutoff_student_sequence p)) of
      (Some a, Some e) \<Rightarrow> \<exists>q\<in>set (evidence_of p). q < a \<or> q > e | _ \<Rightarrow> False)"
    using assms unfolding evidence_binding_check_def Let_def by (simp only: split: if_splits) auto
  then show "\<forall>a e. p_input_start_sequence p = Some a \<and> coalesce (p_input_end_sequence p) (p_input_cutoff_student_sequence p) = Some e
       \<longrightarrow> (\<forall>q\<in>set (evidence_of p). a \<le> q \<and> q \<le> e)" by force
  have "\<not> (case active_segment_of p d of None \<Rightarrow> False
      | Some s \<Rightarrow> sg_evidence_sequences s \<noteq> [] \<and> set (sg_evidence_sequences s) \<noteq> set (evidence_of p))"
    using assms unfolding evidence_binding_check_def Let_def by (simp only: split: if_splits) auto
  then show "\<forall>s. active_segment_of p d = Some s \<and> sg_evidence_sequences s \<noteq> []
       \<longrightarrow> set (sg_evidence_sequences s) = set (evidence_of p)" by auto
qed

lemma cooldown_passes:
  assumes "cooldown_check env now p d = None"
  shows "published_count p d < px_max_interventions env"
    and "\<forall>q. latest_strategy_publish p d = Some q \<longrightarrow> \<not> within_cooldown env now (p_published_at q)
       \<and> (\<forall>m k. fetch_by m_id (or0 (p_published_message_id q)) (messages d) = Some m
            \<and> or0 (p_published_message_id q) \<noteq> 0 \<and> m_sequence m = Some k \<longrightarrow> k < cutoff_of p)"
  using assms by (auto simp: cooldown_check_def Let_def split: if_splits option.splits)

lemma priority_passes:
  assumes "higher_priority_new_run_check p d = None" "q \<in> set (newer_active_runs p d)"
  shows "priority_for_pipeline_row p \<le> priority_for_pipeline_row q"
  using assms sort_key_Nil_iff unfolding higher_priority_new_run_check_def
  by (fastforce simp: filter_empty_conv not_less split: list.splits)

lemma help_passes:
  assumes "help_request_check p d = None"
  shows "text_of (p_trigger_source p) \<in> {''student_help'', ''student_help_request'', ''help_request''}
     \<or> (\<forall>h\<in>set (help_requests d). hr_group_id h = p_group_id p \<and> or0 (hr_session_id h) = or0 (p_session_id p)
          \<and> or0 (hr_discussion_id h) = or0 (p_discussion_id p) \<longrightarrow> hr_status h \<notin> {Some ''QUEUED'', Some ''RUNNING''})"
  using assms unfolding help_request_check_def by (metis option.distinct(1))

text \<open>
  C4. A run is only published past every check of the gate.  Both later stages succeeded, nothing
  suppresses the run and it waits for the gate; the chosen strategy is in the pool of a route
  that may be spoken for, and among the candidates the second stage recorded; the switches of
  the program, the room, the strategy agent and the task are on, and the gate of the agents lets
  the strategy agent pass; the room is locked for this run, under its token, and the lease has
  not ended; no student has spoken since the cut-off; unless the run answers a help request
  itself, no help request of its discussion waits; none of the newer active runs looked at (the
  eight with the latest cut-offs) is more urgent; the evidence is what students said, inside the
  window, and agrees with the active segment; and the session has not had all its interventions,
  nor one on the same evidence lately, nor is the last one too recent or without a student
  message in the window after it.
\<close>

theorem published_run_passed_every_check:
  assumes "publish_ready_pipeline cfg env senv now locked pid d = (Inr out, d')" "po_published out" "\<not> po_duplicate out"
  shows "\<exists>p. fetch_pipeline d pid = Some p
     \<and> (p_stage2_status p = Some ''SUCCEEDED'' \<and> p_stage3_status p = Some ''SUCCEEDED'' \<and> p_should_intervene p = Some 1
        \<and> \<not> freshly_self_regulated p \<and> \<not> suppressed_by_stage2 p \<and> \<not> oi_or_inhibited p
        \<and> truthy (p_selected_strategy_id p) \<and> truthy (p_validated_intervention_text p)
        \<and> p_final_status p \<in> {Some ''PENDING_DECISION_GATE'', Some ''READY_TO_PUBLISH'', Some ''VALIDATING''})
     \<and> (\<exists>bi. route_binding_details (px_routes env) p = Inr bi \<and> publishable_route (bi_route bi)
        \<and> bi_selected_id bi \<in> set (pl_candidates (bi_route bi)) \<and> bi_selected_id bi \<in> set (bi_persisted bi))
     \<and> (px_auto_intervention_enabled env
        \<and> (\<exists>g. fetch_group d (p_group_id p) = Some g \<and> g_auto_intervention_enabled g \<noteq> Some 0)
        \<and> check_strategy_agent_enabled (p_group_id p) d
        \<and> (\<exists>why. check_agent_allowed now (p_group_id p) \<lparr>gs_session_id = or0 (p_session_id p), gs_task_id = or0 (p_task_id p),
             gs_session_no = p_session_no p\<rparr> (Some ''strategy'') d = Inr (True, why))
        \<and> (or0 (p_task_id p) = 0 \<or> get_agent_intervention_enabled_for_task (or0 (p_task_id p)) d))
     \<and> (\<exists>g. fetch_group d (p_group_id p) = Some g \<and> g_state g = ''AI_INTERVENING'' \<and> truthy (g_lock_token g)
        \<and> g_lock_token g = p_room_lock_token p \<and> g_active_intervention_run_id g = Some (- p_id p)
        \<and> (\<forall>e. g_lock_expires_at g = Some e \<longrightarrow> now < stamp_dt e))
     \<and> (\<forall>m\<in>set (messages d). \<forall>q. m_sequence m = Some q \<and> message_author d m = Some ''student''
        \<and> message_in_scope (p_group_id p) (p_session_id p) (p_discussion_id p) m \<longrightarrow> q \<le> cutoff_of p)
     \<and> (text_of (p_trigger_source p) \<in> {''student_help'', ''student_help_request'', ''help_request''}
        \<or> (\<forall>h\<in>set (help_requests d). hr_group_id h = p_group_id p \<and> or0 (hr_session_id h) = or0 (p_session_id p)
             \<and> or0 (hr_discussion_id h) = or0 (p_discussion_id p) \<longrightarrow> hr_status h \<notin> {Some ''QUEUED'', Some ''RUNNING''}))
     \<and> (\<forall>q\<in>set (newer_active_runs p d). priority_for_pipeline_row p \<le> priority_for_pipeline_row q)
     \<and> (evidence_of p \<noteq> [] \<and> (\<forall>q\<in>set (evidence_of p). \<exists>m\<in>set (messages d). m_sequence m = Some q
        \<and> message_in_scope (p_group_id p) (p_session_id p) (p_discussion_id p) m \<and> message_author d m = Some ''student'')
        \<and> (\<forall>a e. p_input_start_sequence p = Some a
             \<and> coalesce (p_input_end_sequence p) (p_input_cutoff_student_sequence p) = Some e
             \<longrightarrow> (\<forall>q\<in>set (evidence_of p). a \<le> q \<and> q \<le> e))
        \<and> (\<forall>s. active_segment_of p d = Some s \<and> sg_evidence_sequences s \<noteq> []
             \<longrightarrow> set (sg_evidence_sequences s) = set (evidence_of p)))
     \<and> (published_count p d < px_max_interventions env
        \<and> (\<forall>q. latest_strategy_publish p d = Some q \<longrightarrow> \<not> within_cooldown env now (p_published_at q)
             \<and> (\<forall>m k. fetch_by m_id (or0 (p_published_message_id q)) (messages d) = Some m
                  \<and> or0 (p_published_message_id q) \<noteq> 0 \<and> m_sequence m = Some k \<longrightarrow> k < cutoff_of p)))
     \<and> (\<forall>q\<in>set (recently_published p d). \<not> overlapping (set (evidence_of p)) (set (evidence_of q)))"
proof -
  from published_was_allowed [OF assms] obtain p where p: "fetch_pipeline d pid = Some p" "structural_check p = None"
    "route_binding_check (px_routes env) p = Inr None" "agent_config_check env now p d = Inr None"
    "lock_check now p d = None" "staleness_check p d = None" "help_request_check p d = None"
    "higher_priority_new_run_check p d = None" "evidence_binding_check p d = None"
    "cooldown_check env now p d = None" "evidence_overlap_check p d = None"
    by (rule evaluate_allowed)
  from p(3) have route: "\<exists>bi. route_binding_details (px_routes env) p = Inr bi \<and> publishable_route (bi_route bi)
      \<and> bi_selected_id bi \<in> set (pl_candidates (bi_route bi)) \<and> bi_selected_id bi \<in> set (bi_persisted bi)"
    by (rule route_passes) blast
  have fresh: "\<forall>m\<in>set (messages d). \<forall>q. m_sequence m = Some q \<and> message_author d m = Some ''student''
      \<and> message_in_scope (p_group_id p) (p_session_id p) (p_discussion_id p) m \<longrightarrow> q \<le> cutoff_of p"
    using fresh_passes [OF p(6)] by blast
  have overlap: "\<forall>q\<in>set (recently_published p d). \<not> overlapping (set (evidence_of p)) (set (evidence_of q))"
    using p(11) by (auto simp: evidence_overlap_check_def split: if_splits)
  have urgent: "\<forall>q\<in>set (newer_active_runs p d). priority_for_pipeline_row p \<le> priority_for_pipeline_row q"
    using priority_passes [OF p(8)] by blast
  show ?thesis
    by (intro exI [of _ p] conjI p(1) route fresh overlap urgent evidence_passes [OF p(9)] cooldown_passes [OF p(10)]
        structural_passes [OF p(2), THEN conjunct1] lock_passes [OF p(5)] help_passes [OF p(7)])
      (use structural_passes [OF p(2)] agent_passes [OF p(4)] in \<open>simp_all only: simp_thms\<close>)
qed

subsection \<open>Optional support\<close>

lemma route_mode:
  assumes "route_for_state_with_overlays library v tags = Inr r"
  shows "pl_should_intervene r \<longleftrightarrow> pl_mode r = ''REQUIRED_INTERVENTION''"
  using assms
  by (auto simp: route_for_state_with_overlays_def route_for_sub_state_def Let_def
      split: option.splits sum.splits if_splits)

lemma optional_route:
  assumes "route_binding_details env p = Inr bi" "terminal_decision (bi_route bi) = ''OPTIONAL_SUPPORT''"
  shows "\<not> pl_should_intervene (bi_route bi)"
  using assms route_mode
  by (auto simp: route_binding_details_def andthen_Inr_iff Let_def terminal_decision_def split: if_splits)

lemma release_publish_frame [simp]:
  "messages (snd (release_publish_lock ts row d)) = messages d"
  "pipelines (snd (release_publish_lock ts row d)) = pipelines d"
  "fetch_pipeline (snd (release_publish_lock ts row d)) i = fetch_pipeline d i"
  by (simp_all add: release_publish_lock_def Let_def fetch_pipeline_def)

lemma block_preflight_result:
  assumes "fetch_pipeline d pid = Some p" "already_published p = None"
  shows "\<exists>out d' q. block_preflight now pid b d = (out, d') \<and> \<not> po_published out \<and> messages d' = messages d
     \<and> fetch_pipeline d' pid = Some q \<and> p_stage3_status q = Some ''SKIPPED''
     \<and> p_final_status q \<in> {Some ''SUPPRESSED'', Some ''FAILED''}"
proof -
  obtain rel d1 where r: "release_publish_lock (fmt_ms now) p d = (rel, d1)" by force
  have d1: "messages d1 = messages d" "fetch_pipeline d1 pid = Some p"
    using release_publish_frame [of "fmt_ms now" p d] r assms(1) by simp_all
  have "p_id p = pid" by (rule runs.fetch_rid [OF assms(1)])
  moreover have "preflight_status b \<in> {''SUPPRESSED'', ''FAILED''}" by (auto simp: preflight_status_def Let_def)
  moreover have "p_id (preflighted_run ts rel x y z p) = p_id p" for ts x y z p by (simp add: preflighted_run_def)
  ultimately show ?thesis
    using d1 by (auto simp: block_preflight_def assms r Let_def not_published_def runs.fetch_change)
      (simp_all add: preflighted_run_def)
qed

text \<open>
  C7. The publish gate has a branch for optional support and the second stage sends such runs
  on, but the preflight wants a route that requires an intervention: a run whose route offers
  optional support is stopped before the third stage, without a message, even where the
  publish gate would take its route.
\<close>

theorem optional_support_is_never_spoken:
  assumes on: "px_llm_enabled env" and p: "fetch_pipeline d pid = Some p" "already_published p = None"
    and route: "route_binding_details (px_routes env) p = Inr bi" "terminal_decision (bi_route bi) = ''OPTIONAL_SUPPORT''"
  shows "\<exists>out d' q. run_third_stage cfg env senv render now fresh lost first_call repair_call locked pid d
       = (Inr (Stopped_Before out), d')
     \<and> \<not> po_published out \<and> messages d' = messages d \<and> fetch_pipeline d' pid = Some q
     \<and> p_stage3_status q = Some ''SKIPPED'' \<and> p_final_status q \<in> {Some ''SUPPRESSED'', Some ''FAILED''}"
proof -
  have "\<exists>b. preflight_route_binding_check (px_routes env) p = Inr (Some b)"
    using optional_route [OF route] route(1) by (simp add: preflight_route_binding_check_def Let_def)
  then have "\<exists>b. first_block (preflight_checks env now p d) = Inr (Some b)"
    by (auto simp: preflight_checks_def split: option.splits)
  then obtain b where "evaluate_preflight env now pid d = Inr (Blocked b)"
    using p by (auto simp: evaluate_preflight_def gate_verdict_def)
  with block_preflight_result [OF p, of now b] on show ?thesis
    by (auto simp: run_third_stage_def finish_preflight_def)
qed

subsection \<open>What the third stage records\<close>

lemma judged_accepted:
  assumes "judge_call render allowed call = Accepted selected text"
  shows "selected \<in> set allowed \<and> text \<noteq> []"
  using assms
  by (auto simp: judge_call_def parse_stage3_output_def Let_def split: gateway_call.splits if_splits sum.splits
      option.splits json.splits)

lemma generated_text:
  assumes "generate render allowed first_call repair_call = Inr t"
  shows "st_selected t \<in> set allowed \<and> st_validated t \<noteq> []"
  using assms judged_accepted
  by (auto simp: generate_def Let_def split: call_verdict.splits if_splits)

lemma fetch_exists: "fetch_pipeline d pid \<noteq> None \<longleftrightarrow> pid \<in> set (map p_id (pipelines d))"
  by (auto simp: fetch_pipeline_def fetch_by_None_iff)

lemma run_ids:
  "map p_id (pipelines (mark_stage3_running ts pid d)) = map p_id (pipelines d)"
  "map p_id (pipelines (snd (renew_strategy_pipeline cfg now pid token ls ms d))) = map p_id (pipelines d)"
  using sides_renew [of cfg now pid token ls ms d]
  by (simp_all add: mark_stage3_running_def map_key_update_where stage3_running_def sides_def del: sides_renew)

lemma heartbeat_ids:
  assumes "lease_heartbeat_failure cfg now pid token lost d = (why, d')"
  shows "map p_id (pipelines d') = map p_id (pipelines d)"
  using assms run_ids(2) [of cfg now pid "text_of token" None None d]
  by (auto simp: lease_heartbeat_failure_def split_beta split: if_splits option.splits)

text \<open>
  C5. The model only chooses among the candidates: when the third stage succeeds, the run was
  eligible, the recorded strategy is in the pool of its route, among the candidates of the
  second stage, an intervention of the library and no observation strategy; a sentence is
  recorded, and the run waits for the decision gate.  Of a lease that was lost while the model
  was asked nothing comes.
\<close>

theorem model_chooses_among_candidates:
  assumes "execute_for_pipeline cfg env render now lost first_call repair_call pid d = (Inr (Stage3_Succeeded i), d')"
  shows "\<exists>p route q. fetch_pipeline d pid = Some p \<and> eligible_for_stage3 p
     \<and> (truthy (p_room_lock_token p) \<longrightarrow> lost = None)
     \<and> stage3_route (px_routes env) p = Inr route \<and> i \<in> set (pl_candidates route)
     \<and> i \<in> set (dedupe_ids (sf_strategy_candidate_ids (p_facts p)))
     \<and> i \<in> sx_library (px_routes env) \<and> i \<notin> set OI_STRATEGY_IDS
     \<and> fetch_pipeline d' pid = Some q \<and> p_stage3_status q = Some ''SUCCEEDED''
     \<and> p_final_status q = Some ''PENDING_DECISION_GATE'' \<and> p_selected_strategy_id q = Some i
     \<and> truthy (p_validated_intervention_text q)"
proof -
  let ?d1 = "mark_stage3_running (fmt_ms now) pid d"
  from assms obtain p route where p: "fetch_pipeline d pid = Some p" "eligible_for_stage3 p"
      "stage3_route (px_routes env) p = Inr route"
    and rec: "record_stage3 cfg (px_routes env) now lost p route
        (generate render (allowed_strategy_ids (px_routes env) p route) first_call repair_call) ?d1 = (Inr (Stage3_Succeeded i), d')"
    by (auto simp: execute_for_pipeline_def fail_stage3_def Let_def split_beta map_prod_def
        split: option.splits if_splits sum.splits)
  obtain why d2 where beat: "lease_heartbeat_failure cfg now (p_id p) (p_room_lock_token p) lost ?d1 = (why, d2)" by force
  with rec obtain t where t: "generate render (allowed_strategy_ids (px_routes env) p route) first_call repair_call = Inr t"
    and hb: "lease_heartbeat_failure cfg now (p_id p) (p_room_lock_token p) lost ?d1 = (None, d2)"
    and persist: "persist_stage3 (px_routes env) now (p_id p) route t d2 = Inr d'" and i: "i = st_selected t"
    by (auto simp: record_stage3_def fail_stage3_def map_prod_def split_beta split: sum.splits option.splits)
  have pid: "p_id p = pid" by (rule runs.fetch_rid [OF p(1)])
  have "fetch_pipeline d2 pid \<noteq> None"
    using p(1) fetch_exists heartbeat_ids [OF hb] run_ids(1) by (metis option.distinct(1))
  then obtain r where r: "fetch_pipeline d2 pid = Some r" by blast
  from persist pid obtain P f where "pipelines d' = update_where (\<lambda>p. p_id p = pid) (generated_run (px_routes env) (fmt_ms now) route t) (pipelines d2)"
    by (auto simp: persist_stage3_def andthen_Inr_iff checked_update_Inr)
  then have q: "fetch_pipeline d' pid = Some (generated_run (px_routes env) (fmt_ms now) route t r)"
    using r runs.fetch_rid [OF r] by (simp add: fetch_pipeline_def fetch_by_update_where generated_run_def)
  have "truthy (p_room_lock_token p) \<longrightarrow> lost = None"
    using hb by (auto simp: lease_heartbeat_failure_def split: option.splits)
  with p q generated_text [OF t] show ?thesis
    by (intro exI [of _ p] exI [of _ route] exI [of _ "generated_run (px_routes env) (fmt_ms now) route t r"])
      (simp add: i generated_run_def allowed_strategy_ids_def)
qed

subsection \<open>A message nobody recorded\<close>

lemma open_room_blocks:
  assumes "fetch_pipeline d pid = Some p" "already_published p = None" "truthy (p_room_lock_token p)"
    and "structural_check p = None" "route_binding_check (px_routes env) p = Inr None" "agent_config_check env now p d = Inr None"
    and "fetch_group d (p_group_id p) = Some g" "g_state g = ''OPEN''"
  shows "evaluate env now pid d = Inr (Blocked (blocked ''room_not_locked'' ''FAILED''))"
  using assms by (simp add: evaluate_def publish_checks_def gate_verdict_def lock_check_def)

lemma failed_without_message:
  assumes "fetch_pipeline d pid = Some p"
  shows "\<exists>out d' q. finish_without_publish now pid (ending_of_block (blocked why ''FAILED'') None) d = (out, d')
     \<and> \<not> po_published out \<and> messages d' = messages d \<and> fetch_pipeline d' pid = Some q
     \<and> p_final_status q = Some ''FAILED'' \<and> p_publish_status q = Some ''FAILED''
     \<and> p_published_message_id q = p_published_message_id p"
proof -
  let ?e = "ending_of_block (blocked why ''FAILED'') None"
  obtain rel d1 where r: "release_publish_lock (fmt_ms now) p d = (rel, d1)" by force
  have d1: "messages d1 = messages d" "fetch_pipeline d1 pid = Some p"
    using release_publish_frame [of "fmt_ms now" p d] r assms by simp_all
  have final: "final_status_of ?e = ''FAILED''" by (simp add: final_status_of_def ending_of_block_def blocked_def or_text_def)
  have rest: "en_intervention_run ?e = None" "en_superseding ?e = None" by (simp_all add: ending_of_block_def blocked_def)
  have "p_id p = pid" by (rule runs.fetch_rid [OF assms])
  moreover have "p_id (ended_run ts rel x e p) = p_id p" for ts rel x e p by (simp add: ended_run_def)
  ultimately have "fetch_pipeline (change_pipelines (\<lambda>p. p_id p = pid) (ended_run (fmt_ms now) rel ''FAILED'' ?e) d1) pid
      = Some (ended_run (fmt_ms now) rel ''FAILED'' ?e p)"
    using d1(2) by (simp add: runs.fetch_change)
  with d1(1) r assms final rest show ?thesis
    by (simp add: finish_without_publish_def request_if_stale_def close_intervention_def link_superseding_def
        not_published_def ended_run_def publish_status_for_def)
qed

text \<open>
  C6. The message and the record of it are two transactions.  When the process stops after the
  first, the room is open, so the gate does not let the run pass again: nothing is said twice,
  but the run ends as failed, without a message id, while its message stays in the room.
\<close>

theorem unrecorded_message_fails_its_run:
  assumes said: "publish_agent_intervention now (publication_of p run) d = (Inr s, d1)" "\<not> sp_duplicate s"
    and p: "fetch_pipeline d (p_id p) = Some p" "already_published p = None" "truthy (p_room_lock_token p)"
    and gate: "structural_check p = None" "route_binding_check (px_routes env) p = Inr None" "agent_config_check env later p d1 = Inr None"
  shows "\<exists>out d2 q. publish_ready_pipeline cfg env senv later locked (p_id p) d1 = (Inr out, d2)
     \<and> \<not> po_published out \<and> messages d2 = messages d1 \<and> (\<exists>m\<in>set (messages d2). m_id m = sp_message_id s)
     \<and> fetch_pipeline d2 (p_id p) = Some q \<and> p_final_status q = Some ''FAILED''
     \<and> p_published_message_id q = p_published_message_id p"
proof -
  let ?u = "publication_of p run"
  have token: "truthy (pu_lock_token ?u)" "pu_group_id ?u = p_group_id p" using p(3) by (simp_all add: publication_of_def)
  from said obtain sera sc r where "truthy (pu_message ?u)" and guards: "opening_refusal_of (fmt_sec now) ?u d = None"
      and "resolve_discussion_scope (pu_group_id ?u) (publication_query ?u) d = Inr sc" "message_scope_refusal ?u sc d = None"
      "fetch_intervention d (pu_intervention_run_id ?u) = Some r"
      and new: "new_publication (fmt_sec now) ?u (filled_scope sc r) r sera d = Inr (sp_message_id s, d1)"
    by (rule publish_newE)
  obtain g where "fetch_group d (pu_group_id ?u) = Some g" "g_lock_token g = pu_lock_token ?u"
    by (rule opening_allowed [OF guards token(1)])
  from new_publication_room [OF new this token(1)] obtain g' where g: "fetch_group d1 (p_group_id p) = Some g'" "g_state g' = ''OPEN''"
    unfolding token(2) by blast
  have "pipelines d1 = pipelines d" using new by (rule new_publication_steps)
  then have "fetch_pipeline d1 (p_id p) = Some p" using p(1) unfolding fetch_pipeline_def by simp
  note run = this open_room_blocks [OF this p(2,3) gate g]
  have "sp_message_id s \<in> m_id ` set (messages d1)"
    using new
  proof (cases rule: new_publication_cases)
    case (again m lid)
    then show ?thesis by (metis linked_ids image_eqI)
  next
    case (fresh lid)
    then show ?thesis by (simp add: agent_message_def)
  qed
  then have "\<exists>m\<in>set (messages d1). m_id m = sp_message_id s" by force
  with failed_without_message [OF run(1), of later "''room_not_locked''"] show ?thesis
    by (auto simp: publish_ready_pipeline_def run(2) blocked_def [of "''room_not_locked''"])
qed

subsection \<open>Runs at the gate\<close>

text \<open>
  A run of the leased room whose sentence is written, one before its third stage, and one with a
  route of optional support.
\<close>

definition gate_env :: publish_env where
  "gate_env = \<lparr>px_routes = table_env, px_llm_enabled = True, px_auto_intervention_enabled = True,
     px_cooldown_seconds = 300, px_max_interventions = 8, px_db_lock_max_retries = 3\<rparr>"

definition confused_run :: pipeline_row where
  "confused_run = blank_pipeline\<lparr>p_stage2_status := Some ''SUCCEEDED'', p_stage3_status := Some ''PENDING'',
     p_should_intervene := Some 1, p_final_status := Some ''PENDING_STAGE3'',
     p_canonical_sub_state_code := Some ''confusion'', p_room_lock_token := Some ''t'',
     p_room_lock_acquired_at := Some (Stamp 0 None),
     p_facts := no_facts\<lparr>sf_strategy_candidate_ids := [''EA-001'', ''ER-005''], sf_evidence_message_ids := [5]\<rparr>\<rparr>"

definition written_run :: pipeline_row where
  "written_run = confused_run\<lparr>p_stage3_status := Some ''SUCCEEDED'', p_final_status := Some ''PENDING_DECISION_GATE'',
     p_selected_strategy_id := Some ''EA-001'', p_validated_intervention_text := Some ''Who else agrees?''\<rparr>"

definition optional_run :: pipeline_row where
  "optional_run = confused_run\<lparr>p_canonical_sub_state_code := Some ''standard'',
     p_facts := no_facts\<lparr>sf_strategy_candidate_ids := [''SS-001''], sf_evidence_message_ids := [5]\<rparr>\<rparr>"

definition gated_room :: "pipeline_row \<Rightarrow> platform" where
  "gated_room p = leased_room\<lparr>pipelines := [p]\<rparr>"

definition chosen_answer :: gateway_call where
  "chosen_answer = Call_Answered \<lparr>ga_success = True, ga_failure_type = None, ga_status_code = None, ga_finish_reason = None,
     ga_output = JObj [(''selected_strategy_id'', JStr ''ER-005''), (''intervention_text'', JStr '' Who else agrees? '')],
     ga_embedded = None\<rparr>"

lemma published_run_passed_every_check_witness:
  "\<exists>out d' p. publish_ready_pipeline demo_cfg gate_env demo_env 0 [] 11 (gated_room written_run) = (Inr out, d')
     \<and> po_message_id out = Some 1000 \<and> fetch_pipeline (gated_room written_run) 11 = Some p
     \<and> published_count p (gated_room written_run) < 8
     \<and> (\<exists>g. fetch_group (gated_room written_run) (p_group_id p) = Some g \<and> g_lock_token g = p_room_lock_token p)"
proof -
  let ?out = "\<lparr>po_published = True, po_duplicate = False, po_reason = ''published'', po_final_status = Some ''PUBLISHED'',
    po_message_id = Some 1000, po_lock_released = True\<rparr>"
  have "fst (publish_ready_pipeline demo_cfg gate_env demo_env 0 [] 11 (gated_room written_run)) = Inr ?out" by code_simp
  then obtain d' where run: "publish_ready_pipeline demo_cfg gate_env demo_env 0 [] 11 (gated_room written_run) = (Inr ?out, d')"
    by (metis prod.collapse)
  have "px_max_interventions gate_env = 8" by (simp add: gate_env_def)
  with published_run_passed_every_check [OF run] run show ?thesis by auto
qed

lemma optional_support_is_never_spoken_witness:
  "\<exists>out d' q. run_third_stage demo_cfg gate_env demo_env (\<lambda>_. []) 0 ''t2'' None chosen_answer chosen_answer [] 11
       (gated_room optional_run) = (Inr (Stopped_Before out), d')
     \<and> messages d' = messages (gated_room optional_run) \<and> fetch_pipeline d' 11 = Some q \<and> p_stage3_status q = Some ''SKIPPED''
     \<and> route_binding_check (px_routes gate_env) (optional_run\<lparr>p_selected_strategy_id := Some ''SS-001''\<rparr>) = Inr None"
proof -
  have "case route_binding_details (px_routes gate_env) optional_run of Inl e \<Rightarrow> False
    | Inr bi \<Rightarrow> terminal_decision (bi_route bi) = ''OPTIONAL_SUPPORT''" by code_simp
  then obtain bi where bi: "route_binding_details (px_routes gate_env) optional_run = Inr bi"
      "terminal_decision (bi_route bi) = ''OPTIONAL_SUPPORT''" by (auto split: sum.splits)
  have p: "fetch_pipeline (gated_room optional_run) 11 = Some optional_run" "already_published optional_run = None" by code_simp+
  have "px_llm_enabled gate_env" by (simp add: gate_env_def)
  from optional_support_is_never_spoken [OF this p bi, of demo_cfg demo_env "\<lambda>_. []" 0 "''t2''" None chosen_answer chosen_answer "[]"]
  have "\<exists>out d' q. run_third_stage demo_cfg gate_env demo_env (\<lambda>_. []) 0 ''t2'' None chosen_answer chosen_answer [] 11
       (gated_room optional_run) = (Inr (Stopped_Before out), d')
     \<and> messages d' = messages (gated_room optional_run) \<and> fetch_pipeline d' 11 = Some q \<and> p_stage3_status q = Some ''SKIPPED''"
    by blast
  moreover have "route_binding_check (px_routes gate_env) (optional_run\<lparr>p_selected_strategy_id := Some ''SS-001''\<rparr>) = Inr None"
    by code_simp
  ultimately show ?thesis by blast
qed

lemma model_chooses_among_candidates_witness:
  "\<exists>d' q. execute_for_pipeline demo_cfg gate_env (\<lambda>_. []) 0 None chosen_answer chosen_answer 11 (gated_room confused_run)
       = (Inr (Stage3_Succeeded ''ER-005''), d')
     \<and> fetch_pipeline d' 11 = Some q \<and> p_selected_strategy_id q = Some ''ER-005''"
proof -
  have "fst (execute_for_pipeline demo_cfg gate_env (\<lambda>_. []) 0 None chosen_answer chosen_answer 11 (gated_room confused_run))
      = Inr (Stage3_Succeeded ''ER-005'')" by code_simp
  then obtain d' where run: "execute_for_pipeline demo_cfg gate_env (\<lambda>_. []) 0 None chosen_answer chosen_answer 11
      (gated_room confused_run) = (Inr (Stage3_Succeeded ''ER-005''), d')" by (metis prod.collapse)
  from model_chooses_among_candidates [OF run] run show ?thesis by blast
qed

lemma unrecorded_message_fails_its_run_witness:
  "\<exists>out d2 q. publish_ready_pipeline demo_cfg gate_env demo_env 5000000 [] 11
       (snd (publish_agent_intervention 0 (publication_of written_run 21) (gated_room written_run))) = (Inr out, d2)
     \<and> \<not> po_published out \<and> (\<exists>m\<in>set (messages d2). m_id m = 1000)
     \<and> fetch_pipeline d2 11 = Some q \<and> p_final_status q = Some ''FAILED''"
proof -
  let ?s = "\<lparr>sp_message_id = 1000, sp_run_id = 21, sp_duplicate = False\<rparr>"
  have "fst (publish_agent_intervention 0 (publication_of written_run 21) (gated_room written_run)) = Inr ?s" by code_simp
  then obtain d1 where said: "publish_agent_intervention 0 (publication_of written_run 21) (gated_room written_run) = (Inr ?s, d1)"
    by (metis prod.collapse)
  have p: "p_id written_run = 11" "fetch_pipeline (gated_room written_run) 11 = Some written_run" "already_published written_run = None"
    "truthy (p_room_lock_token written_run)" "structural_check written_run = None"
    "route_binding_check (px_routes gate_env) written_run = Inr None" by code_simp+
  have "agent_config_check gate_env 5000000 written_run
      (snd (publish_agent_intervention 0 (publication_of written_run 21) (gated_room written_run))) = Inr None" by code_simp
  then have "agent_config_check gate_env 5000000 written_run d1 = Inr None" by (simp add: said)
  from unrecorded_message_fails_its_run [OF said _ _ p(3-6) this, of demo_cfg demo_env "[]"] p(1,2) show ?thesis
    by (simp add: said) blast
qed

end
