(* ===== verification/Spec2Isabelle.thy ===== *)
theory Spec2Isabelle
  imports Lease_Guarantees Coordination_Properties Schema_Properties Execution_Properties
    Session_Properties Discussion_Runs Gate_Properties
begin

text \<open>
  Verification of the coordination core of a classroom discussion platform (Flask over
  SQLite, \<open>src/\<close>): which automatic agent may speak in a room and when, and how the state of a
  discussion is assessed window by window.

  \<^bold>\<open>The program.\<close>  Students talk in the rooms of a session.  Every few messages the scheduler
  (\<open>services/state_assessment_scheduler.py\<close>) opens a window over the next student messages
  in the assessment tables (\<open>services/state_assessment_batch_service.py\<close>) and hands it to a
  worker.  The worker claims the window, prepares and starts the second stage of a strategy
  run for it (\<open>services/three_stage_stage2.py\<close>), takes the room when the first stage asked to
  escalate (\<open>services/intervention_pipeline_v2/room_lease_service.py\<close>), calls the detector,
  saves the answer as segments and records the decision: the run goes on to an intervention
  or is suppressed, stale or failed.  Runs that overtake, replace or duplicate each other are
  settled by \<open>services/three_stage_coordination.py\<close>.  A published intervention is observed until
  its effect is known; the discussion of a group starts when all its students have come, ends at
  its deadline or with the session, and its documents are submitted then.

  \<^bold>\<open>Reading the code.\<close>  A table is a list of records in \<open>Platform_State\<close> (column names with
  the initials of the table; a nullable column is an option), the database is the record
  \<open>platform\<close>.  A function of the program is a definition of the same name: it takes the
  platform and returns a result and the new platform.  \<open>Inl\<close> is an exception (with its code),
  after which a transaction has changed nothing; a function that makes several transactions
  returns the platform the committed ones left.  \<open>UPDATE ... WHERE\<close> is \<open>update_where\<close>, a row
  count \<open>rowcount\<close>, a unique index that matters a test before the write (of the segments on
  window and order, \<open>order_taken\<close>; of the interventions on room and cut-off, \<open>indexed_intervention\<close>), \<open>ORDER BY ... LIMIT 1\<close> the head of a sorted list.  Integers are SQLite's
  and Python's, so they do not wrap; where the code checks the 64-bit range the model does.
  A \<open>datetime\<close> counts microseconds, a time stamp column is kept as seconds with optional
  milliseconds, in the order of its text.  Decoded JSON is the datatype \<open>json\<close> of
  \<open>Python_Values\<close>, with Python's truth value, \<open>str\<close>, \<open>int\<close> and \<open>float\<close> of it.

  \<^bold>\<open>Theories.\<close>
  \<^item> \<open>Prelude\<close>, \<open>Python_Values\<close>, \<open>Platform_State\<close>, \<open>Samples\<close>: idioms of Python and SQL, the tables,
    a small platform for witnesses.  \<open>Prelude\<close> also has the interfaces: \<open>row_store\<close> (what the
    services rely on from a table), \<open>op_system\<close>, \<open>monotone_system\<close> and \<open>service_pair\<close> (requests
    that keep an invariant and never lower an observed quantity, alone and interleaved); each
    is interpreted on the tables and services of the model.
  \<^item> \<open>Room_Lease\<close>: \<open>RoomLeaseService\<close> with the heartbeat.  \<open>Lease_Automaton\<close> is its abstract
    specification (a room is free or leased; the version of a room counts its steps, \<open>lease_path\<close>),
    \<open>Lease_Safety\<close> the refinement and the invariant \<open>lease_inv\<close>, which has the ids of runs positive,
    as SQLite hands them out; \<open>Lease_Properties\<close> and \<open>Lease_Guarantees\<close> hold the properties.
  \<^item> \<open>Coordination\<close>, \<open>Coordination_Lemmas\<close>, \<open>Coordination_Properties\<close>: the coordination service,
    which runs each operation ends, and how.
  \<^item> \<open>State_Schema\<close>, \<open>Schema_Properties\<close>: the ontology of states, the public state of a message
    and the routing of a state to an intervention (\<open>three_stage_schema.py\<close>,
    \<open>three_stage_route_manifest.py\<close>, \<open>state_strategy_router.py\<close>).
  \<^item> \<open>Segment_Normalization\<close>, \<open>Assessment_Batch\<close>, \<open>Window_Results\<close>: the window service, from the
    validation of an answer to fallbacks and replays; \<open>Window_Machine\<close> its state machine and
    the invariant \<open>batch_inv\<close>, \<open>Window_Services\<close> the refinement, \<open>Segment_Properties\<close> and
    \<open>Window_Properties\<close> the properties.
  \<^item> \<open>Agent_Mode\<close>, \<open>Assessment_Scheduler\<close>: the modes of a session and the scheduler;
    \<open>Scheduler_Services\<close>, \<open>Scheduler_Properties\<close>, \<open>Retry_Properties\<close> what its calls do.
  \<^item> \<open>Batch_Siblings\<close>, \<open>Stage2_Pipeline\<close>: the second stage; \<open>Stage2_Services\<close>, \<open>Stage2_Lemmas\<close>,
    \<open>Stage2_Properties\<close> what its transactions leave behind.
  \<^item> \<open>Execution\<close>: \<open>execute_state_assessment_batch\<close> in the sections the detector separates, and
    the projection of the detector's answer into segments.
  \<^item> \<open>Room_Services\<close>, \<open>Service_Frames\<close>, \<open>Platform_Services\<close>: the services side by side.  What
    touches rooms leaves windows alone (\<open>apart\<close>) and conversely (\<open>quiet\<close>), so every request of
    the program keeps both invariants (\<open>sound\<close>).  \<open>Execution_Properties\<close> and this theory hold
    the properties that span components.
  \<^item> \<open>Observation\<close>: what follows a published intervention (\<open>services/three_stage_observation.py\<close>).
    \<open>Observation_Properties\<close> shows how a round settles the observed run.
  \<^item> \<open>Group_Runtime\<close>, \<open>Auto_Submit\<close>, \<open>Session_Lifecycle\<close>: the waiting gate and the clock of a group
    discussion (\<open>services/group_discussion_runtime_service.py\<close>), the submission of its documents
    at the deadline or for the teacher (\<open>services/auto_submit_service.py\<close>), the gate of the agents
    and the end of a session (\<open>services/session_lifecycle.py\<close>).  \<open>Runtime_Machine\<close> is the state
    machine of a discussion with its invariant, \<open>Discussion_Runs\<close> its requests in any order,
    \<open>Submission_Properties\<close>, \<open>Session_Services\<close> and \<open>Session_Properties\<close> what submissions and
    the end of a session leave behind.
  \<^item> \<open>Third_Stage\<close>: the third stage (\<open>services/three_stage_stage3.py\<close>), from a run that is sent on to
    the sentence the model wrote for it.  \<open>Decision_Gate\<close>: the checks before the third stage and
    before the message (\<open>InterventionDecisionGate\<close> of \<open>services/three_stage_publish.py\<close>).
    \<open>Agent_Publication\<close>: the scope of a message (\<open>services/discussion_scope.py\<close>) and the transaction
    that writes it (\<open>services/agent_intervention_publisher.py\<close>, as the strategy pipeline calls it).
    \<open>Publication\<close>: the publisher, and the section of \<open>execute_state_assessment_batch\<close> from a
    decision to go on to the message.  \<open>Sound_Steps\<close> and \<open>Publication_Services\<close> show that these steps
    are \<open>sound\<close> as well; \<open>Publication_Properties\<close> what is said, when, and how often.
    \<open>Gate_Properties\<close> shows what a published run has passed, which strategy and sentence the third
    stage records, that a run of optional support is stopped, and what becomes of a message that
    was not recorded.

  \<^bold>\<open>Parameters and bounds.\<close>  Settings (\<open>lease_config\<close>, \<open>scheduler_env\<close>, \<open>stage2_env\<close>), the clock, the
  random tokens, the digest of window keys, the task queue and the rendering of values that
  are not text are arguments of the definitions.  One clock reading stands for all readings of
  a transaction, and in \<open>Execution\<close> and \<open>Publication\<close> of a section.  The answers of the model
  gateway (with the JSON object found in a text), the reason a heartbeat stopped for and the times
  at which a locked database was met are arguments too, as is the collaboration server of a
  submission.  Lock tokens are assumed fresh (\<open>lease_ok\<close>):
  the code draws 128 random bits.  There is no fuel: every loop of the modelled code runs over
  a list that is fixed when it starts; the heartbeat loop is modelled over the list of its
  ticks, and its properties hold for every such list.

  \<^bold>\<open>Not modelled.\<close>  The calls of the language model and the prompts and texts around them
  (detectors, first stage, intervention and emotion services, the prompt of the third stage and
  the validators of its text, which nothing calls), the branches of \<open>publish_agent_intervention\<close> for
  help requests, target segments and teachers, the fallback of a scope to the settings, the
  triggers of \<open>intervention_runs\<close> (they ask for what the gate has checked), the handler
  \<open>publish_worker_exception\<close> of the publisher (what \<open>publish_agent_intervention\<close> raises it reports
  as a refusal itself), the exports and
  reports, the web layer, the collaborative editor, logging and telemetry beyond
  the latency events, and the migrations: they either only transform text, or only read what
  the modelled services write.  Concurrency is interleaving of transactions
  (\<open>BEGIN IMMEDIATE\<close>): within one the model is sequential, and a lost connection is not a
  behaviour of it.
\<close>

section \<open>The program as one system\<close>




end
